(* ===== verification/Agent_Prelude.thy ===== *)
theory Agent_Prelude
  imports Main "HOL-Library.Word" "HOL-Library.Sublist" "HOL-Library.AList"
begin

text \<open>
  Shared vocabulary of the development: Go's fixed-width integers as words, byte slices and Go
  strings as lists of 8-bit characters, the error-or-value results every fallible function returns,
  big-endian integers (the part of \<open>encoding/binary\<close> the code uses), length-prefixed fields, and the
  two contract locales used throughout: codecs and transition systems with an invariant.
\<close>

section \<open>Types\<close>

text \<open>
  A Go \<open>string\<close> and a Go \<open>[]byte\<close> are both sequences of bytes; \<^typ>\<open>char\<close> is the type of bytes,
  so both are \<^typ>\<open>string\<close> and the conversions between them are the identity.
\<close>

type_synonym bytes = string
type_synonym u16 = "16 word"
type_synonym u32 = "32 word"
type_synonym u64 = "64 word"

named_theorems go_simps \<open>unfolding of the small helpers that appear inside larger operations\<close>

section \<open>Results\<close>

text \<open>
  A Go function returning \<open>(value, error)\<close> returns \<^term>\<open>Inl e\<close> for a non-nil error and
  \<^term>\<open>Inr v\<close> otherwise. \<open>andThen\<close> is the sequence \<open>v, err := m; if err != nil { return err }\<close>.
\<close>

fun andThen :: "'e + 'a \<Rightarrow> ('a \<Rightarrow> 'e + 'b) \<Rightarrow> 'e + 'b" where
  "andThen (Inl e) f = Inl e"
| "andThen (Inr x) f = f x"

lemma andThen_Inr [simp]: "andThen m f = Inr y \<longleftrightarrow> (\<exists>x. m = Inr x \<and> f x = Inr y)"
  by (cases m) auto

lemma andThen_Inl: "andThen m f = Inl e \<longleftrightarrow> m = Inl e \<or> (\<exists>x. m = Inr x \<and> f x = Inl e)"
  by (cases m) auto

lemma andThen_cong [fundef_cong]:
  "m = m' \<Longrightarrow> (\<And>x. m' = Inr x \<Longrightarrow> f x = g x) \<Longrightarrow> andThen m f = andThen m' g"
  by (cases m') auto

lemma if_Inl_Inr [simp]:
  "(if c then Inl e else r) = Inr y \<longleftrightarrow> \<not> c \<and> r = Inr y"
  "(if c then r else Inl e) = Inr y \<longleftrightarrow> c \<and> r = Inr y"
  by auto

lemma case_Inl_Inr [simp]:
  "(case m of Inl e \<Rightarrow> Inl (f e) | Inr x \<Rightarrow> g x) = Inr y \<longleftrightarrow> (\<exists>x. m = Inr x \<and> g x = Inr y)"
  by (cases m) auto

text \<open>A loop over a slice that threads a state and stops at the first error.\<close>

fun foldE :: "('s \<Rightarrow> 'a \<Rightarrow> 'e + 's) \<Rightarrow> 's \<Rightarrow> 'a list \<Rightarrow> 'e + 's" where
  "foldE f s [] = Inr s"
| "foldE f s (x # xs) = andThen (f s x) (\<lambda>s'. foldE f s' xs)"

lemma foldE_append: "foldE f s (xs @ ys) = andThen (foldE f s xs) (\<lambda>s'. foldE f s' ys)"
  by (induction f s xs rule: foldE.induct) (auto, (metis andThen.simps sum.exhaust)+)

text \<open>The invariant rule of such a loop.\<close>

lemma foldE_invariant:
  assumes "foldE f s xs = Inr s'" and "I s"
    and "\<And>s x s'. x \<in> set xs \<Longrightarrow> f s x = Inr s' \<Longrightarrow> I s \<Longrightarrow> I s'"
  shows "I s'"
  using assms by (induction xs arbitrary: s) fastforce+

section \<open>Actions\<close>

text \<open>
  A procedure that changes a state and may fail: it returns an error or a value together with the state
  it leaves, which keeps what was done before the failure.
\<close>

type_synonym ('w, 'e, 'a) action = "'w \<Rightarrow> ('e + 'a) \<times> 'w"

definition retA :: "'a \<Rightarrow> ('w, 'e, 'a) action" where "retA a w = (Inr a, w)"
definition failA :: "'e \<Rightarrow> ('w, 'e, 'a) action" where "failA e w = (Inl e, w)"

definition bindA :: "('w, 'e, 'a) action \<Rightarrow> ('a \<Rightarrow> ('w, 'e, 'b) action) \<Rightarrow> ('w, 'e, 'b) action" where
  "bindA m f w = (case m w of (Inl e, w') \<Rightarrow> (Inl e, w') | (Inr a, w') \<Rightarrow> f a w')"

lemma action_Inr [simp]:
  "retA a w = (Inr b, w') \<longleftrightarrow> b = a \<and> w' = w"
  "failA e w = (Inr b, w') \<longleftrightarrow> False"
  "bindA m f w = (Inr c, w') \<longleftrightarrow> (\<exists>a w1. m w = (Inr a, w1) \<and> f a w1 = (Inr c, w'))"
  by (auto simp: retA_def failA_def bindA_def split: sum.splits prod.splits)

lemma bindA_same: "m w = m' w \<Longrightarrow> bindA m k w = bindA m' k w"
  by (simp add: bindA_def)

lemma bindA_cong:
  assumes "\<And>a w1. m w = (Inr a, w1) \<Longrightarrow> k a w1 = k' a w1"
  shows "bindA m k w = bindA m k' w"
  using assms by (auto simp: bindA_def split: sum.split prod.split)

section \<open>Go maps\<close>

text \<open>
  A Go map is an association list with distinct keys: \<^const>\<open>map_of\<close> reads it, \<^const>\<open>AList.update\<close>
  assigns, \<^const>\<open>AList.delete\<close> deletes, and a loop that deletes the entries failing a test is a
  filter, whatever order the loop visits them in.
\<close>

lemma distinct_keys_filter: "distinct (map fst al) \<Longrightarrow> distinct (map fst (filter P al))"
  by (induction al) auto

lemma map_of_filter_val:
  "distinct (map fst al) \<Longrightarrow>
   map_of (filter (\<lambda>(k, v). P k v) al) k =
     (case map_of al k of None \<Rightarrow> None | Some v \<Rightarrow> if P k v then Some v else None)"
proof (induction al)
  case (Cons a al)
  obtain k' v where a: "a = (k', v)" by (cases a)
  have "map_of al k' = None" using Cons.prems a by (auto simp: map_of_eq_None_iff)
  with Cons a show ?case by auto
qed simp

lemma map_of_update [simp]: "map_of (AList.update k v al) = (map_of al)(k \<mapsto> v)"
  by (simp add: update_conv')

lemma map_of_delete [simp]: "map_of (AList.delete k al) = (map_of al)(k := None)"
  by (simp add: delete_conv')

lemma length_update_present: "map_of al k \<noteq> None \<Longrightarrow> length (AList.update k v al) = length al"
  by (induction al) auto

lemma length_update_absent: "map_of al k = None \<Longrightarrow> length (AList.update k v al) = Suc (length al)"
  by (induction al) auto

section \<open>Big-endian integers\<close>

text \<open>\<open>be_bytes n v\<close> is the \<open>n\<close>-byte big-endian encoding of \<open>v\<close>, \<open>be_nat\<close> its reading.\<close>

fun be_bytes :: "nat \<Rightarrow> nat \<Rightarrow> bytes" where
  "be_bytes 0 v = []"
| "be_bytes (Suc n) v = be_bytes n (v div 256) @ [char_of v]"

definition be_nat :: "bytes \<Rightarrow> nat" where
  "be_nat bs = foldl (\<lambda>a c. a * 256 + of_char c) 0 bs"

lemma be_nat_Nil [simp]: "be_nat [] = 0"
  by (simp add: be_nat_def)

lemma be_nat_snoc [simp]: "be_nat (bs @ [c]) = be_nat bs * 256 + of_char c"
  by (simp add: be_nat_def)

lemma length_be_bytes [simp]: "length (be_bytes n v) = n"
  by (induction n arbitrary: v) auto

lemma be_nat_be_bytes: "be_nat (be_bytes n v) = v mod 256 ^ n"
proof (induction n arbitrary: v)
  case (Suc n)
  have "v mod 256 ^ Suc n = (v div 256) mod 256 ^ n * 256 + v mod 256"
    by (simp add: mod_mult2_eq algebra_simps)
  with Suc show ?case by simp
qed simp

lemma be_bytes_be_nat: "be_bytes (length bs) (be_nat bs) = bs"
proof (induction bs rule: rev_induct)
  case (snoc c bs)
  have small: "(of_char c :: nat) < 256" by simp
  then have "(be_nat bs * 256 + of_char c) div 256 = be_nat bs" by simp
  moreover have "(be_nat bs * 256 + of_char c) mod 256 = (of_char c :: nat)"
    using small by simp
  then have "char_of (be_nat bs * 256 + of_char c) = (char_of (of_char c :: nat) :: char)"
    by (metis char_of_mod_256)
  then have "char_of (be_nat bs * 256 + of_char c) = c" by simp
  ultimately show ?case using snoc by simp
qed simp

lemma be_nat_bound: "be_nat bs < 256 ^ length bs"
proof (induction bs rule: rev_induct)
  case (snoc c bs)
  have "be_nat bs * 256 + of_char c < (be_nat bs + 1) * 256" by simp
  also have "\<dots> \<le> 256 ^ length bs * 256" using snoc by simp
  finally show ?case by simp
qed simp

text \<open>\<open>binary.BigEndian.PutUint16/PutUint32/PutUint64\<close> and \<open>Uint16/Uint32/Uint64\<close> on slices of the exact width.\<close>

definition PutUint16 :: "u16 \<Rightarrow> bytes" where
  "PutUint16 v = be_bytes 2 (unat v)"

definition Uint16 :: "bytes \<Rightarrow> u16" where
  "Uint16 b = of_nat (be_nat b)"

definition PutUint32 :: "u32 \<Rightarrow> bytes" where
  "PutUint32 v = be_bytes 4 (unat v)"

definition PutUint64 :: "u64 \<Rightarrow> bytes" where
  "PutUint64 v = be_bytes 8 (unat v)"

definition Uint32 :: "bytes \<Rightarrow> u32" where
  "Uint32 b = of_nat (be_nat b)"

definition Uint64 :: "bytes \<Rightarrow> u64" where
  "Uint64 b = of_nat (be_nat b)"

lemma length_PutUint [simp]: "length (PutUint32 v) = 4" "length (PutUint64 w) = 8" "length (PutUint16 u) = 2"
  by (simp_all add: PutUint16_def PutUint32_def PutUint64_def)

lemma Uint16_PutUint16 [simp]: "Uint16 (PutUint16 v) = v"
proof -
  have "unat v < 256 ^ 2" using unsigned_less [of v, where ?'a = nat] by simp
  then show ?thesis by (simp add: Uint16_def PutUint16_def be_nat_be_bytes)
qed

lemma unat_Uint16: "length b = 2 \<Longrightarrow> unat (Uint16 b) = be_nat b"
  using be_nat_bound [of b] by (simp add: Uint16_def unat_of_nat)

lemma PutUint16_Uint16 [simp]: "length b = 2 \<Longrightarrow> PutUint16 (Uint16 b) = b"
  using be_bytes_be_nat [of b] by (simp add: PutUint16_def unat_Uint16)

lemma Uint32_PutUint32 [simp]: "Uint32 (PutUint32 v) = v"
proof -
  have "unat v < 256 ^ 4" using unsigned_less [of v, where ?'a = nat] by simp
  then show ?thesis by (simp add: Uint32_def PutUint32_def be_nat_be_bytes)
qed

lemma Uint64_PutUint64 [simp]: "Uint64 (PutUint64 v) = v"
proof -
  have "unat v < 256 ^ 8" using unsigned_less [of v, where ?'a = nat] by simp
  then show ?thesis by (simp add: Uint64_def PutUint64_def be_nat_be_bytes)
qed

lemma unat_Uint32: "length b = 4 \<Longrightarrow> unat (Uint32 b) = be_nat b"
  using be_nat_bound [of b] by (simp add: Uint32_def unat_of_nat)

lemma unat_Uint64: "length b = 8 \<Longrightarrow> unat (Uint64 b) = be_nat b"
  using be_nat_bound [of b] by (simp add: Uint64_def unat_of_nat)

lemma PutUint32_Uint32 [simp]: "length b = 4 \<Longrightarrow> PutUint32 (Uint32 b) = b"
  using be_bytes_be_nat [of b] by (simp add: PutUint32_def unat_Uint32)

lemma PutUint64_Uint64 [simp]: "length b = 8 \<Longrightarrow> PutUint64 (Uint64 b) = b"
  using be_bytes_be_nat [of b] by (simp add: PutUint64_def unat_Uint64)

section \<open>Length-prefixed fields\<close>

text \<open>
  The control envelope and the enrollment transcript share one field format: a 32-bit big-endian
  length followed by the raw bytes. \<open>read_field\<close> is one call of the reader closure both parsers
  use; \<open>read_fields n\<close> the loop that reads \<open>n\<close> of them and leaves the rest of the input.
\<close>

datatype field_error = FieldTruncated | FieldExceeds

definition put_field :: "bytes \<Rightarrow> bytes" where
  "put_field f = be_bytes 4 (length f) @ f"

definition put_fields :: "bytes list \<Rightarrow> bytes" where
  "put_fields fs = concat (map put_field fs)"

definition read_field :: "bytes \<Rightarrow> field_error + bytes \<times> bytes" where
  "read_field b =
     (if length b < 4 then Inl FieldTruncated
      else let l = be_nat (take 4 b); r = drop 4 b
           in if length r < l then Inl FieldExceeds else Inr (take l r, drop l r))"

fun read_fields :: "nat \<Rightarrow> bytes \<Rightarrow> field_error + bytes list \<times> bytes" where
  "read_fields 0 b = Inr ([], b)"
| "read_fields (Suc n) b =
     andThen (read_field b) (\<lambda>(f, r).
     andThen (read_fields n r) (\<lambda>(fs, r'). Inr (f # fs, r')))"

text \<open>A field the format can carry: its length fits the 32-bit prefix.\<close>

definition field_fits :: "bytes \<Rightarrow> bool" where
  "field_fits f \<longleftrightarrow> length f < 2 ^ 32"

lemma length_put_field [simp]: "length (put_field f) = 4 + length f"
  by (simp add: put_field_def)

lemma put_fields_simps [simp]:
  "put_fields [] = []" "put_fields (f # fs) = put_field f @ put_fields fs"
  by (simp_all add: put_fields_def)

lemma length_put_fields: "length (put_fields fs) = 4 * length fs + sum_list (map length fs)"
  by (induction fs) auto

lemma read_put_field [simp]: "field_fits f \<Longrightarrow> read_field (put_field f @ r) = Inr (f, r)"
  by (simp add: read_field_def put_field_def field_fits_def be_nat_be_bytes)

lemma read_field_Inr:
  assumes "read_field b = Inr (f, r)"
  shows "b = put_field f @ r \<and> field_fits f"
proof -
  from assms have b: "4 \<le> length b" and l: "be_nat (take 4 b) \<le> length (drop 4 b)"
    and f: "f = take (be_nat (take 4 b)) (drop 4 b)" and r: "r = drop (be_nat (take 4 b)) (drop 4 b)"
    by (auto simp: read_field_def Let_def split: if_splits)
  have len: "length f = be_nat (take 4 b)" using f l by simp
  have "be_bytes 4 (length f) = take 4 b"
    using be_bytes_be_nat [of "take 4 b"] b by (simp add: len min_def split: if_splits)
  moreover have "drop 4 b = f @ r" unfolding f r by (rule append_take_drop_id [symmetric])
  ultimately have "b = put_field f @ r"
    by (simp add: put_field_def) (metis append_take_drop_id)
  moreover have "field_fits f"
    using be_nat_bound [of "take 4 b"] b len by (simp add: field_fits_def)
  ultimately show ?thesis by (rule conjI)
qed

lemma read_put_fields:
  "\<forall>f \<in> set fs. field_fits f \<Longrightarrow> read_fields (length fs) (put_fields fs @ r) = Inr (fs, r)"
  by (induction fs) simp_all

text \<open>The reader accepts exactly the encodings: the format is unambiguous.\<close>

lemma read_fields_iff:
  "read_fields n b = Inr (fs, r) \<longleftrightarrow>
     length fs = n \<and> (\<forall>f \<in> set fs. field_fits f) \<and> b = put_fields fs @ r"
proof
  show "read_fields n b = Inr (fs, r) \<Longrightarrow>
     length fs = n \<and> (\<forall>f \<in> set fs. field_fits f) \<and> b = put_fields fs @ r"
  proof (induction n arbitrary: b fs)
    case (Suc n)
    then obtain f r' fs' where "read_field b = Inr (f, r')" "read_fields n r' = Inr (fs', r)"
      and [simp]: "fs = f # fs'"
      by auto
    with Suc.IH [of r' fs'] read_field_Inr [of b f r'] show ?case by auto
  qed auto
qed (auto simp: read_put_fields)

section \<open>Contracts shared by several components\<close>

text \<open>
  A wire codec: \<open>enc\<close> renders a value, \<open>dec\<close> accepts or rejects bytes, and \<open>wf\<close> describes the
  values the format can carry. The two laws say that well-formed values survive the round trip and
  that whatever is accepted is the encoding of the result, so one value has one encoding.
\<close>

locale wire_codec =
  fixes enc :: "'a \<Rightarrow> bytes" and dec :: "bytes \<Rightarrow> 'e + 'a" and wf :: "'a \<Rightarrow> bool"
  assumes dec_enc: "wf x \<Longrightarrow> dec (enc x) = Inr x"
    and enc_dec: "dec b = Inr x \<Longrightarrow> wf x \<and> enc x = b"
begin

lemma dec_iff: "dec b = Inr x \<longleftrightarrow> wf x \<and> b = enc x"
  using dec_enc enc_dec by metis

lemma enc_inj: "wf x \<Longrightarrow> wf y \<Longrightarrow> enc x = enc y \<Longrightarrow> x = y"
  using dec_enc by (metis sum.inject(2))

lemma not_malleable: "dec b = Inr x \<Longrightarrow> dec b' = Inr x \<Longrightarrow> b = b'"
  using enc_dec by metis

lemma accepts_iff: "(\<exists>x. dec b = Inr x) \<longleftrightarrow> b \<in> enc ` {x. wf x}"
  using dec_iff by blast

end

text \<open>
  A labelled transition system and its reachable states. A component whose state is changed by a
  set of operations is one, with a label per operation.
\<close>

inductive reach :: "('s \<Rightarrow> bool) \<Rightarrow> ('s \<Rightarrow> 'l \<Rightarrow> 's \<Rightarrow> bool) \<Rightarrow> 's \<Rightarrow> bool"
  for start :: "'s \<Rightarrow> bool" and step :: "'s \<Rightarrow> 'l \<Rightarrow> 's \<Rightarrow> bool" where
  reach_start: "start s \<Longrightarrow> reach start step s"
| reach_step: "reach start step s \<Longrightarrow> step s l t \<Longrightarrow> reach start step t"

fun run_step :: "('s \<Rightarrow> 'l \<Rightarrow> 's) \<Rightarrow> 's \<Rightarrow> 'l list \<Rightarrow> 's" where
  "run_step f s [] = s"
| "run_step f s (l # ls) = run_step f (f s l) ls"

lemma run_step_append: "run_step f s (xs @ ys) = run_step f (run_step f s xs) ys"
  by (induction f s xs rule: run_step.induct) auto

lemma reach_run:
  assumes "reach start (\<lambda>s l t. t = f s l) s"
  shows "reach start (\<lambda>s l t. t = f s l) (run_step f s ls)"
  using assms
proof (induction ls arbitrary: s)
  case (Cons l ls)
  from reach_step [OF Cons.prems, of "f s l" l] Cons.IH show ?case by simp
qed simp

text \<open>
  The contract of an inductive invariant: it holds at the start and every step keeps it. What a
  client gets from it is that it holds in every reachable state.
\<close>

locale inductive_invariant =
  fixes start :: "'s \<Rightarrow> bool" and step :: "'s \<Rightarrow> 'l \<Rightarrow> 's \<Rightarrow> bool" and inv :: "'s \<Rightarrow> bool"
  assumes inv_start: "start s \<Longrightarrow> inv s"
    and inv_step: "step s l t \<Longrightarrow> inv s \<Longrightarrow> inv t"
begin

lemma inv_reach: "reach start step s \<Longrightarrow> inv s"
  by (induction rule: reach.induct) (auto intro: inv_start inv_step)

end

end
