(* ===== verification/Agent_Crypto.thy ===== *)
theory Agent_Crypto
  imports Agent_Prelude
begin

text \<open>
  \<open>internal/security/framecrypto\<close>: the size-checked Ed25519 primitives and the signature inputs of
  the wire frames. SHA-256 and Ed25519 themselves are library code and stay parameters, collected in
  a record; what the callers rely on (digest and signature sizes, that a signature verifies under
  the matching public key) is the contract \<open>go_crypto\<close>. Nothing is assumed about forgery.
\<close>

section \<open>The library primitives\<close>

record crypto =
  sha256 :: "bytes \<Rightarrow> bytes"
  ed_sign :: "bytes \<Rightarrow> bytes \<Rightarrow> bytes"
  ed_verify :: "bytes \<Rightarrow> bytes \<Rightarrow> bytes \<Rightarrow> bool"
  ed_public :: "bytes \<Rightarrow> bytes"

definition PublicKeySize :: nat where "PublicKeySize = 32"
definition PrivateKeySize :: nat where "PrivateKeySize = 64"
definition SignatureSize :: nat where "SignatureSize = 64"

lemmas [go_simps] = PublicKeySize_def PrivateKeySize_def SignatureSize_def

locale go_crypto =
  fixes C :: crypto
  assumes length_sha256 [simp]: "length (sha256 C m) = 32"
    and length_ed_sign [simp]: "length priv = PrivateKeySize \<Longrightarrow> length (ed_sign C priv m) = SignatureSize"
    and length_ed_public [simp]: "length priv = PrivateKeySize \<Longrightarrow> length (ed_public C priv) = PublicKeySize"
    and verify_sign [simp]:
      "length priv = PrivateKeySize \<Longrightarrow> ed_verify C (ed_public C priv) m (ed_sign C priv m)"

section \<open>framecrypto.go\<close>

datatype crypto_error = ErrInvalidKeySize

definition Sign :: "crypto \<Rightarrow> bytes \<Rightarrow> bytes \<Rightarrow> crypto_error + bytes" where
  "Sign C priv message =
     (if length priv \<noteq> PrivateKeySize then Inl ErrInvalidKeySize else Inr (ed_sign C priv message))"

definition Verify :: "crypto \<Rightarrow> bytes \<Rightarrow> bytes \<Rightarrow> bytes \<Rightarrow> bool" where
  "Verify C pub message sig =
     (if length pub \<noteq> PublicKeySize \<or> length sig \<noteq> SignatureSize then False
      else ed_verify C pub message sig)"

definition EnvelopeSignatureInput :: "bytes \<Rightarrow> bytes \<Rightarrow> bytes \<Rightarrow> bytes" where
  "EnvelopeSignatureInput domain protectedHeader payloadSHA256 =
     domain @ protectedHeader @ payloadSHA256"

definition SignEnvelope :: "crypto \<Rightarrow> bytes \<Rightarrow> bytes \<Rightarrow> bytes \<Rightarrow> bytes \<Rightarrow> crypto_error + bytes" where
  "SignEnvelope C priv domain protectedHeader payloadSHA256 =
     Sign C priv (EnvelopeSignatureInput domain protectedHeader payloadSHA256)"

definition VerifyEnvelope :: "crypto \<Rightarrow> bytes \<Rightarrow> bytes \<Rightarrow> bytes \<Rightarrow> bytes \<Rightarrow> bytes \<Rightarrow> bool" where
  "VerifyEnvelope C pub domain protectedHeader payloadSHA256 sig =
     (if length sig \<noteq> SignatureSize then False
      else Verify C pub (EnvelopeSignatureInput domain protectedHeader payloadSHA256) sig)"

definition DomainSeparatedMessage :: "string \<Rightarrow> bytes \<Rightarrow> bytes" where
  "DomainSeparatedMessage domain canonical = domain @ canonical"

context go_crypto
begin

lemma Sign_ok: "length priv = PrivateKeySize \<Longrightarrow> Sign C priv m = Inr (ed_sign C priv m)"
  by (simp add: Sign_def)

lemma Verify_Sign:
  assumes "Sign C priv m = Inr sig"
  shows "Verify C (ed_public C priv) m sig" and "length sig = SignatureSize"
  using assms by (auto simp: Sign_def Verify_def)

lemma VerifyEnvelope_SignEnvelope:
  "SignEnvelope C priv d h p = Inr sig \<Longrightarrow> VerifyEnvelope C (ed_public C priv) d h p sig"
  using Verify_Sign [of priv _ sig] by (auto simp: SignEnvelope_def VerifyEnvelope_def)

end

lemma Verify_sizes: "Verify C pub m sig \<Longrightarrow> length pub = PublicKeySize \<and> length sig = SignatureSize"
  by (auto simp: Verify_def split: if_splits)

section \<open>A concrete instance\<close>

text \<open>
  An executable stand-in for the library, used to evaluate the model on concrete frames: the digest
  is the message read as a number modulo \<open>2^256\<close>, a private key is \<open>seed || public key\<close> as in
  Go, and the signature is the public key followed by the digest.
\<close>

definition demo_crypto :: crypto where
  "demo_crypto =
     \<lparr>sha256 = (\<lambda>m. be_bytes 32 (be_nat m)),
      ed_sign = (\<lambda>priv m. drop 32 priv @ be_bytes 32 (be_nat m)),
      ed_verify = (\<lambda>pub m sig. sig = pub @ be_bytes 32 (be_nat m)),
      ed_public = (\<lambda>priv. drop 32 priv)\<rparr>"

interpretation demo: go_crypto demo_crypto
  by unfold_locales (simp_all add: demo_crypto_def go_simps)

end
