(* ===== verification/Agent_Envelope.thy ===== *)
theory Agent_Envelope
  imports Agent_Crypto
begin

text \<open>
  \<open>internal/protocol/envelope.go\<close>: the signed control envelope. The protected header is the list of
  exactly 14 length-prefixed fields; a frame is magic, version, the two lengths, header, payload and
  signature. \<open>ParseEnvelope\<close> reports the stage at which a frame was rejected.
\<close>

section \<open>Constants and data\<close>

definition ProtocolDomain :: string where "ProtocolDomain = ''AntiNAT-Control-v1''"
definition EnvelopeMagic :: bytes where "EnvelopeMagic = ''ANAT''"
definition WireVersion :: char where "WireVersion = CHR 0x01"
definition MaxHeaderBytes :: nat where "MaxHeaderBytes = 4096"
definition MaxPayloadBytes :: nat where "MaxPayloadBytes = 65536"
definition DirectionC2A :: char where "DirectionC2A = CHR 0x01"
definition DirectionA2C :: char where "DirectionA2C = CHR 0x02"
definition MaxHeaderStringField :: nat where "MaxHeaderStringField = 255"
definition EnvelopeSigLen :: nat where "EnvelopeSigLen = 64"
definition EnvelopeHeaderFieldCount :: nat where "EnvelopeHeaderFieldCount = 14"

lemmas envelope_consts [go_simps] =
  MaxHeaderBytes_def MaxPayloadBytes_def MaxHeaderStringField_def EnvelopeSigLen_def
  EnvelopeHeaderFieldCount_def

datatype Stage = StageOK | StageFraming | StageHeader | StageConsistency | StageSignature | StagePayloadJSON

datatype env_error =
  HeaderField field_error | HeaderTrailing | HeaderWidth string | HeaderString string
| HeaderFieldTooLarge | HeaderTooLarge | PayloadTooLarge | PrivateKeyInvalid
| FrameTooShort | BadMagic | BadWireVersion | HeaderLengthRange | PayloadLengthRange | FrameLength
| DomainMismatch | PayloadLengthMismatch | PayloadHashMismatch | DirectionInvalid | CredentialZero
| PeerKeyInvalid | BadSignature

record ProtectedHeader =
  hProtocolDomain :: string
  hControllerInstanceID :: bytes
  hNodeID :: bytes
  hControllerKeyID :: string
  hAgentCredentialVer :: u32
  hConnectionEpoch :: u64
  hSessionID :: string
  hDirection :: char
  hSequence :: u64
  hMessageID :: bytes
  hMessageType :: string
  hSchemaVersion :: u32
  hPayloadLength :: u64
  hPayloadSHA256 :: bytes

record Envelope =
  eHeaderLen :: u32
  ePayloadLen :: u32
  eHeader :: ProtectedHeader
  eHeaderBytes :: bytes
  ePayload :: bytes
  eSignature :: bytes

text \<open>The Go arrays \<open>[16]byte\<close> and \<open>[32]byte\<close> are byte lists of that length.\<close>

definition header_arrays :: "ProtectedHeader \<Rightarrow> bool" where
  "header_arrays h \<longleftrightarrow>
     length (hControllerInstanceID h) = 16 \<and> length (hNodeID h) = 16 \<and>
     length (hMessageID h) = 16 \<and> length (hPayloadSHA256 h) = 32"

section \<open>The protected header\<close>

definition string_field_ok :: "string \<Rightarrow> bool" where
  "string_field_ok s \<longleftrightarrow> \<not> (length s = 0 \<or> length s > MaxHeaderStringField)"

definition validateHeaderStringFields :: "ProtectedHeader \<Rightarrow> env_error + unit" where
  "validateHeaderStringFields h =
     (if \<not> string_field_ok (hControllerKeyID h) then Inl (HeaderString ''controller_key_id'')
      else if \<not> string_field_ok (hSessionID h) then Inl (HeaderString ''session_id'')
      else if \<not> string_field_ok (hMessageType h) then Inl (HeaderString ''message_type'')
      else Inr ())"

definition header_fields :: "ProtectedHeader \<Rightarrow> bytes list" where
  "header_fields h =
     [hProtocolDomain h, hControllerInstanceID h, hNodeID h, hControllerKeyID h,
      PutUint32 (hAgentCredentialVer h), PutUint64 (hConnectionEpoch h), hSessionID h,
      [hDirection h], PutUint64 (hSequence h), hMessageID h, hMessageType h,
      PutUint32 (hSchemaVersion h), PutUint64 (hPayloadLength h), hPayloadSHA256 h]"

definition EncodeProtectedHeader :: "ProtectedHeader \<Rightarrow> env_error + bytes" where
  "EncodeProtectedHeader h =
     andThen (validateHeaderStringFields h) (\<lambda>_.
       foldE (\<lambda>buf f. if \<not> field_fits f then Inl HeaderFieldTooLarge else Inr (buf @ put_field f))
         [] (header_fields h))"

definition decodeProtectedHeader :: "bytes \<Rightarrow> env_error + ProtectedHeader" where
  "decodeProtectedHeader b =
     (case read_fields EnvelopeHeaderFieldCount b of
        Inl e \<Rightarrow> Inl (HeaderField e)
      | Inr (parts, rest) \<Rightarrow>
          if rest \<noteq> [] then Inl HeaderTrailing
          else if length (parts ! 1) \<noteq> 16 then Inl (HeaderWidth ''controller_instance_id'')
          else if length (parts ! 2) \<noteq> 16 then Inl (HeaderWidth ''node_id'')
          else if length (parts ! 4) \<noteq> 4 then Inl (HeaderWidth ''agent_credential_version'')
          else if length (parts ! 5) \<noteq> 8 then Inl (HeaderWidth ''connection_epoch'')
          else if length (parts ! 7) \<noteq> 1 then Inl (HeaderWidth ''direction'')
          else if length (parts ! 8) \<noteq> 8 then Inl (HeaderWidth ''sequence'')
          else if length (parts ! 9) \<noteq> 16 then Inl (HeaderWidth ''message_id'')
          else if length (parts ! 11) \<noteq> 4 then Inl (HeaderWidth ''schema_version'')
          else if length (parts ! 12) \<noteq> 8 then Inl (HeaderWidth ''payload_length'')
          else if length (parts ! 13) \<noteq> 32 then Inl (HeaderWidth ''payload_sha256'')
          else let h = \<lparr>hProtocolDomain = parts ! 0, hControllerInstanceID = parts ! 1,
                        hNodeID = parts ! 2, hControllerKeyID = parts ! 3,
                        hAgentCredentialVer = Uint32 (parts ! 4),
                        hConnectionEpoch = Uint64 (parts ! 5), hSessionID = parts ! 6,
                        hDirection = parts ! 7 ! 0, hSequence = Uint64 (parts ! 8),
                        hMessageID = parts ! 9, hMessageType = parts ! 10,
                        hSchemaVersion = Uint32 (parts ! 11),
                        hPayloadLength = Uint64 (parts ! 12), hPayloadSHA256 = parts ! 13\<rparr>
               in andThen (validateHeaderStringFields h) (\<lambda>_. Inr h))"

section \<open>Frames\<close>

definition BuildEnvelope :: "crypto \<Rightarrow> bytes \<Rightarrow> ProtectedHeader \<Rightarrow> bytes \<Rightarrow> env_error + bytes" where
  "BuildEnvelope C priv h payload =
     (let h' = h\<lparr>hPayloadLength := of_nat (length payload), hPayloadSHA256 := sha256 C payload\<rparr>
      in andThen (EncodeProtectedHeader h') (\<lambda>headerBytes.
         if length headerBytes > MaxHeaderBytes then Inl HeaderTooLarge
         else if length payload > MaxPayloadBytes then Inl PayloadTooLarge
         else if length priv \<noteq> PrivateKeySize then Inl PrivateKeyInvalid
         else case SignEnvelope C priv (hProtocolDomain h') headerBytes (hPayloadSHA256 h') of
                Inl _ \<Rightarrow> Inl PrivateKeyInvalid
              | Inr sig \<Rightarrow>
                  Inr (EnvelopeMagic @ [WireVersion] @ PutUint32 (of_nat (length headerBytes))
                       @ PutUint32 (of_nat (length payload)) @ headerBytes @ payload @ sig)))"

text \<open>The checks on a decoded header, in the order \<open>ParseEnvelope\<close> makes them.\<close>

definition check_header :: "crypto \<Rightarrow> bytes \<Rightarrow> u32 \<Rightarrow> bytes \<Rightarrow> bytes \<Rightarrow> bytes \<Rightarrow> ProtectedHeader
    \<Rightarrow> (Stage \<times> env_error) + unit" where
  "check_header C peer payloadLen headerBytes payload sig header =
     (if hProtocolDomain header \<noteq> ProtocolDomain then Inl (StageConsistency, DomainMismatch)
      else if unat (hPayloadLength header) \<noteq> unat payloadLen
        then Inl (StageConsistency, PayloadLengthMismatch)
      else if sha256 C payload \<noteq> hPayloadSHA256 header
        then Inl (StageConsistency, PayloadHashMismatch)
      else if hDirection header \<noteq> DirectionC2A \<and> hDirection header \<noteq> DirectionA2C
        then Inl (StageConsistency, DirectionInvalid)
      else if hAgentCredentialVer header = 0 then Inl (StageConsistency, CredentialZero)
      else if length peer \<noteq> PublicKeySize then Inl (StageConsistency, PeerKeyInvalid)
      else if \<not> VerifyEnvelope C peer (hProtocolDomain header) headerBytes
                  (hPayloadSHA256 header) sig
        then Inl (StageSignature, BadSignature)
      else Inr ())"

definition ParseEnvelope :: "crypto \<Rightarrow> bytes \<Rightarrow> bytes \<Rightarrow> (Stage \<times> env_error) + Envelope" where
  "ParseEnvelope C frame peer =
     (if length frame < 13 + EnvelopeSigLen then Inl (StageFraming, FrameTooShort)
      else if take 4 frame \<noteq> EnvelopeMagic then Inl (StageFraming, BadMagic)
      else if frame ! 4 \<noteq> WireVersion then Inl (StageFraming, BadWireVersion)
      else let headerLen = Uint32 (take 4 (drop 5 frame)); payloadLen = Uint32 (take 4 (drop 9 frame))
      in if headerLen = 0 \<or> unat headerLen > MaxHeaderBytes then Inl (StageFraming, HeaderLengthRange)
      else if unat payloadLen > MaxPayloadBytes then Inl (StageFraming, PayloadLengthRange)
      else if length frame \<noteq> 13 + unat headerLen + unat payloadLen + EnvelopeSigLen
        then Inl (StageFraming, FrameLength)
      else let headerBytes = take (unat headerLen) (drop 13 frame);
               payload = take (unat payloadLen) (drop (13 + unat headerLen) frame);
               sig = drop (13 + unat headerLen + unat payloadLen) frame
      in case decodeProtectedHeader headerBytes of
           Inl e \<Rightarrow> Inl (StageHeader, e)
         | Inr header \<Rightarrow>
             andThen (check_header C peer payloadLen headerBytes payload sig header) (\<lambda>_.
               Inr \<lparr>eHeaderLen = headerLen, ePayloadLen = payloadLen, eHeader = header,
                    eHeaderBytes = headerBytes, ePayload = payload, eSignature = sig\<rparr>))"

section \<open>The header codec\<close>

text \<open>The headers the format can carry: exact array widths, bounded strings, a domain that fits.\<close>

definition wf_header :: "ProtectedHeader \<Rightarrow> bool" where
  "wf_header h \<longleftrightarrow>
     header_arrays h \<and> string_field_ok (hControllerKeyID h) \<and> string_field_ok (hSessionID h) \<and>
     string_field_ok (hMessageType h) \<and> field_fits (hProtocolDomain h)"

definition header_bytes :: "ProtectedHeader \<Rightarrow> bytes" where
  "header_bytes h = put_fields (header_fields h)"

lemma validateHeaderStringFields_Inr [simp]:
  "validateHeaderStringFields h = Inr u \<longleftrightarrow>
     string_field_ok (hControllerKeyID h) \<and> string_field_ok (hSessionID h) \<and>
     string_field_ok (hMessageType h)"
  by (simp add: validateHeaderStringFields_def)

lemma foldE_put_field:
  "foldE (\<lambda>buf f. if \<not> field_fits f then Inl e else Inr (buf @ put_field f)) acc fs =
     (if \<forall>f \<in> set fs. field_fits f then Inr (acc @ put_fields fs) else Inl e)"
  by (induction fs arbitrary: acc) auto

lemma header_fields_fit: "wf_header h \<Longrightarrow> \<forall>f \<in> set (header_fields h). field_fits f"
  by (simp add: wf_header_def header_arrays_def header_fields_def field_fits_def string_field_ok_def
      go_simps)

lemma EncodeProtectedHeader_wf: "wf_header h \<Longrightarrow> EncodeProtectedHeader h = Inr (header_bytes h)"
  using header_fields_fit [of h]
  by (auto simp: EncodeProtectedHeader_def foldE_put_field header_bytes_def wf_header_def
      validateHeaderStringFields_def simp del: andThen_Inr)

lemma EncodeProtectedHeader_Inr:
  assumes "EncodeProtectedHeader h = Inr b" and "header_arrays h"
  shows "wf_header h \<and> b = header_bytes h"
proof -
  from assms(1) have ok: "string_field_ok (hControllerKeyID h) \<and> string_field_ok (hSessionID h) \<and>
      string_field_ok (hMessageType h)"
    and fits: "\<forall>f \<in> set (header_fields h). field_fits f" and b: "b = header_bytes h"
    by (auto simp: EncodeProtectedHeader_def foldE_put_field header_bytes_def split: if_splits)
  moreover from fits have "field_fits (hProtocolDomain h)" by (simp add: header_fields_def)
  ultimately show ?thesis using assms(2) by (simp add: wf_header_def)
qed

lemma nth_header_fields [simp]:
  "header_fields h ! 0 = hProtocolDomain h" "header_fields h ! Suc 0 = hControllerInstanceID h"
  "header_fields h ! 2 = hNodeID h" "header_fields h ! 3 = hControllerKeyID h"
  "header_fields h ! 4 = PutUint32 (hAgentCredentialVer h)"
  "header_fields h ! 5 = PutUint64 (hConnectionEpoch h)" "header_fields h ! 6 = hSessionID h"
  "header_fields h ! 7 = [hDirection h]" "header_fields h ! 8 = PutUint64 (hSequence h)"
  "header_fields h ! 9 = hMessageID h" "header_fields h ! 10 = hMessageType h"
  "header_fields h ! 11 = PutUint32 (hSchemaVersion h)"
  "header_fields h ! 12 = PutUint64 (hPayloadLength h)" "header_fields h ! 13 = hPayloadSHA256 h"
  "length (header_fields h) = 14"
  by (simp_all add: header_fields_def)

lemma decode_header_bytes:
  assumes "wf_header h"
  shows "decodeProtectedHeader (header_bytes h) = Inr h"
proof -
  have "read_fields EnvelopeHeaderFieldCount (header_bytes h) = Inr (header_fields h, [])"
    using header_fields_fit [OF assms] by (simp add: read_fields_iff header_bytes_def go_simps)
  with assms show ?thesis
    by (simp add: decodeProtectedHeader_def Let_def wf_header_def header_arrays_def
        validateHeaderStringFields_def)
qed

lemma header_fields_complete:
  "length fs = 14 \<Longrightarrow>
     fs = [fs ! 0, fs ! 1, fs ! 2, fs ! 3, fs ! 4, fs ! 5, fs ! 6, fs ! 7, fs ! 8, fs ! 9,
           fs ! 10, fs ! 11, fs ! 12, fs ! 13]"
  using map_nth [of fs] by (simp add: upt_rec numeral_eq_Suc)

lemma decode_header_Inr:
  assumes "decodeProtectedHeader b = Inr h"
  shows "wf_header h \<and> header_bytes h = b"
proof -
  from assms obtain fs where fs: "read_fields EnvelopeHeaderFieldCount b = Inr (fs, [])"
    by (auto simp: decodeProtectedHeader_def split: sum.splits if_splits)
  then have len: "length fs = 14" and fit: "\<forall>f \<in> set fs. field_fits f" and b: "b = put_fields fs"
    by (auto simp: read_fields_iff go_simps)
  have one: "length (fs ! 7) = 1 \<Longrightarrow> [fs ! 7 ! 0] = fs ! 7"
    by (cases "fs ! 7") auto
  from assms fs have hf: "header_fields h = fs" and "header_arrays h"
    and ok: "string_field_ok (hControllerKeyID h) \<and> string_field_ok (hSessionID h) \<and>
      string_field_ok (hMessageType h)"
    using header_fields_complete [OF len] one
    by (auto simp: decodeProtectedHeader_def Let_def header_arrays_def header_fields_def
        split: if_splits)
  moreover have "hProtocolDomain h \<in> set (header_fields h)" by (simp add: header_fields_def)
  then have "field_fits (hProtocolDomain h)" using fit by (simp add: hf)
  ultimately show ?thesis by (simp add: wf_header_def header_bytes_def b)
qed

interpretation hdr: wire_codec header_bytes decodeProtectedHeader wf_header
  by unfold_locales (simp_all add: decode_header_bytes decode_header_Inr)

section \<open>The frame layout\<close>

definition envelope_frame :: "ProtectedHeader \<Rightarrow> bytes \<Rightarrow> bytes \<Rightarrow> bytes" where
  "envelope_frame h payload sig =
     EnvelopeMagic @ [WireVersion] @ PutUint32 (of_nat (length (header_bytes h)))
     @ PutUint32 (of_nat (length payload)) @ header_bytes h @ payload @ sig"

text \<open>The checks \<open>ParseEnvelope\<close> makes on a decoded header, its payload and its signature.\<close>

definition envelope_accepts :: "crypto \<Rightarrow> bytes \<Rightarrow> ProtectedHeader \<Rightarrow> bytes \<Rightarrow> bytes \<Rightarrow> bool" where
  "envelope_accepts C peer h payload sig \<longleftrightarrow>
     wf_header h \<and> hProtocolDomain h = ProtocolDomain \<and>
     unat (hPayloadLength h) = length payload \<and> sha256 C payload = hPayloadSHA256 h \<and>
     hDirection h \<in> {DirectionC2A, DirectionA2C} \<and> hAgentCredentialVer h \<noteq> 0 \<and>
     length payload \<le> MaxPayloadBytes \<and>
     Verify C peer (ProtocolDomain @ header_bytes h @ hPayloadSHA256 h) sig"

lemma length_EnvelopeMagic [simp]: "length EnvelopeMagic = 4"
  by (simp add: EnvelopeMagic_def)

lemma length_header_bytes:
  "wf_header h \<Longrightarrow> length (header_bytes h) =
     56 + length (hProtocolDomain h) + length (hControllerKeyID h) + length (hSessionID h)
     + length (hMessageType h) + 113"
  by (simp add: header_bytes_def header_fields_def wf_header_def header_arrays_def)

lemma header_bytes_bounds:
  assumes "wf_header h" and "hProtocolDomain h = ProtocolDomain"
  shows "0 < length (header_bytes h)" and "length (header_bytes h) \<le> MaxHeaderBytes"
  using assms length_header_bytes [OF assms(1)]
  by (auto simp: wf_header_def string_field_ok_def ProtocolDomain_def go_simps)

lemma layout13:
  assumes "length M = 4" and "length A = 4" and "length B = 4"
  shows "take 4 (M @ [v] @ A @ B @ r) = M" and "(M @ [v] @ A @ B @ r) ! 4 = v"
    and "take 4 (drop 5 (M @ [v] @ A @ B @ r)) = A" and "take 4 (drop 9 (M @ [v] @ A @ B @ r)) = B"
    and "drop (13 + n) (M @ [v] @ A @ B @ r) = drop n r" and "drop 13 (M @ [v] @ A @ B @ r) = r"
    and "length (M @ [v] @ A @ B @ r) = 13 + length r"
proof -
  have "drop (13 + n) ((M @ [v] @ A @ B) @ r) = drop n r"
    using assms by (simp only: drop_append) simp
  then show "drop (13 + n) (M @ [v] @ A @ B @ r) = drop n r" by simp
  show "(M @ [v] @ A @ B @ r) ! 4 = v" using assms by (simp add: nth_append)
qed (use assms in simp_all)

lemma ParseEnvelope_frame:
  assumes acc: "envelope_accepts C peer h payload sig"
  shows "ParseEnvelope C (envelope_frame h payload sig) peer =
     Inr \<lparr>eHeaderLen = of_nat (length (header_bytes h)), ePayloadLen = of_nat (length payload),
          eHeader = h, eHeaderBytes = header_bytes h, ePayload = payload, eSignature = sig\<rparr>"
proof -
  let ?hl = "of_nat (length (header_bytes h)) :: u32" and ?pl = "of_nat (length payload) :: u32"
  from acc have wf: "wf_header h" and dom: "hProtocolDomain h = ProtocolDomain"
    and pl: "length payload \<le> 65536" and V: "Verify C peer (ProtocolDomain @ header_bytes h @ hPayloadSHA256 h) sig"
    by (simp_all add: envelope_accepts_def go_simps)
  note hl = header_bytes_bounds [OF wf dom]
  have sizes: "length peer = PublicKeySize" "length sig = 64"
    using Verify_sizes [OF V] by (simp_all add: go_simps)
  have [simp]: "unat ?hl = length (header_bytes h)" "unat ?pl = length payload"
    using hl pl by (auto simp: unat_of_nat go_simps)
  have nz: "?hl \<noteq> 0" using hl by (metis \<open>unat ?hl = length (header_bytes h)\<close> neq0_conv unat_0)
  note L = layout13 [of EnvelopeMagic "PutUint32 ?hl" "PutUint32 ?pl",
      OF length_EnvelopeMagic length_PutUint(1) length_PutUint(1)]
  have "check_header C peer ?pl (header_bytes h) payload sig h = Inr ()"
    using acc sizes
    by (auto simp: check_header_def envelope_accepts_def VerifyEnvelope_def
        EnvelopeSignatureInput_def go_simps)
  then show ?thesis
    using sizes nz hl pl unfolding ParseEnvelope_def envelope_frame_def Let_def L Uint32_PutUint32
    by (simp only: L add.assoc drop_append) (simp add: decode_header_bytes [OF wf] go_simps)
qed

lemma frame_parts:
  assumes "13 \<le> length frame"
  shows "frame = take 4 frame @ [frame ! 4] @ take 4 (drop 5 frame) @ take 4 (drop 9 frame)
           @ drop 13 frame"
proof -
  have "drop 4 frame = frame ! 4 # drop 5 frame"
    using Cons_nth_drop_Suc [of 4 frame] assms by simp
  moreover have "drop 5 frame = take 4 (drop 5 frame) @ drop 9 frame"
    using append_take_drop_id [of 4 "drop 5 frame"] by simp
  moreover have "drop 9 frame = take 4 (drop 9 frame) @ drop 13 frame"
    using append_take_drop_id [of 4 "drop 9 frame"] by simp
  ultimately show ?thesis
    by (metis append_Cons append_Nil append_take_drop_id)
qed

lemma body_parts:
  "drop 13 frame = take a (drop 13 frame) @ take b (drop (13 + a) frame) @ drop (13 + a + b) frame"
  using append_take_drop_id [of a "drop 13 frame"] append_take_drop_id [of b "drop (13 + a) frame"]
  by (simp add: add.commute add.left_commute)

text \<open>Acceptance characterised: the frame is the layout of its header, payload and signature.\<close>

lemma ParseEnvelope_Inr:
  assumes "ParseEnvelope C frame peer = Inr env"
  shows "envelope_accepts C peer (eHeader env) (ePayload env) (eSignature env)"
    and "frame = envelope_frame (eHeader env) (ePayload env) (eSignature env)"
    and "eHeaderBytes env = header_bytes (eHeader env)"
proof -
  define hl where "hl = Uint32 (take 4 (drop 5 frame))"
  define pl where "pl = Uint32 (take 4 (drop 9 frame))"
  define hb where "hb = take (unat hl) (drop 13 frame)"
  define pay where "pay = take (unat pl) (drop (13 + unat hl) frame)"
  define sig where "sig = drop (13 + unat hl + unat pl) frame"
  from assms have len: "length frame = 13 + unat hl + unat pl + 64"
    and magic: "take 4 frame = EnvelopeMagic" "frame ! 4 = WireVersion"
    and plb: "unat pl \<le> MaxPayloadBytes"
    and dec: "decodeProtectedHeader hb = Inr (eHeader env)"
    and env: "ePayload env = pay" "eSignature env = sig" "eHeaderBytes env = hb"
    and chk: "hProtocolDomain (eHeader env) = ProtocolDomain" "unat (hPayloadLength (eHeader env)) = unat pl"
      "sha256 C pay = hPayloadSHA256 (eHeader env)"
      "hDirection (eHeader env) \<in> {DirectionC2A, DirectionA2C}" "hAgentCredentialVer (eHeader env) \<noteq> 0"
      "VerifyEnvelope C peer ProtocolDomain hb (hPayloadSHA256 (eHeader env)) sig"
    unfolding ParseEnvelope_def Let_def hl_def [symmetric] pl_def [symmetric] hb_def [symmetric]
      pay_def [symmetric] sig_def [symmetric]
    by (auto simp: go_simps check_header_def)
  have wf: "wf_header (eHeader env)" and hb: "hb = header_bytes (eHeader env)"
    using decode_header_Inr [OF dec] by auto
  show "eHeaderBytes env = header_bytes (eHeader env)" using env hb by simp
  have long: "13 \<le> length frame" using len by simp
  have lens: "length hb = unat hl" "length pay = unat pl"
    using len by (simp_all add: hb_def pay_def)
  show "envelope_accepts C peer (eHeader env) (ePayload env) (eSignature env)"
    using wf chk plb lens env hb
    by (auto simp: envelope_accepts_def VerifyEnvelope_def EnvelopeSignatureInput_def split: if_splits)
  have "take 4 (drop 5 frame) = PutUint32 hl" "take 4 (drop 9 frame) = PutUint32 pl"
    using long by (simp_all add: hl_def pl_def)
  moreover have "hl = of_nat (length hb)" "pl = of_nat (length pay)"
    using lens by simp_all
  ultimately show "frame = envelope_frame (eHeader env) (ePayload env) (eSignature env)"
    using frame_parts [of frame] body_parts [of frame "unat hl" "unat pl"] len magic env
    unfolding envelope_frame_def hb [symmetric] hb_def [symmetric] pay_def [symmetric] sig_def [symmetric]
    by simp
qed

text \<open>The rejection stages: nothing is ever reported as accepted or as a payload failure.\<close>

definition stage_in :: "Stage set \<Rightarrow> (Stage \<times> env_error) + 'a \<Rightarrow> bool" where
  "stage_in S r \<longleftrightarrow> (\<forall>st e. r = Inl (st, e) \<longrightarrow> st \<in> S)"

lemma stage_in_if: "st \<in> S \<Longrightarrow> stage_in S r \<Longrightarrow> stage_in S (if c then Inl (st, e) else r)"
  by (simp add: stage_in_def)

lemma stage_in_andThen:
  "stage_in S m \<Longrightarrow> (\<And>x. stage_in S (f x)) \<Longrightarrow> stage_in S (andThen m f)"
  by (simp add: stage_in_def andThen_Inl) blast

lemma stage_in_case:
  "st \<in> S \<Longrightarrow> (\<And>x. stage_in S (f x)) \<Longrightarrow>
     stage_in S (case m of Inl e \<Rightarrow> Inl (st, g e) | Inr x \<Rightarrow> f x)"
  by (auto simp: stage_in_def split: sum.splits)

lemma stage_in_Inr: "stage_in S (Inr x)"
  by (simp add: stage_in_def)

lemma ParseEnvelope_stages:
  "stage_in {StageFraming, StageHeader, StageConsistency, StageSignature} (ParseEnvelope C frame peer)"
  unfolding ParseEnvelope_def check_header_def Let_def
  by (intro stage_in_if stage_in_andThen stage_in_case stage_in_Inr) simp_all

section \<open>Properties\<close>

text \<open>A header the sender may pass to \<open>BuildEnvelope\<close>, which fills the payload fields itself.\<close>

definition sendable_header :: "ProtectedHeader \<Rightarrow> bool" where
  "sendable_header h \<longleftrightarrow>
     length (hControllerInstanceID h) = 16 \<and> length (hNodeID h) = 16 \<and> length (hMessageID h) = 16 \<and>
     string_field_ok (hControllerKeyID h) \<and> string_field_ok (hSessionID h) \<and>
     string_field_ok (hMessageType h) \<and> hProtocolDomain h = ProtocolDomain \<and>
     hDirection h \<in> {DirectionC2A, DirectionA2C} \<and> hAgentCredentialVer h \<noteq> 0"

definition filled_header :: "crypto \<Rightarrow> ProtectedHeader \<Rightarrow> bytes \<Rightarrow> ProtectedHeader" where
  "filled_header C h payload =
     h\<lparr>hPayloadLength := of_nat (length payload), hPayloadSHA256 := sha256 C payload\<rparr>"

context go_crypto
begin

lemma filled_header_wf: "sendable_header h \<Longrightarrow> wf_header (filled_header C h payload)"
  by (auto simp: sendable_header_def wf_header_def header_arrays_def filled_header_def
      field_fits_def ProtocolDomain_def)

lemma BuildEnvelope_frame:
  assumes "sendable_header h" and "length priv = PrivateKeySize" and "length payload \<le> MaxPayloadBytes"
  obtains sig where
    "BuildEnvelope C priv h payload = Inr (envelope_frame (filled_header C h payload) payload sig)"
    and "envelope_accepts C (ed_public C priv) (filled_header C h payload) payload sig"
proof -
  let ?h = "filled_header C h payload"
  let ?sig = "ed_sign C priv (EnvelopeSignatureInput (hProtocolDomain ?h) (header_bytes ?h) (hPayloadSHA256 ?h))"
  note wf = filled_header_wf [OF assms(1), of payload]
  have dom: "hProtocolDomain ?h = ProtocolDomain" using assms(1)
    by (simp add: sendable_header_def filled_header_def)
  have "BuildEnvelope C priv h payload = Inr (envelope_frame ?h payload ?sig)"
    using assms header_bytes_bounds [OF wf dom] EncodeProtectedHeader_wf [OF wf]
    by (simp add: BuildEnvelope_def filled_header_def [symmetric] envelope_frame_def SignEnvelope_def
        Sign_def Let_def)
  moreover have "unat (of_nat (length payload) :: u64) = length payload"
    using assms(3) by (simp add: unat_of_nat go_simps)
  then have "envelope_accepts C (ed_public C priv) ?h payload ?sig"
    using assms wf dom
    by (auto simp: envelope_accepts_def sendable_header_def filled_header_def Verify_def
        EnvelopeSignatureInput_def)
  ultimately show thesis by (rule that)
qed

end

text \<open>
  C2: Round trip of the control envelope. For every header the protocol allows (16-byte identifiers,
  1..255-byte strings, the protocol domain, a valid direction, a non-zero credential version) and
  every payload of at most 65536 bytes, \<open>BuildEnvelope\<close> succeeds and \<open>ParseEnvelope\<close> under the
  signer's public key returns that payload and that header with the payload fields filled in.
\<close>

theorem envelope_roundtrip:
  assumes "go_crypto C" and "length priv = PrivateKeySize" and "sendable_header h"
    and "length payload \<le> MaxPayloadBytes"
  shows "\<exists>frame env. BuildEnvelope C priv h payload = Inr frame \<and>
     ParseEnvelope C frame (ed_public C priv) = Inr env \<and>
     eHeader env = h\<lparr>hPayloadLength := of_nat (length payload), hPayloadSHA256 := sha256 C payload\<rparr> \<and>
     ePayload env = payload"
proof -
  obtain sig where
    "BuildEnvelope C priv h payload = Inr (envelope_frame (filled_header C h payload) payload sig)"
    and acc: "envelope_accepts C (ed_public C priv) (filled_header C h payload) payload sig"
    using go_crypto.BuildEnvelope_frame [OF assms(1,3,2,4)] by blast
  with ParseEnvelope_frame [OF acc] show ?thesis by (simp add: filled_header_def)
qed

definition example_header :: ProtectedHeader where
  "example_header =
     \<lparr>hProtocolDomain = ProtocolDomain, hControllerInstanceID = replicate 16 (CHR ''c''),
      hNodeID = replicate 16 (CHR ''n''), hControllerKeyID = ''k1'', hAgentCredentialVer = 1,
      hConnectionEpoch = 7, hSessionID = ''s1'', hDirection = DirectionC2A, hSequence = 3,
      hMessageID = replicate 16 (CHR ''m''), hMessageType = ''desired'', hSchemaVersion = 1,
      hPayloadLength = 0, hPayloadSHA256 = []\<rparr>"

definition example_key :: bytes where
  "example_key = replicate 32 (CHR ''x'') @ replicate 32 (CHR ''p'')"

lemma example_ok:
  "sendable_header example_header" "length example_key = PrivateKeySize"
  "length ''{}'' \<le> MaxPayloadBytes"
  by (simp_all add: sendable_header_def example_header_def example_key_def string_field_ok_def
      go_simps)

theorem envelope_roundtrip_witness:
  "\<exists>frame env. BuildEnvelope demo_crypto example_key example_header ''{}'' = Inr frame \<and>
     ParseEnvelope demo_crypto frame (ed_public demo_crypto example_key) = Inr env \<and>
     ePayload env = ''{}'' \<and> hMessageType (eHeader env) = ''desired''"
  using envelope_roundtrip [OF demo.go_crypto_axioms example_ok(2,1,3)]
  by (auto simp: example_header_def)

text \<open>
  C1: What an accepted frame guarantees. If \<open>ParseEnvelope\<close> returns an envelope, the frame is byte
  for byte the canonical layout of the returned header, payload and signature; the header is
  well-formed and carries the protocol domain, a valid direction and a non-zero credential version;
  the payload hash and length match; and the Ed25519 check succeeded on exactly
  \<open>domain || protected header || payload hash\<close>. No payload bytes are exposed otherwise.
\<close>

theorem envelope_accepted_canonical:
  assumes "ParseEnvelope C frame peer = Inr env"
  shows "frame = EnvelopeMagic @ [WireVersion] @ PutUint32 (of_nat (length (eHeaderBytes env)))
           @ PutUint32 (of_nat (length (ePayload env))) @ eHeaderBytes env @ ePayload env @ eSignature env
    \<and> EncodeProtectedHeader (eHeader env) = Inr (eHeaderBytes env)
    \<and> hProtocolDomain (eHeader env) = ProtocolDomain
    \<and> hDirection (eHeader env) \<in> {DirectionC2A, DirectionA2C}
    \<and> hAgentCredentialVer (eHeader env) \<noteq> 0
    \<and> hPayloadSHA256 (eHeader env) = sha256 C (ePayload env)
    \<and> unat (hPayloadLength (eHeader env)) = length (ePayload env)
    \<and> ed_verify C peer (ProtocolDomain @ eHeaderBytes env @ sha256 C (ePayload env)) (eSignature env)"
proof -
  note acc = ParseEnvelope_Inr(1) [OF assms, unfolded envelope_accepts_def]
    and hb = ParseEnvelope_Inr(3) [OF assms]
  have "EncodeProtectedHeader (eHeader env) = Inr (eHeaderBytes env)"
    using acc by (simp add: hb EncodeProtectedHeader_wf)
  moreover have "ed_verify C peer (ProtocolDomain @ eHeaderBytes env @ sha256 C (ePayload env)) (eSignature env)"
    using acc by (auto simp: hb Verify_def split: if_splits)
  moreover have "frame = EnvelopeMagic @ [WireVersion] @ PutUint32 (of_nat (length (eHeaderBytes env)))
           @ PutUint32 (of_nat (length (ePayload env))) @ eHeaderBytes env @ ePayload env @ eSignature env"
    using ParseEnvelope_Inr(2) [OF assms] unfolding hb by (simp only: envelope_frame_def)
  ultimately show ?thesis using acc by simp
qed

lemma example_accepted:
  assumes "length key = PrivateKeySize"
  obtains sig where "envelope_accepts demo_crypto (ed_public demo_crypto key)
      (filled_header demo_crypto example_header ''{}'') ''{}'' sig"
  using demo.BuildEnvelope_frame [OF example_ok(1) assms example_ok(3)] by blast

theorem envelope_accepted_canonical_witness:
  "\<exists>frame env. ParseEnvelope demo_crypto frame (ed_public demo_crypto example_key) = Inr env \<and>
     EncodeProtectedHeader (eHeader env) = Inr (eHeaderBytes env) \<and> ePayload env = ''{}''"
proof -
  obtain sig where acc: "envelope_accepts demo_crypto (ed_public demo_crypto example_key)
      (filled_header demo_crypto example_header ''{}'') ''{}'' sig"
    using example_accepted [OF example_ok(2)] by blast
  note P = ParseEnvelope_frame [OF acc]
  show ?thesis
    by (rule exI, rule exI, rule conjI [OF P])
       (use envelope_accepted_canonical [OF P] in simp)
qed

text \<open>
  The signed bytes determine the message. If two frames are accepted and their signature inputs
  \<open>domain || header || payload hash\<close> coincide, then the decoded headers are equal, so a signature
  can never be read as covering two different headers.
\<close>

theorem envelope_signed_bytes_unambiguous:
  assumes "ParseEnvelope C frame peer = Inr env" and "ParseEnvelope C frame' peer' = Inr env'"
    and "EnvelopeSignatureInput ProtocolDomain (eHeaderBytes env) (hPayloadSHA256 (eHeader env)) =
         EnvelopeSignatureInput ProtocolDomain (eHeaderBytes env') (hPayloadSHA256 (eHeader env'))"
  shows "eHeader env = eHeader env'"
proof -
  note acc = ParseEnvelope_Inr(1) [OF assms(1)] ParseEnvelope_Inr(1) [OF assms(2)]
    and hb = ParseEnvelope_Inr(3) [OF assms(1)] ParseEnvelope_Inr(3) [OF assms(2)]
  have wf: "wf_header (eHeader env)" "wf_header (eHeader env')"
    using acc by (simp_all add: envelope_accepts_def)
  then have "length (hPayloadSHA256 (eHeader env)) = length (hPayloadSHA256 (eHeader env'))"
    by (simp add: wf_header_def header_arrays_def)
  then have "header_bytes (eHeader env) = header_bytes (eHeader env')"
    using assms(3) by (simp add: hb EnvelopeSignatureInput_def flip: append_assoc)
  then show ?thesis by (rule hdr.enc_inj [OF wf])
qed

definition example_key2 :: bytes where
  "example_key2 = replicate 32 (CHR ''x'') @ replicate 32 (CHR ''q'')"

lemma demo_Verify: "Verify demo_crypto pub m sig \<Longrightarrow> take 32 sig = pub"
  by (auto simp: Verify_def demo_crypto_def go_simps split: if_splits)

theorem envelope_signed_bytes_unambiguous_witness:
  "\<exists>frame env frame' env'.
     ParseEnvelope demo_crypto frame (ed_public demo_crypto example_key) = Inr env \<and>
     ParseEnvelope demo_crypto frame' (ed_public demo_crypto example_key2) = Inr env' \<and>
     eSignature env \<noteq> eSignature env' \<and> eHeader env = eHeader env'"
proof -
  have k2: "length example_key2 = PrivateKeySize" by (simp add: example_key2_def go_simps)
  obtain sig where acc: "envelope_accepts demo_crypto (ed_public demo_crypto example_key)
      (filled_header demo_crypto example_header ''{}'') ''{}'' sig"
    using example_accepted [OF example_ok(2)] by blast
  obtain sig' where acc': "envelope_accepts demo_crypto (ed_public demo_crypto example_key2)
      (filled_header demo_crypto example_header ''{}'') ''{}'' sig'"
    using example_accepted [OF k2] by blast
  note P = ParseEnvelope_frame [OF acc] and P' = ParseEnvelope_frame [OF acc']
  have "take 32 sig \<noteq> take 32 sig'"
    using acc acc' demo_Verify
    by (auto simp: envelope_accepts_def demo_crypto_def example_key_def example_key2_def)
  then have neq: "sig \<noteq> sig'" by auto
  show ?thesis
    apply (intro exI conjI)
       apply (rule P)
      apply (rule P')
     apply (simp add: neq)
    apply (rule envelope_signed_bytes_unambiguous [OF P P'])
    apply simp
    done
qed

end
