(* ===== verification/Agent_Lifecycle.thy ===== *)
theory Agent_Lifecycle
  imports Agent_Prelude
begin

text \<open>
  The one-way boundaries of the agent's lifecycle: the terminal latch (\<open>localstate/latch.go\<close>), the
  terminal marker file (\<open>localstate/marker.go\<close>), the recovery quarantine file
  (\<open>localstate/recovery.go\<close>) and the startup decision that reads them (\<open>reconcile/recovery.go\<close>).

  The lifecycle lock makes each operation atomic with respect to the others, so an operation is a
  function on the two files of the state directory. The file system is library code: what an operation
  does when one of its calls fails is decided by the argument \<open>fails\<close>, which names the failing steps.
\<close>

section \<open>The latch\<close>

record Latch =
  laEngaged :: bool
  laActors :: "string list"

definition NewLatch :: Latch where
  "NewLatch = \<lparr>laEngaged = False, laActors = []\<rparr>"

definition TryEngage :: "Latch \<Rightarrow> bool \<times> Latch" where
  "TryEngage l = (if laEngaged l then (False, l) else (True, l\<lparr>laEngaged := True\<rparr>))"

definition Engaged :: "Latch \<Rightarrow> bool" where
  "Engaged l = laEngaged l"

definition RegisterActor :: "string \<Rightarrow> Latch \<Rightarrow> bool \<times> Latch" where
  "RegisterActor name l =
     (if laEngaged l then (False, l) else (True, l\<lparr>laActors := List.insert name (laActors l)\<rparr>))"

definition UnregisterActor :: "string \<Rightarrow> Latch \<Rightarrow> Latch" where
  "UnregisterActor name l = l\<lparr>laActors := removeAll name (laActors l)\<rparr>"

definition ActiveCount :: "Latch \<Rightarrow> nat" where
  "ActiveCount l = length (laActors l)"

section \<open>Files\<close>

datatype io_step = CreateTemp | Chmod | Write | Fsync | CloseTemp | Rename | SyncDir | Remove

datatype lifecycle_error =
  ErrIO io_step | ErrReadMarker | ErrInvalidMarker | ErrMarkerFinal
| ErrReadQuarantine | ErrInvalidQuarantine | ErrQuarantineRequest
| ErrQuarantineOverTerminal | ErrRecoveryOperationMismatch

text \<open>What reading a file gives: nothing there, an error, or its content.\<close>

datatype 'a content = Absent | Unreadable | Content 'a

record RecoveryQuarantine =
  rqOperationID :: string
  rqGeneration :: u64

text \<open>The quarantine file holds JSON; content that does not decode is \<^term>\<open>None\<close>.\<close>

record state_dir =
  sdMarker :: "string content"
  sdQuarantine :: "RecoveryQuarantine option content"

text \<open>
  Replacing a file: everything up to the rename happens to a temporary file, the rename is atomic,
  and a failing directory sync reports an error although the new content is in place.
\<close>

definition replace_file ::
  "(io_step \<Rightarrow> bool) \<Rightarrow> (state_dir \<Rightarrow> state_dir) \<Rightarrow> state_dir \<Rightarrow> (lifecycle_error + unit) \<times> state_dir" where
  "replace_file fails install d =
     (if fails CreateTemp then (Inl (ErrIO CreateTemp), d)
      else if fails Chmod then (Inl (ErrIO Chmod), d)
      else if fails Write then (Inl (ErrIO Write), d)
      else if fails Fsync then (Inl (ErrIO Fsync), d)
      else if fails CloseTemp then (Inl (ErrIO CloseTemp), d)
      else if fails Rename then (Inl (ErrIO Rename), d)
      else if fails SyncDir then (Inl (ErrIO SyncDir), install d)
      else (Inr (), install d))"

section \<open>The terminal marker\<close>

definition MarkerActive :: string where "MarkerActive = []"
definition MarkerDecommissioning :: string where "MarkerDecommissioning = ''DECOMMISSIONING''"
definition MarkerDecommissioned :: string where "MarkerDecommissioned = ''DECOMMISSIONED''"

definition validMarkerStates :: "string list" where
  "validMarkerStates = [MarkerDecommissioning, MarkerDecommissioned]"

definition loadMarkerUnlocked :: "state_dir \<Rightarrow> lifecycle_error + string" where
  "loadMarkerUnlocked d =
     (case sdMarker d of
        Absent \<Rightarrow> Inr MarkerActive
      | Unreadable \<Rightarrow> Inl ErrReadMarker
      | Content raw \<Rightarrow> if raw \<notin> set validMarkerStates then Inl ErrInvalidMarker else Inr raw)"

definition LoadMarker :: "state_dir \<Rightarrow> lifecycle_error + string" where
  "LoadMarker d = loadMarkerUnlocked d"

definition writeMarkerUnlocked ::
  "(io_step \<Rightarrow> bool) \<Rightarrow> string \<Rightarrow> state_dir \<Rightarrow> (lifecycle_error + unit) \<times> state_dir" where
  "writeMarkerUnlocked fails st d =
     (if st \<notin> set validMarkerStates then (Inl ErrInvalidMarker, d)
      else case loadMarkerUnlocked d of
        Inl e \<Rightarrow> (Inl e, d)
      | Inr current \<Rightarrow>
          if current = MarkerDecommissioned \<and> st \<noteq> MarkerDecommissioned then (Inl ErrMarkerFinal, d)
          else if current = st then (Inr (), d)
          else replace_file fails (\<lambda>d. d\<lparr>sdMarker := Content st\<rparr>) d)"

definition WriteMarker ::
  "(io_step \<Rightarrow> bool) \<Rightarrow> string \<Rightarrow> state_dir \<Rightarrow> (lifecycle_error + unit) \<times> state_dir" where
  "WriteMarker fails st d = writeMarkerUnlocked fails st d"

section \<open>The recovery quarantine\<close>

definition loadRecoveryQuarantineUnlocked :: "state_dir \<Rightarrow> lifecycle_error + RecoveryQuarantine option" where
  "loadRecoveryQuarantineUnlocked d =
     (case sdQuarantine d of
        Absent \<Rightarrow> Inr None
      | Unreadable \<Rightarrow> Inl ErrReadQuarantine
      | Content None \<Rightarrow> Inl ErrInvalidQuarantine
      | Content (Some q) \<Rightarrow> if rqGeneration q = 0 then Inl ErrInvalidQuarantine else Inr (Some q))"

definition LoadRecoveryQuarantineBinding :: "state_dir \<Rightarrow> lifecycle_error + RecoveryQuarantine option" where
  "LoadRecoveryQuarantineBinding d = loadRecoveryQuarantineUnlocked d"

definition LoadRecoveryQuarantine :: "state_dir \<Rightarrow> lifecycle_error + bool" where
  "LoadRecoveryQuarantine d = andThen (LoadRecoveryQuarantineBinding d) (\<lambda>q. Inr (q \<noteq> None))"

definition writeRecoveryQuarantineUnlocked ::
  "(io_step \<Rightarrow> bool) \<Rightarrow> RecoveryQuarantine \<Rightarrow> state_dir \<Rightarrow> (lifecycle_error + unit) \<times> state_dir" where
  "writeRecoveryQuarantineUnlocked fails q d =
     (if rqOperationID q = [] \<or> rqGeneration q = 0 then (Inl ErrQuarantineRequest, d)
      else case loadMarkerUnlocked d of
        Inl e \<Rightarrow> (Inl e, d)
      | Inr marker \<Rightarrow>
          if marker = MarkerDecommissioned then (Inl ErrQuarantineOverTerminal, d)
          else let install = replace_file fails (\<lambda>d. d\<lparr>sdQuarantine := Content (Some q)\<rparr>) d
            in case loadRecoveryQuarantineUnlocked d of
                 Inl e \<Rightarrow> (Inl e, d)
               | Inr (Some current) \<Rightarrow>
                   if rqOperationID current = rqOperationID q \<and> rqGeneration current = rqGeneration q then (Inr (), d)
                   else if rqGeneration q \<le> rqGeneration current then (Inl ErrRecoveryOperationMismatch, d)
                   else install
               | Inr None \<Rightarrow> install)"

definition WriteRecoveryQuarantineForOperation ::
  "(io_step \<Rightarrow> bool) \<Rightarrow> string \<Rightarrow> u64 \<Rightarrow> state_dir \<Rightarrow> (lifecycle_error + unit) \<times> state_dir" where
  "WriteRecoveryQuarantineForOperation fails operationID generation d =
     writeRecoveryQuarantineUnlocked fails \<lparr>rqOperationID = operationID, rqGeneration = generation\<rparr> d"

definition WriteRecoveryQuarantine :: "(io_step \<Rightarrow> bool) \<Rightarrow> state_dir \<Rightarrow> (lifecycle_error + unit) \<times> state_dir" where
  "WriteRecoveryQuarantine fails d = WriteRecoveryQuarantineForOperation fails ''legacy'' 1 d"

definition WriteNextRecoveryQuarantineForOperation ::
  "(io_step \<Rightarrow> bool) \<Rightarrow> string \<Rightarrow> state_dir \<Rightarrow> (lifecycle_error + RecoveryQuarantine) \<times> state_dir" where
  "WriteNextRecoveryQuarantineForOperation fails operationID d =
     (case loadRecoveryQuarantineUnlocked d of
        Inl e \<Rightarrow> (Inl e, d)
      | Inr found \<Rightarrow>
          let generation = (case found of None \<Rightarrow> 1 | Some current \<Rightarrow> rqGeneration current + 1);
              result = \<lparr>rqOperationID = operationID, rqGeneration = generation\<rparr>
          in case writeRecoveryQuarantineUnlocked fails result d of
               (Inl e, d') \<Rightarrow> (Inl e, d')
             | (Inr _, d') \<Rightarrow> (Inr result, d'))"

text \<open>Removing the file; a file that is already gone is no error.\<close>

definition remove_quarantine :: "(io_step \<Rightarrow> bool) \<Rightarrow> state_dir \<Rightarrow> (lifecycle_error + unit) \<times> state_dir" where
  "remove_quarantine fails d =
     (if fails Remove then (Inl (ErrIO Remove), d)
      else if fails SyncDir then (Inl (ErrIO SyncDir), d\<lparr>sdQuarantine := Absent\<rparr>)
      else (Inr (), d\<lparr>sdQuarantine := Absent\<rparr>))"

definition ClearRecoveryQuarantine :: "(io_step \<Rightarrow> bool) \<Rightarrow> state_dir \<Rightarrow> (lifecycle_error + unit) \<times> state_dir" where
  "ClearRecoveryQuarantine fails d =
     (case loadRecoveryQuarantineUnlocked d of
        Inl e \<Rightarrow> (Inl e, d)
      | Inr None \<Rightarrow> (Inr (), d)
      | Inr (Some q) \<Rightarrow>
          if rqOperationID q \<noteq> ''legacy'' \<or> rqGeneration q \<noteq> 1 then (Inl ErrRecoveryOperationMismatch, d)
          else remove_quarantine fails d)"

definition ClearRecoveryQuarantineForOperation ::
  "(io_step \<Rightarrow> bool) \<Rightarrow> string \<Rightarrow> u64 \<Rightarrow> state_dir \<Rightarrow> (lifecycle_error + unit) \<times> state_dir" where
  "ClearRecoveryQuarantineForOperation fails operationID generation d =
     (if operationID = [] \<or> generation = 0 then (Inl ErrRecoveryOperationMismatch, d)
      else case loadRecoveryQuarantineUnlocked d of
        Inl e \<Rightarrow> (Inl e, d)
      | Inr None \<Rightarrow> (Inr (), d)
      | Inr (Some q) \<Rightarrow>
          if rqOperationID q \<noteq> operationID \<or> rqGeneration q \<noteq> generation then (Inl ErrRecoveryOperationMismatch, d)
          else case loadMarkerUnlocked d of
            Inl e \<Rightarrow> (Inl e, d)
          | Inr marker \<Rightarrow>
              if marker = MarkerDecommissioned then (Inl ErrQuarantineOverTerminal, d)
              else remove_quarantine fails d)"

section \<open>The startup decision\<close>

datatype DeferRecoveryReason = RecoveryAllowed | DeferredByTerminalMarker | DeferredByRecoveryQuarantine

text \<open>The result is (deferred, reason, error).\<close>

definition RecoveryDeferred :: "state_dir \<Rightarrow> string \<Rightarrow> bool \<times> DeferRecoveryReason \<times> lifecycle_error option" where
  "RecoveryDeferred d marker =
     (if marker \<noteq> MarkerActive then (True, DeferredByTerminalMarker, None)
      else case LoadRecoveryQuarantine d of
        Inl e \<Rightarrow> (True, DeferredByRecoveryQuarantine, Some e)
      | Inr quarantined \<Rightarrow>
          if quarantined then (True, DeferredByRecoveryQuarantine, None)
          else (False, RecoveryAllowed, None))"

section \<open>One-way boundaries\<close>

datatype latch_op = LaEngage | LaRegister string | LaUnregister string

fun exec_latch :: "Latch \<Rightarrow> latch_op \<Rightarrow> Latch" where
  "exec_latch l LaEngage = snd (TryEngage l)"
| "exec_latch l (LaRegister n) = snd (RegisterActor n l)"
| "exec_latch l (LaUnregister n) = UnregisterActor n l"

lemma latch_engaged_run:
  "laEngaged l \<Longrightarrow> laEngaged (run_step exec_latch l ops) \<and> set (laActors (run_step exec_latch l ops)) \<subseteq> set (laActors l)"
proof (induction ops arbitrary: l)
  case (Cons op ops)
  have "laEngaged (exec_latch l op) \<and> set (laActors (exec_latch l op)) \<subseteq> set (laActors l)"
    using Cons.prems by (cases op) (auto simp: TryEngage_def RegisterActor_def UnregisterActor_def)
  with Cons.IH [of "exec_latch l op"] show ?case by auto
qed simp

text \<open>
  The terminal latch never reopens. Once it is engaged, after any sequence of engagements,
  registrations and stops it is still engaged, a second engagement is refused, no actor can be
  registered, and the tracked actors are among those that were running at the engagement.
\<close>

theorem latch_never_reopens:
  assumes "laEngaged l"
  shows "Engaged (run_step exec_latch l ops) \<and> \<not> fst (TryEngage (run_step exec_latch l ops)) \<and>
    \<not> fst (RegisterActor n (run_step exec_latch l ops)) \<and>
    set (laActors (run_step exec_latch l ops)) \<subseteq> set (laActors l)"
  using latch_engaged_run [OF assms, of ops] by (simp add: Engaged_def TryEngage_def RegisterActor_def)

theorem latch_never_reopens_witness:
  "\<not> fst (RegisterActor ''f2'' (run_step exec_latch
     (snd (TryEngage (snd (RegisterActor ''f1'' NewLatch)))) [LaUnregister ''f1'', LaRegister ''f3'']))"
  using latch_never_reopens [of "snd (TryEngage (snd (RegisterActor ''f1'' NewLatch)))"
      "[LaUnregister ''f1'', LaRegister ''f3'']" "''f2''"]
  by (simp add: TryEngage_def RegisterActor_def NewLatch_def)

text \<open>The operations on the state directory, each under its own input-output failures.\<close>

datatype lifecycle_op =
  LWriteMarker string | LQuarantine string u64 | LQuarantineNext string | LQuarantineLegacy
| LClear string u64 | LClearLegacy

fun exec_lifecycle :: "state_dir \<Rightarrow> (io_step \<Rightarrow> bool) \<times> lifecycle_op \<Rightarrow> state_dir" where
  "exec_lifecycle d (fails, LWriteMarker st) = snd (WriteMarker fails st d)"
| "exec_lifecycle d (fails, LQuarantine op g) = snd (WriteRecoveryQuarantineForOperation fails op g d)"
| "exec_lifecycle d (fails, LQuarantineNext op) = snd (WriteNextRecoveryQuarantineForOperation fails op d)"
| "exec_lifecycle d (fails, LQuarantineLegacy) = snd (WriteRecoveryQuarantine fails d)"
| "exec_lifecycle d (fails, LClear op g) = snd (ClearRecoveryQuarantineForOperation fails op g d)"
| "exec_lifecycle d (fails, LClearLegacy) = snd (ClearRecoveryQuarantine fails d)"

definition recovery_allowed :: "state_dir \<Rightarrow> bool" where
  "recovery_allowed d = (case LoadMarker d of Inl e \<Rightarrow> False | Inr m \<Rightarrow> \<not> fst (RecoveryDeferred d m))"

text \<open>An operation that may lift the quarantine \<open>q\<close>.\<close>

fun clears :: "lifecycle_op \<Rightarrow> RecoveryQuarantine \<Rightarrow> bool" where
  "clears (LClear op g) q = (rqOperationID q = op \<and> rqGeneration q = g)"
| "clears LClearLegacy q = (rqOperationID q = ''legacy'' \<and> rqGeneration q = 1)"
| "clears _ q = False"

lemma recovery_allowed_iff: "recovery_allowed d \<longleftrightarrow> sdMarker d = Absent \<and> sdQuarantine d = Absent"
  by (auto simp: recovery_allowed_def LoadMarker_def loadMarkerUnlocked_def RecoveryDeferred_def LoadRecoveryQuarantine_def
      LoadRecoveryQuarantineBinding_def loadRecoveryQuarantineUnlocked_def validMarkerStates_def MarkerActive_def
      MarkerDecommissioning_def MarkerDecommissioned_def split: content.splits option.splits if_splits)

lemma replace_file_cases: "snd (replace_file fails f d) = d \<or> snd (replace_file fails f d) = f d"
  by (simp add: replace_file_def)

lemma remove_cases: "snd (remove_quarantine fails d) = d \<or> snd (remove_quarantine fails d) = d\<lparr>sdQuarantine := Absent\<rparr>"
  by (simp add: remove_quarantine_def)

lemma writeMarker_cases:
  "snd (WriteMarker fails st d) = d \<or>
   (snd (WriteMarker fails st d) = d\<lparr>sdMarker := Content st\<rparr> \<and> st \<in> set validMarkerStates \<and>
    sdMarker d \<noteq> Content MarkerDecommissioned)"
  using replace_file_cases [of fails "\<lambda>d. d\<lparr>sdMarker := Content st\<rparr>" d]
  by (auto simp: WriteMarker_def writeMarkerUnlocked_def loadMarkerUnlocked_def validMarkerStates_def split: content.splits)

lemma writeQuarantine_cases:
  "snd (writeRecoveryQuarantineUnlocked fails q d) = d \<or>
   (snd (writeRecoveryQuarantineUnlocked fails q d) = d\<lparr>sdQuarantine := Content (Some q)\<rparr> \<and>
    (sdQuarantine d = Absent \<or> (\<exists>q0. sdQuarantine d = Content (Some q0) \<and> rqGeneration q0 < rqGeneration q)))"
  using replace_file_cases [of fails "\<lambda>d. d\<lparr>sdQuarantine := Content (Some q)\<rparr>" d]
  by (auto simp: writeRecoveryQuarantineUnlocked_def loadRecoveryQuarantineUnlocked_def Let_def
      split: content.splits sum.splits option.splits)

lemma clear_cases:
  "snd (ClearRecoveryQuarantineForOperation fails i g d) = d \<or>
   (snd (ClearRecoveryQuarantineForOperation fails i g d) = d\<lparr>sdQuarantine := Absent\<rparr> \<and>
    (\<exists>q. sdQuarantine d = Content (Some q) \<and> rqOperationID q = i \<and> rqGeneration q = g))"
proof (cases "loadRecoveryQuarantineUnlocked d")
  case (Inr found)
  then show ?thesis
  proof (cases found)
    case (Some q)
    with Inr have "sdQuarantine d = Content (Some q)"
      by (auto simp: loadRecoveryQuarantineUnlocked_def split: content.splits option.splits if_splits)
    with Inr Some remove_cases [of fails d] show ?thesis
      by (cases "loadMarkerUnlocked d") (auto simp: ClearRecoveryQuarantineForOperation_def)
  qed (simp add: ClearRecoveryQuarantineForOperation_def)
qed (simp add: ClearRecoveryQuarantineForOperation_def)

lemma clear_legacy_cases:
  "snd (ClearRecoveryQuarantine fails d) = d \<or>
   (snd (ClearRecoveryQuarantine fails d) = d\<lparr>sdQuarantine := Absent\<rparr> \<and>
    (\<exists>q. sdQuarantine d = Content (Some q) \<and> rqOperationID q = ''legacy'' \<and> rqGeneration q = 1))"
proof (cases "loadRecoveryQuarantineUnlocked d")
  case (Inr found)
  then show ?thesis
  proof (cases found)
    case (Some q)
    with Inr have "sdQuarantine d = Content (Some q)"
      by (auto simp: loadRecoveryQuarantineUnlocked_def split: content.splits option.splits if_splits)
    with Inr Some remove_cases [of fails d] show ?thesis by (auto simp: ClearRecoveryQuarantine_def)
  qed (simp add: ClearRecoveryQuarantine_def)
qed (simp add: ClearRecoveryQuarantine_def)

text \<open>What one operation can do to the two files.\<close>

lemma exec_lifecycle_cases:
  obtains (same) "exec_lifecycle d (fails, op) = d"
  | (mark) st where "exec_lifecycle d (fails, op) = d\<lparr>sdMarker := Content st\<rparr>" "st \<in> set validMarkerStates"
      "sdMarker d \<noteq> Content MarkerDecommissioned"
  | (quarantine) q where "exec_lifecycle d (fails, op) = d\<lparr>sdQuarantine := Content (Some q)\<rparr>"
      "sdQuarantine d = Absent \<or> (\<exists>q0. sdQuarantine d = Content (Some q0) \<and> rqGeneration q0 < rqGeneration q)"
  | (clear) q where "exec_lifecycle d (fails, op) = d\<lparr>sdQuarantine := Absent\<rparr>" "sdQuarantine d = Content (Some q)" "clears op q"
proof (cases op)
  case (LWriteMarker st)
  then show ?thesis using writeMarker_cases [of fails st d] same mark by auto
next
  case (LQuarantine i g)
  then show ?thesis
    using writeQuarantine_cases [of fails "\<lparr>rqOperationID = i, rqGeneration = g\<rparr>" d] same quarantine
    by (auto simp: WriteRecoveryQuarantineForOperation_def)
next
  case (LQuarantineNext i)
  show ?thesis
  proof (cases "loadRecoveryQuarantineUnlocked d")
    case (Inl e)
    with LQuarantineNext show ?thesis by (intro same) (simp add: WriteNextRecoveryQuarantineForOperation_def)
  next
    case (Inr found)
    let ?q = "\<lparr>rqOperationID = i, rqGeneration = (case found of None \<Rightarrow> 1 | Some c \<Rightarrow> rqGeneration c + 1)\<rparr>"
    have "exec_lifecycle d (fails, op) = snd (writeRecoveryQuarantineUnlocked fails ?q d)"
      using Inr LQuarantineNext
      by (auto simp: WriteNextRecoveryQuarantineForOperation_def Let_def split: prod.splits sum.splits)
    then show ?thesis using writeQuarantine_cases [of fails ?q d] same quarantine by metis
  qed
next
  case LQuarantineLegacy
  then show ?thesis
    using writeQuarantine_cases [of fails "\<lparr>rqOperationID = ''legacy'', rqGeneration = 1\<rparr>" d] same quarantine
    by (auto simp: WriteRecoveryQuarantine_def WriteRecoveryQuarantineForOperation_def)
next
  case (LClear i g)
  then show ?thesis using clear_cases [of fails i g d] same clear by auto
next
  case LClearLegacy
  then show ?thesis using clear_legacy_cases [of fails d] same clear by auto
qed

text \<open>The marker file never disappears and the final marker never changes.\<close>

lemma marker_run:
  "(sdMarker d \<noteq> Absent \<longrightarrow> sdMarker (run_step exec_lifecycle d ops) \<noteq> Absent) \<and>
   (sdMarker d = Content MarkerDecommissioned \<longrightarrow> sdMarker (run_step exec_lifecycle d ops) = Content MarkerDecommissioned)"
proof (induction ops arbitrary: d)
  case (Cons x ops)
  obtain fails op where x: "x = (fails, op)" by (cases x)
  have "(sdMarker d \<noteq> Absent \<longrightarrow> sdMarker (exec_lifecycle d x) \<noteq> Absent) \<and>
      (sdMarker d = Content MarkerDecommissioned \<longrightarrow> sdMarker (exec_lifecycle d x) = Content MarkerDecommissioned)"
    by (cases rule: exec_lifecycle_cases [of d fails op]) (auto simp: x)
  with Cons.IH [of "exec_lifecycle d x"] show ?case by simp
qed simp

lemma recovery_step:
  assumes "\<not> recovery_allowed d" and "recovery_allowed (exec_lifecycle d (fails, op))"
  shows "sdMarker d = Absent \<and> (\<exists>q. sdQuarantine d = Content (Some q) \<and> clears op q)"
  by (cases rule: exec_lifecycle_cases [of d fails op]) (use assms in \<open>auto simp: recovery_allowed_iff\<close>)

lemma recovery_reopened:
  assumes "\<not> recovery_allowed d" and "recovery_allowed (run_step exec_lifecycle d ops)"
  shows "sdMarker d = Absent \<and>
    (\<exists>pre fails op post q. ops = pre @ (fails, op) # post \<and>
       sdQuarantine (run_step exec_lifecycle d pre) = Content (Some q) \<and> clears op q)"
  using assms
proof (induction ops arbitrary: d)
  case (Cons x ops)
  obtain fails op where x: "x = (fails, op)" by (cases x)
  show ?case
  proof (cases "recovery_allowed (exec_lifecycle d x)")
    case True
    with recovery_step [OF Cons.prems(1)] x obtain q where "sdMarker d = Absent" "sdQuarantine d = Content (Some q)" "clears op q"
      by blast
    then show ?thesis by (intro conjI exI [of _ "[]"] exI [of _ fails] exI [of _ op] exI [of _ ops] exI [of _ q]) (auto simp: x)
  next
    case False
    with Cons obtain pre fails' op' post q where m: "sdMarker (exec_lifecycle d x) = Absent"
      and "ops = pre @ (fails', op') # post" "sdQuarantine (run_step exec_lifecycle (exec_lifecycle d x) pre) = Content (Some q)"
      "clears op' q" by fastforce
    moreover have "sdMarker d = Absent" using m marker_run [of d "[x]"] by auto
    ultimately show ?thesis
      by (intro conjI exI [of _ "x # pre"] exI [of _ fails'] exI [of _ op'] exI [of _ post] exI [of _ q]) auto
  qed
qed simp

text \<open>
  C36: The recovery boundaries are one-way and fail closed. Recovery of the last known good listeners is
  allowed exactly when there is neither a marker file nor a quarantine file. A run of lifecycle
  operations, each with arbitrary file-system failures, that starts where recovery is deferred and ends
  where it is allowed started without a marker and contains a clear of exactly the stored quarantine
  (operation and generation); a marker, once written, is never removed, and DECOMMISSIONED never
  changes.
\<close>

theorem recovery_boundary_one_way:
  "(recovery_allowed d \<longleftrightarrow> sdMarker d = Absent \<and> sdQuarantine d = Absent) \<and>
   (sdMarker d \<noteq> Absent \<longrightarrow> sdMarker (run_step exec_lifecycle d ops) \<noteq> Absent) \<and>
   (sdMarker d = Content MarkerDecommissioned \<longrightarrow> sdMarker (run_step exec_lifecycle d ops) = Content MarkerDecommissioned) \<and>
   (\<not> recovery_allowed d \<and> recovery_allowed (run_step exec_lifecycle d ops) \<longrightarrow>
      sdMarker d = Absent \<and>
      (\<exists>pre fails op post q. ops = pre @ (fails, op) # post \<and>
         sdQuarantine (run_step exec_lifecycle d pre) = Content (Some q) \<and> clears op q))"
  using recovery_allowed_iff [of d] marker_run [of d ops] recovery_reopened [of d ops] by blast

definition demo_dir :: state_dir where
  "demo_dir = \<lparr>sdMarker = Absent, sdQuarantine = Content (Some \<lparr>rqOperationID = ''r1'', rqGeneration = 4\<rparr>)\<rparr>"

theorem recovery_boundary_one_way_witness:
  "\<exists>pre fails op post q. [((\<lambda>_. False), LClear ''r1'' 4)] = pre @ (fails, op) # post \<and>
     sdQuarantine (run_step exec_lifecycle demo_dir pre) = Content (Some q) \<and> clears op q"
proof -
  have "\<not> recovery_allowed demo_dir \<and> recovery_allowed (run_step exec_lifecycle demo_dir [((\<lambda>_. False), LClear ''r1'' 4)])"
    by (simp add: recovery_allowed_iff demo_dir_def ClearRecoveryQuarantineForOperation_def loadRecoveryQuarantineUnlocked_def
        loadMarkerUnlocked_def MarkerActive_def MarkerDecommissioned_def remove_quarantine_def)
  with recovery_boundary_one_way [of demo_dir "[((\<lambda>_. False), LClear ''r1'' 4)]"] show ?thesis by blast
qed

end
