(* ===== verification/Agent_Endpoint.thy ===== *)
theory Agent_Endpoint
  imports Agent_Prelude
begin

text \<open>
  \<open>internal/protocol/endpoint.go\<close> with the parts of \<open>net\<close>, \<open>net/netip\<close> and \<open>strconv\<close> it uses:
  splitting \<open>host:port\<close>, parsing IPv4 literals and decimal integers, classifying addresses, and the
  endpoint validators built on them (also \<open>ValidateProbeEndpoint\<close> of \<open>probe.go\<close> and the target
  validator of \<open>domain.go\<close>, which share the same three steps).
\<close>

unbundle bit_operations_syntax

section \<open>Addresses\<close>

type_synonym u8 = "8 word"

text \<open>\<open>netip.Addr\<close>: the zero value, an IPv4 address, or an IPv6 address (16 bytes) with its zone.\<close>

datatype netip_addr = AddrInvalid | Addr4 u8 u8 u8 u8 | Addr6 "u8 list" string

fun Is4 :: "netip_addr \<Rightarrow> bool" where
  "Is4 (Addr4 a b c d) = True"
| "Is4 _ = False"

fun Is4In6 :: "netip_addr \<Rightarrow> bool" where
  "Is4In6 (Addr6 v z) = (take 12 v = replicate 10 0 @ [255, 255])"
| "Is4In6 _ = False"

fun IsUnspecified :: "netip_addr \<Rightarrow> bool" where
  "IsUnspecified (Addr4 a b c d) = (a = 0 \<and> b = 0 \<and> c = 0 \<and> d = 0)"
| "IsUnspecified (Addr6 v z) = (v = replicate 16 0 \<and> z = [])"
| "IsUnspecified AddrInvalid = False"

fun IsLoopback :: "netip_addr \<Rightarrow> bool" where
  "IsLoopback (Addr4 a b c d) = (a = 127)"
| "IsLoopback (Addr6 v z) = (if Is4In6 (Addr6 v z) then v ! 12 = 127 else v = replicate 15 0 @ [1])"
| "IsLoopback AddrInvalid = False"

section \<open>Classification\<close>

datatype EndpointClass =
  ClassUnspecified | ClassLoopback | ClassRFC1918 | ClassCGNAT | ClassLinkLocal | ClassBenchmark
| ClassDocumentation | ClassMulticast | ClassReserved | ClassGlobalUnicast | ClassIPv4MappedIPv6

definition classifyIPv4 :: "u8 \<Rightarrow> u8 \<Rightarrow> u8 \<Rightarrow> EndpointClass" where
  "classifyIPv4 b0 b1 b2 =
     (if b0 = 10 then ClassRFC1918
      else if b0 = 172 \<and> b1 \<ge> 16 \<and> b1 \<le> 31 then ClassRFC1918
      else if b0 = 192 \<and> b1 = 168 then ClassRFC1918
      else if b0 = 100 \<and> b1 \<ge> 64 \<and> b1 \<le> 127 then ClassCGNAT
      else if b0 = 169 \<and> b1 = 254 then ClassLinkLocal
      else if b0 = 198 \<and> b1 \<ge> 18 \<and> b1 \<le> 19 then ClassBenchmark
      else if b0 = 192 \<and> b1 = 0 \<and> b2 = 2 then ClassDocumentation
      else if b0 = 198 \<and> b1 = 51 \<and> b2 = 100 then ClassDocumentation
      else if b0 = 203 \<and> b1 = 0 \<and> b2 = 113 then ClassDocumentation
      else if b0 = 192 \<and> b1 = 0 \<and> b2 = 0 then ClassReserved
      else if b0 = 192 \<and> b1 = 31 \<and> b2 = 196 then ClassReserved
      else if b0 = 192 \<and> b1 = 52 \<and> b2 = 193 then ClassReserved
      else if b0 = 192 \<and> b1 = 88 \<and> b2 = 99 then ClassReserved
      else if b0 = 192 \<and> b1 = 175 \<and> b2 = 48 then ClassReserved
      else if b0 \<ge> 224 \<and> b0 \<le> 239 then ClassMulticast
      else if b0 = 0 then ClassReserved
      else if b0 \<ge> 240 then ClassReserved
      else ClassGlobalUnicast)"

fun ClassifyIP :: "netip_addr \<Rightarrow> EndpointClass" where
  "ClassifyIP AddrInvalid = ClassUnspecified"
| "ClassifyIP (Addr4 a b c d) =
     (if IsUnspecified (Addr4 a b c d) then ClassUnspecified
      else if IsLoopback (Addr4 a b c d) then ClassLoopback
      else classifyIPv4 a b c)"
| "ClassifyIP (Addr6 v z) =
     (if Is4In6 (Addr6 v z) then ClassIPv4MappedIPv6
      else if IsUnspecified (Addr6 v z) then ClassUnspecified
      else if IsLoopback (Addr6 v z) then ClassLoopback
      else if v ! 0 = 0xfe \<and> v ! 1 AND 0xc0 = 0x80 then ClassLinkLocal
      else if v ! 0 = 0xff then ClassMulticast
      else if v ! 0 AND 0xfe = 0xfc then ClassRFC1918
      else if v ! 0 = 0x20 \<and> v ! 1 = 0x01 \<and> v ! 2 = 0x0d \<and> v ! 3 = 0xb8 then ClassDocumentation
      else ClassGlobalUnicast)"

definition IsGlobalEndpoint :: "netip_addr \<Rightarrow> bool" where
  "IsGlobalEndpoint ip =
     (if \<not> Is4 ip then False
      else ClassifyIP ip = ClassDocumentation \<or> ClassifyIP ip = ClassGlobalUnicast)"

section \<open>Library parsers\<close>

definition is_dec_digit :: "char \<Rightarrow> bool" where
  "is_dec_digit c \<longleftrightarrow> (48::int) \<le> of_char c \<and> of_char c \<le> (57::int)"

definition digit_val :: "char \<Rightarrow> int" where
  "digit_val c = of_char c - 48"

definition dec_val :: "string \<Rightarrow> int" where
  "dec_val ds = foldl (\<lambda>n c. n * 10 + digit_val c) 0 ds"

text \<open>\<open>strconv.Atoi\<close> on a 64-bit platform: an optional sign, at least one digit, the int64 range.\<close>

definition Atoi :: "string \<Rightarrow> int option" where
  "Atoi s =
     (let neg = (s \<noteq> [] \<and> hd s = CHR ''-'');
          ds = (if s \<noteq> [] \<and> (hd s = CHR ''-'' \<or> hd s = CHR ''+'') then tl s else s)
      in if ds = [] \<or> \<not> list_all is_dec_digit ds then None
         else if neg then (if dec_val ds > 9223372036854775808 then None else Some (- dec_val ds))
         else if dec_val ds \<ge> 9223372036854775808 then None else Some (dec_val ds))"

text \<open>
  The IPv4 branch of \<open>netip.ParseAddr\<close>: four decimal octets without leading zeros. A literal with
  a colon or a zone is not an IPv4 address, and this loop rejects it as well.
\<close>

fun parseIPv4Fields :: "int \<Rightarrow> nat \<Rightarrow> int list \<Rightarrow> string \<Rightarrow> int list option" where
  "parseIPv4Fields val digLen fields [] = (if length fields < 3 then None else Some (fields @ [val]))"
| "parseIPv4Fields val digLen fields (c # cs) =
     (if is_dec_digit c then
        (if digLen = 1 \<and> val = 0 then None
         else let v = val * 10 + digit_val c
              in if v > 255 then None else parseIPv4Fields v (Suc digLen) fields cs)
      else if c = CHR ''.'' then
        (if digLen = 0 \<or> cs = [] then None
         else if length fields = 3 then None
         else parseIPv4Fields 0 0 (fields @ [val]) cs)
      else None)"

definition ParseAddr4 :: "string \<Rightarrow> netip_addr option" where
  "ParseAddr4 s =
     (case parseIPv4Fields 0 0 [] s of
        Some [a, b, c, d] \<Rightarrow> Some (Addr4 (of_int a) (of_int b) (of_int c) (of_int d))
      | _ \<Rightarrow> None)"

definition index_byte :: "char \<Rightarrow> string \<Rightarrow> nat option" where
  "index_byte c s = (if c \<in> set s then Some (length (takeWhile (\<lambda>x. x \<noteq> c) s)) else None)"

definition last_index_byte :: "char \<Rightarrow> string \<Rightarrow> nat option" where
  "last_index_byte c s =
     (if c \<in> set s then Some (length s - 1 - length (takeWhile (\<lambda>x. x \<noteq> c) (rev s))) else None)"

text \<open>\<open>net.SplitHostPort\<close>; the error texts are not distinguished.\<close>

definition SplitHostPort :: "string \<Rightarrow> (string \<times> string) option" where
  "SplitHostPort hp =
     (case last_index_byte (CHR '':'') hp of
        None \<Rightarrow> None
      | Some i \<Rightarrow>
          (case (if hd hp = CHR ''['' then
                   (case index_byte (CHR '']'') hp of
                      None \<Rightarrow> None
                    | Some e \<Rightarrow> if Suc e = i then Some (take (e - 1) (drop 1 hp), 1, Suc e) else None)
                 else if CHR '':'' \<in> set (take i hp) then None
                 else Some (take i hp, 0, 0)) of
             None \<Rightarrow> None
           | Some (host, j, k) \<Rightarrow>
               if CHR ''['' \<in> set (drop j hp) then None
               else if CHR '']'' \<in> set (drop k hp) then None
               else Some (host, drop (Suc i) hp)))"

section \<open>Validators\<close>

definition ValidatePort :: "int \<Rightarrow> bool" where
  "ValidatePort port \<longleftrightarrow> \<not> (port < 1 \<or> port > 65535)"

datatype endpoint_error =
  EndpointEmpty | EndpointHostPort | EndpointNotIPv4 | EndpointNotGlobal | EndpointPortSyntax
| EndpointPortRange

definition ValidateEndpoint :: "string \<Rightarrow> endpoint_error + netip_addr \<times> u16" where
  "ValidateEndpoint endpoint =
     (if endpoint = [] then Inl EndpointEmpty
      else case SplitHostPort endpoint of
        None \<Rightarrow> Inl EndpointHostPort
      | Some (host, portText) \<Rightarrow>
          if host = [] then Inl EndpointHostPort
          else case ParseAddr4 host of
            None \<Rightarrow> Inl EndpointNotIPv4
          | Some ip \<Rightarrow>
              if \<not> IsGlobalEndpoint ip then Inl EndpointNotGlobal
              else case Atoi portText of
                None \<Rightarrow> Inl EndpointPortSyntax
              | Some port \<Rightarrow>
                  if \<not> ValidatePort port then Inl EndpointPortRange
                  else Inr (ip, of_int port))"

definition ProbeEndpointMax :: nat where "ProbeEndpointMax = 255"

text \<open>\<open>probe.go\<close>: every failure is the one sentinel \<open>ErrProbeEndpoint\<close>.\<close>

definition ValidateProbeEndpoint :: "string \<Rightarrow> bool" where
  "ValidateProbeEndpoint endpoint =
     (if endpoint = [] \<or> length endpoint > ProbeEndpointMax then False
      else case SplitHostPort endpoint of
        None \<Rightarrow> False
      | Some (host, portText) \<Rightarrow>
          if host = [] then False
          else case ParseAddr4 host of
            None \<Rightarrow> False
          | Some ip \<Rightarrow>
              if \<not> IsGlobalEndpoint ip then False
              else case Atoi portText of
                None \<Rightarrow> False
              | Some port \<Rightarrow> \<not> (port \<le> 0 \<or> port > 65535))"

text \<open>\<open>domain.go\<close>: the target of a Forward, any concrete IPv4 literal with a port.\<close>

definition validateIPv4Target :: "string \<Rightarrow> bool" where
  "validateIPv4Target target =
     (case SplitHostPort target of
        None \<Rightarrow> False
      | Some (host, portText) \<Rightarrow>
          if host = [] then False
          else case ParseAddr4 host of
            None \<Rightarrow> False
          | Some ip \<Rightarrow>
              (case Atoi portText of None \<Rightarrow> False | Some port \<Rightarrow> ValidatePort port))"

section \<open>Printing\<close>

text \<open>\<open>netip.AddrPort.String\<close> for IPv4: the canonical text of an endpoint.\<close>

fun dec_string :: "nat \<Rightarrow> string" where
  "dec_string n = (if n < 10 then [char_of (48 + n)] else dec_string (n div 10) @ [char_of (48 + n mod 10)])"

declare dec_string.simps [simp del]

definition addr4_string :: "u8 \<Rightarrow> u8 \<Rightarrow> u8 \<Rightarrow> u8 \<Rightarrow> string" where
  "addr4_string a b c d =
     dec_string (unat a) @ ''.'' @ dec_string (unat b) @ ''.'' @ dec_string (unat c) @ ''.''
     @ dec_string (unat d)"

definition addrport_string :: "u8 \<Rightarrow> u8 \<Rightarrow> u8 \<Rightarrow> u8 \<Rightarrow> u16 \<Rightarrow> string" where
  "addrport_string a b c d port = addr4_string a b c d @ '':'' @ dec_string (unat port)"

section \<open>Parsing what is printed\<close>

lemma of_char_digit: "k < 10 \<Longrightarrow> of_char (char_of (48 + k)) = 48 + int k"
proof -
  assume "k < 10"
  have "(of_char (char_of (48 + k) :: char) :: int) = of_char (char_of (int (48 + k)) :: char)"
    by (simp only: char_of_nat)
  also have "\<dots> = int (48 + k) mod 256" by (rule of_char_of)
  finally show ?thesis using \<open>k < 10\<close> by simp
qed

lemma digit_char [simp]:
  assumes "k < 10"
  shows "is_dec_digit (char_of (48 + k))" and "digit_val (char_of (48 + k)) = int k"
  using of_char_digit [OF assms] assms by (simp_all add: is_dec_digit_def digit_val_def)

lemma dec_digits: "list_all is_dec_digit (dec_string n)" and dec_nonempty: "dec_string n \<noteq> []"
proof -
  show "list_all is_dec_digit (dec_string n)"
    by (induction n rule: dec_string.induct) (subst dec_string.simps, simp)
  show "dec_string n \<noteq> []" by (subst dec_string.simps) simp
qed

lemma dec_val_snoc: "dec_val (ds @ [c]) = dec_val ds * 10 + digit_val c"
  by (simp add: dec_val_def)

lemma dec_val_dec: "dec_val (dec_string n) = int n"
proof (induction n rule: dec_string.induct)
  case (1 n)
  show ?case
  proof (cases "n < 10")
    case True
    then show ?thesis by (subst dec_string.simps) (simp add: dec_val_def)
  next
    case False
    then have "dec_val (dec_string n) = int (n div 10) * 10 + int (n mod 10)"
      using "1.IH" by (subst dec_string.simps) (simp add: dec_val_snoc)
    moreover have "int n = int (n div 10 * 10 + n mod 10)" by simp
    ultimately show ?thesis by (simp only: of_nat_add of_nat_mult of_nat_numeral)
  qed
qed

lemma not_digit: "\<not> is_dec_digit (CHR ''-'')" "\<not> is_dec_digit (CHR ''+'')" "\<not> is_dec_digit (CHR ''.'')"
  "\<not> is_dec_digit (CHR '':'')" "\<not> is_dec_digit (CHR ''['')" "\<not> is_dec_digit (CHR '']'')"
  by (simp_all add: is_dec_digit_def)

lemma Atoi_dec: "n < 2 ^ 63 \<Longrightarrow> Atoi (dec_string n) = Some (int n)"
proof -
  assume n: "n < 2 ^ 63"
  have "is_dec_digit (hd (dec_string n))"
    using dec_digits [of n] dec_nonempty [of n] by (cases "dec_string n") auto
  then have "hd (dec_string n) \<noteq> CHR ''-''" "hd (dec_string n) \<noteq> CHR ''+''"
    using not_digit by metis+
  then show ?thesis
    using n dec_digits [of n] dec_nonempty [of n] by (simp add: Atoi_def dec_val_dec)
qed

lemma dec_string_cases:
  assumes "n < 1000"
  shows "dec_string n = (if n < 10 then [char_of (48 + n)]
     else if n < 100 then [char_of (48 + n div 10), char_of (48 + n mod 10)]
     else [char_of (48 + n div 100), char_of (48 + n div 10 mod 10), char_of (48 + n mod 10)])"
proof -
  have "n div 100 = n div 10 div 10" by (simp add: div_mult2_eq [symmetric])
  moreover have "n div 10 div 10 < 10" "n div 10 < 10 \<longleftrightarrow> n < 100" using assms by auto
  ultimately show ?thesis
    using assms by (simp add: dec_string.simps [of n] dec_string.simps [of "n div 10"]
        dec_string.simps [of "n div 10 div 10"])
qed

lemma parse_octet:
  assumes "n < 256"
  shows "parseIPv4Fields 0 0 fs (dec_string n @ r) =
    parseIPv4Fields (int n) (length (dec_string n)) fs r"
proof (cases "n < 10")
  case True
  then show ?thesis by (simp add: dec_string_cases)
next
  case ge10: False
  show ?thesis
  proof (cases "n < 100")
    case True
    have "int (n div 10) * 10 + int (n mod 10) = int n" "n div 10 \<noteq> 0" "n div 10 < 10"
      using True ge10 by presburger+
    with True ge10 show ?thesis by (simp add: dec_string_cases del: of_nat_div of_nat_mod)
  next
    case False
    have split: "int (m div 10) * 10 + int (m mod 10) = int m" for m by presburger
    have d100: "n div 100 = n div 10 div 10" by (simp add: div_mult2_eq [symmetric])
    have "n div 100 \<noteq> 0" "n div 100 < 10" "n div 10 \<le> 255" using False assms by auto
    then have "int (n div 10) \<le> 255" by simp
    with False assms \<open>n div 100 \<noteq> 0\<close> \<open>n div 100 < 10\<close> show ?thesis
      by (simp add: dec_string_cases split [of n] split [of "n div 10", folded d100]
          del: of_nat_div of_nat_mod)
  qed
qed

lemma of_int_u8: "of_int (int (unat (a :: u8))) = a"
  by simp

lemma ParseAddr4_print: "ParseAddr4 (addr4_string a b c d) = Some (Addr4 a b c d)"
proof -
  have small: "unat (x :: u8) < 256" for x
    using unsigned_less [of x, where ?'a = nat] by simp
  have last: "parseIPv4Fields 0 0 fs (dec_string (unat x)) =
      parseIPv4Fields (int (unat x)) (length (dec_string (unat x))) fs []" for fs and x :: u8
    using parse_octet [OF small, of fs x "[]"] by simp
  show ?thesis
    by (simp add: ParseAddr4_def addr4_string_def parse_octet [OF small] last not_digit dec_nonempty
        del: of_int_of_nat_eq)
qed

lemma dec_no_punct:
  "CHR ''.'' \<notin> set (dec_string n)" "CHR '':'' \<notin> set (dec_string n)" "CHR ''['' \<notin> set (dec_string n)"
  "CHR '']'' \<notin> set (dec_string n)"
  using dec_digits [of n] not_digit by (auto simp: list_all_iff)

lemma last_index_append: "c \<notin> set q \<Longrightarrow> last_index_byte c (p @ c # q) = Some (length p)"
proof -
  assume c: "c \<notin> set q"
  then have "takeWhile (\<lambda>x. x \<noteq> c) (rev q @ c # rev p) = rev q"
    by (subst takeWhile_append2) auto
  then show ?thesis by (simp add: last_index_byte_def)
qed

lemma SplitHostPort_plain:
  assumes "set (host @ port) \<inter> {CHR '':'', CHR ''['', CHR '']''} = {}" and "host \<noteq> []"
  shows "SplitHostPort (host @ '':'' @ port) = Some (host, port)"
proof -
  have "hd host \<in> set host" using assms(2) by simp
  moreover have "CHR ''['' \<notin> set host" using assms(1) by auto
  ultimately have "hd host \<noteq> CHR ''[''" by metis
  with assms show ?thesis
    by (auto simp: SplitHostPort_def last_index_append)
qed

lemma addr4_no_colon:
  "set (addr4_string a b c d @ dec_string n) \<inter> {CHR '':'', CHR ''['', CHR '']''} = {}"
  by (auto simp: addr4_string_def dec_no_punct)

lemma SplitHostPort_print:
  "SplitHostPort (addrport_string a b c d p) = Some (addr4_string a b c d, dec_string (unat p))"
  unfolding addrport_string_def
  by (rule SplitHostPort_plain [OF addr4_no_colon]) (simp add: addr4_string_def)

section \<open>The address classes as prefixes\<close>

text \<open>
  The reference reading of the classification: the 32-bit address is in none of the listed prefixes
  (base address and prefix length).
\<close>

definition ipv4_number :: "u8 \<Rightarrow> u8 \<Rightarrow> u8 \<Rightarrow> u8 \<Rightarrow> nat" where
  "ipv4_number a b c d = unat a * 2 ^ 24 + unat b * 2 ^ 16 + unat c * 2 ^ 8 + unat d"

definition in_prefix :: "nat \<Rightarrow> nat \<times> nat \<Rightarrow> bool" where
  "in_prefix n p \<longleftrightarrow> n div 2 ^ (32 - snd p) = fst p div 2 ^ (32 - snd p)"

definition quad :: "nat \<Rightarrow> nat \<Rightarrow> nat \<Rightarrow> nat \<Rightarrow> nat" where
  "quad a b c d = a * 2 ^ 24 + b * 2 ^ 16 + c * 2 ^ 8 + d"

definition special_prefixes :: "(nat \<times> nat) list" where
  "special_prefixes =
     [(quad 0 0 0 0, 8), (quad 10 0 0 0, 8), (quad 100 64 0 0, 10), (quad 127 0 0 0, 8),
      (quad 169 254 0 0, 16), (quad 172 16 0 0, 12), (quad 192 0 0 0, 24), (quad 192 31 196 0, 24),
      (quad 192 52 193 0, 24), (quad 192 88 99 0, 24), (quad 192 168 0 0, 16), (quad 192 175 48 0, 24),
      (quad 198 18 0 0, 15), (quad 224 0 0 0, 4), (quad 240 0 0 0, 4)]"


lemma quad_prefix:
  assumes "b < 256" "c < 256" "d < 256"
  shows "quad a b c d div 2 ^ 24 = a" "quad a b c d div 2 ^ 16 = a * 256 + b"
    "quad a b c d div 2 ^ 8 = a * 65536 + b * 256 + c" "quad a b c d div 2 ^ 28 = a div 16"
    "quad a b c d div 2 ^ 22 = a * 4 + b div 64" "quad a b c d div 2 ^ 20 = a * 16 + b div 16"
    "quad a b c d div 2 ^ 17 = a * 128 + b div 2"
proof -
  let ?n = "quad a b c d"
  show 8: "?n div 2 ^ 8 = a * 65536 + b * 256 + c" using assms by (simp add: quad_def)
  have "?n div 2 ^ 16 = ?n div 2 ^ 8 div 2 ^ 8" by (simp add: div_mult2_eq [symmetric])
  then show 16: "?n div 2 ^ 16 = a * 256 + b" using assms by (simp add: 8 [simplified])
  have "?n div 2 ^ 24 = ?n div 2 ^ 16 div 2 ^ 8" by (simp add: div_mult2_eq [symmetric])
  then show 24: "?n div 2 ^ 24 = a" using assms by (simp add: 16 [simplified])
  have "?n div 2 ^ 28 = ?n div 2 ^ 24 div 2 ^ 4" by (simp add: div_mult2_eq [symmetric])
  then show "?n div 2 ^ 28 = a div 16" by (simp add: 24 [simplified])
  have "?n div 2 ^ 22 = ?n div 2 ^ 16 div 2 ^ 6" by (simp add: div_mult2_eq [symmetric])
  then show "?n div 2 ^ 22 = a * 4 + b div 64" by (simp add: 16 [simplified])
  have "?n div 2 ^ 20 = ?n div 2 ^ 16 div 2 ^ 4" by (simp add: div_mult2_eq [symmetric])
  then show "?n div 2 ^ 20 = a * 16 + b div 16" by (simp add: 16 [simplified])
  have "?n div 2 ^ 17 = ?n div 2 ^ 16 div 2 ^ 1" by (simp add: div_mult2_eq [symmetric])
  then show "?n div 2 ^ 17 = a * 128 + b div 2" by (simp add: 16 [simplified])
qed

lemma place_eq: "x < k \<Longrightarrow> y < k \<Longrightarrow> a * k + x = p * k + y \<longleftrightarrow> a = p \<and> x = (y :: nat)"
proof -
  assume x: "x < k" and y: "y < k"
  have "(a * k + x) div k = a" "(p * k + y) div k = p" using x y by auto
  then show ?thesis by (metis add_left_cancel)
qed

lemma in_prefix_octets:
  assumes "b < 256" "c < 256" "d < 256"
  shows "in_prefix (quad a b c d) (quad p 0 0 0, 8) \<longleftrightarrow> a = p"
    "q < 256 \<Longrightarrow> in_prefix (quad a b c d) (quad p q 0 0, 16) \<longleftrightarrow> a = p \<and> b = q"
    "q < 256 \<Longrightarrow> r < 256 \<Longrightarrow> in_prefix (quad a b c d) (quad p q r 0, 24) \<longleftrightarrow> a = p \<and> b = q \<and> c = r"
    "in_prefix (quad a b c d) (quad p 0 0 0, 4) \<longleftrightarrow> a div 16 = p div 16"
    "q < 256 \<Longrightarrow> in_prefix (quad a b c d) (quad p q 0 0, 10) \<longleftrightarrow> a = p \<and> b div 64 = q div 64"
    "q < 256 \<Longrightarrow> in_prefix (quad a b c d) (quad p q 0 0, 12) \<longleftrightarrow> a = p \<and> b div 16 = q div 16"
    "q < 256 \<Longrightarrow> in_prefix (quad a b c d) (quad p q 0 0, 15) \<longleftrightarrow> a = p \<and> b div 2 = q div 2"
proof -
  note unfold = in_prefix_def quad_prefix [simplified] place_eq
  show "in_prefix (quad a b c d) (quad p 0 0 0, 8) \<longleftrightarrow> a = p"
    "in_prefix (quad a b c d) (quad p 0 0 0, 4) \<longleftrightarrow> a div 16 = p div 16"
    using assms by (simp_all add: unfold)
  show "in_prefix (quad a b c d) (quad p q 0 0, 16) \<longleftrightarrow> a = p \<and> b = q"
    "in_prefix (quad a b c d) (quad p q 0 0, 10) \<longleftrightarrow> a = p \<and> b div 64 = q div 64"
    "in_prefix (quad a b c d) (quad p q 0 0, 12) \<longleftrightarrow> a = p \<and> b div 16 = q div 16"
    "in_prefix (quad a b c d) (quad p q 0 0, 15) \<longleftrightarrow> a = p \<and> b div 2 = q div 2" if "q < 256"
    using assms that by (simp_all add: unfold)
  show "in_prefix (quad a b c d) (quad p q r 0, 24) \<longleftrightarrow> a = p \<and> b = q \<and> c = r" if "q < 256" "r < 256"
  proof -
    have "(a * 256 + b) * 256 + c = (p * 256 + q) * 256 + r \<longleftrightarrow> a = p \<and> b = q \<and> c = r"
      using assms that by (simp only: place_eq conj_assoc)
    then show ?thesis using assms that by (simp add: in_prefix_def quad_prefix [simplified] mult.commute)
  qed
qed

lemma same_block: "0 < k \<Longrightarrow> x div k = m \<longleftrightarrow> m * k \<le> x \<and> x < m * k + (k :: nat)"
  by (metis add.commute add_mult_distrib2 div_nat_eqI dividend_less_times_div mult.commute
      mult_Suc_right times_div_less_eq_dividend)

definition special192 :: "nat \<Rightarrow> nat \<Rightarrow> bool" where
  "special192 b c \<longleftrightarrow> (b = 0 \<and> c = 0) \<or> (b = 31 \<and> c = 196) \<or> (b = 52 \<and> c = 193) \<or> (b = 88 \<and> c = 99)
     \<or> b = 168 \<or> (b = 175 \<and> c = 48)"

text \<open>
  An IPv4 address is an acceptable public endpoint exactly when it lies in none of the special
  prefixes (this host, private, shared, loopback, link-local, protocol assignments, AS112, AMT, 6to4
  relay, benchmarking, multicast and reserved space); the documentation prefixes are accepted, as
  the probe and publication tests of the program need.
\<close>

theorem global_endpoint_prefixes:
  "IsGlobalEndpoint (Addr4 a b c d) \<longleftrightarrow>
     list_all (\<lambda>p. \<not> in_prefix (ipv4_number a b c d) p) special_prefixes"
proof -
  have bd: "unat (x :: u8) < 256" for x
    using unsigned_less [of x, where ?'a = nat] by simp
  have num: "ipv4_number a b c d = quad (unat a) (unat b) (unat c) (unat d)"
    by (simp add: ipv4_number_def quad_def)
  let ?A = "unat a" and ?B = "unat b" and ?C = "unat c"
  have high: "(224 \<le> ?A \<longrightarrow> \<not> ?A < 240) \<and> \<not> 240 \<le> ?A \<longleftrightarrow> \<not> 224 \<le> ?A" by linarith
  have le: "?B < 128 \<longleftrightarrow> ?B \<le> 127" "?B < 32 \<longleftrightarrow> ?B \<le> 31" "?B < 20 \<longleftrightarrow> ?B \<le> 19" by linarith+
  have special: "list_all (\<lambda>p. \<not> in_prefix (ipv4_number a b c d) p) special_prefixes \<longleftrightarrow>
      \<not> (?A = 0 \<or> ?A = 10 \<or> (?A = 100 \<and> 64 \<le> ?B \<and> ?B \<le> 127) \<or> ?A = 127 \<or> (?A = 169 \<and> ?B = 254)
        \<or> (?A = 172 \<and> 16 \<le> ?B \<and> ?B \<le> 31) \<or> (?A = 192 \<and> special192 ?B ?C)
        \<or> (?A = 198 \<and> 18 \<le> ?B \<and> ?B \<le> 19) \<or> 224 \<le> ?A)"
    using bd [of a] high
    by (cases "?A = 192") (simp_all add: num special_prefixes_def in_prefix_octets bd same_block special192_def le)
  show ?thesis
    unfolding special by (simp add: IsGlobalEndpoint_def classifyIPv4_def special192_def word_le_nat_alt word_unat_eq_iff)
qed

lemma of_int_u16: "of_int (int (unat (p :: u16))) = p"
  by simp

text \<open>
  The canonical text of every global IPv4 endpoint with a non-zero port is accepted, and the
  validator returns exactly the address and port that were printed.
\<close>

theorem endpoint_roundtrip:
  "IsGlobalEndpoint (Addr4 a b c d) \<Longrightarrow> p \<noteq> 0 \<Longrightarrow>
     ValidateEndpoint (addrport_string a b c d p) = Inr (Addr4 a b c d, p)"
proof -
  assume glob: "IsGlobalEndpoint (Addr4 a b c d)" and p: "p \<noteq> 0"
  have bound: "unat p < 65536" using unsigned_less [of p, where ?'a = nat] by simp
  moreover have "unat p \<noteq> 0" using p by (simp add: unat_eq_0)
  ultimately have port: "ValidatePort (int (unat p))" by (simp add: ValidatePort_def del: of_nat_unat)
  have "addrport_string a b c d p \<noteq> []" "addr4_string a b c d \<noteq> []"
    by (simp_all add: addrport_string_def addr4_string_def)
  with glob port show ?thesis
    using bound of_int_u16
    by (simp add: ValidateEndpoint_def SplitHostPort_print ParseAddr4_print Atoi_dec del: of_nat_unat of_int_of_nat_eq)
qed

theorem endpoint_roundtrip_witness:
  "IsGlobalEndpoint (Addr4 8 8 4 4) \<and> (443 :: u16) \<noteq> 0 \<and>
   ValidateEndpoint (addrport_string 8 8 4 4 443) = Inr (Addr4 8 8 4 4, 443)"
proof -
  have "IsGlobalEndpoint (Addr4 8 8 4 4)" by (simp add: IsGlobalEndpoint_def classifyIPv4_def)
  moreover have "(443 :: u16) \<noteq> 0" by simp
  ultimately show ?thesis using endpoint_roundtrip by blast
qed

text \<open>
  The two independently written validators agree: a probe endpoint is valid exactly when it is a
  valid public endpoint of at most 255 bytes, and an accepted endpoint always names a global IPv4
  address and a port from 1 to 65535.
\<close>

theorem probe_endpoint_agrees:
  "ValidateProbeEndpoint s \<longleftrightarrow>
     length s \<le> 255 \<and> (\<exists>ip port. ValidateEndpoint s = Inr (ip, port) \<and> IsGlobalEndpoint ip \<and> port \<noteq> 0)"
proof -
  have word_port: "ValidatePort n \<Longrightarrow> (word_of_int n :: u16) \<noteq> 0" for n
  proof
    assume "ValidatePort n" "(word_of_int n :: u16) = 0"
    then have "uint (word_of_int n :: u16) = 0" by simp
    then have "take_bit 16 n = 0" by (simp add: unsigned_of_int)
    with \<open>ValidatePort n\<close> show False by (simp add: ValidatePort_def take_bit_eq_mod)
  qed
  show ?thesis
    by (auto simp: ValidateProbeEndpoint_def ValidateEndpoint_def ProbeEndpointMax_def ValidatePort_def word_port
        split: option.splits if_splits)
qed

text \<open>
  The validators accept texts that are not the canonical spelling of the endpoint they denote:
  brackets, a plus sign and leading zeros in the port all pass.
\<close>

lemma endpoint_not_canonical:
  "ValidateEndpoint ''[8.8.8.8]:+080'' = Inr (Addr4 8 8 8 8, 80)"
  "''[8.8.8.8]:+080'' \<noteq> addrport_string 8 8 8 8 80"
  by code_simp+

end
