(* ===== verification/Agent_Domain.thy ===== *)
theory Agent_Domain
  imports Agent_Endpoint
begin

text \<open>
  \<open>internal/protocol/domain.go\<close>: desired Forwards and the desired snapshot, the orthogonal activation
  axes with their truth relations, the applied record, and the frozen transition tables of the
  durable control machines. Go's typed strings (\<open>Protocol\<close>, \<open>Strategy\<close>, \<open>DesiredPresence\<close>) stay strings:
  values outside the enumerations exist and are what the validators reject.
\<close>

section \<open>Enumerations\<close>

definition Protocol_Valid :: "string \<Rightarrow> bool" where
  "Protocol_Valid p \<longleftrightarrow> p = ''tcp'' \<or> p = ''udp''"

definition ValidStrategies :: "string list" where
  "ValidStrategies = [''direct-v4'', ''manual-static-v4'', ''explicit-gateway'', ''stun-only'', ''auto'']"

definition Strategy_Valid :: "string \<Rightarrow> bool" where
  "Strategy_Valid s \<longleftrightarrow> list_ex (\<lambda>v. s = v) ValidStrategies"

definition PresencePresent :: string where "PresencePresent = ''PRESENT''"
definition PresenceAbsent :: string where "PresenceAbsent = ''ABSENT''"

definition Presence_Valid :: "string \<Rightarrow> bool" where
  "Presence_Valid p \<longleftrightarrow> p = PresencePresent \<or> p = PresenceAbsent"

text \<open>The errors of the validators, one constructor per returned message.\<close>

datatype domain_error =
  EmptyForwardID | UnknownProtocol | BadTarget | UnknownStrategy | UnknownPublishScheme | UnknownPresence
| AbsentWithoutDeletion | PresentWithDeletion
| EmptyNodeID | DuplicateForwardID string | ForwardError string domain_error
| EmptyActivationID
| AxisCount | AxisMissing string | AxisIllegal string string
| VerifiedNeedsOpen | VerifiedNeedsReturnPath | UnverifiedClaimsOpen | FirstHopVerified | FirstHopPublished
| NoPublishedEndpoint | CandidateSyntax | CandidateNotIPv4 | CandidateNotGlobal
| DesiredBelowSpec | BindNotConcrete | AppliedAtUnset
| UnknownFSM | NoSuchState string | IllegalTransition

definition ParseStrategy :: "string \<Rightarrow> domain_error + string" where
  "ParseStrategy s = (if \<not> Strategy_Valid s then Inl UnknownStrategy else Inr s)"

section \<open>Desired Forwards\<close>

record ForwardSpec =
  fsForwardID :: string
  fsName :: string
  fsProtocol :: string
  fsTarget :: string
  fsStrategy :: string
  fsSourceInterface :: string
  fsRequestedLocalPort :: u16
  fsRequestedPublicPort :: u16
  fsManualExpectedEndpoint :: string
  fsRateLimitBPS :: u64
  fsDetailedStats :: bool
  fsPublishScheme :: string
  fsPublishedHost :: string
  fsCustomURITemplate :: string
  fsDesiredRevision :: u64
  fsPresence :: string
  fsDeletionOperationID :: string

definition ForwardSpec_Validate :: "ForwardSpec \<Rightarrow> domain_error + unit" where
  "ForwardSpec_Validate s =
     (if fsForwardID s = [] then Inl EmptyForwardID
      else if \<not> Protocol_Valid (fsProtocol s) then Inl UnknownProtocol
      else if \<not> validateIPv4Target (fsTarget s) then Inl BadTarget
      else if \<not> Strategy_Valid (fsStrategy s) then Inl UnknownStrategy
      else if fsPublishScheme s \<noteq> [] \<and> fsPublishScheme s \<noteq> ''http'' \<and> fsPublishScheme s \<noteq> ''https''
        then Inl UnknownPublishScheme
      else if \<not> Presence_Valid (fsPresence s) then Inl UnknownPresence
      else if fsPresence s = PresenceAbsent \<and> fsDeletionOperationID s = [] then Inl AbsentWithoutDeletion
      else if fsPresence s = PresencePresent \<and> fsDeletionOperationID s \<noteq> [] then Inl PresentWithDeletion
      else Inr ())"

record DesiredState =
  dsNodeID :: string
  dsForwards :: "ForwardSpec list"

text \<open>The loop of \<open>DesiredState.Validate\<close> with its \<open>seen\<close> set.\<close>

definition validate_forward :: "string list \<Rightarrow> ForwardSpec \<Rightarrow> domain_error + string list" where
  "validate_forward seen f =
     (case ForwardSpec_Validate f of
        Inl e \<Rightarrow> Inl (ForwardError (fsForwardID f) e)
      | Inr _ \<Rightarrow> if fsForwardID f \<in> set seen then Inl (DuplicateForwardID (fsForwardID f))
                 else Inr (fsForwardID f # seen))"

definition DesiredState_Validate :: "DesiredState \<Rightarrow> domain_error + unit" where
  "DesiredState_Validate d =
     (if dsNodeID d = [] then Inl EmptyNodeID
      else andThen (foldE validate_forward [] (dsForwards d)) (\<lambda>_. Inr ()))"

record ForwardActivation =
  faActivationID :: string
  faGeneration :: u64
  faSpecRevision :: u64
  faForwardID :: string

definition ForwardActivation_Validate :: "ForwardActivation \<Rightarrow> domain_error + unit" where
  "ForwardActivation_Validate a =
     (if faActivationID a = [] then Inl EmptyActivationID
      else if faForwardID a = [] then Inl EmptyForwardID
      else Inr ())"

section \<open>Activation axes\<close>

definition activationAxes :: "(string \<times> string list) list" where
  "activationAxes =
     [(''control_state'', [''ONLINE'', ''OFFLINE'']),
      (''listener_state'', [''STOPPED'', ''STARTING'', ''READY'', ''ERROR'']),
      (''mapping_state'', [''NOT_REQUIRED'', ''ACQUIRING'', ''FIRST_HOP_MAPPED'', ''PUBLIC_CANDIDATE'',
         ''LOST'', ''ERROR'']),
      (''keepalive_state'', [''NOT_REQUIRED'', ''HEALTHY'', ''DEGRADED'', ''LOST'']),
      (''wan_reachability_state'', [''NOT_TESTED'', ''PROBING'', ''OPEN_FROM_VANTAGE'', ''REJECTED'', ''TIMEOUT'',
         ''NO_INDEPENDENT_VANTAGE'', ''PROBE_INFRA_UNAVAILABLE'', ''UNKNOWN'']),
      (''return_path_state'', [''NOT_TESTED'', ''VERIFIED'', ''FAILED'', ''UNKNOWN'']),
      (''target_health_state'', [''PASS'', ''FAIL'', ''SKIPPED'', ''UNSUPPORTED'', ''UNKNOWN'']),
      (''publication_state'', [''NONE'', ''PUBLISHED_VERIFIED'', ''PUBLISHED_UNVERIFIED'', ''STALE'',
         ''UNPUBLISHED'']),
      (''data_plane_state'', [''STOPPED'', ''READY'', ''DEGRADED'', ''ERROR''])]"

fun axis_lookup :: "(string \<times> string list) list \<Rightarrow> string \<Rightarrow> string \<Rightarrow> bool" where
  "axis_lookup [] axisName v = False"
| "axis_lookup ((n, states) # as) axisName v =
     (if n = axisName then v \<in> set states else axis_lookup as axisName v)"

definition ValidAxisValue :: "string \<Rightarrow> string \<Rightarrow> bool" where
  "ValidAxisValue axisName v = axis_lookup activationAxes axisName v"

text \<open>A \<open>map[string]string\<close> snapshot is an association list with distinct keys.\<close>

definition check_axis :: "(string \<times> string) list \<Rightarrow> unit \<Rightarrow> string \<times> string list \<Rightarrow> domain_error + unit" where
  "check_axis s u a =
     (case map_of s (fst a) of
        None \<Rightarrow> Inl (AxisMissing (fst a))
      | Some v \<Rightarrow> if v \<notin> set (snd a) then Inl (AxisIllegal (fst a) v) else Inr ())"

definition ValidActivationSnapshot :: "(string \<times> string) list \<Rightarrow> domain_error + unit" where
  "ValidActivationSnapshot s =
     (if length s \<noteq> length activationAxes then Inl AxisCount
      else foldE (check_axis s) () activationAxes)"

record ActivationStates =
  ControlState :: string
  ListenerState :: string
  MappingState :: string
  KeepaliveState :: string
  WanReachabilityState :: string
  ReturnPathState :: string
  TargetHealthState :: string
  PublicationState :: string
  DataPlaneState :: string

definition ValidatePublication :: "string \<Rightarrow> string \<Rightarrow> string \<Rightarrow> domain_error + unit" where
  "ValidatePublication pubState wanReach returnPath =
     (if pubState = ''PUBLISHED_VERIFIED'' then
        (if wanReach \<noteq> ''OPEN_FROM_VANTAGE'' then Inl VerifiedNeedsOpen
         else if returnPath \<noteq> ''VERIFIED'' then Inl VerifiedNeedsReturnPath
         else Inr ())
      else if pubState = ''PUBLISHED_UNVERIFIED'' then
        (if wanReach = ''OPEN_FROM_VANTAGE'' then Inl UnverifiedClaimsOpen else Inr ())
      else Inr ())"

definition ValidatePublicationCandidate :: "string \<Rightarrow> string \<Rightarrow> domain_error + unit" where
  "ValidatePublicationCandidate pubState candidate =
     (if pubState \<noteq> ''PUBLISHED_VERIFIED'' \<and> pubState \<noteq> ''PUBLISHED_UNVERIFIED'' then Inr ()
      else if candidate = [] then Inl NoPublishedEndpoint
      else case SplitHostPort candidate of
        None \<Rightarrow> Inl CandidateSyntax
      | Some (host, _) \<Rightarrow>
          (case ParseAddr4 host of
             None \<Rightarrow> Inl CandidateNotIPv4
           | Some ip \<Rightarrow> if \<not> IsGlobalEndpoint ip then Inl CandidateNotGlobal else Inr ()))"

definition ValidateAxisRelations :: "string \<Rightarrow> string \<Rightarrow> string \<Rightarrow> string \<Rightarrow> domain_error + unit" where
  "ValidateAxisRelations mappingState wanReach returnPath pubState =
     (if mappingState = ''FIRST_HOP_MAPPED'' \<and> returnPath = ''VERIFIED'' then Inl FirstHopVerified
      else andThen (ValidatePublication pubState wanReach returnPath)
        (\<lambda>_. if pubState = ''PUBLISHED_VERIFIED'' \<and> mappingState = ''FIRST_HOP_MAPPED''
              then Inl FirstHopPublished else Inr ()))"

definition ActivationStates_Validate :: "ActivationStates \<Rightarrow> domain_error + unit" where
  "ActivationStates_Validate s =
     andThen (ValidActivationSnapshot
        [(''control_state'', ControlState s), (''listener_state'', ListenerState s),
         (''mapping_state'', MappingState s), (''keepalive_state'', KeepaliveState s),
         (''wan_reachability_state'', WanReachabilityState s), (''return_path_state'', ReturnPathState s),
         (''target_health_state'', TargetHealthState s), (''publication_state'', PublicationState s),
         (''data_plane_state'', DataPlaneState s)])
       (\<lambda>_. ValidateAxisRelations (MappingState s) (WanReachabilityState s) (ReturnPathState s)
              (PublicationState s))"

section \<open>Applied record\<close>

record AppliedForwardState =
  afForwardID :: string
  afSpecRevision :: u64
  afDesiredRevision :: u64
  afActualBindHost :: string
  afActualBindPort :: u16
  afAssignedGatewayPort :: u16
  afPublicPort :: u16
  afStrategy :: string
  afLayerVersion :: u64
  afActivationRecovery :: string
  afMappingJournalRef :: string
  afHookDefinitionVersion :: u64
  afHookSecretVersion :: u64
  afAppliedAtUnix :: int

definition validStrategies :: "string list" where
  "validStrategies = [''direct-v4'', ''manual-static-v4'', ''explicit-gateway'', ''stun-only'', ''auto'']"

definition AppliedForwardState_Validate :: "AppliedForwardState \<Rightarrow> domain_error + unit" where
  "AppliedForwardState_Validate a =
     (if afForwardID a = [] then Inl EmptyForwardID
      else if afDesiredRevision a < afSpecRevision a then Inl DesiredBelowSpec
      else if afActualBindHost a = [] \<or> afActualBindPort a = 0 then Inl BindNotConcrete
      else if afStrategy a \<notin> set validStrategies then Inl UnknownStrategy
      else if afAppliedAtUnix a \<le> 0 then Inl AppliedAtUnset
      else Inr ())"

section \<open>Durable control machines\<close>

definition frozenFSMs :: "(string \<times> (string \<times> string) list) list" where
  "frozenFSMs =
     [(''outbox'', [(''PENDING'', ''CLAIMED''), (''CLAIMED'', ''SENT''), (''SENT'', ''SEMANTIC_ACKED''),
         (''SEMANTIC_ACKED'', ''RECEIPTED''), (''RECEIPTED'', ''GC'')]),
      (''inbox'', [(''RECEIVED'', ''INTENT_PERSISTED''), (''INTENT_PERSISTED'', ''APPLYING''),
         (''APPLYING'', ''APPLIED''), (''APPLYING'', ''NACKED'')]),
      (''key_rotation'', [(''PREPARED'', ''ANNOUNCED''), (''ANNOUNCED'', ''ACKED''), (''ACKED'', ''ACTIVE''),
         (''ACTIVE'', ''RETIRED'')]),
      (''decommission'', [(''ACTIVE'', ''DECOMMISSIONING''), (''DECOMMISSIONING'', ''DECOMMISSIONED''),
         (''DECOMMISSIONED'', ''CLEANUP_ONLY'')]),
      (''restore'', [(''RESTORED'', ''RECOVERY_QUARANTINE''), (''RECOVERY_QUARANTINE'', ''RECONCILING''),
         (''RECONCILING'', ''AUTHORIZED'')])]"

definition frozenFSMStates :: "(string \<times> string list) list" where
  "frozenFSMStates =
     [(''outbox'', [''PENDING'', ''CLAIMED'', ''SENT'', ''SEMANTIC_ACKED'', ''RECEIPTED'', ''GC'']),
      (''inbox'', [''RECEIVED'', ''INTENT_PERSISTED'', ''APPLYING'', ''APPLIED'', ''NACKED'']),
      (''key_rotation'', [''PREPARED'', ''ANNOUNCED'', ''ACKED'', ''ACTIVE'', ''RETIRED'']),
      (''decommission'', [''ACTIVE'', ''DECOMMISSIONING'', ''DECOMMISSIONED'', ''CLEANUP_ONLY'']),
      (''restore'', [''RESTORED'', ''RECOVERY_QUARANTINE'', ''RECONCILING'', ''AUTHORIZED''])]"

text \<open>A missing map entry reads as the nil set, which contains nothing.\<close>

definition ValidFSMState :: "string \<Rightarrow> string \<Rightarrow> bool" where
  "ValidFSMState fsm st = (case map_of frozenFSMStates fsm of None \<Rightarrow> False | Some sts \<Rightarrow> st \<in> set sts)"

definition ValidateFSMTransition :: "string \<Rightarrow> string \<Rightarrow> string \<Rightarrow> domain_error + unit" where
  "ValidateFSMTransition fsm from to =
     (case map_of frozenFSMs fsm of
        None \<Rightarrow> Inl UnknownFSM
      | Some table \<Rightarrow>
          if \<not> ValidFSMState fsm from then Inl (NoSuchState from)
          else if \<not> ValidFSMState fsm to then Inl (NoSuchState to)
          else if (from, to) \<notin> set table then Inl IllegalTransition
          else Inr ())"

section \<open>Outcomes and verdicts\<close>

definition OperationKind_Valid :: "string \<Rightarrow> bool" where
  "OperationKind_Valid k \<longleftrightarrow> k \<in> set [''forward_deletion'', ''node_deletion'', ''node_decommission'',
     ''force_cutover'', ''retry'', ''detection'']"

definition OutcomeOpenFromVantage :: string where "OutcomeOpenFromVantage = ''OPEN_FROM_VANTAGE''"

definition probeOutcomes :: "string list" where
  "probeOutcomes = [''ARMED'', ''ACCEPTED'', ''REJECTED'', ''DROPPED'', ''OPEN_FROM_VANTAGE'', ''TIMEOUT'',
     ''NO_INDEPENDENT_VANTAGE'', ''PROBE_INFRA_UNAVAILABLE'', ''UNKNOWN'']"

definition ParseProbeOutcome :: "string \<Rightarrow> string option" where
  "ParseProbeOutcome s = (if s \<notin> set probeOutcomes then None else Some s)"

definition MayDriveVerifiedPublication :: "string \<Rightarrow> bool" where
  "MayDriveVerifiedPublication o' \<longleftrightarrow> o' = OutcomeOpenFromVantage"

definition capabilityResults :: "string list" where
  "capabilityResults = [''PASS'', ''SUPPORTED_WITH_LIMITS'', ''NO_GO'', ''UNKNOWN'']"

definition ParseCapabilityResult :: "string \<Rightarrow> string option" where
  "ParseCapabilityResult s = (if s \<notin> set capabilityResults then None else Some s)"

section \<open>Properties\<close>

lemma validate_forward_Inr:
  "validate_forward seen f = Inr seen' \<longleftrightarrow>
     ForwardSpec_Validate f = Inr () \<and> fsForwardID f \<notin> set seen \<and> seen' = fsForwardID f # seen"
  by (auto simp: validate_forward_def split: sum.splits)

lemma validate_forwards_Inr:
  "foldE validate_forward seen fs = Inr seen' \<longleftrightarrow>
     (\<forall>f \<in> set fs. ForwardSpec_Validate f = Inr ()) \<and> distinct (map fsForwardID fs) \<and>
     set (map fsForwardID fs) \<inter> set seen = {} \<and> seen' = rev (map fsForwardID fs) @ seen"
  by (induction fs arbitrary: seen) (auto simp: validate_forward_Inr)

text \<open>
  A desired snapshot is accepted exactly when it names its node, every Forward in it is valid on
  its own and no two Forwards share an id.
\<close>

theorem desired_state_valid_iff:
  "DesiredState_Validate d = Inr () \<longleftrightarrow>
     dsNodeID d \<noteq> [] \<and> list_all (\<lambda>f. ForwardSpec_Validate f = Inr ()) (dsForwards d)
     \<and> distinct (map fsForwardID (dsForwards d))"
  by (simp add: DesiredState_Validate_def validate_forwards_Inr list_all_iff)

lemma check_axis_Inr [simp]:
  "check_axis s u a = Inr () \<longleftrightarrow> (\<exists>v. map_of s (fst a) = Some v \<and> v \<in> set (snd a))"
  by (auto simp: check_axis_def split: option.splits)

lemma check_axes_Inr:
  "foldE (check_axis s) () as = Inr () \<longleftrightarrow> (\<forall>a \<in> set as. check_axis s () a = Inr ())"
  by (induction as) auto

text \<open>The snapshot check, axis by axis.\<close>

lemma ActivationStates_Validate_iff:
  "ActivationStates_Validate s = Inr () \<longleftrightarrow>
     ValidAxisValue ''control_state'' (ControlState s) \<and>
     ValidAxisValue ''listener_state'' (ListenerState s) \<and>
     ValidAxisValue ''mapping_state'' (MappingState s) \<and>
     ValidAxisValue ''keepalive_state'' (KeepaliveState s) \<and>
     ValidAxisValue ''wan_reachability_state'' (WanReachabilityState s) \<and>
     ValidAxisValue ''return_path_state'' (ReturnPathState s) \<and>
     ValidAxisValue ''target_health_state'' (TargetHealthState s) \<and>
     ValidAxisValue ''publication_state'' (PublicationState s) \<and>
     ValidAxisValue ''data_plane_state'' (DataPlaneState s) \<and>
     ValidateAxisRelations (MappingState s) (WanReachabilityState s) (ReturnPathState s)
       (PublicationState s) = Inr ()"
  by (simp add: ActivationStates_Validate_def ValidActivationSnapshot_def check_axes_Inr activationAxes_def
      ValidAxisValue_def)

lemma ValidateAxisRelations_Inr:
  "ValidateAxisRelations m w r p = Inr () \<longleftrightarrow>
     (m = ''FIRST_HOP_MAPPED'' \<longrightarrow> r \<noteq> ''VERIFIED'') \<and>
     (p = ''PUBLISHED_VERIFIED'' \<longrightarrow> w = ''OPEN_FROM_VANTAGE'' \<and> r = ''VERIFIED'' \<and> m \<noteq> ''FIRST_HOP_MAPPED'') \<and>
     (p = ''PUBLISHED_UNVERIFIED'' \<longrightarrow> w \<noteq> ''OPEN_FROM_VANTAGE'')"
  by (auto simp: ValidateAxisRelations_def ValidatePublication_def)

text \<open>The position of a state in its machine; every legal transition moves to a later one.\<close>

definition fsm_rank :: "string \<Rightarrow> string \<Rightarrow> nat" where
  "fsm_rank fsm st =
     (case map_of frozenFSMStates fsm of None \<Rightarrow> 0 | Some sts \<Rightarrow> length (takeWhile (\<lambda>x. x \<noteq> st) sts))"

fun fsm_path :: "string \<Rightarrow> string list \<Rightarrow> bool" where
  "fsm_path fsm (a # b # sts) = (ValidateFSMTransition fsm a b = Inr () \<and> fsm_path fsm (b # sts))"
| "fsm_path fsm _ = True"

lemma transition_Inr:
  "ValidateFSMTransition fsm a b = Inr () \<longleftrightarrow>
     (\<exists>table. map_of frozenFSMs fsm = Some table \<and> (a, b) \<in> set table)
     \<and> ValidFSMState fsm a \<and> ValidFSMState fsm b"
  by (auto simp: ValidateFSMTransition_def split: option.splits if_splits)

lemma transition_rank:
  assumes "ValidateFSMTransition fsm a b = Inr ()"
  shows "fsm_rank fsm a < fsm_rank fsm b" "fsm_rank fsm b \<le> 5"
proof -
  have tables: "list_all (\<lambda>(f, table). list_all (\<lambda>(x, y). fsm_rank f x < fsm_rank f y \<and> fsm_rank f y \<le> 5) table)
      frozenFSMs"
    by code_simp
  obtain table where "(fsm, table) \<in> set frozenFSMs" "(a, b) \<in> set table"
    using assms by (auto simp: transition_Inr dest: map_of_SomeD)
  with tables have "fsm_rank fsm a < fsm_rank fsm b \<and> fsm_rank fsm b \<le> 5"
    unfolding list_all_iff by fastforce
  then show "fsm_rank fsm a < fsm_rank fsm b" "fsm_rank fsm b \<le> 5" by blast+
qed

lemma fsm_path_rank:
  "fsm_path fsm (a # sts) \<Longrightarrow> sts \<noteq> [] \<Longrightarrow> fsm_rank fsm a + length sts \<le> 5"
proof (induction sts arbitrary: a)
  case (Cons b sts)
  then have step: "fsm_rank fsm a < fsm_rank fsm b" "fsm_rank fsm b \<le> 5"
    using transition_rank [of fsm a b] by auto
  show ?case
  proof (cases "sts = []")
    case False
    then have "fsm_rank fsm b + length sts \<le> 5" using Cons by simp
    with step show ?thesis by simp
  qed (use step in simp)
qed simp

lemma fsm_path_sorted: "fsm_path fsm sts \<Longrightarrow> sorted_wrt (\<lambda>a b. fsm_rank fsm a < fsm_rank fsm b) sts"
proof (induction fsm sts rule: fsm_path.induct)
  case (1 fsm a b sts)
  then show ?case using transition_rank(1) [of fsm a b] by (auto dest: order_less_trans)
qed auto

text \<open>
  The durable control machines only move forward: no run of legal transitions in any machine
  visits a state twice, and no run has more than five transitions (six states).
\<close>

theorem fsm_runs_are_finite_and_acyclic:
  assumes "fsm_path fsm sts"
  shows "distinct sts \<and> length sts \<le> 6"
proof -
  have "sorted_wrt (<) (map (fsm_rank fsm) sts)"
    using fsm_path_sorted [OF assms] by (simp add: sorted_wrt_map)
  then have "distinct (map (fsm_rank fsm) sts)" by (simp add: strict_sorted_iff)
  then have "distinct sts" by (simp add: distinct_map)
  moreover have "length sts \<le> 6"
    using assms fsm_path_rank [of fsm "hd sts" "tl sts"] by (cases sts; cases "tl sts") auto
  ultimately show ?thesis ..
qed

theorem fsm_runs_are_finite_and_acyclic_witness:
  "fsm_path ''outbox'' [''PENDING'', ''CLAIMED'', ''SENT'', ''SEMANTIC_ACKED'', ''RECEIPTED'', ''GC''] \<and>
   distinct [''PENDING'', ''CLAIMED'', ''SENT'', ''SEMANTIC_ACKED'', ''RECEIPTED'', ''GC''] \<and>
   length [''PENDING'', ''CLAIMED'', ''SENT'', ''SEMANTIC_ACKED'', ''RECEIPTED'', ''GC''] \<le> 6"
proof -
  have "fsm_path ''outbox'' [''PENDING'', ''CLAIMED'', ''SENT'', ''SEMANTIC_ACKED'', ''RECEIPTED'', ''GC'']"
    by code_simp
  then show ?thesis using fsm_runs_are_finite_and_acyclic by blast
qed

end
