(* ===== verification/Agent_Activation.thy ===== *)
theory Agent_Activation
  imports Agent_Domain
begin

text \<open>
  \<open>internal/agent/reconcile/activation.go\<close> and \<open>state_machine.go\<close>: the activation of one
  Forward, its generation-checked updates, the probe admission token and the evidence transitions.
  Every method holds the activation's mutex for its whole body, so a method is one atomic step. A
  method that returns an error has not assigned to the activation: \<^term>\<open>Inl e\<close> leaves it as it was.
\<close>

section \<open>State\<close>

record Activation =
  aForwardID :: string
  aActivation :: string
  aGeneration :: u64
  aStates :: ActivationStates

record ProbeAdmission =
  paForwardID :: string
  paActivation :: string
  paGeneration :: u64
  paBefore :: ActivationStates
  paAfter :: ActivationStates

datatype activation_error = ErrStaleEvent | ErrIllegalState | InvalidStates domain_error

definition NewActivation :: "string \<Rightarrow> string \<Rightarrow> u64 \<Rightarrow> Activation" where
  "NewActivation forwardID activationID generation =
     \<lparr>aForwardID = forwardID, aActivation = activationID, aGeneration = generation,
      aStates = \<lparr>ControlState = ''OFFLINE'', ListenerState = ''STOPPED'', MappingState = ''NOT_REQUIRED'',
        KeepaliveState = ''NOT_REQUIRED'', WanReachabilityState = ''NOT_TESTED'',
        ReturnPathState = ''NOT_TESTED'', TargetHealthState = ''UNKNOWN'', PublicationState = ''NONE'',
        DataPlaneState = ''STOPPED''\<rparr>\<rparr>"

text \<open>\<open>if err := next.Validate(); err != nil { return err }; a.states = next\<close>\<close>

definition commit_states :: "ActivationStates \<Rightarrow> Activation \<Rightarrow> activation_error + Activation" where
  "commit_states nxt a =
     (case ActivationStates_Validate nxt of
        Inl e \<Rightarrow> Inl (InvalidStates e)
      | Inr _ \<Rightarrow> Inr (a\<lparr>aStates := nxt\<rparr>))"

section \<open>activation.go\<close>

definition Activation_Set :: "ActivationStates \<Rightarrow> Activation \<Rightarrow> activation_error + Activation" where
  "Activation_Set s a = commit_states s a"

definition probing :: "ActivationStates \<Rightarrow> ActivationStates" where
  "probing s = s\<lparr>WanReachabilityState := ''PROBING'', PublicationState := ''UNPUBLISHED'',
     ReturnPathState := ''NOT_TESTED''\<rparr>"

definition StartProbeAdmission ::
  "string \<Rightarrow> u64 \<Rightarrow> Activation \<Rightarrow> activation_error + ProbeAdmission \<times> Activation" where
  "StartProbeAdmission expectedActivation expectedGeneration a =
     (if expectedActivation = [] \<or> expectedGeneration = 0 \<or>
         aActivation a \<noteq> expectedActivation \<or> aGeneration a \<noteq> expectedGeneration
      then Inl ErrStaleEvent
      else let before = aStates a; nxt = probing before
           in andThen (commit_states nxt a) (\<lambda>a'.
                Inr (\<lparr>paForwardID = aForwardID a, paActivation = aActivation a,
                      paGeneration = aGeneration a, paBefore = before, paAfter = nxt\<rparr>, a')))"

definition RollbackProbeAdmission :: "ProbeAdmission \<Rightarrow> Activation \<Rightarrow> activation_error + Activation" where
  "RollbackProbeAdmission token a =
     (if aForwardID a \<noteq> paForwardID token \<or> aActivation a \<noteq> paActivation token \<or>
         aGeneration a \<noteq> paGeneration token \<or> aStates a \<noteq> paAfter token
      then Inl ErrStaleEvent
      else commit_states (paBefore token) a)"

definition set_axis :: "string \<Rightarrow> string \<Rightarrow> ActivationStates \<Rightarrow> ActivationStates option" where
  "set_axis axis v s =
     (if axis = ''control_state'' then Some (s\<lparr>ControlState := v\<rparr>)
      else if axis = ''listener_state'' then Some (s\<lparr>ListenerState := v\<rparr>)
      else if axis = ''mapping_state'' then Some (s\<lparr>MappingState := v\<rparr>)
      else if axis = ''keepalive_state'' then Some (s\<lparr>KeepaliveState := v\<rparr>)
      else if axis = ''wan_reachability_state'' then Some (s\<lparr>WanReachabilityState := v\<rparr>)
      else if axis = ''return_path_state'' then Some (s\<lparr>ReturnPathState := v\<rparr>)
      else if axis = ''target_health_state'' then Some (s\<lparr>TargetHealthState := v\<rparr>)
      else if axis = ''publication_state'' then Some (s\<lparr>PublicationState := v\<rparr>)
      else if axis = ''data_plane_state'' then Some (s\<lparr>DataPlaneState := v\<rparr>)
      else None)"

definition Activation_Update :: "string \<Rightarrow> string \<Rightarrow> u64 \<Rightarrow> Activation \<Rightarrow> activation_error + Activation" where
  "Activation_Update axis v eventGeneration a =
     (if eventGeneration \<noteq> aGeneration a then Inl ErrStaleEvent
      else if \<not> ValidAxisValue axis v then Inl ErrIllegalState
      else case set_axis axis v (aStates a) of
        None \<Rightarrow> Inl ErrIllegalState
      | Some nxt \<Rightarrow> commit_states nxt a)"

definition AdvanceGeneration :: "u64 \<Rightarrow> Activation \<Rightarrow> Activation" where
  "AdvanceGeneration nxt a = (if nxt > aGeneration a then a\<lparr>aGeneration := nxt\<rparr> else a)"

definition resetForGenerationLocked :: "u64 \<Rightarrow> string \<Rightarrow> Activation \<Rightarrow> Activation" where
  "resetForGenerationLocked nxt activationID a =
     a\<lparr>aGeneration := nxt, aActivation := activationID,
       aStates := (aStates a)\<lparr>MappingState := ''NOT_REQUIRED'', KeepaliveState := ''NOT_REQUIRED'',
         WanReachabilityState := ''NOT_TESTED'', ReturnPathState := ''NOT_TESTED'',
         TargetHealthState := ''UNKNOWN'', PublicationState := ''NONE'', DataPlaneState := ''STOPPED''\<rparr>\<rparr>"

definition ResetForGenerationWithID :: "u64 \<Rightarrow> string \<Rightarrow> Activation \<Rightarrow> Activation" where
  "ResetForGenerationWithID nxt activationID a =
     (if nxt \<le> aGeneration a then a else resetForGenerationLocked nxt activationID a)"

definition ResetForGeneration :: "u64 \<Rightarrow> Activation \<Rightarrow> Activation" where
  "ResetForGeneration nxt a = ResetForGenerationWithID nxt (aActivation a) a"

definition RestoreForGenerationWithID :: "u64 \<Rightarrow> string \<Rightarrow> Activation \<Rightarrow> Activation" where
  "RestoreForGenerationWithID previous activationID a =
     (if previous = aGeneration a \<and> activationID = aActivation a then a
      else resetForGenerationLocked previous activationID a)"

definition IdentitySnapshot :: "Activation \<Rightarrow> string \<times> string \<times> u64 \<times> ActivationStates" where
  "IdentitySnapshot a = (aForwardID a, aActivation a, aGeneration a, aStates a)"

section \<open>state_machine.go\<close>

definition EvidenceLost :: "Activation \<Rightarrow> activation_error + Activation" where
  "EvidenceLost a =
     commit_states ((aStates a)\<lparr>PublicationState := ''STALE'', WanReachabilityState := ''NOT_TESTED'',
       ReturnPathState := ''NOT_TESTED''\<rparr>) a"

definition RecoverAfterRestart :: "Activation \<Rightarrow> activation_error + Activation" where
  "RecoverAfterRestart a =
     (let nxt = (aStates a)\<lparr>WanReachabilityState := ''NOT_TESTED'', ReturnPathState := ''NOT_TESTED''\<rparr>;
          nxt = (if PublicationState nxt = ''PUBLISHED_VERIFIED''
                 then nxt\<lparr>PublicationState := ''PUBLISHED_UNVERIFIED''\<rparr> else nxt)
      in commit_states nxt a)"

definition StartProbe :: "u64 \<Rightarrow> Activation \<Rightarrow> activation_error + Activation" where
  "StartProbe eventGeneration a =
     (if eventGeneration \<noteq> aGeneration a then Inl ErrStaleEvent
      else commit_states (probing (aStates a)) a)"

definition RecordProbeOutcome :: "string \<Rightarrow> u64 \<Rightarrow> Activation \<Rightarrow> activation_error + Activation" where
  "RecordProbeOutcome outcome eventGeneration a =
     (if eventGeneration \<noteq> aGeneration a then Inl ErrStaleEvent
      else let nxt = (aStates a)\<lparr>WanReachabilityState := outcome\<rparr>;
               nxt = (if outcome = OutcomeOpenFromVantage
                      then nxt\<lparr>ReturnPathState := ''VERIFIED'', PublicationState := ''PUBLISHED_VERIFIED''\<rparr>
                      else nxt\<lparr>ReturnPathState := ''FAILED'', PublicationState := ''UNPUBLISHED''\<rparr>)
           in commit_states nxt a)"

section \<open>The activation as a transition system\<close>

datatype activation_event =
  EvSet ActivationStates
| EvAdmit string u64
| EvRollback ProbeAdmission
| EvUpdate string string u64
| EvAdvance u64
| EvReset u64 string
| EvRestore u64 string
| EvEvidenceLost
| EvRecover
| EvStartProbe u64
| EvOutcome string u64

fun activation_try :: "Activation \<Rightarrow> activation_event \<Rightarrow> activation_error + Activation" where
  "activation_try a (EvSet s) = Activation_Set s a"
| "activation_try a (EvAdmit i g) = andThen (StartProbeAdmission i g a) (\<lambda>(_, a'). Inr a')"
| "activation_try a (EvRollback t) = RollbackProbeAdmission t a"
| "activation_try a (EvUpdate x v g) = Activation_Update x v g a"
| "activation_try a (EvAdvance g) = Inr (AdvanceGeneration g a)"
| "activation_try a (EvReset g i) = Inr (ResetForGenerationWithID g i a)"
| "activation_try a (EvRestore g i) = Inr (RestoreForGenerationWithID g i a)"
| "activation_try a EvEvidenceLost = EvidenceLost a"
| "activation_try a EvRecover = RecoverAfterRestart a"
| "activation_try a (EvStartProbe g) = StartProbe g a"
| "activation_try a (EvOutcome p g) = RecordProbeOutcome p g a"

definition activation_step :: "Activation \<Rightarrow> activation_event \<Rightarrow> Activation" where
  "activation_step a e = (case activation_try a e of Inl _ \<Rightarrow> a | Inr a' \<Rightarrow> a')"

definition activation_start :: "Activation \<Rightarrow> bool" where
  "activation_start a \<longleftrightarrow> (\<exists>f i g. a = NewActivation f i g)"

definition legal :: "Activation \<Rightarrow> bool" where
  "legal a \<longleftrightarrow> ActivationStates_Validate (aStates a) = Inr ()"

lemma commit_states_Inr [simp]:
  "commit_states s a = Inr a' \<longleftrightarrow> ActivationStates_Validate s = Inr () \<and> a' = a\<lparr>aStates := s\<rparr>"
  by (auto simp: commit_states_def split: sum.splits)

lemmas snapshot_rules = ActivationStates_Validate_iff ValidateAxisRelations_Inr ValidAxisValue_def activationAxes_def

lemma legal_new: "legal (NewActivation f i g)"
  by (simp add: legal_def NewActivation_def snapshot_rules)

lemma legal_reset: "legal a \<Longrightarrow> legal (resetForGenerationLocked g i a)"
  by (simp add: legal_def resetForGenerationLocked_def snapshot_rules)

lemma legal_try: "activation_try a e = Inr a' \<Longrightarrow> legal a \<Longrightarrow> legal a'"
  by (cases e)
    (auto simp: Activation_Set_def StartProbeAdmission_def RollbackProbeAdmission_def Activation_Update_def
      AdvanceGeneration_def ResetForGenerationWithID_def RestoreForGenerationWithID_def EvidenceLost_def
      RecoverAfterRestart_def StartProbe_def RecordProbeOutcome_def Let_def legal_reset [unfolded legal_def] legal_def
      split: option.splits if_splits)

lemma legal_step: "legal a \<Longrightarrow> legal (activation_step a e)"
  by (auto simp: activation_step_def split: sum.splits intro: legal_try)

interpretation activation: inductive_invariant activation_start "\<lambda>a e a'. a' = activation_step a e" legal
  by unfold_locales (auto simp: activation_start_def legal_new legal_step)

lemma activation_reach_new: "reach activation_start (\<lambda>a e a'. a' = activation_step a e) (NewActivation f i g)"
  by (rule reach_start) (unfold activation_start_def, blast)

lemma activation_reach_step:
  "reach activation_start (\<lambda>a e a'. a' = activation_step a e) a \<Longrightarrow>
   reach activation_start (\<lambda>a e a'. a' = activation_step a e) (activation_step a e)"
  by (erule reach_step) (rule refl)

section \<open>Properties\<close>

text \<open>
  C32: Whatever sequence of updates, probes, rollbacks, resets and restores an activation goes through,
  its snapshot is legal: every axis has a value of its enumeration, and a verified publication is
  backed by a probe open from a vantage point with a verified return path, never by a first-hop
  mapping.
\<close>

theorem activation_snapshot_truthful:
  assumes "reach activation_start (\<lambda>a e a'. a' = activation_step a e) a"
  shows "ActivationStates_Validate (aStates a) = Inr () \<and>
    (PublicationState (aStates a) = ''PUBLISHED_VERIFIED'' \<longrightarrow>
       WanReachabilityState (aStates a) = ''OPEN_FROM_VANTAGE'' \<and> ReturnPathState (aStates a) = ''VERIFIED'' \<and>
       MappingState (aStates a) \<noteq> ''FIRST_HOP_MAPPED'')"
  using activation.inv_reach [OF assms]
  by (simp add: legal_def ActivationStates_Validate_iff ValidateAxisRelations_Inr)

theorem activation_snapshot_truthful_witness:
  "let a = activation_step (activation_step (NewActivation ''f'' ''a'' 1) (EvStartProbe 1))
             (EvOutcome ''OPEN_FROM_VANTAGE'' 1)
   in PublicationState (aStates a) = ''PUBLISHED_VERIFIED'' \<and>
      WanReachabilityState (aStates a) = ''OPEN_FROM_VANTAGE'' \<and> ReturnPathState (aStates a) = ''VERIFIED'' \<and>
      MappingState (aStates a) \<noteq> ''FIRST_HOP_MAPPED''"
proof -
  let ?a = "activation_step (activation_step (NewActivation ''f'' ''a'' 1) (EvStartProbe 1))
             (EvOutcome ''OPEN_FROM_VANTAGE'' 1)"
  have "reach activation_start (\<lambda>a e a'. a' = activation_step a e) ?a"
    by (intro activation_reach_step activation_reach_new)
  moreover have "PublicationState (aStates ?a) = ''PUBLISHED_VERIFIED''" by code_simp
  ultimately show ?thesis using activation_snapshot_truthful [of ?a] by (simp add: Let_def)
qed

text \<open>
  The events that can bring reachability evidence to generation \<open>g\<close>: those that carry it themselves
  and are not stale for \<open>g\<close>, and a restore that goes back behind \<open>g\<close>.
\<close>

fun brings_evidence :: "u64 \<Rightarrow> activation_event \<Rightarrow> bool" where
  "brings_evidence g (EvSet s) = (WanReachabilityState s = ''OPEN_FROM_VANTAGE'')"
| "brings_evidence g (EvRollback t) =
     (paGeneration t \<ge> g \<and> WanReachabilityState (paBefore t) = ''OPEN_FROM_VANTAGE'')"
| "brings_evidence g (EvUpdate x v h) = (h \<ge> g \<and> v = ''OPEN_FROM_VANTAGE'')"
| "brings_evidence g (EvOutcome p h) = (h \<ge> g \<and> p = ''OPEN_FROM_VANTAGE'')"
| "brings_evidence g (EvRestore h i) = (h < g)"
| "brings_evidence g _ = False"

definition unproven :: "u64 \<Rightarrow> Activation \<Rightarrow> bool" where
  "unproven g a \<longleftrightarrow> aGeneration a \<ge> g \<and> WanReachabilityState (aStates a) \<noteq> ''OPEN_FROM_VANTAGE''"

lemma set_axis_wan:
  "set_axis x v s = Some s' \<Longrightarrow> WanReachabilityState s' = WanReachabilityState s \<or> WanReachabilityState s' = v"
  by (auto simp: set_axis_def split: if_splits)

lemma unproven_try:
  "activation_try a e = Inr a' \<Longrightarrow> unproven g a \<Longrightarrow> \<not> brings_evidence g e \<Longrightarrow> unproven g a'"
  by (cases e)
    (auto simp: unproven_def Activation_Set_def StartProbeAdmission_def RollbackProbeAdmission_def probing_def
      Activation_Update_def AdvanceGeneration_def ResetForGenerationWithID_def RestoreForGenerationWithID_def
      resetForGenerationLocked_def EvidenceLost_def RecoverAfterRestart_def StartProbe_def RecordProbeOutcome_def
      OutcomeOpenFromVantage_def Let_def split: option.splits if_splits dest: set_axis_wan)

lemma unproven_run:
  "unproven g a \<Longrightarrow> list_all (\<lambda>e. \<not> brings_evidence g e) es \<Longrightarrow> unproven g (run_step activation_step a es)"
proof (induction es arbitrary: a)
  case (Cons e es)
  then have "unproven g (activation_step a e)"
    by (auto simp: activation_step_def split: sum.splits intro: unproven_try)
  with Cons show ?case by simp
qed simp

lemma legal_run: "legal a \<Longrightarrow> legal (run_step activation_step a es)"
  by (induction es arbitrary: a) (auto intro: legal_step)

text \<open>
  C11: A new generation starts without proof and late events of older generations cannot supply it:
  after a reset to a newer generation, no sequence of events publishes the Forward as verified unless
  one of them brings open-from-vantage evidence for that generation (or a failed transaction restores
  an older one).
\<close>

theorem new_generation_needs_new_proof:
  assumes "legal a" and "aGeneration a < g" and "list_all (\<lambda>e. \<not> brings_evidence g e) es"
  shows "PublicationState (aStates (run_step activation_step (ResetForGenerationWithID g i a) es))
           \<noteq> ''PUBLISHED_VERIFIED''"
proof -
  let ?a = "ResetForGenerationWithID g i a"
  have "unproven g ?a" using assms(2)
    by (auto simp: unproven_def ResetForGenerationWithID_def resetForGenerationLocked_def)
  then have "unproven g (run_step activation_step ?a es)" using assms(3) by (rule unproven_run)
  moreover have "legal ?a" using assms(1) by (simp add: ResetForGenerationWithID_def legal_reset)
  then have "legal (run_step activation_step ?a es)" by (rule legal_run)
  ultimately show ?thesis
    by (auto simp: unproven_def legal_def ActivationStates_Validate_iff ValidateAxisRelations_Inr)
qed

theorem new_generation_needs_new_proof_witness:
  "PublicationState (aStates (run_step activation_step
      (ResetForGenerationWithID 2 ''b'' (NewActivation ''f'' ''a'' 1))
      [EvStartProbe 2, EvOutcome ''OPEN_FROM_VANTAGE'' 1, EvOutcome ''TIMEOUT'' 2])) \<noteq> ''PUBLISHED_VERIFIED''"
proof (rule new_generation_needs_new_proof)
  show "legal (NewActivation ''f'' ''a'' 1)" by (rule legal_new)
  show "aGeneration (NewActivation ''f'' ''a'' 1) < 2" unfolding NewActivation_def by simp
  show "list_all (\<lambda>e. \<not> brings_evidence 2 e)
      [EvStartProbe 2, EvOutcome ''OPEN_FROM_VANTAGE'' 1, EvOutcome ''TIMEOUT'' 2]"
    by code_simp
qed

text \<open>
  Rolling back a probe admission restores the activation exactly as it was before, and a rollback
  never overwrites anything else: it succeeds only while identity, generation and snapshot are still
  the ones the admission left.
\<close>

theorem probe_admission_rollback:
  assumes "legal a" and "StartProbeAdmission i g a = Inr (token, a')"
  shows "RollbackProbeAdmission token a' = Inr a \<and>
    (\<forall>b b'. RollbackProbeAdmission token b = Inr b' \<longrightarrow> b = a' \<and> b' = a)"
  using assms by (auto simp: StartProbeAdmission_def RollbackProbeAdmission_def legal_def Let_def)

theorem probe_admission_rollback_witness:
  "legal (NewActivation ''f'' ''a'' 1) \<and>
   (\<exists>token a'. StartProbeAdmission ''a'' 1 (NewActivation ''f'' ''a'' 1) = Inr (token, a') \<and>
      RollbackProbeAdmission token a' = Inr (NewActivation ''f'' ''a'' 1))"
proof -
  let ?a = "NewActivation ''f'' ''a'' 1"
  have legal: "legal ?a" by (rule legal_new)
  have "\<exists>token a'. StartProbeAdmission ''a'' 1 ?a = Inr (token, a')"
    by (auto simp: StartProbeAdmission_def NewActivation_def probing_def Let_def snapshot_rules)
  then show ?thesis using legal probe_admission_rollback by blast
qed

end
