(* ===== verification/Agent_Enrollment.thy ===== *)
theory Agent_Enrollment
  imports Agent_Crypto
begin

text \<open>
  \<open>internal/protocol/enrollment.go\<close>: the three signed messages of the enrollment transcript. The
  fixed-size arrays of the messages are byte lists; that they have their width is part of the
  well-formedness predicates, and every parser checks it.
\<close>

section \<open>Constants\<close>

definition EnrollDomain :: string where "EnrollDomain = ''AntiNAT-Enroll-v1''"
definition EnrollVersion :: string where "EnrollVersion = ''1''"
definition MaxTokenBytes :: nat where "MaxTokenBytes = 256"
definition EnrollNonceSize :: nat where "EnrollNonceSize = 32"
definition EnrollKeySize :: nat where "EnrollKeySize = PublicKeySize"
definition EnrollHashSize :: nat where "EnrollHashSize = 32"
definition EnrollIDSize :: nat where "EnrollIDSize = 16"
definition EnrollSigLen :: nat where "EnrollSigLen = SignatureSize"

definition EnrollChallengeMax :: nat where
  "EnrollChallengeMax = 6 * 4 + EnrollIDSize + 255 + EnrollIDSize + EnrollNonceSize + 1 + 8 + EnrollSigLen"
definition EnrollRequestMax :: nat where
  "EnrollRequestMax = 6 * 4 + EnrollHashSize + EnrollNonceSize + EnrollKeySize + 4 + MaxTokenBytes
     + EnrollHashSize + EnrollSigLen"
definition EnrollResultMax :: nat where
  "EnrollResultMax = 7 * 4 + EnrollIDSize + 255 + EnrollIDSize + EnrollHashSize + 4 + EnrollIDSize + 8
     + EnrollSigLen"

lemmas enroll_consts = EnrollVersion_def MaxTokenBytes_def EnrollNonceSize_def EnrollKeySize_def EnrollHashSize_def
  EnrollIDSize_def EnrollSigLen_def EnrollChallengeMax_def EnrollRequestMax_def EnrollResultMax_def
  PublicKeySize_def SignatureSize_def

datatype enroll_error =
  ErrEnrollSignature | ErrEnrollDomain | ErrEnrollChallenge | ErrEnrollMalformed | ErrEnrollDirection

section \<open>Fields\<close>

text \<open>
  \<open>enrollEncode\<close> panics on a field of 4 GiB or more; the well-formed messages have none. \<open>enrollSplit\<close>
  cuts off the trailing signature, \<open>enrollReadFields\<close> reads exactly \<open>count\<close> fields and no more.
\<close>

definition enrollEncode :: "bytes list \<Rightarrow> bytes" where
  "enrollEncode flds = put_fields flds"

definition enrollSignatureInput :: "string \<Rightarrow> bytes \<Rightarrow> bytes" where
  "enrollSignatureInput domain flds = DomainSeparatedMessage domain flds"

definition enrollSplit :: "bytes \<Rightarrow> enroll_error + bytes \<times> bytes" where
  "enrollSplit raw =
     (if length raw < EnrollSigLen then Inl ErrEnrollMalformed
      else let sig = drop (length raw - EnrollSigLen) raw;
               flds = take (length raw - EnrollSigLen) raw
           in if length flds = 0 then Inl ErrEnrollMalformed else Inr (flds, sig))"

definition enrollReadFields :: "bytes \<Rightarrow> nat \<Rightarrow> enroll_error + bytes list" where
  "enrollReadFields b count =
     (case read_fields count b of
        Inl _ \<Rightarrow> Inl ErrEnrollMalformed
      | Inr (parts, rest) \<Rightarrow> if rest \<noteq> [] then Inl ErrEnrollMalformed else Inr parts)"

section \<open>Challenge\<close>

record EnrollChallenge =
  ecControllerInstanceID :: bytes
  ecControllerKeyID :: string
  ecNodeID :: bytes
  ecServerNonce :: bytes
  ecProtocolVersions :: string
  ecExpiryUnix :: u64

definition challenge_fields :: "EnrollChallenge \<Rightarrow> bytes list" where
  "challenge_fields c =
     [ecControllerInstanceID c, ecControllerKeyID c, ecNodeID c, ecServerNonce c, ecProtocolVersions c,
      PutUint64 (ecExpiryUnix c)]"

definition EnrollChallenge_Canonical :: "EnrollChallenge \<Rightarrow> bytes" where
  "EnrollChallenge_Canonical c = enrollEncode (challenge_fields c)"

definition EnrollChallenge_SigningBytes :: "EnrollChallenge \<Rightarrow> bytes" where
  "EnrollChallenge_SigningBytes c = enrollSignatureInput EnrollDomain (EnrollChallenge_Canonical c)"

definition challenge_of_parts :: "bytes list \<Rightarrow> enroll_error + EnrollChallenge" where
  "challenge_of_parts parts =
     (if length (parts ! 0) \<noteq> EnrollIDSize \<or> length (parts ! 2) \<noteq> EnrollIDSize \<or>
         length (parts ! 3) \<noteq> EnrollNonceSize \<or> length (parts ! 5) \<noteq> 8 then Inl ErrEnrollMalformed
      else if length (parts ! 1) = 0 then Inl ErrEnrollMalformed
      else if parts ! 4 \<noteq> EnrollVersion then Inl ErrEnrollMalformed
      else Inr \<lparr>ecControllerInstanceID = parts ! 0, ecControllerKeyID = parts ! 1, ecNodeID = parts ! 2,
                ecServerNonce = parts ! 3, ecProtocolVersions = parts ! 4,
                ecExpiryUnix = Uint64 (parts ! 5)\<rparr>)"

definition ParseEnrollChallenge :: "crypto \<Rightarrow> bytes \<Rightarrow> bytes \<Rightarrow> enroll_error + EnrollChallenge" where
  "ParseEnrollChallenge C raw controllerPub =
     (if length raw > EnrollChallengeMax then Inl ErrEnrollMalformed
      else andThen (enrollSplit raw) (\<lambda>(flds, sig).
           andThen (enrollReadFields flds 6) (\<lambda>parts.
           andThen (challenge_of_parts parts) (\<lambda>c.
           if \<not> Verify C controllerPub (EnrollChallenge_SigningBytes c) sig then Inl ErrEnrollSignature
           else Inr c))))"

section \<open>Request\<close>

record EnrollRequest =
  eqChallengeHash :: bytes
  eqAgentNonce :: bytes
  eqAgentPublicKey :: bytes
  eqAgentCredentialVersion :: u32
  eqToken :: string
  eqCapabilityHash :: bytes

definition request_fields :: "EnrollRequest \<Rightarrow> bytes list" where
  "request_fields r =
     [eqChallengeHash r, eqAgentNonce r, eqAgentPublicKey r, PutUint32 (eqAgentCredentialVersion r), eqToken r,
      eqCapabilityHash r]"

definition EnrollRequest_Canonical :: "EnrollRequest \<Rightarrow> bytes" where
  "EnrollRequest_Canonical r = enrollEncode (request_fields r)"

definition EnrollRequest_SigningBytes :: "EnrollRequest \<Rightarrow> bytes" where
  "EnrollRequest_SigningBytes r = enrollSignatureInput EnrollDomain (EnrollRequest_Canonical r)"

definition request_of_parts :: "bytes list \<Rightarrow> enroll_error + EnrollRequest" where
  "request_of_parts parts =
     (if length (parts ! 0) \<noteq> EnrollHashSize \<or> length (parts ! 1) \<noteq> EnrollNonceSize \<or>
         length (parts ! 2) \<noteq> EnrollKeySize \<or> length (parts ! 3) \<noteq> 4 \<or>
         length (parts ! 5) \<noteq> EnrollHashSize then Inl ErrEnrollMalformed
      else if length (parts ! 4) = 0 \<or> length (parts ! 4) > MaxTokenBytes then Inl ErrEnrollMalformed
      else let r = \<lparr>eqChallengeHash = parts ! 0, eqAgentNonce = parts ! 1, eqAgentPublicKey = parts ! 2,
                    eqAgentCredentialVersion = Uint32 (parts ! 3), eqToken = parts ! 4,
                    eqCapabilityHash = parts ! 5\<rparr>
           in if eqAgentCredentialVersion r = 0 then Inl ErrEnrollMalformed else Inr r)"

definition ParseEnrollRequest :: "crypto \<Rightarrow> bytes \<Rightarrow> bytes \<Rightarrow> enroll_error + EnrollRequest" where
  "ParseEnrollRequest C raw challengeHash =
     (if length raw > EnrollRequestMax then Inl ErrEnrollMalformed
      else andThen (enrollSplit raw) (\<lambda>(flds, sig).
           andThen (enrollReadFields flds 6) (\<lambda>parts.
           andThen (request_of_parts parts) (\<lambda>r.
           if eqChallengeHash r \<noteq> challengeHash then Inl ErrEnrollChallenge
           else if \<not> Verify C (eqAgentPublicKey r) (EnrollRequest_SigningBytes r) sig then Inl ErrEnrollSignature
           else Inr r))))"

section \<open>Result\<close>

record EnrollResult =
  erControllerInstanceID :: bytes
  erControllerKeyID :: string
  erNodeID :: bytes
  erAgentPublicKeyHash :: bytes
  erAgentCredentialVersion :: u32
  erEnrollmentResultID :: bytes
  erExpiryUnix :: u64

definition result_fields :: "EnrollResult \<Rightarrow> bytes list" where
  "result_fields r =
     [erControllerInstanceID r, erControllerKeyID r, erNodeID r, erAgentPublicKeyHash r,
      PutUint32 (erAgentCredentialVersion r), erEnrollmentResultID r, PutUint64 (erExpiryUnix r)]"

definition EnrollResult_Canonical :: "EnrollResult \<Rightarrow> bytes" where
  "EnrollResult_Canonical r = enrollEncode (result_fields r)"

definition EnrollResult_SigningBytes :: "EnrollResult \<Rightarrow> bytes" where
  "EnrollResult_SigningBytes r = enrollSignatureInput EnrollDomain (EnrollResult_Canonical r)"

definition result_of_parts :: "bytes list \<Rightarrow> enroll_error + EnrollResult" where
  "result_of_parts parts =
     (if length (parts ! 0) \<noteq> EnrollIDSize \<or> length (parts ! 2) \<noteq> EnrollIDSize \<or>
         length (parts ! 3) \<noteq> EnrollHashSize \<or> length (parts ! 4) \<noteq> 4 \<or>
         length (parts ! 5) \<noteq> EnrollIDSize \<or> length (parts ! 6) \<noteq> 8 then Inl ErrEnrollMalformed
      else if length (parts ! 1) = 0 then Inl ErrEnrollMalformed
      else let r = \<lparr>erControllerInstanceID = parts ! 0, erControllerKeyID = parts ! 1, erNodeID = parts ! 2,
                    erAgentPublicKeyHash = parts ! 3, erAgentCredentialVersion = Uint32 (parts ! 4),
                    erEnrollmentResultID = parts ! 5, erExpiryUnix = Uint64 (parts ! 6)\<rparr>
           in if erAgentCredentialVersion r = 0 then Inl ErrEnrollMalformed else Inr r)"

definition ParseEnrollResult :: "crypto \<Rightarrow> bytes \<Rightarrow> bytes \<Rightarrow> enroll_error + EnrollResult" where
  "ParseEnrollResult C raw controllerPub =
     (if length raw > EnrollResultMax then Inl ErrEnrollMalformed
      else andThen (enrollSplit raw) (\<lambda>(flds, sig).
           andThen (enrollReadFields flds 7) (\<lambda>parts.
           andThen (result_of_parts parts) (\<lambda>r.
           if \<not> Verify C controllerPub (EnrollResult_SigningBytes r) sig then Inl ErrEnrollSignature
           else Inr r))))"

section \<open>The canonical field lists are codecs\<close>

definition wf_challenge :: "EnrollChallenge \<Rightarrow> bool" where
  "wf_challenge c \<longleftrightarrow> length (ecControllerInstanceID c) = 16 \<and> ecControllerKeyID c \<noteq> [] \<and>
     field_fits (ecControllerKeyID c) \<and> length (ecNodeID c) = 16 \<and> length (ecServerNonce c) = 32 \<and>
     ecProtocolVersions c = ''1''"

definition wf_request :: "EnrollRequest \<Rightarrow> bool" where
  "wf_request r \<longleftrightarrow> length (eqChallengeHash r) = 32 \<and> length (eqAgentNonce r) = 32 \<and>
     length (eqAgentPublicKey r) = 32 \<and> eqAgentCredentialVersion r \<noteq> 0 \<and> eqToken r \<noteq> [] \<and>
     length (eqToken r) \<le> 256 \<and> length (eqCapabilityHash r) = 32"

definition wf_result :: "EnrollResult \<Rightarrow> bool" where
  "wf_result r \<longleftrightarrow> length (erControllerInstanceID r) = 16 \<and> erControllerKeyID r \<noteq> [] \<and>
     field_fits (erControllerKeyID r) \<and> length (erNodeID r) = 16 \<and> length (erAgentPublicKeyHash r) = 32 \<and>
     erAgentCredentialVersion r \<noteq> 0 \<and> length (erEnrollmentResultID r) = 16"

lemma enrollReadFields_Inr:
  "enrollReadFields b n = Inr parts \<longleftrightarrow>
     length parts = n \<and> (\<forall>f \<in> set parts. field_fits f) \<and> b = put_fields parts"
  by (auto simp: enrollReadFields_def read_fields_iff read_put_fields split: sum.splits)

lemma enrollSplit_Inr:
  "enrollSplit raw = Inr (flds, sig) \<longleftrightarrow> raw = flds @ sig \<and> length sig = EnrollSigLen \<and> flds \<noteq> []"
  by (auto simp: enrollSplit_def Let_def)

lemma length_6: "length xs = 6 \<longleftrightarrow> (\<exists>a b c d e f. xs = [a, b, c, d, e, f])"
  by (auto simp: length_Suc_conv numeral_eq_Suc)

lemma length_7: "length xs = 7 \<longleftrightarrow> (\<exists>a b c d e f g. xs = [a, b, c, d, e, f, g])"
  by (auto simp: length_Suc_conv numeral_eq_Suc)

lemma fits_small: "length f \<le> 256 \<Longrightarrow> field_fits f"
  by (simp add: field_fits_def)

lemma challenge_of_parts_Inr:
  assumes "length parts = 6" and "\<forall>f \<in> set parts. field_fits f"
  shows "challenge_of_parts parts = Inr c \<longleftrightarrow> wf_challenge c \<and> parts = challenge_fields c"
  using assms
  by (cases c) (auto simp: length_6 challenge_of_parts_def wf_challenge_def challenge_fields_def enroll_consts)

lemma request_of_parts_Inr:
  assumes "length parts = 6" and "\<forall>f \<in> set parts. field_fits f"
  shows "request_of_parts parts = Inr r \<longleftrightarrow> wf_request r \<and> parts = request_fields r"
  using assms
  by (cases r) (auto simp: length_6 request_of_parts_def wf_request_def request_fields_def enroll_consts)

lemma result_of_parts_Inr:
  assumes "length parts = 7" and "\<forall>f \<in> set parts. field_fits f"
  shows "result_of_parts parts = Inr r \<longleftrightarrow> wf_result r \<and> parts = result_fields r"
  using assms
  by (cases r) (auto simp: length_7 result_of_parts_def wf_result_def result_fields_def enroll_consts)

lemma fields_fit:
  "wf_challenge c \<Longrightarrow> length (challenge_fields c) = 6 \<and> (\<forall>f \<in> set (challenge_fields c). field_fits f)"
  "wf_request q \<Longrightarrow> length (request_fields q) = 6 \<and> (\<forall>f \<in> set (request_fields q). field_fits f)"
  "wf_result r \<Longrightarrow> length (result_fields r) = 7 \<and> (\<forall>f \<in> set (result_fields r). field_fits f)"
  by (auto simp: wf_challenge_def challenge_fields_def wf_request_def request_fields_def wf_result_def
      result_fields_def intro!: fits_small)

text \<open>
  What the signed messages of the enrollment transcript and of the session handshake share: a splitter
  that cuts off the trailing signature, a reader of an exact number of fields, a builder that accepts
  exactly the field lists of well-formed messages, and the signature behind them.
\<close>

locale field_codec =
  fixes spl :: "bytes \<Rightarrow> 'e + bytes \<times> bytes" and rdf :: "bytes \<Rightarrow> nat \<Rightarrow> 'e + bytes list"
    and flds :: "'a \<Rightarrow> bytes list" and of_parts :: "bytes list \<Rightarrow> 'e + 'a" and n :: nat
    and wf :: "'a \<Rightarrow> bool"
  assumes count: "0 < n"
    and spl_Inr: "spl raw = Inr (f, sig) \<longleftrightarrow> raw = f @ sig \<and> length sig = SignatureSize \<and> f \<noteq> []"
    and rdf_Inr: "rdf b m = Inr parts \<longleftrightarrow>
      length parts = m \<and> (\<forall>f \<in> set parts. field_fits f) \<and> b = put_fields parts"
    and flds_fit: "wf x \<Longrightarrow> length (flds x) = n \<and> (\<forall>f \<in> set (flds x). field_fits f)"
    and of_parts_Inr: "length parts = n \<Longrightarrow> \<forall>f \<in> set parts. field_fits f \<Longrightarrow>
      of_parts parts = Inr x \<longleftrightarrow> wf x \<and> parts = flds x"
begin

lemma read_build: "andThen (rdf b n) of_parts = Inr x \<longleftrightarrow> wf x \<and> b = put_fields (flds x)"
proof -
  have "andThen (rdf b n) of_parts = Inr x \<longleftrightarrow>
      (\<exists>parts. length parts = n \<and> (\<forall>f \<in> set parts. field_fits f) \<and> b = put_fields parts \<and> wf x \<and> parts = flds x)"
    using of_parts_Inr by (auto simp: rdf_Inr)
  then show ?thesis using flds_fit by auto
qed

lemma encode_nonempty: "wf x \<Longrightarrow> put_fields (flds x) \<noteq> []"
proof -
  assume "wf x"
  then have "length (put_fields (flds x)) \<noteq> 0"
    using flds_fit [of x] count by (simp add: length_put_fields)
  then show ?thesis by simp
qed

lemma split_read_build:
  "andThen (spl raw) (\<lambda>(f, sig). andThen (rdf f n) (\<lambda>parts.
     andThen (of_parts parts) (k sig))) = Inr y \<longleftrightarrow>
   (\<exists>x sig. wf x \<and> length sig = SignatureSize \<and> raw = put_fields (flds x) @ sig \<and> k sig x = Inr y)"
proof -
  have "(\<exists>f sig parts x. spl raw = Inr (f, sig) \<and> rdf f n = Inr parts \<and>
      of_parts parts = Inr x \<and> k sig x = Inr y) \<longleftrightarrow>
    (\<exists>f sig x. spl raw = Inr (f, sig) \<and> andThen (rdf f n) of_parts = Inr x \<and>
      k sig x = Inr y)"
    by auto
  also have "\<dots> \<longleftrightarrow> (\<exists>x sig. wf x \<and> length sig = SignatureSize \<and> raw = put_fields (flds x) @ sig \<and> k sig x = Inr y)"
    using encode_nonempty by (auto simp: read_build spl_Inr simp del: andThen_Inr)
  finally show ?thesis by (simp add: split_beta)
qed

end

sublocale field_codec \<subseteq> canonical: wire_codec "\<lambda>x. put_fields (flds x)"
  "\<lambda>b. andThen (rdf b n) of_parts" wf
  by unfold_locales (auto simp: read_build simp del: andThen_Inr)

lemmas enroll_readers = enrollSplit_Inr [unfolded EnrollSigLen_def] enrollReadFields_Inr

interpretation chal: field_codec enrollSplit enrollReadFields challenge_fields challenge_of_parts 6 wf_challenge
  by unfold_locales (simp_all add: fields_fit challenge_of_parts_Inr enroll_readers)

interpretation enreq: field_codec enrollSplit enrollReadFields request_fields request_of_parts 6 wf_request
  by unfold_locales (simp_all add: fields_fit request_of_parts_Inr enroll_readers)

interpretation enres: field_codec enrollSplit enrollReadFields result_fields result_of_parts 7 wf_result
  by unfold_locales (simp_all add: fields_fit result_of_parts_Inr enroll_readers)

lemma enroll_canonical:
  "EnrollChallenge_Canonical c = put_fields (challenge_fields c)"
  "EnrollRequest_Canonical q = put_fields (request_fields q)"
  "EnrollResult_Canonical r = put_fields (result_fields r)"
  by (simp_all add: EnrollChallenge_Canonical_def EnrollRequest_Canonical_def EnrollResult_Canonical_def enrollEncode_def)

lemma canonical_lengths:
  "wf_challenge c \<Longrightarrow> length (EnrollChallenge_Canonical c) = 97 + length (ecControllerKeyID c)"
  "wf_request q \<Longrightarrow> length (EnrollRequest_Canonical q) = 156 + length (eqToken q)"
  "wf_result r \<Longrightarrow> length (EnrollResult_Canonical r) = 120 + length (erControllerKeyID r)"
  by (simp_all add: EnrollChallenge_Canonical_def EnrollRequest_Canonical_def EnrollResult_Canonical_def
      enrollEncode_def challenge_fields_def request_fields_def result_fields_def wf_challenge_def wf_request_def
      wf_result_def)

lemma Verify_len: "Verify C pub m sig \<Longrightarrow> length sig = 64"
  by (auto simp: Verify_def SignatureSize_def split: if_splits)

text \<open>The parsers, characterised by the frames they accept.\<close>

lemma ParseEnrollChallenge_Inr:
  "ParseEnrollChallenge C raw pub = Inr c \<longleftrightarrow>
     wf_challenge c \<and> length (ecControllerKeyID c) \<le> 255 \<and>
     (\<exists>sig. raw = EnrollChallenge_Canonical c @ sig \<and> Verify C pub (EnrollChallenge_SigningBytes c) sig)"
  by (auto simp: ParseEnrollChallenge_def chal.split_read_build enroll_canonical(1) [symmetric]
      canonical_lengths enroll_consts Verify_len simp del: andThen_Inr)

lemma ParseEnrollRequest_Inr:
  "ParseEnrollRequest C raw h = Inr q \<longleftrightarrow>
     wf_request q \<and> eqChallengeHash q = h \<and>
     (\<exists>sig. raw = EnrollRequest_Canonical q @ sig \<and> Verify C (eqAgentPublicKey q) (EnrollRequest_SigningBytes q) sig)"
  by (auto simp: ParseEnrollRequest_def enreq.split_read_build enroll_canonical(2) [symmetric]
      canonical_lengths enroll_consts Verify_len simp del: andThen_Inr)
     (simp add: wf_request_def)

lemma ParseEnrollResult_Inr:
  "ParseEnrollResult C raw pub = Inr r \<longleftrightarrow>
     wf_result r \<and> length (erControllerKeyID r) \<le> 255 \<and>
     (\<exists>sig. raw = EnrollResult_Canonical r @ sig \<and> Verify C pub (EnrollResult_SigningBytes r) sig)"
  by (auto simp: ParseEnrollResult_def enres.split_read_build enroll_canonical(3) [symmetric]
      canonical_lengths enroll_consts Verify_len simp del: andThen_Inr)

section \<open>Properties\<close>

lemma signing_bytes_domain:
  "EnrollChallenge_SigningBytes c = EnrollDomain @ EnrollChallenge_Canonical c"
  "EnrollRequest_SigningBytes q = EnrollDomain @ EnrollRequest_Canonical q"
  "EnrollResult_SigningBytes r = EnrollDomain @ EnrollResult_Canonical r"
  by (simp_all add: EnrollChallenge_SigningBytes_def EnrollRequest_SigningBytes_def EnrollResult_SigningBytes_def
      enrollSignatureInput_def DomainSeparatedMessage_def)

text \<open>
  Each enrollment message survives the wire: a well-formed challenge, request or result, signed
  with the sender's key, is parsed back unchanged under the matching public key. The pre-filter sizes
  are exactly large enough: every key id of 1 to 255 bytes and every token of 1 to 256 bytes passes.
\<close>

theorem enrollment_roundtrip:
  assumes "go_crypto C" and "length priv = PrivateKeySize"
  shows "(wf_challenge c \<and> length (ecControllerKeyID c) \<le> 255 \<longrightarrow>
       ParseEnrollChallenge C (EnrollChallenge_Canonical c @ ed_sign C priv (EnrollChallenge_SigningBytes c))
         (ed_public C priv) = Inr c) \<and>
    (wf_request q \<and> eqAgentPublicKey q = ed_public C priv \<longrightarrow>
       ParseEnrollRequest C (EnrollRequest_Canonical q @ ed_sign C priv (EnrollRequest_SigningBytes q))
         (eqChallengeHash q) = Inr q) \<and>
    (wf_result r \<and> length (erControllerKeyID r) \<le> 255 \<longrightarrow>
       ParseEnrollResult C (EnrollResult_Canonical r @ ed_sign C priv (EnrollResult_SigningBytes r))
         (ed_public C priv) = Inr r)"
proof -
  have "Verify C (ed_public C priv) m (ed_sign C priv m)" for m
    using go_crypto.Verify_Sign(1) [OF assms(1) go_crypto.Sign_ok [OF assms]] .
  then show ?thesis
    by (auto simp: ParseEnrollChallenge_Inr ParseEnrollRequest_Inr ParseEnrollResult_Inr)
qed

definition example_challenge :: EnrollChallenge where
  "example_challenge = \<lparr>ecControllerInstanceID = replicate 16 (CHR ''i''), ecControllerKeyID = ''key-1'',
     ecNodeID = replicate 16 (CHR ''n''), ecServerNonce = replicate 32 (CHR ''s''), ecProtocolVersions = ''1'',
     ecExpiryUnix = 1700000000\<rparr>"

theorem enrollment_roundtrip_witness:
  "wf_challenge example_challenge \<and>
   ParseEnrollChallenge demo_crypto
     (EnrollChallenge_Canonical example_challenge
        @ ed_sign demo_crypto (replicate 64 (CHR ''k'')) (EnrollChallenge_SigningBytes example_challenge))
     (ed_public demo_crypto (replicate 64 (CHR ''k''))) = Inr example_challenge"
proof -
  have wf: "wf_challenge example_challenge" "length (ecControllerKeyID example_challenge) \<le> 255"
    by (simp_all add: wf_challenge_def example_challenge_def field_fits_def)
  have key: "length (replicate 64 (CHR ''k'')) = PrivateKeySize" by (simp add: PrivateKeySize_def)
  show ?thesis
    using enrollment_roundtrip [OF demo.go_crypto_axioms key, of example_challenge] wf by blast
qed

text \<open>
  The parsers accept nothing else: an accepted frame is the canonical encoding of the returned
  message followed by a signature that verifies, the key id has 1 to 255 bytes, and a request answers
  exactly the challenge the server issued and is signed by the key it presents.
\<close>

theorem enrollment_accepts_only:
  "(ParseEnrollChallenge C raw pub = Inr c \<longleftrightarrow>
      wf_challenge c \<and> length (ecControllerKeyID c) \<le> 255 \<and>
      (\<exists>sig. raw = EnrollChallenge_Canonical c @ sig \<and> Verify C pub (EnrollChallenge_SigningBytes c) sig)) \<and>
   (ParseEnrollRequest C raw h = Inr q \<longleftrightarrow>
      wf_request q \<and> eqChallengeHash q = h \<and>
      (\<exists>sig. raw = EnrollRequest_Canonical q @ sig \<and>
         Verify C (eqAgentPublicKey q) (EnrollRequest_SigningBytes q) sig)) \<and>
   (ParseEnrollResult C raw pub = Inr r \<longleftrightarrow>
      wf_result r \<and> length (erControllerKeyID r) \<le> 255 \<and>
      (\<exists>sig. raw = EnrollResult_Canonical r @ sig \<and> Verify C pub (EnrollResult_SigningBytes r) sig))"
  by (intro conjI ParseEnrollChallenge_Inr ParseEnrollRequest_Inr ParseEnrollResult_Inr)

lemma put_fields_prefix:
  "field_fits f \<Longrightarrow> field_fits g \<Longrightarrow> put_field f @ r = put_field g @ s \<longleftrightarrow> f = g \<and> r = s"
  by (metis read_put_field prod.inject sum.inject(2))

text \<open>
  The three messages share one signing domain, and still no signature can be moved between them:
  the signed bytes of a challenge, a request and a result are always different, and within one kind
  they determine the message.
\<close>

theorem enrollment_kinds_disjoint:
  assumes "wf_challenge c" and "wf_request q" and "wf_result r"
  shows "EnrollChallenge_SigningBytes c \<noteq> EnrollRequest_SigningBytes q \<and>
    EnrollRequest_SigningBytes q \<noteq> EnrollResult_SigningBytes r \<and>
    EnrollChallenge_SigningBytes c \<noteq> EnrollResult_SigningBytes r \<and>
    (\<forall>c'. wf_challenge c' \<and> EnrollChallenge_SigningBytes c = EnrollChallenge_SigningBytes c' \<longrightarrow> c = c')"
proof -
  note fit = fields_fit(1) [OF assms(1)] fields_fit(2) [OF assms(2)] fields_fit(3) [OF assms(3)]
  note unf = signing_bytes_domain EnrollChallenge_Canonical_def EnrollRequest_Canonical_def EnrollResult_Canonical_def
    enrollEncode_def challenge_fields_def request_fields_def result_fields_def
  have "EnrollChallenge_SigningBytes c \<noteq> EnrollRequest_SigningBytes q"
    using fit assms by (auto simp: unf put_fields_prefix wf_challenge_def wf_request_def)
  moreover have "EnrollRequest_SigningBytes q \<noteq> EnrollResult_SigningBytes r"
    using fit assms by (auto simp: unf put_fields_prefix wf_request_def wf_result_def)
  moreover have "EnrollChallenge_SigningBytes c \<noteq> EnrollResult_SigningBytes r"
  proof -
    have "length (PutUint32 (erAgentCredentialVersion r)) \<noteq> length (ecProtocolVersions c)"
      using assms by (simp add: wf_challenge_def)
    with fit show ?thesis by (auto simp: unf put_fields_prefix)
  qed
  moreover have "\<forall>c'. wf_challenge c' \<and> EnrollChallenge_SigningBytes c = EnrollChallenge_SigningBytes c' \<longrightarrow> c = c'"
    using chal.canonical.enc_inj [OF assms(1)] by (auto simp: signing_bytes_domain enroll_canonical)
  ultimately show ?thesis by blast
qed

theorem enrollment_kinds_disjoint_witness:
  "\<exists>q r. wf_challenge example_challenge \<and> wf_request q \<and> wf_result r \<and>
     EnrollChallenge_SigningBytes example_challenge \<noteq> EnrollResult_SigningBytes r \<and>
     EnrollChallenge_SigningBytes example_challenge \<noteq> EnrollRequest_SigningBytes q"
proof -
  let ?q = "\<lparr>eqChallengeHash = replicate 32 (CHR ''h''), eqAgentNonce = replicate 32 (CHR ''a''),
     eqAgentPublicKey = replicate 32 (CHR ''p''), eqAgentCredentialVersion = 1, eqToken = ''token'',
     eqCapabilityHash = replicate 32 (CHR ''c'')\<rparr>"
  let ?r = "\<lparr>erControllerInstanceID = replicate 16 (CHR ''i''), erControllerKeyID = ''key-1'',
     erNodeID = replicate 16 (CHR ''n''), erAgentPublicKeyHash = replicate 32 (CHR ''h''),
     erAgentCredentialVersion = 1, erEnrollmentResultID = replicate 16 (CHR ''e''), erExpiryUnix = 7\<rparr>"
  have wf: "wf_challenge example_challenge" "wf_request ?q" "wf_result ?r"
    by (simp_all add: wf_challenge_def example_challenge_def field_fits_def wf_request_def wf_result_def)
  show ?thesis using enrollment_kinds_disjoint [OF wf] wf by blast
qed

end
