(* ===== verification/Agent_Probe_Frames.thy ===== *)
theory Agent_Probe_Frames
  imports Agent_Crypto Agent_Endpoint
begin

text \<open>
  \<open>internal/protocol/probe.go\<close> (frames) and \<open>probe_adapter.go\<close>: the five fixed binary probe frames, their
  canonical bytes and their parsers. Fixed-size arrays are byte lists whose width is part of the
  well-formedness predicates; the parsers cut them out of the frame at fixed offsets.
\<close>

section \<open>Constants\<close>

definition ProbeMagicArm :: bytes where "ProbeMagicArm = ''ARM1''"
definition ProbeMagicArmed :: bytes where "ProbeMagicArmed = ''RDY1''"
definition ProbeMagicWAN :: bytes where "ProbeMagicWAN = ''WAN1''"
definition ProbeMagicACK :: bytes where "ProbeMagicACK = ''ACK1''"
definition ProbeMagicReceipt :: bytes where "ProbeMagicReceipt = ''RCT1''"

definition ProbeIDLen :: nat where "ProbeIDLen = 16"
definition ProbeProviderIDLen :: nat where "ProbeProviderIDLen = 16"
definition ProbeActivationLen :: nat where "ProbeActivationLen = 16"
definition ProbeNonceLen :: nat where "ProbeNonceLen = 32"
definition ProbeOpaqueLen :: nat where "ProbeOpaqueLen = 16"
definition ProbeDigestLen :: nat where "ProbeDigestLen = 32"

text \<open>Durations in nanoseconds, as Go's \<open>time.Duration\<close>.\<close>

definition Millisecond :: int where "Millisecond = 1000000"
definition ProbeReplayWindow :: int where "ProbeReplayWindow = 5 * 60 * 1000 * Millisecond"
definition ProbeTTLMax :: int where "ProbeTTLMax = 24 * 60 * 60 * 1000 * Millisecond"
definition ProbeOpMax :: nat where "ProbeOpMax = 1024"

definition probeFrameMax :: nat where
  "probeFrameMax = 4 + 32 + 16 + 16 + 16 + 1 + ProbeEndpointMax + 16 + 32 + SignatureSize"

lemmas probe_consts = ProbeMagicArm_def ProbeMagicArmed_def ProbeMagicWAN_def ProbeMagicACK_def ProbeMagicReceipt_def
  ProbeIDLen_def ProbeProviderIDLen_def ProbeActivationLen_def ProbeNonceLen_def ProbeOpaqueLen_def ProbeDigestLen_def
  probeFrameMax_def ProbeEndpointMax_def SignatureSize_def PublicKeySize_def

datatype probe_error =
  ErrProbeMalformed | ErrProbeSignature | ErrProbeReplay | ErrProbeIDConflict | ErrProbeStateFull
| ErrProbeChallenge | ErrProbeEndpoint

text \<open>The Go slice expression \<open>b[i:j]\<close>.\<close>

definition subslice :: "nat \<Rightarrow> nat \<Rightarrow> bytes \<Rightarrow> bytes" where
  "subslice i j b = take (j - i) (drop i b)"

section \<open>ARM1\<close>

record ProbeArm =
  armProbeID :: bytes
  armProviderID :: bytes
  armProviderPublicKey :: bytes
  armExpectedSourceIP :: bytes
  armActivation :: bytes
  armEndpoint :: string
  armTTLMS :: u64
  armExpiryOpaque :: bytes

definition ProbeArm_Canonical :: "ProbeArm \<Rightarrow> bytes" where
  "ProbeArm_Canonical arm =
     ProbeMagicArm @ armProbeID arm @ armProviderID arm @ armProviderPublicKey arm @ armExpectedSourceIP arm
     @ armActivation arm @ [char_of (length (armEndpoint arm))] @ armEndpoint arm @ PutUint64 (armTTLMS arm)
     @ armExpiryOpaque arm"

definition ProbeArm_Digest :: "crypto \<Rightarrow> ProbeArm \<Rightarrow> bytes" where
  "ProbeArm_Digest C arm = sha256 C (ProbeArm_Canonical arm)"

definition zeros :: "nat \<Rightarrow> bytes" where "zeros n = replicate n (char_of (0::nat))"

definition ProbeArm_Validate :: "ProbeArm \<Rightarrow> probe_error + unit" where
  "ProbeArm_Validate arm =
     (if armProviderID arm = zeros ProbeProviderIDLen \<or> armProbeID arm = zeros ProbeIDLen then Inl ErrProbeMalformed
      else if armTTLMS arm = 0 \<or> uint (armTTLMS arm) > ProbeTTLMax div Millisecond then Inl ErrProbeMalformed
      else if length (armEndpoint arm) = 0 \<or> length (armEndpoint arm) > ProbeEndpointMax then Inl ErrProbeMalformed
      else if \<not> ValidateProbeEndpoint (armEndpoint arm) then Inl ErrProbeEndpoint
      else Inr ())"

definition ParseProbeArm :: "bytes \<Rightarrow> probe_error + ProbeArm" where
  "ParseProbeArm raw =
     (let fixed = 4 + ProbeIDLen + ProbeProviderIDLen + PublicKeySize + 4 + ProbeActivationLen + 1
      in if length raw < fixed \<or> length raw > probeFrameMax \<or> take 4 raw \<noteq> ProbeMagicArm then Inl ErrProbeMalformed
         else let endpointLen = of_char (raw ! (fixed - 1));
                  expected = fixed + endpointLen + 8 + ProbeOpaqueLen
              in if endpointLen = 0 \<or> length raw \<noteq> expected then Inl ErrProbeMalformed
                 else let arm =
                   \<lparr>armProbeID = subslice 4 (4 + ProbeIDLen) raw,
                    armProviderID = subslice (4 + ProbeIDLen) (4 + ProbeIDLen + ProbeProviderIDLen) raw,
                    armProviderPublicKey = subslice (4 + ProbeIDLen + ProbeProviderIDLen)
                      (4 + ProbeIDLen + ProbeProviderIDLen + PublicKeySize) raw,
                    armExpectedSourceIP = subslice (4 + ProbeIDLen + ProbeProviderIDLen + PublicKeySize)
                      (4 + ProbeIDLen + ProbeProviderIDLen + PublicKeySize + 4) raw,
                    armActivation = subslice (4 + ProbeIDLen + ProbeProviderIDLen + PublicKeySize + 4)
                      (4 + ProbeIDLen + ProbeProviderIDLen + PublicKeySize + 4 + ProbeActivationLen) raw,
                    armEndpoint = subslice fixed (fixed + endpointLen) raw,
                    armTTLMS = Uint64 (subslice (fixed + endpointLen) (fixed + endpointLen + 8) raw),
                    armExpiryOpaque = drop (fixed + endpointLen + 8) raw\<rparr>
                 in andThen (ProbeArm_Validate arm) (\<lambda>_. Inr arm))"

section \<open>RDY1\<close>

record ProbeArmed =
  rdyArmDigest :: bytes
  rdySignature :: bytes

definition ProbeArmed_SigningBytes :: "bytes \<Rightarrow> bytes" where
  "ProbeArmed_SigningBytes armDigest = ProbeMagicArmed @ armDigest"

definition ParseProbeArmed :: "crypto \<Rightarrow> bytes \<Rightarrow> bytes \<Rightarrow> bytes \<Rightarrow> probe_error + ProbeArmed" where
  "ParseProbeArmed C raw nodePub wantDigest =
     (let fixed = 4 + ProbeDigestLen
      in if length raw \<noteq> fixed + SignatureSize \<or> take 4 raw \<noteq> ProbeMagicArmed then Inl ErrProbeMalformed
         else let a = \<lparr>rdyArmDigest = subslice 4 fixed raw, rdySignature = drop fixed raw\<rparr>
              in if rdyArmDigest a \<noteq> wantDigest then Inl ErrProbeMalformed
                 else if \<not> Verify C nodePub (ProbeArmed_SigningBytes (rdyArmDigest a)) (rdySignature a)
                   then Inl ErrProbeSignature
                 else Inr a)"

section \<open>WAN1\<close>

record ProviderFrame =
  wanArmDigest :: bytes
  wanProbeID :: bytes
  wanProviderID :: bytes
  wanActivation :: bytes
  wanEndpoint :: string
  wanExpiryOpaque :: bytes
  wanChallenge :: bytes
  wanSignature :: bytes

definition ProviderFrame_Canonical :: "ProviderFrame \<Rightarrow> bytes" where
  "ProviderFrame_Canonical f =
     ProbeMagicWAN @ wanArmDigest f @ wanProbeID f @ wanProviderID f @ wanActivation f
     @ [char_of (length (wanEndpoint f))] @ wanEndpoint f @ wanExpiryOpaque f @ wanChallenge f"

definition ProviderFrame_SigningBytes :: "ProviderFrame \<Rightarrow> bytes" where
  "ProviderFrame_SigningBytes f = ProviderFrame_Canonical f"

definition ProviderFrame_ChallengeHash :: "crypto \<Rightarrow> ProviderFrame \<Rightarrow> bytes" where
  "ProviderFrame_ChallengeHash C f = sha256 C (wanChallenge f)"

definition ParseProviderFrame :: "bytes \<Rightarrow> probe_error + ProviderFrame" where
  "ParseProviderFrame raw =
     (let fixed = 4 + ProbeDigestLen + ProbeIDLen + ProbeProviderIDLen + ProbeActivationLen + 1
      in if length raw < fixed \<or> length raw > probeFrameMax \<or> take 4 raw \<noteq> ProbeMagicWAN then Inl ErrProbeMalformed
         else let endpointLen = of_char (raw ! (fixed - 1));
                  trailer = ProbeOpaqueLen + ProbeNonceLen + SignatureSize;
                  expected = fixed + endpointLen + trailer
              in if endpointLen = 0 \<or> length raw \<noteq> expected then Inl ErrProbeMalformed
                 else if \<not> ValidateProbeEndpoint (subslice fixed (fixed + endpointLen) raw) then Inl ErrProbeEndpoint
                 else let ts = fixed + endpointLen
                   in Inr
                   \<lparr>wanArmDigest = subslice 4 (4 + ProbeDigestLen) raw,
                    wanProbeID = subslice (4 + ProbeDigestLen) (4 + ProbeDigestLen + ProbeIDLen) raw,
                    wanProviderID = subslice (4 + ProbeDigestLen + ProbeIDLen)
                      (4 + ProbeDigestLen + ProbeIDLen + ProbeProviderIDLen) raw,
                    wanActivation = subslice (4 + ProbeDigestLen + ProbeIDLen + ProbeProviderIDLen)
                      (4 + ProbeDigestLen + ProbeIDLen + ProbeProviderIDLen + ProbeActivationLen) raw,
                    wanEndpoint = subslice fixed (fixed + endpointLen) raw,
                    wanExpiryOpaque = subslice ts (ts + ProbeOpaqueLen) raw,
                    wanChallenge = subslice (ts + ProbeOpaqueLen) (ts + ProbeOpaqueLen + ProbeNonceLen) raw,
                    wanSignature = drop (ts + ProbeOpaqueLen + ProbeNonceLen) raw\<rparr>)"

section \<open>ACK1\<close>

record ProbeACK =
  ackArmDigest :: bytes
  ackChallengeHash :: bytes
  ackSignature :: bytes

definition ProbeACK_SigningBytes :: "ProbeACK \<Rightarrow> bytes" where
  "ProbeACK_SigningBytes a = ProbeMagicACK @ ackArmDigest a @ ackChallengeHash a"

definition ParseProbeACK :: "crypto \<Rightarrow> bytes \<Rightarrow> bytes \<Rightarrow> probe_error + ProbeACK" where
  "ParseProbeACK C raw nodePub =
     (let fixed = 4 + ProbeDigestLen + ProbeDigestLen
      in if length raw \<noteq> fixed + SignatureSize \<or> take 4 raw \<noteq> ProbeMagicACK then Inl ErrProbeMalformed
         else let a = \<lparr>ackArmDigest = subslice 4 (4 + ProbeDigestLen) raw,
                       ackChallengeHash = subslice (4 + ProbeDigestLen) fixed raw, ackSignature = drop fixed raw\<rparr>
              in if \<not> Verify C nodePub (ProbeACK_SigningBytes a) (ackSignature a) then Inl ErrProbeSignature
                 else Inr a)"

section \<open>RCT1\<close>

record ProbeReceipt =
  rctArmDigest :: bytes
  rctChallengeHash :: bytes
  rctProviderID :: bytes
  rctSignature :: bytes

definition ProbeReceipt_SigningBytes :: "ProbeReceipt \<Rightarrow> bytes" where
  "ProbeReceipt_SigningBytes r = ProbeMagicReceipt @ rctArmDigest r @ rctChallengeHash r @ rctProviderID r"

definition ParseProbeReceipt :: "crypto \<Rightarrow> bytes \<Rightarrow> bytes \<Rightarrow> probe_error + ProbeReceipt" where
  "ParseProbeReceipt C raw nodePub =
     (let fixed = 4 + ProbeDigestLen + ProbeDigestLen + ProbeProviderIDLen
      in if length raw \<noteq> fixed + SignatureSize \<or> take 4 raw \<noteq> ProbeMagicReceipt then Inl ErrProbeMalformed
         else let r = \<lparr>rctArmDigest = subslice 4 (4 + ProbeDigestLen) raw,
                       rctChallengeHash = subslice (4 + ProbeDigestLen) (4 + 2 * ProbeDigestLen) raw,
                       rctProviderID = subslice (4 + 2 * ProbeDigestLen) fixed raw, rctSignature = drop fixed raw\<rparr>
              in if \<not> Verify C nodePub (ProbeReceipt_SigningBytes r) (rctSignature r) then Inl ErrProbeSignature
                 else Inr r)"

section \<open>Derived activation id\<close>

definition ActivationID :: "crypto \<Rightarrow> string \<Rightarrow> u64 \<Rightarrow> bytes" where
  "ActivationID C forwardID specRevision =
     take 16 (sha256 C (''antinat-activation-v1'' @ [char_of (0::nat)] @ forwardID @ [char_of (0::nat)]
       @ PutUint64 specRevision))"

section \<open>The frames are codecs\<close>

lemma subslice_append:
  "length x \<le> i \<Longrightarrow> subslice i j (x @ y) = subslice (i - length x) (j - length x) y"
  "length x = n \<Longrightarrow> subslice 0 n (x @ y) = x"
  "0 < i \<Longrightarrow> subslice i j (c # y) = subslice (i - 1) (j - 1) y"
  "0 < i \<Longrightarrow> drop i (c # y) = drop (i - 1) y"
  by (simp_all add: subslice_def drop_Cons')

lemma slice_drop: "i \<le> j \<Longrightarrow> subslice i j b @ drop j b = drop i b"
  by (simp add: subslice_def) (metis append_take_drop_id drop_drop le_add_diff_inverse2 add.commute)

lemma length_slice: "j \<le> length b \<Longrightarrow> length (subslice i j b) = j - i"
  by (simp add: subslice_def)

definition wf_arm :: "ProbeArm \<Rightarrow> bool" where
  "wf_arm arm \<longleftrightarrow> length (armProbeID arm) = 16 \<and> length (armProviderID arm) = 16 \<and>
     length (armProviderPublicKey arm) = 32 \<and> length (armExpectedSourceIP arm) = 4 \<and>
     length (armActivation arm) = 16 \<and> length (armExpiryOpaque arm) = 16 \<and> ProbeArm_Validate arm = Inr ()"

lemma Validate_endpoint:
  "ProbeArm_Validate arm = Inr () \<Longrightarrow> 0 < length (armEndpoint arm) \<and> length (armEndpoint arm) \<le> 255"
  by (simp add: ProbeArm_Validate_def ProbeEndpointMax_def)

lemma of_char_length [simp]: "n \<le> 255 \<Longrightarrow> of_char (char_of n) = (n :: nat)"
  by simp

lemma ParseProbeArm_Canonical:
  assumes "wf_arm arm"
  shows "ParseProbeArm (ProbeArm_Canonical arm) = Inr arm"
proof -
  have v: "ProbeArm_Validate arm = Inr ()" and e: "0 < length (armEndpoint arm)" "length (armEndpoint arm) \<le> 255"
    using assms Validate_endpoint by (auto simp: wf_arm_def)
  let ?raw = "ProbeArm_Canonical arm"
  have len: "length ?raw = 113 + length (armEndpoint arm)"
    using assms by (simp add: ProbeArm_Canonical_def wf_arm_def probe_consts)
  have nth: "?raw ! 88 = char_of (length (armEndpoint arm))"
    using assms by (simp add: ProbeArm_Canonical_def wf_arm_def probe_consts nth_append)
  have sl: "subslice 4 20 ?raw = armProbeID arm" "subslice 20 36 ?raw = armProviderID arm"
    "subslice 36 68 ?raw = armProviderPublicKey arm" "subslice 68 72 ?raw = armExpectedSourceIP arm"
    "subslice 72 88 ?raw = armActivation arm" "subslice 89 (89 + length (armEndpoint arm)) ?raw = armEndpoint arm"
    "subslice (89 + length (armEndpoint arm)) (97 + length (armEndpoint arm)) ?raw = PutUint64 (armTTLMS arm)"
    "drop (97 + length (armEndpoint arm)) ?raw = armExpiryOpaque arm" "take 4 ?raw = ''ARM1''"
    using assms by (simp_all add: ProbeArm_Canonical_def wf_arm_def ProbeMagicArm_def subslice_append)
  have surj: "\<lparr>armProbeID = armProbeID arm, armProviderID = armProviderID arm,
      armProviderPublicKey = armProviderPublicKey arm, armExpectedSourceIP = armExpectedSourceIP arm,
      armActivation = armActivation arm, armEndpoint = armEndpoint arm, armTTLMS = armTTLMS arm,
      armExpiryOpaque = armExpiryOpaque arm\<rparr> = arm"
    by simp
  show ?thesis
    using e v by (simp add: ParseProbeArm_def probe_consts len nth sl surj Let_def)
qed

lemma nth_slice: "i < length b \<Longrightarrow> subslice i (Suc i) b = [b ! i]"
  by (simp add: subslice_def take_Suc_conv_app_nth [of 0, simplified] Cons_nth_drop_Suc [symmetric])

lemma ParseProbeArm_Inr:
  assumes "ParseProbeArm raw = Inr arm"
  shows "wf_arm arm \<and> ProbeArm_Canonical arm = raw"
proof -
  define n :: nat where "n = of_char (raw ! 88)"
  have n: "n \<noteq> 0" "length raw = 113 + n" "take 4 raw = ''ARM1''" "n < 256"
    and arm: "arm = \<lparr>armProbeID = subslice 4 20 raw, armProviderID = subslice 20 36 raw,
        armProviderPublicKey = subslice 36 68 raw, armExpectedSourceIP = subslice 68 72 raw,
        armActivation = subslice 72 88 raw, armEndpoint = subslice 89 (89 + n) raw,
        armTTLMS = Uint64 (subslice (89 + n) (97 + n) raw), armExpiryOpaque = drop (97 + n) raw\<rparr>"
    and v: "ProbeArm_Validate arm = Inr ()"
    using assms by (auto simp: ParseProbeArm_def probe_consts Let_def n_def add.commute split: if_splits)
  have byte: "[char_of n] = subslice 88 89 raw"
    using nth_slice [of 88 raw] n by (simp add: n_def)
  have "drop 4 raw = subslice 4 20 raw @ subslice 20 36 raw @ subslice 36 68 raw @ subslice 68 72 raw @ subslice 72 88 raw
      @ subslice 88 89 raw @ subslice 89 (89 + n) raw @ subslice (89 + n) (97 + n) raw @ drop (97 + n) raw"
    by (simp add: slice_drop)
  moreover have "raw = take 4 raw @ drop 4 raw" by simp
  ultimately have "raw = ProbeArm_Canonical arm"
    using n(2,3) by (simp add: ProbeArm_Canonical_def ProbeMagicArm_def arm length_slice byte [symmetric])
  moreover have "wf_arm arm" using n(2) v by (simp add: wf_arm_def length_slice arm)
  ultimately show ?thesis by simp
qed

interpretation probe_arm: wire_codec ProbeArm_Canonical ParseProbeArm wf_arm
  by unfold_locales (use ParseProbeArm_Canonical ParseProbeArm_Inr in auto)

text \<open>The provider frame, with its signature.\<close>

definition ProviderFrame_bytes :: "ProviderFrame \<Rightarrow> bytes" where
  "ProviderFrame_bytes f = ProviderFrame_Canonical f @ wanSignature f"

definition wf_provider :: "ProviderFrame \<Rightarrow> bool" where
  "wf_provider f \<longleftrightarrow> length (wanArmDigest f) = 32 \<and> length (wanProbeID f) = 16 \<and> length (wanProviderID f) = 16 \<and>
     length (wanActivation f) = 16 \<and> ValidateProbeEndpoint (wanEndpoint f) \<and> length (wanExpiryOpaque f) = 16 \<and>
     length (wanChallenge f) = 32 \<and> length (wanSignature f) = 64"

lemma probe_endpoint_length: "ValidateProbeEndpoint e \<Longrightarrow> 0 < length e \<and> length e \<le> 255"
  by (auto simp: ValidateProbeEndpoint_def ProbeEndpointMax_def split: if_splits)

lemma ParseProviderFrame_bytes:
  assumes "wf_provider f"
  shows "ParseProviderFrame (ProviderFrame_bytes f) = Inr f"
proof -
  have v: "ValidateProbeEndpoint (wanEndpoint f)" and e: "0 < length (wanEndpoint f)" "length (wanEndpoint f) \<le> 255"
    using assms probe_endpoint_length by (auto simp: wf_provider_def)
  let ?raw = "ProviderFrame_bytes f" and ?n = "length (wanEndpoint f)"
  have len: "length ?raw = 197 + ?n"
    using assms by (simp add: ProviderFrame_bytes_def ProviderFrame_Canonical_def wf_provider_def probe_consts)
  have nth: "?raw ! 84 = char_of ?n"
    using assms by (simp add: ProviderFrame_bytes_def ProviderFrame_Canonical_def wf_provider_def probe_consts nth_append)
  have sl: "subslice 4 36 ?raw = wanArmDigest f" "subslice 36 52 ?raw = wanProbeID f"
    "subslice 52 68 ?raw = wanProviderID f" "subslice 68 84 ?raw = wanActivation f"
    "subslice 85 (85 + ?n) ?raw = wanEndpoint f" "subslice (85 + ?n) (101 + ?n) ?raw = wanExpiryOpaque f"
    "subslice (101 + ?n) (133 + ?n) ?raw = wanChallenge f" "drop (133 + ?n) ?raw = wanSignature f"
    "take 4 ?raw = ''WAN1''"
    using assms
    by (simp_all add: ProviderFrame_bytes_def ProviderFrame_Canonical_def wf_provider_def ProbeMagicWAN_def
        subslice_append)
  show ?thesis
    using e v by (simp add: ParseProviderFrame_def probe_consts len nth sl Let_def)
qed

lemma ParseProviderFrame_Inr:
  assumes "ParseProviderFrame raw = Inr f"
  shows "wf_provider f \<and> ProviderFrame_bytes f = raw"
proof -
  define n :: nat where "n = of_char (raw ! 84)"
  have n: "n \<noteq> 0" "length raw = 197 + n" "take 4 raw = ''WAN1''" "n < 256"
    and f: "f = \<lparr>wanArmDigest = subslice 4 36 raw, wanProbeID = subslice 36 52 raw,
        wanProviderID = subslice 52 68 raw, wanActivation = subslice 68 84 raw,
        wanEndpoint = subslice 85 (85 + n) raw, wanExpiryOpaque = subslice (85 + n) (101 + n) raw,
        wanChallenge = subslice (101 + n) (133 + n) raw, wanSignature = drop (133 + n) raw\<rparr>"
    and v: "ValidateProbeEndpoint (subslice 85 (85 + n) raw)"
    using assms by (auto simp: ParseProviderFrame_def probe_consts Let_def n_def add.commute split: if_splits)
  have byte: "[char_of n] = subslice 84 85 raw"
    using nth_slice [of 84 raw] n by (simp add: n_def)
  have "drop 4 raw = subslice 4 36 raw @ subslice 36 52 raw @ subslice 52 68 raw @ subslice 68 84 raw
      @ subslice 84 85 raw @ subslice 85 (85 + n) raw @ subslice (85 + n) (101 + n) raw
      @ subslice (101 + n) (133 + n) raw @ drop (133 + n) raw"
    by (simp add: slice_drop)
  moreover have "raw = take 4 raw @ drop 4 raw" by simp
  ultimately have "raw = ProviderFrame_bytes f"
    using n(2,3)
    by (simp add: ProviderFrame_bytes_def ProviderFrame_Canonical_def ProbeMagicWAN_def f length_slice byte [symmetric])
  moreover have "wf_provider f" using n(2) v by (simp add: wf_provider_def length_slice f)
  ultimately show ?thesis by simp
qed

interpretation provider_frame: wire_codec ProviderFrame_bytes ParseProviderFrame wf_provider
  by unfold_locales (use ParseProviderFrame_bytes ParseProviderFrame_Inr in auto)

section \<open>Properties\<close>

text \<open>
  The probe arm and the provider's WAN frame are canonical binary formats: parsing accepts a
  frame exactly when it is the encoding of a well-formed message (fixed widths, a valid endpoint of
  1 to 255 bytes, for the arm a lifetime of 1 ms to 24 h and non-zero identities), and returns it.
\<close>

theorem probe_frames_canonical:
  "(ParseProbeArm raw = Inr arm \<longleftrightarrow> wf_arm arm \<and> raw = ProbeArm_Canonical arm) \<and>
   (ParseProviderFrame raw = Inr f \<longleftrightarrow> wf_provider f \<and> raw = ProviderFrame_Canonical f @ wanSignature f)"
  using probe_arm.dec_iff provider_frame.dec_iff by (simp add: ProviderFrame_bytes_def)

text \<open>
  The signed bytes of the four signed probe messages start with different magics, so a signature on
  one kind of frame is never a signature on another.
\<close>

definition probe_signed_bytes :: "ProbeArmed \<Rightarrow> ProviderFrame \<Rightarrow> ProbeACK \<Rightarrow> ProbeReceipt \<Rightarrow> bytes list" where
  "probe_signed_bytes rdy wan ack rct =
     [ProbeArmed_SigningBytes (rdyArmDigest rdy), ProviderFrame_SigningBytes wan, ProbeACK_SigningBytes ack,
      ProbeReceipt_SigningBytes rct]"

lemma probe_signed_bytes_distinct: "distinct (probe_signed_bytes rdy wan ack rct)"
  by (auto simp: probe_signed_bytes_def ProbeArmed_SigningBytes_def ProviderFrame_SigningBytes_def
      ProviderFrame_Canonical_def ProbeACK_SigningBytes_def ProbeReceipt_SigningBytes_def probe_consts)

lemma split_4: "length raw = 4 + n \<Longrightarrow> take 4 raw = m \<Longrightarrow> raw = m @ drop 4 raw"
  by auto

lemma ParseProbeACK_Inr:
  "ParseProbeACK C raw pub = Inr a \<longleftrightarrow>
     length (ackArmDigest a) = 32 \<and> length (ackChallengeHash a) = 32 \<and>
     raw = ProbeACK_SigningBytes a @ ackSignature a \<and> Verify C pub (ProbeACK_SigningBytes a) (ackSignature a)"
proof
  assume "ParseProbeACK C raw pub = Inr a"
  then have len: "length raw = 132" and m: "take 4 raw = ''ACK1''"
    and a: "a = \<lparr>ackArmDigest = subslice 4 36 raw, ackChallengeHash = subslice 36 68 raw,
        ackSignature = drop 68 raw\<rparr>"
    and v: "Verify C pub (ProbeACK_SigningBytes a) (ackSignature a)"
    by (auto simp: ParseProbeACK_def probe_consts Let_def split: if_splits)
  have "raw = take 4 raw @ subslice 4 36 raw @ subslice 36 68 raw @ drop 68 raw"
    by (simp add: slice_drop)
  then show "length (ackArmDigest a) = 32 \<and> length (ackChallengeHash a) = 32 \<and>
     raw = ProbeACK_SigningBytes a @ ackSignature a \<and> Verify C pub (ProbeACK_SigningBytes a) (ackSignature a)"
    using len m v by (simp add: a ProbeACK_SigningBytes_def ProbeMagicACK_def length_slice)
next
  assume "length (ackArmDigest a) = 32 \<and> length (ackChallengeHash a) = 32 \<and>
     raw = ProbeACK_SigningBytes a @ ackSignature a \<and> Verify C pub (ProbeACK_SigningBytes a) (ackSignature a)"
  then show "ParseProbeACK C raw pub = Inr a"
    using Verify_sizes [of C pub "ProbeACK_SigningBytes a" "ackSignature a"]
    by (simp add: ParseProbeACK_def ProbeACK_SigningBytes_def probe_consts Let_def subslice_append)
qed

lemma ParseProbeReceipt_Inr:
  "ParseProbeReceipt C raw pub = Inr r \<longleftrightarrow>
     length (rctArmDigest r) = 32 \<and> length (rctChallengeHash r) = 32 \<and> length (rctProviderID r) = 16 \<and>
     raw = ProbeReceipt_SigningBytes r @ rctSignature r \<and>
     Verify C pub (ProbeReceipt_SigningBytes r) (rctSignature r)"
proof
  assume "ParseProbeReceipt C raw pub = Inr r"
  then have len: "length raw = 148" and m: "take 4 raw = ''RCT1''"
    and r: "r = \<lparr>rctArmDigest = subslice 4 36 raw, rctChallengeHash = subslice 36 68 raw,
        rctProviderID = subslice 68 84 raw, rctSignature = drop 84 raw\<rparr>"
    and v: "Verify C pub (ProbeReceipt_SigningBytes r) (rctSignature r)"
    by (auto simp: ParseProbeReceipt_def probe_consts Let_def split: if_splits)
  have "raw = take 4 raw @ subslice 4 36 raw @ subslice 36 68 raw @ subslice 68 84 raw @ drop 84 raw"
    by (simp add: slice_drop)
  then show "length (rctArmDigest r) = 32 \<and> length (rctChallengeHash r) = 32 \<and> length (rctProviderID r) = 16 \<and>
     raw = ProbeReceipt_SigningBytes r @ rctSignature r \<and>
     Verify C pub (ProbeReceipt_SigningBytes r) (rctSignature r)"
    using len m v by (simp add: r ProbeReceipt_SigningBytes_def ProbeMagicReceipt_def length_slice)
next
  assume "length (rctArmDigest r) = 32 \<and> length (rctChallengeHash r) = 32 \<and> length (rctProviderID r) = 16 \<and>
     raw = ProbeReceipt_SigningBytes r @ rctSignature r \<and>
     Verify C pub (ProbeReceipt_SigningBytes r) (rctSignature r)"
  then show "ParseProbeReceipt C raw pub = Inr r"
    using Verify_sizes [of C pub "ProbeReceipt_SigningBytes r" "rctSignature r"]
    by (simp add: ParseProbeReceipt_def ProbeReceipt_SigningBytes_def probe_consts Let_def subslice_append)
qed

end
