(* ===== verification/Agent_Probe_Agent.thy ===== *)
theory Agent_Probe_Agent
  imports Agent_Probe_Frames
begin

text \<open>
  \<open>internal/protocol/probe.go\<close>, the \<open>ProbeAgent\<close> state machine: arming, provider ingress with its
  exactly-once consumption and replay cache, and the Controller-side join. \<open>time.Time\<close> is an integer
  number of nanoseconds and every operation takes the time it is called at. An operation returns its
  result and the new state, since \<open>ArmProbe\<close> sweeps before it can fail.
\<close>

section \<open>State and operations\<close>

record armedProbeState =
  opArm :: ProbeArm
  opDigest :: bytes
  opDeadline :: int
  opUsed :: bool

record ProbeAgent =
  pgNodeKey :: bytes
  pgOps :: "(bytes \<times> armedProbeState) list"
  pgReplay :: "(bytes \<times> int) list"

definition NewProbeAgent :: "bytes \<Rightarrow> ProbeAgent" where
  "NewProbeAgent nodeKey = \<lparr>pgNodeKey = nodeKey, pgOps = [], pgReplay = []\<rparr>"

definition sweep :: "int \<Rightarrow> ProbeAgent \<Rightarrow> ProbeAgent" where
  "sweep now s =
     s\<lparr>pgOps := filter (\<lambda>(_, op). \<not> now > opDeadline op) (pgOps s),
       pgReplay := filter (\<lambda>(_, expire). now < expire) (pgReplay s)\<rparr>"

definition signArmed :: "crypto \<Rightarrow> ProbeAgent \<Rightarrow> bytes \<Rightarrow> ProbeArmed" where
  "signArmed C s digest =
     (case Sign C (pgNodeKey s) (ProbeArmed_SigningBytes digest) of
        Inl _ \<Rightarrow> \<lparr>rdyArmDigest = digest, rdySignature = []\<rparr>
      | Inr sig \<Rightarrow> \<lparr>rdyArmDigest = digest, rdySignature = sig\<rparr>)"

definition ArmProbe :: "crypto \<Rightarrow> ProbeArm \<Rightarrow> int \<Rightarrow> ProbeAgent \<Rightarrow> (probe_error + ProbeArmed) \<times> ProbeAgent" where
  "ArmProbe C arm now s0 =
     (case ProbeArm_Validate arm of
        Inl e \<Rightarrow> (Inl e, s0)
      | Inr _ \<Rightarrow>
        let digest = ProbeArm_Digest C arm; s = sweep now s0; pid = armProbeID arm
        in if (case map_of (pgReplay s) pid of None \<Rightarrow> False | Some expire \<Rightarrow> now < expire) then
             (if (case map_of (pgOps s) pid of None \<Rightarrow> False | Some old \<Rightarrow> opDigest old = digest)
              then (Inl ErrProbeReplay, s) else (Inl ErrProbeIDConflict, s))
           else let s = s\<lparr>pgReplay := AList.delete pid (pgReplay s)\<rparr>
             in (case map_of (pgOps s) pid of
                   Some old \<Rightarrow> if opDigest old \<noteq> digest then (Inl ErrProbeIDConflict, s)
                               else (Inr (signArmed C s digest), s)
                 | None \<Rightarrow>
                     if length (pgOps s) \<ge> ProbeOpMax then (Inl ErrProbeStateFull, s)
                     else (Inr (signArmed C s digest),
                           s\<lparr>pgOps := AList.update pid
                               \<lparr>opArm = arm, opDigest = digest,
                                opDeadline = now + uint (armTTLMS arm) * Millisecond, opUsed = False\<rparr> (pgOps s)\<rparr>)))"

definition HandleProbeIngress ::
  "crypto \<Rightarrow> ProviderFrame \<Rightarrow> bytes \<Rightarrow> int \<Rightarrow> ProbeAgent \<Rightarrow> bool \<times> ProbeAgent" where
  "HandleProbeIngress C frame sourceIP now s =
     (case map_of (pgOps s) (wanProbeID frame) of
        None \<Rightarrow> (False, s)
      | Some op \<Rightarrow>
          if opUsed op \<or> now > opDeadline op then (False, s)
          else let arm = opArm op
            in if sourceIP \<noteq> armExpectedSourceIP arm \<or> wanArmDigest frame \<noteq> opDigest op \<or>
                  wanProviderID frame \<noteq> armProviderID arm \<or> wanActivation frame \<noteq> armActivation arm \<or>
                  wanEndpoint frame \<noteq> armEndpoint arm \<or> wanExpiryOpaque frame \<noteq> armExpiryOpaque arm \<or>
                  \<not> Verify C (armProviderPublicKey arm) (ProviderFrame_SigningBytes frame) (wanSignature frame)
               then (False, s)
               else (True, s\<lparr>pgOps := AList.update (wanProbeID frame) (op\<lparr>opUsed := True\<rparr>) (pgOps s),
                             pgReplay := AList.update (wanProbeID frame) (now + ProbeReplayWindow) (pgReplay s)\<rparr>))"

definition VerifyProbeJoin ::
  "crypto \<Rightarrow> ProbeArm \<Rightarrow> ProviderFrame \<Rightarrow> ProbeACK \<Rightarrow> ProbeReceipt \<Rightarrow> bytes \<Rightarrow> bool" where
  "VerifyProbeJoin C arm frame ack receipt nodePub =
     (case ProbeArm_Validate arm of
        Inl _ \<Rightarrow> False
      | Inr _ \<Rightarrow>
        let digest = ProbeArm_Digest C arm
        in if wanArmDigest frame \<noteq> digest \<or> ackArmDigest ack \<noteq> digest \<or> rctArmDigest receipt \<noteq> digest then False
           else if wanProbeID frame \<noteq> armProbeID arm \<or> wanProviderID frame \<noteq> armProviderID arm \<or>
             wanActivation frame \<noteq> armActivation arm \<or> wanEndpoint frame \<noteq> armEndpoint arm \<or>
             wanExpiryOpaque frame \<noteq> armExpiryOpaque arm then False
           else if rctProviderID receipt \<noteq> armProviderID arm then False
           else if \<not> Verify C (armProviderPublicKey arm) (ProviderFrame_SigningBytes frame) (wanSignature frame)
             then False
           else let ch = ProviderFrame_ChallengeHash C frame
             in if ackChallengeHash ack \<noteq> ch \<or> rctChallengeHash receipt \<noteq> ch then False
                else if \<not> Verify C nodePub (ProbeACK_SigningBytes ack) (ackSignature ack) \<or>
                  \<not> Verify C nodePub (ProbeReceipt_SigningBytes receipt) (rctSignature receipt) then False
                else True)"

section \<open>Invariant\<close>

text \<open>
  Every kept operation was validated, is stored under its own probe id with the digest of its arm,
  and dies at most 24 hours after it was armed; the operation table never exceeds its cap.
\<close>

definition op_ok :: "crypto \<Rightarrow> bytes \<Rightarrow> armedProbeState \<Rightarrow> bool" where
  "op_ok C pid op \<longleftrightarrow> armProbeID (opArm op) = pid \<and> opDigest op = ProbeArm_Digest C (opArm op) \<and>
     ProbeArm_Validate (opArm op) = Inr ()"

definition probe_inv :: "crypto \<Rightarrow> ProbeAgent \<Rightarrow> bool" where
  "probe_inv C s \<longleftrightarrow> distinct (map fst (pgOps s)) \<and> distinct (map fst (pgReplay s)) \<and>
     length (pgOps s) \<le> ProbeOpMax \<and> (\<forall>pid op. map_of (pgOps s) pid = Some op \<longrightarrow> op_ok C pid op)"

datatype probe_event = EvArm ProbeArm int | EvIngress ProviderFrame bytes int

fun ev_time :: "probe_event \<Rightarrow> int" where
  "ev_time (EvArm arm now) = now"
| "ev_time (EvIngress f ip now) = now"

fun probe_step :: "crypto \<Rightarrow> ProbeAgent \<Rightarrow> probe_event \<Rightarrow> ProbeAgent" where
  "probe_step C s (EvArm arm now) = snd (ArmProbe C arm now s)"
| "probe_step C s (EvIngress f ip now) = snd (HandleProbeIngress C f ip now s)"

lemma probe_inv_new: "probe_inv C (NewProbeAgent k)"
  by (simp add: probe_inv_def NewProbeAgent_def)

lemma sweep_ops:
  "probe_inv C s \<Longrightarrow> map_of (pgOps (sweep now s)) pid =
     (case map_of (pgOps s) pid of None \<Rightarrow> None | Some op \<Rightarrow> if \<not> now > opDeadline op then Some op else None)"
  by (simp add: probe_inv_def sweep_def map_of_filter_val)

lemma sweep_replay:
  "probe_inv C s \<Longrightarrow> map_of (pgReplay (sweep now s)) pid =
     (case map_of (pgReplay s) pid of None \<Rightarrow> None | Some e \<Rightarrow> if now < e then Some e else None)"
  by (simp add: probe_inv_def sweep_def map_of_filter_val)

lemma probe_inv_sweep: "probe_inv C s \<Longrightarrow> probe_inv C (sweep now s)"
  using sweep_ops [of C s now]
  by (auto simp: probe_inv_def sweep_def distinct_keys_filter split: option.splits if_splits
      intro: order_trans [OF length_filter_le])

lemma probe_inv_forget: "probe_inv C s \<Longrightarrow> probe_inv C (s\<lparr>pgReplay := AList.delete pid (pgReplay s)\<rparr>)"
  by (simp add: probe_inv_def distinct_delete)

lemma probe_inv_insert:
  assumes "probe_inv C s" and "map_of (pgOps s) pid = None" and "length (pgOps s) < ProbeOpMax" and "op_ok C pid op"
  shows "probe_inv C (s\<lparr>pgOps := AList.update pid op (pgOps s)\<rparr>)"
  using assms by (auto simp: probe_inv_def distinct_update length_update_absent)

lemma probe_inv_use:
  assumes "probe_inv C s" and "map_of (pgOps s) pid = Some op"
  shows "probe_inv C (s\<lparr>pgOps := AList.update pid (op\<lparr>opUsed := True\<rparr>) (pgOps s),
           pgReplay := AList.update pid' e (pgReplay s)\<rparr>)"
  using assms by (auto simp: probe_inv_def distinct_update length_update_present op_ok_def)

text \<open>What arming does to the two tables, whatever it returns.\<close>

lemma ArmProbe_state:
  obtains (rejected) "snd (ArmProbe C arm now s) = s" "ProbeArm_Validate arm \<noteq> Inr ()"
  | (swept) "snd (ArmProbe C arm now s) = sweep now s"
  | (forgot) "snd (ArmProbe C arm now s) =
      (sweep now s)\<lparr>pgReplay := AList.delete (armProbeID arm) (pgReplay (sweep now s))\<rparr>"
      "\<And>e. map_of (pgReplay (sweep now s)) (armProbeID arm) = Some e \<Longrightarrow> \<not> now < e"
  | (inserted) op where "snd (ArmProbe C arm now s) =
      (sweep now s)\<lparr>pgReplay := AList.delete (armProbeID arm) (pgReplay (sweep now s)),
        pgOps := AList.update (armProbeID arm) op (pgOps (sweep now s))\<rparr>"
      "\<And>e. map_of (pgReplay (sweep now s)) (armProbeID arm) = Some e \<Longrightarrow> \<not> now < e"
      "map_of (pgOps (sweep now s)) (armProbeID arm) = None" "length (pgOps (sweep now s)) < ProbeOpMax"
      "op_ok C (armProbeID arm) op" "opArm op = arm" "\<not> opUsed op"
      "opDeadline op = now + uint (armTTLMS arm) * Millisecond"
      "fst (ArmProbe C arm now s) = Inr (signArmed C s (ProbeArm_Digest C arm))"
proof (cases "ProbeArm_Validate arm")
  case (Inl e)
  then show ?thesis using rejected by (simp add: ArmProbe_def)
next
  case (Inr u)
  let ?live = "case map_of (pgReplay (sweep now s)) (armProbeID arm) of None \<Rightarrow> False | Some e \<Rightarrow> now < e"
  show ?thesis
  proof (cases ?live)
    case True
    then show ?thesis using swept Inr by (simp add: ArmProbe_def Let_def split: if_splits)
  next
    case False
    then have dead: "\<not> now < e" if "map_of (pgReplay (sweep now s)) (armProbeID arm) = Some e" for e
      using that by simp
    have key: "signArmed C (sweep now s\<lparr>pgReplay := r\<rparr>) d = signArmed C s d" for r d
      by (simp add: signArmed_def sweep_def)
    show ?thesis
    proof (cases "map_of (pgOps (sweep now s)) (armProbeID arm) = None \<and> length (pgOps (sweep now s)) < ProbeOpMax")
      case True
      with False Inr show ?thesis
        by (intro inserted) (auto simp: ArmProbe_def Let_def op_ok_def dead key)
    next
      case full: False
      with False Inr show ?thesis
        by (intro forgot) (auto simp: ArmProbe_def Let_def dead split: option.splits)
    qed
  qed
qed

lemma HandleProbeIngress_state:
  obtains (rejected) "HandleProbeIngress C f ip now s = (False, s)"
  | (accepted) op where "HandleProbeIngress C f ip now s =
      (True, s\<lparr>pgOps := AList.update (wanProbeID f) (op\<lparr>opUsed := True\<rparr>) (pgOps s),
               pgReplay := AList.update (wanProbeID f) (now + ProbeReplayWindow) (pgReplay s)\<rparr>)"
      "map_of (pgOps s) (wanProbeID f) = Some op" "\<not> opUsed op" "now \<le> opDeadline op"
      "ip = armExpectedSourceIP (opArm op)" "wanArmDigest f = opDigest op"
      "wanProviderID f = armProviderID (opArm op)" "wanActivation f = armActivation (opArm op)"
      "wanEndpoint f = armEndpoint (opArm op)" "wanExpiryOpaque f = armExpiryOpaque (opArm op)"
      "Verify C (armProviderPublicKey (opArm op)) (ProviderFrame_SigningBytes f) (wanSignature f)"
proof (cases "fst (HandleProbeIngress C f ip now s)")
  case True
  then obtain op where "map_of (pgOps s) (wanProbeID f) = Some op"
    by (auto simp: HandleProbeIngress_def split: option.splits)
  with True show ?thesis
    by (intro accepted [of op]) (auto simp: HandleProbeIngress_def Let_def split: if_splits)
next
  case False
  then show ?thesis
    by (intro rejected) (auto simp: HandleProbeIngress_def Let_def split: option.splits if_splits)
qed

lemma probe_inv_step: "probe_inv C s \<Longrightarrow> probe_inv C (probe_step C s e)"
proof (cases e)
  case (EvArm arm now)
  assume inv: "probe_inv C s"
  note swept = probe_inv_sweep [OF inv, of now]
  note forgot = probe_inv_forget [OF swept, of "armProbeID arm"]
  show ?thesis
  proof (cases rule: ArmProbe_state [of C arm now s])
    case (inserted op)
    then show ?thesis using EvArm probe_inv_insert [OF forgot, of "armProbeID arm" op] by simp
  qed (use EvArm inv swept forgot in simp_all)
next
  case (EvIngress f ip now)
  assume inv: "probe_inv C s"
  show ?thesis
    by (cases rule: HandleProbeIngress_state [of C f ip now s]) (use EvIngress inv probe_inv_use [OF inv] in auto)
qed

text \<open>For one crypto library the agent is a transition system with this invariant.\<close>

definition probe_start :: "ProbeAgent \<Rightarrow> bool" where
  "probe_start s \<longleftrightarrow> (\<exists>k. s = NewProbeAgent k)"

interpretation probe: inductive_invariant probe_start "\<lambda>s e t. t = probe_step C s e" "probe_inv C" for C
  by unfold_locales (auto simp: probe_start_def probe_inv_new probe_inv_step)

section \<open>Exactly-once consumption\<close>

text \<open>The acceptances of a run: the probe id and the time of every ingress that returned true.\<close>

fun accepts_of :: "crypto \<Rightarrow> ProbeAgent \<Rightarrow> probe_event \<Rightarrow> (bytes \<times> int) list" where
  "accepts_of C s (EvArm arm now) = []"
| "accepts_of C s (EvIngress f ip now) =
     (if fst (HandleProbeIngress C f ip now s) then [(wanProbeID f, now)] else [])"

fun acceptances :: "crypto \<Rightarrow> ProbeAgent \<Rightarrow> probe_event list \<Rightarrow> (bytes \<times> int) list" where
  "acceptances C s [] = []"
| "acceptances C s (e # es) = accepts_of C s e @ acceptances C (probe_step C s e) es"

text \<open>
  An acceptance at \<open>t\<close> is guarded at time \<open>now\<close>: while its window is open, the replay cache still
  holds the id and no unused operation with that id exists.
\<close>

definition guarded :: "int \<Rightarrow> ProbeAgent \<Rightarrow> bytes \<times> int \<Rightarrow> bool" where
  "guarded now s a \<longleftrightarrow> now < snd a + ProbeReplayWindow \<longrightarrow>
     (\<exists>e. map_of (pgReplay s) (fst a) = Some e \<and> snd a + ProbeReplayWindow \<le> e) \<and>
     (\<forall>op. map_of (pgOps s) (fst a) = Some op \<longrightarrow> opUsed op)"

lemma guarded_later: "guarded now s a \<Longrightarrow> now \<le> now' \<Longrightarrow> guarded now' s a"
  by (auto simp: guarded_def)

lemma guarded_sweep: "probe_inv C s \<Longrightarrow> guarded now s a \<Longrightarrow> guarded now (sweep now s) a"
  by (fastforce simp: guarded_def sweep_ops sweep_replay split: option.splits if_splits)

lemma guarded_step:
  assumes inv: "probe_inv C s" and g: "guarded (ev_time e) s a"
  shows "guarded (ev_time e) (probe_step C s e) a"
proof (cases e)
  case (EvArm arm now)
  have sw: "guarded now (sweep now s) a" using guarded_sweep [OF inv] g EvArm by simp
  show ?thesis
  proof (cases rule: ArmProbe_state [of C arm now s])
    case rejected
    then show ?thesis using EvArm g by simp
  next
    case swept
    then show ?thesis using EvArm sw by simp
  next
    case forgot
    then show ?thesis using EvArm sw by (fastforce simp: guarded_def)
  next
    case (inserted op)
    then show ?thesis using EvArm sw by (fastforce simp: guarded_def)
  qed
next
  case (EvIngress f ip now)
  then show ?thesis
    using g by (cases rule: HandleProbeIngress_state [of C f ip now s]) (auto simp: guarded_def)
qed

lemma guarded_accept:
  "fst (HandleProbeIngress C f ip now s) \<Longrightarrow> guarded now (snd (HandleProbeIngress C f ip now s)) (wanProbeID f, now)"
  by (cases rule: HandleProbeIngress_state [of C f ip now s]) (auto simp: guarded_def)

lemma guarded_blocks:
  "guarded now s (wanProbeID f, t) \<Longrightarrow> fst (HandleProbeIngress C f ip now s) \<Longrightarrow> t + ProbeReplayWindow \<le> now"
  by (cases rule: HandleProbeIngress_state [of C f ip now s]) (auto simp: guarded_def)

lemma guarded_run:
  assumes "probe_inv C s" and "guarded now s a" and "sorted (now # map ev_time es)"
    and "(fst a, t) \<in> set (acceptances C s es)"
  shows "snd a + ProbeReplayWindow \<le> t"
  using assms
proof (induction es arbitrary: s now)
  case (Cons e es)
  have g: "guarded (ev_time e) s a" using Cons.prems guarded_later by auto
  show ?case
  proof (cases "(fst a, t) \<in> set (accepts_of C s e)")
    case True
    then obtain f ip where e: "e = EvIngress f ip t" "fst a = wanProbeID f" "fst (HandleProbeIngress C f ip t s)"
      by (cases e) (auto split: if_splits)
    then show ?thesis using guarded_blocks [of t s f "snd a" C ip] g by (cases a) simp
  next
    case False
    then have "(fst a, t) \<in> set (acceptances C (probe_step C s e) es)" using Cons.prems by simp
    moreover have "sorted (ev_time e # map ev_time es)" using Cons.prems by simp
    ultimately show ?thesis
      using Cons.IH probe_inv_step [OF Cons.prems(1)] guarded_step [OF Cons.prems(1) g] by blast
  qed
qed simp

lemma acceptances_separated:
  assumes "probe_inv C s" and "sorted (map ev_time es)"
  shows "sorted_wrt (\<lambda>(i, t) (j, u). i = j \<longrightarrow> t + ProbeReplayWindow \<le> u) (acceptances C s es)"
  using assms
proof (induction es arbitrary: s)
  case (Cons e es)
  note step = probe_inv_step [OF Cons.prems(1), of e]
  have rest: "sorted_wrt (\<lambda>(i, t) (j, u). i = j \<longrightarrow> t + ProbeReplayWindow \<le> u) (acceptances C (probe_step C s e) es)"
    using Cons.IH [OF step] Cons.prems(2) by simp
  show ?case
  proof (cases e)
    case (EvIngress f ip now)
    show ?thesis
    proof (cases "fst (HandleProbeIngress C f ip now s)")
      case True
      then have "guarded now (probe_step C s e) (wanProbeID f, now)"
        using guarded_accept EvIngress by simp
      with True rest show ?thesis
        using guarded_run [OF step, of now "(wanProbeID f, now)" es] Cons.prems(2) EvIngress by auto
    qed (use rest EvIngress in simp)
  qed (use rest in simp)
qed simp

text \<open>
  C9: Probe consumption is exactly-once: in any run of arms and ingress frames with a clock that
  does not go backwards, two acceptances of the same probe id are at least the replay window (five
  minutes) apart.
\<close>

theorem probe_exactly_once:
  assumes "sorted (map ev_time es)"
  shows "sorted_wrt (\<lambda>(i, t) (j, u). i = j \<longrightarrow> t + ProbeReplayWindow \<le> u) (acceptances C (NewProbeAgent k) es)"
  using acceptances_separated [OF probe_inv_new assms] .

text \<open>A concrete run: an arm, its provider frame, and a replay of that frame.\<close>

definition demo_key :: "char \<Rightarrow> bytes" where "demo_key c = replicate 32 (CHR ''-'') @ replicate 32 c"

definition demo_arm :: ProbeArm where
  "demo_arm = \<lparr>armProbeID = replicate 16 (CHR ''p''), armProviderID = replicate 16 (CHR ''v''),
     armProviderPublicKey = replicate 32 (CHR ''K''), armExpectedSourceIP = ''abcd'',
     armActivation = replicate 16 (CHR ''a''), armEndpoint = ''8.8.8.8:80'', armTTLMS = 60000,
     armExpiryOpaque = replicate 16 (CHR ''o'')\<rparr>"

definition demo_unsigned :: ProviderFrame where
  "demo_unsigned = \<lparr>wanArmDigest = ProbeArm_Digest demo_crypto demo_arm, wanProbeID = armProbeID demo_arm,
     wanProviderID = armProviderID demo_arm, wanActivation = armActivation demo_arm,
     wanEndpoint = armEndpoint demo_arm, wanExpiryOpaque = armExpiryOpaque demo_arm,
     wanChallenge = replicate 32 (CHR ''c''), wanSignature = []\<rparr>"

definition demo_frame :: ProviderFrame where
  "demo_frame = demo_unsigned\<lparr>wanSignature :=
     ed_sign demo_crypto (demo_key (CHR ''K'')) (ProviderFrame_SigningBytes demo_unsigned)\<rparr>"

definition demo_run :: "probe_event list" where
  "demo_run = [EvArm demo_arm 0, EvIngress demo_frame ''abcd'' 7, EvIngress demo_frame ''abcd'' 8]"

lemma demo_arm_valid: "ProbeArm_Validate demo_arm = Inr ()"
  by code_simp

lemma demo_frame_verifies:
  "Verify demo_crypto (armProviderPublicKey demo_arm) (ProviderFrame_SigningBytes demo_frame) (wanSignature demo_frame)"
proof -
  have "ProviderFrame_SigningBytes demo_frame = ProviderFrame_SigningBytes demo_unsigned"
    by (simp add: ProviderFrame_SigningBytes_def ProviderFrame_Canonical_def demo_frame_def)
  moreover have "ed_public demo_crypto (demo_key (CHR ''K'')) = armProviderPublicKey demo_arm"
    by (simp add: demo_crypto_def demo_key_def demo_arm_def)
  moreover have "length (demo_key (CHR ''K'')) = PrivateKeySize" by (simp add: demo_key_def PrivateKeySize_def)
  ultimately show ?thesis
    using demo.Verify_Sign(1) [OF demo.Sign_ok] by (simp add: demo_frame_def) metis
qed

lemma demo_run_accepts: "acceptances demo_crypto (NewProbeAgent k) demo_run = [(armProbeID demo_arm, 7)]"
proof -
  let ?op = "\<lparr>opArm = demo_arm, opDigest = ProbeArm_Digest demo_crypto demo_arm, opDeadline = 60000 * Millisecond,
     opUsed = False\<rparr>"
  have s1: "snd (ArmProbe demo_crypto demo_arm 0 (NewProbeAgent k)) =
      \<lparr>pgNodeKey = k, pgOps = [(armProbeID demo_arm, ?op)], pgReplay = []\<rparr>"
    by (simp add: ArmProbe_def demo_arm_valid NewProbeAgent_def sweep_def Let_def ProbeOpMax_def)
       (simp add: demo_arm_def)
  have f: "wanProbeID demo_frame = armProbeID demo_arm" "wanArmDigest demo_frame = ProbeArm_Digest demo_crypto demo_arm"
    "wanProviderID demo_frame = armProviderID demo_arm" "wanActivation demo_frame = armActivation demo_arm"
    "wanEndpoint demo_frame = armEndpoint demo_arm" "wanExpiryOpaque demo_frame = armExpiryOpaque demo_arm"
    "armExpectedSourceIP demo_arm = ''abcd''"
    by (simp_all add: demo_frame_def demo_unsigned_def demo_arm_def)
  show ?thesis
    by (simp add: demo_run_def s1 HandleProbeIngress_def f demo_frame_verifies Let_def Millisecond_def)
qed

theorem probe_exactly_once_witness:
  "sorted (map ev_time demo_run) \<and>
   sorted_wrt (\<lambda>(i, t) (j, u). i = j \<longrightarrow> t + ProbeReplayWindow \<le> u)
     (acceptances demo_crypto (NewProbeAgent []) demo_run) \<and>
   acceptances demo_crypto (NewProbeAgent []) demo_run = [(armProbeID demo_arm, 7)]"
proof -
  have "sorted (map ev_time demo_run)" by (simp add: demo_run_def)
  then show ?thesis using probe_exactly_once demo_run_accepts by blast
qed

section \<open>Acceptance, bounds and join\<close>

text \<open>Every operation in the table goes back to an arm of the run, and lives as long as that arm allows.\<close>

definition from_arm :: "probe_event list \<Rightarrow> armedProbeState \<Rightarrow> bool" where
  "from_arm es op \<longleftrightarrow> (\<exists>t. EvArm (opArm op) t \<in> set es \<and> opDeadline op = t + uint (armTTLMS (opArm op)) * Millisecond)"

definition ops_from :: "probe_event list \<Rightarrow> ProbeAgent \<Rightarrow> bool" where
  "ops_from es s \<longleftrightarrow> (\<forall>pid op. map_of (pgOps s) pid = Some op \<longrightarrow> from_arm es op)"

lemma ops_from_step:
  assumes inv: "probe_inv C s" and orig: "ops_from es s" and "e \<in> set es"
  shows "ops_from es (probe_step C s e)"
proof (cases e)
  case (EvArm arm now)
  have sw: "ops_from es (sweep now s)"
    using orig sweep_ops [OF inv, of now] by (auto simp: ops_from_def split: option.splits if_splits)
  show ?thesis
  proof (cases rule: ArmProbe_state [of C arm now s])
    case (inserted op)
    then have "from_arm es op" using assms(3) EvArm by (auto simp: from_arm_def)
    then show ?thesis using inserted EvArm sw by (auto simp: ops_from_def)
  qed (use EvArm orig sw in \<open>simp_all add: ops_from_def\<close>)
next
  case (EvIngress f ip now)
  show ?thesis
    by (cases rule: HandleProbeIngress_state [of C f ip now s])
       (use EvIngress orig in \<open>auto simp: ops_from_def from_arm_def\<close>)
qed

lemma ops_from_run:
  "probe_inv C s \<Longrightarrow> ops_from es s \<Longrightarrow> set run \<subseteq> set es \<Longrightarrow>
   probe_inv C (run_step (probe_step C) s run) \<and> ops_from es (run_step (probe_step C) s run)"
proof (induction run arbitrary: s)
  case (Cons e run)
  have "probe_inv C (probe_step C s e)" "ops_from es (probe_step C s e)"
    using Cons.prems probe_inv_step ops_from_step by auto
  with Cons.IH [of "probe_step C s e"] Cons.prems show ?case by simp
qed simp

text \<open>
  The agent accepts a provider frame only for an operation it was armed for: after any run, an
  accepted frame matches a valid arm of that run in digest, probe id, provider, activation, endpoint
  and expiry token, comes from the source address the arm names, is signed by the provider key the
  arm pins, and arrives within the lifetime of the arm.
\<close>

theorem probe_accepts_only_armed:
  assumes "fst (HandleProbeIngress C f ip now (run_step (probe_step C) (NewProbeAgent k) es))"
  shows "\<exists>arm t. EvArm arm t \<in> set es \<and> ProbeArm_Validate arm = Inr () \<and>
    now \<le> t + uint (armTTLMS arm) * Millisecond \<and> wanArmDigest f = ProbeArm_Digest C arm \<and>
    wanProbeID f = armProbeID arm \<and> wanProviderID f = armProviderID arm \<and>
    wanActivation f = armActivation arm \<and> wanEndpoint f = armEndpoint arm \<and>
    wanExpiryOpaque f = armExpiryOpaque arm \<and> ip = armExpectedSourceIP arm \<and>
    ed_verify C (armProviderPublicKey arm) (ProviderFrame_Canonical f) (wanSignature f)"
proof -
  let ?s = "run_step (probe_step C) (NewProbeAgent k) es"
  have "ops_from es (NewProbeAgent k)" by (simp add: ops_from_def NewProbeAgent_def)
  then have inv: "probe_inv C ?s" and orig: "ops_from es ?s"
    using ops_from_run [OF probe_inv_new, of es k es C] by auto
  show ?thesis
  proof (cases rule: HandleProbeIngress_state [of C f ip now ?s])
    case rejected
    then show ?thesis using assms by simp
  next
    case (accepted op)
    then have "op_ok C (wanProbeID f) op" and "from_arm es op"
      using inv orig by (auto simp: probe_inv_def ops_from_def)
    then obtain t where "EvArm (opArm op) t \<in> set es" "opDeadline op = t + uint (armTTLMS (opArm op)) * Millisecond"
      and "op_ok C (wanProbeID f) op"
      by (auto simp: from_arm_def)
    with accepted show ?thesis
      by (intro exI [of _ "opArm op"] exI [of _ t])
         (auto simp: op_ok_def Verify_def ProviderFrame_SigningBytes_def split: if_splits)
  qed
qed

theorem probe_accepts_only_armed_witness:
  "fst (HandleProbeIngress demo_crypto demo_frame ''abcd'' 7
      (run_step (probe_step demo_crypto) (NewProbeAgent []) [EvArm demo_arm 0])) \<and>
   (\<exists>arm t. EvArm arm t \<in> set [EvArm demo_arm 0] \<and> wanArmDigest demo_frame = ProbeArm_Digest demo_crypto arm)"
proof -
  have acc: "fst (HandleProbeIngress demo_crypto demo_frame ''abcd'' 7
      (run_step (probe_step demo_crypto) (NewProbeAgent []) [EvArm demo_arm 0]))"
    using demo_run_accepts [of "[]"] by (auto simp: demo_run_def split: if_splits)
  then show ?thesis using probe_accepts_only_armed [OF acc] by blast
qed

lemma sweep_live:
  "probe_inv C s \<Longrightarrow> map_of (pgOps (sweep now s)) pid = Some op \<Longrightarrow> now \<le> opDeadline op"
  "probe_inv C s \<Longrightarrow> map_of (pgReplay (sweep now s)) pid = Some e \<Longrightarrow> now < e"
  by (auto simp: sweep_ops sweep_replay split: option.splits if_splits)

text \<open>
  Probe state is bounded and expires: in every reachable state at most 1024 operations are
  kept, and after arming with a valid arm at time \<open>now\<close> no expired operation and no elapsed replay
  entry is left, nor any operation that outlives the 24-hour limit counted from \<open>now\<close>, provided the
  earlier ones did not.
\<close>

theorem probe_state_bounded:
  assumes "reach probe_start (\<lambda>s e t. t = probe_step C s e) s" and "ProbeArm_Validate arm = Inr ()"
    and "\<forall>pid op. map_of (pgOps s) pid = Some op \<longrightarrow> opDeadline op \<le> now + ProbeTTLMax"
  shows "length (pgOps s) \<le> 1024 \<and>
    (\<forall>pid op. map_of (pgOps (snd (ArmProbe C arm now s))) pid = Some op \<longrightarrow>
       now \<le> opDeadline op \<and> opDeadline op \<le> now + ProbeTTLMax) \<and>
    (\<forall>pid e. map_of (pgReplay (snd (ArmProbe C arm now s))) pid = Some e \<longrightarrow> now < e)"
proof -
  have inv: "probe_inv C s" using probe.inv_reach [OF assms(1)] .
  note live = sweep_live [OF inv, of now]
  have old: "opDeadline op \<le> now + ProbeTTLMax" if "map_of (pgOps (sweep now s)) pid = Some op" for pid op
    using that assms(3) by (auto simp: sweep_ops [OF inv] split: option.splits if_splits)
  have ttl: "uint (armTTLMS arm) * Millisecond \<le> ProbeTTLMax" "0 \<le> uint (armTTLMS arm) * Millisecond"
    using assms(2) by (auto simp: ProbeArm_Validate_def ProbeTTLMax_def Millisecond_def)
  have "length (pgOps s) \<le> 1024" using inv by (simp add: probe_inv_def ProbeOpMax_def)
  then show ?thesis
    by (cases rule: ArmProbe_state [of C arm now s])
       (use assms(2) live old ttl in \<open>auto split: if_splits\<close>)
qed

lemma demo_armed:
  "\<exists>op. map_of (pgOps (snd (ArmProbe demo_crypto demo_arm 5 (NewProbeAgent [])))) (armProbeID demo_arm) = Some op"
  by (simp add: ArmProbe_def demo_arm_valid sweep_def NewProbeAgent_def ProbeOpMax_def Let_def)

theorem probe_state_bounded_witness:
  "\<exists>op. map_of (pgOps (snd (ArmProbe demo_crypto demo_arm 5 (NewProbeAgent [])))) (armProbeID demo_arm) = Some op \<and>
     5 \<le> opDeadline op \<and> opDeadline op \<le> 5 + ProbeTTLMax"
proof -
  have "reach probe_start (\<lambda>s e t. t = probe_step demo_crypto s e) (NewProbeAgent [])"
    by (rule reach_start) (unfold probe_start_def, blast)
  from probe_state_bounded [OF this demo_arm_valid, of 5] demo_armed show ?thesis
    by (fastforce simp: NewProbeAgent_def)
qed

text \<open>
  The Controller-side join succeeds for an honest probe: if an agent in a reachable state accepts
  a frame for an arm it holds, and its acknowledgement and receipt are signed by the node key over
  the arm digest, the challenge hash and the provider id, then \<open>VerifyProbeJoin\<close> accepts them.
\<close>

theorem probe_join_complete:
  assumes "go_crypto C" and "reach probe_start (\<lambda>s e t. t = probe_step C s e) s"
    and "fst (HandleProbeIngress C f ip now s)" and "length priv = PrivateKeySize"
    and "map_of (pgOps s) (wanProbeID f) = Some op" and "arm = opArm op"
    and "ack = \<lparr>ackArmDigest = ProbeArm_Digest C arm, ackChallengeHash = sha256 C (wanChallenge f),
           ackSignature = ed_sign C priv (ProbeMagicACK @ ProbeArm_Digest C arm @ sha256 C (wanChallenge f))\<rparr>"
    and "rct = \<lparr>rctArmDigest = ProbeArm_Digest C arm, rctChallengeHash = sha256 C (wanChallenge f),
           rctProviderID = armProviderID arm,
           rctSignature = ed_sign C priv (ProbeMagicReceipt @ ProbeArm_Digest C arm @ sha256 C (wanChallenge f)
             @ armProviderID arm)\<rparr>"
  shows "VerifyProbeJoin C arm f ack rct (ed_public C priv)"
proof -
  have inv: "probe_inv C s" using probe.inv_reach [OF assms(2)] .
  have ok: "op_ok C (wanProbeID f) op" using inv assms(5) by (simp add: probe_inv_def)
  have ver: "Verify C (ed_public C priv) m (ed_sign C priv m)" for m
    using go_crypto.Verify_Sign(1) [OF assms(1) go_crypto.Sign_ok [OF assms(1,4)]] .
  show ?thesis
  proof (cases rule: HandleProbeIngress_state [of C f ip now s])
    case rejected
    then show ?thesis using assms(3) by simp
  next
    case (accepted op')
    then have "op' = op" using assms(5) by simp
    with accepted ok show ?thesis
      by (simp add: VerifyProbeJoin_def Let_def assms(6-8) op_ok_def ProbeACK_SigningBytes_def
          ProbeReceipt_SigningBytes_def ProviderFrame_ChallengeHash_def ver)
  qed
qed

theorem probe_join_complete_witness:
  "\<exists>ack rct. VerifyProbeJoin demo_crypto demo_arm demo_frame ack rct
     (ed_public demo_crypto (demo_key (CHR ''N'')))"
proof -
  let ?s = "probe_step demo_crypto (NewProbeAgent []) (EvArm demo_arm 0)"
  have r: "reach probe_start (\<lambda>s e t. t = probe_step demo_crypto s e) (NewProbeAgent [])"
    by (rule reach_start) (unfold probe_start_def, blast)
  have r': "reach probe_start (\<lambda>s e t. t = probe_step demo_crypto s e) ?s"
    by (rule reach_step [OF r, where l = "EvArm demo_arm 0"]) (rule refl)
  have acc: "fst (HandleProbeIngress demo_crypto demo_frame ''abcd'' 7 ?s)"
    using demo_run_accepts [of "[]"] by (auto simp: demo_run_def split: if_splits)
  have key: "length (demo_key (CHR ''N'')) = PrivateKeySize" by (simp add: demo_key_def PrivateKeySize_def)
  obtain op where op: "map_of (pgOps ?s) (wanProbeID demo_frame) = Some op"
    using acc by (auto simp: HandleProbeIngress_def split: option.splits)
  have "opArm op = demo_arm"
    using op by (simp add: ArmProbe_def demo_arm_valid NewProbeAgent_def sweep_def Let_def ProbeOpMax_def split: if_splits)
       auto
  with probe_join_complete [OF demo.go_crypto_axioms r' acc key op refl refl refl] show ?thesis by auto
qed

text \<open>
  Inside the replay window an arm is refused as a conflict as soon as its operation has been swept,
  even when the arm is the identical one; only while the operation is still in the table is it
  reported as a replay.
\<close>

lemma rearm_after_sweep_conflicts:
  assumes "ProbeArm_Validate arm = Inr ()" and "map_of (pgReplay (sweep now s)) (armProbeID arm) = Some e"
    and "now < e" and "map_of (pgOps (sweep now s)) (armProbeID arm) = None"
  shows "fst (ArmProbe C arm now s) = Inl ErrProbeIDConflict"
  using assms by (simp add: ArmProbe_def Let_def)

end
