(* ===== verification/Agent_Bolt.thy ===== *)
theory Agent_Bolt
  imports Agent_Domain Agent_Probe_Frames "HOL-Library.List_Lexorder" "HOL-Library.Char_ord"
begin

text \<open>
  The durable store. The key-value database (\<open>go.etcd.io/bbolt\<close>) is library code and stays a
  parameter: a record of the transaction operations the agent calls, over an arbitrary type of
  database states. What the agent relies on is the contract \<open>bolt_db\<close>: reads see the last write of
  the key, writes to other keys and buckets do not interfere, a cursor visits exactly the stored keys
  in byte order. \<open>db.Update\<close> commits the state its function returns and rolls back when the function
  returns an error, so a transaction is a function from the database state to an error or a new state.

  Rows the agent stores as JSON are typed values here: marshalling a Go struct and unmarshalling it
  again gives the struct back, and reading a row of another type is a decoding error. The rows of
  \<open>connection_epochs\<close>, the outbox rows and the operation results are raw bytes in the source and are
  raw bytes here.
\<close>

section \<open>Buckets and rows\<close>

datatype bucket =
  bucketSchema | bucketControllerPins | bucketEpochs | bucketInbox | bucketOutbox | bucketDesired | bucketApplied
| bucketTombstones | bucketActivation | bucketMapping | bucketHookQueue | bucketKeyring | bucketOperations
| bucketProbeOps | bucketForwardDeleteIntents

text \<open>\<open>journal.go\<close>: the delivery row, the deletion links and the operation journal.\<close>

record inboxEntry =
  ieMessageType :: string
  iePayloadHash :: string
  ieOperationID :: string

record ForwardDeletionLink =
  fdForwardID :: string
  fdDeletionOperationID :: string
  fdDesiredRevision :: u64

record operationJournal =
  jKind :: string
  jMessageID :: string
  jPhase :: string
  jReason :: string
  jPayload :: bytes
  jPayloadPresent :: bool
  jRecoveredDeletionPending :: bool
  jForwardDeletions :: "ForwardDeletionLink list"

text \<open>\<open>forward_delete.go\<close> and \<open>tombstone.go\<close>: the pending fence and the final fact of a deletion.\<close>

record ForwardDeleteIntent =
  fiForwardID :: string
  fiDeletionOperationID :: string
  fiDesiredRevision :: u64
  fiCreatedAtUnix :: int

record ForwardTombstone =
  tsForwardID :: string
  tsDeletionOperationID :: string
  tsDesiredRevision :: u64
  tsCreatedAtUnix :: int

text \<open>\<open>applied.go\<close>: the applied state with the serving target, which legacy rows lack.\<close>

record appliedRecord =
  arState :: AppliedForwardState
  arServingSpec :: "ForwardSpec option"

text \<open>\<open>localstate/activation.go\<close>: the mirror of an activation.\<close>

record ActivationSnapshot =
  asnForwardID :: string
  asnActivation :: string
  asnGeneration :: u64
  asnStates :: ActivationStates

text \<open>\<open>localstate/probe.go\<close>: an armed probe operation. Times are nanoseconds since the Unix epoch.\<close>

record ArmedProbe =
  apArm :: ProbeArm
  apForwardID :: string
  apDigest :: bytes
  apDeadline :: int
  apArmedAt :: int
  apConsumed :: bool
  apReceipt :: bytes
  apReceiptSent :: bool
  apChallengeHash :: bytes
  apACK :: bytes
  apACKSent :: bool
  apReceiptAcknowledged :: bool
  apReceiptMessageID :: string
  apReceiptDeadline :: int

text \<open>\<open>localstate/pins.go\<close>: the pinned Controller key.\<close>

record ControllerPin =
  pinInstanceID :: string
  pinKeyID :: string
  pinPublicKeyRaw :: bytes
  pinGeneration :: u64

text \<open>\<open>traversal/mapping_journal.go\<close>: one acquired mapping.\<close>

record JournalRecord =
  jrID :: string
  jrForwardID :: string
  jrOperationID :: string
  jrMechanism :: string
  jrOwnership :: string
  jrProtocol :: string
  jrInternalIP :: string
  jrInternalPort :: u16
  jrExternalIP :: string
  jrExternalPort :: u16
  jrLeaseExpiryUnix :: int
  jrEpoch :: u32
  jrIdentity :: string
  jrState :: bytes
  jrCreatedAtUnix :: int
  jrUpdatedAtUnix :: int

text \<open>\<open>localstate/decommission.go\<close> and \<open>uninstall.go\<close>: the rows of the terminal lifecycle.\<close>

record DecommissionIntent =
  diOperationID :: string
  diNodeID :: string
  diForce :: bool
  diDeadlineUnix :: int
  diAllowedKeyHashes :: "string list"
  diCredentialVersions :: "u32 list"
  diCreatedAtUnix :: int

record AgentCleanupTombstone =
  ctOperationID :: string
  ctNodeID :: string
  ctForce :: bool
  ctAllowedKeyHashes :: "string list"
  ctCredentialVersions :: "u32 list"
  ctCreatedAtUnix :: int

record UninstallNotice =
  unOperationID :: string
  unConnectivity :: bool
  unQueuedAtUnix :: int
  unStatus :: string

datatype row =
  RBytes bytes
| RInbox inboxEntry
| RJournal operationJournal
| RIntent ForwardDeleteIntent
| RTombstone ForwardTombstone
| RApplied appliedRecord
| RDesired DesiredState
| RSnapshot ActivationSnapshot
| RProbe ArmedProbe
| RPin ControllerPin
| RMapping JournalRecord
| RDecommission DecommissionIntent
| RCleanup AgentCleanupTombstone
| RNotice UninstallNotice

datatype store_error =
  ErrStaleSession | ErrMessageConflict | ErrIllegalPhase | ErrStaleWriter | ErrAlreadyReceipted
| ErrOperationConflict | ErrOperationNotFound
| ErrForwardDeleteConflict | ErrForwardDeleteNotFound | ErrForwardDeleteNotCommitted | ErrForwardDeletePending
| ErrTombstoneNotGCReady | ErrTombstonedForward
| ErrDesiredRevisionConflict | ErrAppliedRevisionConflict
| ErrProbeConsumed | ErrProbeConflict | ErrProbeNotFound | ErrProbeAdmissionConflict
| ErrPinDowngrade | ErrDecommissionConflict | ErrProbeFrame probe_error
| ErrDecode | ErrPut | ErrRecord | ErrRequest | ErrDomain domain_error

section \<open>The database as a parameter\<close>

text \<open>
  \<open>bput_ok\<close> says whether \<open>Bucket.Put\<close> accepts the key and the value (bbolt refuses a blank key and
  keys or values beyond its size limits); \<open>bput\<close> is the state after an accepted put. \<open>Delete\<close> of a
  missing key is a no-op and inside a writable transaction it does not fail.
\<close>

record 'tx bolt =
  bget :: "'tx \<Rightarrow> bucket \<Rightarrow> bytes \<Rightarrow> row option"
  bput_ok :: "bytes \<Rightarrow> row \<Rightarrow> bool"
  bput :: "'tx \<Rightarrow> bucket \<Rightarrow> bytes \<Rightarrow> row \<Rightarrow> 'tx"
  bdelete :: "'tx \<Rightarrow> bucket \<Rightarrow> bytes \<Rightarrow> 'tx"
  bkeys :: "'tx \<Rightarrow> bucket \<Rightarrow> bytes list"

locale bolt_db =
  fixes B :: "'tx bolt"
  assumes get_put: "bget B (bput B tx b k r) b' k' = (if b' = b \<and> k' = k then Some r else bget B tx b' k')"
    and get_delete: "bget B (bdelete B tx b k) b' k' = (if b' = b \<and> k' = k then None else bget B tx b' k')"
    and set_keys: "set (bkeys B tx b) = {k. bget B tx b k \<noteq> None}"
    and sorted_keys: "sorted (bkeys B tx b) \<and> distinct (bkeys B tx b)"
    and put_key: "bput_ok B k r \<Longrightarrow> k \<noteq> []"

definition Put :: "'tx bolt \<Rightarrow> 'tx \<Rightarrow> bucket \<Rightarrow> bytes \<Rightarrow> row \<Rightarrow> store_error + 'tx" where
  "Put B tx b k r = (if bput_ok B k r then Inr (bput B tx b k r) else Inl ErrPut)"

text \<open>The raw bytes of a row; a missing row reads as the empty slice.\<close>

fun raw_bytes :: "row option \<Rightarrow> bytes" where
  "raw_bytes (Some (RBytes b)) = b"
| "raw_bytes _ = []"

lemma Put_Inr [simp]: "Put B tx b k r = Inr tx' \<longleftrightarrow> bput_ok B k r \<and> tx' = bput B tx b k r"
  by (auto simp: Put_def)

section \<open>An in-memory database\<close>

text \<open>An instance of the contract on which the model can be evaluated: one association list.\<close>

type_synonym mem_tx = "((bucket \<times> bytes) \<times> row) list"

definition mem_keys :: "mem_tx \<Rightarrow> bucket \<Rightarrow> bytes list" where
  "mem_keys tx b = sort (remdups (map (\<lambda>((_, k), _). k) (filter (\<lambda>((b', _), _). b' = b) tx)))"

definition mem_bolt :: "mem_tx bolt" where
  "mem_bolt =
     \<lparr>bget = (\<lambda>tx b k. map_of tx (b, k)),
      bput_ok = (\<lambda>k r. k \<noteq> []),
      bput = (\<lambda>tx b k r. AList.update (b, k) r tx),
      bdelete = (\<lambda>tx b k. AList.delete (b, k) tx),
      bkeys = mem_keys\<rparr>"

lemma set_mem_keys: "set (mem_keys tx b) = {k. map_of tx (b, k) \<noteq> None}"
  by (induction tx) (auto simp: mem_keys_def)

lemma sorted_mem_keys: "sorted (mem_keys tx b) \<and> distinct (mem_keys tx b)"
  by (simp add: mem_keys_def)

interpretation mem: bolt_db mem_bolt
  by unfold_locales (auto simp: mem_bolt_def set_mem_keys sorted_mem_keys)

end
