(* ===== verification/Agent_Forward_Delete.thy ===== *)
theory Agent_Forward_Delete
  imports Agent_Bolt
begin

text \<open>
  \<open>internal/agent/localstate/forward_delete.go\<close> and \<open>tombstone.go\<close>: the reversible deletion fence
  (intent) and the permanent deletion fact (tombstone) of a Forward. Every function takes the database
  \<open>B\<close> and a database state; \<open>nowUnix()\<close> is the argument \<open>now\<close>.
\<close>

section \<open>Keys\<close>

definition opJournalKey :: "string \<Rightarrow> bytes" where
  "opJournalKey operationID = ''op:'' @ operationID"

definition receiptKey :: "string \<Rightarrow> bytes" where
  "receiptKey operationID = ''receipt:'' @ operationID"

section \<open>Loading\<close>

definition validateForwardDeleteIntent :: "ForwardDeleteIntent \<Rightarrow> store_error + unit" where
  "validateForwardDeleteIntent intent =
     (if fiForwardID intent = [] then Inl ErrRecord
      else if fiDeletionOperationID intent = [] then Inl ErrRecord
      else if fiDesiredRevision intent = 0 then Inl ErrRecord
      else if fiCreatedAtUnix intent = 0 then Inl ErrRecord
      else Inr ())"

definition loadForwardDeleteIntentTx :: "'tx bolt \<Rightarrow> 'tx \<Rightarrow> string \<Rightarrow> store_error + ForwardDeleteIntent option" where
  "loadForwardDeleteIntentTx B tx forwardID =
     (case bget B tx bucketForwardDeleteIntents forwardID of
        None \<Rightarrow> Inr None
      | Some (RIntent intent) \<Rightarrow>
          andThen (validateForwardDeleteIntent intent) (\<lambda>_.
          if fiForwardID intent \<noteq> forwardID then Inl ErrRecord else Inr (Some intent))
      | Some _ \<Rightarrow> Inl ErrDecode)"

definition loadForwardTombstoneTx :: "'tx bolt \<Rightarrow> 'tx \<Rightarrow> string \<Rightarrow> store_error + ForwardTombstone option" where
  "loadForwardTombstoneTx B tx forwardID =
     (case bget B tx bucketTombstones forwardID of
        None \<Rightarrow> Inr None
      | Some (RTombstone tombstone) \<Rightarrow>
          if tsForwardID tombstone \<noteq> forwardID \<or> tsDeletionOperationID tombstone = [] then Inl ErrRecord
          else Inr (Some tombstone)
      | Some _ \<Rightarrow> Inl ErrDecode)"

definition loadForwardDeleteFenceTx ::
  "'tx bolt \<Rightarrow> 'tx \<Rightarrow> string \<Rightarrow> store_error + ForwardDeleteIntent option \<times> ForwardTombstone option" where
  "loadForwardDeleteFenceTx B tx forwardID =
     andThen (loadForwardDeleteIntentTx B tx forwardID) (\<lambda>intent.
     andThen (loadForwardTombstoneTx B tx forwardID) (\<lambda>tombstone. Inr (intent, tombstone)))"

section \<open>Installing and completing a fence\<close>

definition putForwardDeleteIntentTx :: "'tx bolt \<Rightarrow> ForwardDeleteIntent \<Rightarrow> 'tx \<Rightarrow> store_error + bool \<times> 'tx" where
  "putForwardDeleteIntentTx B intent tx =
     andThen (validateForwardDeleteIntent intent) (\<lambda>_.
     andThen (loadForwardDeleteIntentTx B tx (fiForwardID intent)) (\<lambda>found.
     case found of
       Some existing \<Rightarrow>
         if fiDeletionOperationID existing \<noteq> fiDeletionOperationID intent \<or>
            fiDesiredRevision existing \<noteq> fiDesiredRevision intent then Inl ErrForwardDeleteConflict
         else Inr (False, tx)
     | None \<Rightarrow>
         (case bget B tx bucketTombstones (fiForwardID intent) of
            Some (RTombstone tombstone) \<Rightarrow>
              if tsDeletionOperationID tombstone \<noteq> fiDeletionOperationID intent \<or>
                 (tsDesiredRevision tombstone \<noteq> 0 \<and> tsDesiredRevision tombstone \<noteq> fiDesiredRevision intent)
              then Inl ErrForwardDeleteConflict
              else Inr (False, tx)
          | Some _ \<Rightarrow> Inl ErrDecode
          | None \<Rightarrow>
              andThen (Put B tx bucketForwardDeleteIntents (fiForwardID intent) (RIntent intent)) (\<lambda>tx'.
              Inr (True, tx')))))"

definition stamp :: "int \<Rightarrow> ForwardDeleteIntent \<Rightarrow> ForwardDeleteIntent" where
  "stamp now intent = (if fiCreatedAtUnix intent = 0 then intent\<lparr>fiCreatedAtUnix := now\<rparr> else intent)"

definition PutForwardDeleteIntent :: "'tx bolt \<Rightarrow> int \<Rightarrow> ForwardDeleteIntent \<Rightarrow> 'tx \<Rightarrow> store_error + bool \<times> 'tx" where
  "PutForwardDeleteIntent B now intent tx = putForwardDeleteIntentTx B (stamp now intent) tx"

definition prepare_intent ::
  "int \<Rightarrow> string list \<times> ForwardDeleteIntent list \<Rightarrow> ForwardDeleteIntent \<Rightarrow>
   store_error + string list \<times> ForwardDeleteIntent list" where
  "prepare_intent now acc intent =
     (let intent = stamp now intent
      in andThen (validateForwardDeleteIntent intent) (\<lambda>_.
         if fiForwardID intent \<in> set (fst acc) then Inl ErrForwardDeleteConflict
         else Inr (fiForwardID intent # fst acc, snd acc @ [intent])))"

definition PutForwardDeleteIntents :: "'tx bolt \<Rightarrow> int \<Rightarrow> ForwardDeleteIntent list \<Rightarrow> 'tx \<Rightarrow> store_error + 'tx" where
  "PutForwardDeleteIntents B now intents tx =
     andThen (foldE (prepare_intent now) ([], []) intents) (\<lambda>(_, prepared).
     foldE (\<lambda>tx intent. andThen (putForwardDeleteIntentTx B intent tx) (\<lambda>(_, tx'). Inr tx')) tx prepared)"

definition GetForwardDeleteIntent :: "'tx bolt \<Rightarrow> string \<Rightarrow> 'tx \<Rightarrow> store_error + ForwardDeleteIntent option" where
  "GetForwardDeleteIntent B forwardID tx =
     (if forwardID = [] then Inl ErrRequest else loadForwardDeleteIntentTx B tx forwardID)"

definition ListForwardDeleteIntents :: "'tx bolt \<Rightarrow> 'tx \<Rightarrow> store_error + ForwardDeleteIntent list" where
  "ListForwardDeleteIntents B tx =
     foldE (\<lambda>acc key. andThen (loadForwardDeleteIntentTx B tx key) (\<lambda>found.
        case found of None \<Rightarrow> Inr acc | Some intent \<Rightarrow> Inr (acc @ [intent])))
       [] (bkeys B tx bucketForwardDeleteIntents)"

definition CompleteForwardDeleteIntent :: "'tx bolt \<Rightarrow> string \<Rightarrow> string \<Rightarrow> 'tx \<Rightarrow> store_error + 'tx" where
  "CompleteForwardDeleteIntent B forwardID deletionOperationID tx =
     (if forwardID = [] \<or> deletionOperationID = [] then Inl ErrRequest
      else andThen (loadForwardDeleteIntentTx B tx forwardID) (\<lambda>found.
        case found of
          None \<Rightarrow> Inr tx
        | Some intent \<Rightarrow>
            if fiDeletionOperationID intent \<noteq> deletionOperationID then Inl ErrForwardDeleteConflict
            else andThen (loadForwardTombstoneTx B tx forwardID) (\<lambda>found.
              case found of
                None \<Rightarrow> Inl ErrForwardDeleteNotCommitted
              | Some tombstone \<Rightarrow>
                  if tsDeletionOperationID tombstone \<noteq> deletionOperationID then Inl ErrForwardDeleteNotCommitted
                  else Inr (bdelete B tx bucketForwardDeleteIntents forwardID))))"

definition ForwardDeleteFence ::
  "'tx bolt \<Rightarrow> string \<Rightarrow> 'tx \<Rightarrow> store_error + ForwardDeleteIntent option \<times> ForwardTombstone option" where
  "ForwardDeleteFence B forwardID tx =
     (if forwardID = [] then Inl ErrRequest
      else andThen (loadForwardDeleteIntentTx B tx forwardID) (\<lambda>intent.
           andThen (loadForwardTombstoneTx B tx forwardID) (\<lambda>tombstone. Inr (intent, tombstone))))"

section \<open>Tombstones\<close>

definition GetForwardTombstone :: "'tx bolt \<Rightarrow> string \<Rightarrow> 'tx \<Rightarrow> store_error + ForwardTombstone option" where
  "GetForwardTombstone B forwardID tx =
     (if forwardID = [] then Inl ErrRequest else loadForwardTombstoneTx B tx forwardID)"

definition TombstoneExists :: "'tx bolt \<Rightarrow> string \<Rightarrow> 'tx \<Rightarrow> store_error + bool" where
  "TombstoneExists B forwardID tx = andThen (GetForwardTombstone B forwardID tx) (\<lambda>found. Inr (found \<noteq> None))"

definition ListTombstones :: "'tx bolt \<Rightarrow> 'tx \<Rightarrow> store_error + ForwardTombstone list" where
  "ListTombstones B tx =
     foldE (\<lambda>acc key. andThen (loadForwardTombstoneTx B tx key) (\<lambda>found.
        case found of None \<Rightarrow> Inr acc | Some ts \<Rightarrow> Inr (acc @ [ts])))
       [] (bkeys B tx bucketTombstones)"

definition GCForwardTombstone :: "'tx bolt \<Rightarrow> string \<Rightarrow> 'tx \<Rightarrow> store_error + 'tx" where
  "GCForwardTombstone B forwardID tx =
     andThen (loadForwardTombstoneTx B tx forwardID) (\<lambda>found.
     case found of
       None \<Rightarrow> Inr tx
     | Some ts \<Rightarrow>
         andThen (loadForwardDeleteIntentTx B tx forwardID) (\<lambda>pending.
         if pending \<noteq> None then Inl ErrTombstoneNotGCReady
         else if bget B tx bucketOperations (receiptKey (tsDeletionOperationID ts)) = None
           then Inl ErrTombstoneNotGCReady
         else Inr (bdelete B tx bucketTombstones forwardID)))"

section \<open>Fences\<close>

text \<open>A Forward is fenced while either deletion fact is stored for it.\<close>

definition fenced :: "'tx bolt \<Rightarrow> 'tx \<Rightarrow> string \<Rightarrow> bool" where
  "fenced B tx forwardID \<longleftrightarrow>
     bget B tx bucketForwardDeleteIntents forwardID \<noteq> None \<or> bget B tx bucketTombstones forwardID \<noteq> None"

lemma validate_intent_Inr [simp]:
  "validateForwardDeleteIntent i = Inr () \<longleftrightarrow>
     fiForwardID i \<noteq> [] \<and> fiDeletionOperationID i \<noteq> [] \<and> fiDesiredRevision i \<noteq> 0 \<and> fiCreatedAtUnix i \<noteq> 0"
  by (auto simp: validateForwardDeleteIntent_def)

lemma loadIntent_Inr:
  "loadForwardDeleteIntentTx B tx f = Inr None \<longleftrightarrow> bget B tx bucketForwardDeleteIntents f = None"
  "loadForwardDeleteIntentTx B tx f = Inr (Some i) \<longleftrightarrow>
     bget B tx bucketForwardDeleteIntents f = Some (RIntent i) \<and> validateForwardDeleteIntent i = Inr () \<and> fiForwardID i = f"
  by (auto simp: loadForwardDeleteIntentTx_def split: option.splits row.splits)

lemma loadTombstone_Inr:
  "loadForwardTombstoneTx B tx f = Inr None \<longleftrightarrow> bget B tx bucketTombstones f = None"
  "loadForwardTombstoneTx B tx f = Inr (Some t) \<longleftrightarrow>
     bget B tx bucketTombstones f = Some (RTombstone t) \<and> tsForwardID t = f \<and> tsDeletionOperationID t \<noteq> []"
  by (auto simp: loadForwardTombstoneTx_def split: option.splits row.splits)

text \<open>The three ways a fence request succeeds.\<close>

lemma putIntent_cases:
  assumes "putForwardDeleteIntentTx B intent tx = Inr (b, tx')"
  obtains (known) existing where "tx' = tx" "\<not> b"
      "bget B tx bucketForwardDeleteIntents (fiForwardID intent) = Some (RIntent existing)"
      "fiDeletionOperationID existing = fiDeletionOperationID intent" "fiDesiredRevision existing = fiDesiredRevision intent"
  | (completed) t where "tx' = tx" "\<not> b" "bget B tx bucketForwardDeleteIntents (fiForwardID intent) = None"
      "bget B tx bucketTombstones (fiForwardID intent) = Some (RTombstone t)"
      "tsDeletionOperationID t = fiDeletionOperationID intent"
  | (installed) "tx' = bput B tx bucketForwardDeleteIntents (fiForwardID intent) (RIntent intent)" "b"
      "bget B tx bucketForwardDeleteIntents (fiForwardID intent) = None"
      "bget B tx bucketTombstones (fiForwardID intent) = None" "validateForwardDeleteIntent intent = Inr ()"
      "bput_ok B (fiForwardID intent) (RIntent intent)"
proof -
  from assms obtain found where v: "validateForwardDeleteIntent intent = Inr ()"
    and load: "loadForwardDeleteIntentTx B tx (fiForwardID intent) = Inr found"
    by (auto simp: putForwardDeleteIntentTx_def simp del: validate_intent_Inr)
  show ?thesis
  proof (cases found)
    case (Some existing)
    with assms v load show ?thesis
      by (intro known [of existing]) (auto simp: putForwardDeleteIntentTx_def loadIntent_Inr split: if_splits)
  next
    case None
    with load have none: "bget B tx bucketForwardDeleteIntents (fiForwardID intent) = None"
      by (simp add: loadIntent_Inr)
    show ?thesis
    proof (cases "bget B tx bucketTombstones (fiForwardID intent)")
      case None
      with assms v load none \<open>found = None\<close> show ?thesis
        by (intro installed) (auto simp: putForwardDeleteIntentTx_def)
    next
      case (Some r)
      with assms v load none \<open>found = None\<close> obtain t where "r = RTombstone t"
        by (auto simp: putForwardDeleteIntentTx_def split: row.splits)
      with Some assms v load none \<open>found = None\<close> show ?thesis
        by (intro completed [of t]) (auto simp: putForwardDeleteIntentTx_def split: if_splits)
    qed
  qed
qed

context bolt_db
begin

lemma putIntent_frame:
  assumes "putForwardDeleteIntentTx B intent tx = Inr (b, tx')" and "b' \<noteq> bucketForwardDeleteIntents"
  shows "bget B tx' b' k = bget B tx b' k"
  using assms(1) by (cases rule: putIntent_cases) (auto simp: get_put assms(2))

lemma putIntent_fences:
  assumes "putForwardDeleteIntentTx B intent tx = Inr (b, tx')"
  shows "fenced B tx' (fiForwardID intent)"
  using assms by (cases rule: putIntent_cases) (auto simp: get_put fenced_def)

text \<open>A stored fact is never replaced by a fence request.\<close>

lemma putIntent_keeps:
  assumes "putForwardDeleteIntentTx B intent tx = Inr (b, tx')" and "bget B tx b' k = Some r"
  shows "bget B tx' b' k = Some r"
  using assms(1) by (cases rule: putIntent_cases) (use assms(2) in \<open>auto simp: get_put\<close>)

lemma putIntent_fenced_mono:
  "putForwardDeleteIntentTx B intent tx = Inr (b, tx') \<Longrightarrow> fenced B tx f \<Longrightarrow> fenced B tx' f"
  using putIntent_keeps unfolding fenced_def by (metis option.exhaust option.distinct(1))

lemma Complete_keeps_fence:
  assumes "CompleteForwardDeleteIntent B f d tx = Inr tx'" and "fenced B tx g"
  shows "fenced B tx' g"
  using assms
  by (auto simp: CompleteForwardDeleteIntent_def fenced_def loadTombstone_Inr get_delete split: option.splits)

lemma GC_keeps_fence:
  assumes "GCForwardTombstone B f tx = Inr tx'" and "fenced B tx g"
  shows "fenced B tx' g \<or>
    (g = f \<and> bget B tx bucketForwardDeleteIntents g = None \<and>
     (\<exists>t. bget B tx bucketTombstones g = Some (RTombstone t) \<and> tsForwardID t = g \<and>
        bget B tx bucketOperations (receiptKey (tsDeletionOperationID t)) \<noteq> None))"
  using assms
  by (auto simp: GCForwardTombstone_def fenced_def loadTombstone_Inr loadIntent_Inr get_delete
      split: option.splits if_splits)

end

section \<open>Properties\<close>

definition fence_owner :: "'tx bolt \<Rightarrow> 'tx \<Rightarrow> string \<Rightarrow> string option" where
  "fence_owner B tx f =
     (case bget B tx bucketForwardDeleteIntents f of
        Some (RIntent i) \<Rightarrow> Some (fiDeletionOperationID i)
      | Some _ \<Rightarrow> None
      | None \<Rightarrow> (case bget B tx bucketTombstones f of
                   Some (RTombstone t) \<Rightarrow> Some (tsDeletionOperationID t) | _ \<Rightarrow> None))"

text \<open>
  The first deletion of a Forward wins. A fence request succeeds only for the identity that
  already owns the Forward (or for an unfenced Forward); afterwards the Forward is fenced, the
  deletion operation in charge is the requested one, no stored fact anywhere has been overwritten,
  and a request under any other deletion operation is refused as a conflict.
\<close>

theorem deletion_fence_first_wins:
  assumes "bolt_db B" and "putForwardDeleteIntentTx B intent tx = Inr (b, tx')"
  shows "fence_owner B tx' (fiForwardID intent) = Some (fiDeletionOperationID intent) \<and>
    (\<forall>bk k r. bget B tx bk k = Some r \<longrightarrow> bget B tx' bk k = Some r) \<and>
    (\<forall>other b' tx''. fiForwardID other = fiForwardID intent \<longrightarrow>
       putForwardDeleteIntentTx B other tx' = Inr (b', tx'') \<longrightarrow>
       fiDeletionOperationID other = fiDeletionOperationID intent \<and> \<not> b' \<and> tx'' = tx')"
proof -
  have owner: "fence_owner B tx' (fiForwardID intent) = Some (fiDeletionOperationID intent)"
    using assms(2)
    by (cases rule: putIntent_cases) (auto simp: fence_owner_def bolt_db.get_put [OF assms(1)])
  have "fiDeletionOperationID other = fiDeletionOperationID intent \<and> \<not> b' \<and> tx'' = tx'"
    if "fiForwardID other = fiForwardID intent" "putForwardDeleteIntentTx B other tx' = Inr (b', tx'')"
    for other b' tx''
    using that(2) by (cases rule: putIntent_cases) (use owner that(1) in \<open>auto simp: fence_owner_def\<close>)
  then show ?thesis using owner bolt_db.putIntent_keeps [OF assms] by blast
qed

definition demo_intent :: ForwardDeleteIntent where
  "demo_intent = \<lparr>fiForwardID = ''f1'', fiDeletionOperationID = ''d1'', fiDesiredRevision = 3, fiCreatedAtUnix = 9\<rparr>"

lemma demo_intent_put: "putForwardDeleteIntentTx mem_bolt demo_intent [] =
    Inr (True, [((bucketForwardDeleteIntents, ''f1''), RIntent demo_intent)])"
  by (simp add: putForwardDeleteIntentTx_def loadForwardDeleteIntentTx_def mem_bolt_def Put_def demo_intent_def
      validateForwardDeleteIntent_def)

theorem deletion_fence_first_wins_witness:
  "fence_owner mem_bolt [((bucketForwardDeleteIntents, ''f1''), RIntent demo_intent)] ''f1'' = Some ''d1''"
  using deletion_fence_first_wins [OF mem.bolt_db_axioms demo_intent_put] by (simp add: demo_intent_def)

end
