(* ===== verification/Agent_Journal.thy ===== *)
theory Agent_Journal
  imports Agent_Forward_Delete Agent_Crypto
begin

text \<open>
  \<open>internal/agent/localstate/journal.go\<close> and \<open>outbox.go\<close>: the session fence, the command inbox with its
  per-operation journal, and the outbox of semantic results. Parameters besides the database: the
  clock \<open>now\<close>, the crypto library \<open>C\<close> (payload hashes), the strict JSON decoder of desired snapshots
  \<open>dec\<close> and the JSON string encoder \<open>js\<close>. A method that only returns an error returns the new database
  state on success.
\<close>

section \<open>Phases and sessions\<close>

definition phasePending :: string where "phasePending = ''PENDING''"
definition phaseClaimed :: string where "phaseClaimed = ''CLAIMED''"
definition phaseSent :: string where "phaseSent = ''SENT''"
definition phaseSemanticACKed :: string where "phaseSemanticACKed = ''SEMANTIC_ACKED''"
definition phaseReceived :: string where "phaseReceived = ''RECEIVED''"
definition phaseIntentPersisted :: string where "phaseIntentPersisted = ''INTENT_PERSISTED''"
definition phaseApplying :: string where "phaseApplying = ''APPLYING''"
definition phaseApplied :: string where "phaseApplied = ''APPLIED''"
definition phaseNacked :: string where "phaseNacked = ''NACKED''"

lemmas outbox_phases = phasePending_def phaseClaimed_def phaseSent_def phaseSemanticACKed_def
lemmas inbox_phases = phaseReceived_def phaseIntentPersisted_def phaseApplying_def phaseApplied_def phaseNacked_def

definition keyCurrentEpoch :: bytes where "keyCurrentEpoch = ''current_epoch''"
definition keyCurrentSession :: bytes where "keyCurrentSession = ''current_session''"

definition encodeEpoch :: "u64 \<Rightarrow> bytes" where
  "encodeEpoch epoch = PutUint64 epoch"

definition decodeEpoch :: "bytes \<Rightarrow> u64" where
  "decodeEpoch v = (if length v \<noteq> 8 then 0 else Uint64 v)"

definition CurrentSession :: "'tx bolt \<Rightarrow> 'tx \<Rightarrow> u64 \<times> string" where
  "CurrentSession B tx =
     (decodeEpoch (raw_bytes (bget B tx bucketEpochs keyCurrentEpoch)),
      raw_bytes (bget B tx bucketEpochs keyCurrentSession))"

definition AdvanceSession :: "'tx bolt \<Rightarrow> u64 \<Rightarrow> string \<Rightarrow> 'tx \<Rightarrow> store_error + 'tx" where
  "AdvanceSession B epoch sessionID tx =
     (let (currentEpoch, currentSession) = CurrentSession B tx
      in if epoch < currentEpoch \<or> (epoch = currentEpoch \<and> currentSession \<noteq> [] \<and> currentSession \<noteq> sessionID)
         then Inl ErrStaleSession
         else if epoch = currentEpoch \<and> currentSession = sessionID then Inr tx
         else andThen (Put B tx bucketEpochs keyCurrentEpoch (RBytes (encodeEpoch epoch))) (\<lambda>tx.
              Put B tx bucketEpochs keyCurrentSession (RBytes sessionID)))"

definition checkSession :: "'tx bolt \<Rightarrow> 'tx \<Rightarrow> u64 \<Rightarrow> string \<Rightarrow> store_error + unit" where
  "checkSession B tx epoch sessionID =
     (if fst (CurrentSession B tx) \<noteq> epoch \<or> snd (CurrentSession B tx) \<noteq> sessionID then Inl ErrStaleSession
      else Inr ())"

section \<open>Operation journal rows\<close>

definition loadOperationJournal :: "'tx bolt \<Rightarrow> 'tx \<Rightarrow> string \<Rightarrow> store_error + operationJournal option" where
  "loadOperationJournal B tx operationID =
     (case bget B tx bucketOperations (opJournalKey operationID) of
        None \<Rightarrow> Inr None
      | Some (RJournal j) \<Rightarrow> Inr (Some j)
      | Some _ \<Rightarrow> Inl ErrDecode)"

definition putOperationJournal :: "'tx bolt \<Rightarrow> string \<Rightarrow> operationJournal \<Rightarrow> 'tx \<Rightarrow> store_error + 'tx" where
  "putOperationJournal B operationID j tx = Put B tx bucketOperations (opJournalKey operationID) (RJournal j)"

text \<open>\<open>if !ok || !(test on j) { return operationPhaseError(...) }\<close> after loading the journal.\<close>

definition journalIn :: "'tx bolt \<Rightarrow> 'tx \<Rightarrow> string \<Rightarrow> (operationJournal \<Rightarrow> bool) \<Rightarrow> store_error + operationJournal" where
  "journalIn B tx operationID ok =
     andThen (loadOperationJournal B tx operationID) (\<lambda>found.
     case found of None \<Rightarrow> Inl ErrIllegalPhase | Some j \<Rightarrow> if ok j then Inr j else Inl ErrIllegalPhase)"

section \<open>Results and the outbox\<close>

definition splitOutboxValue :: "bytes \<Rightarrow> string \<times> bytes" where
  "splitOutboxValue v =
     (case index_byte (char_of (0::nat)) v of
        Some i \<Rightarrow> (take i v, drop (Suc i) v)
      | None \<Rightarrow> (v, []))"

definition outboxRow :: "string \<Rightarrow> bytes \<Rightarrow> row" where
  "outboxRow phase payload = RBytes (phase @ [char_of (0::nat)] @ payload)"

definition recordResultAndQueue :: "'tx bolt \<Rightarrow> string \<Rightarrow> bytes \<Rightarrow> 'tx \<Rightarrow> store_error + 'tx" where
  "recordResultAndQueue B operationID res tx =
     (if bget B tx bucketOperations (receiptKey operationID) \<noteq> None then Inl ErrAlreadyReceipted
      else if bget B tx bucketOutbox operationID \<noteq> None then Inr tx
      else if (case bget B tx bucketOperations operationID of None \<Rightarrow> False | Some existing \<Rightarrow> existing \<noteq> RBytes res)
        then Inl ErrStaleWriter
      else andThen (Put B tx bucketOperations operationID (RBytes res)) (\<lambda>tx.
           Put B tx bucketOutbox operationID (outboxRow phasePending res)))"

definition QueueResult :: "'tx bolt \<Rightarrow> u64 \<Rightarrow> string \<Rightarrow> string \<Rightarrow> bytes \<Rightarrow> 'tx \<Rightarrow> store_error + 'tx" where
  "QueueResult B epoch sessionID operationID res tx =
     andThen (checkSession B tx epoch sessionID) (\<lambda>_. recordResultAndQueue B operationID res tx)"

definition QueueResultSessionIndependent :: "'tx bolt \<Rightarrow> string \<Rightarrow> bytes \<Rightarrow> 'tx \<Rightarrow> store_error + 'tx" where
  "QueueResultSessionIndependent B operationID res tx =
     (if operationID = [] then Inl ErrOperationNotFound else recordResultAndQueue B operationID res tx)"

text \<open>The shared body of the three single-step outbox transitions.\<close>

definition advanceOutbox ::
  "'tx bolt \<Rightarrow> string \<Rightarrow> string \<Rightarrow> u64 \<Rightarrow> string \<Rightarrow> string \<Rightarrow> 'tx \<Rightarrow> store_error + 'tx" where
  "advanceOutbox B from to epoch sessionID operationID tx =
     andThen (checkSession B tx epoch sessionID) (\<lambda>_.
     let (state, payload) = splitOutboxValue (raw_bytes (bget B tx bucketOutbox operationID))
     in if state \<noteq> from then Inl ErrIllegalPhase
        else Put B tx bucketOutbox operationID (outboxRow to payload))"

definition ClaimOutbox :: "'tx bolt \<Rightarrow> u64 \<Rightarrow> string \<Rightarrow> string \<Rightarrow> 'tx \<Rightarrow> store_error + 'tx" where
  "ClaimOutbox B = advanceOutbox B phasePending phaseClaimed"

definition MarkOutboxSent :: "'tx bolt \<Rightarrow> u64 \<Rightarrow> string \<Rightarrow> string \<Rightarrow> 'tx \<Rightarrow> store_error + 'tx" where
  "MarkOutboxSent B = advanceOutbox B phaseClaimed phaseSent"

definition AcceptSemanticACK :: "'tx bolt \<Rightarrow> u64 \<Rightarrow> string \<Rightarrow> string \<Rightarrow> 'tx \<Rightarrow> store_error + 'tx" where
  "AcceptSemanticACK B = advanceOutbox B phaseSent phaseSemanticACKed"

definition AcceptReceipt :: "'tx bolt \<Rightarrow> u64 \<Rightarrow> string \<Rightarrow> string \<Rightarrow> 'tx \<Rightarrow> store_error + 'tx" where
  "AcceptReceipt B epoch sessionID operationID tx =
     andThen (checkSession B tx epoch sessionID) (\<lambda>_.
     if bget B tx bucketOperations (receiptKey operationID) \<noteq> None then Inl ErrAlreadyReceipted
     else let (state, payload) = splitOutboxValue (raw_bytes (bget B tx bucketOutbox operationID))
       in if state \<noteq> phaseSemanticACKed then Inl ErrIllegalPhase
          else andThen (loadOperationJournal B tx operationID) (\<lambda>found.
               let messageID = (case found of None \<Rightarrow> [] | Some j \<Rightarrow> jMessageID j)
               in andThen (Put B tx bucketOperations (receiptKey operationID) (RBytes payload)) (\<lambda>tx.
                  let tx = bdelete B tx bucketOutbox operationID;
                      tx = bdelete B tx bucketOperations operationID;
                      tx = bdelete B tx bucketOperations (opJournalKey operationID)
                  in Inr (if messageID \<noteq> [] then bdelete B tx bucketInbox messageID else tx))))"

text \<open>
  \<open>RequeueOutboxForSession\<close> puts rows back while \<open>ForEach\<close> walks the bucket; the model visits the keys
  the bucket held at the start, each once.
\<close>

definition requeue_row :: "'tx bolt \<Rightarrow> nat \<times> 'tx \<Rightarrow> bytes \<Rightarrow> store_error + nat \<times> 'tx" where
  "requeue_row B acc k =
     (let (count, tx) = acc; (state, payload) = splitOutboxValue (raw_bytes (bget B tx bucketOutbox k))
      in if state = phasePending then Inr (count, tx)
         else andThen (Put B tx bucketOutbox k (outboxRow phasePending payload)) (\<lambda>tx'. Inr (Suc count, tx')))"

definition RequeueOutboxForSession :: "'tx bolt \<Rightarrow> u64 \<Rightarrow> string \<Rightarrow> 'tx \<Rightarrow> store_error + nat \<times> 'tx" where
  "RequeueOutboxForSession B epoch sessionID tx =
     andThen (checkSession B tx epoch sessionID) (\<lambda>_. foldE (requeue_row B) (0, tx) (bkeys B tx bucketOutbox))"

section \<open>Receiving commands\<close>

definition hex_digit :: "nat \<Rightarrow> char" where
  "hex_digit n = (if n < 10 then char_of (48 + n) else char_of (87 + n))"

definition EncodeToString :: "bytes \<Rightarrow> string" where
  "EncodeToString bs = concat (map (\<lambda>c. [hex_digit (of_char c div 16), hex_digit (of_char c mod 16)]) bs)"

definition isDeletionCommandKind :: "string \<Rightarrow> bool" where
  "isDeletionCommandKind kind \<longleftrightarrow> kind = ''desired'' \<or> kind = ''forward_delete''"

definition classifyForwardDeletions ::
  "(bytes \<Rightarrow> DesiredState option) \<Rightarrow> string \<Rightarrow> bytes \<Rightarrow> ForwardDeletionLink list option" where
  "classifyForwardDeletions dec messageType payload =
     (if messageType \<noteq> ''desired'' \<and> messageType \<noteq> ''forward_delete'' then None
      else case dec payload of
        None \<Rightarrow> None
      | Some d \<Rightarrow>
          (case DesiredState_Validate d of
             Inl _ \<Rightarrow> None
           | Inr _ \<Rightarrow>
               Some (map (\<lambda>spec. \<lparr>fdForwardID = fsForwardID spec, fdDeletionOperationID = fsDeletionOperationID spec,
                                  fdDesiredRevision = fsDesiredRevision spec\<rparr>)
                      (filter (\<lambda>spec. fsPresence spec = PresenceAbsent) (dsForwards d)))))"

record receiveCommandOutcome =
  roDuplicate :: bool
  roRecoveredDeletionPending :: bool

definition link_intent :: "int \<Rightarrow> ForwardDeletionLink \<Rightarrow> ForwardDeleteIntent" where
  "link_intent now link =
     \<lparr>fiForwardID = fdForwardID link, fiDeletionOperationID = fdDeletionOperationID link,
      fiDesiredRevision = fdDesiredRevision link, fiCreatedAtUnix = now\<rparr>"

text \<open>One turn of the loops over the deletion links: a conflicting fence is tolerated, other errors are not.\<close>

definition assert_fence :: "'tx bolt \<Rightarrow> int \<Rightarrow> 'tx \<Rightarrow> ForwardDeletionLink \<Rightarrow> store_error + 'tx" where
  "assert_fence B now tx link =
     (case putForwardDeleteIntentTx B (link_intent now link) tx of
        Inl e \<Rightarrow> if e = ErrForwardDeleteConflict then Inr tx else Inl e
      | Inr (_, tx') \<Rightarrow> Inr tx')"

definition recovered_reason :: string where
  "recovered_reason = ''recovered APPLYING operation after restart''"

text \<open>The branch for a known message: the stored material must match; a legacy journal is completed.\<close>

definition upgrade_journal :: "bytes \<Rightarrow> ForwardDeletionLink list \<Rightarrow> operationJournal \<Rightarrow> operationJournal" where
  "upgrade_journal payload links j =
     (if jPayloadPresent j then j
      else let wasRecoveredApplying = (jPhase j = phaseApplying \<or>
                 (jPhase j = phaseNacked \<and> jReason j = recovered_reason))
           in j\<lparr>jPayload := payload, jPayloadPresent := True, jForwardDeletions := links,
                jRecoveredDeletionPending := wasRecoveredApplying \<and> links \<noteq> []\<rparr>)"

definition receiveCommandTx ::
  "'tx bolt \<Rightarrow> int \<Rightarrow> u64 \<Rightarrow> string \<Rightarrow> string \<Rightarrow> string \<Rightarrow> string \<Rightarrow> string \<Rightarrow> string \<Rightarrow> bytes \<Rightarrow> bool \<Rightarrow>
   ForwardDeletionLink list \<Rightarrow> 'tx \<Rightarrow> store_error + receiveCommandOutcome \<times> 'tx" where
  "receiveCommandTx B now epoch sessionID operationID messageID messageType payloadHash kind payload payloadPresent
     links tx =
     andThen (checkSession B tx epoch sessionID) (\<lambda>_.
     if bget B tx bucketOperations (receiptKey operationID) \<noteq> None then Inl ErrAlreadyReceipted
     else case bget B tx bucketInbox messageID of
       Some (RInbox entry) \<Rightarrow>
         if ieMessageType entry \<noteq> messageType \<or> iePayloadHash entry \<noteq> payloadHash then Inl ErrMessageConflict
         else if ieOperationID entry \<noteq> operationID then Inl ErrOperationConflict
         else andThen (loadOperationJournal B tx operationID) (\<lambda>found.
           case found of
             None \<Rightarrow> Inl ErrOperationConflict
           | Some j \<Rightarrow>
               if jKind j \<noteq> kind \<or> jMessageID j \<noteq> messageID then Inl ErrOperationConflict
               else if payloadPresent then
                 (if jPayloadPresent j \<and> jPayload j \<noteq> payload then Inl ErrOperationConflict
                  else if jForwardDeletions j \<noteq> [] \<and> jForwardDeletions j \<noteq> links then Inl ErrOperationConflict
                  else let j = upgrade_journal payload links j
                    in andThen (foldE (assert_fence B now) tx links) (\<lambda>tx.
                       andThen (putOperationJournal B operationID j tx) (\<lambda>tx.
                       Inr (\<lparr>roDuplicate = True, roRecoveredDeletionPending = jRecoveredDeletionPending j\<rparr>, tx))))
               else Inr (\<lparr>roDuplicate = True, roRecoveredDeletionPending = jRecoveredDeletionPending j\<rparr>, tx))
     | Some _ \<Rightarrow> Inl ErrDecode
     | None \<Rightarrow>
         andThen (loadOperationJournal B tx operationID) (\<lambda>found.
         case found of
           Some j \<Rightarrow>
             if jKind j \<noteq> kind \<or> jMessageID j \<noteq> messageID then Inl ErrOperationConflict
             else Inr (\<lparr>roDuplicate = True, roRecoveredDeletionPending = jRecoveredDeletionPending j\<rparr>, tx)
         | None \<Rightarrow>
             andThen (Put B tx bucketInbox messageID
               (RInbox \<lparr>ieMessageType = messageType, iePayloadHash = payloadHash, ieOperationID = operationID\<rparr>)) (\<lambda>tx.
             andThen (putOperationJournal B operationID
               \<lparr>jKind = kind, jMessageID = messageID, jPhase = phaseReceived, jReason = [], jPayload = payload,
                jPayloadPresent = payloadPresent, jRecoveredDeletionPending = False, jForwardDeletions = links\<rparr> tx) (\<lambda>tx.
             andThen (foldE (assert_fence B now) tx links) (\<lambda>tx.
             Inr (\<lparr>roDuplicate = False, roRecoveredDeletionPending = False\<rparr>, tx))))))"

definition ReceiveCommand ::
  "'tx bolt \<Rightarrow> int \<Rightarrow> u64 \<Rightarrow> string \<Rightarrow> string \<Rightarrow> string \<Rightarrow> string \<Rightarrow> string \<Rightarrow> string \<Rightarrow> 'tx \<Rightarrow>
   store_error + receiveCommandOutcome \<times> 'tx" where
  "ReceiveCommand B now epoch sessionID operationID messageID messageType payloadHash kind tx =
     receiveCommandTx B now epoch sessionID operationID messageID messageType payloadHash kind [] False [] tx"

definition ReceiveCommandWithPayloadStatus ::
  "'tx bolt \<Rightarrow> crypto \<Rightarrow> (bytes \<Rightarrow> DesiredState option) \<Rightarrow> int \<Rightarrow> u64 \<Rightarrow> string \<Rightarrow> string \<Rightarrow> string \<Rightarrow> string \<Rightarrow>
   bytes \<Rightarrow> string \<Rightarrow> 'tx \<Rightarrow> store_error + receiveCommandOutcome \<times> 'tx" where
  "ReceiveCommandWithPayloadStatus B C dec now epoch sessionID operationID messageID messageType payload kind tx =
     (let payloadHash = EncodeToString (sha256 C payload);
          payloadPresent = (messageType = ''desired'' \<or> messageType = ''forward_delete'');
          durablePayload = (if payloadPresent then payload else []);
          links = (case classifyForwardDeletions dec messageType payload of None \<Rightarrow> [] | Some ls \<Rightarrow> ls)
      in receiveCommandTx B now epoch sessionID operationID messageID messageType payloadHash kind durablePayload
           payloadPresent links tx)"

section \<open>Operation phases\<close>

definition CompleteRecoveredDeletion :: "'tx bolt \<Rightarrow> u64 \<Rightarrow> string \<Rightarrow> string \<Rightarrow> 'tx \<Rightarrow> store_error + 'tx" where
  "CompleteRecoveredDeletion B epoch sessionID operationID tx =
     andThen (checkSession B tx epoch sessionID) (\<lambda>_.
     andThen (journalIn B tx operationID
       (\<lambda>j. (jPhase j = phaseApplying \<or> jPhase j = phaseNacked) \<and> jRecoveredDeletionPending j)) (\<lambda>j.
     putOperationJournal B operationID (j\<lparr>jRecoveredDeletionPending := False\<rparr>) tx))"

definition PersistOperationIntent :: "'tx bolt \<Rightarrow> u64 \<Rightarrow> string \<Rightarrow> string \<Rightarrow> 'tx \<Rightarrow> store_error + 'tx" where
  "PersistOperationIntent B epoch sessionID operationID tx =
     andThen (checkSession B tx epoch sessionID) (\<lambda>_.
     andThen (journalIn B tx operationID (\<lambda>j. jPhase j = phaseReceived)) (\<lambda>j.
     putOperationJournal B operationID (j\<lparr>jPhase := phaseIntentPersisted\<rparr>) tx))"

definition MarkOperationApplying :: "'tx bolt \<Rightarrow> u64 \<Rightarrow> string \<Rightarrow> string \<Rightarrow> 'tx \<Rightarrow> store_error + 'tx" where
  "MarkOperationApplying B epoch sessionID operationID tx =
     andThen (checkSession B tx epoch sessionID) (\<lambda>_.
     andThen (journalIn B tx operationID (\<lambda>j. jPhase j = phaseIntentPersisted)) (\<lambda>j.
     let j = j\<lparr>jPhase := phaseApplying\<rparr>;
         j = (if jForwardDeletions j \<noteq> [] then j\<lparr>jRecoveredDeletionPending := True\<rparr> else j)
     in putOperationJournal B operationID j tx))"

definition CompleteOperation :: "'tx bolt \<Rightarrow> u64 \<Rightarrow> string \<Rightarrow> string \<Rightarrow> bytes \<Rightarrow> 'tx \<Rightarrow> store_error + 'tx" where
  "CompleteOperation B epoch sessionID operationID res tx =
     andThen (checkSession B tx epoch sessionID) (\<lambda>_.
     andThen (journalIn B tx operationID (\<lambda>j. jPhase j = phaseApplying)) (\<lambda>j.
     andThen (putOperationJournal B operationID (j\<lparr>jPhase := phaseApplied\<rparr>) tx) (\<lambda>tx.
     recordResultAndQueue B operationID res tx)))"

definition NackOperation :: "'tx bolt \<Rightarrow> u64 \<Rightarrow> string \<Rightarrow> string \<Rightarrow> string \<Rightarrow> 'tx \<Rightarrow> store_error + 'tx" where
  "NackOperation B epoch sessionID operationID reason tx =
     andThen (checkSession B tx epoch sessionID) (\<lambda>_.
     andThen (journalIn B tx operationID (\<lambda>j. jPhase j = phaseApplying)) (\<lambda>j.
     putOperationJournal B operationID (j\<lparr>jPhase := phaseNacked, jReason := reason\<rparr>) tx))"

definition NackOperationWithResult ::
  "'tx bolt \<Rightarrow> u64 \<Rightarrow> string \<Rightarrow> string \<Rightarrow> string \<Rightarrow> bytes \<Rightarrow> 'tx \<Rightarrow> store_error + 'tx" where
  "NackOperationWithResult B epoch sessionID operationID reason res tx =
     andThen (checkSession B tx epoch sessionID) (\<lambda>_.
     andThen (journalIn B tx operationID (\<lambda>j. jPhase j = phaseApplying)) (\<lambda>j.
     andThen (putOperationJournal B operationID (j\<lparr>jPhase := phaseNacked, jReason := reason\<rparr>) tx) (\<lambda>tx.
     recordResultAndQueue B operationID res tx)))"

text \<open>The JSON objects with sorted keys that \<open>json.Marshal\<close> renders for the two NACK results.\<close>

definition nacked_result :: "(string \<Rightarrow> bytes) \<Rightarrow> string \<Rightarrow> bytes" where
  "nacked_result js reason = ''{\"reason\":'' @ js reason @ '',\"status\":\"nacked\"}''"

definition recovered_result :: "(string \<Rightarrow> bytes) \<Rightarrow> string \<Rightarrow> bytes" where
  "recovered_result js reason = ''{\"reason\":'' @ js reason @ '',\"recovered\":true,\"status\":\"nacked\"}''"

definition QueueNackedResult :: "'tx bolt \<Rightarrow> (string \<Rightarrow> bytes) \<Rightarrow> u64 \<Rightarrow> string \<Rightarrow> string \<Rightarrow> 'tx \<Rightarrow> store_error + 'tx" where
  "QueueNackedResult B js epoch sessionID operationID tx =
     andThen (checkSession B tx epoch sessionID) (\<lambda>_.
     andThen (journalIn B tx operationID (\<lambda>j. jPhase j = phaseNacked)) (\<lambda>j.
     recordResultAndQueue B operationID (nacked_result js (jReason j)) tx))"

definition collect_recovering :: "'tx bolt \<Rightarrow> 'tx \<Rightarrow> string list \<Rightarrow> bytes \<Rightarrow> store_error + string list" where
  "collect_recovering B tx recovering key =
     (if \<not> prefix ''op:'' key then Inr recovering
      else let operationID = drop (length ''op:'') key
        in andThen (loadOperationJournal B tx operationID) (\<lambda>found.
           case found of
             None \<Rightarrow> Inr recovering
           | Some j \<Rightarrow>
               if jPhase j = phaseApplying \<and> (\<not> isDeletionCommandKind (jKind j) \<or> jPayloadPresent j) \<and>
                  \<not> jRecoveredDeletionPending j
               then Inr (recovering @ [operationID]) else Inr recovering))"

definition recover_one :: "'tx bolt \<Rightarrow> (string \<Rightarrow> bytes) \<Rightarrow> int \<Rightarrow> 'tx \<Rightarrow> string \<Rightarrow> store_error + 'tx" where
  "recover_one B js now tx operationID =
     andThen (loadOperationJournal B tx operationID) (\<lambda>found.
     case found of
       None \<Rightarrow> Inr tx
     | Some j \<Rightarrow>
         if jPhase j \<noteq> phaseApplying then Inr tx
         else andThen (foldE (assert_fence B now) tx (jForwardDeletions j)) (\<lambda>tx.
              let j = j\<lparr>jPhase := phaseNacked, jReason := recovered_reason\<rparr>
              in andThen (putOperationJournal B operationID j tx) (\<lambda>tx.
                 recordResultAndQueue B operationID (recovered_result js (jReason j)) tx)))"

definition RecoverApplyingOperations ::
  "'tx bolt \<Rightarrow> (string \<Rightarrow> bytes) \<Rightarrow> int \<Rightarrow> u64 \<Rightarrow> string \<Rightarrow> 'tx \<Rightarrow> store_error + 'tx" where
  "RecoverApplyingOperations B js now epoch sessionID tx =
     andThen (checkSession B tx epoch sessionID) (\<lambda>_.
     andThen (foldE (collect_recovering B tx) [] (bkeys B tx bucketOperations)) (\<lambda>recovering.
     foldE (recover_one B js now) tx recovering))"

section \<open>Queries\<close>

definition OperationPhase :: "'tx bolt \<Rightarrow> string \<Rightarrow> 'tx \<Rightarrow> store_error + string option" where
  "OperationPhase B operationID tx =
     andThen (loadOperationJournal B tx operationID) (\<lambda>found. Inr (map_option jPhase found))"

definition OutboxState :: "'tx bolt \<Rightarrow> string \<Rightarrow> 'tx \<Rightarrow> string option" where
  "OutboxState B operationID tx =
     (case bget B tx bucketOutbox operationID of
        None \<Rightarrow> None
      | Some r \<Rightarrow> Some (fst (splitOutboxValue (raw_bytes (Some r)))))"

definition OutboxContains :: "'tx bolt \<Rightarrow> string \<Rightarrow> 'tx \<Rightarrow> bool" where
  "OutboxContains B operationID tx \<longleftrightarrow> bget B tx bucketOutbox operationID \<noteq> None"

definition ResultForOperationAnySession :: "'tx bolt \<Rightarrow> string \<Rightarrow> 'tx \<Rightarrow> store_error + bytes" where
  "ResultForOperationAnySession B operationID tx =
     (if bget B tx bucketOperations (receiptKey operationID) \<noteq> None then Inl ErrAlreadyReceipted
      else case bget B tx bucketOperations operationID of
        None \<Rightarrow> Inl ErrOperationNotFound
      | Some r \<Rightarrow> Inr (raw_bytes (Some r)))"

definition ResultForOperation :: "'tx bolt \<Rightarrow> u64 \<Rightarrow> string \<Rightarrow> string \<Rightarrow> 'tx \<Rightarrow> store_error + bytes" where
  "ResultForOperation B epoch sessionID operationID tx =
     andThen (checkSession B tx epoch sessionID) (\<lambda>_.
     if bget B tx bucketOperations (receiptKey operationID) \<noteq> None then Inl ErrAlreadyReceipted
     else case bget B tx bucketOperations operationID of
       None \<Rightarrow> Inl ErrOperationNotFound
     | Some r \<Rightarrow> Inr (raw_bytes (Some r)))"

definition ReceiptExists :: "'tx bolt \<Rightarrow> string \<Rightarrow> 'tx \<Rightarrow> bool" where
  "ReceiptExists B operationID tx \<longleftrightarrow> bget B tx bucketOperations (receiptKey operationID) \<noteq> None"

text \<open>\<open>outbox.go\<close>: one page of outbox keys in key order, strictly after \<open>after\<close>.\<close>

definition OutboxOperationIDsAfter :: "'tx bolt \<Rightarrow> string \<Rightarrow> int \<Rightarrow> 'tx \<Rightarrow> string list" where
  "OutboxOperationIDsAfter B after limit tx =
     (let limit = (if limit \<le> 0 then 256 else limit);
          keys = bkeys B tx bucketOutbox;
          from = (if after = [] then keys
                  else let seek = dropWhile (\<lambda>k. k < after) keys
                       in if seek \<noteq> [] \<and> hd seek \<le> after then tl seek else seek)
      in take (nat limit) from)"

definition OutboxOperationIDsLimit :: "'tx bolt \<Rightarrow> int \<Rightarrow> 'tx \<Rightarrow> string list" where
  "OutboxOperationIDsLimit B limit tx = OutboxOperationIDsAfter B [] limit tx"

definition OutboxOperationIDs :: "'tx bolt \<Rightarrow> 'tx \<Rightarrow> string list" where
  "OutboxOperationIDs B tx = OutboxOperationIDsLimit B 256 tx"

end
