(* ===== verification/Agent_Journal_Spec.thy ===== *)
theory Agent_Journal_Spec
  imports Agent_Journal
begin

text \<open>
  What the journal promises, as an abstract machine, and the proof that the transactions of
  \<open>journal.go\<close> implement it. The abstract state keeps, per operation id, the phase of the command, the
  outbox entry (phase and payload), the recorded result and the receipt; its steps are those of the
  frozen inbox and outbox tables of \<open>domain.go\<close> plus the re-queueing of undelivered results.

  The operation results, the journals and the receipts share one bucket under the keys \<open>id\<close>, \<open>op:id\<close>
  and \<open>receipt:id\<close>. The separation of the three holds for operation ids that do not themselves start
  with one of the two prefixes (\<open>clean\<close> ids); the code does not check this.
\<close>

section \<open>The abstract journal\<close>

record ajournal =
  aEpoch :: u64
  aSession :: string
  aPhase :: "string \<Rightarrow> string option"
  aOut :: "string \<Rightarrow> (string \<times> bytes) option"
  aRes :: "string \<Rightarrow> bytes option"
  aReceipt :: "string \<Rightarrow> bytes option"

inductive astep :: "ajournal \<Rightarrow> ajournal \<Rightarrow> bool" where
  session: "aEpoch a < e \<or> aEpoch a = e \<and> (aSession a = [] \<or> aSession a = s) \<Longrightarrow>
    astep a (a\<lparr>aEpoch := e, aSession := s\<rparr>)"
| receive: "aReceipt a x = None \<Longrightarrow> aPhase a x = None \<Longrightarrow>
    astep a (a\<lparr>aPhase := (aPhase a)(x \<mapsto> phaseReceived)\<rparr>)"
| advance: "aPhase a x = Some p \<Longrightarrow> ValidateFSMTransition ''inbox'' p q = Inr () \<Longrightarrow>
    astep a (a\<lparr>aPhase := (aPhase a)(x \<mapsto> q)\<rparr>)"
| queue: "aReceipt a x = None \<Longrightarrow> aOut a x = None \<Longrightarrow> aRes a x = None \<or> aRes a x = Some r \<Longrightarrow>
    astep a (a\<lparr>aRes := (aRes a)(x \<mapsto> r), aOut := (aOut a)(x \<mapsto> (phasePending, r))\<rparr>)"
| deliver: "aOut a x = Some (p, r) \<Longrightarrow> ValidateFSMTransition ''outbox'' p q = Inr () \<Longrightarrow> q \<noteq> ''RECEIPTED'' \<Longrightarrow> q \<noteq> ''GC'' \<Longrightarrow>
    astep a (a\<lparr>aOut := (aOut a)(x \<mapsto> (q, r))\<rparr>)"
| requeue: "aOut a x = Some (p, r) \<Longrightarrow> astep a (a\<lparr>aOut := (aOut a)(x \<mapsto> (phasePending, r))\<rparr>)"
| receipt: "aOut a x = Some (phaseSemanticACKed, r) \<Longrightarrow> aReceipt a x = None \<Longrightarrow>
    astep a (a\<lparr>aReceipt := (aReceipt a)(x \<mapsto> r), aOut := (aOut a)(x := None), aRes := (aRes a)(x := None),
      aPhase := (aPhase a)(x := None)\<rparr>)"

inductive_cases astepE: "astep a a'"

definition outbox_phase :: "string \<Rightarrow> bool" where
  "outbox_phase p \<longleftrightarrow> p \<in> {phasePending, phaseClaimed, phaseSent, phaseSemanticACKed}"

definition ainv :: "ajournal \<Rightarrow> bool" where
  "ainv a \<longleftrightarrow>
     (\<forall>x r. aReceipt a x = Some r \<longrightarrow> aPhase a x = None \<and> aOut a x = None \<and> aRes a x = None) \<and>
     (\<forall>x p r. aOut a x = Some (p, r) \<longrightarrow> outbox_phase p \<and> aRes a x = Some r)"

lemma outbox_transition:
  "ValidateFSMTransition ''outbox'' p q = Inr () \<longleftrightarrow>
     (p, q) \<in> {(''PENDING'', ''CLAIMED''), (''CLAIMED'', ''SENT''), (''SENT'', ''SEMANTIC_ACKED''),
       (''SEMANTIC_ACKED'', ''RECEIPTED''), (''RECEIPTED'', ''GC'')}"
  by (auto simp: transition_Inr frozenFSMs_def ValidFSMState_def frozenFSMStates_def)

lemma inbox_transition:
  "ValidateFSMTransition ''inbox'' p q = Inr () \<longleftrightarrow>
     (p, q) \<in> {(''RECEIVED'', ''INTENT_PERSISTED''), (''INTENT_PERSISTED'', ''APPLYING''),
       (''APPLYING'', ''APPLIED''), (''APPLYING'', ''NACKED'')}"
  by (auto simp: transition_Inr frozenFSMs_def ValidFSMState_def frozenFSMStates_def)

lemma moves [simp]:
  "ValidateFSMTransition ''inbox'' phaseReceived phaseIntentPersisted = Inr ()"
  "ValidateFSMTransition ''inbox'' phaseIntentPersisted phaseApplying = Inr ()"
  "ValidateFSMTransition ''inbox'' phaseApplying phaseApplied = Inr ()"
  "ValidateFSMTransition ''inbox'' phaseApplying phaseNacked = Inr ()"
  "ValidateFSMTransition ''outbox'' phasePending phaseClaimed = Inr ()"
  "ValidateFSMTransition ''outbox'' phaseClaimed phaseSent = Inr ()"
  "ValidateFSMTransition ''outbox'' phaseSent phaseSemanticACKed = Inr ()"
  by (simp_all add: inbox_transition inbox_phases outbox_transition outbox_phases)

lemma ainv_step: "astep a a' \<Longrightarrow> ainv a \<Longrightarrow> ainv a'"
proof (induction rule: astep.induct)
  case (advance a x p q)
  then show ?case by (fastforce simp: ainv_def)
next
  case (deliver a x p r q)
  then have "outbox_phase q"
    by (auto simp: outbox_transition outbox_phase_def outbox_phases)
  with deliver show ?case by (auto simp: ainv_def)
next
  case (queue a x r)
  then show ?case by (auto simp: ainv_def outbox_phase_def)
next
  case (requeue a x p r)
  then show ?case by (auto simp: ainv_def outbox_phase_def)
next
  case (receipt a x r)
  then show ?case by (auto simp: ainv_def)
qed (auto simp: ainv_def)

lemma ainv_steps: "astep\<^sup>*\<^sup>* a a' \<Longrightarrow> ainv a \<Longrightarrow> ainv a'"
  by (induction rule: rtranclp_induct) (auto intro: ainv_step)

text \<open>A receipt is permanent, the epoch never decreases, and a queued result is never lost.\<close>

lemma astep_receipt: "astep a a' \<Longrightarrow> aReceipt a x = Some r \<Longrightarrow> aReceipt a' x = Some r"
  by (induction rule: astep.induct) auto

lemma astep_epoch: "astep a a' \<Longrightarrow> aEpoch a \<le> aEpoch a'"
  by (induction rule: astep.induct) auto

lemma astep_result:
  "astep a a' \<Longrightarrow> aOut a x = Some (p, r) \<Longrightarrow> (\<exists>q. aOut a' x = Some (q, r)) \<or> aReceipt a' x = Some r"
  by (induction rule: astep.induct) auto

lemma asteps_receipt: "astep\<^sup>*\<^sup>* a a' \<Longrightarrow> aReceipt a x = Some r \<Longrightarrow> aReceipt a' x = Some r"
  by (induction rule: rtranclp_induct) (auto intro: astep_receipt)

lemma asteps_epoch: "astep\<^sup>*\<^sup>* a a' \<Longrightarrow> aEpoch a \<le> aEpoch a'"
  by (induction rule: rtranclp_induct) (auto dest: astep_epoch)

lemma asteps_result:
  "astep\<^sup>*\<^sup>* a a' \<Longrightarrow> aOut a x = Some (p, r) \<Longrightarrow> (\<exists>q. aOut a' x = Some (q, r)) \<or> aReceipt a' x = Some r"
  by (induction rule: rtranclp_induct) (auto dest: astep_result astep_receipt)

section \<open>The abstraction\<close>

definition clean :: "string \<Rightarrow> bool" where
  "clean x \<longleftrightarrow> \<not> prefix ''op:'' x \<and> \<not> prefix ''receipt:'' x"

fun row_phase :: "row option \<Rightarrow> string option" where
  "row_phase (Some (RJournal j)) = Some (jPhase j)"
| "row_phase _ = None"

fun row_bytes :: "row option \<Rightarrow> bytes option" where
  "row_bytes (Some (RBytes b)) = Some b"
| "row_bytes _ = None"

definition jabs :: "'tx bolt \<Rightarrow> 'tx \<Rightarrow> ajournal" where
  "jabs B tx =
     \<lparr>aEpoch = fst (CurrentSession B tx), aSession = snd (CurrentSession B tx),
      aPhase = (\<lambda>x. row_phase (bget B tx bucketOperations (opJournalKey x))),
      aOut = (\<lambda>x. map_option (\<lambda>r. splitOutboxValue (raw_bytes (Some r))) (bget B tx bucketOutbox x)),
      aRes = (\<lambda>x. if clean x then row_bytes (bget B tx bucketOperations x) else None),
      aReceipt = (\<lambda>x. map_option (\<lambda>r. raw_bytes (Some r)) (bget B tx bucketOperations (receiptKey x)))\<rparr>"

definition ids_clean :: "'tx bolt \<Rightarrow> 'tx \<Rightarrow> bool" where
  "ids_clean B tx \<longleftrightarrow> (\<forall>x. bget B tx bucketOperations (opJournalKey x) \<noteq> None \<longrightarrow> clean x)"

definition jinv :: "'tx bolt \<Rightarrow> 'tx \<Rightarrow> bool" where
  "jinv B tx \<longleftrightarrow> ids_clean B tx \<and> ainv (jabs B tx)"

lemma key_simps [simp]:
  "opJournalKey x = opJournalKey y \<longleftrightarrow> x = y" "receiptKey x = receiptKey y \<longleftrightarrow> x = y"
  "opJournalKey x \<noteq> receiptKey y" "receiptKey y \<noteq> opJournalKey x"
  by (simp_all add: opJournalKey_def receiptKey_def)

lemma clean_keys [simp]:
  "clean x \<Longrightarrow> x \<noteq> opJournalKey y" "clean x \<Longrightarrow> x \<noteq> receiptKey y"
  "clean x \<Longrightarrow> opJournalKey y \<noteq> x" "clean x \<Longrightarrow> receiptKey y \<noteq> x"
  "\<not> clean (opJournalKey y)" "\<not> clean (receiptKey y)"
  by (auto simp: clean_def opJournalKey_def receiptKey_def)

lemma nul: "char_of (0::nat) = CHR 0x00"
  by (simp add: char_of_def)

lemma split_outboxRow [simp]:
  "outbox_phase p \<Longrightarrow> splitOutboxValue (raw_bytes (Some (outboxRow p r))) = (p, r)"
proof -
  assume "outbox_phase p"
  then have "list_all (\<lambda>c. c \<noteq> char_of (0::nat)) p"
    by (auto simp: outbox_phase_def outbox_phases nul)
  then have "char_of (0::nat) \<notin> set p" by (auto simp: list_all_iff)
  then have "takeWhile (\<lambda>x. x \<noteq> char_of (0::nat)) (p @ char_of (0::nat) # r) = p"
    by (subst takeWhile_append2) auto
  then show ?thesis by (simp add: splitOutboxValue_def outboxRow_def index_byte_def)
qed

lemma phase_nonempty [simp]: "phasePending \<noteq> []" "phaseClaimed \<noteq> []" "phaseSent \<noteq> []" "phaseSemanticACKed \<noteq> []"
  by (simp_all add: outbox_phases)

lemma outbox_phase_simps [simp]:
  "outbox_phase phasePending" "outbox_phase phaseClaimed" "outbox_phase phaseSent" "outbox_phase phaseSemanticACKed"
  by (simp_all add: outbox_phase_def)

lemma abs_simps:
  "aPhase (jabs B tx) x = row_phase (bget B tx bucketOperations (opJournalKey x))"
  "aOut (jabs B tx) x = map_option (\<lambda>r. splitOutboxValue (raw_bytes (Some r))) (bget B tx bucketOutbox x)"
  "aRes (jabs B tx) x = (if clean x then row_bytes (bget B tx bucketOperations x) else None)"
  "aReceipt (jabs B tx) x = map_option (\<lambda>r. raw_bytes (Some r)) (bget B tx bucketOperations (receiptKey x))"
  "aEpoch (jabs B tx) = fst (CurrentSession B tx)" "aSession (jabs B tx) = snd (CurrentSession B tx)"
  by (simp_all add: jabs_def)

lemma ajournal_eq:
  "(a :: ajournal) = b \<longleftrightarrow> aEpoch a = aEpoch b \<and> aSession a = aSession b \<and> (\<forall>x. aPhase a x = aPhase b x) \<and>
     (\<forall>x. aOut a x = aOut b x) \<and> (\<forall>x. aRes a x = aRes b x) \<and> (\<forall>x. aReceipt a x = aReceipt b x)"
  by (cases a, cases b) (auto simp: fun_eq_iff)

context bolt_db
begin

lemma session_put [simp]: "b \<noteq> bucketEpochs \<Longrightarrow> CurrentSession B (bput B tx b k r) = CurrentSession B tx"
  by (simp add: CurrentSession_def get_put)

lemma session_delete [simp]: "b \<noteq> bucketEpochs \<Longrightarrow> CurrentSession B (bdelete B tx b k) = CurrentSession B tx"
  by (simp add: CurrentSession_def get_delete)

lemma abs_put_journal:
  "jabs B (bput B tx bucketOperations (opJournalKey x) (RJournal j)) =
     (jabs B tx)\<lparr>aPhase := (aPhase (jabs B tx))(x \<mapsto> jPhase j)\<rparr>"
  by (simp add: ajournal_eq abs_simps get_put)

lemma abs_put_result:
  "clean x \<Longrightarrow> jabs B (bput B tx bucketOperations x (RBytes r)) = (jabs B tx)\<lparr>aRes := (aRes (jabs B tx))(x \<mapsto> r)\<rparr>"
  by (simp add: ajournal_eq abs_simps get_put)

lemma abs_put_outbox:
  "outbox_phase p \<Longrightarrow>
   jabs B (bput B tx bucketOutbox x (outboxRow p r)) = (jabs B tx)\<lparr>aOut := (aOut (jabs B tx))(x \<mapsto> (p, r))\<rparr>"
  by (simp add: ajournal_eq abs_simps get_put)

lemma abs_put_receipt:
  "jabs B (bput B tx bucketOperations (receiptKey x) (RBytes r)) =
     (jabs B tx)\<lparr>aReceipt := (aReceipt (jabs B tx))(x \<mapsto> r)\<rparr>"
  by (simp add: ajournal_eq abs_simps get_put)

lemma abs_delete:
  "jabs B (bdelete B tx bucketOutbox x) = (jabs B tx)\<lparr>aOut := (aOut (jabs B tx))(x := None)\<rparr>"
  "clean x \<Longrightarrow> jabs B (bdelete B tx bucketOperations x) = (jabs B tx)\<lparr>aRes := (aRes (jabs B tx))(x := None)\<rparr>"
  "jabs B (bdelete B tx bucketOperations (opJournalKey x)) = (jabs B tx)\<lparr>aPhase := (aPhase (jabs B tx))(x := None)\<rparr>"
  "jabs B (bdelete B tx bucketInbox k) = jabs B tx"
  by (simp_all add: ajournal_eq abs_simps get_delete)

lemma abs_frame:
  assumes "\<And>b k. b \<in> {bucketOperations, bucketOutbox, bucketEpochs} \<Longrightarrow> bget B tx' b k = bget B tx b k"
  shows "jabs B tx' = jabs B tx"
  using assms by (simp add: ajournal_eq abs_simps CurrentSession_def)

lemma abs_put_other:
  "b \<notin> {bucketOperations, bucketOutbox, bucketEpochs} \<Longrightarrow> jabs B (bput B tx b k r) = jabs B tx"
  by (rule abs_frame) (auto simp: get_put)

lemma ids_clean_simps:
  "ids_clean B tx \<Longrightarrow> clean x \<Longrightarrow> ids_clean B (bput B tx bucketOperations (opJournalKey x) r)"
  "ids_clean B tx \<Longrightarrow> clean x \<Longrightarrow> ids_clean B (bput B tx bucketOperations x r)"
  "ids_clean B tx \<Longrightarrow> ids_clean B (bput B tx bucketOperations (receiptKey y) r)"
  "ids_clean B tx \<Longrightarrow> b \<noteq> bucketOperations \<Longrightarrow> ids_clean B (bput B tx b k r)"
  "ids_clean B tx \<Longrightarrow> ids_clean B (bdelete B tx b k)"
  by (auto simp: ids_clean_def get_put get_delete)

lemma ids_clean_frame:
  "ids_clean B tx \<Longrightarrow> (\<And>k. bget B tx' bucketOperations k = bget B tx bucketOperations k) \<Longrightarrow> ids_clean B tx'"
  by (simp add: ids_clean_def)

end

section \<open>Refinement\<close>

text \<open>
  \<open>refines B tx tx'\<close>: the change from \<open>tx\<close> to \<open>tx'\<close> is a sequence of abstract steps, and the journal
  ids stay clean. The invariant \<open>jinv\<close> follows along.
\<close>

definition refines :: "'tx bolt \<Rightarrow> 'tx \<Rightarrow> 'tx \<Rightarrow> bool" where
  "refines B tx tx' \<longleftrightarrow> astep\<^sup>*\<^sup>* (jabs B tx) (jabs B tx') \<and> (ids_clean B tx \<longrightarrow> ids_clean B tx')"

lemma refines_refl [simp]: "refines B tx tx"
  by (simp add: refines_def)

lemma refines_trans: "refines B tx tx1 \<Longrightarrow> refines B tx1 tx2 \<Longrightarrow> refines B tx tx2"
  by (auto simp: refines_def)

lemma refines_jinv: "refines B tx tx' \<Longrightarrow> jinv B tx \<Longrightarrow> jinv B tx'"
  by (auto simp: refines_def jinv_def intro: ainv_steps)

lemma refines_step: "astep (jabs B tx) (jabs B tx') \<Longrightarrow> (ids_clean B tx \<Longrightarrow> ids_clean B tx') \<Longrightarrow> refines B tx tx'"
  by (auto simp: refines_def)

lemma loadJournal_Inr:
  "loadOperationJournal B tx x = Inr None \<longleftrightarrow> bget B tx bucketOperations (opJournalKey x) = None"
  "loadOperationJournal B tx x = Inr (Some j) \<longleftrightarrow> bget B tx bucketOperations (opJournalKey x) = Some (RJournal j)"
  by (auto simp: loadOperationJournal_def split: option.splits row.splits)

lemma journalIn_Inr:
  "journalIn B tx x ok = Inr j \<longleftrightarrow> bget B tx bucketOperations (opJournalKey x) = Some (RJournal j) \<and> ok j"
  by (auto simp: journalIn_def loadJournal_Inr split: option.splits)

lemma checkSession_Inr [simp]: "checkSession B tx e s = Inr u \<longleftrightarrow> CurrentSession B tx = (e, s)"
  by (cases "CurrentSession B tx") (auto simp: checkSession_def)

context bolt_db
begin

lemma refines_frame:
  "(\<And>b k. b \<in> {bucketOperations, bucketOutbox, bucketEpochs} \<Longrightarrow> bget B tx' b k = bget B tx b k) \<Longrightarrow> refines B tx tx'"
  unfolding refines_def using abs_frame [of tx' tx] ids_clean_frame [of tx tx'] by simp

lemma assert_fence_frame:
  assumes "assert_fence B now tx link = Inr tx'" and "b \<noteq> bucketForwardDeleteIntents"
  shows "bget B tx' b k = bget B tx b k"
  using assms putIntent_frame [of "link_intent now link" tx _ tx' b k]
  by (auto simp: assert_fence_def split: sum.splits if_splits)

lemma fences_frame:
  assumes "foldE (assert_fence B now) tx links = Inr tx'" and "b \<noteq> bucketForwardDeleteIntents"
  shows "bget B tx' b k = bget B tx b k"
proof (rule foldE_invariant [OF assms(1), where I = "\<lambda>t. bget B t b k = bget B tx b k"])
  show "bget B tx b k = bget B tx b k" ..
  show "bget B t' b k = bget B tx b k" if "assert_fence B now t link = Inr t'" "bget B t b k = bget B tx b k"
    for t link t'
    using assert_fence_frame [OF that(1) assms(2)] that(2) by simp
qed

lemma fences_refine: "foldE (assert_fence B now) tx links = Inr tx' \<Longrightarrow> refines B tx tx'"
  by (rule refines_frame) (use fences_frame in auto)

lemma journal_new_refines:
  assumes "clean x" and "bget B tx bucketOperations (receiptKey x) = None"
    and "bget B tx bucketOperations (opJournalKey x) = None" and "jPhase j = phaseReceived"
  shows "refines B tx (bput B tx bucketOperations (opJournalKey x) (RJournal j))"
proof (rule refines_step)
  show "astep (jabs B tx) (jabs B (bput B tx bucketOperations (opJournalKey x) (RJournal j)))"
    unfolding abs_put_journal assms(4) by (rule astep.receive) (simp_all add: abs_simps assms)
qed (simp add: ids_clean_simps assms(1))

lemma journal_set_refines:
  assumes "bget B tx bucketOperations (opJournalKey x) = Some (RJournal j)"
    and "jPhase j' = jPhase j \<or> ValidateFSMTransition ''inbox'' (jPhase j) (jPhase j') = Inr ()"
  shows "refines B tx (bput B tx bucketOperations (opJournalKey x) (RJournal j'))"
proof -
  let ?tx = "bput B tx bucketOperations (opJournalKey x) (RJournal j')"
  have ids: "ids_clean B tx \<Longrightarrow> ids_clean B ?tx"
    using assms(1) by (auto simp: ids_clean_def get_put)
  show ?thesis
  proof (cases "jPhase j' = jPhase j")
    case True
    then have "jabs B ?tx = jabs B tx" unfolding abs_put_journal by (simp add: ajournal_eq abs_simps assms(1))
    then show ?thesis using ids by (simp add: refines_def)
  next
    case False
    then have "astep (jabs B tx) (jabs B ?tx)" unfolding abs_put_journal
      using assms by (intro astep.advance) (auto simp: abs_simps)
    then show ?thesis using ids by (rule refines_step)
  qed
qed

lemma record_cases:
  assumes "recordResultAndQueue B x r tx = Inr tx'"
  obtains (queued) "tx' = tx" "bget B tx bucketOutbox x \<noteq> None" "bget B tx bucketOperations (receiptKey x) = None"
  | (fresh) "tx' = bput B (bput B tx bucketOperations x (RBytes r)) bucketOutbox x (outboxRow phasePending r)"
      "bget B tx bucketOutbox x = None" "bget B tx bucketOperations (receiptKey x) = None"
      "bget B tx bucketOperations x \<in> {None, Some (RBytes r)}"
  using assms by (auto simp: recordResultAndQueue_def split: if_splits option.splits)

lemma record_refines:
  assumes "recordResultAndQueue B x r tx = Inr tx'" and "clean x"
  shows "refines B tx tx'"
  using assms(1)
proof (cases rule: record_cases)
  case fresh
  show ?thesis
  proof (rule refines_step)
    have "jabs B tx' = (jabs B tx)\<lparr>aRes := (aRes (jabs B tx))(x \<mapsto> r), aOut := (aOut (jabs B tx))(x \<mapsto> (phasePending, r))\<rparr>"
      using assms(2) by (simp add: fresh(1) abs_put_outbox abs_put_result)
    then show "astep (jabs B tx) (jabs B tx')"
      using fresh(2-) assms(2) by (auto intro!: astep.queue simp: abs_simps)
  qed (simp add: fresh(1) ids_clean_simps assms(2))
qed simp

lemma advanceOutbox_refines:
  assumes "advanceOutbox B p q e s x tx = Inr tx'" and "p \<noteq> []" and "outbox_phase q"
    and "ValidateFSMTransition ''outbox'' p q = Inr ()"
  shows "refines B tx tx'"
proof -
  let ?v = "raw_bytes (bget B tx bucketOutbox x)"
  from assms(1) have st: "fst (splitOutboxValue ?v) = p"
    and tx': "tx' = bput B tx bucketOutbox x (outboxRow q (snd (splitOutboxValue ?v)))"
    by (auto simp: advanceOutbox_def split: prod.splits if_splits)
  have "bget B tx bucketOutbox x \<noteq> None"
  proof
    assume "bget B tx bucketOutbox x = None"
    then show False using st assms(2) by (simp add: splitOutboxValue_def index_byte_def)
  qed
  then have out: "aOut (jabs B tx) x = Some (p, snd (splitOutboxValue ?v))"
    using st by (auto simp: abs_simps)
  show ?thesis
  proof (rule refines_step)
    show "astep (jabs B tx) (jabs B tx')"
      unfolding tx' abs_put_outbox [OF assms(3)]
      by (rule astep.deliver [OF out assms(4)]) (use assms(3) in \<open>auto simp: outbox_phase_def outbox_phases\<close>)
  qed (simp add: tx' ids_clean_simps)
qed

lemma receipt_refines:
  assumes "AcceptReceipt B e s x tx = Inr tx'" and "clean x"
  shows "refines B tx tx'"
proof -
  let ?v = "raw_bytes (bget B tx bucketOutbox x)"
  let ?r = "snd (splitOutboxValue ?v)"
  let ?t = "bdelete B (bdelete B (bdelete B (bput B tx bucketOperations (receiptKey x) (RBytes ?r)) bucketOutbox x)
      bucketOperations x) bucketOperations (opJournalKey x)"
  from assms(1) have st: "fst (splitOutboxValue ?v) = phaseSemanticACKed"
    and none: "bget B tx bucketOperations (receiptKey x) = None"
    and tx': "tx' = ?t \<or> (\<exists>m. tx' = bdelete B ?t bucketInbox m)"
    by (auto simp: AcceptReceipt_def Let_def split: prod.splits if_splits option.splits)
  have "bget B tx bucketOutbox x \<noteq> None"
  proof
    assume "bget B tx bucketOutbox x = None"
    then show False using st by (simp add: splitOutboxValue_def index_byte_def outbox_phases)
  qed
  then have out: "aOut (jabs B tx) x = Some (phaseSemanticACKed, ?r)"
    using st by (auto simp: abs_simps prod_eq_iff)
  have "jabs B ?t = (jabs B tx)\<lparr>aReceipt := (aReceipt (jabs B tx))(x \<mapsto> ?r), aOut := (aOut (jabs B tx))(x := None),
      aRes := (aRes (jabs B tx))(x := None), aPhase := (aPhase (jabs B tx))(x := None)\<rparr>"
    by (simp add: abs_delete assms(2) abs_put_receipt)
  then have "jabs B tx' = (jabs B tx)\<lparr>aReceipt := (aReceipt (jabs B tx))(x \<mapsto> ?r), aOut := (aOut (jabs B tx))(x := None),
      aRes := (aRes (jabs B tx))(x := None), aPhase := (aPhase (jabs B tx))(x := None)\<rparr>"
    using tx' by (auto simp: abs_delete(4))
  then have "astep (jabs B tx) (jabs B tx')"
    using astep.receipt [OF out] none by (simp add: abs_simps)
  moreover have "ids_clean B tx \<Longrightarrow> ids_clean B tx'" using tx' by (auto simp: ids_clean_simps)
  ultimately show ?thesis by (rule refines_step)
qed

lemma requeue_row_refines:
  assumes "requeue_row B (n, tx) k = Inr (m, tx')" and "bget B tx bucketOutbox k \<noteq> None"
  shows "refines B tx tx'"
proof -
  let ?s = "splitOutboxValue (raw_bytes (bget B tx bucketOutbox k))"
  from assms(1) consider "tx' = tx" | "tx' = bput B tx bucketOutbox k (outboxRow phasePending (snd ?s))"
    by (auto simp: requeue_row_def split: prod.splits if_splits)
  then show ?thesis
  proof cases
    case 2
    have out: "aOut (jabs B tx) k = Some (fst ?s, snd ?s)" using assms(2) by (auto simp: abs_simps)
    have "astep (jabs B tx) (jabs B tx')"
      unfolding 2 by (subst abs_put_outbox) (simp_all add: astep.requeue [OF out])
    then show ?thesis by (rule refines_step) (simp add: 2 ids_clean_simps)
  qed simp
qed

lemma requeue_refines:
  assumes "RequeueOutboxForSession B e s tx = Inr (n, tx')"
  shows "refines B tx tx'"
proof -
  have fold: "foldE (requeue_row B) (0, tx) (bkeys B tx bucketOutbox) = Inr (n, tx')"
    using assms by (simp add: RequeueOutboxForSession_def)
  let ?I = "\<lambda>acc. refines B tx (snd acc) \<and>
    (\<forall>k. bget B tx bucketOutbox k \<noteq> None \<longrightarrow> bget B (snd acc) bucketOutbox k \<noteq> None)"
  have "?I (n, tx')"
  proof (rule foldE_invariant [OF fold, where I = ?I])
    show "?I (0, tx)" by simp
    fix acc k acc'
    assume k: "k \<in> set (bkeys B tx bucketOutbox)" and st: "requeue_row B acc k = Inr acc'" and I: "?I acc"
    obtain i t i' t' where acc: "acc = (i, t)" "acc' = (i', t')" by (cases acc, cases acc')
    have "bget B t bucketOutbox k \<noteq> None" using k I by (simp add: set_keys acc)
    then have "refines B t t'" using requeue_row_refines [of i t k i' t'] st acc by simp
    moreover have "\<forall>k. bget B t bucketOutbox k \<noteq> None \<longrightarrow> bget B t' bucketOutbox k \<noteq> None"
      using st by (auto simp: acc requeue_row_def get_put split: prod.splits if_splits)
    ultimately show "?I acc'" using I acc refines_trans [of B tx t t'] by simp
  qed
  then show ?thesis by simp
qed

end

section \<open>The operations of the journal\<close>

text \<open>The state-changing methods, as one type of requests and one executor.\<close>

datatype journal_op =
  OpAdvanceSession u64 string
| OpReceive u64 string string string string string string
| OpReceivePayload u64 string string string string bytes string
| OpCompleteRecovered u64 string string
| OpPersistIntent u64 string string
| OpApplying u64 string string
| OpRecover u64 string
| OpComplete u64 string string bytes
| OpNack u64 string string string
| OpNackResult u64 string string string bytes
| OpQueueNacked u64 string string
| OpQueue u64 string string bytes
| OpQueueLocal string bytes
| OpClaim u64 string string
| OpSent u64 string string
| OpAck u64 string string
| OpReceipt u64 string string
| OpRequeue u64 string

record journal_env =
  envCrypto :: crypto
  envDecode :: "bytes \<Rightarrow> DesiredState option"
  envJson :: "string \<Rightarrow> bytes"

fun exec_journal :: "'tx bolt \<Rightarrow> journal_env \<Rightarrow> int \<Rightarrow> journal_op \<Rightarrow> 'tx \<Rightarrow> store_error + 'tx" where
  "exec_journal B E now (OpAdvanceSession e s) tx = AdvanceSession B e s tx"
| "exec_journal B E now (OpReceive e s x m t h k) tx =
     andThen (ReceiveCommand B now e s x m t h k tx) (\<lambda>(_, tx'). Inr tx')"
| "exec_journal B E now (OpReceivePayload e s x m t p k) tx =
     andThen (ReceiveCommandWithPayloadStatus B (envCrypto E) (envDecode E) now e s x m t p k tx) (\<lambda>(_, tx'). Inr tx')"
| "exec_journal B E now (OpCompleteRecovered e s x) tx = CompleteRecoveredDeletion B e s x tx"
| "exec_journal B E now (OpPersistIntent e s x) tx = PersistOperationIntent B e s x tx"
| "exec_journal B E now (OpApplying e s x) tx = MarkOperationApplying B e s x tx"
| "exec_journal B E now (OpRecover e s) tx = RecoverApplyingOperations B (envJson E) now e s tx"
| "exec_journal B E now (OpComplete e s x r) tx = CompleteOperation B e s x r tx"
| "exec_journal B E now (OpNack e s x w) tx = NackOperation B e s x w tx"
| "exec_journal B E now (OpNackResult e s x w r) tx = NackOperationWithResult B e s x w r tx"
| "exec_journal B E now (OpQueueNacked e s x) tx = QueueNackedResult B (envJson E) e s x tx"
| "exec_journal B E now (OpQueue e s x r) tx = QueueResult B e s x r tx"
| "exec_journal B E now (OpQueueLocal x r) tx = QueueResultSessionIndependent B x r tx"
| "exec_journal B E now (OpClaim e s x) tx = ClaimOutbox B e s x tx"
| "exec_journal B E now (OpSent e s x) tx = MarkOutboxSent B e s x tx"
| "exec_journal B E now (OpAck e s x) tx = AcceptSemanticACK B e s x tx"
| "exec_journal B E now (OpReceipt e s x) tx = AcceptReceipt B e s x tx"
| "exec_journal B E now (OpRequeue e s) tx = andThen (RequeueOutboxForSession B e s tx) (\<lambda>(_, tx'). Inr tx')"

text \<open>A request whose operation id is clean.\<close>

fun clean_op :: "journal_op \<Rightarrow> bool" where
  "clean_op (OpReceive e s x m t h k) = clean x"
| "clean_op (OpReceivePayload e s x m t p k) = clean x"
| "clean_op (OpQueue e s x r) = clean x"
| "clean_op (OpQueueLocal x r) = clean x"
| "clean_op (OpReceipt e s x) = clean x"
| "clean_op _ = True"

context bolt_db
begin

lemma advance_session_refines:
  assumes "AdvanceSession B e s tx = Inr tx'"
  shows "refines B tx tx'"
proof (cases "tx' = tx")
  case False
  obtain ce cs where cur: "CurrentSession B tx = (ce, cs)" by (cases "CurrentSession B tx")
  from assms False have ok: "ce < e \<or> ce = e \<and> (cs = [] \<or> cs = s)"
    and tx': "tx' = bput B (bput B tx bucketEpochs keyCurrentEpoch (RBytes (encodeEpoch e)))
      bucketEpochs keyCurrentSession (RBytes s)"
    by (auto simp: AdvanceSession_def cur split: if_splits)
  have "CurrentSession B tx' = (e, s)"
    by (simp add: tx' CurrentSession_def get_put keyCurrentEpoch_def keyCurrentSession_def encodeEpoch_def decodeEpoch_def)
  then have "jabs B tx' = (jabs B tx)\<lparr>aEpoch := e, aSession := s\<rparr>"
    by (simp add: ajournal_eq abs_simps) (simp add: tx' get_put)
  moreover have "astep (jabs B tx) ((jabs B tx)\<lparr>aEpoch := e, aSession := s\<rparr>)"
    using ok by (intro astep.session) (simp add: abs_simps cur)
  ultimately show ?thesis by (intro refines_step) (simp_all add: tx' ids_clean_simps)
qed simp

lemma upgrade_phase [simp]: "jPhase (upgrade_journal p l j) = jPhase j"
  by (simp add: upgrade_journal_def Let_def)

lemma receive_refines:
  assumes "receiveCommandTx B now e s x m t h k p pp links tx = Inr (out, tx')" and "clean x"
  shows "refines B tx tx'"
proof -
  from assms(1) have rct: "bget B tx bucketOperations (receiptKey x) = None"
    by (auto simp: receiveCommandTx_def split: if_splits)
  show ?thesis
  proof (cases "bget B tx bucketInbox m")
    case (Some r)
    obtain entry where entry: "r = RInbox entry"
      using Some assms(1) rct by (cases r) (auto simp: receiveCommandTx_def)
    obtain j where load: "loadOperationJournal B tx x = Inr (Some j)"
      using Some assms(1) rct entry
      by (auto simp: receiveCommandTx_def split: if_splits option.splits)
    then have j: "bget B tx bucketOperations (opJournalKey x) = Some (RJournal j)" by (simp add: loadJournal_Inr)
    have or: "tx' = tx \<or> (\<exists>t1 j'. foldE (assert_fence B now) tx links = Inr t1 \<and> jPhase j' = jPhase j \<and>
         tx' = bput B t1 bucketOperations (opJournalKey x) (RJournal j'))"
    proof (cases pp)
      case True
      then obtain t1 where "foldE (assert_fence B now) tx links = Inr t1"
        "tx' = bput B t1 bucketOperations (opJournalKey x) (RJournal (upgrade_journal p links j))"
        using Some assms(1) rct entry load
        by (auto simp: receiveCommandTx_def putOperationJournal_def Let_def split: if_splits)
      then show ?thesis using upgrade_phase by blast
    next
      case False
      then show ?thesis using Some assms(1) rct entry load by (auto simp: receiveCommandTx_def split: if_splits)
    qed
    from or show ?thesis
    proof
      assume "\<exists>t1 j'. foldE (assert_fence B now) tx links = Inr t1 \<and> jPhase j' = jPhase j \<and>
         tx' = bput B t1 bucketOperations (opJournalKey x) (RJournal j')"
      then obtain t1 j' where t1: "foldE (assert_fence B now) tx links = Inr t1" and ph: "jPhase j' = jPhase j"
        and tx': "tx' = bput B t1 bucketOperations (opJournalKey x) (RJournal j')" by blast
      have "bget B t1 bucketOperations (opJournalKey x) = Some (RJournal j)"
        using fences_frame [OF t1] j by simp
      then show ?thesis
        using refines_trans [OF fences_refine [OF t1] journal_set_refines] ph tx' by simp
    qed simp
  next
    case None
    show ?thesis
    proof (cases "loadOperationJournal B tx x = Inr None")
      case True
      define entry where "entry = \<lparr>ieMessageType = t, iePayloadHash = h, ieOperationID = x\<rparr>"
      define j where "j = \<lparr>jKind = k, jMessageID = m, jPhase = phaseReceived, jReason = [], jPayload = p,
        jPayloadPresent = pp, jRecoveredDeletionPending = False, jForwardDeletions = links\<rparr>"
      have ph: "jPhase j = phaseReceived" by (simp add: j_def)
      have fold: "foldE (assert_fence B now) (bput B (bput B tx bucketInbox m (RInbox entry)) bucketOperations
            (opJournalKey x) (RJournal j)) links = Inr tx'"
        using None assms(1) rct True
        by (auto simp: receiveCommandTx_def putOperationJournal_def j_def entry_def)
      have 1: "refines B tx (bput B tx bucketInbox m (RInbox entry))"
        by (rule refines_frame) (auto simp: get_put)
      have 2: "refines B (bput B tx bucketInbox m (RInbox entry))
          (bput B (bput B tx bucketInbox m (RInbox entry)) bucketOperations (opJournalKey x) (RJournal j))"
        using True rct by (intro journal_new_refines assms(2)) (simp_all add: get_put ph loadJournal_Inr)
      show ?thesis using refines_trans [OF refines_trans [OF 1 2] fences_refine [OF fold]] .
    next
      case False
      with None assms(1) rct have "tx' = tx"
        by (auto simp: receiveCommandTx_def split: option.splits if_splits)
      then show ?thesis by simp
    qed
  qed
qed

lemma journal_phase_refines:
  assumes "bget B tx bucketOperations (opJournalKey x) = Some (RJournal j)"
    and "ValidateFSMTransition ''inbox'' (jPhase j) (jPhase j') = Inr ()"
    and "recordResultAndQueue B x r (bput B tx bucketOperations (opJournalKey x) (RJournal j')) = Inr tx'"
    and "ids_clean B tx"
  shows "refines B tx tx'"
proof -
  have "clean x" using assms(1,4) by (auto simp: ids_clean_def)
  then show ?thesis
    using refines_trans [OF journal_set_refines [OF assms(1)] record_refines [OF assms(3)]] assms(2) by blast
qed

lemma recover_one_refines:
  assumes "recover_one B js now tx x = Inr tx'" and "ids_clean B tx"
  shows "refines B tx tx'"
proof (cases "tx' = tx")
  case False
  with assms(1) obtain j t1 where j: "bget B tx bucketOperations (opJournalKey x) = Some (RJournal j)"
    and ph: "jPhase j = phaseApplying" and t1: "foldE (assert_fence B now) tx (jForwardDeletions j) = Inr t1"
    and rest: "recordResultAndQueue B x (recovered_result js recovered_reason)
      (bput B t1 bucketOperations (opJournalKey x) (RJournal (j\<lparr>jPhase := phaseNacked, jReason := recovered_reason\<rparr>)))
      = Inr tx'"
    by (auto simp: recover_one_def loadJournal_Inr putOperationJournal_def Let_def split: option.splits if_splits)
  have "bget B t1 bucketOperations (opJournalKey x) = Some (RJournal j)" using fences_frame [OF t1] j by simp
  moreover have "ids_clean B t1" using ids_clean_frame [OF assms(2)] fences_frame [OF t1] by simp
  ultimately show ?thesis
    using refines_trans [OF fences_refine [OF t1] journal_phase_refines [OF _ _ rest]] ph
    by (simp add: inbox_transition inbox_phases)
qed simp

lemma recover_refines:
  assumes "foldE (recover_one B js now) tx xs = Inr tx'" and "ids_clean B tx"
  shows "refines B tx tx'"
proof -
  have "refines B tx tx' \<and> ids_clean B tx'"
  proof (rule foldE_invariant [OF assms(1), where I = "\<lambda>t. refines B tx t \<and> ids_clean B t"])
    show "refines B tx tx \<and> ids_clean B tx" using assms(2) by simp
    show "refines B tx t' \<and> ids_clean B t'"
      if "recover_one B js now t x = Inr t'" "refines B tx t \<and> ids_clean B t" for t x t'
      using recover_one_refines [OF that(1)] that(2) refines_trans [of B tx t t'] by (auto simp: refines_def)
  qed
  then show ?thesis by blast
qed

text \<open>Every successful operation with a clean id is a sequence of abstract steps.\<close>

lemma exec_refines:
  assumes "exec_journal B E now op tx = Inr tx'" and "clean_op op" and "ids_clean B tx"
  shows "refines B tx tx'"
proof -
  have clean: "clean x" if "bget B tx bucketOperations (opJournalKey x) = Some (RJournal j)" for x j
    using that assms(3) by (auto simp: ids_clean_def)
  show ?thesis
  proof (cases op)
    case (OpAdvanceSession e s)
    then show ?thesis using assms(1) advance_session_refines by simp
  next
    case (OpReceive e s x m t h k)
    then show ?thesis using assms receive_refines by (auto simp: ReceiveCommand_def)
  next
    case (OpReceivePayload e s x m t p k)
    then show ?thesis using assms receive_refines by (auto simp: ReceiveCommandWithPayloadStatus_def Let_def)
  next
    case (OpCompleteRecovered e s x)
    then show ?thesis using assms(1)
      by (auto intro!: journal_set_refines simp: CompleteRecoveredDeletion_def journalIn_Inr putOperationJournal_def)
  next
    case (OpPersistIntent e s x)
    then show ?thesis using assms(1)
      by (auto intro!: journal_set_refines simp: PersistOperationIntent_def journalIn_Inr putOperationJournal_def)
  next
    case (OpApplying e s x)
    let ?mark = "\<lambda>j. if jForwardDeletions j \<noteq> [] then j\<lparr>jPhase := phaseApplying, jRecoveredDeletionPending := True\<rparr>
        else j\<lparr>jPhase := phaseApplying\<rparr>"
    obtain j where j: "bget B tx bucketOperations (opJournalKey x) = Some (RJournal j)"
      "jPhase j = phaseIntentPersisted"
      and tx': "tx' = bput B tx bucketOperations (opJournalKey x) (RJournal (?mark j))"
      using assms(1) OpApplying
      by (auto simp: MarkOperationApplying_def journalIn_Inr putOperationJournal_def Let_def)
    show ?thesis unfolding tx'
      by (rule journal_set_refines [OF j(1)]) (simp add: j(2))
  next
    case (OpRecover e s)
    then show ?thesis using assms recover_refines by (auto simp: RecoverApplyingOperations_def)
  next
    case (OpComplete e s x r)
    then show ?thesis using assms(1,3)
      by (auto intro!: journal_phase_refines simp: CompleteOperation_def journalIn_Inr putOperationJournal_def)
  next
    case (OpNack e s x w)
    then show ?thesis using assms(1)
      by (auto intro!: journal_set_refines simp: NackOperation_def journalIn_Inr putOperationJournal_def)
  next
    case (OpNackResult e s x w r)
    then show ?thesis using assms(1,3)
      by (auto intro!: journal_phase_refines simp: NackOperationWithResult_def journalIn_Inr putOperationJournal_def)
  next
    case (OpQueueNacked e s x)
    then show ?thesis using assms(1) record_refines clean by (auto simp: QueueNackedResult_def journalIn_Inr)
  next
    case (OpQueue e s x r)
    then show ?thesis using assms record_refines by (auto simp: QueueResult_def)
  next
    case (OpQueueLocal x r)
    then show ?thesis using assms record_refines by (auto simp: QueueResultSessionIndependent_def)
  next
    case (OpClaim e s x)
    then show ?thesis using assms(1) advanceOutbox_refines [of phasePending phaseClaimed]
      by (simp add: ClaimOutbox_def)
  next
    case (OpSent e s x)
    then show ?thesis using assms(1) advanceOutbox_refines [of phaseClaimed phaseSent]
      by (simp add: MarkOutboxSent_def)
  next
    case (OpAck e s x)
    then show ?thesis using assms(1) advanceOutbox_refines [of phaseSent phaseSemanticACKed]
      by (simp add: AcceptSemanticACK_def)
  next
    case (OpReceipt e s x)
    then show ?thesis using assms receipt_refines by simp
  next
    case (OpRequeue e s)
    then show ?thesis using assms(1) requeue_refines by auto
  qed
qed

end

text \<open>A run of requests; a failed transaction is rolled back.\<close>

fun run_journal :: "'tx bolt \<Rightarrow> journal_env \<Rightarrow> (int \<times> journal_op) list \<Rightarrow> 'tx \<Rightarrow> 'tx" where
  "run_journal B E [] tx = tx"
| "run_journal B E ((now, op) # ops) tx =
     run_journal B E ops (case exec_journal B E now op tx of Inl _ \<Rightarrow> tx | Inr tx' \<Rightarrow> tx')"

definition clean_run :: "(int \<times> journal_op) list \<Rightarrow> bool" where
  "clean_run ops \<longleftrightarrow> list_all (\<lambda>(_, op). clean_op op) ops"

context bolt_db
begin

lemma run_refines:
  "jinv B tx \<Longrightarrow> clean_run ops \<Longrightarrow> refines B tx (run_journal B E ops tx) \<and> jinv B (run_journal B E ops tx)"
proof (induction ops arbitrary: tx)
  case (Cons o1 ops)
  obtain now op where o1: "o1 = (now, op)" by (cases o1)
  let ?tx = "case exec_journal B E now op tx of Inl _ \<Rightarrow> tx | Inr tx' \<Rightarrow> tx'"
  have "refines B tx ?tx"
  proof (cases "exec_journal B E now op tx")
    case (Inr tx')
    then show ?thesis
      using exec_refines [OF Inr] Cons.prems o1 by (simp add: clean_run_def jinv_def)
  qed simp
  note 1 = this
  have 2: "jinv B ?tx" using refines_jinv [OF 1 Cons.prems(1)] .
  have 3: "clean_run ops" using Cons.prems(2) by (simp add: clean_run_def)
  note IH = Cons.IH [OF 2 3]
  have "run_journal B E (o1 # ops) tx = run_journal B E ops ?tx" by (simp only: o1 run_journal.simps)
  then show ?case using refines_trans [OF 1] IH by metis
qed simp

end

end
