(* ===== verification/Agent_Journal_Props.thy ===== *)
theory Agent_Journal_Props
  imports Agent_Journal_Spec
begin

text \<open>
  The properties of the durable journal: refinement of the frozen tables, session fencing, receipts
  that are never undone, results that are never lost, recovery after a crash, idempotent redelivery,
  deletion fences installed with the command that asks for them, and complete outbox paging.
\<close>

section \<open>Refinement and its consequences\<close>

lemma jinv_empty: "jinv mem_bolt []"
  by (auto simp: jinv_def ids_clean_def ainv_def abs_simps mem_bolt_def)


definition demo_env :: journal_env where
  "demo_env = \<lparr>envCrypto = demo_crypto, envDecode = (\<lambda>_. None), envJson = (\<lambda>s. s)\<rparr>"

text \<open>One command from receipt to receipt, on the in-memory database.\<close>

definition demo_ops :: "(int \<times> journal_op) list" where
  "demo_ops = map (\<lambda>op. (1, op))
     [OpAdvanceSession 7 ''s'', OpReceive 7 ''s'' ''c1'' ''m1'' ''probe'' ''hash'' ''probe'',
      OpPersistIntent 7 ''s'' ''c1'', OpApplying 7 ''s'' ''c1'', OpComplete 7 ''s'' ''c1'' ''done'',
      OpClaim 7 ''s'' ''c1'', OpSent 7 ''s'' ''c1'', OpAck 7 ''s'' ''c1'', OpReceipt 7 ''s'' ''c1'']"

lemma demo_ops_clean: "clean_run demo_ops"
  by (simp add: clean_run_def demo_ops_def clean_def)

definition demo_tx :: "nat \<Rightarrow> mem_tx" where
  "demo_tx n = run_journal mem_bolt demo_env (take n demo_ops) []"

lemma demo_jinv: "jinv mem_bolt (demo_tx n)"
proof -
  have "clean_run (take n demo_ops)"
    using demo_ops_clean by (auto simp: clean_run_def list_all_iff dest: in_set_takeD)
  then show ?thesis
    using mem.run_refines [OF jinv_empty] by (simp add: demo_tx_def)
qed

lemma epoch_roundtrip [simp]: "decodeEpoch (encodeEpoch e) = e"
  by (simp add: decodeEpoch_def encodeEpoch_def)

text \<open>The definitions that evaluate a run on the in-memory database.\<close>

lemmas demo_eval = AdvanceSession_def CurrentSession_def ReceiveCommand_def receiveCommandTx_def checkSession_def
  loadOperationJournal_def putOperationJournal_def PersistOperationIntent_def journalIn_def MarkOperationApplying_def
  CompleteOperation_def recordResultAndQueue_def ClaimOutbox_def MarkOutboxSent_def AcceptSemanticACK_def
  AcceptReceipt_def advanceOutbox_def Put_def mem_bolt_def keyCurrentEpoch_def keyCurrentSession_def opJournalKey_def
  receiptKey_def outboxRow_def splitOutboxValue_def nul index_byte_def outbox_phases inbox_phases Let_def demo_env_def
  demo_tx_def demo_ops_def decodeEpoch_def [of "[]"]

lemma demo_receipted: "ReceiptExists mem_bolt ''c1'' (demo_tx 9)"
  by (simp add: demo_eval ReceiptExists_def)


text \<open>
  C33: A receipted operation is never resurrected: after a durable receipt, whatever clean requests
  follow, the receipt stays, there is no outbox row and no journal for the operation, and every later
  attempt to receive the command again or to queue a result for it fails.
\<close>

theorem receipted_never_resurrected:
  assumes "bolt_db B" and "jinv B tx" and "ReceiptExists B x tx" and "clean_run ops"
    and "tx' = run_journal B E ops tx"
  shows "ReceiptExists B x tx' \<and> \<not> OutboxContains B x tx' \<and> OperationPhase B x tx' \<in> {Inr None, Inl ErrDecode} \<and>
    (\<forall>now e s m t h k. \<nexists>r. ReceiveCommand B now e s x m t h k tx' = Inr r) \<and>
    (\<forall>e s res. \<nexists>r. QueueResult B e s x res tx' = Inr r)"
proof -
  note run = bolt_db.run_refines [OF assms(1,2,4), of E, folded assms(5)]
  obtain r where "aReceipt (jabs B tx) x = Some r" using assms(3) by (auto simp: ReceiptExists_def abs_simps)
  then have rct: "aReceipt (jabs B tx') x = Some r"
    using run asteps_receipt by (auto simp: refines_def)
  then have "ReceiptExists B x tx'" by (auto simp: ReceiptExists_def abs_simps)
  moreover have inv: "aPhase (jabs B tx') x = None" "aOut (jabs B tx') x = None"
    using run rct by (auto simp: jinv_def ainv_def)
  then have "\<not> OutboxContains B x tx'" by (simp add: OutboxContains_def abs_simps)
  moreover have "OperationPhase B x tx' \<in> {Inr None, Inl ErrDecode}"
    using inv(1) by (auto simp: OperationPhase_def loadOperationJournal_def abs_simps split: option.splits row.splits)
  ultimately show ?thesis
    by (auto simp: ReceiptExists_def ReceiveCommand_def receiveCommandTx_def QueueResult_def recordResultAndQueue_def
        split: if_splits)
qed

theorem receipted_never_resurrected_witness:
  "ReceiptExists mem_bolt ''c1'' (demo_tx 9) \<and>
   (\<forall>e s res. \<nexists>r. QueueResult mem_bolt e s ''c1'' res (demo_tx 9) = Inr r)"
proof -
  have run: "demo_tx 9 = run_journal mem_bolt demo_env [] (demo_tx 9)" by simp
  have "clean_run []" by (simp add: clean_run_def)
  from receipted_never_resurrected [OF mem.bolt_db_axioms demo_jinv demo_receipted this run]
  show ?thesis by blast
qed

text \<open>
  A queued result is never lost and never altered: once a result is in the outbox, after any
  clean requests (re-queueing on a new session, crash recovery, repeated recording included) the
  outbox still carries the same payload, or the operation has a receipt that carries it.
\<close>

theorem queued_result_survives:
  assumes "bolt_db B" and "jinv B tx" and "clean_run ops"
    and "bget B tx bucketOutbox x = Some (outboxRow p r)" and "outbox_phase p"
    and "tx' = run_journal B E ops tx"
  shows "(\<exists>row. bget B tx' bucketOutbox x = Some row \<and> snd (splitOutboxValue (raw_bytes (Some row))) = r) \<or>
    (\<exists>row. bget B tx' bucketOperations (receiptKey x) = Some row \<and> raw_bytes (Some row) = r)"
proof -
  have "aOut (jabs B tx) x = Some (p, r)" using assms(4,5) by (simp add: abs_simps)
  moreover have "astep\<^sup>*\<^sup>* (jabs B tx) (jabs B tx')"
    using bolt_db.run_refines [OF assms(1-3), of E] by (simp add: refines_def assms(6))
  ultimately have "(\<exists>q. aOut (jabs B tx') x = Some (q, r)) \<or> aReceipt (jabs B tx') x = Some r"
    by (rule asteps_result [rotated])
  then show ?thesis by (auto simp: abs_simps)
qed

theorem queued_result_survives_witness:
  "bget mem_bolt (demo_tx 5) bucketOutbox ''c1'' = Some (outboxRow phasePending ''done'') \<and>
   (\<exists>row. bget mem_bolt (run_journal mem_bolt demo_env [(2, OpAdvanceSession 8 ''t''), (2, OpRequeue 8 ''t'')] (demo_tx 5))
      bucketOutbox ''c1'' = Some row \<and> snd (splitOutboxValue (raw_bytes (Some row))) = ''done'')"
proof -
  let ?ops = "[(2, OpAdvanceSession 8 ''t''), (2, OpRequeue 8 ''t'')]"
  have clean: "clean_run ?ops" by (simp add: clean_run_def)
  have row: "bget mem_bolt (demo_tx 5) bucketOutbox ''c1'' = Some (outboxRow phasePending ''done'')"
    by (simp add: demo_eval)
  have "bget mem_bolt (run_journal mem_bolt demo_env ?ops (demo_tx 5)) bucketOperations (receiptKey ''c1'') = None"
    by (simp add: demo_eval RequeueOutboxForSession_def mem_keys_def requeue_row_def)
  then show ?thesis
    using queued_result_survives [OF mem.bolt_db_axioms demo_jinv clean row outbox_phase_simps(1) refl, of demo_env] row
    by simp
qed

section \<open>Sessions\<close>

fun session_of :: "journal_op \<Rightarrow> (u64 \<times> string) option" where
  "session_of (OpAdvanceSession e s) = None"
| "session_of (OpReceive e s x m t h k) = Some (e, s)"
| "session_of (OpReceivePayload e s x m t p k) = Some (e, s)"
| "session_of (OpCompleteRecovered e s x) = Some (e, s)"
| "session_of (OpPersistIntent e s x) = Some (e, s)"
| "session_of (OpApplying e s x) = Some (e, s)"
| "session_of (OpRecover e s) = Some (e, s)"
| "session_of (OpComplete e s x r) = Some (e, s)"
| "session_of (OpNack e s x w) = Some (e, s)"
| "session_of (OpNackResult e s x w r) = Some (e, s)"
| "session_of (OpQueueNacked e s x) = Some (e, s)"
| "session_of (OpQueue e s x r) = Some (e, s)"
| "session_of (OpQueueLocal x r) = None"
| "session_of (OpClaim e s x) = Some (e, s)"
| "session_of (OpSent e s x) = Some (e, s)"
| "session_of (OpAck e s x) = Some (e, s)"
| "session_of (OpReceipt e s x) = Some (e, s)"
| "session_of (OpRequeue e s) = Some (e, s)"

text \<open>
  The contract of a fenced store method: called under any epoch and session other than the current
  pair it fails with the stale-session error. What a caller gets from it is that success proves the
  session to be current.
\<close>

locale session_fenced =
  fixes B :: "'tx bolt" and run :: "u64 \<Rightarrow> string \<Rightarrow> 'tx \<Rightarrow> store_error + 'r"
  assumes stale: "CurrentSession B tx \<noteq> (e, s) \<Longrightarrow> run e s tx = Inl ErrStaleSession"
begin

lemma success_is_current: "run e s tx = Inr r \<Longrightarrow> CurrentSession B tx = (e, s)"
  using stale by fastforce

end

lemma checkSession_stale: "CurrentSession B tx \<noteq> (e, s) \<Longrightarrow> checkSession B tx e s = Inl ErrStaleSession"
  by (cases "CurrentSession B tx") (auto simp: checkSession_def)

lemmas fenced_defs = ReceiveCommand_def ReceiveCommandWithPayloadStatus_def receiveCommandTx_def
  CompleteRecoveredDeletion_def PersistOperationIntent_def MarkOperationApplying_def RecoverApplyingOperations_def
  CompleteOperation_def NackOperation_def NackOperationWithResult_def QueueNackedResult_def QueueResult_def
  ClaimOutbox_def MarkOutboxSent_def AcceptSemanticACK_def advanceOutbox_def AcceptReceipt_def
  RequeueOutboxForSession_def ResultForOperation_def

interpretation fenced_receive: session_fenced B "\<lambda>e s. receiveCommandTx B now e s x m t h k p pp ls"
  for B now x m t h k p pp ls
  by unfold_locales (simp add: fenced_defs checkSession_stale)

interpretation fenced_receipt: session_fenced B "\<lambda>e s. AcceptReceipt B e s x" for B x
  by unfold_locales (simp add: fenced_defs checkSession_stale)

interpretation fenced_outbox: session_fenced B "\<lambda>e s. advanceOutbox B p q e s x" for B p q x
  by unfold_locales (simp add: fenced_defs checkSession_stale)

interpretation fenced_recover: session_fenced B "\<lambda>e s. RecoverApplyingOperations B js now e s" for B js now
  by unfold_locales (simp add: fenced_defs checkSession_stale)

interpretation fenced_complete: session_fenced B "\<lambda>e s. CompleteOperation B e s x r" for B x r
  by unfold_locales (simp add: fenced_defs checkSession_stale)

interpretation fenced_result: session_fenced B "\<lambda>e s. ResultForOperation B e s x" for B x
  by unfold_locales (simp add: fenced_defs checkSession_stale)

text \<open>
  Stale sessions cannot touch the journal: every request that carries an epoch and session other
  than the accepted ones fails with the stale-session error, whatever the request is.
\<close>

theorem stale_session_rejected:
  assumes "session_of op = Some (e, s)" and "CurrentSession B tx \<noteq> (e, s)"
  shows "exec_journal B E now op tx = Inl ErrStaleSession"
  using assms by (cases op) (simp_all add: fenced_defs checkSession_stale Let_def)

theorem stale_session_rejected_witness:
  "CurrentSession mem_bolt (demo_tx 5) = (7, ''s'') \<and>
   exec_journal mem_bolt demo_env 1 (OpClaim 6 ''old'' ''c1'') (demo_tx 5) = Inl ErrStaleSession"
proof -
  have cur: "CurrentSession mem_bolt (demo_tx 5) = (7, ''s'')" by (simp add: demo_eval)
  then show ?thesis using stale_session_rejected [of "OpClaim 6 ''old'' ''c1''" 6 "''old''" mem_bolt "demo_tx 5"] by simp
qed

lemma astep_session:
  "astep a a' \<Longrightarrow> aEpoch a \<le> aEpoch a' \<and> (aEpoch a' = aEpoch a \<and> aSession a \<noteq> [] \<longrightarrow> aSession a' = aSession a)"
  by (induction rule: astep.induct) auto

lemma asteps_session:
  "astep\<^sup>*\<^sup>* a a' \<Longrightarrow> aEpoch a \<le> aEpoch a' \<and> (aEpoch a' = aEpoch a \<and> aSession a \<noteq> [] \<longrightarrow> aSession a' = aSession a)"
proof (induction rule: rtranclp_induct)
  case (step b c)
  then show ?case using astep_session [OF step(2)] by (metis antisym order_trans)
qed simp

text \<open>
  The accepted session only moves forward: over any clean run the connection epoch never
  decreases, and as long as the epoch stays the same the accepted session stays the same.
\<close>

theorem session_epoch_monotone:
  assumes "bolt_db B" and "jinv B tx" and "clean_run ops" and "tx' = run_journal B E ops tx"
  shows "fst (CurrentSession B tx) \<le> fst (CurrentSession B tx') \<and>
    (fst (CurrentSession B tx') = fst (CurrentSession B tx) \<and> snd (CurrentSession B tx) \<noteq> [] \<longrightarrow>
     snd (CurrentSession B tx') = snd (CurrentSession B tx))"
  using asteps_session [of "jabs B tx" "jabs B tx'"] bolt_db.run_refines [OF assms(1-3), of E]
  by (simp add: refines_def assms(4) abs_simps)

theorem session_epoch_monotone_witness:
  "fst (CurrentSession mem_bolt (demo_tx 5)) \<le>
   fst (CurrentSession mem_bolt (run_journal mem_bolt demo_env [(2, OpAdvanceSession 3 ''old'')] (demo_tx 5)))"
proof -
  have "clean_run [(2, OpAdvanceSession 3 ''old'')]" by (simp add: clean_run_def)
  from session_epoch_monotone [OF mem.bolt_db_axioms demo_jinv this refl] show ?thesis by blast
qed

section \<open>Fences on receipt of a command\<close>

context bolt_db
begin

lemma assert_fence_fences:
  assumes "assert_fence B now tx link = Inr tx'"
  shows "fenced B tx' (fdForwardID link)"
proof (cases "putForwardDeleteIntentTx B (link_intent now link) tx")
  case (Inl e)
  then have "e = ErrForwardDeleteConflict" "tx' = tx"
    using assms by (auto simp: assert_fence_def split: if_splits)
  with Inl show ?thesis
    by (auto simp: putForwardDeleteIntentTx_def andThen_Inl fenced_def link_intent_def loadIntent_Inr
        validateForwardDeleteIntent_def loadForwardDeleteIntentTx_def Put_def
        split: option.splits row.splits if_splits)
next
  case (Inr r)
  then show ?thesis
    using assms putIntent_fences [of "link_intent now link" tx "fst r" "snd r"]
    by (auto simp: assert_fence_def link_intent_def split: prod.splits)
qed

lemma assert_fence_mono: "assert_fence B now tx link = Inr tx' \<Longrightarrow> fenced B tx f \<Longrightarrow> fenced B tx' f"
  using putIntent_fenced_mono by (auto simp: assert_fence_def split: sum.splits if_splits)

lemma fences_mono: "foldE (assert_fence B now) tx links = Inr tx' \<Longrightarrow> fenced B tx f \<Longrightarrow> fenced B tx' f"
  by (rule foldE_invariant [where I = "\<lambda>t. fenced B t f"]) (auto intro: assert_fence_mono)

lemma fences_all:
  "foldE (assert_fence B now) tx links = Inr tx' \<Longrightarrow> link \<in> set links \<Longrightarrow> fenced B tx' (fdForwardID link)"
proof (induction links arbitrary: tx)
  case (Cons l links)
  then obtain t where t: "assert_fence B now tx l = Inr t" "foldE (assert_fence B now) t links = Inr tx'" by auto
  show ?case
  proof (cases "link = l")
    case True
    then show ?thesis using fences_mono [OF t(2) assert_fence_fences [OF t(1)]] by simp
  qed (use Cons t in auto)
qed simp

end

text \<open>
  A deletion is fenced before it can be acted on: when a desired or forward_delete command is
  received for the first time and its payload is a valid snapshot, every Forward the snapshot marks
  ABSENT is durably fenced in the same transaction, even when an older deletion already owns it.
\<close>

theorem absent_forwards_fenced_on_receive:
  assumes "bolt_db B" and "messageType \<in> {''desired'', ''forward_delete''}"
    and "dec payload = Some d" and "DesiredState_Validate d = Inr ()"
    and "ReceiveCommandWithPayloadStatus B C dec now e s x m messageType payload k tx = Inr (out, tx')"
    and "\<not> roDuplicate out" and "f \<in> set (dsForwards d)" and "fsPresence f = PresenceAbsent"
  shows "fenced B tx' (fsForwardID f)"
proof -
  let ?link = "\<lambda>spec. \<lparr>fdForwardID = fsForwardID spec, fdDeletionOperationID = fsDeletionOperationID spec,
     fdDesiredRevision = fsDesiredRevision spec\<rparr>"
  let ?links = "map ?link (filter (\<lambda>spec. fsPresence spec = PresenceAbsent) (dsForwards d))"
  have cls: "classifyForwardDeletions dec messageType payload = Some ?links"
    using assms(2-4) by (auto simp: classifyForwardDeletions_def)
  have recv: "receiveCommandTx B now e s x m messageType (EncodeToString (sha256 C payload)) k payload True ?links tx
      = Inr (out, tx')"
    using assms(2,5) by (auto simp: ReceiveCommandWithPayloadStatus_def Let_def cls)
  then obtain t where "foldE (assert_fence B now) t ?links = Inr tx'"
    using assms(6)
    by (auto simp: receiveCommandTx_def Let_def split: if_splits option.splits row.splits)
  moreover have "?link f \<in> set ?links" using assms(7,8) by simp
  ultimately have "fenced B tx' (fdForwardID (?link f))" by (rule bolt_db.fences_all [OF assms(1)])
  then show ?thesis by simp
qed

definition demo_absent :: ForwardSpec where
  "demo_absent = \<lparr>fsForwardID = ''f1'', fsName = [], fsProtocol = ''tcp'', fsTarget = ''10.0.0.1:80'',
     fsStrategy = ''auto'', fsSourceInterface = [], fsRequestedLocalPort = 0, fsRequestedPublicPort = 0,
     fsManualExpectedEndpoint = [], fsRateLimitBPS = 0, fsDetailedStats = False, fsPublishScheme = [],
     fsPublishedHost = [], fsCustomURITemplate = [], fsDesiredRevision = 4, fsPresence = ''ABSENT'',
     fsDeletionOperationID = ''d1''\<rparr>"

definition demo_snapshot :: DesiredState where
  "demo_snapshot = \<lparr>dsNodeID = ''n1'', dsForwards = [demo_absent]\<rparr>"

lemma demo_snapshot_valid: "DesiredState_Validate demo_snapshot = Inr ()"
  by code_simp

lemma demo_received:
  "\<exists>out tx'. ReceiveCommandWithPayloadStatus mem_bolt demo_crypto (\<lambda>_. Some demo_snapshot) 5 7 ''s'' ''c2'' ''m2''
     ''desired'' ''payload'' ''desired'' (demo_tx 1) = Inr (out, tx') \<and> \<not> roDuplicate out"
  by (simp add: ReceiveCommandWithPayloadStatus_def classifyForwardDeletions_def demo_snapshot_valid)
     (simp add: demo_snapshot_def demo_absent_def PresenceAbsent_def demo_eval assert_fence_def link_intent_def
      putForwardDeleteIntentTx_def loadForwardDeleteIntentTx_def validateForwardDeleteIntent_def)

theorem absent_forwards_fenced_on_receive_witness:
  "\<exists>out tx'. ReceiveCommandWithPayloadStatus mem_bolt demo_crypto (\<lambda>_. Some demo_snapshot) 5 7 ''s'' ''c2'' ''m2''
     ''desired'' ''payload'' ''desired'' (demo_tx 1) = Inr (out, tx') \<and> fenced mem_bolt tx' ''f1''"
proof -
  obtain out tx' where r: "ReceiveCommandWithPayloadStatus mem_bolt demo_crypto (\<lambda>_. Some demo_snapshot) 5 7 ''s''
      ''c2'' ''m2'' ''desired'' ''payload'' ''desired'' (demo_tx 1) = Inr (out, tx')" and d: "\<not> roDuplicate out"
    using demo_received by blast
  have "demo_absent \<in> set (dsForwards demo_snapshot)" "fsPresence demo_absent = PresenceAbsent"
    by (simp_all add: demo_snapshot_def demo_absent_def PresenceAbsent_def)
  from absent_forwards_fenced_on_receive [OF mem.bolt_db_axioms _ refl demo_snapshot_valid r d this]
  have "fenced mem_bolt tx' (fsForwardID demo_absent)" by simp
  then show ?thesis using r by (auto simp: demo_absent_def)
qed

section \<open>Redelivery\<close>

text \<open>
  Redelivery is idempotent: after a command has been received, receiving the identical message
  again under the same session reports a duplicate and leaves the database exactly as it was.
\<close>

theorem redelivery_idempotent:
  assumes "bolt_db B" and "ReceiveCommand B now e s x m t h k tx = Inr (out, tx')"
  shows "\<exists>out'. ReceiveCommand B now' e s x m t h k tx' = Inr (out', tx') \<and> roDuplicate out'"
proof -
  have clock: "ReceiveCommand B now' e s x m t h k t0 = ReceiveCommand B now e s x m t h k t0" for t0
    by (simp add: ReceiveCommand_def receiveCommandTx_def cong: option.case_cong row.case_cong if_cong)
  show ?thesis
  proof (cases "bget B tx bucketInbox m = None \<and> loadOperationJournal B tx x = Inr None")
    case True
    let ?entry = "RInbox \<lparr>ieMessageType = t, iePayloadHash = h, ieOperationID = x\<rparr>"
    let ?j = "\<lparr>jKind = k, jMessageID = m, jPhase = phaseReceived, jReason = [], jPayload = [],
       jPayloadPresent = False, jRecoveredDeletionPending = False, jForwardDeletions = []\<rparr>"
    have rct: "bget B tx bucketOperations (receiptKey x) = None" and cur: "CurrentSession B tx = (e, s)"
      and tx': "tx' = bput B (bput B tx bucketInbox m ?entry) bucketOperations (opJournalKey x) (RJournal ?j)"
      using True assms(2)
      by (auto simp: ReceiveCommand_def receiveCommandTx_def putOperationJournal_def split: if_splits)
    have "CurrentSession B tx' = (e, s)" "bget B tx' bucketOperations (receiptKey x) = None"
      "bget B tx' bucketInbox m = Some ?entry" "loadOperationJournal B tx' x = Inr (Some ?j)"
      using cur rct by (simp_all add: tx' bolt_db.get_put [OF assms(1)] bolt_db.session_put [OF assms(1)]
          loadOperationJournal_def)
    then show ?thesis by (simp add: ReceiveCommand_def receiveCommandTx_def checkSession_def)
  next
    case False
    then have "tx' = tx \<and> roDuplicate out"
      using assms(2)
      by (auto simp: ReceiveCommand_def receiveCommandTx_def split: if_splits option.splits row.splits)
    then show ?thesis using assms(2) clock by auto
  qed
qed

theorem redelivery_idempotent_witness:
  "\<exists>out. ReceiveCommand mem_bolt 9 7 ''s'' ''c1'' ''m1'' ''probe'' ''hash'' ''probe'' (demo_tx 2) = Inr (out, demo_tx 2) \<and>
     roDuplicate out"
proof -
  have "ReceiveCommand mem_bolt 1 7 ''s'' ''c1'' ''m1'' ''probe'' ''hash'' ''probe'' (demo_tx 1)
      = Inr (\<lparr>roDuplicate = False, roRecoveredDeletionPending = False\<rparr>, demo_tx 2)"
    by (simp add: demo_eval)
  then show ?thesis by (rule redelivery_idempotent [OF mem.bolt_db_axioms])
qed

section \<open>Recovery after a crash\<close>

definition recoverable :: "operationJournal \<Rightarrow> bool" where
  "recoverable j \<longleftrightarrow> jPhase j = phaseApplying \<and> (\<not> isDeletionCommandKind (jKind j) \<or> jPayloadPresent j) \<and>
     \<not> jRecoveredDeletionPending j"

lemma op_prefix: "prefix ''op:'' key \<longleftrightarrow> key = opJournalKey (drop (length ''op:'') key)"
  by (auto simp: opJournalKey_def prefix_def)

lemma collect_set:
  assumes "foldE (collect_recovering B tx) acc keys = Inr xs"
  shows "set xs = set acc \<union> {x. opJournalKey x \<in> set keys \<and>
    (\<exists>j. loadOperationJournal B tx x = Inr (Some j) \<and> recoverable j)}"
  using assms
proof (induction keys arbitrary: acc)
  case (Cons key keys)
  then obtain acc' where acc': "collect_recovering B tx acc key = Inr acc'"
    and rest: "foldE (collect_recovering B tx) acc' keys = Inr xs" by auto
  have "set acc' = set acc \<union> {x. opJournalKey x = key \<and>
      (\<exists>j. loadOperationJournal B tx x = Inr (Some j) \<and> recoverable j)}"
  proof (cases "prefix ''op:'' key")
    case False
    then have "opJournalKey x \<noteq> key" for x by (auto simp: opJournalKey_def)
    then show ?thesis using acc' False by (simp add: collect_recovering_def)
  next
    case True
    then obtain x where key: "key = opJournalKey x" using op_prefix by blast
    then have "drop (length ''op:'') key = x" by (simp add: opJournalKey_def)
    with acc' True key show ?thesis
      by (auto simp: collect_recovering_def recoverable_def Let_def split: option.splits if_splits)
  qed
  with Cons.IH [OF rest] show ?case by auto
qed simp

context bolt_db
begin

lemma record_frame:
  assumes "recordResultAndQueue B x r tx = Inr tx'" and "clean x"
  shows "bget B tx' bucketOperations (opJournalKey y) = bget B tx bucketOperations (opJournalKey y)"
    "bget B tx' bucketOutbox x \<noteq> None" "bget B tx bucketOutbox z \<noteq> None \<Longrightarrow> bget B tx' bucketOutbox z \<noteq> None"
  using assms(1) by (cases rule: record_cases; use assms(2) in \<open>auto simp: get_put\<close>)+

definition nacked :: "operationJournal \<Rightarrow> operationJournal" where
  "nacked j = j\<lparr>jPhase := phaseNacked, jReason := recovered_reason\<rparr>"

lemma recover_one_cases:
  assumes "recover_one B js now tx x = Inr tx'" and "ids_clean B tx"
  obtains (idle) "tx' = tx" "\<And>j. bget B tx bucketOperations (opJournalKey x) = Some (RJournal j) \<Longrightarrow> jPhase j \<noteq> phaseApplying"
  | (recovered) j t1 where "bget B tx bucketOperations (opJournalKey x) = Some (RJournal j)" "clean x"
      "foldE (assert_fence B now) tx (jForwardDeletions j) = Inr t1"
      "recordResultAndQueue B x (recovered_result js recovered_reason)
        (bput B t1 bucketOperations (opJournalKey x) (RJournal (nacked j))) = Inr tx'"
proof (cases "\<exists>j. bget B tx bucketOperations (opJournalKey x) = Some (RJournal j) \<and> jPhase j = phaseApplying")
  case True
  then obtain j where j: "bget B tx bucketOperations (opJournalKey x) = Some (RJournal j)" "jPhase j = phaseApplying"
    by blast
  then have "clean x" using assms(2) by (auto simp: ids_clean_def)
  with j assms(1) show ?thesis
    by (auto simp: recover_one_def loadOperationJournal_def putOperationJournal_def Let_def nacked_def intro: recovered)
next
  case False
  then have "tx' = tx"
    using assms(1) by (auto simp: recover_one_def loadJournal_Inr split: option.splits if_splits)
  then show ?thesis using False idle by blast
qed

lemma recover_one_frame:
  assumes "recover_one B js now tx x = Inr tx'" and "ids_clean B tx"
  shows "y \<noteq> x \<Longrightarrow> bget B tx' bucketOperations (opJournalKey y) = bget B tx bucketOperations (opJournalKey y)"
    and "bget B tx bucketOutbox z \<noteq> None \<Longrightarrow> bget B tx' bucketOutbox z \<noteq> None"
  using assms
  by (cases rule: recover_one_cases; force simp: record_frame(1) get_put fences_frame dest: record_frame(3))+

lemma recover_one_nacks:
  assumes "recover_one B js now tx x = Inr tx'" and "ids_clean B tx"
    and "bget B tx bucketOperations (opJournalKey x) = Some (RJournal j)" and "jPhase j = phaseApplying"
  shows "bget B tx' bucketOutbox x \<noteq> None \<and> bget B tx' bucketOperations (opJournalKey x) = Some (RJournal (nacked j))"
  using assms(1,2)
proof (cases rule: recover_one_cases)
  case (recovered j' t1)
  then show ?thesis
    using assms(3) record_frame(1) [OF recovered(4,2), of x] record_frame(2) [OF recovered(4,2)]
    by (simp add: get_put)
qed (use assms(3,4) in simp)

definition settled :: "'tx \<Rightarrow> string \<Rightarrow> bool" where
  "settled tx x \<longleftrightarrow> bget B tx bucketOutbox x \<noteq> None \<and>
     (\<exists>j. bget B tx bucketOperations (opJournalKey x) = Some (RJournal j) \<and> jPhase j = phaseNacked)"

lemma recover_one_settled:
  assumes "recover_one B js now tx x = Inr tx'" and "ids_clean B tx" and "settled tx y"
  shows "settled tx' y"
proof (cases "y = x")
  case True
  have "tx' = tx"
    using assms(1,2)
  proof (cases rule: recover_one_cases)
    case (recovered j t1)
    then have "jPhase j = phaseApplying \<or> tx' = tx"
      using assms(1) by (auto simp: recover_one_def loadOperationJournal_def split: if_splits)
    then show ?thesis using assms(3) True recovered(1) by (auto simp: settled_def inbox_phases)
  qed
  then show ?thesis using assms(3) by simp
next
  case False
  then show ?thesis
    using assms(3) recover_one_frame [OF assms(1,2)] unfolding settled_def by metis
qed

lemma recover_all:
  assumes "foldE (recover_one B js now) tx xs = Inr tx'" and "ids_clean B tx"
    and "\<And>x. x \<in> set xs \<Longrightarrow> settled tx x \<or>
      (\<exists>j. bget B tx bucketOperations (opJournalKey x) = Some (RJournal j) \<and> jPhase j = phaseApplying)"
  shows "(\<forall>x \<in> set xs. settled tx' x) \<and> (\<forall>x. settled tx x \<longrightarrow> settled tx' x) \<and>
    (\<forall>y. y \<notin> set xs \<longrightarrow> bget B tx' bucketOperations (opJournalKey y) = bget B tx bucketOperations (opJournalKey y))"
  using assms
proof (induction xs arbitrary: tx)
  case (Cons x xs)
  then obtain t where t: "recover_one B js now tx x = Inr t" and rest: "foldE (recover_one B js now) t xs = Inr tx'" by auto
  note clean = Cons.prems(2)
  have ct: "ids_clean B t" using recover_one_refines [OF t clean] clean by (simp add: refines_def)
  have sx: "settled t x"
    using Cons.prems(3) [of x] recover_one_settled [OF t clean] recover_one_nacks [OF t clean]
    by (auto simp: settled_def nacked_def)
  have "settled t y \<or> (\<exists>j. bget B t bucketOperations (opJournalKey y) = Some (RJournal j) \<and> jPhase j = phaseApplying)"
    if "y \<in> set xs" for y
    using Cons.prems(3) [of y] that sx recover_one_settled [OF t clean] recover_one_frame(1) [OF t clean, of y]
    by (cases "y = x") auto
  from Cons.IH [OF rest ct this] show ?case
    using sx recover_one_settled [OF t clean] recover_one_frame(1) [OF t clean] by (metis set_ConsD list.set_intros)
qed simp

end

text \<open>
  Recovery closes the crash window: after \<open>RecoverApplyingOperations\<close> succeeds, every operation that
  was APPLYING is NACKED with its result queued in the outbox, except those that are explicitly held
  back (deletion commands whose payload is not yet known, and deletions whose cleanup is still
  pending), whose journal is untouched.
\<close>

theorem recovery_nacks_interrupted:
  assumes "bolt_db B" and "ids_clean B tx" and "RecoverApplyingOperations B js now e s tx = Inr tx'"
    and "bget B tx bucketOperations (opJournalKey x) = Some (RJournal j)" and "jPhase j = phaseApplying"
  shows "if recoverable j
    then OperationPhase B x tx' = Inr (Some phaseNacked) \<and> OutboxContains B x tx'
    else bget B tx' bucketOperations (opJournalKey x) = Some (RJournal j)"
proof -
  from assms(3) obtain xs where xs: "foldE (collect_recovering B tx) [] (bkeys B tx bucketOperations) = Inr xs"
    and run: "foldE (recover_one B js now) tx xs = Inr tx'"
    by (auto simp: RecoverApplyingOperations_def)
  have set: "y \<in> set xs \<longleftrightarrow> (\<exists>j. bget B tx bucketOperations (opJournalKey y) = Some (RJournal j) \<and> recoverable j)" for y
    using collect_set [OF xs] by (auto simp: bolt_db.set_keys [OF assms(1)] loadJournal_Inr)
  have "(\<forall>x \<in> set xs. bolt_db.settled B tx' x) \<and>
      (\<forall>y. y \<notin> set xs \<longrightarrow> bget B tx' bucketOperations (opJournalKey y) = bget B tx bucketOperations (opJournalKey y))"
    using bolt_db.recover_all [OF assms(1) run assms(2)] set by (auto simp: recoverable_def)
  then show ?thesis
    using set [of x] assms(4)
    by (auto simp: bolt_db.settled_def [OF assms(1)] OperationPhase_def OutboxContains_def loadOperationJournal_def)
qed

theorem recovery_nacks_interrupted_witness:
  "\<exists>tx'. RecoverApplyingOperations mem_bolt (\<lambda>s. s) 3 7 ''s'' (demo_tx 4) = Inr tx' \<and>
     OperationPhase mem_bolt ''c1'' tx' = Inr (Some phaseNacked) \<and> OutboxContains mem_bolt ''c1'' tx'"
proof -
  let ?j = "\<lparr>jKind = ''probe'', jMessageID = ''m1'', jPhase = phaseApplying, jReason = [], jPayload = [],
     jPayloadPresent = False, jRecoveredDeletionPending = False, jForwardDeletions = []\<rparr>"
  have j: "bget mem_bolt (demo_tx 4) bucketOperations (opJournalKey ''c1'') = Some (RJournal ?j)"
    by (simp add: demo_eval)
  have rec: "recoverable ?j" by (simp add: recoverable_def isDeletionCommandKind_def)
  obtain tx' where run: "RecoverApplyingOperations mem_bolt (\<lambda>s. s) 3 7 ''s'' (demo_tx 4) = Inr tx'"
    by (simp add: RecoverApplyingOperations_def demo_eval mem_keys_def collect_recovering_def recover_one_def
        isDeletionCommandKind_def)
  have "ids_clean mem_bolt (demo_tx 4)" using demo_jinv by (simp add: jinv_def)
  from recovery_nacks_interrupted [OF mem.bolt_db_axioms this run j] rec run show ?thesis by auto
qed

section \<open>Outbox paging\<close>

text \<open>The pump that reads the outbox page by page, continuing after the last key of each page.\<close>

fun drain_pages :: "'tx bolt \<Rightarrow> nat \<Rightarrow> string \<Rightarrow> int \<Rightarrow> 'tx \<Rightarrow> string list" where
  "drain_pages B 0 after limit tx = []"
| "drain_pages B (Suc n) after limit tx =
     (let page = OutboxOperationIDsAfter B after limit tx
      in if page = [] then [] else page @ drain_pages B n (last page) limit tx)"

lemma page_after_prefix:
  assumes "bkeys B tx bucketOutbox = pre @ post" and "sorted (pre @ post)" and "distinct (pre @ post)"
    and "[] \<notin> set (pre @ post)" and "0 < limit" and "after = (if pre = [] then [] else last pre)"
  shows "OutboxOperationIDsAfter B after limit tx = take (nat limit) post"
proof (cases "pre = []")
  case False
  have a: "after = last pre" "after \<noteq> []" using False assms(4,6) by (auto dest: last_in_set)
  have split: "pre = butlast pre @ [after]" using False a by simp
  have "\<forall>k \<in> set (butlast pre). k < after"
  proof
    fix k assume k: "k \<in> set (butlast pre)"
    have "sorted (butlast pre @ after # post)" "distinct (butlast pre @ after # post)"
      using assms(2,3) split by (metis append.assoc append_Cons append_Nil)+
    then have "k \<le> after" "k \<noteq> after" using k by (auto simp: sorted_append)
    then show "k < after" by simp
  qed
  then have "dropWhile (\<lambda>k. k < after) (butlast pre @ after # post) = after # post"
    by (subst dropWhile_append2) auto
  then have "dropWhile (\<lambda>k. k < after) (pre @ post) = after # post"
    using split by (metis append.assoc append_Cons append_Nil)
  then show ?thesis using a(2) assms(1,5) by (simp add: OutboxOperationIDsAfter_def Let_def del: dropWhile_eq_Nil_conv)
qed (use assms in \<open>simp add: OutboxOperationIDsAfter_def\<close>)

lemma drain_rest:
  assumes "bkeys B tx bucketOutbox = pre @ post" and "sorted (pre @ post)" and "distinct (pre @ post)"
    and "[] \<notin> set (pre @ post)" and "0 < limit" and "after = (if pre = [] then [] else last pre)"
    and "length post < n"
  shows "drain_pages B n after limit tx = post"
  using assms
proof (induction n arbitrary: pre post after)
  case (Suc n)
  let ?page = "take (nat limit) post" and ?rest = "drop (nat limit) post"
  have page: "OutboxOperationIDsAfter B after limit tx = ?page"
    using page_after_prefix [OF Suc.prems(1-6)] .
  show ?case
  proof (cases "post = []")
    case False
    then have ne: "?page \<noteq> []" using Suc.prems(5) by simp
    have keys: "bkeys B tx bucketOutbox = (pre @ ?page) @ ?rest" using Suc.prems(1) by simp
    have "length ?rest < n" using Suc.prems(5,7) False by (cases post) auto
    then have "drain_pages B n (last ?page) limit tx = ?rest"
      using Suc.IH [OF keys, of "last ?page"] Suc.prems(2-5) ne by simp
    then show ?thesis using page ne by (simp add: Let_def)
  qed (use page in simp)
qed simp

text \<open>
  C34: Paging the outbox visits every row exactly once: reading successive bounded pages, each
  starting strictly after the last key of the one before, returns all stored operation ids, in key
  order and without repetition, for every positive page size, after at most one page per row.
\<close>

theorem outbox_paging_complete:
  assumes "bolt_db B" and "bget B tx bucketOutbox [] = None" and "0 < limit"
    and "length (bkeys B tx bucketOutbox) < n"
  shows "drain_pages B n [] limit tx = bkeys B tx bucketOutbox \<and>
    set (drain_pages B n [] limit tx) = {x. OutboxContains B x tx} \<and> distinct (drain_pages B n [] limit tx)"
proof -
  note keys = bolt_db.sorted_keys [OF assms(1), of tx bucketOutbox] bolt_db.set_keys [OF assms(1), of tx bucketOutbox]
  have "drain_pages B n [] limit tx = bkeys B tx bucketOutbox"
    using drain_rest [of B tx "[]" "bkeys B tx bucketOutbox" limit "[]" n] keys assms(2-4) by simp
  then show ?thesis using keys by (simp add: OutboxContains_def)
qed

theorem outbox_paging_complete_witness:
  "drain_pages mem_bolt 4 [] 2 [((bucketOutbox, ''c''), RBytes []), ((bucketOutbox, ''a''), RBytes []),
     ((bucketOutbox, ''b''), RBytes [])] = [''a'', ''b'', ''c'']"
proof -
  let ?tx = "[((bucketOutbox, ''c''), RBytes []), ((bucketOutbox, ''a''), RBytes []), ((bucketOutbox, ''b''), RBytes [])]"
  have keys: "bkeys mem_bolt ?tx bucketOutbox = [''a'', ''b'', ''c'']" by (simp add: mem_bolt_def mem_keys_def)
  have "bget mem_bolt ?tx bucketOutbox [] = None" by (simp add: mem_bolt_def)
  from outbox_paging_complete [OF mem.bolt_db_axioms this, of 2 4] show ?thesis by (simp add: keys)
qed

section \<open>Observations\<close>

text \<open>
  The three kinds of rows in \<open>operation_results\<close> are kept apart only by the key prefixes, and
  operation ids are not checked against them: a result queued under an id of the form \<open>receipt:x\<close>
  stores a row that every later check takes for the durable receipt of \<open>x\<close>.
\<close>

lemma queued_result_forges_receipt:
  assumes "bolt_db B" and "recordResultAndQueue B (receiptKey x) r tx = Inr tx'"
    and "bget B tx bucketOutbox (receiptKey x) = None"
  shows "ReceiptExists B x tx'"
  using assms(2) by (cases rule: bolt_db.record_cases [OF assms(1)])
    (use assms(3) in \<open>auto simp: ReceiptExists_def bolt_db.get_put [OF assms(1)]\<close>)

text \<open>
  A valid snapshot may mark a Forward ABSENT with desired revision 0; receiving it fails as a whole,
  since the fence it needs is refused, and nothing of the command is recorded.
\<close>

lemma absent_revision_zero_not_received:
  assumes "bget B tx bucketInbox m = None"
  shows "\<nexists>out tx'. receiveCommandTx B now e s x m t h k p pp
    [\<lparr>fdForwardID = f, fdDeletionOperationID = d, fdDesiredRevision = 0\<rparr>] tx =
      Inr (\<lparr>roDuplicate = False, roRecoveredDeletionPending = out\<rparr>, tx')"
  using assms
  by (auto simp: receiveCommandTx_def assert_fence_def link_intent_def putForwardDeleteIntentTx_def
      validateForwardDeleteIntent_def split: option.splits if_splits)

end
