(* ===== verification/Agent_Applied.thy ===== *)
theory Agent_Applied
  imports Agent_Forward_Delete
begin

text \<open>
  \<open>internal/agent/localstate/applied.go\<close> and \<open>journal_evacuation.go\<close>: the received desired snapshot with
  its fence-aware merge, the durable applied records, the atomic commit of a desired snapshot with its
  per-Forward outcomes, and the maintenance of mapping journal references.
\<close>

section \<open>Applied records\<close>

definition zeroForwardSpec :: ForwardSpec where
  "zeroForwardSpec = \<lparr>fsForwardID = [], fsName = [], fsProtocol = [], fsTarget = [], fsStrategy = [],
     fsSourceInterface = [], fsRequestedLocalPort = 0, fsRequestedPublicPort = 0, fsManualExpectedEndpoint = [],
     fsRateLimitBPS = 0, fsDetailedStats = False, fsPublishScheme = [], fsPublishedHost = [],
     fsCustomURITemplate = [], fsDesiredRevision = 0, fsPresence = [], fsDeletionOperationID = []\<rparr>"

record AppliedStateRecord =
  asState :: AppliedForwardState
  asServingSpec :: ForwardSpec
  asHasServingSpec :: bool

definition encodeAppliedRecord :: "AppliedForwardState \<Rightarrow> ForwardSpec \<Rightarrow> row" where
  "encodeAppliedRecord state spec = RApplied \<lparr>arState = state, arServingSpec = Some spec\<rparr>"

fun decodeAppliedRecord :: "row \<Rightarrow> store_error + AppliedForwardState \<times> ForwardSpec \<times> bool" where
  "decodeAppliedRecord (RApplied r) =
     (if afForwardID (arState r) \<noteq> [] then
        (case arServingSpec r of
           None \<Rightarrow> Inr (arState r, zeroForwardSpec, False)
         | Some spec \<Rightarrow> Inr (arState r, spec, True))
      else Inr (arState r, zeroForwardSpec, False))"
| "decodeAppliedRecord _ = Inl ErrDecode"

definition validateAppliedRecord ::
  "string \<Rightarrow> AppliedForwardState \<Rightarrow> ForwardSpec \<Rightarrow> bool \<Rightarrow> store_error + unit" where
  "validateAppliedRecord key state spec hasSpec =
     (case AppliedForwardState_Validate state of
        Inl e \<Rightarrow> Inl (ErrDomain e)
      | Inr _ \<Rightarrow>
          if key \<noteq> [] \<and> afForwardID state \<noteq> key then Inl ErrRecord
          else if \<not> hasSpec then Inr ()
          else case ForwardSpec_Validate spec of
            Inl e \<Rightarrow> Inl (ErrDomain e)
          | Inr _ \<Rightarrow>
              if fsForwardID spec \<noteq> afForwardID state then Inl ErrRecord
              else if fsPresence spec \<noteq> PresencePresent \<or> fsDesiredRevision spec \<noteq> afSpecRevision state then Inl ErrRecord
              else if fsStrategy spec \<noteq> afStrategy state then Inl ErrRecord
              else Inr ())"

definition checkAppliedRow :: "string \<Rightarrow> row \<Rightarrow> store_error + AppliedStateRecord" where
  "checkAppliedRow key raw =
     andThen (decodeAppliedRecord raw) (\<lambda>(state, spec, hasSpec).
     andThen (validateAppliedRecord key state spec hasSpec) (\<lambda>_.
     Inr \<lparr>asState = state, asServingSpec = spec, asHasServingSpec = hasSpec\<rparr>))"

definition loadAppliedRecordTx :: "'tx bolt \<Rightarrow> 'tx \<Rightarrow> string \<Rightarrow> store_error + AppliedStateRecord option" where
  "loadAppliedRecordTx B tx key =
     (case bget B tx bucketApplied key of
        None \<Rightarrow> Inr None
      | Some raw \<Rightarrow> andThen (checkAppliedRow key raw) (\<lambda>r. Inr (Some r)))"

definition listApplied :: "'tx bolt \<Rightarrow> 'tx \<Rightarrow> AppliedStateRecord list \<Rightarrow> bytes \<Rightarrow> store_error + AppliedStateRecord list" where
  "listApplied B tx acc key =
     (case bget B tx bucketApplied key of
        None \<Rightarrow> Inr acc
      | Some raw \<Rightarrow> andThen (checkAppliedRow key raw) (\<lambda>r. Inr (acc @ [r])))"

definition validateAppliedBucketTx :: "'tx bolt \<Rightarrow> 'tx \<Rightarrow> store_error + unit" where
  "validateAppliedBucketTx B tx =
     andThen (foldE (listApplied B tx) [] (bkeys B tx bucketApplied)) (\<lambda>_. Inr ())"

definition equivalentAppliedState :: "AppliedForwardState \<Rightarrow> AppliedForwardState \<Rightarrow> bool" where
  "equivalentAppliedState a b \<longleftrightarrow> a\<lparr>afAppliedAtUnix := 0\<rparr> = b\<lparr>afAppliedAtUnix := 0\<rparr>"

definition GetAppliedRecord :: "'tx bolt \<Rightarrow> string \<Rightarrow> 'tx \<Rightarrow> store_error + AppliedStateRecord option" where
  "GetAppliedRecord B forwardID tx =
     (if forwardID = [] then Inl ErrRequest else loadAppliedRecordTx B tx forwardID)"

definition GetAppliedState :: "'tx bolt \<Rightarrow> string \<Rightarrow> 'tx \<Rightarrow> store_error + AppliedForwardState option" where
  "GetAppliedState B forwardID tx = andThen (GetAppliedRecord B forwardID tx) (\<lambda>r. Inr (map_option asState r))"

definition ListAppliedRecords :: "'tx bolt \<Rightarrow> 'tx \<Rightarrow> store_error + AppliedStateRecord list" where
  "ListAppliedRecords B tx = foldE (listApplied B tx) [] (bkeys B tx bucketApplied)"

definition ListAppliedStates :: "'tx bolt \<Rightarrow> 'tx \<Rightarrow> store_error + AppliedForwardState list" where
  "ListAppliedStates B tx = andThen (ListAppliedRecords B tx) (\<lambda>rs. Inr (map asState rs))"

section \<open>Merging desired snapshots\<close>

text \<open>
  The merge loops keep the merged slice and the index map from Forward id to position; a step either
  stops with an error or returns the new pair.
\<close>

type_synonym merge_state = "ForwardSpec list \<times> (string \<times> nat) list"

definition initial_index :: "ForwardSpec list \<Rightarrow> (string \<times> nat) list" where
  "initial_index fs =
     foldl (\<lambda>index (i, spec). AList.update (fsForwardID spec) i index) [] (zip [0..<length fs] fs)"

definition append_spec :: "merge_state \<Rightarrow> ForwardSpec \<Rightarrow> merge_state" where
  "append_spec m spec = (fst m @ [spec], AList.update (fsForwardID spec) (length (fst m)) (snd m))"

definition replace_spec :: "merge_state \<Rightarrow> nat \<Rightarrow> ForwardSpec \<Rightarrow> merge_state" where
  "replace_spec m at spec = ((fst m)[at := spec], snd m)"

text \<open>The revision rule both merges share.\<close>

definition merge_by_revision :: "merge_state \<Rightarrow> ForwardSpec \<Rightarrow> store_error + merge_state" where
  "merge_by_revision m incomingSpec =
     (case map_of (snd m) (fsForwardID incomingSpec) of
        None \<Rightarrow> Inr (append_spec m incomingSpec)
      | Some at \<Rightarrow>
          let currentSpec = fst m ! at
          in if fsDesiredRevision incomingSpec > fsDesiredRevision currentSpec then Inr (replace_spec m at incomingSpec)
             else if fsDesiredRevision incomingSpec < fsDesiredRevision currentSpec then Inr m
             else if incomingSpec = currentSpec then Inr m
             else Inl ErrDesiredRevisionConflict)"

definition mergeDesiredSnapshots :: "DesiredState \<Rightarrow> DesiredState \<Rightarrow> store_error + DesiredState" where
  "mergeDesiredSnapshots current incoming =
     (if dsNodeID current = [] then Inr incoming
      else if dsNodeID current \<noteq> dsNodeID incoming then Inl ErrRequest
      else case DesiredState_Validate current of
        Inl e \<Rightarrow> Inl (ErrDomain e)
      | Inr _ \<Rightarrow>
          andThen (foldE merge_by_revision (dsForwards current, initial_index (dsForwards current)) (dsForwards incoming))
            (\<lambda>m. Inr (current\<lparr>dsForwards := fst m\<rparr>)))"

definition load_received_row ::
  "'tx bolt \<Rightarrow> 'tx \<Rightarrow> DesiredState option \<Rightarrow> bytes \<Rightarrow> store_error + DesiredState option" where
  "load_received_row B tx found key =
     (if found \<noteq> None then Inl ErrRecord
      else case bget B tx bucketDesired key of
        Some (RDesired desired) \<Rightarrow>
          (case DesiredState_Validate desired of
             Inl e \<Rightarrow> Inl (ErrDomain e)
           | Inr _ \<Rightarrow> if key \<noteq> dsNodeID desired then Inl ErrRecord else Inr (Some desired))
      | _ \<Rightarrow> Inl ErrDecode)"

definition loadReceivedDesiredTx :: "'tx bolt \<Rightarrow> 'tx \<Rightarrow> store_error + DesiredState option" where
  "loadReceivedDesiredTx B tx = foldE (load_received_row B tx) None (bkeys B tx bucketDesired)"

definition deleteFenceIdentity ::
  "ForwardDeleteIntent option \<Rightarrow> ForwardTombstone option \<Rightarrow> store_error + (string \<times> u64) option" where
  "deleteFenceIdentity intent tombstone =
     (let (operationID, revision) =
            (case intent of Some i \<Rightarrow> (fiDeletionOperationID i, fiDesiredRevision i) | None \<Rightarrow> ([], 0))
      in case tombstone of
           None \<Rightarrow> Inr (if operationID \<noteq> [] then Some (operationID, revision) else None)
         | Some t \<Rightarrow>
             if operationID \<noteq> [] \<and> tsDeletionOperationID t \<noteq> operationID then Inl ErrForwardDeleteConflict
             else if tsDesiredRevision t \<noteq> 0 \<and> revision \<noteq> 0 \<and> tsDesiredRevision t \<noteq> revision
               then Inl ErrForwardDeleteConflict
             else let revision = (if tsDesiredRevision t \<noteq> 0 then tsDesiredRevision t else revision)
               in Inr (if tsDeletionOperationID t \<noteq> [] then Some (tsDeletionOperationID t, revision) else None))"

definition fencedAbsentSpec :: "ForwardSpec \<Rightarrow> string \<Rightarrow> u64 \<Rightarrow> ForwardSpec" where
  "fencedAbsentSpec spec operationID revision =
     (let spec = spec\<lparr>fsPresence := PresenceAbsent, fsDeletionOperationID := operationID\<rparr>
      in if revision \<noteq> 0 then spec\<lparr>fsDesiredRevision := revision\<rparr> else spec)"

definition put_spec :: "merge_state \<Rightarrow> ForwardSpec \<Rightarrow> merge_state" where
  "put_spec m spec =
     (case map_of (snd m) (fsForwardID spec) of Some at \<Rightarrow> replace_spec m at spec | None \<Rightarrow> append_spec m spec)"

definition merge_fenced ::
  "merge_state \<Rightarrow> ForwardSpec \<Rightarrow> string \<Rightarrow> u64 \<Rightarrow> store_error + merge_state" where
  "merge_fenced m incomingSpec operationID revision =
     (let mismatch = (\<lambda>spec. fsDeletionOperationID spec \<noteq> operationID \<or>
            (revision \<noteq> 0 \<and> fsDesiredRevision spec \<noteq> revision))
      in if fsPresence incomingSpec = PresenceAbsent then
           (if mismatch incomingSpec then Inl ErrForwardDeleteConflict else Inr (put_spec m incomingSpec))
         else case map_of (snd m) (fsForwardID incomingSpec) of
           Some at \<Rightarrow>
             if fsPresence (fst m ! at) = PresenceAbsent then
               (if mismatch (fst m ! at) then Inl ErrForwardDeleteConflict else Inr m)
             else Inr (put_spec m (fencedAbsentSpec incomingSpec operationID revision))
         | None \<Rightarrow> Inr (put_spec m (fencedAbsentSpec incomingSpec operationID revision)))"

definition merge_step :: "'tx bolt \<Rightarrow> 'tx \<Rightarrow> merge_state \<Rightarrow> ForwardSpec \<Rightarrow> store_error + merge_state" where
  "merge_step B tx m incomingSpec =
     andThen (loadForwardDeleteIntentTx B tx (fsForwardID incomingSpec)) (\<lambda>intent.
     andThen (loadForwardTombstoneTx B tx (fsForwardID incomingSpec)) (\<lambda>tombstone.
     andThen (deleteFenceIdentity intent tombstone) (\<lambda>fence.
     case fence of
       Some (operationID, revision) \<Rightarrow> merge_fenced m incomingSpec operationID revision
     | None \<Rightarrow> merge_by_revision m incomingSpec)))"

definition mergeReceivedDesiredWithDeleteFences ::
  "'tx bolt \<Rightarrow> 'tx \<Rightarrow> DesiredState \<Rightarrow> DesiredState \<Rightarrow> store_error + DesiredState" where
  "mergeReceivedDesiredWithDeleteFences B tx current incoming =
     (if dsNodeID current \<noteq> dsNodeID incoming then Inl ErrRequest
      else case DesiredState_Validate current of
        Inl e \<Rightarrow> Inl (ErrDomain e)
      | Inr _ \<Rightarrow>
          andThen (foldE (merge_step B tx) (dsForwards current, initial_index (dsForwards current)) (dsForwards incoming))
            (\<lambda>m. Inr (current\<lparr>dsForwards := fst m\<rparr>)))"

definition mergeReceivedDesiredTx :: "'tx bolt \<Rightarrow> 'tx \<Rightarrow> DesiredState \<Rightarrow> store_error + DesiredState" where
  "mergeReceivedDesiredTx B tx incoming =
     andThen (loadReceivedDesiredTx B tx) (\<lambda>found.
     case found of
       None \<Rightarrow> mergeReceivedDesiredWithDeleteFences B tx \<lparr>dsNodeID = dsNodeID incoming, dsForwards = []\<rparr> incoming
     | Some current \<Rightarrow> mergeReceivedDesiredWithDeleteFences B tx current incoming)"

definition SaveReceivedDesired :: "'tx bolt \<Rightarrow> DesiredState \<Rightarrow> 'tx \<Rightarrow> store_error + 'tx" where
  "SaveReceivedDesired B d tx =
     (case DesiredState_Validate d of
        Inl e \<Rightarrow> Inl (ErrDomain e)
      | Inr _ \<Rightarrow>
          andThen (mergeReceivedDesiredTx B tx d) (\<lambda>merged.
          Put B tx bucketDesired (dsNodeID merged) (RDesired merged)))"

definition LoadReceivedDesired :: "'tx bolt \<Rightarrow> 'tx \<Rightarrow> store_error + DesiredState option" where
  "LoadReceivedDesired B tx = loadReceivedDesiredTx B tx"

section \<open>Committing a desired snapshot\<close>

datatype ApplyOutcome = ApplyApplied | ApplyFailed | ApplyDeleted | ApplySkipped | ApplyOther int

record ForwardApply =
  foForwardID :: string
  foOutcome :: ApplyOutcome
  foApplied :: "AppliedForwardState option"
  foErr :: bool

datatype ApplyStatus = ApplyStatusFull | ApplyStatusPartial | ApplyStatusFailed

record ApplyReport =
  reStatus :: ApplyStatus
  reAppliedCount :: nat
  reDeletedCount :: nat
  reFailedCount :: nat
  reFailedForwards :: "string list"

text \<open>\<open>specs[f.ForwardID] = f\<close> over a slice: a later entry of the same id replaces an earlier one.\<close>

definition spec_map :: "ForwardSpec list \<Rightarrow> string \<Rightarrow> ForwardSpec option" where
  "spec_map fs = map_of (map (\<lambda>f. (fsForwardID f, f)) (rev fs))"

definition check_outcome ::
  "(string \<Rightarrow> ForwardSpec option) \<Rightarrow> string list \<Rightarrow> ForwardApply \<Rightarrow> store_error + string list" where
  "check_outcome specs seen o' =
     (case specs (foForwardID o') of
        None \<Rightarrow> Inl ErrRequest
      | Some spec \<Rightarrow>
          if foForwardID o' \<in> set seen then Inl ErrRequest
          else let seen = foForwardID o' # seen
            in case foOutcome o' of
                 ApplyApplied \<Rightarrow>
                   (case foApplied o' of
                      None \<Rightarrow> Inl ErrRequest
                    | Some a \<Rightarrow>
                        (case AppliedForwardState_Validate a of
                           Inl e \<Rightarrow> Inl (ErrDomain e)
                         | Inr _ \<Rightarrow>
                             if afForwardID a \<noteq> foForwardID o' then Inl ErrRequest
                             else if afSpecRevision a \<noteq> fsDesiredRevision spec \<or> afDesiredRevision a < afSpecRevision a
                               then Inl ErrRequest
                             else if fsPresence spec \<noteq> PresencePresent then Inl ErrRequest
                             else andThen (validateAppliedRecord (foForwardID o') a spec True) (\<lambda>_. Inr seen)))
               | ApplyDeleted \<Rightarrow>
                   if fsPresence spec \<noteq> PresenceAbsent \<or> fsDeletionOperationID spec = [] then Inl ErrRequest else Inr seen
               | ApplyFailed \<Rightarrow> Inr seen
               | ApplySkipped \<Rightarrow> Inr seen
               | ApplyOther n \<Rightarrow> Inl ErrRequest)"

definition commit_applied ::
  "'tx bolt \<Rightarrow> ForwardSpec \<Rightarrow> AppliedForwardState \<Rightarrow> string \<Rightarrow> 'tx \<Rightarrow> store_error + 'tx" where
  "commit_applied B spec candidate forwardID tx =
     (if bget B tx bucketTombstones forwardID \<noteq> None then Inl ErrTombstonedForward
      else andThen (loadAppliedRecordTx B tx forwardID) (\<lambda>existing.
        let conflict = (case existing of
              None \<Rightarrow> False
            | Some r \<Rightarrow>
                afSpecRevision candidate < afSpecRevision (asState r) \<or>
                (afSpecRevision candidate = afSpecRevision (asState r) \<and>
                 (\<not> asHasServingSpec r \<or> \<not> equivalentAppliedState candidate (asState r) \<or> asServingSpec r \<noteq> spec)))
        in if conflict then Inl ErrAppliedRevisionConflict
           else Put B tx bucketApplied forwardID (encodeAppliedRecord candidate spec)))"

definition commit_deleted :: "'tx bolt \<Rightarrow> int \<Rightarrow> ForwardSpec \<Rightarrow> string \<Rightarrow> 'tx \<Rightarrow> store_error + 'tx" where
  "commit_deleted B now spec forwardID tx =
     andThen (loadForwardDeleteIntentTx B tx forwardID) (\<lambda>found.
     if (case found of
           None \<Rightarrow> False
         | Some existing \<Rightarrow> fiDeletionOperationID existing \<noteq> fsDeletionOperationID spec \<or>
             fiDesiredRevision existing \<noteq> fsDesiredRevision spec)
     then Inl ErrForwardDeleteConflict
     else andThen (Put B tx bucketTombstones forwardID
            (RTombstone \<lparr>tsForwardID = forwardID, tsDeletionOperationID = fsDeletionOperationID spec,
              tsDesiredRevision = fsDesiredRevision spec, tsCreatedAtUnix = now\<rparr>)) (\<lambda>tx.
          Inr (bdelete B (bdelete B tx bucketApplied forwardID) bucketActivation forwardID)))"

definition commit_outcome ::
  "'tx bolt \<Rightarrow> int \<Rightarrow> (string \<Rightarrow> ForwardSpec option) \<Rightarrow> (string \<Rightarrow> ForwardSpec option) \<Rightarrow>
   ApplyReport \<times> 'tx \<Rightarrow> ForwardApply \<Rightarrow> store_error + ApplyReport \<times> 'tx" where
  "commit_outcome B now specs mergedSpecs acc o' =
     (let (report, tx) = acc; fid = foForwardID o';
          spec = (case specs fid of Some s \<Rightarrow> s | None \<Rightarrow> zeroForwardSpec)
      in andThen (if foOutcome o' = ApplyApplied then
                    andThen (loadForwardDeleteFenceTx B tx fid) (\<lambda>(pending, tombstoned).
                    if pending \<noteq> None \<or> tombstoned \<noteq> None then Inl ErrTombstonedForward else Inr ())
                  else Inr ()) (\<lambda>_.
         if mergedSpecs fid \<noteq> Some spec then
           (if foOutcome o' = ApplySkipped then Inr (report, tx) else Inl ErrDesiredRevisionConflict)
         else case foOutcome o' of
           ApplyApplied \<Rightarrow>
             (case foApplied o' of
                None \<Rightarrow> Inl ErrRequest
              | Some candidate \<Rightarrow>
                  andThen (commit_applied B spec candidate fid tx) (\<lambda>tx.
                  Inr (report\<lparr>reAppliedCount := Suc (reAppliedCount report)\<rparr>, tx)))
         | ApplyDeleted \<Rightarrow>
             andThen (commit_deleted B now spec fid tx) (\<lambda>tx.
             Inr (report\<lparr>reDeletedCount := Suc (reDeletedCount report)\<rparr>, tx))
         | ApplyFailed \<Rightarrow>
             Inr (report\<lparr>reFailedForwards := (if foErr o' then reFailedForwards report @ [fid] else reFailedForwards report),
                         reFailedCount := Suc (reFailedCount report)\<rparr>, tx)
         | ApplySkipped \<Rightarrow> Inr (report, tx)
         | ApplyOther n \<Rightarrow> Inr (report, tx)))"

definition emptyReport :: ApplyReport where
  "emptyReport = \<lparr>reStatus = ApplyStatusFull, reAppliedCount = 0, reDeletedCount = 0, reFailedCount = 0,
     reFailedForwards = []\<rparr>"

definition report_status :: "ApplyReport \<Rightarrow> ApplyStatus" where
  "report_status r =
     (if reFailedCount r = 0 then ApplyStatusFull
      else if reAppliedCount r + reDeletedCount r > 0 then ApplyStatusPartial
      else ApplyStatusFailed)"

definition CommitDesired ::
  "'tx bolt \<Rightarrow> int \<Rightarrow> DesiredState \<Rightarrow> ForwardApply list \<Rightarrow> 'tx \<Rightarrow> store_error + ApplyReport \<times> 'tx" where
  "CommitDesired B now d outcomes tx =
     (case DesiredState_Validate d of
        Inl e \<Rightarrow> Inl (ErrDomain e)
      | Inr _ \<Rightarrow>
        let specs = spec_map (dsForwards d)
        in if length outcomes \<noteq> length (dsForwards d) then Inl ErrRequest
           else andThen (foldE (check_outcome specs) [] outcomes) (\<lambda>_.
                andThen (validateAppliedBucketTx B tx) (\<lambda>_.
                andThen (mergeReceivedDesiredTx B tx d) (\<lambda>mergedDesired.
                andThen (Put B tx bucketDesired (dsNodeID mergedDesired) (RDesired mergedDesired)) (\<lambda>tx.
                andThen (foldE (commit_outcome B now specs (spec_map (dsForwards mergedDesired))) (emptyReport, tx) outcomes)
                  (\<lambda>(report, tx). Inr (report\<lparr>reStatus := report_status report\<rparr>, tx)))))))"

section \<open>Mapping journal references\<close>

definition EvacuateJournalRecords :: "'tx bolt \<Rightarrow> string list \<Rightarrow> 'tx \<Rightarrow> store_error + 'tx" where
  "EvacuateJournalRecords B ids tx =
     Inr (foldl (\<lambda>tx i. if i = [] then tx else bdelete B tx bucketMapping i) tx ids)"

definition RefreshAppliedJournalRef :: "'tx bolt \<Rightarrow> string \<Rightarrow> string \<Rightarrow> 'tx \<Rightarrow> store_error + bool \<times> 'tx" where
  "RefreshAppliedJournalRef B forwardID journalRef tx =
     (if forwardID = [] then Inl ErrRequest
      else case bget B tx bucketApplied forwardID of
        None \<Rightarrow> Inr (False, tx)
      | Some raw \<Rightarrow>
          andThen (decodeAppliedRecord raw) (\<lambda>(state, spec, hasSpec).
          if afForwardID state = [] \<or> \<not> hasSpec then Inr (False, tx)
          else if afMappingJournalRef state = journalRef then Inr (False, tx)
          else andThen (Put B tx bucketApplied forwardID
                 (encodeAppliedRecord (state\<lparr>afMappingJournalRef := journalRef\<rparr>) spec)) (\<lambda>tx'. Inr (True, tx'))))"

definition evictAppliedStatesTx :: "'tx bolt \<Rightarrow> string list \<Rightarrow> 'tx \<Rightarrow> 'tx" where
  "evictAppliedStatesTx B forwardIDs tx =
     foldl (\<lambda>tx i. bdelete B (bdelete B tx bucketApplied i) bucketActivation i) tx forwardIDs"

end
