(* ===== verification/Agent_Merge_Spec.thy ===== *)
theory Agent_Merge_Spec
  imports Agent_Applied
begin

text \<open>
  The specification of the fence-aware merge of desired snapshots (\<open>mergeReceivedDesiredTx\<close> in
  \<open>applied.go\<close>): the indexed slice it builds is a map from Forward ids to entries, and the loop puts,
  for each incoming Forward, the entry a decision picks from the Forward's deletion fence, its stored
  entry and its incoming entry.
\<close>

section \<open>The merged slice and its index\<close>

definition indexed :: "merge_state \<Rightarrow> bool" where
  "indexed m \<longleftrightarrow> (\<forall>f i. map_of (snd m) f = Some i \<longleftrightarrow> i < length (fst m) \<and> fsForwardID (fst m ! i) = f)"

lemma indexed_distinct: "indexed m \<Longrightarrow> distinct (map fsForwardID (fst m))"
  unfolding indexed_def distinct_conv_nth by (metis length_map nth_map option.inject)

lemma spec_map_Some:
  assumes "distinct (map fsForwardID fs)"
  shows "spec_map fs f = Some s \<longleftrightarrow> s \<in> set fs \<and> fsForwardID s = f"
proof -
  have "distinct (map fst (map (\<lambda>f. (fsForwardID f, f)) (rev fs)))"
    using assms by (simp add: comp_def rev_map [symmetric])
  then show ?thesis by (auto simp: spec_map_def)
qed

lemma spec_map_None: "spec_map fs f = None \<longleftrightarrow> f \<notin> fsForwardID ` set fs"
  by (auto simp: spec_map_def map_of_eq_None_iff image_comp comp_def)

lemma spec_map_Nil [simp]: "spec_map [] = Map.empty"
  by (simp add: spec_map_def)

lemma spec_map_snoc [simp]: "spec_map (fs @ [s]) = (spec_map fs)(fsForwardID s \<mapsto> s)"
  by (simp add: spec_map_def)

lemma indexed_None:
  assumes "indexed m"
  shows "map_of (snd m) f = None \<longleftrightarrow> f \<notin> fsForwardID ` set (fst m)"
proof -
  have "map_of (snd m) f \<noteq> None \<longleftrightarrow> (\<exists>i < length (fst m). fsForwardID (fst m ! i) = f)"
    using assms unfolding indexed_def by (metis not_None_eq)
  also have "\<dots> \<longleftrightarrow> f \<in> fsForwardID ` set (fst m)" by (metis (no_types, lifting) image_iff in_set_conv_nth)
  finally show ?thesis by blast
qed

lemma indexed_lookup:
  assumes "indexed m"
  shows "spec_map (fst m) f = map_option (\<lambda>i. fst m ! i) (map_of (snd m) f)"
proof (cases "map_of (snd m) f")
  case None
  then have "f \<notin> fsForwardID ` set (fst m)"
    using indexed_None [OF assms] by simp
  with None show ?thesis by (simp add: spec_map_None)
next
  case (Some i)
  then have "i < length (fst m)" "fsForwardID (fst m ! i) = f" using assms by (auto simp: indexed_def)
  with Some show ?thesis by (simp add: spec_map_Some [OF indexed_distinct [OF assms]])
qed

lemma indexed_append:
  assumes "indexed m" and "map_of (snd m) (fsForwardID s) = None"
  shows "indexed (append_spec m s)"
proof -
  have "i < length (fst m) \<Longrightarrow> fsForwardID (fst m ! i) \<noteq> fsForwardID s" for i
    using indexed_None [OF assms(1), of "fsForwardID s"] assms(2) by (metis image_eqI nth_mem)
  with assms show ?thesis
    by (auto simp: indexed_def append_spec_def nth_append less_Suc_eq)
qed

lemma indexed_replace:
  assumes "indexed m" and "map_of (snd m) (fsForwardID s) = Some i"
  shows "indexed (replace_spec m i s)"
  using assms by (auto simp: indexed_def replace_spec_def nth_list_update split: if_splits)

lemma indexed_put: "indexed m \<Longrightarrow> indexed (put_spec m s)"
  by (auto simp: put_spec_def indexed_append indexed_replace split: option.splits)

lemma lookup_append: "spec_map (fst (append_spec m s)) = (spec_map (fst m))(fsForwardID s \<mapsto> s)"
  by (simp add: append_spec_def)

lemma lookup_replace:
  assumes "indexed m" and "map_of (snd m) (fsForwardID s) = Some i"
  shows "spec_map (fst (replace_spec m i s)) = (spec_map (fst m))(fsForwardID s \<mapsto> s)"
proof
  fix f
  have i: "i < length (fst m)" "fsForwardID (fst m ! i) = fsForwardID s"
    using assms by (auto simp: indexed_def)
  have "map_of (snd m) f = Some j \<Longrightarrow> f \<noteq> fsForwardID s \<Longrightarrow> j \<noteq> i" for j
    using assms(1) i by (auto simp: indexed_def)
  then show "spec_map (fst (replace_spec m i s)) f = ((spec_map (fst m))(fsForwardID s \<mapsto> s)) f"
    using i assms(2) unfolding indexed_lookup [OF indexed_replace [OF assms]] indexed_lookup [OF assms(1)]
    by (cases "map_of (snd m) f") (auto simp: replace_spec_def)
qed

lemma lookup_put: "indexed m \<Longrightarrow> spec_map (fst (put_spec m s)) = (spec_map (fst m))(fsForwardID s \<mapsto> s)"
  by (simp add: put_spec_def lookup_append lookup_replace split: option.splits)

lemma initial_index_snoc:
  "initial_index (fs @ [s]) = AList.update (fsForwardID s) (length fs) (initial_index fs)"
  by (simp add: initial_index_def)

lemma initial_indexed: "distinct (map fsForwardID fs) \<Longrightarrow> indexed (fs, initial_index fs)"
proof (induction fs rule: rev_induct)
  case Nil
  then show ?case by (simp add: indexed_def initial_index_def)
next
  case (snoc s fs)
  then have ih: "indexed (fs, initial_index fs)" by simp
  have "map_of (initial_index fs) (fsForwardID s) = None"
    using snoc.prems indexed_None [OF ih] by simp
  with indexed_append [OF ih, of s] show ?case
    by (simp add: append_spec_def initial_index_snoc)
qed

section \<open>The merge, one Forward at a time\<close>

text \<open>
  The specification: what becomes of one Forward, given the deletion identity that fences it, the
  stored entry and the incoming one.
\<close>

definition fence_match :: "string \<times> u64 \<Rightarrow> ForwardSpec \<Rightarrow> bool" where
  "fence_match d s \<longleftrightarrow> fsDeletionOperationID s = fst d \<and> (snd d = 0 \<or> fsDesiredRevision s = snd d)"

fun merge_decision ::
  "(string \<times> u64) option \<Rightarrow> ForwardSpec option \<Rightarrow> ForwardSpec \<Rightarrow> store_error + ForwardSpec" where
  "merge_decision None None new = Inr new"
| "merge_decision None (Some old) new =
     (if fsDesiredRevision old < fsDesiredRevision new then Inr new
      else if fsDesiredRevision new < fsDesiredRevision old \<or> new = old then Inr old
      else Inl ErrDesiredRevisionConflict)"
| "merge_decision (Some d) old new =
     (if fsPresence new = PresenceAbsent then
        (if fence_match d new then Inr new else Inl ErrForwardDeleteConflict)
      else case old of
        Some s \<Rightarrow>
          if fsPresence s = PresenceAbsent then (if fence_match d s then Inr s else Inl ErrForwardDeleteConflict)
          else Inr (fencedAbsentSpec new (fst d) (snd d))
      | None \<Rightarrow> Inr (fencedAbsentSpec new (fst d) (snd d)))"

definition fence_of :: "'tx bolt \<Rightarrow> 'tx \<Rightarrow> string \<Rightarrow> store_error + (string \<times> u64) option" where
  "fence_of B tx f =
     andThen (loadForwardDeleteFenceTx B tx f) (\<lambda>(intent, tombstone). deleteFenceIdentity intent tombstone)"

lemma fencedAbsent_id [simp]: "fsForwardID (fencedAbsentSpec s d r) = fsForwardID s"
  by (simp add: fencedAbsentSpec_def Let_def)

lemma put_self:
  assumes "map_of (snd m) f = Some i" and "fsForwardID (fst m ! i) = f"
  shows "put_spec m (fst m ! i) = m"
  using assms by (simp add: put_spec_def replace_spec_def)

text \<open>Both merge loops put the decided entry.\<close>

lemma merge_by_revision_eq:
  assumes "indexed m"
  shows "merge_by_revision m new =
    andThen (merge_decision None (spec_map (fst m) (fsForwardID new)) new) (\<lambda>s. Inr (put_spec m s))"
proof (cases "map_of (snd m) (fsForwardID new)")
  case None
  then show ?thesis by (simp add: merge_by_revision_def indexed_lookup [OF assms] put_spec_def)
next
  case (Some i)
  then have "put_spec m (fst m ! i) = m" using assms by (intro put_self) (auto simp: indexed_def)
  with Some show ?thesis
    by (auto simp: merge_by_revision_def Let_def indexed_lookup [OF assms]) (simp add: put_spec_def)
qed

lemma merge_fenced_eq:
  assumes "indexed m"
  shows "merge_fenced m new op r =
    andThen (merge_decision (Some (op, r)) (spec_map (fst m) (fsForwardID new)) new) (\<lambda>s. Inr (put_spec m s))"
proof (cases "map_of (snd m) (fsForwardID new)")
  case None
  then show ?thesis by (auto simp: merge_fenced_def Let_def fence_match_def indexed_lookup [OF assms])
next
  case (Some i)
  then have "put_spec m (fst m ! i) = m" using assms by (intro put_self) (auto simp: indexed_def)
  with Some show ?thesis
    by (auto simp: merge_fenced_def Let_def fence_match_def indexed_lookup [OF assms])
qed

text \<open>The fate of one Forward and, from it, the fate of the whole snapshot.\<close>

definition decide :: "'tx bolt \<Rightarrow> 'tx \<Rightarrow> ForwardSpec option \<Rightarrow> ForwardSpec \<Rightarrow> store_error + ForwardSpec" where
  "decide B tx old new = andThen (fence_of B tx (fsForwardID new)) (\<lambda>d. merge_decision d old new)"

lemma merge_step_eq:
  assumes "indexed m"
  shows "merge_step B tx m new =
    andThen (decide B tx (spec_map (fst m) (fsForwardID new)) new) (\<lambda>s. Inr (put_spec m s))"
proof (cases "fence_of B tx (fsForwardID new)")
  case (Inl e)
  then show ?thesis
    by (auto simp: merge_step_def decide_def fence_of_def loadForwardDeleteFenceTx_def andThen_Inl)
next
  case (Inr d)
  then have "merge_step B tx m new =
      (case d of Some (op, r) \<Rightarrow> merge_fenced m new op r | None \<Rightarrow> merge_by_revision m new)"
    by (auto simp: merge_step_def fence_of_def loadForwardDeleteFenceTx_def)
  with Inr show ?thesis
    by (cases d) (auto simp: decide_def merge_by_revision_eq [OF assms] merge_fenced_eq [OF assms])
qed

lemma decision_id:
  "merge_decision d old new = Inr s \<Longrightarrow> \<forall>o'. old = Some o' \<longrightarrow> fsForwardID o' = fsForwardID new \<Longrightarrow>
   fsForwardID s = fsForwardID new"
  by (cases "(d, old, new)" rule: merge_decision.cases) (auto split: if_splits option.splits)

lemma decide_id:
  assumes "decide B tx (spec_map fs (fsForwardID new)) new = Inr s" and "distinct (map fsForwardID fs)"
  shows "fsForwardID s = fsForwardID new"
  using assms decision_id by (fastforce simp: decide_def spec_map_Some)

lemma merge_fold:
  assumes "indexed m" and "distinct (map fsForwardID incoming)" and "foldE (merge_step B tx) m incoming = Inr m'"
  shows "indexed m' \<and> (\<forall>f. f \<notin> fsForwardID ` set incoming \<longrightarrow> spec_map (fst m') f = spec_map (fst m) f) \<and>
    (\<forall>new \<in> set incoming. \<exists>s. decide B tx (spec_map (fst m) (fsForwardID new)) new = Inr s \<and>
       spec_map (fst m') (fsForwardID new) = Some s)"
  using assms
proof (induction incoming arbitrary: m)
  case (Cons new incoming)
  from Cons.prems(1,3) obtain s where s: "decide B tx (spec_map (fst m) (fsForwardID new)) new = Inr s"
    and rest: "foldE (merge_step B tx) (put_spec m s) incoming = Inr m'"
    by (auto simp: merge_step_eq)
  have view: "spec_map (fst (put_spec m s)) = (spec_map (fst m))(fsForwardID new \<mapsto> s)"
    using lookup_put [OF Cons.prems(1)] decide_id [OF s indexed_distinct [OF Cons.prems(1)]] by simp
  have fresh: "fsForwardID new \<notin> fsForwardID ` set incoming" and d: "distinct (map fsForwardID incoming)"
    using Cons.prems(2) by auto
  then have same: "spec_map (fst (put_spec m s)) (fsForwardID x) = spec_map (fst m) (fsForwardID x)"
    if "x \<in> set incoming" for x
    using that view by (metis fun_upd_apply image_eqI)
  note ih = Cons.IH [OF indexed_put [OF Cons.prems(1)] d rest]
  then have "spec_map (fst m') (fsForwardID new) = Some s" using fresh view by simp
  moreover have "spec_map (fst m') f = spec_map (fst m) f" if "f \<notin> fsForwardID ` set (new # incoming)" for f
    using ih that view by simp
  ultimately show ?case using ih s same by simp
qed simp

lemma merge_fold_total:
  assumes "indexed m" and "distinct (map fsForwardID incoming)"
    and "\<forall>new \<in> set incoming. \<exists>s. decide B tx (spec_map (fst m) (fsForwardID new)) new = Inr s"
  shows "\<exists>m'. foldE (merge_step B tx) m incoming = Inr m'"
  using assms
proof (induction incoming arbitrary: m)
  case (Cons new incoming)
  then obtain s where s: "decide B tx (spec_map (fst m) (fsForwardID new)) new = Inr s" by auto
  have view: "spec_map (fst (put_spec m s)) = (spec_map (fst m))(fsForwardID new \<mapsto> s)"
    using lookup_put [OF Cons.prems(1)] decide_id [OF s indexed_distinct [OF Cons.prems(1)]] by simp
  have "\<exists>m'. foldE (merge_step B tx) (put_spec m s) incoming = Inr m'"
    using Cons.prems by (intro Cons.IH) (auto simp: view indexed_put rev_image_eqI)
  with s Cons.prems(1) show ?case by (simp add: merge_step_eq)
qed simp

section \<open>The stored snapshot\<close>

lemma load_row_Inr [simp]:
  "load_received_row B tx found key = Inr r \<longleftrightarrow>
     found = None \<and> (\<exists>d. r = Some d \<and> bget B tx bucketDesired key = Some (RDesired d) \<and>
       DesiredState_Validate d = Inr () \<and> key = dsNodeID d)"
  by (auto simp: load_received_row_def split: option.splits row.splits)

lemma load_rows_Some: "foldE (load_received_row B tx) (Some d) keys = Inr r \<longleftrightarrow> keys = [] \<and> r = Some d"
  by (cases keys) auto

lemma loadReceived_None: "loadReceivedDesiredTx B tx = Inr None \<longleftrightarrow> bkeys B tx bucketDesired = []"
  by (cases "bkeys B tx bucketDesired") (auto simp: loadReceivedDesiredTx_def load_rows_Some)

lemma loadReceived_Some:
  "loadReceivedDesiredTx B tx = Inr (Some d) \<longleftrightarrow>
     bkeys B tx bucketDesired = [dsNodeID d] \<and> bget B tx bucketDesired (dsNodeID d) = Some (RDesired d) \<and>
     DesiredState_Validate d = Inr ()"
  by (cases "bkeys B tx bucketDesired") (auto simp: loadReceivedDesiredTx_def load_rows_Some)

lemma valid_desired:
  "DesiredState_Validate d = Inr () \<longleftrightarrow>
     dsNodeID d \<noteq> [] \<and> (\<forall>f \<in> set (dsForwards d). ForwardSpec_Validate f = Inr ()) \<and>
     distinct (map fsForwardID (dsForwards d))"
  by (simp add: DesiredState_Validate_def validate_forwards_Inr)

lemma fence_of_owner:
  assumes "fence_of B tx f = Inr d"
  shows "(d = None \<longleftrightarrow> \<not> fenced B tx f) \<and> map_option fst d = fence_owner B tx f \<and> (\<forall>p. d = Some p \<longrightarrow> fst p \<noteq> [])"
proof -
  from assms obtain i t where i: "loadForwardDeleteIntentTx B tx f = Inr i"
    and t: "loadForwardTombstoneTx B tx f = Inr t" and d: "deleteFenceIdentity i t = Inr d"
    by (auto simp: fence_of_def loadForwardDeleteFenceTx_def)
  show ?thesis
    using i t d
    by (cases i; cases t)
      (auto simp: loadIntent_Inr loadTombstone_Inr deleteFenceIdentity_def fenced_def fence_owner_def Let_def
        split: if_splits)
qed

lemma fenced_absent_valid:
  "ForwardSpec_Validate s = Inr () \<Longrightarrow> d \<noteq> [] \<Longrightarrow> ForwardSpec_Validate (fencedAbsentSpec s d r) = Inr ()"
  by (auto simp: ForwardSpec_Validate_def fencedAbsentSpec_def Let_def Presence_Valid_def PresenceAbsent_def
      PresencePresent_def split: if_splits)

lemma decide_valid:
  assumes "decide B tx old new = Inr s" and "ForwardSpec_Validate new = Inr ()"
    and "\<forall>o'. old = Some o' \<longrightarrow> ForwardSpec_Validate o' = Inr ()"
  shows "ForwardSpec_Validate s = Inr ()"
proof -
  from assms(1) obtain d where d: "fence_of B tx (fsForwardID new) = Inr d" and s: "merge_decision d old new = Inr s"
    by (auto simp: decide_def)
  show ?thesis
    using s assms(2,3) fence_of_owner [OF d]
    by (cases "(d, old, new)" rule: merge_decision.cases)
      (auto split: if_splits option.splits intro: fenced_absent_valid)
qed

lemma decide_fenced:
  assumes "decide B tx old new = Inr s" and "fenced B tx (fsForwardID new)"
  shows "fsPresence s = PresenceAbsent \<and> Some (fsDeletionOperationID s) = fence_owner B tx (fsForwardID new)"
proof -
  from assms(1) obtain d where d: "fence_of B tx (fsForwardID new) = Inr d" and s: "merge_decision d old new = Inr s"
    by (auto simp: decide_def)
  then obtain p where p: "d = Some p" "fence_owner B tx (fsForwardID new) = Some (fst p)"
    using fence_of_owner [OF d] assms(2) by auto
  with s show ?thesis
    by (auto simp: fence_match_def fencedAbsentSpec_def Let_def split: if_splits option.splits)
qed

lemma decide_unfenced:
  assumes "decide B tx old new = Inr s" and "\<not> fenced B tx (fsForwardID new)"
  shows "(s = new \<or> Some s = old) \<and> fsDesiredRevision new \<le> fsDesiredRevision s \<and>
    (\<forall>o'. old = Some o' \<longrightarrow> fsDesiredRevision o' \<le> fsDesiredRevision s)"
proof -
  from assms(1) obtain d where d: "fence_of B tx (fsForwardID new) = Inr d" and s: "merge_decision d old new = Inr s"
    by (auto simp: decide_def)
  have "d = None" using fence_of_owner [OF d] assms(2) by simp
  with s show ?thesis by (cases old) (auto split: if_splits)
qed

text \<open>The entries stored for the node, by Forward id.\<close>

definition received_view :: "'tx bolt \<Rightarrow> 'tx \<Rightarrow> string \<Rightarrow> ForwardSpec option" where
  "received_view B tx f =
     (case loadReceivedDesiredTx B tx of Inr (Some d) \<Rightarrow> spec_map (dsForwards d) f | _ \<Rightarrow> None)"

lemma merge_fences_view:
  assumes "distinct (map fsForwardID (dsForwards current))" and "distinct (map fsForwardID (dsForwards incoming))"
    and "mergeReceivedDesiredWithDeleteFences B tx current incoming = Inr merged"
  shows "dsNodeID merged = dsNodeID incoming \<and> distinct (map fsForwardID (dsForwards merged)) \<and>
    (\<forall>f. f \<notin> fsForwardID ` set (dsForwards incoming) \<longrightarrow> spec_map (dsForwards merged) f = spec_map (dsForwards current) f) \<and>
    (\<forall>new \<in> set (dsForwards incoming). \<exists>s. decide B tx (spec_map (dsForwards current) (fsForwardID new)) new = Inr s \<and>
       spec_map (dsForwards merged) (fsForwardID new) = Some s)"
proof -
  from assms(3) obtain m where
    m: "foldE (merge_step B tx) (dsForwards current, initial_index (dsForwards current)) (dsForwards incoming) = Inr m"
    and [simp]: "merged = current\<lparr>dsForwards := fst m\<rparr>" "dsNodeID current = dsNodeID incoming"
    by (auto simp: mergeReceivedDesiredWithDeleteFences_def)
  from merge_fold [OF initial_indexed [OF assms(1)] assms(2) m] show ?thesis
    by (auto dest: indexed_distinct)
qed

lemma merge_received_view:
  assumes "DesiredState_Validate incoming = Inr ()" and "mergeReceivedDesiredTx B tx incoming = Inr merged"
  shows "dsNodeID merged = dsNodeID incoming \<and> distinct (map fsForwardID (dsForwards merged)) \<and>
    (\<forall>f. f \<notin> fsForwardID ` set (dsForwards incoming) \<longrightarrow> spec_map (dsForwards merged) f = received_view B tx f) \<and>
    (\<forall>new \<in> set (dsForwards incoming). \<exists>s. decide B tx (received_view B tx (fsForwardID new)) new = Inr s \<and>
       spec_map (dsForwards merged) (fsForwardID new) = Some s)"
proof -
  have d: "distinct (map fsForwardID (dsForwards incoming))" using assms(1) by (simp add: valid_desired)
  from assms(2) obtain found where load: "loadReceivedDesiredTx B tx = Inr found" by (auto simp: mergeReceivedDesiredTx_def)
  show ?thesis
  proof (cases found)
    case None
    with load assms(2) have merge: "mergeReceivedDesiredWithDeleteFences B tx
        \<lparr>dsNodeID = dsNodeID incoming, dsForwards = []\<rparr> incoming = Inr merged"
      by (simp add: mergeReceivedDesiredTx_def)
    have "received_view B tx = Map.empty" using load None by (auto simp: received_view_def)
    with merge_fences_view [OF _ d merge] show ?thesis by simp
  next
    case (Some current)
    with load assms(2) have merge: "mergeReceivedDesiredWithDeleteFences B tx current incoming = Inr merged"
      by (simp add: mergeReceivedDesiredTx_def)
    have "distinct (map fsForwardID (dsForwards current))" using load Some by (simp add: loadReceived_Some valid_desired)
    moreover have "received_view B tx = spec_map (dsForwards current)" using load Some by (auto simp: received_view_def)
    ultimately show ?thesis using merge_fences_view [OF _ d merge] by simp
  qed
qed

lemma received_valid: "received_view B tx f = Some s \<Longrightarrow> ForwardSpec_Validate s = Inr () \<and> fsForwardID s = f"
  by (auto simp: received_view_def loadReceived_Some valid_desired spec_map_Some split: sum.splits option.splits)

lemma merge_received_valid:
  assumes "DesiredState_Validate incoming = Inr ()" and "mergeReceivedDesiredTx B tx incoming = Inr merged"
  shows "DesiredState_Validate merged = Inr ()"
proof -
  note view = merge_received_view [OF assms]
  from view have d: "distinct (map fsForwardID (dsForwards merged))" and node: "dsNodeID merged = dsNodeID incoming"
    by blast+
  have "ForwardSpec_Validate s = Inr ()" if s: "s \<in> set (dsForwards merged)" for s
  proof -
    have at: "spec_map (dsForwards merged) (fsForwardID s) = Some s" using d s by (simp add: spec_map_Some)
    show ?thesis
    proof (cases "fsForwardID s \<in> fsForwardID ` set (dsForwards incoming)")
      case True
      then obtain new where new: "new \<in> set (dsForwards incoming)" "fsForwardID new = fsForwardID s" by auto
      with view obtain s' where "decide B tx (received_view B tx (fsForwardID new)) new = Inr s'"
        and "spec_map (dsForwards merged) (fsForwardID new) = Some s'" by blast
      with at new(2) have "decide B tx (received_view B tx (fsForwardID new)) new = Inr s" by simp
      moreover have "ForwardSpec_Validate new = Inr ()" using new(1) assms(1) by (simp add: valid_desired)
      ultimately show ?thesis by (rule decide_valid) (simp add: received_valid)
    next
      case False
      with view have "spec_map (dsForwards merged) (fsForwardID s) = received_view B tx (fsForwardID s)" by blast
      with at show ?thesis using received_valid [of B tx "fsForwardID s" s] by simp
    qed
  qed
  moreover have "dsNodeID merged \<noteq> []" using node assms(1) by (simp add: valid_desired)
  ultimately show ?thesis using d by (simp add: valid_desired)
qed

end
