(* ===== verification/Agent_Applied_Props.thy ===== *)
theory Agent_Applied_Props
  imports Agent_Merge_Spec
begin

text \<open>
  What the received snapshot and the applied records promise: the merge acts on each Forward alone and
  never undoes a deletion, and a commit has, on each Forward, exactly the effect its outcome asks for.
\<close>

section \<open>The commit, one Forward at a time\<close>

definition spec_for :: "(string \<Rightarrow> ForwardSpec option) \<Rightarrow> string \<Rightarrow> ForwardSpec" where
  "spec_for specs f = (case specs f of Some s \<Rightarrow> s | None \<Rightarrow> zeroForwardSpec)"

text \<open>When a candidate may replace a stored applied record.\<close>

definition may_replace :: "AppliedForwardState \<Rightarrow> ForwardSpec \<Rightarrow> AppliedStateRecord option \<Rightarrow> bool" where
  "may_replace a spec existing \<longleftrightarrow>
     (case existing of
        None \<Rightarrow> True
      | Some r \<Rightarrow> afSpecRevision (asState r) < afSpecRevision a \<or>
          (afSpecRevision (asState r) = afSpecRevision a \<and> asHasServingSpec r \<and>
           equivalentAppliedState a (asState r) \<and> asServingSpec r = spec))"

lemma commit_applied_Inr:
  "commit_applied B spec a f tx = Inr tx' \<longleftrightarrow>
     bget B tx bucketTombstones f = None \<and>
     (\<exists>existing. loadAppliedRecordTx B tx f = Inr existing \<and> may_replace a spec existing) \<and>
     bput_ok B f (encodeAppliedRecord a spec) \<and> tx' = bput B tx bucketApplied f (encodeAppliedRecord a spec)"
proof (cases "loadAppliedRecordTx B tx f")
  case (Inr existing)
  then show ?thesis
    by (cases existing) (auto simp: commit_applied_def may_replace_def Let_def)
qed (simp add: commit_applied_def)

lemma commit_deleted_Inr:
  "commit_deleted B now spec f tx = Inr tx' \<longleftrightarrow>
     (\<exists>found. loadForwardDeleteIntentTx B tx f = Inr found \<and>
        (\<forall>i. found = Some i \<longrightarrow> fiDeletionOperationID i = fsDeletionOperationID spec \<and>
           fiDesiredRevision i = fsDesiredRevision spec)) \<and>
     (let t = RTombstone \<lparr>tsForwardID = f, tsDeletionOperationID = fsDeletionOperationID spec,
              tsDesiredRevision = fsDesiredRevision spec, tsCreatedAtUnix = now\<rparr>
      in bput_ok B f t \<and> tx' = bdelete B (bdelete B (bput B tx bucketTombstones f t) bucketApplied f) bucketActivation f)"
  by (auto simp: commit_deleted_def Let_def split: option.splits if_splits)

lemma loadFence_none: "loadForwardDeleteFenceTx B tx f = Inr (None, None) \<longleftrightarrow> \<not> fenced B tx f"
  by (simp add: loadForwardDeleteFenceTx_def fenced_def loadIntent_Inr loadTombstone_Inr)

lemma commit_outcome_cases:
  assumes "commit_outcome B now specs ms (r, tx) o' = Inr (r', tx')"
  obtains (skipped) "foOutcome o' = ApplySkipped \<or> (\<exists>n. foOutcome o' = ApplyOther n)" "tx' = tx" "r' = r"
  | (failed) "foOutcome o' = ApplyFailed" "tx' = tx"
      "r' = r\<lparr>reFailedForwards := (if foErr o' then reFailedForwards r @ [foForwardID o'] else reFailedForwards r),
              reFailedCount := Suc (reFailedCount r)\<rparr>"
  | (applied) a where "foOutcome o' = ApplyApplied" "foApplied o' = Some a" "\<not> fenced B tx (foForwardID o')"
      "ms (foForwardID o') = Some (spec_for specs (foForwardID o'))"
      "commit_applied B (spec_for specs (foForwardID o')) a (foForwardID o') tx = Inr tx'"
      "r' = r\<lparr>reAppliedCount := Suc (reAppliedCount r)\<rparr>"
  | (deleted) "foOutcome o' = ApplyDeleted" "ms (foForwardID o') = Some (spec_for specs (foForwardID o'))"
      "commit_deleted B now (spec_for specs (foForwardID o')) (foForwardID o') tx = Inr tx'"
      "r' = r\<lparr>reDeletedCount := Suc (reDeletedCount r)\<rparr>"
  using assms
  by (cases "foOutcome o'")
    (auto simp: commit_outcome_def Let_def spec_for_def [symmetric] loadFence_none split: if_splits option.splits)

text \<open>The report counts the outcomes.\<close>

definition count_outcome :: "ApplyOutcome \<Rightarrow> ForwardApply list \<Rightarrow> nat" where
  "count_outcome k os = length (filter (\<lambda>o'. foOutcome o' = k) os)"

lemma commit_counts:
  assumes "foldE (commit_outcome B now specs ms) (r, tx) os = Inr (r', tx')"
  shows "reAppliedCount r' = reAppliedCount r + count_outcome ApplyApplied os \<and>
    reDeletedCount r' = reDeletedCount r + count_outcome ApplyDeleted os \<and>
    reFailedCount r' = reFailedCount r + count_outcome ApplyFailed os"
  using assms
proof (induction os arbitrary: r tx)
  case (Cons o' os)
  then obtain r1 tx1 where step: "commit_outcome B now specs ms (r, tx) o' = Inr (r1, tx1)"
    and rest: "foldE (commit_outcome B now specs ms) (r1, tx1) os = Inr (r', tx')"
    by auto
  from step Cons.IH [OF rest] show ?case
    by (cases rule: commit_outcome_cases) (auto simp: count_outcome_def)
qed (simp add: count_outcome_def)

text \<open>An accepted batch has one outcome per Forward, each checked against its own entry.\<close>

definition outcome_ok :: "(string \<Rightarrow> ForwardSpec option) \<Rightarrow> ForwardApply \<Rightarrow> bool" where
  "outcome_ok specs o' \<longleftrightarrow> (\<exists>spec. specs (foForwardID o') = Some spec \<and> (case foOutcome o' of
       ApplyApplied \<Rightarrow> (\<exists>a. foApplied o' = Some a \<and> validateAppliedRecord (foForwardID o') a spec True = Inr ())
     | ApplyDeleted \<Rightarrow> fsPresence spec = PresenceAbsent \<and> fsDeletionOperationID spec \<noteq> []
     | ApplyOther n \<Rightarrow> False
     | _ \<Rightarrow> True))"

lemma check_outcome_Inr:
  assumes "check_outcome specs seen o' = Inr seen'"
  shows "outcome_ok specs o' \<and> foForwardID o' \<notin> set seen \<and> seen' = foForwardID o' # seen"
  using assms by (auto simp: check_outcome_def outcome_ok_def Let_def split: option.splits ApplyOutcome.splits)

lemma check_outcomes_Inr:
  "foldE (check_outcome specs) seen os = Inr seen' \<Longrightarrow>
     (\<forall>o' \<in> set os. outcome_ok specs o') \<and> distinct (map foForwardID os) \<and> foForwardID ` set os \<inter> set seen = {}"
proof (induction os arbitrary: seen)
  case (Cons o' os)
  then obtain s1 where step: "check_outcome specs seen o' = Inr s1" and rest: "foldE (check_outcome specs) s1 os = Inr seen'"
    by auto
  from check_outcome_Inr [OF step] Cons.IH [OF rest] show ?case by auto
qed simp

lemma CommitDesired_cases:
  assumes "CommitDesired B now d outcomes tx = Inr (report, tx')"
  obtains merged tx1 r where "DesiredState_Validate d = Inr ()" "validateAppliedBucketTx B tx = Inr ()"
    "\<forall>o' \<in> set outcomes. outcome_ok (spec_map (dsForwards d)) o'" "distinct (map foForwardID outcomes)"
    "length outcomes = length (dsForwards d)"
    "mergeReceivedDesiredTx B tx d = Inr merged" "tx1 = bput B tx bucketDesired (dsNodeID merged) (RDesired merged)"
    "foldE (commit_outcome B now (spec_map (dsForwards d)) (spec_map (dsForwards merged))) (emptyReport, tx1) outcomes = Inr (r, tx')"
    "report = r\<lparr>reStatus := report_status r\<rparr>"
proof -
  from assms obtain merged tx1 r seen where *: "DesiredState_Validate d = Inr ()" "validateAppliedBucketTx B tx = Inr ()"
    "foldE (check_outcome (spec_map (dsForwards d))) [] outcomes = Inr seen" "length outcomes = length (dsForwards d)"
    "mergeReceivedDesiredTx B tx d = Inr merged" "tx1 = bput B tx bucketDesired (dsNodeID merged) (RDesired merged)"
    "foldE (commit_outcome B now (spec_map (dsForwards d)) (spec_map (dsForwards merged))) (emptyReport, tx1) outcomes = Inr (r, tx')"
    "report = r\<lparr>reStatus := report_status r\<rparr>"
    by (auto simp: CommitDesired_def Let_def split: if_splits)
  from that [OF *(1,2) _ _ *(4-8)] check_outcomes_Inr [OF *(3)] show ?thesis by blast
qed

context bolt_db
begin

lemma commit_applied_frame:
  assumes "commit_applied B spec a f tx = Inr tx'"
  shows "bget B tx' b k = (if b = bucketApplied \<and> k = f then Some (encodeAppliedRecord a spec) else bget B tx b k)"
  using assms by (simp add: commit_applied_Inr get_put)

lemma commit_deleted_frame:
  assumes "commit_deleted B now spec f tx = Inr tx'"
  shows "bget B tx' b k =
    (if k = f \<and> b \<in> {bucketApplied, bucketActivation} then None
     else if k = f \<and> b = bucketTombstones then Some (RTombstone \<lparr>tsForwardID = f,
       tsDeletionOperationID = fsDeletionOperationID spec, tsDesiredRevision = fsDesiredRevision spec, tsCreatedAtUnix = now\<rparr>)
     else bget B tx b k)"
proof -
  from assms have "tx' = bdelete B (bdelete B (bput B tx bucketTombstones f (RTombstone \<lparr>tsForwardID = f,
      tsDeletionOperationID = fsDeletionOperationID spec, tsDesiredRevision = fsDesiredRevision spec,
      tsCreatedAtUnix = now\<rparr>)) bucketApplied f) bucketActivation f"
    unfolding commit_deleted_Inr Let_def by blast
  then show ?thesis by (cases "k = f"; cases b; simp only: get_put get_delete) simp_all
qed

lemma commit_outcome_frame:
  assumes "commit_outcome B now specs ms (r, tx) o' = Inr (r', tx')"
    and "k \<noteq> foForwardID o' \<or> b \<notin> {bucketApplied, bucketTombstones, bucketActivation}"
  shows "bget B tx' b k = bget B tx b k"
  using assms(1)
proof (cases rule: commit_outcome_cases)
  case (applied a)
  then show ?thesis using commit_applied_frame [OF applied(5)] assms(2) by auto
next
  case deleted
  then show ?thesis using commit_deleted_frame [OF deleted(3)] assms(2) by auto
qed simp_all

lemma commit_fold_frame:
  assumes "foldE (commit_outcome B now specs ms) (r, tx) os = Inr (r', tx')"
    and "k \<notin> foForwardID ` set os \<or> b \<notin> {bucketApplied, bucketTombstones, bucketActivation}"
  shows "bget B tx' b k = bget B tx b k"
  using assms
proof (induction os arbitrary: r tx)
  case (Cons o' os)
  then obtain r1 tx1 where step: "commit_outcome B now specs ms (r, tx) o' = Inr (r1, tx1)"
    and rest: "foldE (commit_outcome B now specs ms) (r1, tx1) os = Inr (r', tx')"
    by auto
  have "bget B tx' b k = bget B tx1 b k" using Cons.prems(2) by (intro Cons.IH [OF rest]) auto
  also have "\<dots> = bget B tx b k" using Cons.prems(2) by (intro commit_outcome_frame [OF step]) auto
  finally show ?case .
qed simp

text \<open>What happens to a Forward is what its own outcome does, from the rows it had at the start.\<close>

lemma commit_fold_at:
  assumes "foldE (commit_outcome B now specs ms) (r, tx) os = Inr (r', tx')" and "distinct (map foForwardID os)"
    and "o' \<in> set os"
  obtains r1 tx1 r2 tx2 where "commit_outcome B now specs ms (r1, tx1) o' = Inr (r2, tx2)"
    "\<And>b. bget B tx1 b (foForwardID o') = bget B tx b (foForwardID o')"
    "\<And>b. bget B tx' b (foForwardID o') = bget B tx2 b (foForwardID o')"
proof -
  from assms(3) obtain xs ys where os: "os = xs @ o' # ys" by (meson split_list)
  with assms(1) obtain r1 tx1 r2 tx2 where pre: "foldE (commit_outcome B now specs ms) (r, tx) xs = Inr (r1, tx1)"
    and step: "commit_outcome B now specs ms (r1, tx1) o' = Inr (r2, tx2)"
    and post: "foldE (commit_outcome B now specs ms) (r2, tx2) ys = Inr (r', tx')"
    by (auto simp: foldE_append)
  have "foForwardID o' \<notin> foForwardID ` set xs" "foForwardID o' \<notin> foForwardID ` set ys"
    using assms(2) os by auto
  with that [OF step] commit_fold_frame [OF pre] commit_fold_frame [OF post] show ?thesis by blast
qed

end

section \<open>Properties\<close>

lemma merge_received_total:
  assumes "DesiredState_Validate incoming = Inr ()" and "loadReceivedDesiredTx B tx = Inr found"
    and "case found of None \<Rightarrow> True | Some current \<Rightarrow> dsNodeID current = dsNodeID incoming"
    and "\<forall>new \<in> set (dsForwards incoming). \<exists>s. decide B tx (received_view B tx (fsForwardID new)) new = Inr s"
  shows "\<exists>merged. mergeReceivedDesiredTx B tx incoming = Inr merged"
proof -
  let ?cur = "case found of None \<Rightarrow> \<lparr>dsNodeID = dsNodeID incoming, dsForwards = []\<rparr> | Some d \<Rightarrow> d"
  have v: "DesiredState_Validate ?cur = Inr ()" and view: "received_view B tx = spec_map (dsForwards ?cur)"
    using assms(1,2) by (auto simp: valid_desired loadReceived_Some received_view_def fun_eq_iff split: option.splits)
  then have "indexed (dsForwards ?cur, initial_index (dsForwards ?cur))"
    by (intro initial_indexed) (simp add: valid_desired)
  then obtain m where
    "foldE (merge_step B tx) (dsForwards ?cur, initial_index (dsForwards ?cur)) (dsForwards incoming) = Inr m"
    using merge_fold_total [of "(dsForwards ?cur, initial_index (dsForwards ?cur))" "dsForwards incoming" B tx]
      assms(1,4) view by (metis fst_conv valid_desired)
  then have "mergeReceivedDesiredWithDeleteFences B tx ?cur incoming = Inr (?cur\<lparr>dsForwards := fst m\<rparr>)"
    using v assms(3) by (auto simp: mergeReceivedDesiredWithDeleteFences_def split: option.splits)
  then show ?thesis using assms(2) by (cases found) (auto simp: mergeReceivedDesiredTx_def)
qed

text \<open>
  C12: Merging a received snapshot decides each Forward on its own. Given the stored snapshot of the
  same node, the merge succeeds exactly when the decision for every incoming Forward succeeds; then
  the merged snapshot is valid, a Forward the incoming snapshot omits keeps its stored entry (omission
  is not deletion), and every incoming Forward gets its decided entry, so neither the order of the
  slice nor the other Forwards matter.
\<close>

theorem merge_refines_decision:
  assumes "DesiredState_Validate incoming = Inr ()" and "loadReceivedDesiredTx B tx = Inr found"
    and "case found of None \<Rightarrow> True | Some current \<Rightarrow> dsNodeID current = dsNodeID incoming"
  shows "((\<exists>merged. mergeReceivedDesiredTx B tx incoming = Inr merged) \<longleftrightarrow>
      (\<forall>new \<in> set (dsForwards incoming). \<exists>s. decide B tx (received_view B tx (fsForwardID new)) new = Inr s)) \<and>
    (\<forall>merged. mergeReceivedDesiredTx B tx incoming = Inr merged \<longrightarrow>
       DesiredState_Validate merged = Inr () \<and> dsNodeID merged = dsNodeID incoming \<and>
       (\<forall>f. f \<notin> fsForwardID ` set (dsForwards incoming) \<longrightarrow> spec_map (dsForwards merged) f = received_view B tx f) \<and>
       (\<forall>new \<in> set (dsForwards incoming).
          map_option Inr (spec_map (dsForwards merged) (fsForwardID new)) =
            Some (decide B tx (received_view B tx (fsForwardID new)) new)))"
proof (intro conjI iffI allI impI ballI)
  fix merged assume m: "mergeReceivedDesiredTx B tx incoming = Inr merged"
  note view = merge_received_view [OF assms(1) m]
  show "DesiredState_Validate merged = Inr ()" by (rule merge_received_valid [OF assms(1) m])
  show "dsNodeID merged = dsNodeID incoming" using view by blast
  show "spec_map (dsForwards merged) f = received_view B tx f" if "f \<notin> fsForwardID ` set (dsForwards incoming)" for f
    using view that by blast
  show "map_option Inr (spec_map (dsForwards merged) (fsForwardID new)) =
      Some (decide B tx (received_view B tx (fsForwardID new)) new)" if "new \<in> set (dsForwards incoming)" for new
    using view that by fastforce
next
  fix new assume "\<exists>merged. mergeReceivedDesiredTx B tx incoming = Inr merged" and new: "new \<in> set (dsForwards incoming)"
  then obtain merged where "mergeReceivedDesiredTx B tx incoming = Inr merged" by blast
  from merge_received_view [OF assms(1) this] new
  show "\<exists>s. decide B tx (received_view B tx (fsForwardID new)) new = Inr s" by blast
qed (rule merge_received_total [OF assms])

text \<open>A saved snapshot is the merged one, and it reads back.\<close>

context bolt_db
begin

lemma desired_readback:
  assumes "loadReceivedDesiredTx B tx = Inr found" and "case found of None \<Rightarrow> True | Some current \<Rightarrow> dsNodeID current = dsNodeID d"
    and "DesiredState_Validate d = Inr ()"
  shows "loadReceivedDesiredTx B (bput B tx bucketDesired (dsNodeID d) (RDesired d)) = Inr (Some d)"
proof -
  let ?tx = "bput B tx bucketDesired (dsNodeID d) (RDesired d)"
  have "set (bkeys B tx bucketDesired) \<subseteq> {dsNodeID d}"
    using assms(1,2) by (cases found) (auto simp: loadReceived_None loadReceived_Some)
  then have "set (bkeys B ?tx bucketDesired) = {dsNodeID d}" by (auto simp: set_keys get_put split: if_splits)
  moreover have "distinct (bkeys B ?tx bucketDesired)" using sorted_keys by blast
  ultimately have "bkeys B ?tx bucketDesired = [dsNodeID d]"
    by (metis distinct_card card.empty card_insert_disjoint finite.emptyI empty_iff length_Suc_conv list.size(3)
        list.set_intros(1) length_0_conv singletonD One_nat_def)
  then show ?thesis using assms(3) by (simp add: loadReceived_Some get_put)
qed

lemma SaveReceivedDesired_Inr:
  assumes "SaveReceivedDesired B d tx = Inr tx'"
  obtains merged where "DesiredState_Validate d = Inr ()" "mergeReceivedDesiredTx B tx d = Inr merged"
    "tx' = bput B tx bucketDesired (dsNodeID merged) (RDesired merged)"
    "loadReceivedDesiredTx B tx' = Inr (Some merged)"
proof -
  from assms obtain merged where v: "DesiredState_Validate d = Inr ()" and m: "mergeReceivedDesiredTx B tx d = Inr merged"
    and tx': "tx' = bput B tx bucketDesired (dsNodeID merged) (RDesired merged)"
    by (auto simp: SaveReceivedDesired_def)
  from m obtain found where load: "loadReceivedDesiredTx B tx = Inr found" by (auto simp: mergeReceivedDesiredTx_def)
  have "dsNodeID merged = dsNodeID d" using merge_received_view [OF v m] by blast
  moreover have "case found of None \<Rightarrow> True | Some current \<Rightarrow> dsNodeID current = dsNodeID d"
    using m load by (cases found) (auto simp: mergeReceivedDesiredTx_def mergeReceivedDesiredWithDeleteFences_def)
  ultimately have "loadReceivedDesiredTx B tx' = Inr (Some merged)"
    using desired_readback [OF load _ merge_received_valid [OF v m]] unfolding tx' by metis
  with that v m tx' show ?thesis by blast
qed

end

text \<open>
  Saving a received snapshot can never undo a deletion or roll a Forward back. Afterwards the
  stored snapshot reads back; every Forward named in the incoming snapshot that is fenced is stored as
  ABSENT under the deletion operation that owns the fence, whatever revision the incoming entry
  claims; an unfenced one is stored as the incoming or the old entry with a revision no smaller than
  either; every other Forward keeps the entry it had, and no other bucket changes.
\<close>

theorem save_desired_respects_fences:
  assumes "bolt_db B" and "SaveReceivedDesired B d tx = Inr tx'"
  shows "(\<exists>merged. LoadReceivedDesired B tx' = Inr (Some merged)) \<and>
    (\<forall>f. f \<notin> fsForwardID ` set (dsForwards d) \<longrightarrow> received_view B tx' f = received_view B tx f) \<and>
    (\<forall>new \<in> set (dsForwards d). \<exists>s. received_view B tx' (fsForwardID new) = Some s \<and>
       (if fenced B tx (fsForwardID new)
        then fsPresence s = PresenceAbsent \<and> Some (fsDeletionOperationID s) = fence_owner B tx (fsForwardID new)
        else (s = new \<or> Some s = received_view B tx (fsForwardID new)) \<and> fsDesiredRevision new \<le> fsDesiredRevision s \<and>
          (\<forall>old. received_view B tx (fsForwardID new) = Some old \<longrightarrow> fsDesiredRevision old \<le> fsDesiredRevision s))) \<and>
    (\<forall>b k. b \<noteq> bucketDesired \<longrightarrow> bget B tx' b k = bget B tx b k)"
proof -
  obtain merged where v: "DesiredState_Validate d = Inr ()" and m: "mergeReceivedDesiredTx B tx d = Inr merged"
    and tx': "tx' = bput B tx bucketDesired (dsNodeID merged) (RDesired merged)"
    and load: "loadReceivedDesiredTx B tx' = Inr (Some merged)"
    by (rule bolt_db.SaveReceivedDesired_Inr [OF assms])
  have after: "received_view B tx' = spec_map (dsForwards merged)" using load by (auto simp: received_view_def)
  note view = merge_received_view [OF v m]
  have "\<exists>s. received_view B tx' (fsForwardID new) = Some s \<and>
       (if fenced B tx (fsForwardID new)
        then fsPresence s = PresenceAbsent \<and> Some (fsDeletionOperationID s) = fence_owner B tx (fsForwardID new)
        else (s = new \<or> Some s = received_view B tx (fsForwardID new)) \<and> fsDesiredRevision new \<le> fsDesiredRevision s \<and>
          (\<forall>old. received_view B tx (fsForwardID new) = Some old \<longrightarrow> fsDesiredRevision old \<le> fsDesiredRevision s))"
    if "new \<in> set (dsForwards d)" for new
  proof -
    from view that obtain s where s: "decide B tx (received_view B tx (fsForwardID new)) new = Inr s"
      "spec_map (dsForwards merged) (fsForwardID new) = Some s" by blast
    show ?thesis using s(2) decide_fenced [OF s(1)] decide_unfenced [OF s(1)] by (auto simp: after)
  qed
  moreover have "bget B tx' b k = bget B tx b k" if "b \<noteq> bucketDesired" for b k
    using that by (simp add: tx' bolt_db.get_put [OF assms(1)])
  ultimately show ?thesis using view load by (simp add: after LoadReceivedDesired_def)
qed

text \<open>What a successful commit does to one Forward, and to everything else.\<close>

lemma checkAppliedRow_state:
  "checkAppliedRow k raw = Inr r \<Longrightarrow> \<exists>a. raw = RApplied a \<and> asState r = arState a \<and>
     (asHasServingSpec r \<longrightarrow> arServingSpec a = Some (asServingSpec r))"
  by (cases raw) (auto simp: checkAppliedRow_def split: if_splits option.splits)

lemma loadApplied_Some:
  "loadAppliedRecordTx B tx k = Inr (Some r) \<longleftrightarrow> (\<exists>raw. bget B tx bucketApplied k = Some raw \<and> checkAppliedRow k raw = Inr r)"
  by (auto simp: loadAppliedRecordTx_def split: option.splits)

lemma loadApplied_None: "loadAppliedRecordTx B tx k = Inr None \<longleftrightarrow> bget B tx bucketApplied k = None"
  by (auto simp: loadAppliedRecordTx_def split: option.splits)

context bolt_db
begin

lemma commit_frame:
  assumes "CommitDesired B now d outcomes tx = Inr (report, tx')"
    and "b \<noteq> bucketDesired" and "k \<notin> foForwardID ` set outcomes \<or> b \<notin> {bucketApplied, bucketTombstones, bucketActivation}"
  shows "bget B tx' b k = bget B tx b k"
  using assms(1)
proof (cases rule: CommitDesired_cases)
  case (1 merged tx1 r)
  from commit_fold_frame [OF 1(8) assms(3)] assms(2) show ?thesis by (simp add: 1(7) get_put)
qed

lemma commit_at:
  assumes "CommitDesired B now d outcomes tx = Inr (report, tx')" and "o' \<in> set outcomes"
  obtains merged r1 tx1 r2 tx2 spec where "DesiredState_Validate d = Inr ()" "mergeReceivedDesiredTx B tx d = Inr merged"
    "spec \<in> set (dsForwards d)" "fsForwardID spec = foForwardID o'"
    "outcome_ok (spec_map (dsForwards d)) o'" "spec_map (dsForwards d) (foForwardID o') = Some spec"
    "commit_outcome B now (spec_map (dsForwards d)) (spec_map (dsForwards merged)) (r1, tx1) o' = Inr (r2, tx2)"
    "\<And>b. b \<noteq> bucketDesired \<Longrightarrow> bget B tx1 b (foForwardID o') = bget B tx b (foForwardID o')"
    "\<And>b. bget B tx' b (foForwardID o') = bget B tx2 b (foForwardID o')"
  using assms(1)
proof (cases rule: CommitDesired_cases)
  case (1 merged tx1 r)
  from 1(3) assms(2) have ok: "outcome_ok (spec_map (dsForwards d)) o'" by blast
  then obtain spec where spec: "spec_map (dsForwards d) (foForwardID o') = Some spec" by (auto simp: outcome_ok_def)
  then have mem: "spec \<in> set (dsForwards d)" "fsForwardID spec = foForwardID o'"
    using 1(1) by (simp_all add: spec_map_Some valid_desired)
  obtain r1 t1 r2 t2 where
    step: "commit_outcome B now (spec_map (dsForwards d)) (spec_map (dsForwards merged)) (r1, t1) o' = Inr (r2, t2)"
    and before: "\<And>b. bget B t1 b (foForwardID o') = bget B tx1 b (foForwardID o')"
    and after: "\<And>b. bget B tx' b (foForwardID o') = bget B t2 b (foForwardID o')"
    by (rule commit_fold_at [OF 1(8,4) assms(2)]) (rule that)
  show ?thesis
    by (rule that [OF 1(1) 1(6) mem ok spec step _ after]) (simp add: before 1(7) get_put)
qed

end

definition committed :: "'tx bolt \<Rightarrow> int \<Rightarrow> DesiredState \<Rightarrow> 'tx \<Rightarrow> 'tx \<Rightarrow> ForwardApply \<Rightarrow> bool" where
  "committed B now d tx tx' o' =
     (let f = foForwardID o'; spec = spec_for (spec_map (dsForwards d)) f
      in case foOutcome o' of
           ApplyApplied \<Rightarrow> (case foApplied o' of None \<Rightarrow> False | Some a \<Rightarrow>
             bget B tx' bucketApplied f = Some (RApplied \<lparr>arState = a, arServingSpec = Some spec\<rparr>) \<and>
             bget B tx' bucketTombstones f = None \<and> bget B tx' bucketActivation f = bget B tx bucketActivation f)
         | ApplyDeleted \<Rightarrow>
             bget B tx' bucketTombstones f = Some (RTombstone \<lparr>tsForwardID = f,
               tsDeletionOperationID = fsDeletionOperationID spec, tsDesiredRevision = fsDesiredRevision spec,
               tsCreatedAtUnix = now\<rparr>) \<and>
             bget B tx' bucketApplied f = None \<and> bget B tx' bucketActivation f = None
         | _ \<Rightarrow> list_all (\<lambda>b. bget B tx' b f = bget B tx b f) [bucketApplied, bucketTombstones, bucketActivation])"

context bolt_db
begin

lemma commit_committed:
  assumes "CommitDesired B now d outcomes tx = Inr (report, tx')" and "o' \<in> set outcomes"
  shows "committed B now d tx tx' o'"
  using assms
proof (cases rule: commit_at)
  case (1 merged r1 tx1 r2 tx2 spec)
  from 1(7) show ?thesis
  proof (cases rule: commit_outcome_cases)
    case (applied a)
    then show ?thesis using 1(8,9) commit_applied_frame [OF applied(5)]
      by (simp add: committed_def Let_def encodeAppliedRecord_def fenced_def)
  next
    case deleted
    then show ?thesis using 1(8,9) commit_deleted_frame [OF deleted(3)] by (simp add: committed_def Let_def)
  qed (use 1(8,9) in \<open>auto simp: committed_def Let_def\<close>)
qed

end

text \<open>
  C13: A commit does to each Forward what its outcome says and nothing else. An applied outcome stores
  exactly the candidate state with the serving specification from the snapshot; a deletion leaves the
  tombstone of the snapshot's deletion operation and neither an applied record nor an activation
  mirror; a failed or skipped outcome leaves the Forward's rows as they were; Forwards outside the
  batch and all other buckets but the received snapshot are untouched. The report counts the
  outcomes, and its status is FULL exactly when nothing failed.
\<close>

theorem commit_does_outcomes:
  assumes "bolt_db B" and "CommitDesired B now d outcomes tx = Inr (report, tx')"
  shows "list_all (committed B now d tx tx') outcomes \<and>
    (\<forall>b k. b \<noteq> bucketDesired \<and> (k \<notin> foForwardID ` set outcomes \<or> b \<notin> {bucketApplied, bucketTombstones, bucketActivation})
       \<longrightarrow> bget B tx' b k = bget B tx b k) \<and>
    reAppliedCount report = count_outcome ApplyApplied outcomes \<and>
    reDeletedCount report = count_outcome ApplyDeleted outcomes \<and>
    reFailedCount report = count_outcome ApplyFailed outcomes \<and>
    (reStatus report = ApplyStatusFull \<longleftrightarrow> count_outcome ApplyFailed outcomes = 0)"
proof (intro conjI allI impI)
  show "list_all (committed B now d tx tx') outcomes"
    using bolt_db.commit_committed [OF assms] by (simp add: list_all_iff)
  show "bget B tx' b k = bget B tx b k" if "b \<noteq> bucketDesired \<and> (k \<notin> foForwardID ` set outcomes \<or>
      b \<notin> {bucketApplied, bucketTombstones, bucketActivation})" for b k
    using bolt_db.commit_frame [OF assms] that by blast
  from assms(2) obtain r tx1 specs ms where
    fold: "foldE (commit_outcome B now specs ms) (emptyReport, tx1) outcomes = Inr (r, tx')"
    and report: "report = r\<lparr>reStatus := report_status r\<rparr>"
    by (cases rule: CommitDesired_cases) blast
  show "reAppliedCount report = count_outcome ApplyApplied outcomes"
    "reDeletedCount report = count_outcome ApplyDeleted outcomes"
    "reFailedCount report = count_outcome ApplyFailed outcomes"
    "reStatus report = ApplyStatusFull \<longleftrightarrow> count_outcome ApplyFailed outcomes = 0"
    using commit_counts [OF fold] by (simp_all add: report emptyReport_def report_status_def)
qed

lemma fence_frame:
  "bget B tx' bucketForwardDeleteIntents f = bget B tx bucketForwardDeleteIntents f \<Longrightarrow>
   bget B tx' bucketTombstones f = bget B tx bucketTombstones f \<Longrightarrow>
   fenced B tx' f = fenced B tx f \<and> fence_owner B tx' f = fence_owner B tx f"
  by (simp only: fenced_def fence_owner_def)

text \<open>
  C10: No resurrection. A Forward that is fenced before a commit is fenced after it, by the same deletion
  operation, and the commit writes no applied record for it: its applied record is either the one it
  had or gone.
\<close>

theorem commit_never_resurrects:
  assumes "bolt_db B" and "CommitDesired B now d outcomes tx = Inr (report, tx')" and "fenced B tx f"
  shows "fenced B tx' f \<and> fence_owner B tx' f = fence_owner B tx f \<and>
    bget B tx' bucketApplied f \<in> {None, bget B tx bucketApplied f}"
proof (cases "f \<in> foForwardID ` set outcomes")
  case False
  have "bget B tx' b f = bget B tx b f" if "b \<noteq> bucketDesired" for b
    using bolt_db.commit_frame [OF assms(1,2) that] False by blast
  then have "bget B tx' bucketForwardDeleteIntents f = bget B tx bucketForwardDeleteIntents f"
    "bget B tx' bucketTombstones f = bget B tx bucketTombstones f"
    "bget B tx' bucketApplied f = bget B tx bucketApplied f" by simp_all
  then show ?thesis using assms(3) fence_frame [of B tx' f tx] by simp
next
  case True
  then obtain o' where o': "o' \<in> set outcomes" and f: "f = foForwardID o'" by blast
  from assms(2) o' show ?thesis
  proof (cases rule: bolt_db.commit_at [OF assms(1), consumes 2])
    case (1 merged r1 tx1 r2 tx2 spec)
    from 1(7) show ?thesis
    proof (cases rule: commit_outcome_cases)
      case (applied a)
      then show ?thesis using assms(3) 1(8) by (simp add: fenced_def f)
    next
      case deleted
      note frame = bolt_db.commit_deleted_frame [OF assms(1) deleted(3)]
      have spec: "spec_for (spec_map (dsForwards d)) (foForwardID o') = spec" using 1(6) by (simp add: spec_for_def)
      from merge_received_view [OF 1(1,2)] 1(3) obtain s where
        s: "decide B tx (received_view B tx (fsForwardID spec)) spec = Inr s"
        and "spec_map (dsForwards merged) (fsForwardID spec) = Some s" by blast
      with deleted(2) 1(4) spec have "s = spec" by simp
      with decide_fenced [OF s] assms(3) 1(4) f
      have own: "fence_owner B tx f = Some (fsDeletionOperationID spec)" by simp
      have "bget B tx' bucketForwardDeleteIntents f = bget B tx bucketForwardDeleteIntents f"
        using 1(8,9) frame by (simp add: f)
      moreover have "bget B tx' bucketTombstones f = Some (RTombstone \<lparr>tsForwardID = f,
          tsDeletionOperationID = fsDeletionOperationID spec, tsDesiredRevision = fsDesiredRevision spec, tsCreatedAtUnix = now\<rparr>)"
        using 1(9) frame spec by (simp add: f)
      moreover have "bget B tx' bucketApplied f = None" using 1(9) frame by (simp add: f)
      ultimately show ?thesis using own by (auto simp: fenced_def fence_owner_def split: option.splits row.splits)
    qed (use 1(8,9) assms(3) fence_frame [of B tx' f tx] in \<open>auto simp: f\<close>)
  qed
qed

text \<open>
  The applied record never regresses. When a Forward has an applied record before and after a commit,
  the revision it serves has not decreased; at an equal revision the state is the same but for the
  observation time, and the serving specification is the same.
\<close>

theorem commit_applied_monotone:
  assumes "bolt_db B" and "CommitDesired B now d outcomes tx = Inr (report, tx')"
    and "bget B tx bucketApplied f = Some (RApplied old)" and "bget B tx' bucketApplied f = Some (RApplied new)"
  shows "afSpecRevision (arState old) \<le> afSpecRevision (arState new) \<and>
    (afSpecRevision (arState old) = afSpecRevision (arState new) \<longrightarrow>
      equivalentAppliedState (arState old) (arState new) \<and> arServingSpec old = arServingSpec new)"
proof (cases "new = old")
  case False
  then have "bget B tx' bucketApplied f \<noteq> bget B tx bucketApplied f" using assms(3,4) by simp
  then obtain o' where o': "o' \<in> set outcomes" and f: "f = foForwardID o'"
    using bolt_db.commit_frame [OF assms(1,2), of bucketApplied f] by auto
  from assms(2) o' show ?thesis
  proof (cases rule: bolt_db.commit_at [OF assms(1), consumes 2])
    case (1 merged r1 tx1 r2 tx2 spec)
    have before: "bget B tx1 bucketApplied f = Some (RApplied old)" using 1(8) assms(3) by (simp add: f)
    from 1(7) show ?thesis
    proof (cases rule: commit_outcome_cases)
      case (applied a)
      let ?spec = "spec_for (spec_map (dsForwards d)) (foForwardID o')"
      have new: "new = \<lparr>arState = a, arServingSpec = Some ?spec\<rparr>"
        using bolt_db.commit_applied_frame [OF assms(1) applied(5), of bucketApplied f] 1(9) assms(4)
        by (simp add: f encodeAppliedRecord_def)
      from applied(5) obtain existing where ex: "loadAppliedRecordTx B tx1 f = Inr existing" "may_replace a ?spec existing"
        by (auto simp: commit_applied_Inr f)
      with before obtain r where r: "existing = Some r" "checkAppliedRow f (RApplied old) = Inr r"
        by (cases existing) (auto simp: loadApplied_None loadApplied_Some)
      from checkAppliedRow_state [OF r(2)] ex(2) show ?thesis
        by (auto simp: new r(1) may_replace_def equivalentAppliedState_def)
    qed (use 1(9) assms(4) before False bolt_db.commit_deleted_frame [OF assms(1)] in \<open>auto simp: f\<close>)
  qed
qed (simp add: equivalentAppliedState_def)

section \<open>Runs on the in-memory database\<close>

definition demo_forward :: "string \<Rightarrow> u64 \<Rightarrow> ForwardSpec" where
  "demo_forward f v = zeroForwardSpec\<lparr>fsForwardID := f, fsProtocol := ''tcp'', fsTarget := ''10.0.0.1:80'',
     fsStrategy := ''auto'', fsDesiredRevision := v, fsPresence := ''PRESENT''\<rparr>"

definition demo_state :: "string \<Rightarrow> u64 \<Rightarrow> AppliedForwardState" where
  "demo_state f v = \<lparr>afForwardID = f, afSpecRevision = v, afDesiredRevision = v, afActualBindHost = ''0.0.0.0'',
     afActualBindPort = 4000, afAssignedGatewayPort = 0, afPublicPort = 0, afStrategy = ''auto'', afLayerVersion = 0,
     afActivationRecovery = [], afMappingJournalRef = [], afHookDefinitionVersion = 0, afHookSecretVersion = 0,
     afAppliedAtUnix = 9\<rparr>"

text \<open>\<open>f1\<close> is being deleted by \<open>d1\<close>; \<open>f2\<close> is served at revision 1.\<close>

definition demo_store :: mem_tx where
  "demo_store =
     [((bucketForwardDeleteIntents, ''f1''), RIntent demo_intent),
      ((bucketApplied, ''f2''), RApplied \<lparr>arState = demo_state ''f2'' 1, arServingSpec = Some (demo_forward ''f2'' 1)\<rparr>)]"

definition demo_incoming :: DesiredState where
  "demo_incoming = \<lparr>dsNodeID = ''n1'', dsForwards = [demo_forward ''f1'' 9, demo_forward ''f2'' 2]\<rparr>"

definition demo_outcomes :: "ForwardApply list" where
  "demo_outcomes =
     [\<lparr>foForwardID = ''f1'', foOutcome = ApplySkipped, foApplied = None, foErr = False\<rparr>,
      \<lparr>foForwardID = ''f2'', foOutcome = ApplyApplied, foApplied = Some (demo_state ''f2'' 2), foErr = False\<rparr>]"

lemma demo_valid:
  "ForwardSpec_Validate (demo_forward ''f1'' 9) = Inr ()" "ForwardSpec_Validate (demo_forward ''f2'' 1) = Inr ()"
  "ForwardSpec_Validate (demo_forward ''f2'' 2) = Inr ()"
  "AppliedForwardState_Validate (demo_state ''f2'' 1) = Inr ()" "AppliedForwardState_Validate (demo_state ''f2'' 2) = Inr ()"
  by code_simp+

lemma demo_incoming_valid: "DesiredState_Validate demo_incoming = Inr ()"
  by (simp add: valid_desired demo_incoming_def demo_valid) (simp add: demo_forward_def)

lemma demo_fields [simp]:
  "fsForwardID (demo_forward f r) = f" "fsDesiredRevision (demo_forward f r) = r" "fsStrategy (demo_forward f r) = ''auto''"
  "fsPresence (demo_forward f r) = PresencePresent" "afForwardID (demo_state f r) = f"
  "afSpecRevision (demo_state f r) = r" "afDesiredRevision (demo_state f r) = r" "afStrategy (demo_state f r) = ''auto''"
  by (simp_all add: demo_forward_def demo_state_def zeroForwardSpec_def PresencePresent_def)

lemmas demo_commit_eval = mergeReceivedDesiredTx_def mergeReceivedDesiredWithDeleteFences_def loadReceivedDesiredTx_def
  mem_bolt_def mem_keys_def demo_store_def demo_incoming_def merge_step_def loadForwardDeleteIntentTx_def
  loadForwardTombstoneTx_def deleteFenceIdentity_def merge_fenced_def merge_by_revision_def put_spec_def append_spec_def
  initial_index_def valid_desired Let_def demo_intent_def validateForwardDeleteIntent_def PresenceAbsent_def PresencePresent_def

lemma demo_merge:
  "mergeReceivedDesiredTx mem_bolt demo_store demo_incoming =
     Inr \<lparr>dsNodeID = ''n1'', dsForwards = [fencedAbsentSpec (demo_forward ''f1'' 9) ''d1'' 3, demo_forward ''f2'' 2]\<rparr>"
  by (simp add: demo_commit_eval)

theorem merge_refines_decision_witness:
  "map_option Inr (spec_map [fencedAbsentSpec (demo_forward ''f1'' 9) ''d1'' 3, demo_forward ''f2'' 2] ''f2'') =
     Some (decide mem_bolt demo_store (received_view mem_bolt demo_store ''f2'') (demo_forward ''f2'' 2))"
proof -
  have load: "loadReceivedDesiredTx mem_bolt demo_store = Inr None"
    by (simp add: loadReceivedDesiredTx_def mem_bolt_def mem_keys_def demo_store_def)
  have new: "demo_forward ''f2'' 2 \<in> set (dsForwards demo_incoming)" by (simp add: demo_incoming_def)
  have "case (None :: DesiredState option) of None \<Rightarrow> True | Some current \<Rightarrow> dsNodeID current = dsNodeID demo_incoming"
    by simp
  from merge_refines_decision [OF demo_incoming_valid load this, THEN conjunct2, rule_format, OF demo_merge,
      THEN conjunct2, THEN conjunct2, THEN conjunct2, THEN bspec, OF new]
  show ?thesis by simp
qed

lemma demo_save:
  obtains tx' where "SaveReceivedDesired mem_bolt demo_incoming demo_store = Inr tx'"
  by (simp add: SaveReceivedDesired_def demo_incoming_valid demo_merge) (simp add: mem_bolt_def)

theorem save_desired_respects_fences_witness:
  "\<exists>tx' s. SaveReceivedDesired mem_bolt demo_incoming demo_store = Inr tx' \<and> fenced mem_bolt demo_store ''f1'' \<and>
     received_view mem_bolt tx' ''f1'' = Some s \<and> fsPresence s = PresenceAbsent \<and> fsDeletionOperationID s = ''d1''"
proof -
  obtain tx' where save: "SaveReceivedDesired mem_bolt demo_incoming demo_store = Inr tx'" by (rule demo_save)
  have f: "fenced mem_bolt demo_store ''f1''" "fence_owner mem_bolt demo_store ''f1'' = Some ''d1''"
    by (simp_all add: fenced_def fence_owner_def mem_bolt_def demo_store_def demo_intent_def)
  have "demo_forward ''f1'' 9 \<in> set (dsForwards demo_incoming)" by (simp add: demo_incoming_def)
  with save_desired_respects_fences [OF mem.bolt_db_axioms save] f save show ?thesis by fastforce
qed

definition demo_committed :: "store_error + ApplyReport \<times> mem_tx" where
  "demo_committed = CommitDesired mem_bolt 20 demo_incoming demo_outcomes demo_store"

lemma demo_commit_ok: "(case demo_committed of Inl e \<Rightarrow> False | Inr (report, tx) \<Rightarrow> True)"
  by code_simp

lemma demo_commit:
  obtains report tx' where "CommitDesired mem_bolt 20 demo_incoming demo_outcomes demo_store = Inr (report, tx')"
  using demo_commit_ok by (auto simp: demo_committed_def split: sum.splits)

lemma demo_rows:
  "fenced mem_bolt demo_store ''f1''" "fence_owner mem_bolt demo_store ''f1'' = Some ''d1''"
  "bget mem_bolt demo_store bucketApplied ''f1'' = None"
  "bget mem_bolt demo_store bucketApplied ''f2'' =
     Some (RApplied \<lparr>arState = demo_state ''f2'' 1, arServingSpec = Some (demo_forward ''f2'' 1)\<rparr>)"
  by (simp_all add: fenced_def fence_owner_def mem_bolt_def demo_store_def demo_intent_def)

lemma demo_spec: "spec_for (spec_map (dsForwards demo_incoming)) ''f2'' = demo_forward ''f2'' 2"
  by (simp add: spec_for_def spec_map_def demo_incoming_def)

theorem commit_does_outcomes_witness:
  "\<exists>report tx'. CommitDesired mem_bolt 20 demo_incoming demo_outcomes demo_store = Inr (report, tx') \<and>
     reAppliedCount report = 1 \<and> reStatus report = ApplyStatusFull \<and>
     bget mem_bolt tx' bucketApplied ''f2'' =
       Some (RApplied \<lparr>arState = demo_state ''f2'' 2, arServingSpec = Some (demo_forward ''f2'' 2)\<rparr>)"
proof -
  obtain report tx' where c: "CommitDesired mem_bolt 20 demo_incoming demo_outcomes demo_store = Inr (report, tx')"
    by (rule demo_commit)
  from commit_does_outcomes [OF mem.bolt_db_axioms c] have "list_all (committed mem_bolt 20 demo_incoming demo_store tx') demo_outcomes"
    "reAppliedCount report = 1" "reStatus report = ApplyStatusFull"
    by (auto simp: demo_outcomes_def count_outcome_def)
  then show ?thesis using c by (auto simp: demo_outcomes_def committed_def demo_spec Let_def)
qed

theorem commit_never_resurrects_witness:
  "\<exists>report tx'. CommitDesired mem_bolt 20 demo_incoming demo_outcomes demo_store = Inr (report, tx') \<and>
     fenced mem_bolt tx' ''f1'' \<and> fence_owner mem_bolt tx' ''f1'' = Some ''d1'' \<and> bget mem_bolt tx' bucketApplied ''f1'' = None"
proof -
  obtain report tx' where c: "CommitDesired mem_bolt 20 demo_incoming demo_outcomes demo_store = Inr (report, tx')"
    by (rule demo_commit)
  from commit_never_resurrects [OF mem.bolt_db_axioms c demo_rows(1)] c show ?thesis by (auto simp: demo_rows)
qed

theorem commit_applied_monotone_witness:
  "\<exists>report tx' new. CommitDesired mem_bolt 20 demo_incoming demo_outcomes demo_store = Inr (report, tx') \<and>
     bget mem_bolt tx' bucketApplied ''f2'' = Some (RApplied new) \<and> 1 \<le> afSpecRevision (arState new)"
proof -
  obtain report tx' where c: "CommitDesired mem_bolt 20 demo_incoming demo_outcomes demo_store = Inr (report, tx')"
    by (rule demo_commit)
  have "committed mem_bolt 20 demo_incoming demo_store tx' (demo_outcomes ! 1)"
    by (rule mem.commit_committed [OF c]) (simp add: demo_outcomes_def)
  then obtain new where new: "bget mem_bolt tx' bucketApplied ''f2'' = Some (RApplied new)"
    by (auto simp: demo_outcomes_def committed_def Let_def)
  from commit_applied_monotone [OF mem.bolt_db_axioms c demo_rows(4) new] c new show ?thesis by auto
qed

end
