(* ===== verification/Agent_Probe_Store.thy ===== *)
theory Agent_Probe_Store
  imports Agent_Journal Agent_Applied
begin

text \<open>
  \<open>internal/agent/localstate/activation.go\<close> and \<open>probe.go\<close>: the durable activation mirrors and the durable
  armed probe operations with their replay fences. \<open>time.Time\<close> is nanoseconds since the Unix epoch,
  \<open>zeroTime\<close> is Go's zero time. The loops that iterate over a bucket run over the keys it had at the
  start of the loop.
\<close>

definition zeroTime :: int where
  "zeroTime = - 62135596800000000000"

section \<open>Activation mirrors\<close>

definition validateActivationSnapshot :: "crypto \<Rightarrow> string \<Rightarrow> ActivationSnapshot \<Rightarrow> store_error + unit" where
  "validateActivationSnapshot C key snapshot =
     (if asnForwardID snapshot = [] \<or> asnActivation snapshot = [] then Inl ErrRecord
      else if key \<noteq> [] \<and> asnForwardID snapshot \<noteq> key then Inl ErrRecord
      else if asnGeneration snapshot = 0 then Inl ErrRecord
      else if asnActivation snapshot \<noteq> EncodeToString (ActivationID C (asnForwardID snapshot) (asnGeneration snapshot))
        then Inl ErrRecord
      else case ActivationStates_Validate (asnStates snapshot) of
        Inl e \<Rightarrow> Inl (ErrDomain e)
      | Inr _ \<Rightarrow> Inr ())"

definition SaveActivationSnapshot :: "'tx bolt \<Rightarrow> crypto \<Rightarrow> ActivationSnapshot \<Rightarrow> 'tx \<Rightarrow> store_error + 'tx" where
  "SaveActivationSnapshot B C snapshot tx =
     andThen (validateActivationSnapshot C (asnForwardID snapshot) snapshot) (\<lambda>_.
     Put B tx bucketActivation (asnForwardID snapshot) (RSnapshot snapshot))"

definition decode_snapshot :: "crypto \<Rightarrow> string \<Rightarrow> row \<Rightarrow> store_error + ActivationSnapshot" where
  "decode_snapshot C key raw =
     (case raw of
        RSnapshot snapshot \<Rightarrow> andThen (validateActivationSnapshot C key snapshot) (\<lambda>_. Inr snapshot)
      | _ \<Rightarrow> Inl ErrDecode)"

definition LoadActivationSnapshot ::
  "'tx bolt \<Rightarrow> crypto \<Rightarrow> string \<Rightarrow> 'tx \<Rightarrow> store_error + ActivationSnapshot option" where
  "LoadActivationSnapshot B C forwardID tx =
     (if forwardID = [] then Inl ErrRequest
      else case bget B tx bucketActivation forwardID of
        None \<Rightarrow> Inr None
      | Some raw \<Rightarrow> andThen (decode_snapshot C forwardID raw) (\<lambda>s. Inr (Some s)))"

definition DeleteActivationSnapshot :: "'tx bolt \<Rightarrow> string \<Rightarrow> 'tx \<Rightarrow> store_error + 'tx" where
  "DeleteActivationSnapshot B forwardID tx =
     (if forwardID = [] then Inl ErrRequest else Inr (bdelete B tx bucketActivation forwardID))"

text \<open>The cursor position after \<open>Seek\<close> and the step over an equal key.\<close>

definition keys_after :: "bytes \<Rightarrow> bytes list \<Rightarrow> bytes list" where
  "keys_after after keys =
     (if after = [] then keys
      else let seek = dropWhile (\<lambda>k. k < after) keys
           in if seek \<noteq> [] \<and> hd seek = after then tl seek else seek)"

definition page_limit :: "int \<Rightarrow> nat" where
  "page_limit limit = (if limit \<le> 0 then 256 else nat limit)"

definition ListActivationSnapshotsPage ::
  "'tx bolt \<Rightarrow> crypto \<Rightarrow> int \<Rightarrow> string \<Rightarrow> 'tx \<Rightarrow> store_error + ActivationSnapshot list \<times> string" where
  "ListActivationSnapshotsPage B C limit after tx =
     (let keys = keys_after after (bkeys B tx bucketActivation); n = page_limit limit
      in andThen (foldE (\<lambda>out key.
             case bget B tx bucketActivation key of
               None \<Rightarrow> Inr out
             | Some raw \<Rightarrow> andThen (decode_snapshot C key raw) (\<lambda>s. Inr (out @ [s]))) [] (take n keys)) (\<lambda>out.
         Inr (out, if length out = n \<and> n < length keys then asnForwardID (last out) else [])))"

definition ListActivationSnapshots :: "'tx bolt \<Rightarrow> crypto \<Rightarrow> int \<Rightarrow> 'tx \<Rightarrow> store_error + ActivationSnapshot list" where
  "ListActivationSnapshots B C limit tx =
     andThen (ListActivationSnapshotsPage B C limit [] tx) (\<lambda>(out, _). Inr out)"

section \<open>Armed probe operations\<close>

definition defaultProbeScanLimit :: nat where "defaultProbeScanLimit = 256"
definition probeReceiptIndexPrefix :: string where "probeReceiptIndexPrefix = ''receipt/''"

definition probeReceiptIndexKey :: "string \<Rightarrow> bytes" where
  "probeReceiptIndexKey operationID = probeReceiptIndexPrefix @ operationID"

definition isProbeOperationKey :: "bytes \<Rightarrow> bool" where
  "isProbeOperationKey key \<longleftrightarrow> length key = 16 \<and> \<not> prefix probeReceiptIndexPrefix key"

text \<open>
  A fresh row. \<open>-time.Duration(arm.TTLMS) * time.Millisecond\<close> is computed in 64-bit arithmetic and read
  as a signed duration.
\<close>

definition armed_at :: "ProbeArm \<Rightarrow> int \<Rightarrow> int" where
  "armed_at arm deadline = (if armTTLMS arm > 0 then deadline + sint (- armTTLMS arm * 1000000) else zeroTime)"

definition new_probe :: "crypto \<Rightarrow> ProbeArm \<Rightarrow> string \<Rightarrow> int \<Rightarrow> ArmedProbe" where
  "new_probe C arm forwardID deadline =
     \<lparr>apArm = arm, apForwardID = forwardID, apDigest = ProbeArm_Digest C arm, apDeadline = deadline,
      apArmedAt = armed_at arm deadline, apConsumed = False, apReceipt = [], apReceiptSent = False,
      apChallengeHash = zeros 32, apACK = [], apACKSent = False, apReceiptAcknowledged = False,
      apReceiptMessageID = [], apReceiptDeadline = zeroTime\<rparr>"

text \<open>What may replace a stored operation: nothing consumed, and only the identical arm.\<close>

definition check_existing_probe :: "'tx bolt \<Rightarrow> 'tx \<Rightarrow> ArmedProbe \<Rightarrow> store_error + unit" where
  "check_existing_probe B tx fresh =
     (case bget B tx bucketProbeOps (armProbeID (apArm fresh)) of
        None \<Rightarrow> Inr ()
      | Some (RProbe existing) \<Rightarrow>
          if apConsumed existing then Inl ErrProbeConsumed
          else if apForwardID existing \<noteq> apForwardID fresh \<or> apDigest existing \<noteq> apDigest fresh \<or>
            ProbeArm_Canonical (apArm existing) \<noteq> ProbeArm_Canonical (apArm fresh) then Inl ErrProbeConflict
          else Inr ()
      | Some _ \<Rightarrow> Inl ErrDecode)"

definition SaveArmedProbeForForward ::
  "'tx bolt \<Rightarrow> crypto \<Rightarrow> ProbeArm \<Rightarrow> string \<Rightarrow> int \<Rightarrow> 'tx \<Rightarrow> store_error + 'tx" where
  "SaveArmedProbeForForward B C arm forwardID deadline tx =
     (let fresh = new_probe C arm forwardID deadline
      in andThen (check_existing_probe B tx fresh) (\<lambda>_.
         Put B tx bucketProbeOps (armProbeID arm) (RProbe fresh)))"

definition SaveArmedProbe :: "'tx bolt \<Rightarrow> crypto \<Rightarrow> ProbeArm \<Rightarrow> int \<Rightarrow> 'tx \<Rightarrow> store_error + 'tx" where
  "SaveArmedProbe B C arm deadline tx = SaveArmedProbeForForward B C arm [] deadline tx"

definition LoadArmedProbe :: "'tx bolt \<Rightarrow> bytes \<Rightarrow> 'tx \<Rightarrow> store_error + ArmedProbe option" where
  "LoadArmedProbe B probeID tx =
     (case bget B tx bucketProbeOps probeID of
        None \<Rightarrow> Inr None
      | Some (RProbe p) \<Rightarrow> Inr (Some p)
      | Some _ \<Rightarrow> Inl ErrDecode)"

definition CommitProbeAdmission ::
  "'tx bolt \<Rightarrow> crypto \<Rightarrow> string \<Rightarrow> u64 \<Rightarrow> string \<Rightarrow> ProbeArm \<Rightarrow> int \<Rightarrow> ActivationStates \<Rightarrow> ActivationStates \<Rightarrow>
   'tx \<Rightarrow> store_error + 'tx" where
  "CommitProbeAdmission B C forwardID expectedRevision activation arm deadline before after tx =
     (if forwardID = [] \<or> expectedRevision = 0 \<or> activation = [] then Inl ErrProbeAdmissionConflict
      else case ProbeArm_Validate arm of Inl e \<Rightarrow> Inl (ErrProbeFrame e) | Inr _ \<Rightarrow>
      case ActivationStates_Validate before of Inl e \<Rightarrow> Inl (ErrDomain e) | Inr _ \<Rightarrow>
      case ActivationStates_Validate after of Inl e \<Rightarrow> Inl (ErrDomain e) | Inr _ \<Rightarrow>
      let wantActivation = ActivationID C forwardID expectedRevision
      in if activation \<noteq> EncodeToString wantActivation \<or> armActivation arm \<noteq> wantActivation
           then Inl ErrProbeAdmissionConflict
         else let fresh = new_probe C arm forwardID deadline;
                  snapshot = \<lparr>asnForwardID = forwardID, asnActivation = activation, asnGeneration = expectedRevision,
                              asnStates = after\<rparr>
           in andThen (loadAppliedRecordTx B tx forwardID) (\<lambda>applied.
              if (case applied of None \<Rightarrow> True | Some a \<Rightarrow> afSpecRevision (asState a) \<noteq> expectedRevision)
                then Inl ErrProbeAdmissionConflict
              else andThen (case bget B tx bucketActivation forwardID of
                   None \<Rightarrow> Inr ()
                 | Some raw \<Rightarrow> andThen (decode_snapshot C forwardID raw) (\<lambda>old.
                     if asnActivation old \<noteq> activation \<or> asnGeneration old \<noteq> expectedRevision \<or> asnStates old \<noteq> before
                     then Inl ErrProbeAdmissionConflict else Inr ())) (\<lambda>_.
              andThen (check_existing_probe B tx fresh) (\<lambda>_.
              andThen (validateActivationSnapshot C forwardID snapshot) (\<lambda>_.
              andThen (Put B tx bucketActivation forwardID (RSnapshot snapshot)) (\<lambda>tx.
              Put B tx bucketProbeOps (armProbeID arm) (RProbe fresh)))))))"

definition DeleteArmedProbe :: "'tx bolt \<Rightarrow> bytes \<Rightarrow> 'tx \<Rightarrow> store_error + 'tx" where
  "DeleteArmedProbe B probeID tx =
     (case bget B tx bucketProbeOps probeID of
        None \<Rightarrow> Inr (bdelete B tx bucketProbeOps probeID)
      | Some (RProbe p) \<Rightarrow>
          let tx = (if apReceiptMessageID p \<noteq> [] then bdelete B tx bucketProbeOps (probeReceiptIndexKey (apReceiptMessageID p))
                    else tx)
          in Inr (bdelete B tx bucketProbeOps probeID)
      | Some _ \<Rightarrow> Inl ErrDecode)"

text \<open>The read of the row every marking transaction starts with.\<close>

definition load_probe :: "'tx bolt \<Rightarrow> 'tx \<Rightarrow> bytes \<Rightarrow> store_error + ArmedProbe" where
  "load_probe B tx probeID =
     (case bget B tx bucketProbeOps probeID of
        None \<Rightarrow> Inl ErrProbeNotFound
      | Some (RProbe p) \<Rightarrow> Inr p
      | Some _ \<Rightarrow> Inl ErrDecode)"

definition put_index :: "'tx bolt \<Rightarrow> string \<Rightarrow> bytes \<Rightarrow> 'tx \<Rightarrow> store_error + 'tx" where
  "put_index B messageID probeID tx =
     (if messageID \<noteq> [] then Put B tx bucketProbeOps (probeReceiptIndexKey messageID) (RBytes probeID) else Inr tx)"

definition MarkArmedProbeConsumedWithACK ::
  "'tx bolt \<Rightarrow> bytes \<Rightarrow> bytes \<Rightarrow> bytes \<Rightarrow> bytes \<Rightarrow> string \<Rightarrow> int \<Rightarrow> 'tx \<Rightarrow> store_error + 'tx" where
  "MarkArmedProbeConsumedWithACK B probeID receipt ack challengeHash receiptMessageID receiptDeadline tx =
     andThen (load_probe B tx probeID) (\<lambda>p.
     if apConsumed p then
       (if apReceiptMessageID p \<noteq> receiptMessageID \<or> apReceipt p \<noteq> receipt \<or> apACK p \<noteq> ack \<or>
           apChallengeHash p \<noteq> challengeHash then Inl ErrProbeConflict
        else Inr tx)
     else andThen (Put B tx bucketProbeOps probeID (RProbe (p\<lparr>apConsumed := True, apReceipt := receipt,
            apReceiptSent := False, apReceiptMessageID := receiptMessageID, apReceiptDeadline := receiptDeadline,
            apChallengeHash := challengeHash, apACK := ack, apACKSent := False\<rparr>))) (\<lambda>tx.
          put_index B receiptMessageID probeID tx))"

text \<open>The defaults both receipt setters share: an id or a deadline that is already there stays.\<close>

definition fill_receipt :: "string \<Rightarrow> int \<Rightarrow> ArmedProbe \<Rightarrow> ArmedProbe" where
  "fill_receipt messageID deadline p =
     (let p = (if apReceiptMessageID p = [] then p\<lparr>apReceiptMessageID := messageID\<rparr> else p)
      in if apReceiptDeadline p = zeroTime then p\<lparr>apReceiptDeadline := deadline\<rparr> else p)"

definition MarkArmedProbeConsumedWithReceipt ::
  "'tx bolt \<Rightarrow> bytes \<Rightarrow> bytes \<Rightarrow> string \<Rightarrow> int \<Rightarrow> 'tx \<Rightarrow> store_error + 'tx" where
  "MarkArmedProbeConsumedWithReceipt B probeID receipt receiptMessageID receiptDeadline tx =
     andThen (load_probe B tx probeID) (\<lambda>p.
     let p = (if \<not> apConsumed p
              then p\<lparr>apConsumed := True, apReceipt := receipt, apReceiptSent := False,
                     apReceiptMessageID := receiptMessageID, apReceiptDeadline := receiptDeadline\<rparr>
              else fill_receipt receiptMessageID receiptDeadline p)
     in andThen (Put B tx bucketProbeOps probeID (RProbe p)) (\<lambda>tx.
        put_index B (apReceiptMessageID p) probeID tx))"

definition MarkArmedProbeConsumed :: "'tx bolt \<Rightarrow> int \<Rightarrow> bytes \<Rightarrow> bytes \<Rightarrow> 'tx \<Rightarrow> store_error + 'tx" where
  "MarkArmedProbeConsumed B now probeID receipt tx =
     MarkArmedProbeConsumedWithReceipt B probeID receipt [] (now + ProbeReplayWindow) tx"

definition SetArmedProbeACK :: "'tx bolt \<Rightarrow> bytes \<Rightarrow> bytes \<Rightarrow> 'tx \<Rightarrow> store_error + 'tx" where
  "SetArmedProbeACK B probeID ack tx =
     andThen (load_probe B tx probeID) (\<lambda>p.
     if \<not> apConsumed p then Inl ErrProbeNotFound
     else Put B tx bucketProbeOps probeID (RProbe (p\<lparr>apACK := ack, apACKSent := False\<rparr>)))"

definition MarkArmedProbeACKSent :: "'tx bolt \<Rightarrow> bytes \<Rightarrow> 'tx \<Rightarrow> store_error + 'tx" where
  "MarkArmedProbeACKSent B probeID tx =
     andThen (load_probe B tx probeID) (\<lambda>p.
     Put B tx bucketProbeOps probeID (RProbe (p\<lparr>apACKSent := True\<rparr>)))"

definition MarkArmedProbeReceiptSent :: "'tx bolt \<Rightarrow> bytes \<Rightarrow> 'tx \<Rightarrow> store_error + 'tx" where
  "MarkArmedProbeReceiptSent B probeID tx =
     andThen (load_probe B tx probeID) (\<lambda>p.
     Put B tx bucketProbeOps probeID (RProbe (p\<lparr>apReceiptSent := True\<rparr>)))"

definition SetArmedProbeReceiptMessageID :: "'tx bolt \<Rightarrow> bytes \<Rightarrow> string \<Rightarrow> int \<Rightarrow> 'tx \<Rightarrow> store_error + 'tx" where
  "SetArmedProbeReceiptMessageID B probeID messageID deadline tx =
     andThen (load_probe B tx probeID) (\<lambda>p.
     let p = (if apConsumed p then fill_receipt messageID deadline p else p)
     in andThen (Put B tx bucketProbeOps probeID (RProbe p)) (\<lambda>tx.
        if apConsumed p then put_index B (apReceiptMessageID p) probeID tx else Inr tx))"

text \<open>\<open>security.MessageID\<close> (\<open>security/challenge.go\<close>).\<close>

definition MessageID :: "crypto \<Rightarrow> string \<Rightarrow> string \<Rightarrow> bytes" where
  "MessageID C operationID messageType =
     take 16 (sha256 C (''antinat-msgid-v1'' @ [char_of (0::nat)] @ operationID @ [char_of (0::nat)] @ messageType))"

definition receipt_matches :: "crypto \<Rightarrow> string \<Rightarrow> ArmedProbe \<Rightarrow> bool" where
  "receipt_matches C operationID p \<longleftrightarrow>
     (apConsumed p \<and> apReceiptMessageID p = operationID) \<or>
     (apConsumed p \<and> apReceipt p \<noteq> [] \<and>
      (let semanticID = EncodeToString (sha256 C (apReceipt p))
       in operationID = semanticID \<and>
          apReceiptMessageID p = EncodeToString (MessageID C semanticID ''probe_ingress_receipt'')))"

definition acknowledgeMatch ::
  "'tx bolt \<Rightarrow> crypto \<Rightarrow> string \<Rightarrow> bytes \<Rightarrow> row \<Rightarrow> 'tx \<Rightarrow> store_error + bool \<times> 'tx" where
  "acknowledgeMatch B C operationID probeID raw tx =
     (case raw of
        RProbe p \<Rightarrow>
          if \<not> receipt_matches C operationID p then Inr (False, tx)
          else andThen (Put B tx bucketProbeOps probeID (RProbe (p\<lparr>apReceiptAcknowledged := True\<rparr>))) (\<lambda>tx. Inr (True, tx))
      | _ \<Rightarrow> Inl ErrDecode)"

definition acknowledge_scan ::
  "'tx bolt \<Rightarrow> crypto \<Rightarrow> string \<Rightarrow> nat \<times> 'tx \<Rightarrow> bytes \<Rightarrow> store_error + nat \<times> 'tx" where
  "acknowledge_scan B C operationID acc k =
     (let (scanned, tx) = acc
      in if \<not> isProbeOperationKey k \<or> scanned \<ge> defaultProbeScanLimit then Inr (scanned, tx)
         else case bget B tx bucketProbeOps k of
           None \<Rightarrow> Inr (Suc scanned, tx)
         | Some raw \<Rightarrow> andThen (acknowledgeMatch B C operationID k raw tx) (\<lambda>(_, tx). Inr (Suc scanned, tx)))"

definition AcknowledgeArmedProbeReceipt :: "'tx bolt \<Rightarrow> crypto \<Rightarrow> string \<Rightarrow> 'tx \<Rightarrow> store_error + 'tx" where
  "AcknowledgeArmedProbeReceipt B C operationID tx =
     andThen (case bget B tx bucketProbeOps (probeReceiptIndexKey operationID) of
         Some (RBytes probeID) \<Rightarrow>
           if length probeID = 16 then
             (case bget B tx bucketProbeOps probeID of
                None \<Rightarrow> Inr (False, tx)
              | Some raw \<Rightarrow> acknowledgeMatch B C operationID probeID raw tx)
           else Inr (False, tx)
       | _ \<Rightarrow> Inr (False, tx)) (\<lambda>(matched, tx).
     if matched then Inr tx
     else andThen (foldE (acknowledge_scan B C operationID) (0, tx) (bkeys B tx bucketProbeOps)) (\<lambda>(_, tx). Inr tx))"

section \<open>Sweeping and listing\<close>

definition expired_probe :: "int \<Rightarrow> ArmedProbe \<Rightarrow> bool" where
  "expired_probe now p \<longleftrightarrow>
     (\<not> apConsumed p \<and> \<not> now < apDeadline p) \<or>
     (apConsumed p \<and> apReceiptDeadline p \<noteq> zeroTime \<and> \<not> now < apReceiptDeadline p)"

text \<open>The cursor loop: the rows to remove and, when the page is full, the cursor of the next page.\<close>

fun sweep_scan ::
  "'tx bolt \<Rightarrow> 'tx \<Rightarrow> int \<Rightarrow> nat \<Rightarrow> nat \<Rightarrow> bytes \<Rightarrow> bytes list \<Rightarrow> bytes list \<Rightarrow> store_error + bytes option \<times> bytes list" where
  "sweep_scan B tx now limit scanned lastKey remove [] = Inr (None, remove)"
| "sweep_scan B tx now limit scanned lastKey remove (key # keys) =
     (if \<not> isProbeOperationKey key then sweep_scan B tx now limit scanned lastKey remove keys
      else if scanned \<ge> limit then Inr (Some lastKey, remove)
      else case bget B tx bucketProbeOps key of
        Some (RProbe p) \<Rightarrow>
          sweep_scan B tx now limit (Suc scanned) key (if expired_probe now p then remove @ [key] else remove) keys
      | _ \<Rightarrow> Inl ErrDecode)"

definition SweepArmedProbeTombstonesPage ::
  "'tx bolt \<Rightarrow> int \<Rightarrow> int \<Rightarrow> bytes \<Rightarrow> 'tx \<Rightarrow> store_error + (bytes \<times> bool) \<times> 'tx" where
  "SweepArmedProbeTombstonesPage B now limit after tx =
     andThen (sweep_scan B tx now (page_limit limit) 0 [] [] (keys_after after (bkeys B tx bucketProbeOps))) (\<lambda>(next', remove).
     andThen (foldE (\<lambda>tx k. DeleteArmedProbe B k tx) tx remove) (\<lambda>tx.
     Inr ((case next' of None \<Rightarrow> ([], True) | Some k \<Rightarrow> (k, False)), tx)))"

definition SweepArmedProbeTombstonesLimit :: "'tx bolt \<Rightarrow> int \<Rightarrow> int \<Rightarrow> 'tx \<Rightarrow> store_error + 'tx" where
  "SweepArmedProbeTombstonesLimit B now limit tx =
     andThen (SweepArmedProbeTombstonesPage B now limit [] tx) (\<lambda>(_, tx). Inr tx)"

definition SweepArmedProbeTombstones :: "'tx bolt \<Rightarrow> int \<Rightarrow> 'tx \<Rightarrow> store_error + 'tx" where
  "SweepArmedProbeTombstones B now tx = SweepArmedProbeTombstonesLimit B now (int defaultProbeScanLimit) tx"

fun list_scan ::
  "'tx bolt \<Rightarrow> 'tx \<Rightarrow> nat \<Rightarrow> ArmedProbe list \<Rightarrow> bytes \<Rightarrow> bytes list \<Rightarrow> store_error + ArmedProbe list \<times> bytes option" where
  "list_scan B tx limit out lastKey [] = Inr (out, None)"
| "list_scan B tx limit out lastKey (key # keys) =
     (if \<not> isProbeOperationKey key then list_scan B tx limit out lastKey keys
      else if length out \<ge> limit then Inr (out, Some lastKey)
      else case bget B tx bucketProbeOps key of
        Some (RProbe p) \<Rightarrow> list_scan B tx limit (out @ [p]) key keys
      | _ \<Rightarrow> Inl ErrDecode)"

definition ListArmedProbesPage ::
  "'tx bolt \<Rightarrow> int \<Rightarrow> bytes \<Rightarrow> 'tx \<Rightarrow> store_error + ArmedProbe list \<times> bytes \<times> bool" where
  "ListArmedProbesPage B limit after tx =
     andThen (list_scan B tx (page_limit limit) [] [] (keys_after after (bkeys B tx bucketProbeOps))) (\<lambda>(out, next').
     Inr (out, case next' of None \<Rightarrow> ([], True) | Some k \<Rightarrow> (k, False)))"

definition list_row ::
  "'tx bolt \<Rightarrow> 'tx \<Rightarrow> nat \<Rightarrow> nat \<times> ArmedProbe list \<Rightarrow> bytes \<Rightarrow> store_error + nat \<times> ArmedProbe list" where
  "list_row B tx limit acc key =
     (let (scanned, out) = acc
      in if \<not> isProbeOperationKey key \<or> scanned \<ge> limit then Inr (scanned, out)
         else case bget B tx bucketProbeOps key of
           Some (RProbe p) \<Rightarrow> Inr (Suc scanned, out @ [p])
         | _ \<Rightarrow> Inl ErrDecode)"

definition ListArmedProbesLimit :: "'tx bolt \<Rightarrow> int \<Rightarrow> 'tx \<Rightarrow> store_error + ArmedProbe list" where
  "ListArmedProbesLimit B limit tx =
     andThen (foldE (list_row B tx (page_limit limit)) (0, []) (bkeys B tx bucketProbeOps)) (\<lambda>(_, out). Inr out)"

definition ListArmedProbes :: "'tx bolt \<Rightarrow> 'tx \<Rightarrow> store_error + ArmedProbe list" where
  "ListArmedProbes B tx = ListArmedProbesLimit B (int defaultProbeScanLimit) tx"

end
