(* ===== verification/Agent_Probe_Store_Props.thy ===== *)
theory Agent_Probe_Store_Props
  imports Agent_Probe_Store Agent_Probe_Agent Agent_Applied_Props
begin

text \<open>
  What the durable probe operations promise: a consumed operation is a replay fence until its receipt
  deadline, and an admission is all or nothing.
\<close>

section \<open>The operations\<close>

datatype probe_op =
  PSave ProbeArm string int
| PAdmit string u64 string ProbeArm int ActivationStates ActivationStates
| PDelete bytes
| PConsumeACK bytes bytes bytes bytes string int
| PConsume bytes bytes string int
| PSetACK bytes bytes
| PACKSent bytes
| PReceiptSent bytes
| PSetMessageID bytes string int
| PAcknowledge string
| PSweep int int bytes

fun exec_probe :: "'tx bolt \<Rightarrow> crypto \<Rightarrow> probe_op \<Rightarrow> 'tx \<Rightarrow> store_error + 'tx" where
  "exec_probe B C (PSave arm f d) tx = SaveArmedProbeForForward B C arm f d tx"
| "exec_probe B C (PAdmit f r a arm d b a') tx = CommitProbeAdmission B C f r a arm d b a' tx"
| "exec_probe B C (PDelete k) tx = DeleteArmedProbe B k tx"
| "exec_probe B C (PConsumeACK k r a h m d) tx = MarkArmedProbeConsumedWithACK B k r a h m d tx"
| "exec_probe B C (PConsume k r m d) tx = MarkArmedProbeConsumedWithReceipt B k r m d tx"
| "exec_probe B C (PSetACK k a) tx = SetArmedProbeACK B k a tx"
| "exec_probe B C (PACKSent k) tx = MarkArmedProbeACKSent B k tx"
| "exec_probe B C (PReceiptSent k) tx = MarkArmedProbeReceiptSent B k tx"
| "exec_probe B C (PSetMessageID k m d) tx = SetArmedProbeReceiptMessageID B k m d tx"
| "exec_probe B C (PAcknowledge i) tx = AcknowledgeArmedProbeReceipt B C i tx"
| "exec_probe B C (PSweep now l a) tx = andThen (SweepArmedProbeTombstonesPage B now l a tx) (\<lambda>(_, tx). Inr tx)"

text \<open>A transaction that fails is rolled back.\<close>

definition try_probe :: "'tx bolt \<Rightarrow> crypto \<Rightarrow> 'tx \<Rightarrow> probe_op \<Rightarrow> 'tx" where
  "try_probe B C tx op = (case exec_probe B C op tx of Inl _ \<Rightarrow> tx | Inr tx' \<Rightarrow> tx')"

text \<open>Neither deleting the operation nor sweeping past its receipt deadline.\<close>

fun spares :: "bytes \<Rightarrow> int \<Rightarrow> probe_op \<Rightarrow> bool" where
  "spares k d (PDelete k') = (k' \<noteq> k)"
| "spares k d (PSweep now l a) = (now < d)"
| "spares k d _ = True"

section \<open>The fence\<close>

text \<open>The row at \<open>k\<close> is a consumed operation with the evidence of \<open>p\<close>.\<close>

definition fence_row :: "'tx bolt \<Rightarrow> bytes \<Rightarrow> ArmedProbe \<Rightarrow> 'tx \<Rightarrow> bool" where
  "fence_row B k p tx \<longleftrightarrow>
     (\<exists>q. bget B tx bucketProbeOps k = Some (RProbe q) \<and> apConsumed q \<and> apArm q = apArm p \<and> apDigest q = apDigest p \<and>
        apForwardID q = apForwardID p \<and> apReceipt q = apReceipt p \<and> apChallengeHash q = apChallengeHash p \<and>
        apReceiptDeadline q = apReceiptDeadline p)"

lemma index_key_other: "isProbeOperationKey k \<Longrightarrow> probeReceiptIndexKey m \<noteq> k"
  by (auto simp: isProbeOperationKey_def probeReceiptIndexKey_def)

lemma load_probe_Inr: "load_probe B tx k = Inr p \<longleftrightarrow> bget B tx bucketProbeOps k = Some (RProbe p)"
  by (auto simp: load_probe_def split: option.splits row.splits)

lemma fence_frame_row:
  "bget B tx' bucketProbeOps k = bget B tx bucketProbeOps k \<Longrightarrow> fence_row B k p tx' = fence_row B k p tx"
  by (simp add: fence_row_def)

lemma sweep_scan_remove:
  "sweep_scan B tx now limit n l rem keys = Inr (nx, rem') \<Longrightarrow> k \<in> set rem' \<Longrightarrow>
   k \<in> set rem \<or> (\<exists>p. bget B tx bucketProbeOps k = Some (RProbe p) \<and> expired_probe now p)"
proof (induction B tx now limit n l rem keys rule: sweep_scan.induct)
  case (2 B tx now limit scanned lastKey remove key keys)
  then show ?case
    by (auto split: if_splits option.splits row.splits)
qed simp

lemma check_existing_fence:
  assumes "fence_row B k p tx" and "armProbeID (apArm fresh) = k"
  shows "check_existing_probe B tx fresh = Inl ErrProbeConsumed"
  using assms by (auto simp: fence_row_def check_existing_probe_def)

text \<open>What a marking transaction may do to a consumed row.\<close>

definition keeps_evidence :: "(ArmedProbe \<Rightarrow> ArmedProbe) \<Rightarrow> bool" where
  "keeps_evidence g \<longleftrightarrow>
     (\<forall>q. apConsumed q \<longrightarrow> apConsumed (g q) \<and> apArm (g q) = apArm q \<and> apDigest (g q) = apDigest q \<and>
        apForwardID (g q) = apForwardID q \<and> apReceipt (g q) = apReceipt q \<and> apChallengeHash (g q) = apChallengeHash q \<and>
        (apReceiptDeadline q \<noteq> zeroTime \<longrightarrow> apReceiptDeadline (g q) = apReceiptDeadline q))"

lemma put_index_if: "(if c then put_index B m i tx else Inr tx) = put_index B (if c then m else []) i tx"
  by (simp add: put_index_def)

lemma admission_row:
  assumes "CommitProbeAdmission B C f r a arm d b a' tx = Inr tx'"
  shows "tx' = bput B (bput B tx bucketActivation f (RSnapshot \<lparr>asnForwardID = f, asnActivation = a, asnGeneration = r,
      asnStates = a'\<rparr>)) bucketProbeOps (armProbeID arm) (RProbe (new_probe C arm f d))"
    and "check_existing_probe B tx (new_probe C arm f d) = Inr ()"
  using assms by (auto simp: CommitProbeAdmission_def Let_def split: if_splits sum.splits)

lemma admission_before:
  assumes "CommitProbeAdmission B C f r a arm d before after tx = Inr tx'"
  shows "bget B tx bucketActivation f = None \<or>
    bget B tx bucketActivation f = Some (RSnapshot \<lparr>asnForwardID = f, asnActivation = a, asnGeneration = r, asnStates = before\<rparr>)"
proof (cases "bget B tx bucketActivation f")
  case (Some raw)
  with assms obtain old where old: "decode_snapshot C f raw = Inr old" "asnActivation old = a" "asnGeneration old = r"
    "asnStates old = before" and "f \<noteq> []"
    by (auto simp: CommitProbeAdmission_def Let_def split: if_splits sum.splits option.splits)
  from old(1) \<open>f \<noteq> []\<close> have "raw = RSnapshot old" "asnForwardID old = f"
    by (cases raw; simp add: decode_snapshot_def validateActivationSnapshot_def split: if_splits)+
  with Some old show ?thesis by (cases old) simp
qed simp

context bolt_db
begin

lemma put_index_row:
  assumes "put_index B m i tx = Inr tx'" and "isProbeOperationKey k"
  shows "bget B tx' bucketProbeOps k = bget B tx bucketProbeOps k"
  using assms index_key_other [OF assms(2), of m] by (auto simp: put_index_def get_put split: if_splits)

text \<open>Writing a row keeps the fence when the new row carries the old evidence.\<close>

lemma put_fence:
  assumes "fence_row B k p tx"
    and "i = k \<Longrightarrow> apConsumed q \<and> apArm q = apArm p \<and> apDigest q = apDigest p \<and> apForwardID q = apForwardID p \<and>
      apReceipt q = apReceipt p \<and> apChallengeHash q = apChallengeHash p \<and> apReceiptDeadline q = apReceiptDeadline p"
  shows "fence_row B k p (bput B tx bucketProbeOps i (RProbe q))"
  using assms by (auto simp: fence_row_def get_put)

lemma delete_fence:
  assumes "DeleteArmedProbe B i tx = Inr tx'" and "fence_row B k p tx" and "i \<noteq> k" and "isProbeOperationKey k"
  shows "fence_row B k p tx'"
proof -
  have idx: "(k = probeReceiptIndexKey m) = False" for m
    using index_key_other [OF assms(4), of m] by auto
  have "bget B tx' bucketProbeOps k = bget B tx bucketProbeOps k"
  proof (cases "bget B tx bucketProbeOps i")
    case None
    with assms(1) have "tx' = bdelete B tx bucketProbeOps i" by (simp add: DeleteArmedProbe_def)
    with assms(3) show ?thesis by (simp add: get_delete)
  next
    case (Some raw)
    with assms(1) obtain q where "raw = RProbe q" by (cases raw) (auto simp: DeleteArmedProbe_def)
    with assms(1) Some have "tx' = bdelete B (if apReceiptMessageID q \<noteq> [] then
        bdelete B tx bucketProbeOps (probeReceiptIndexKey (apReceiptMessageID q)) else tx) bucketProbeOps i"
      by (simp add: DeleteArmedProbe_def Let_def)
    with assms(3) show ?thesis by (simp add: get_delete idx)
  qed
  from fence_frame_row [OF this] assms(2) show ?thesis by blast
qed

lemma delete_all_fence:
  assumes "foldE (\<lambda>tx i. DeleteArmedProbe B i tx) tx is = Inr tx'" and "fence_row B k p tx" and "k \<notin> set is"
    and "isProbeOperationKey k"
  shows "fence_row B k p tx'"
  using assms(1,2) by (rule foldE_invariant) (use assms(3,4) delete_fence in blast)

lemma ack_match_fence:
  assumes "acknowledgeMatch B C i j raw tx = Inr (b, tx')" and "bget B tx bucketProbeOps j = Some raw" and "fence_row B k p tx"
  shows "fence_row B k p tx'"
  using assms
  by (cases raw) (auto simp: acknowledgeMatch_def fence_row_def get_put split: if_splits)

lemma ack_scan_fence:
  assumes "acknowledge_scan B C i (n, tx) j = Inr (n', tx')" and "fence_row B k p tx"
  shows "fence_row B k p tx'"
  using assms ack_match_fence [of C i j _ tx _ tx' k p]
  by (auto simp: acknowledge_scan_def split: if_splits option.splits)

lemma acknowledge_fence:
  assumes "AcknowledgeArmedProbeReceipt B C i tx = Inr tx'" and "fence_row B k p tx"
  shows "fence_row B k p tx'"
proof -
  from assms(1) obtain matched tx1 where one: "(case bget B tx bucketProbeOps (probeReceiptIndexKey i) of
         Some (RBytes probeID) \<Rightarrow>
           if length probeID = 16 then
             (case bget B tx bucketProbeOps probeID of
                None \<Rightarrow> Inr (False, tx)
              | Some raw \<Rightarrow> acknowledgeMatch B C i probeID raw tx)
           else Inr (False, tx)
       | _ \<Rightarrow> Inr (False, tx)) = Inr (matched, tx1)"
    and two: "(if matched then Inr tx1
       else andThen (foldE (acknowledge_scan B C i) (0, tx1) (bkeys B tx1 bucketProbeOps)) (\<lambda>(_, tx). Inr tx)) = Inr tx'"
    by (auto simp: AcknowledgeArmedProbeReceipt_def)
  have f1: "fence_row B k p tx1"
    using one ack_match_fence [of C i _ _ tx matched tx1 k p] assms(2)
    by (auto split: option.splits row.splits if_splits)
  show ?thesis
  proof (cases matched)
    case True
    with two f1 show ?thesis by simp
  next
    case False
    with two obtain n where "foldE (acknowledge_scan B C i) (0, tx1) (bkeys B tx1 bucketProbeOps) = Inr (n, tx')" by auto
    then have "fence_row B k p (snd (n, tx'))"
      by (rule foldE_invariant [where I = "\<lambda>s. fence_row B k p (snd s)"]) (use f1 ack_scan_fence in auto)
    then show ?thesis by simp
  qed
qed

lemma sweep_fence:
  assumes "SweepArmedProbeTombstonesPage B now l a tx = Inr (r, tx')" and "fence_row B k p tx" and "isProbeOperationKey k"
    and "now < apReceiptDeadline p"
  shows "fence_row B k p tx'"
proof -
  from assms(1) obtain nx rem where scan: "sweep_scan B tx now (page_limit l) 0 [] [] (keys_after a (bkeys B tx bucketProbeOps)) = Inr (nx, rem)"
    and del: "foldE (\<lambda>tx i. DeleteArmedProbe B i tx) tx rem = Inr tx'"
    by (auto simp: SweepArmedProbeTombstonesPage_def)
  have "k \<notin> set rem"
    using sweep_scan_remove [OF scan, of k] assms(2,4) by (auto simp: fence_row_def expired_probe_def)
  from delete_all_fence [OF del assms(2) this assms(3)] show ?thesis .
qed

text \<open>The transactions that rewrite one row.\<close>

lemma save_fence:
  assumes "SaveArmedProbeForForward B C arm f d tx = Inr tx'" and "fence_row B k p tx"
  shows "fence_row B k p tx'"
proof (cases "armProbeID arm = k")
  case True
  with check_existing_fence [OF assms(2), of "new_probe C arm f d"] assms(1) show ?thesis
    by (simp add: SaveArmedProbeForForward_def new_probe_def Let_def)
next
  case False
  from assms(1) have tx': "tx' = bput B tx bucketProbeOps (armProbeID arm) (RProbe (new_probe C arm f d))"
    by (auto simp: SaveArmedProbeForForward_def Let_def)
  show ?thesis unfolding tx' using False by (intro put_fence [OF assms(2)]) simp
qed

lemma mark_fence:
  assumes "andThen (load_probe B tx i) (\<lambda>q. Put B tx bucketProbeOps i (RProbe (g q))) = Inr tx'"
    and "fence_row B k p tx"
    and "\<And>q. apConsumed q \<Longrightarrow> apConsumed (g q) \<and> apArm (g q) = apArm q \<and> apDigest (g q) = apDigest q \<and>
      apForwardID (g q) = apForwardID q \<and> apReceipt (g q) = apReceipt q \<and> apChallengeHash (g q) = apChallengeHash q \<and>
      (apReceiptDeadline q \<noteq> zeroTime \<longrightarrow> apReceiptDeadline (g q) = apReceiptDeadline q)"
    and "apReceiptDeadline p \<noteq> zeroTime"
  shows "fence_row B k p tx'"
proof -
  from assms(1) obtain q where q: "bget B tx bucketProbeOps i = Some (RProbe q)"
    and tx': "tx' = bput B tx bucketProbeOps i (RProbe (g q))" by (auto simp: load_probe_Inr)
  show ?thesis unfolding tx'
  proof (rule put_fence [OF assms(2)])
    assume "i = k"
    with q assms(2) have "apConsumed q \<and> apArm q = apArm p \<and> apDigest q = apDigest p \<and> apForwardID q = apForwardID p \<and>
      apReceipt q = apReceipt p \<and> apChallengeHash q = apChallengeHash p \<and> apReceiptDeadline q = apReceiptDeadline p"
      by (auto simp: fence_row_def)
    with assms(3) [of q] assms(4)
    show "apConsumed (g q) \<and> apArm (g q) = apArm p \<and> apDigest (g q) = apDigest p \<and> apForwardID (g q) = apForwardID p \<and>
      apReceipt (g q) = apReceipt p \<and> apChallengeHash (g q) = apChallengeHash p \<and> apReceiptDeadline (g q) = apReceiptDeadline p"
      by simp
  qed
qed


lemma admission_fence:
  assumes "CommitProbeAdmission B C f r a arm d b a' tx = Inr tx'" and "fence_row B k p tx"
  shows "fence_row B k p tx'"
proof -
  have "armProbeID arm \<noteq> k"
    using check_existing_fence [OF assms(2), of "new_probe C arm f d"] admission_row(2) [OF assms(1)]
    by (auto simp: new_probe_def)
  then have "bget B tx' bucketProbeOps k = bget B tx bucketProbeOps k"
    unfolding admission_row(1) [OF assms(1)] by (simp add: get_put)
  from fence_frame_row [OF this] assms(2) show ?thesis by blast
qed

lemma index_fence:
  assumes "put_index B m i tx = Inr tx'" and "fence_row B k p tx" and "isProbeOperationKey k"
  shows "fence_row B k p tx'"
  using fence_frame_row [OF put_index_row [OF assms(1,3)]] assms(2) by blast

lemma consume_ack_fence:
  assumes "MarkArmedProbeConsumedWithACK B i r a h m d tx = Inr tx'" and "fence_row B k p tx" and "isProbeOperationKey k"
  shows "fence_row B k p tx'"
proof -
  from assms(1) obtain q where q: "bget B tx bucketProbeOps i = Some (RProbe q)"
    by (auto simp: MarkArmedProbeConsumedWithACK_def load_probe_Inr)
  show ?thesis
  proof (cases "apConsumed q")
    case True
    with assms(1) q have "tx' = tx"
      by (auto simp: MarkArmedProbeConsumedWithACK_def load_probe_def split: if_splits)
    with assms(2) show ?thesis by simp
  next
    case False
    with assms(2) q have "i \<noteq> k" by (auto simp: fence_row_def)
    from assms(1) q False have "put_index B m i (bput B tx bucketProbeOps i (RProbe (q\<lparr>apConsumed := True, apReceipt := r,
            apReceiptSent := False, apReceiptMessageID := m, apReceiptDeadline := d,
            apChallengeHash := h, apACK := a, apACKSent := False\<rparr>))) = Inr tx'"
      by (simp add: MarkArmedProbeConsumedWithACK_def load_probe_def)
    then show ?thesis
      by (rule index_fence) (use put_fence [OF assms(2)] \<open>i \<noteq> k\<close> assms(3) in blast)+
  qed
qed


lemma mark_index_fence:
  assumes "andThen (load_probe B tx i) (\<lambda>q. andThen (Put B tx bucketProbeOps i (RProbe (g q))) (\<lambda>tx. put_index B (h q) i tx)) = Inr tx'"
    and "fence_row B k p tx" and "isProbeOperationKey k" and "apReceiptDeadline p \<noteq> zeroTime" and "keeps_evidence g"
  shows "fence_row B k p tx'"
proof -
  from assms(1) obtain q tx1 where "load_probe B tx i = Inr q" "Put B tx bucketProbeOps i (RProbe (g q)) = Inr tx1"
    and idx: "put_index B (h q) i tx1 = Inr tx'" by (auto simp del: Put_Inr)
  then have "andThen (load_probe B tx i) (\<lambda>q. Put B tx bucketProbeOps i (RProbe (g q))) = Inr tx1" by simp
  then have "fence_row B k p tx1"
    by (rule mark_fence [OF _ assms(2) _ assms(4)]) (use assms(5) in \<open>auto simp: keeps_evidence_def\<close>)
  from index_fence [OF idx this assms(3)] show ?thesis .
qed

lemma exec_probe_fence:
  assumes "exec_probe B C op tx = Inr tx'" and "fence_row B k p tx" and "isProbeOperationKey k"
    and "apReceiptDeadline p \<noteq> zeroTime" and "spares k (apReceiptDeadline p) op"
  shows "fence_row B k p tx'"
proof (cases op)
  case (PConsume i r m d)
  let ?g = "\<lambda>q. if \<not> apConsumed q then q\<lparr>apConsumed := True, apReceipt := r, apReceiptSent := False,
                     apReceiptMessageID := m, apReceiptDeadline := d\<rparr> else fill_receipt m d q"
  have "keeps_evidence ?g" by (simp add: keeps_evidence_def fill_receipt_def Let_def)
  moreover from assms(1) PConsume have "andThen (load_probe B tx i) (\<lambda>q. andThen (Put B tx bucketProbeOps i (RProbe (?g q)))
      (\<lambda>tx. put_index B (apReceiptMessageID (?g q)) i tx)) = Inr tx'"
    by (simp only: exec_probe.simps MarkArmedProbeConsumedWithReceipt_def Let_def)
  ultimately show ?thesis
    using mark_index_fence [where g = ?g and h = "\<lambda>q. apReceiptMessageID (?g q)", OF _ assms(2,3,4)] by blast
next
  case (PSetMessageID i m d)
  let ?g = "\<lambda>q. if apConsumed q then fill_receipt m d q else q"
  have "keeps_evidence ?g" by (simp add: keeps_evidence_def fill_receipt_def Let_def)
  moreover from assms(1) PSetMessageID have "andThen (load_probe B tx i) (\<lambda>q. andThen (Put B tx bucketProbeOps i (RProbe (?g q)))
      (\<lambda>tx. put_index B (if apConsumed (?g q) then apReceiptMessageID (?g q) else []) i tx)) = Inr tx'"
    by (simp only: exec_probe.simps SetArmedProbeReceiptMessageID_def Let_def put_index_if)
  ultimately show ?thesis
    using mark_index_fence [where g = ?g and h = "\<lambda>q. if apConsumed (?g q) then apReceiptMessageID (?g q) else []",
      OF _ assms(2,3,4)] by blast
next
  case (PSetACK i a)
  with assms(1) have "andThen (load_probe B tx i) (\<lambda>q. Put B tx bucketProbeOps i (RProbe (q\<lparr>apACK := a, apACKSent := False\<rparr>))) = Inr tx'"
    by (auto simp: SetArmedProbeACK_def split: if_splits)
  then show ?thesis by (rule mark_fence [OF _ assms(2) _ assms(4)]) simp
next
  case (PACKSent i)
  with assms(1) have "andThen (load_probe B tx i) (\<lambda>q. Put B tx bucketProbeOps i (RProbe (q\<lparr>apACKSent := True\<rparr>))) = Inr tx'"
    by (simp only: exec_probe.simps MarkArmedProbeACKSent_def)
  then show ?thesis by (rule mark_fence [OF _ assms(2) _ assms(4)]) simp
next
  case (PReceiptSent i)
  with assms(1) have "andThen (load_probe B tx i) (\<lambda>q. Put B tx bucketProbeOps i (RProbe (q\<lparr>apReceiptSent := True\<rparr>))) = Inr tx'"
    by (simp only: exec_probe.simps MarkArmedProbeReceiptSent_def)
  then show ?thesis by (rule mark_fence [OF _ assms(2) _ assms(4)]) simp
next
  case (PSweep now l a)
  with assms(1) obtain r where "SweepArmedProbeTombstonesPage B now l a tx = Inr (r, tx')" by auto
  from sweep_fence [OF this assms(2,3)] PSweep assms(5) show ?thesis by simp
next
  case (PAcknowledge i)
  with assms(1) acknowledge_fence [OF _ assms(2)] show ?thesis by simp
next
  case (PDelete i)
  with assms(1,5) delete_fence [OF _ assms(2) _ assms(3)] show ?thesis by simp
next
  case PSave
  with assms(1) save_fence [OF _ assms(2)] show ?thesis by simp
next
  case PAdmit
  with assms(1) admission_fence [OF _ assms(2)] show ?thesis by simp
next
  case PConsumeACK
  with assms(1) consume_ack_fence [OF _ assms(2,3)] show ?thesis by simp
qed

lemma run_probe_fence:
  assumes "fence_row B k p tx" and "isProbeOperationKey k" and "apReceiptDeadline p \<noteq> zeroTime"
    and "list_all (spares k (apReceiptDeadline p)) ops"
  shows "fence_row B k p (foldl (try_probe B C) tx ops)"
  using assms(1,4)
proof (induction ops arbitrary: tx)
  case (Cons op ops)
  have "fence_row B k p (try_probe B C tx op)"
    using exec_probe_fence [OF _ Cons.prems(1) assms(2,3), of C op] Cons.prems
    by (auto simp: try_probe_def split: sum.split)
  with Cons show ?case by simp
qed simp

end

section \<open>Properties\<close>

text \<open>
  C35: a consumed probe operation is a durable replay fence. Whatever sequence of probe transactions runs
  after it (failed ones rolled back), as long as none deletes that operation and no sweep runs at or
  after its receipt deadline, its row stays consumed with the same arm, digest, Forward, receipt,
  challenge and deadline, and arming the same probe id again is refused with \<open>ErrProbeConsumed\<close>, and
  so is every admission of it.
\<close>
theorem consumed_probe_fence:
  assumes "bolt_db B" and "isProbeOperationKey k" and "bget B tx bucketProbeOps k = Some (RProbe p)" and "apConsumed p"
    and "apReceiptDeadline p \<noteq> zeroTime" and "list_all (spares k (apReceiptDeadline p)) ops"
    and "armProbeID arm = k"
  shows "fence_row B k p (foldl (try_probe B C) tx ops) \<and>
    SaveArmedProbeForForward B C arm f d (foldl (try_probe B C) tx ops) = Inl ErrProbeConsumed \<and>
    CommitProbeAdmission B C f r a arm d b a' (foldl (try_probe B C) tx ops) \<noteq> Inr tx'"
proof -
  have "fence_row B k p tx" using assms(3,4) by (simp add: fence_row_def)
  then have f: "fence_row B k p (foldl (try_probe B C) tx ops)"
    using assms(2,5,6) by (rule bolt_db.run_probe_fence [OF assms(1)])
  have e: "check_existing_probe B (foldl (try_probe B C) tx ops) (new_probe C arm f d) = Inl ErrProbeConsumed"
    by (rule check_existing_fence [OF f]) (simp add: new_probe_def assms(7))
  moreover have "CommitProbeAdmission B C f r a arm d b a' (foldl (try_probe B C) tx ops) \<noteq> Inr tx'"
    using admission_row(2) [of B C f r a arm d b a' "foldl (try_probe B C) tx ops" tx'] e by auto
  ultimately show ?thesis using f by (simp add: SaveArmedProbeForForward_def)
qed

text \<open>
  An admission is a compare-and-swap of two rows. It commits only for the revision the applied row has
  and only over the activation mirror the caller saw (or none); then the new mirror and the unconsumed
  operation load back as written, and every other row of the store is what it was.
\<close>
theorem probe_admission_atomic:
  assumes "bolt_db B" and "CommitProbeAdmission B C f r a arm d before after tx = Inr tx'"
  shows "(\<exists>applied. loadAppliedRecordTx B tx f = Inr (Some applied) \<and> afSpecRevision (asState applied) = r) \<and>
    bget B tx bucketActivation f \<in>
      {None, Some (RSnapshot \<lparr>asnForwardID = f, asnActivation = a, asnGeneration = r, asnStates = before\<rparr>)} \<and>
    LoadActivationSnapshot B C f tx' = Inr (Some \<lparr>asnForwardID = f, asnActivation = a, asnGeneration = r, asnStates = after\<rparr>) \<and>
    LoadArmedProbe B (armProbeID arm) tx' = Inr (Some (new_probe C arm f d)) \<and>
    (\<forall>b k. (b, k) \<noteq> (bucketActivation, f) \<and> (b, k) \<noteq> (bucketProbeOps, armProbeID arm) \<longrightarrow> bget B tx' b k = bget B tx b k)"
proof -
  note row = admission_row [OF assms(2)] and db = bolt_db.get_put [OF assms(1)]
  have guard: "f \<noteq> []" and applied: "\<exists>applied. loadAppliedRecordTx B tx f = Inr (Some applied) \<and> afSpecRevision (asState applied) = r"
    and valid: "validateActivationSnapshot C f \<lparr>asnForwardID = f, asnActivation = a, asnGeneration = r, asnStates = after\<rparr> = Inr ()"
    using assms(2) by (auto simp: CommitProbeAdmission_def Let_def split: if_splits sum.splits option.splits)
  moreover have "bget B tx bucketActivation f \<in>
      {None, Some (RSnapshot \<lparr>asnForwardID = f, asnActivation = a, asnGeneration = r, asnStates = before\<rparr>)}"
    using admission_before [OF assms(2)] by blast
  moreover have "LoadActivationSnapshot B C f tx' =
      Inr (Some \<lparr>asnForwardID = f, asnActivation = a, asnGeneration = r, asnStates = after\<rparr>)"
    using guard valid by (simp add: row(1) LoadActivationSnapshot_def db decode_snapshot_def)
  moreover have "LoadArmedProbe B (armProbeID arm) tx' = Inr (Some (new_probe C arm f d))"
    by (simp add: row(1) LoadArmedProbe_def db)
  moreover have "bget B tx' b k = bget B tx b k" if "(b, k) \<noteq> (bucketActivation, f)" "(b, k) \<noteq> (bucketProbeOps, armProbeID arm)" for b k
    using that by (auto simp: row(1) db)
  ultimately show ?thesis by blast
qed

section \<open>A run\<close>

definition flat_crypto :: crypto where
  "flat_crypto = demo_crypto\<lparr>sha256 := \<lambda>m. replicate 32 (CHR ''a'')\<rparr>"

definition demo_states :: "string \<Rightarrow> ActivationStates" where
  "demo_states wan = \<lparr>ControlState = ''ONLINE'', ListenerState = ''READY'', MappingState = ''NOT_REQUIRED'',
     KeepaliveState = ''NOT_REQUIRED'', WanReachabilityState = wan, ReturnPathState = ''NOT_TESTED'',
     TargetHealthState = ''UNKNOWN'', PublicationState = ''NONE'', DataPlaneState = ''READY''\<rparr>"

text \<open>The probe of \<^const>\<open>demo_arm\<close> is admitted for \<open>f2\<close> at revision 1.\<close>

definition demo_admission :: "store_error + mem_tx" where
  "demo_admission = CommitProbeAdmission mem_bolt flat_crypto ''f2'' 1 (EncodeToString (replicate 16 (CHR ''a''))) demo_arm
     60000000000 (demo_states ''NOT_TESTED'') (demo_states ''PROBING'') demo_store"

lemma demo_states_valid:
  "ActivationStates_Validate (demo_states ''NOT_TESTED'') = Inr ()" "ActivationStates_Validate (demo_states ''PROBING'') = Inr ()"
  by code_simp+

lemma demo_applied:
  "loadAppliedRecordTx mem_bolt demo_store ''f2'' =
     Inr (Some \<lparr>asState = demo_state ''f2'' 1, asServingSpec = demo_forward ''f2'' 1, asHasServingSpec = True\<rparr>)"
  by code_simp

lemma demo_activation: "ActivationID flat_crypto f r = replicate 16 (CHR ''a'')"
  by (simp add: ActivationID_def flat_crypto_def numeral_eq_Suc)

lemma demo_admission_ok: obtains tx' where "demo_admission = Inr tx'"
proof -
  have arm: "armActivation demo_arm = replicate 16 (CHR ''a'')" "armProbeID demo_arm = replicate 16 (CHR ''p'')"
    by (simp_all add: demo_arm_def)
  have rows: "bget mem_bolt demo_store bucketActivation ''f2'' = None" "bget mem_bolt demo_store bucketProbeOps k = None" for k
    by (simp_all add: mem_bolt_def demo_store_def)
  have ok: "bput_ok mem_bolt k r \<longleftrightarrow> k \<noteq> []" for k r by (simp add: mem_bolt_def)
  have ne: "EncodeToString (replicate 16 (CHR ''a'')) \<noteq> []" "replicate 16 (CHR ''p'') \<noteq> []" by code_simp+
  have "\<exists>tx'. demo_admission = Inr tx'"
    unfolding demo_admission_def CommitProbeAdmission_def
    by (simp add: Let_def demo_arm_valid demo_states_valid demo_applied demo_activation arm rows ne
        check_existing_probe_def new_probe_def validateActivationSnapshot_def ok demo_state_def)
  with that show thesis by blast
qed

theorem probe_admission_atomic_witness:
  "\<exists>tx'. demo_admission = Inr tx' \<and>
     LoadArmedProbe mem_bolt (replicate 16 (CHR ''p'')) tx' = Inr (Some (new_probe flat_crypto demo_arm ''f2'' 60000000000)) \<and>
     bget mem_bolt tx' bucketApplied ''f2'' = bget mem_bolt demo_store bucketApplied ''f2''"
proof -
  obtain tx' where c: "demo_admission = Inr tx'" by (rule demo_admission_ok)
  have k: "armProbeID demo_arm = replicate 16 (CHR ''p'')" by (simp add: demo_arm_def)
  from probe_admission_atomic [OF mem.bolt_db_axioms c [unfolded demo_admission_def]]
  have "LoadArmedProbe mem_bolt (armProbeID demo_arm) tx' = Inr (Some (new_probe flat_crypto demo_arm ''f2'' 60000000000))"
    "bget mem_bolt tx' bucketApplied ''f2'' = bget mem_bolt demo_store bucketApplied ''f2''" by simp_all
  with c k show ?thesis by auto
qed

definition demo_consumed :: ArmedProbe where
  "demo_consumed = (new_probe flat_crypto demo_arm ''f2'' 60000000000)\<lparr>apConsumed := True, apReceiptDeadline := 90\<rparr>"

theorem consumed_probe_fence_witness:
  "SaveArmedProbeForForward mem_bolt flat_crypto demo_arm ''f2'' 5
     (foldl (try_probe mem_bolt flat_crypto) [((bucketProbeOps, replicate 16 (CHR ''p'')), RProbe demo_consumed)]
       [PSave demo_arm ''f9'' 7, PSweep 89 0 [], PReceiptSent (replicate 16 (CHR ''p'')), PDelete ''other''])
   = Inl ErrProbeConsumed"
proof -
  let ?k = "replicate 16 (CHR ''p'')"
  have k: "isProbeOperationKey ?k" "armProbeID demo_arm = ?k" by code_simp+
  have ops: "list_all (spares ?k 90) [PSave demo_arm ''f9'' 7, PSweep 89 0 [], PReceiptSent ?k, PDelete ''other'']"
    by (simp add: numeral_eq_Suc)
  have d: "apConsumed demo_consumed" "apReceiptDeadline demo_consumed = 90" by (simp_all add: demo_consumed_def)
  have "bget mem_bolt [((bucketProbeOps, ?k), RProbe demo_consumed)] bucketProbeOps ?k = Some (RProbe demo_consumed)"
    by (simp add: mem_bolt_def)
  from consumed_probe_fence [OF mem.bolt_db_axioms k(1) this d(1) _ _ k(2), unfolded d(2), OF _ ops]
  show ?thesis unfolding zeroTime_def by simp
qed

end
