(* ===== verification/Agent_Rotation.thy ===== *)
theory Agent_Rotation
  imports Agent_Journal
begin

text \<open>
  \<open>internal/security/rotation.go\<close>, \<open>internal/agent/localstate/pins.go\<close> and
  \<open>internal/agent/reconcile/rotation.go\<close>: the Controller key rotation certificate, the pinned Controller
  keys and the acceptance of a successor pin. The JSON decoder of the certificate is a parameter.
\<close>

section \<open>Hexadecimal\<close>

text \<open>\<open>hex.DecodeString\<close>: both cases are accepted, an odd length is an error.\<close>

definition fromHexChar :: "char \<Rightarrow> nat option" where
  "fromHexChar c =
     (let n = of_char c :: nat
      in if 48 \<le> n \<and> n \<le> 57 then Some (n - 48)
         else if 97 \<le> n \<and> n \<le> 102 then Some (n - 87)
         else if 65 \<le> n \<and> n \<le> 70 then Some (n - 55)
         else None)"

fun DecodeString :: "string \<Rightarrow> bytes option" where
  "DecodeString [] = Some []"
| "DecodeString [c] = None"
| "DecodeString (a # b # cs) =
     (case (fromHexChar a, fromHexChar b) of
        (Some hi, Some lo) \<Rightarrow> map_option (\<lambda>bs. char_of (16 * hi + lo) # bs) (DecodeString cs)
      | _ \<Rightarrow> None)"

lemma fromHexChar_hex_digit: "n < 16 \<Longrightarrow> fromHexChar (hex_digit n) = Some n"
  by (auto simp: fromHexChar_def hex_digit_def Let_def)

lemma DecodeString_EncodeToString [simp]: "DecodeString (EncodeToString bs) = Some bs"
proof (induction bs)
  case (Cons c bs)
  have "(of_char c :: nat) < 256" using nat_of_char_less_256 [of c] by simp
  then have "of_char c div 16 < (16 :: nat)" by (intro less_mult_imp_div_less) simp
  with Cons show ?case by (simp add: EncodeToString_def fromHexChar_hex_digit)
qed (simp add: EncodeToString_def)

section \<open>security/rotation.go\<close>

definition RotationDomain :: string where "RotationDomain = ''AntiNAT-Rotate-v1''"
definition RotateVersion :: u16 where "RotateVersion = 1"

record RotationCertificate =
  rcVersion :: u16
  rcScope :: string
  rcOldKeyID :: string
  rcOldGeneration :: u64
  rcOldPublicKeyHex :: string
  rcNewKeyID :: string
  rcNewGeneration :: u64
  rcNewPublicKeyHex :: string
  rcNotBeforeUnix :: int
  rcOverlapDeadlineUnix :: int
  rcSignatureHex :: string

datatype rotation_error =
  RotLength | RotJSON | RotVersion | RotScope | RotGeneration | RotWindow | RotOldPublicKey | RotNewPublicKey
| RotNotPinned | RotOldKeyID | RotIncomplete | RotSignatureHex | RotSignature | RotNewKeyID | RotUnsigned

definition NewRotationCertificate ::
  "string \<Rightarrow> bytes \<Rightarrow> u64 \<Rightarrow> string \<Rightarrow> bytes \<Rightarrow> u64 \<Rightarrow> string \<Rightarrow> int \<Rightarrow> int \<Rightarrow> RotationCertificate" where
  "NewRotationCertificate scope oldPub oldGeneration oldKeyID newPub newGeneration newKeyID notBeforeUnix overlapDeadlineUnix =
     \<lparr>rcVersion = RotateVersion, rcScope = scope, rcOldKeyID = oldKeyID, rcOldGeneration = oldGeneration,
      rcOldPublicKeyHex = EncodeToString oldPub, rcNewKeyID = newKeyID, rcNewGeneration = newGeneration,
      rcNewPublicKeyHex = EncodeToString newPub, rcNotBeforeUnix = notBeforeUnix,
      rcOverlapDeadlineUnix = overlapDeadlineUnix, rcSignatureHex = []\<rparr>"

text \<open>The old key first, the new key second.\<close>

definition PublicKeys :: "RotationCertificate \<Rightarrow> rotation_error + bytes \<times> bytes" where
  "PublicKeys c =
     (case DecodeString (rcOldPublicKeyHex c) of
        None \<Rightarrow> Inl RotOldPublicKey
      | Some oldRaw \<Rightarrow>
          if length oldRaw \<noteq> PublicKeySize then Inl RotOldPublicKey
          else case DecodeString (rcNewPublicKeyHex c) of
            None \<Rightarrow> Inl RotNewPublicKey
          | Some newRaw \<Rightarrow> if length newRaw \<noteq> PublicKeySize then Inl RotNewPublicKey else Inr (oldRaw, newRaw))"

text \<open>\<open>byte(n)\<close> keeps the low eight bits.\<close>

definition appendField :: "string \<Rightarrow> bytes" where
  "appendField s = [char_of (length s div 256), char_of (length s)] @ s"

definition appendU16 :: "u16 \<Rightarrow> bytes" where
  "appendU16 v = [char_of (unat v div 256), char_of (unat v)]"

definition canonicalFields :: "RotationCertificate \<Rightarrow> bytes" where
  "canonicalFields c =
     appendU16 (rcVersion c) @ appendField (rcScope c) @ appendField (rcOldKeyID c) @ PutUint64 (rcOldGeneration c)
     @ appendField (rcOldPublicKeyHex c) @ appendField (rcNewKeyID c) @ PutUint64 (rcNewGeneration c)
     @ appendField (rcNewPublicKeyHex c) @ PutUint64 (word_of_int (rcNotBeforeUnix c))
     @ PutUint64 (word_of_int (rcOverlapDeadlineUnix c))"

definition SignRotationCertificate ::
  "crypto \<Rightarrow> RotationCertificate \<Rightarrow> bytes \<Rightarrow> crypto_error + RotationCertificate" where
  "SignRotationCertificate C c oldKey =
     andThen (Sign C oldKey (RotationDomain @ canonicalFields c)) (\<lambda>sig.
     Inr (c\<lparr>rcSignatureHex := EncodeToString sig\<rparr>))"

definition RotationCertificate_Encode ::
  "(RotationCertificate \<Rightarrow> bytes) \<Rightarrow> RotationCertificate \<Rightarrow> rotation_error + bytes" where
  "RotationCertificate_Encode enc c = (if rcSignatureHex c = [] then Inl RotUnsigned else Inr (enc c))"

definition KeyIDOf :: "crypto \<Rightarrow> bytes \<Rightarrow> string" where
  "KeyIDOf C pub = EncodeToString (take 8 (sha256 C pub))"

definition rotationKeyID :: "crypto \<Rightarrow> bytes \<Rightarrow> string" where
  "rotationKeyID C pub = KeyIDOf C pub"

definition bytesEqual :: "bytes \<Rightarrow> bytes \<Rightarrow> bool" where
  "bytesEqual a b \<longleftrightarrow>
     (if length a \<noteq> length b then False
      else foldl (\<lambda>v (x, y). Bit_Operations.or v (Bit_Operations.xor (word_of_nat (of_char x)) (word_of_nat (of_char y)))) (0 :: 8 word) (zip a b) = 0)"

definition DecodeRotationCertificate ::
  "crypto \<Rightarrow> (bytes \<Rightarrow> RotationCertificate option) \<Rightarrow> bytes \<Rightarrow> bytes \<Rightarrow> rotation_error + RotationCertificate" where
  "DecodeRotationCertificate C dec raw pinnedPub =
     (if length raw = 0 \<or> length raw > 65536 then Inl RotLength
      else case dec raw of None \<Rightarrow> Inl RotJSON | Some c \<Rightarrow>
      if rcVersion c \<noteq> RotateVersion then Inl RotVersion
      else if rcScope c \<noteq> ''controller'' then Inl RotScope
      else if rcNewGeneration c \<le> rcOldGeneration c then Inl RotGeneration
      else if rcNotBeforeUnix c = 0 \<or> rcOverlapDeadlineUnix c = 0 \<or> rcNotBeforeUnix c > rcOverlapDeadlineUnix c
        then Inl RotWindow
      else andThen (PublicKeys c) (\<lambda>(oldPub, newPub).
      if \<not> bytesEqual oldPub pinnedPub then Inl RotNotPinned
      else if rcOldKeyID c \<noteq> KeyIDOf C pinnedPub then Inl RotOldKeyID
      else if rcSignatureHex c = [] \<or> rcNewKeyID c = [] \<or> rcOldKeyID c = [] then Inl RotIncomplete
      else case DecodeString (rcSignatureHex c) of None \<Rightarrow> Inl RotSignatureHex | Some sig \<Rightarrow>
      if \<not> Verify C oldPub (RotationDomain @ canonicalFields c) sig then Inl RotSignature
      else if rotationKeyID C newPub \<noteq> rcNewKeyID c then Inl RotNewKeyID
      else Inr c))"

section \<open>localstate/pins.go\<close>

definition SaveControllerPin :: "'tx bolt \<Rightarrow> ControllerPin \<Rightarrow> 'tx \<Rightarrow> store_error + 'tx" where
  "SaveControllerPin B pin tx =
     (if pinInstanceID pin = [] \<or> pinKeyID pin = [] \<or> length (pinPublicKeyRaw pin) \<noteq> PublicKeySize then Inl ErrRequest
      else if pinGeneration pin = 0 then Inl ErrRequest
      else let key = pinInstanceID pin
           in case bget B tx bucketControllerPins key of
                None \<Rightarrow> Put B tx bucketControllerPins key (RPin pin)
              | Some (RPin old) \<Rightarrow>
                  if pinGeneration old > pinGeneration pin then Inl ErrPinDowngrade
                  else Put B tx bucketControllerPins key (RPin pin)
              | Some _ \<Rightarrow> Inl ErrDecode)"

definition load_pin :: "'tx bolt \<Rightarrow> string \<Rightarrow> 'tx \<Rightarrow> store_error + ControllerPin option" where
  "load_pin B instanceID tx =
     (case bget B tx bucketControllerPins instanceID of
        None \<Rightarrow> Inr None
      | Some (RPin pin) \<Rightarrow> Inr (Some pin)
      | Some _ \<Rightarrow> Inl ErrDecode)"

definition ListControllerPins :: "'tx bolt \<Rightarrow> 'tx \<Rightarrow> store_error + ControllerPin list" where
  "ListControllerPins B tx =
     foldE (\<lambda>pins k. case bget B tx bucketControllerPins k of
         Some (RPin pin) \<Rightarrow> Inr (pins @ [pin])
       | _ \<Rightarrow> Inl ErrDecode) [] (bkeys B tx bucketControllerPins)"

section \<open>reconcile/rotation.go\<close>

datatype accept_error =
  AcceptStore store_error | AcceptNoPin | AcceptCertificate rotation_error | AcceptScope | AcceptOldGeneration
| AcceptNotHigher | AcceptKeys rotation_error | AcceptOldKeyID | AcceptPersist store_error

text \<open>
  The first component of \<^const>\<open>PublicKeys\<close>, the old key, is what the source binds to \<open>newPub\<close> and
  stores in the successor pin.
\<close>

definition AcceptControllerRotationPin ::
  "'tx bolt \<Rightarrow> crypto \<Rightarrow> (bytes \<Rightarrow> RotationCertificate option) \<Rightarrow> string \<Rightarrow> bytes \<Rightarrow> 'tx \<Rightarrow>
   accept_error + (ControllerPin \<times> RotationCertificate) \<times> 'tx" where
  "AcceptControllerRotationPin B C dec instanceID certRaw tx =
     (case load_pin B instanceID tx of
        Inl e \<Rightarrow> Inl (AcceptStore e)
      | Inr None \<Rightarrow> Inl AcceptNoPin
      | Inr (Some pin) \<Rightarrow>
          case DecodeRotationCertificate C dec certRaw (pinPublicKeyRaw pin) of
            Inl e \<Rightarrow> Inl (AcceptCertificate e)
          | Inr cert \<Rightarrow>
              if rcScope cert \<noteq> ''controller'' then Inl AcceptScope
              else if rcOldGeneration cert \<noteq> pinGeneration pin then Inl AcceptOldGeneration
              else if rcNewGeneration cert \<le> pinGeneration pin then Inl AcceptNotHigher
              else case PublicKeys cert of
                Inl e \<Rightarrow> Inl (AcceptKeys e)
              | Inr (newPub, _) \<Rightarrow>
                  if rcOldKeyID cert \<noteq> KeyIDOf C (pinPublicKeyRaw pin) then Inl AcceptOldKeyID
                  else let next' = \<lparr>pinInstanceID = instanceID, pinKeyID = rcNewKeyID cert, pinPublicKeyRaw = newPub,
                                    pinGeneration = rcNewGeneration cert\<rparr>
                    in case SaveControllerPin B next' tx of
                         Inl e \<Rightarrow> Inl (AcceptPersist e)
                       | Inr tx' \<Rightarrow> Inr ((next', cert), tx'))"

section \<open>The certificate\<close>

lemma char_word_inj: "(word_of_nat (of_char x) :: 8 word) = word_of_nat (of_char y) \<longleftrightarrow> x = y"
proof
  assume "(word_of_nat (of_char x) :: 8 word) = word_of_nat (of_char y)"
  then have "unat (word_of_nat (of_char x) :: 8 word) = unat (word_of_nat (of_char y) :: 8 word)" by simp
  then have "(of_char x :: nat) = of_char y" by (simp add: unat_of_nat)
  then show "x = y" by simp
qed simp

lemma or_xor_eq_0: "Bit_Operations.or w (Bit_Operations.xor u v) = 0 \<longleftrightarrow> w = 0 \<and> u = v" for w u v :: "8 word"
  by (auto simp: bit_eq_iff bit_simps)

lemma or_fold_eq_0:
  "foldl (\<lambda>v (x, y). Bit_Operations.or v (Bit_Operations.xor (word_of_nat (of_char x)) (word_of_nat (of_char y)))) (w :: 8 word) (zip a b) = 0 \<longleftrightarrow>
     w = 0 \<and> list_all (\<lambda>(x, y). x = y) (zip a b)"
proof (induction a b arbitrary: w rule: list_induct2')
  case (4 x a y b)
  show ?case by (simp add: 4 or_xor_eq_0 char_word_inj)
qed simp_all

lemma bytesEqual_iff: "bytesEqual a b \<longleftrightarrow> a = b"
  by (auto simp: bytesEqual_def or_fold_eq_0 list_all_iff list_eq_iff_zip_eq)

lemma appendField_inj:
  assumes "appendField s @ r = appendField s' @ r'" and "length s < 65536" and "length s' < 65536"
  shows "s = s' \<and> r = r'"
proof -
  from assms(1) have "length s div 256 mod 256 = length s' div 256 mod 256" "length s mod 256 = length s' mod 256"
    by (simp_all add: appendField_def)
  moreover have "length s div 256 < 256" "length s' div 256 < 256" using assms(2,3) by simp_all
  ultimately have "length s = length s'" by (metis div_mult_mod_eq mod_less)
  with assms(1) show ?thesis by (simp add: appendField_def)
qed

text \<open>What \<^const>\<open>DecodeRotationCertificate\<close> has checked when it accepts.\<close>

lemma decode_accepts:
  assumes "DecodeRotationCertificate C dec raw pub = Inr c"
  obtains newPub sig where "dec raw = Some c" "rcScope c = ''controller''" "rcOldGeneration c < rcNewGeneration c"
    "PublicKeys c = Inr (pub, newPub)" "rcOldKeyID c = KeyIDOf C pub" "rcNewKeyID c = KeyIDOf C newPub"
    "rcNewKeyID c \<noteq> []" "DecodeString (rcSignatureHex c) = Some sig" "Verify C pub (RotationDomain @ canonicalFields c) sig"
  using assms
  by (auto simp: DecodeRotationCertificate_def rotationKeyID_def bytesEqual_iff split: if_splits option.splits)

lemma accept_pin:
  assumes "AcceptControllerRotationPin B C dec i raw tx = Inr ((next', cert), tx')"
  obtains pin newPub where "load_pin B i tx = Inr (Some pin)"
    "DecodeRotationCertificate C dec raw (pinPublicKeyRaw pin) = Inr cert"
    "PublicKeys cert = Inr (pinPublicKeyRaw pin, newPub)" "rcNewKeyID cert = KeyIDOf C newPub"
    "pinGeneration pin < rcNewGeneration cert" "rcOldGeneration cert = pinGeneration pin"
    "next' = \<lparr>pinInstanceID = i, pinKeyID = rcNewKeyID cert, pinPublicKeyRaw = pinPublicKeyRaw pin,
              pinGeneration = rcNewGeneration cert\<rparr>"
    "SaveControllerPin B next' tx = Inr tx'"
proof -
  from assms obtain pin where pin: "load_pin B i tx = Inr (Some pin)"
    by (auto simp: AcceptControllerRotationPin_def split: sum.splits option.splits)
  with assms have dec: "DecodeRotationCertificate C dec raw (pinPublicKeyRaw pin) = Inr cert"
    by (auto simp: AcceptControllerRotationPin_def Let_def split: sum.splits option.splits if_splits prod.splits)
  from decode_accepts [OF dec] obtain newPub where keys: "PublicKeys cert = Inr (pinPublicKeyRaw pin, newPub)"
    "rcNewKeyID cert = KeyIDOf C newPub" by metis
  from assms pin dec keys show thesis
    by (intro that [OF pin dec keys])
       (auto simp: AcceptControllerRotationPin_def Let_def split: sum.splits if_splits)
qed

lemma save_pin:
  assumes "SaveControllerPin B pin tx = Inr tx'"
  shows "tx' = bput B tx bucketControllerPins (pinInstanceID pin) (RPin pin)"
    and "load_pin B (pinInstanceID pin) tx \<in> {Inr None} \<union> {Inr (Some old) |old. pinGeneration old \<le> pinGeneration pin}"
    and "pinGeneration pin \<noteq> 0" and "length (pinPublicKeyRaw pin) = PublicKeySize" and "pinKeyID pin \<noteq> []"
  using assms by (auto simp: SaveControllerPin_def Let_def load_pin_def split: if_splits option.splits row.splits)

lemma decode_signed:
  assumes "go_crypto C" and "length oldKey = PrivateKeySize" and "length newPub = PublicKeySize"
    and "oldGen < newGen" and "notBefore \<noteq> 0" and "deadline \<noteq> 0" and "notBefore \<le> deadline"
    and "SignRotationCertificate C (NewRotationCertificate ''controller'' (ed_public C oldKey) oldGen (KeyIDOf C (ed_public C oldKey))
           newPub newGen (KeyIDOf C newPub) notBefore deadline) oldKey = Inr c"
    and "dec raw = Some c" and "0 < length raw" and "length raw \<le> 65536"
  shows "DecodeRotationCertificate C dec raw (ed_public C oldKey) = Inr c"
proof -
  let ?pub = "ed_public C oldKey"
  let ?c = "NewRotationCertificate ''controller'' ?pub oldGen (KeyIDOf C ?pub) newPub newGen (KeyIDOf C newPub) notBefore deadline"
  have len: "length ?pub = PublicKeySize" using go_crypto.length_ed_public [OF assms(1,2)] .
  from assms(8) obtain sig where sign: "Sign C oldKey (RotationDomain @ canonicalFields ?c) = Inr sig"
    and c: "c = ?c\<lparr>rcSignatureHex := EncodeToString sig\<rparr>"
    by (auto simp: SignRotationCertificate_def)
  have fields: "canonicalFields c = canonicalFields ?c" by (simp add: c canonicalFields_def)
  note v = go_crypto.Verify_Sign [OF assms(1) sign]
  have "EncodeToString sig \<noteq> []" using v(2) by (cases sig) (simp_all add: SignatureSize_def EncodeToString_def)
  moreover have id: "KeyIDOf C p \<noteq> []" for p
    using go_crypto.length_sha256 [OF assms(1), of p] by (cases "sha256 C p") (simp_all add: KeyIDOf_def EncodeToString_def)
  ultimately show ?thesis
    using assms(3-7,9-11) v(1) len fields
    by (simp add: DecodeRotationCertificate_def c NewRotationCertificate_def PublicKeys_def bytesEqual_iff rotationKeyID_def linorder_not_less)
qed

section \<open>Pins over runs\<close>

datatype pin_op = PinSave ControllerPin | PinRotate string bytes

fun exec_pin :: "'tx bolt \<Rightarrow> crypto \<Rightarrow> (bytes \<Rightarrow> RotationCertificate option) \<Rightarrow> 'tx \<Rightarrow> pin_op \<Rightarrow> 'tx" where
  "exec_pin B C dec tx (PinSave pin) = (case SaveControllerPin B pin tx of Inl _ \<Rightarrow> tx | Inr tx' \<Rightarrow> tx')"
| "exec_pin B C dec tx (PinRotate i raw) =
     (case AcceptControllerRotationPin B C dec i raw tx of Inl _ \<Rightarrow> tx | Inr (_, tx') \<Rightarrow> tx')"

text \<open>The pinned generation of an instance, 0 when there is none.\<close>

definition generation_of :: "'tx bolt \<Rightarrow> string \<Rightarrow> 'tx \<Rightarrow> u64" where
  "generation_of B i tx = (case load_pin B i tx of Inr (Some pin) \<Rightarrow> pinGeneration pin | _ \<Rightarrow> 0)"

context bolt_db
begin

lemma save_pin_generation:
  assumes "SaveControllerPin B pin tx = Inr tx'"
  shows "generation_of B i tx \<le> generation_of B i tx'"
proof (cases "i = pinInstanceID pin")
  case True
  then show ?thesis
    unfolding save_pin(1) [OF assms] using save_pin(2) [OF assms] by (auto simp: generation_of_def load_pin_def get_put)
next
  case False
  then show ?thesis unfolding save_pin(1) [OF assms] by (simp add: generation_of_def load_pin_def get_put)
qed

lemma exec_pin_generation: "generation_of B i tx \<le> generation_of B i (exec_pin B C dec tx op)"
proof (cases op)
  case (PinSave pin)
  then show ?thesis using save_pin_generation by (auto split: sum.split)
next
  case (PinRotate j raw)
  show ?thesis
  proof (cases "AcceptControllerRotationPin B C dec j raw tx")
    case (Inr r)
    obtain next' cert tx' where r: "r = ((next', cert), tx')" by (metis surj_pair)
    from Inr r accept_pin have "SaveControllerPin B next' tx = Inr tx'" by metis
    with Inr r PinRotate save_pin_generation show ?thesis by simp
  qed (simp add: PinRotate)
qed

lemma run_pin_generation: "generation_of B i tx \<le> generation_of B i (foldl (exec_pin B C dec) tx ops)"
proof (induction ops arbitrary: tx)
  case (Cons op ops)
  from exec_pin_generation [of i tx C dec op] Cons [of "exec_pin B C dec tx op"] show ?case by simp
qed simp

end

section \<open>Properties\<close>

text \<open>
  The generation of a pinned Controller never decreases, whatever pins are saved and whatever
  rotation certificates are presented.
\<close>
theorem pin_generation_monotone:
  assumes "bolt_db B"
  shows "generation_of B i tx \<le> generation_of B i (foldl (exec_pin B C dec) tx ops)"
  by (rule bolt_db.run_pin_generation [OF assms])


text \<open>
  A certificate made and signed for the pinned key is accepted by the decoder, whatever JSON codec
  carries it.
\<close>
theorem rotation_certificate_roundtrip:
  assumes "go_crypto C" and "length oldKey = PrivateKeySize" and "length newPub = PublicKeySize"
    and "oldGen < newGen" and "notBefore \<noteq> 0" and "deadline \<noteq> 0" and "notBefore \<le> deadline"
    and "SignRotationCertificate C (NewRotationCertificate ''controller'' (ed_public C oldKey) oldGen (KeyIDOf C (ed_public C oldKey))
           newPub newGen (KeyIDOf C newPub) notBefore deadline) oldKey = Inr c"
    and "dec raw = Some c" and "0 < length raw" and "length raw \<le> 65536"
  shows "DecodeRotationCertificate C dec raw (ed_public C oldKey) = Inr c"
  using assms by (rule decode_signed)

section \<open>A rotation\<close>

definition old_key :: bytes where "old_key = replicate 32 (CHR ''-'') @ replicate 32 (CHR ''K'')"
definition old_pub :: bytes where "old_pub = replicate 32 (CHR ''K'')"
definition new_pub :: bytes where "new_pub = replicate 32 (CHR ''N'')"

definition unsigned_cert :: RotationCertificate where
  "unsigned_cert = NewRotationCertificate ''controller'' (ed_public demo_crypto old_key) 1
     (KeyIDOf demo_crypto (ed_public demo_crypto old_key)) new_pub 2 (KeyIDOf demo_crypto new_pub) 10 20"

definition demo_cert :: RotationCertificate where
  "demo_cert = unsigned_cert\<lparr>rcSignatureHex :=
     EncodeToString (ed_sign demo_crypto old_key (RotationDomain @ canonicalFields unsigned_cert))\<rparr>"

definition demo_pins :: mem_tx where
  "demo_pins = [((bucketControllerPins, ''i''),
     RPin \<lparr>pinInstanceID = ''i'', pinKeyID = ''k1'', pinPublicKeyRaw = old_pub, pinGeneration = 1\<rparr>)]"

lemma old_public: "ed_public demo_crypto old_key = old_pub" "length old_key = PrivateKeySize" "length new_pub = PublicKeySize"
  by (simp_all add: demo_crypto_def old_key_def old_pub_def new_pub_def go_simps)

lemma demo_signed: "SignRotationCertificate demo_crypto unsigned_cert old_key = Inr demo_cert"
  by (simp add: SignRotationCertificate_def Sign_def old_public demo_cert_def)

lemma demo_decodes: "DecodeRotationCertificate demo_crypto (\<lambda>_. Some demo_cert) ''c'' old_pub = Inr demo_cert"
  using decode_signed [OF demo.go_crypto_axioms old_public(2,3) _ _ _ _ demo_signed [unfolded unsigned_cert_def], of "\<lambda>_. Some demo_cert" "''c''"]
  by (simp add: old_public(1))

lemma demo_accepts:
  obtains next' tx' where
    "AcceptControllerRotationPin mem_bolt demo_crypto (\<lambda>_. Some demo_cert) ''i'' ''c'' demo_pins = Inr ((next', demo_cert), tx')"
proof -
  from decode_accepts [OF demo_decodes] obtain newPub where keys: "PublicKeys demo_cert = Inr (old_pub, newPub)"
    and id: "rcOldKeyID demo_cert = KeyIDOf demo_crypto old_pub" "rcNewKeyID demo_cert \<noteq> []" by metis
  have f: "rcScope demo_cert = ''controller''" "rcOldGeneration demo_cert = 1" "rcNewGeneration demo_cert = 2"
    by (simp_all add: demo_cert_def unsigned_cert_def NewRotationCertificate_def)
  have "\<exists>next' tx'. AcceptControllerRotationPin mem_bolt demo_crypto (\<lambda>_. Some demo_cert) ''i'' ''c'' demo_pins =
      Inr ((next', demo_cert), tx')"
    using demo_decodes keys id f
    by (simp add: AcceptControllerRotationPin_def load_pin_def demo_pins_def mem_bolt_def SaveControllerPin_def Let_def
        Put_def old_pub_def PublicKeySize_def word_le_nat_alt)
  with that show thesis by blast
qed


theorem rotation_certificate_roundtrip_witness:
  "DecodeRotationCertificate demo_crypto (\<lambda>_. Some demo_cert) ''c'' old_pub = Inr demo_cert"
  using rotation_certificate_roundtrip [OF demo.go_crypto_axioms old_public(2,3) _ _ _ _ demo_signed [unfolded unsigned_cert_def],
      of "\<lambda>_. Some demo_cert" "''c''"]
  by (simp add: old_public(1))

theorem pin_generation_monotone_witness:
  "1 \<le> generation_of mem_bolt ''i'' (foldl (exec_pin mem_bolt demo_crypto (\<lambda>_. None)) demo_pins
     [PinRotate ''i'' ''c'', PinSave \<lparr>pinInstanceID = ''i'', pinKeyID = ''k0'', pinPublicKeyRaw = new_pub, pinGeneration = 1\<rparr>])"
proof -
  have "generation_of mem_bolt ''i'' demo_pins = 1"
    by (simp add: generation_of_def load_pin_def demo_pins_def mem_bolt_def)
  with pin_generation_monotone [OF mem.bolt_db_axioms] show ?thesis by metis
qed

end
