(* ===== verification/Agent_Mapping_Journal.thy ===== *)
theory Agent_Mapping_Journal
  imports Agent_Bolt
begin

text \<open>
  \<open>internal/traversal/mapping_journal.go\<close> and \<open>internal/agent/localstate/mapping_journal.go\<close>: the journal
  of acquired mappings. \<open>JournalStore\<close> is an interface of the source with two implementations, the
  in-memory journal and the \<open>mapping_journal\<close> bucket of the store; it is a locale here, interpreted on
  both. The memory journal's Go map is an association list, so its listings come in some order.
\<close>

section \<open>The in-memory journal\<close>

type_synonym MemoryJournal = "(string \<times> JournalRecord) list"

definition NewMemoryJournal :: MemoryJournal where "NewMemoryJournal = []"

definition MemoryJournal_Put :: "JournalRecord \<Rightarrow> MemoryJournal \<Rightarrow> store_error + MemoryJournal" where
  "MemoryJournal_Put r m = Inr (AList.update (jrID r) r m)"

definition MemoryJournal_Get :: "string \<Rightarrow> MemoryJournal \<Rightarrow> store_error + JournalRecord option" where
  "MemoryJournal_Get i m = Inr (map_of m i)"

definition MemoryJournal_Delete :: "string \<Rightarrow> MemoryJournal \<Rightarrow> store_error + MemoryJournal" where
  "MemoryJournal_Delete i m = Inr (AList.delete i m)"

definition MemoryJournal_List :: "MemoryJournal \<Rightarrow> store_error + JournalRecord list" where
  "MemoryJournal_List m = Inr (map snd m)"

definition MemoryJournal_ListByForward :: "string \<Rightarrow> MemoryJournal \<Rightarrow> store_error + JournalRecord list" where
  "MemoryJournal_ListByForward f m = Inr (filter (\<lambda>r. jrForwardID r = f) (map snd m))"

section \<open>The durable journal\<close>

text \<open>\<open>EncodeJournalRecord\<close> and \<open>DecodeJournalRecord\<close> are the JSON codec of the row.\<close>

definition EncodeJournalRecord :: "JournalRecord \<Rightarrow> row" where "EncodeJournalRecord r = RMapping r"

definition DecodeJournalRecord :: "row \<Rightarrow> store_error + JournalRecord" where
  "DecodeJournalRecord raw = (case raw of RMapping r \<Rightarrow> Inr r | _ \<Rightarrow> Inl ErrDecode)"

definition mappingJournal_Put :: "'tx bolt \<Rightarrow> JournalRecord \<Rightarrow> 'tx \<Rightarrow> store_error + 'tx" where
  "mappingJournal_Put B r tx = Put B tx bucketMapping (jrID r) (EncodeJournalRecord r)"

definition mappingJournal_Get :: "'tx bolt \<Rightarrow> string \<Rightarrow> 'tx \<Rightarrow> store_error + JournalRecord option" where
  "mappingJournal_Get B i tx =
     (if i = [] then Inl ErrRequest
      else case bget B tx bucketMapping i of
        None \<Rightarrow> Inr None
      | Some raw \<Rightarrow> andThen (DecodeJournalRecord raw) (\<lambda>r. Inr (Some r)))"

definition mappingJournal_Delete :: "'tx bolt \<Rightarrow> string \<Rightarrow> 'tx \<Rightarrow> store_error + 'tx" where
  "mappingJournal_Delete B i tx = (if i = [] then Inl ErrRequest else Inr (bdelete B tx bucketMapping i))"

definition list_mapping ::
  "'tx bolt \<Rightarrow> (JournalRecord \<Rightarrow> bool) \<Rightarrow> 'tx \<Rightarrow> JournalRecord list \<Rightarrow> bytes \<Rightarrow> store_error + JournalRecord list" where
  "list_mapping B keep tx out key =
     (case bget B tx bucketMapping key of
        None \<Rightarrow> Inr out
      | Some raw \<Rightarrow> andThen (DecodeJournalRecord raw) (\<lambda>r. Inr (if keep r then out @ [r] else out)))"

definition mappingJournal_list :: "'tx bolt \<Rightarrow> (JournalRecord \<Rightarrow> bool) \<Rightarrow> 'tx \<Rightarrow> store_error + JournalRecord list" where
  "mappingJournal_list B keep tx = foldE (list_mapping B keep tx) [] (bkeys B tx bucketMapping)"

definition mappingJournal_List :: "'tx bolt \<Rightarrow> 'tx \<Rightarrow> store_error + JournalRecord list" where
  "mappingJournal_List B tx = mappingJournal_list B (\<lambda>_. True) tx"

definition mappingJournal_ListByForward :: "'tx bolt \<Rightarrow> string \<Rightarrow> 'tx \<Rightarrow> store_error + JournalRecord list" where
  "mappingJournal_ListByForward B f tx = mappingJournal_list B (\<lambda>r. jrForwardID r = f) tx"

section \<open>The interface\<close>

text \<open>
  What a client of \<open>JournalStore\<close> may rely on: \<open>good\<close> states are kept, reads see the last write of the
  id, and the listings hold each stored record once. Ids are never blank.
\<close>

locale journal_store =
  fixes jput :: "JournalRecord \<Rightarrow> 's \<Rightarrow> store_error + 's"
    and jget :: "string \<Rightarrow> 's \<Rightarrow> store_error + JournalRecord option"
    and jdelete :: "string \<Rightarrow> 's \<Rightarrow> store_error + 's"
    and jlist :: "'s \<Rightarrow> store_error + JournalRecord list"
    and jlist_by :: "string \<Rightarrow> 's \<Rightarrow> store_error + JournalRecord list"
    and good :: "'s \<Rightarrow> bool"
  assumes put_good: "good s \<Longrightarrow> jrID r \<noteq> [] \<Longrightarrow> jput r s = Inr s' \<Longrightarrow> good s'"
    and delete_good: "good s \<Longrightarrow> jdelete i s = Inr s' \<Longrightarrow> good s'"
    and get_ok: "good s \<Longrightarrow> i \<noteq> [] \<Longrightarrow> \<exists>v. jget i s = Inr v"
    and delete_ok: "i \<noteq> [] \<Longrightarrow> \<exists>s'. jdelete i s = Inr s'"
    and get_put: "good s \<Longrightarrow> i \<noteq> [] \<Longrightarrow> jput r s = Inr s' \<Longrightarrow> jget i s' = (if i = jrID r then Inr (Some r) else jget i s)"
    and get_delete: "good s \<Longrightarrow> i \<noteq> [] \<Longrightarrow> jdelete j s = Inr s' \<Longrightarrow> jget i s' = (if i = j then Inr None else jget i s)"
    and list_all_records: "good s \<Longrightarrow> \<exists>rs. jlist s = Inr rs \<and> distinct rs \<and> set rs = {r. jrID r \<noteq> [] \<and> jget (jrID r) s = Inr (Some r)}"
    and list_by_forward: "good s \<Longrightarrow> jlist s = Inr rs \<Longrightarrow> jlist_by f s = Inr (filter (\<lambda>r. jrForwardID r = f) rs)"

datatype journal_op = JPut JournalRecord | JDelete string

fun op_id :: "journal_op \<Rightarrow> string" where
  "op_id (JPut r) = jrID r"
| "op_id (JDelete i) = i"

text \<open>The abstract journal: a finite map from ids to records.\<close>

fun spec_op :: "(string \<rightharpoonup> JournalRecord) \<Rightarrow> journal_op \<Rightarrow> (string \<rightharpoonup> JournalRecord)" where
  "spec_op m (JPut r) = m(jrID r \<mapsto> r)"
| "spec_op m (JDelete i) = m(i := None)"

fun exec_op :: "(JournalRecord \<Rightarrow> 's \<Rightarrow> store_error + 's) \<Rightarrow> (string \<Rightarrow> 's \<Rightarrow> store_error + 's) \<Rightarrow> 's \<Rightarrow> journal_op \<Rightarrow> store_error + 's" where
  "exec_op jput jdelete s (JPut r) = jput r s"
| "exec_op jput jdelete s (JDelete i) = jdelete i s"

text \<open>What a journal holds, read through \<open>Get\<close>.\<close>

definition records_of :: "(string \<Rightarrow> 's \<Rightarrow> store_error + JournalRecord option) \<Rightarrow> 's \<Rightarrow> string \<rightharpoonup> JournalRecord" where
  "records_of jget s i = (if i = [] then None else case jget i s of Inr v \<Rightarrow> v | Inl _ \<Rightarrow> None)"

context journal_store
begin

lemma exec_op_refines:
  assumes "good s" and "op_id x \<noteq> []" and "exec_op jput jdelete s x = Inr s'"
  shows "good s' \<and> records_of jget s' = spec_op (records_of jget s) x"
proof (cases x)
  case (JPut r)
  with assms put_good get_put show ?thesis by (auto simp: records_of_def fun_eq_iff)
next
  case (JDelete i)
  with assms delete_good get_delete show ?thesis by (auto simp: records_of_def fun_eq_iff)
qed

lemma run_refines:
  assumes "good s" and "\<forall>x\<in>set xs. op_id x \<noteq> []" and "foldE (exec_op jput jdelete) s xs = Inr s'"
  shows "good s' \<and> records_of jget s' = foldl spec_op (records_of jget s) xs"
  using assms
proof (induction xs arbitrary: s)
  case (Cons x xs)
  then obtain s1 where s1: "exec_op jput jdelete s x = Inr s1" "foldE (exec_op jput jdelete) s1 xs = Inr s'" by auto
  from exec_op_refines [OF Cons.prems(1) _ s1(1)] Cons.prems(2) have "good s1" "records_of jget s1 = spec_op (records_of jget s) x" by auto
  with Cons.IH [OF _ _ s1(2)] Cons.prems(2) show ?case by simp
qed simp

lemma records_Some: "records_of jget s i = Some r \<longleftrightarrow> i \<noteq> [] \<and> jget i s = Inr (Some r)"
  by (auto simp: records_of_def split: sum.splits)

lemma get_records: "good s \<Longrightarrow> i \<noteq> [] \<Longrightarrow> jget i s = Inr (records_of jget s i)"
  using get_ok [of s i] by (auto simp: records_of_def)

lemma listed:
  assumes "good s"
  shows "\<exists>rs. jlist_by f s = Inr rs \<and> distinct rs \<and> set rs = {r. records_of jget s (jrID r) = Some r \<and> jrForwardID r = f}"
proof -
  from list_all_records [OF assms] obtain rs where rs: "jlist s = Inr rs" "distinct rs"
    "set rs = {r. jrID r \<noteq> [] \<and> jget (jrID r) s = Inr (Some r)}" by blast
  from list_by_forward [OF assms rs(1), of f] rs(2) show ?thesis
    by (auto simp: rs(3) records_Some)
qed

end

section \<open>Both implementations\<close>

definition memory_good :: "MemoryJournal \<Rightarrow> bool" where
  "memory_good m \<longleftrightarrow> distinct (map fst m) \<and> list_all (\<lambda>(i, r). i \<noteq> [] \<and> jrID r = i) m"

definition bucket_good :: "'tx bolt \<Rightarrow> 'tx \<Rightarrow> bool" where
  "bucket_good B tx \<longleftrightarrow>
     (\<forall>k raw. bget B tx bucketMapping k = Some raw \<longrightarrow> (\<exists>r. raw = RMapping r \<and> jrID r = k \<and> k \<noteq> []))"

lemma memory_good_map_of: "memory_good m \<Longrightarrow> map_of m i = Some r \<longleftrightarrow> (i, r) \<in> set m"
  by (simp add: memory_good_def)

lemma memory_blank: "memory_good m \<Longrightarrow> map_of m [] = None"
  by (auto simp: memory_good_def list_all_iff map_of_eq_None_iff)

lemma list_all_update: "list_all P m \<Longrightarrow> P (i, r) \<Longrightarrow> list_all P (AList.update i r m)"
  by (induction m) auto

lemma list_all_delete: "list_all P m \<Longrightarrow> list_all P (AList.delete i m)"
  by (induction m) auto

interpretation memory: journal_store MemoryJournal_Put MemoryJournal_Get MemoryJournal_Delete MemoryJournal_List
  MemoryJournal_ListByForward memory_good
proof (unfold_locales, goal_cases)
  case (1 s r s')
  then show ?case
    by (auto simp: memory_good_def MemoryJournal_Put_def distinct_update intro: list_all_update)
next
  case (2 s i s')
  then show ?case
    by (auto simp: memory_good_def MemoryJournal_Delete_def distinct_delete list_all_delete)
next
  case (7 s)
  have "map jrID (map snd s) = map fst s" using 7 by (auto simp: memory_good_def list_all_iff)
  then have "distinct (map jrID (map snd s))" using 7 by (simp only: memory_good_def)
  then have "distinct (map snd s)" using distinct_map by blast
  moreover have "set (map snd s) = {r. jrID r \<noteq> [] \<and> map_of s (jrID r) = Some r}"
  proof (intro set_eqI iffI)
    fix r
    assume "r \<in> set (map snd s)"
    then obtain i where i: "(i, r) \<in> set s" by auto
    with 7 have "jrID r = i" "i \<noteq> []" by (auto simp: memory_good_def list_all_iff)
    with i show "r \<in> {r. jrID r \<noteq> [] \<and> map_of s (jrID r) = Some r}" by (simp add: memory_good_map_of [OF 7])
  next
    fix r
    assume "r \<in> {r. jrID r \<noteq> [] \<and> map_of s (jrID r) = Some r}"
    then have "(jrID r, r) \<in> set s" by (simp add: memory_good_map_of [OF 7])
    then show "r \<in> set (map snd s)" by (metis image_eqI image_set snd_conv)
  qed
  ultimately show ?case by (simp add: MemoryJournal_List_def MemoryJournal_Get_def)
qed (auto simp: MemoryJournal_Put_def MemoryJournal_Get_def MemoryJournal_Delete_def MemoryJournal_List_def
    MemoryJournal_ListByForward_def update_conv delete_conv)

context bolt_db
begin

lemma bucket_row: "bucket_good B tx \<Longrightarrow> bget B tx bucketMapping k = Some raw \<Longrightarrow> \<exists>r. raw = RMapping r \<and> jrID r = k \<and> k \<noteq> []"
  by (simp add: bucket_good_def)

lemma list_mapping_fold:
  assumes "bucket_good B tx" and "set ks \<subseteq> set (bkeys B tx bucketMapping)"
  shows "foldE (list_mapping B keep tx) out ks =
    Inr (out @ filter keep (map (\<lambda>k. case bget B tx bucketMapping k of Some (RMapping r) \<Rightarrow> r) ks))"
  using assms(2)
proof (induction ks arbitrary: out)
  case (Cons k ks)
  then have "k \<in> set (bkeys B tx bucketMapping)" by simp
  then obtain raw where raw: "bget B tx bucketMapping k = Some raw" by (auto simp: set_keys)
  with bucket_row [OF assms(1)] obtain r where "raw = RMapping r" by blast
  with raw Cons show ?case by (simp add: list_mapping_def DecodeJournalRecord_def)
qed simp

lemma list_bucket:
  assumes "bucket_good B tx"
  obtains rs where "\<And>keep. mappingJournal_list B keep tx = Inr (filter keep rs)" "distinct rs"
    "set rs = {r. jrID r \<noteq> [] \<and> bget B tx bucketMapping (jrID r) = Some (RMapping r)}"
proof (rule that)
  let ?row = "\<lambda>k. case bget B tx bucketMapping k of Some (RMapping r) \<Rightarrow> r"
  let ?rs = "map ?row (bkeys B tx bucketMapping)"
  have row: "bget B tx bucketMapping k = Some (RMapping (?row k)) \<and> jrID (?row k) = k \<and> k \<noteq> []"
    if "k \<in> set (bkeys B tx bucketMapping)" for k
    using that bucket_row [OF assms, of k] by (auto simp: set_keys)
  show "mappingJournal_list B keep tx = Inr (filter keep ?rs)" for keep
    using list_mapping_fold [OF assms subset_refl] by (simp add: mappingJournal_list_def)
  have "inj_on ?row (set (bkeys B tx bucketMapping))" by (rule inj_on_inverseI [where g = jrID]) (use row in blast)
  then show "distinct ?rs" using sorted_keys by (simp add: distinct_map)
  show "set ?rs = {r. jrID r \<noteq> [] \<and> bget B tx bucketMapping (jrID r) = Some (RMapping r)}"
  proof (intro set_eqI iffI)
    fix r
    assume "r \<in> set ?rs"
    then obtain k where "k \<in> set (bkeys B tx bucketMapping)" "r = ?row k" by auto
    with row show "r \<in> {r. jrID r \<noteq> [] \<and> bget B tx bucketMapping (jrID r) = Some (RMapping r)}" by simp
  next
    fix r
    assume "r \<in> {r. jrID r \<noteq> [] \<and> bget B tx bucketMapping (jrID r) = Some (RMapping r)}"
    then have "jrID r \<in> set (bkeys B tx bucketMapping)" "?row (jrID r) = r" by (simp_all add: set_keys)
    then show "r \<in> set ?rs" by (metis (no_types, lifting) image_eqI image_set)
  qed
qed

end

sublocale bolt_db \<subseteq> durable: journal_store "mappingJournal_Put B" "mappingJournal_Get B" "mappingJournal_Delete B"
  "mappingJournal_List B" "mappingJournal_ListByForward B" "bucket_good B"
proof (unfold_locales, goal_cases)
  case (1 s r s')
  then show ?case by (auto simp: bucket_good_def mappingJournal_Put_def EncodeJournalRecord_def get_put split: if_splits)
next
  case (2 s i s')
  then show ?case by (auto simp: bucket_good_def mappingJournal_Delete_def get_delete split: if_splits)
next
  case (3 s i)
  then show ?case
    using bucket_row [of s i] by (auto simp: mappingJournal_Get_def DecodeJournalRecord_def split: option.split)
next
  case (5 s i r s')
  then show ?case
    by (auto simp: mappingJournal_Get_def mappingJournal_Put_def EncodeJournalRecord_def DecodeJournalRecord_def get_put)
next
  case (6 s i j s')
  then show ?case by (auto simp: mappingJournal_Get_def mappingJournal_Delete_def get_delete split: if_splits)
next
  case (7 s)
  have get: "mappingJournal_Get B (jrID r) s = Inr (Some r) \<longleftrightarrow> bget B s bucketMapping (jrID r) = Some (RMapping r)"
    if "jrID r \<noteq> []" for r
    using that bucket_row [OF 7, of "jrID r"]
    by (auto simp: mappingJournal_Get_def DecodeJournalRecord_def split: option.split)
  from list_bucket [OF 7] obtain rs where rs: "\<And>keep. mappingJournal_list B keep s = Inr (filter keep rs)" "distinct rs"
    "set rs = {r. jrID r \<noteq> [] \<and> bget B s bucketMapping (jrID r) = Some (RMapping r)}" by blast
  have "mappingJournal_List B s = Inr rs" unfolding mappingJournal_List_def using rs(1) [of "\<lambda>_. True"] by simp
  moreover have "set rs = {r. jrID r \<noteq> [] \<and> mappingJournal_Get B (jrID r) s = Inr (Some r)}"
    unfolding rs(3) using get by blast
  ultimately show ?case using rs(2) by blast
next
  case (8 s rs f)
  from list_bucket [OF 8(1)] obtain rs' where rs: "\<And>keep. mappingJournal_list B keep s = Inr (filter keep rs')" "distinct rs'"
    "set rs' = {r. jrID r \<noteq> [] \<and> bget B s bucketMapping (jrID r) = Some (RMapping r)}" by blast
  from 8(2) rs(1) [of "\<lambda>_. True"] have "rs = rs'" by (simp add: mappingJournal_List_def)
  with rs(1) show ?case by (simp only: mappingJournal_ListByForward_def)
qed (simp add: mappingJournal_Delete_def)

context bolt_db
begin

lemmas durable_run = durable.run_refines
lemmas durable_listed = durable.listed
lemmas durable_get = durable.get_records

end

section \<open>Property\<close>

text \<open>
  The two implementations of \<open>JournalStore\<close> are the same journal. From journals with the same records,
  any sequence of puts and deletes with non-blank ids that both accept leaves both with exactly the
  records of the abstract map, so every \<open>Get\<close> agrees, and \<open>ListByForward\<close> of both lists, each once,
  exactly the records of that Forward.
\<close>
theorem mapping_journals_agree:
  assumes "bolt_db B" and "memory_good m" and "bucket_good B tx"
    and "\<forall>i. i \<noteq> [] \<longrightarrow> MemoryJournal_Get i m = mappingJournal_Get B i tx"
    and "\<forall>x\<in>set xs. op_id x \<noteq> []"
    and "foldE (exec_op MemoryJournal_Put MemoryJournal_Delete) m xs = Inr m'"
    and "foldE (exec_op (mappingJournal_Put B) (mappingJournal_Delete B)) tx xs = Inr tx'"
  shows "(\<forall>i. i \<noteq> [] \<longrightarrow> MemoryJournal_Get i m' = mappingJournal_Get B i tx' \<and>
             MemoryJournal_Get i m' = Inr (foldl spec_op (map_of m) xs i)) \<and>
    (\<exists>rs rs'. MemoryJournal_ListByForward f m' = Inr rs \<and> mappingJournal_ListByForward B f tx' = Inr rs' \<and>
       distinct rs \<and> distinct rs' \<and> set rs = set rs' \<and>
       set rs = {r. foldl spec_op (map_of m) xs (jrID r) = Some r \<and> jrForwardID r = f})"
proof -
  have m: "records_of MemoryJournal_Get m = map_of m"
    using memory_blank [OF assms(2)] by (simp add: records_of_def MemoryJournal_Get_def fun_eq_iff)
  have "records_of (mappingJournal_Get B) tx = records_of MemoryJournal_Get m"
    using assms(4) by (simp add: records_of_def fun_eq_iff)
  with m bolt_db.durable_run [OF assms(1,3,5,7)] have d: "bucket_good B tx'"
    "records_of (mappingJournal_Get B) tx' = foldl spec_op (map_of m) xs" by simp_all
  from m memory.run_refines [OF assms(2,5,6)] have g: "memory_good m'"
    "records_of MemoryJournal_Get m' = foldl spec_op (map_of m) xs" by simp_all
  from memory.listed [OF g(1), of f] bolt_db.durable_listed [OF assms(1) d(1), of f]
  have "\<exists>rs rs'. MemoryJournal_ListByForward f m' = Inr rs \<and> mappingJournal_ListByForward B f tx' = Inr rs' \<and>
       distinct rs \<and> distinct rs' \<and> set rs = set rs' \<and>
       set rs = {r. foldl spec_op (map_of m) xs (jrID r) = Some r \<and> jrForwardID r = f}"
    unfolding d(2) g(2) by blast
  moreover have "MemoryJournal_Get i m' = mappingJournal_Get B i tx' \<and> MemoryJournal_Get i m' = Inr (foldl spec_op (map_of m) xs i)"
    if "i \<noteq> []" for i
    using memory.get_records [OF g(1) that] bolt_db.durable_get [OF assms(1) d(1) that] unfolding d(2) g(2) by simp
  ultimately show ?thesis by blast
qed

text \<open>A mapping is acquired, renewed and another one released.\<close>

definition demo_mapping :: "string \<Rightarrow> string \<Rightarrow> u16 \<Rightarrow> JournalRecord" where
  "demo_mapping i f port = \<lparr>jrID = i, jrForwardID = f, jrOperationID = [], jrMechanism = ''pcp'', jrOwnership = ''strong'',
     jrProtocol = ''tcp'', jrInternalIP = ''10.0.0.2'', jrInternalPort = 80, jrExternalIP = ''8.8.8.8'', jrExternalPort = port,
     jrLeaseExpiryUnix = 0, jrEpoch = 0, jrIdentity = [], jrState = [], jrCreatedAtUnix = 1, jrUpdatedAtUnix = 1\<rparr>"

definition demo_mapping_ops :: "journal_op list" where
  "demo_mapping_ops = [JPut (demo_mapping ''m1'' ''f1'' 81), JPut (demo_mapping ''m2'' ''f2'' 82), JPut (demo_mapping ''m1'' ''f1'' 83),
     JDelete ''m2'']"

theorem mapping_journals_agree_witness:
  "\<exists>m' tx'. foldE (exec_op MemoryJournal_Put MemoryJournal_Delete) NewMemoryJournal demo_mapping_ops = Inr m' \<and>
     foldE (exec_op (mappingJournal_Put mem_bolt) (mappingJournal_Delete mem_bolt)) [] demo_mapping_ops = Inr tx' \<and>
     mappingJournal_Get mem_bolt ''m1'' tx' = MemoryJournal_Get ''m1'' m' \<and>
     MemoryJournal_Get ''m1'' m' = Inr (Some (demo_mapping ''m1'' ''f1'' 83))"
proof -
  obtain m' where m': "foldE (exec_op MemoryJournal_Put MemoryJournal_Delete) NewMemoryJournal demo_mapping_ops = Inr m'"
    by (simp add: demo_mapping_ops_def MemoryJournal_Put_def MemoryJournal_Delete_def)
  obtain tx' where tx': "foldE (exec_op (mappingJournal_Put mem_bolt) (mappingJournal_Delete mem_bolt)) [] demo_mapping_ops = Inr tx'"
    by (simp add: demo_mapping_ops_def mappingJournal_Put_def mappingJournal_Delete_def Put_def mem_bolt_def demo_mapping_def)
  have "\<forall>x\<in>set demo_mapping_ops. op_id x \<noteq> []" by (simp add: demo_mapping_ops_def demo_mapping_def)
  from mapping_journals_agree [OF mem.bolt_db_axioms _ _ _ this m' tx', THEN conjunct1, rule_format, of "''m1''"] m' tx'
  show ?thesis
    by (auto simp: memory_good_def NewMemoryJournal_def bucket_good_def mem_bolt_def mappingJournal_Get_def MemoryJournal_Get_def
        demo_mapping_ops_def demo_mapping_def)
qed

end
