(* ===== verification/Agent_Session.thy ===== *)
theory Agent_Session
  imports Agent_Enrollment
begin

text \<open>
  \<open>internal/security/challenge.go\<close>: the enrollment challenge manager with its bounded replay cache, and the
  three signed messages of the session handshake. Times are nanoseconds since the Unix epoch; every
  reading of the clock, the random nonce and the signer are arguments. The fixed-size arrays of the
  messages are byte lists whose widths the parsers check.
\<close>

section \<open>Node identifiers\<close>

definition NUL :: char where "NUL = char_of (0::nat)"

text \<open>\<open>copy(out[:], s)\<close> into a zeroed 16-byte array: truncated at 16 bytes, zero-padded below.\<close>

definition copy16 :: "string \<Rightarrow> bytes" where
  "copy16 s = take 16 (s @ replicate 16 NUL)"

datatype challenge_error =
  ErrChallengeUnknown | ErrChallengeExpired | ErrChallengeReplayed | ErrChallengeNodeMismatch | ErrChallengeCacheFull
| NodeIDTooLong | RandomFailed | SignFailed

definition nodeIDBytes :: "string \<Rightarrow> challenge_error + bytes" where
  "nodeIDBytes nodeID = (if length nodeID > 16 then Inl NodeIDTooLong else Inr (copy16 nodeID))"

definition NodeIDString :: "bytes \<Rightarrow> string" where
  "NodeIDString node = rev (dropWhile (\<lambda>c. c = NUL) (rev node))"

section \<open>Challenge manager\<close>

record challengeEntry =
  ceNodeID :: string
  ceInstance :: bytes
  ceExpiry :: int
  ceUsed :: bool

record ChallengeManager =
  cmTTL :: int
  cmMax :: int
  cmCache :: "(bytes \<times> challengeEntry) list"

definition NewChallengeManager :: "int \<Rightarrow> int \<Rightarrow> ChallengeManager" where
  "NewChallengeManager ttl mx = \<lparr>cmTTL = ttl, cmMax = mx, cmCache = []\<rparr>"

text \<open>The entries that survive the eviction loop at time \<open>now\<close>.\<close>

definition evictExpired :: "int \<Rightarrow> ChallengeManager \<Rightarrow> ChallengeManager" where
  "evictExpired now m = m\<lparr>cmCache := filter (\<lambda>(h, e). now < ceExpiry e) (cmCache m)\<rparr>"

definition UnixSeconds :: "int \<Rightarrow> u64" where
  "UnixSeconds t = of_int (t div 1000000000)"

definition evict :: "int \<Rightarrow> ChallengeManager \<Rightarrow> ChallengeManager" where
  "evict now m = (if cmMax m > 0 then evictExpired now m else m)"

text \<open>
  \<open>tEvict\<close>, \<open>tWire\<close> and \<open>tCache\<close> are the three readings of the clock; \<open>rnd\<close> is the outcome of the random
  source and \<open>sign\<close> the signer. The eviction stays even when the issue fails.
\<close>

definition Issue ::
  "crypto \<Rightarrow> (bytes \<Rightarrow> bytes option) \<Rightarrow> int \<times> int \<times> int \<Rightarrow> bytes option \<Rightarrow> bytes \<Rightarrow> string \<Rightarrow> string \<Rightarrow> ChallengeManager \<Rightarrow>
   (challenge_error + EnrollChallenge \<times> bytes) \<times> ChallengeManager" where
  "Issue C sign clock rnd inst keyID nodeID m =
     (case nodeIDBytes nodeID of
        Inl e \<Rightarrow> (Inl e, m)
      | Inr node \<Rightarrow>
          let (tEvict, tWire, tCache) = clock;
              m = evict tEvict m
          in if cmMax m > 0 \<and> int (length (cmCache m)) \<ge> cmMax m then (Inl ErrChallengeCacheFull, m)
             else case rnd of
               None \<Rightarrow> (Inl RandomFailed, m)
             | Some nonce \<Rightarrow>
                 let ch = \<lparr>ecControllerInstanceID = inst, ecControllerKeyID = keyID, ecNodeID = node, ecServerNonce = nonce,
                           ecProtocolVersions = EnrollVersion, ecExpiryUnix = UnixSeconds (tWire + cmTTL m)\<rparr>;
                     hash = sha256 C (EnrollChallenge_Canonical ch);
                     cached = m\<lparr>cmCache := AList.update hash
                       \<lparr>ceNodeID = nodeID, ceInstance = inst, ceExpiry = tCache + cmTTL m, ceUsed = False\<rparr> (cmCache m)\<rparr>
                 in case sign (EnrollChallenge_SigningBytes ch) of
                      None \<Rightarrow> (Inl SignFailed, cached\<lparr>cmCache := AList.delete hash (cmCache cached)\<rparr>)
                    | Some sig \<Rightarrow> (Inr (ch, EnrollChallenge_Canonical ch @ sig), cached))"

definition ValidateAndConsume :: "int \<Rightarrow> bytes \<Rightarrow> ChallengeManager \<Rightarrow> (challenge_error + string) \<times> ChallengeManager" where
  "ValidateAndConsume now hash m =
     (case map_of (cmCache m) hash of
        None \<Rightarrow> (Inl ErrChallengeUnknown, m)
      | Some entry \<Rightarrow>
          if \<not> now < ceExpiry entry
          then (Inl ErrChallengeExpired, m\<lparr>cmCache := AList.delete hash (cmCache m)\<rparr>)
          else if ceUsed entry then (Inl ErrChallengeReplayed, m)
          else (Inr (ceNodeID entry), m\<lparr>cmCache := AList.update hash (entry\<lparr>ceUsed := True\<rparr>) (cmCache m)\<rparr>))"

definition ChallengeManager_Size :: "ChallengeManager \<Rightarrow> nat" where
  "ChallengeManager_Size m = length (cmCache m)"

section \<open>Session handshake messages\<close>

definition SessionDomain :: string where "SessionDomain = ''AntiNAT-Session-v1''"
definition SessionNonceSize :: nat where "SessionNonceSize = 32"
definition SessionIDMax :: nat where "SessionIDMax = 255"
definition SessionIDSize :: nat where "SessionIDSize = 16"

definition SessionHelloMax :: nat where
  "SessionHelloMax = 7 * 4 + SessionIDSize + SessionIDSize + 4 + 32 + SessionNonceSize + 8 + 1 + 64"
definition SessionWelcomeMax :: nat where
  "SessionWelcomeMax = 8 * 4 + SessionIDSize + SessionIDMax + SessionIDSize + SessionNonceSize + SessionNonceSize + 8
     + SessionIDMax + 8 + 64"
definition SessionFinalMax :: nat where
  "SessionFinalMax = 5 * 4 + SessionIDSize + SessionIDSize + SessionNonceSize + 8 + SessionIDMax + 64"

lemmas session_consts = SessionNonceSize_def SessionIDMax_def SessionIDSize_def SessionHelloMax_def
  SessionWelcomeMax_def SessionFinalMax_def

datatype session_error =
  SessionTooLarge | SessionShort | SessionEmptyFields | SessionField field_error | SessionTrailing | SessionMalformed
| SessionZeroCredential | SessionEmptyID | SessionSignature

record SessionHello =
  shControllerInstanceID :: bytes
  shNodeID :: bytes
  shAgentCredentialVer :: u32
  shAgentPublicKey :: bytes
  shAgentNonce :: bytes
  shAgentMaxEpoch :: u64
  shProtocolVersions :: string

record SessionWelcome =
  swControllerInstanceID :: bytes
  swControllerKeyID :: string
  swNodeID :: bytes
  swAgentNonce :: bytes
  swServerNonce :: bytes
  swConnectionEpoch :: u64
  swSessionID :: string
  swExpiryUnix :: u64

record SessionFinal =
  sfControllerInstanceID :: bytes
  sfNodeID :: bytes
  sfServerNonce :: bytes
  sfConnectionEpoch :: u64
  sfSessionID :: string

definition sessionEncode :: "bytes list \<Rightarrow> bytes" where
  "sessionEncode flds = put_fields flds"

definition sessionSign :: "crypto \<Rightarrow> bytes \<Rightarrow> string \<Rightarrow> bytes \<Rightarrow> crypto_error + bytes" where
  "sessionSign C priv domain flds = Sign C priv (domain @ flds)"

definition sessionVerify :: "crypto \<Rightarrow> bytes \<Rightarrow> string \<Rightarrow> bytes \<Rightarrow> bytes \<Rightarrow> bool" where
  "sessionVerify C pub domain flds sig = Verify C pub (domain @ flds) sig"

definition splitFields :: "bytes \<Rightarrow> session_error + bytes \<times> bytes" where
  "splitFields raw =
     (if length raw < 64 then Inl SessionShort
      else let sig = drop (length raw - 64) raw; flds = take (length raw - 64) raw
           in if length flds = 0 then Inl SessionEmptyFields else Inr (flds, sig))"

definition readFields :: "bytes \<Rightarrow> nat \<Rightarrow> session_error + bytes list" where
  "readFields b count =
     (case read_fields count b of
        Inl e \<Rightarrow> Inl (SessionField e)
      | Inr (parts, rest) \<Rightarrow> if rest \<noteq> [] then Inl SessionTrailing else Inr parts)"

definition MessageID :: "crypto \<Rightarrow> string \<Rightarrow> string \<Rightarrow> bytes" where
  "MessageID C operationID messageType =
     take 16 (sha256 C (''antinat-msgid-v1'' @ [NUL] @ operationID @ [NUL] @ messageType))"

subsection \<open>Hello\<close>

definition hello_fields :: "SessionHello \<Rightarrow> bytes list" where
  "hello_fields h =
     [shControllerInstanceID h, shNodeID h, PutUint32 (shAgentCredentialVer h), shAgentPublicKey h, shAgentNonce h,
      PutUint64 (shAgentMaxEpoch h), shProtocolVersions h]"

definition SessionHello_Canonical :: "SessionHello \<Rightarrow> bytes" where
  "SessionHello_Canonical h = sessionEncode (hello_fields h)"

definition SessionHello_Sign :: "crypto \<Rightarrow> SessionHello \<Rightarrow> bytes \<Rightarrow> crypto_error + bytes" where
  "SessionHello_Sign C h priv = sessionSign C priv SessionDomain (SessionHello_Canonical h)"

definition hello_of_parts :: "bytes list \<Rightarrow> session_error + SessionHello" where
  "hello_of_parts parts =
     (if length (parts ! 0) \<noteq> 16 \<or> length (parts ! 1) \<noteq> 16 \<or> length (parts ! 2) \<noteq> 4 \<or> length (parts ! 3) \<noteq> 32 \<or>
         length (parts ! 4) \<noteq> SessionNonceSize \<or> length (parts ! 5) \<noteq> 8 then Inl SessionMalformed
      else let h = \<lparr>shControllerInstanceID = parts ! 0, shNodeID = parts ! 1, shAgentCredentialVer = Uint32 (parts ! 2),
                    shAgentPublicKey = parts ! 3, shAgentNonce = parts ! 4, shAgentMaxEpoch = Uint64 (parts ! 5),
                    shProtocolVersions = parts ! 6\<rparr>
           in if shAgentCredentialVer h = 0 then Inl SessionZeroCredential else Inr h)"

definition ParseSessionHello :: "crypto \<Rightarrow> bytes \<Rightarrow> session_error + SessionHello" where
  "ParseSessionHello C raw =
     (if length raw > SessionHelloMax then Inl SessionTooLarge
      else andThen (splitFields raw) (\<lambda>(flds, sig).
           andThen (readFields flds 7) (\<lambda>parts.
           andThen (hello_of_parts parts) (\<lambda>h.
           if \<not> sessionVerify C (shAgentPublicKey h) SessionDomain (SessionHello_Canonical h) sig then Inl SessionSignature
           else Inr h))))"

subsection \<open>Welcome\<close>

definition welcome_fields :: "SessionWelcome \<Rightarrow> bytes list" where
  "welcome_fields w =
     [swControllerInstanceID w, swControllerKeyID w, swNodeID w, swAgentNonce w, swServerNonce w,
      PutUint64 (swConnectionEpoch w), swSessionID w, PutUint64 (swExpiryUnix w)]"

definition SessionWelcome_Canonical :: "SessionWelcome \<Rightarrow> bytes" where
  "SessionWelcome_Canonical w = sessionEncode (welcome_fields w)"

definition SessionWelcome_Sign :: "crypto \<Rightarrow> SessionWelcome \<Rightarrow> bytes \<Rightarrow> crypto_error + bytes" where
  "SessionWelcome_Sign C w priv = sessionSign C priv SessionDomain (SessionWelcome_Canonical w)"

definition welcome_of_parts :: "bytes list \<Rightarrow> session_error + SessionWelcome" where
  "welcome_of_parts parts =
     (if length (parts ! 0) \<noteq> 16 \<or> length (parts ! 2) \<noteq> 16 \<or> length (parts ! 3) \<noteq> SessionNonceSize \<or>
         length (parts ! 4) \<noteq> SessionNonceSize \<or> length (parts ! 5) \<noteq> 8 \<or> length (parts ! 7) \<noteq> 8
      then Inl SessionMalformed
      else let w = \<lparr>swControllerInstanceID = parts ! 0, swControllerKeyID = parts ! 1, swNodeID = parts ! 2,
                    swAgentNonce = parts ! 3, swServerNonce = parts ! 4, swConnectionEpoch = Uint64 (parts ! 5),
                    swSessionID = parts ! 6, swExpiryUnix = Uint64 (parts ! 7)\<rparr>
           in if swControllerKeyID w = [] \<or> swSessionID w = [] then Inl SessionEmptyID else Inr w)"

definition ParseSessionWelcome :: "crypto \<Rightarrow> bytes \<Rightarrow> bytes \<Rightarrow> session_error + SessionWelcome" where
  "ParseSessionWelcome C raw controllerPub =
     (if length raw > SessionWelcomeMax then Inl SessionTooLarge
      else andThen (splitFields raw) (\<lambda>(flds, sig).
           andThen (readFields flds 8) (\<lambda>parts.
           andThen (welcome_of_parts parts) (\<lambda>w.
           if \<not> sessionVerify C controllerPub SessionDomain (SessionWelcome_Canonical w) sig then Inl SessionSignature
           else Inr w))))"

subsection \<open>Final\<close>

definition final_fields :: "SessionFinal \<Rightarrow> bytes list" where
  "final_fields f =
     [sfControllerInstanceID f, sfNodeID f, sfServerNonce f, PutUint64 (sfConnectionEpoch f), sfSessionID f]"

definition SessionFinal_Canonical :: "SessionFinal \<Rightarrow> bytes" where
  "SessionFinal_Canonical f = sessionEncode (final_fields f)"

definition SessionFinal_Sign :: "crypto \<Rightarrow> SessionFinal \<Rightarrow> bytes \<Rightarrow> crypto_error + bytes" where
  "SessionFinal_Sign C f priv = sessionSign C priv SessionDomain (SessionFinal_Canonical f)"

definition final_of_parts :: "bytes list \<Rightarrow> session_error + SessionFinal" where
  "final_of_parts parts =
     (if length (parts ! 0) \<noteq> 16 \<or> length (parts ! 1) \<noteq> 16 \<or> length (parts ! 2) \<noteq> SessionNonceSize \<or>
         length (parts ! 3) \<noteq> 8 then Inl SessionMalformed
      else let f = \<lparr>sfControllerInstanceID = parts ! 0, sfNodeID = parts ! 1, sfServerNonce = parts ! 2,
                    sfConnectionEpoch = Uint64 (parts ! 3), sfSessionID = parts ! 4\<rparr>
           in if sfSessionID f = [] then Inl SessionEmptyID else Inr f)"

definition ParseSessionFinal :: "crypto \<Rightarrow> bytes \<Rightarrow> bytes \<Rightarrow> session_error + SessionFinal" where
  "ParseSessionFinal C raw agentPub =
     (if length raw > SessionFinalMax then Inl SessionTooLarge
      else andThen (splitFields raw) (\<lambda>(flds, sig).
           andThen (readFields flds 5) (\<lambda>parts.
           andThen (final_of_parts parts) (\<lambda>f.
           if \<not> sessionVerify C agentPub SessionDomain (SessionFinal_Canonical f) sig then Inl SessionSignature
           else Inr f))))"

section \<open>The messages are codecs\<close>

definition wf_hello :: "SessionHello \<Rightarrow> bool" where
  "wf_hello h \<longleftrightarrow> length (shControllerInstanceID h) = 16 \<and> length (shNodeID h) = 16 \<and> shAgentCredentialVer h \<noteq> 0 \<and>
     length (shAgentPublicKey h) = 32 \<and> length (shAgentNonce h) = 32 \<and> field_fits (shProtocolVersions h)"

definition wf_welcome :: "SessionWelcome \<Rightarrow> bool" where
  "wf_welcome w \<longleftrightarrow> length (swControllerInstanceID w) = 16 \<and> swControllerKeyID w \<noteq> [] \<and> field_fits (swControllerKeyID w) \<and>
     length (swNodeID w) = 16 \<and> length (swAgentNonce w) = 32 \<and> length (swServerNonce w) = 32 \<and>
     swSessionID w \<noteq> [] \<and> field_fits (swSessionID w)"

definition wf_final :: "SessionFinal \<Rightarrow> bool" where
  "wf_final f \<longleftrightarrow> length (sfControllerInstanceID f) = 16 \<and> length (sfNodeID f) = 16 \<and> length (sfServerNonce f) = 32 \<and>
     sfSessionID f \<noteq> [] \<and> field_fits (sfSessionID f)"

lemma readFields_Inr:
  "readFields b n = Inr parts \<longleftrightarrow>
     length parts = n \<and> (\<forall>f \<in> set parts. field_fits f) \<and> b = put_fields parts"
  by (auto simp: readFields_def read_fields_iff read_put_fields split: sum.splits)

lemma splitFields_Inr:
  "splitFields raw = Inr (flds, sig) \<longleftrightarrow> raw = flds @ sig \<and> length sig = SignatureSize \<and> flds \<noteq> []"
  by (auto simp: splitFields_def Let_def SignatureSize_def)

lemma length_5: "length xs = 5 \<longleftrightarrow> (\<exists>a b c d e. xs = [a, b, c, d, e])"
  by (auto simp: length_Suc_conv numeral_eq_Suc)

lemma length_8: "length xs = 8 \<longleftrightarrow> (\<exists>a b c d e f g h. xs = [a, b, c, d, e, f, g, h])"
  by (auto simp: length_Suc_conv numeral_eq_Suc)

lemma hello_of_parts_Inr:
  assumes "length parts = 7" and "\<forall>f \<in> set parts. field_fits f"
  shows "hello_of_parts parts = Inr h \<longleftrightarrow> wf_hello h \<and> parts = hello_fields h"
  using assms by (cases h) (auto simp: length_7 hello_of_parts_def wf_hello_def hello_fields_def session_consts)

lemma welcome_of_parts_Inr:
  assumes "length parts = 8" and "\<forall>f \<in> set parts. field_fits f"
  shows "welcome_of_parts parts = Inr w \<longleftrightarrow> wf_welcome w \<and> parts = welcome_fields w"
proof -
  from assms(1) obtain a b c d e f g h where "parts = [a, b, c, d, e, f, g, h]" by (auto simp: length_8)
  with assms(2) show ?thesis
    by (cases w) (auto simp: welcome_of_parts_def wf_welcome_def welcome_fields_def session_consts)
qed

lemma final_of_parts_Inr:
  assumes "length parts = 5" and "\<forall>f \<in> set parts. field_fits f"
  shows "final_of_parts parts = Inr w \<longleftrightarrow> wf_final w \<and> parts = final_fields w"
  using assms by (cases w) (auto simp: length_5 final_of_parts_def wf_final_def final_fields_def session_consts)

lemma session_fields_fit:
  "wf_hello h \<Longrightarrow> length (hello_fields h) = 7 \<and> (\<forall>f \<in> set (hello_fields h). field_fits f)"
  "wf_welcome w \<Longrightarrow> length (welcome_fields w) = 8 \<and> (\<forall>f \<in> set (welcome_fields w). field_fits f)"
  "wf_final l \<Longrightarrow> length (final_fields l) = 5 \<and> (\<forall>f \<in> set (final_fields l). field_fits f)"
  by (auto simp: wf_hello_def hello_fields_def wf_welcome_def welcome_fields_def wf_final_def final_fields_def
      intro!: fits_small)

interpretation hello: field_codec splitFields readFields hello_fields hello_of_parts 7 wf_hello
  by unfold_locales (simp_all add: session_fields_fit hello_of_parts_Inr readFields_Inr splitFields_Inr)

interpretation welc: field_codec splitFields readFields welcome_fields welcome_of_parts 8 wf_welcome
  by unfold_locales (simp_all add: session_fields_fit welcome_of_parts_Inr readFields_Inr splitFields_Inr)

interpretation fin: field_codec splitFields readFields final_fields final_of_parts 5 wf_final
  by unfold_locales (simp_all add: session_fields_fit final_of_parts_Inr readFields_Inr splitFields_Inr)

lemma session_canonical:
  "SessionHello_Canonical h = put_fields (hello_fields h)"
  "SessionWelcome_Canonical w = put_fields (welcome_fields w)"
  "SessionFinal_Canonical f = put_fields (final_fields f)"
  by (simp_all add: SessionHello_Canonical_def SessionWelcome_Canonical_def SessionFinal_Canonical_def sessionEncode_def)

lemma session_lengths:
  "wf_hello h \<Longrightarrow> length (SessionHello_Canonical h) = 136 + length (shProtocolVersions h)"
  "wf_welcome w \<Longrightarrow> length (SessionWelcome_Canonical w) = 144 + length (swControllerKeyID w) + length (swSessionID w)"
  "wf_final f \<Longrightarrow> length (SessionFinal_Canonical f) = 92 + length (sfSessionID f)"
  by (simp_all add: session_canonical hello_fields_def welcome_fields_def final_fields_def wf_hello_def wf_welcome_def
      wf_final_def)

text \<open>The parsers, characterised by the frames they accept.\<close>

lemma ParseSessionHello_Inr:
  "ParseSessionHello C raw = Inr h \<longleftrightarrow>
     wf_hello h \<and> length (shProtocolVersions h) \<le> 1 \<and>
     (\<exists>sig. raw = SessionHello_Canonical h @ sig \<and>
        sessionVerify C (shAgentPublicKey h) SessionDomain (SessionHello_Canonical h) sig)"
  by (auto simp: ParseSessionHello_def hello.split_read_build session_canonical(1) [symmetric] session_lengths
      session_consts sessionVerify_def Verify_len SignatureSize_def simp del: andThen_Inr)

lemma ParseSessionWelcome_Inr:
  "ParseSessionWelcome C raw pub = Inr w \<longleftrightarrow>
     wf_welcome w \<and> length (swControllerKeyID w) + length (swSessionID w) \<le> 510 \<and>
     (\<exists>sig. raw = SessionWelcome_Canonical w @ sig \<and>
        sessionVerify C pub SessionDomain (SessionWelcome_Canonical w) sig)"
  by (auto simp: ParseSessionWelcome_def welc.split_read_build session_canonical(2) [symmetric] session_lengths
      session_consts sessionVerify_def Verify_len SignatureSize_def simp del: andThen_Inr)

lemma ParseSessionFinal_Inr:
  "ParseSessionFinal C raw pub = Inr f \<longleftrightarrow>
     wf_final f \<and> length (sfSessionID f) \<le> 255 \<and>
     (\<exists>sig. raw = SessionFinal_Canonical f @ sig \<and>
        sessionVerify C pub SessionDomain (SessionFinal_Canonical f) sig)"
  by (auto simp: ParseSessionFinal_def fin.split_read_build session_canonical(3) [symmetric] session_lengths
      session_consts sessionVerify_def Verify_len SignatureSize_def simp del: andThen_Inr)

section \<open>Properties of the transcript\<close>

lemma length_neq: "length xs \<noteq> length ys \<Longrightarrow> xs \<noteq> ys"
  by auto

lemma sessionVerify_Sign:
  assumes "go_crypto C" and "length priv = PrivateKeySize" and "sessionSign C priv d m = Inr sig"
  shows "sessionVerify C (ed_public C priv) d m sig"
  using go_crypto.Verify_Sign(1) [OF assms(1)] assms(3) by (simp add: sessionSign_def sessionVerify_def)

text \<open>
  C39: The three handshake messages survive the wire: a well-formed hello, welcome or final, signed with the
  sender's key, is parsed back unchanged under the matching public key. The size bounds are met by every
  one-byte protocol version, by key and session ids of together at most 510 bytes in a welcome, and by a
  session id of at most 255 bytes in a final.
\<close>

theorem session_roundtrip:
  assumes "go_crypto C" and "length priv = PrivateKeySize"
  shows "(wf_hello h \<and> length (shProtocolVersions h) \<le> 1 \<and> shAgentPublicKey h = ed_public C priv \<longrightarrow>
       (\<exists>sig. SessionHello_Sign C h priv = Inr sig \<and> ParseSessionHello C (SessionHello_Canonical h @ sig) = Inr h)) \<and>
    (wf_welcome w \<and> length (swControllerKeyID w) + length (swSessionID w) \<le> 510 \<longrightarrow>
       (\<exists>sig. SessionWelcome_Sign C w priv = Inr sig \<and>
          ParseSessionWelcome C (SessionWelcome_Canonical w @ sig) (ed_public C priv) = Inr w)) \<and>
    (wf_final f \<and> length (sfSessionID f) \<le> 255 \<longrightarrow>
       (\<exists>sig. SessionFinal_Sign C f priv = Inr sig \<and>
          ParseSessionFinal C (SessionFinal_Canonical f @ sig) (ed_public C priv) = Inr f))"
proof -
  have "\<exists>sig. sessionSign C priv d m = Inr sig \<and> sessionVerify C (ed_public C priv) d m sig" for d m
    using sessionVerify_Sign [OF assms] go_crypto.Sign_ok [OF assms] by (auto simp: sessionSign_def)
  then show ?thesis
    by (auto simp: ParseSessionHello_Inr ParseSessionWelcome_Inr ParseSessionFinal_Inr SessionHello_Sign_def
        SessionWelcome_Sign_def SessionFinal_Sign_def)
qed

definition example_welcome :: SessionWelcome where
  "example_welcome = \<lparr>swControllerInstanceID = replicate 16 (CHR ''i''), swControllerKeyID = ''key-1'',
     swNodeID = replicate 16 (CHR ''n''), swAgentNonce = replicate 32 (CHR ''a''),
     swServerNonce = replicate 32 (CHR ''s''), swConnectionEpoch = 7, swSessionID = ''s7'', swExpiryUnix = 1700000000\<rparr>"

lemma example_welcome_wf:
  "wf_welcome example_welcome" "length (swControllerKeyID example_welcome) + length (swSessionID example_welcome) \<le> 510"
  by (simp_all add: wf_welcome_def example_welcome_def field_fits_def)

theorem session_roundtrip_witness:
  "\<exists>sig. SessionWelcome_Sign demo_crypto example_welcome (replicate 64 (CHR ''k'')) = Inr sig \<and>
     ParseSessionWelcome demo_crypto (SessionWelcome_Canonical example_welcome @ sig)
       (ed_public demo_crypto (replicate 64 (CHR ''k''))) = Inr example_welcome"
proof -
  have key: "length (replicate 64 (CHR ''k'')) = PrivateKeySize" by (simp add: PrivateKeySize_def)
  show ?thesis
    using session_roundtrip [OF demo.go_crypto_axioms key, where w = example_welcome] example_welcome_wf by blast
qed

text \<open>
  No signature of the handshake can be taken for another: the signing inputs of a hello, a welcome and a
  final differ, a welcome has one signing input, and none of them is the signing input of an enrollment
  message, so a signature captured in one exchange proves nothing in another.
\<close>

theorem session_signatures_separated:
  assumes "wf_hello h" and "wf_welcome w" and "wf_final f"
  shows "SessionDomain @ SessionHello_Canonical h \<noteq> SessionDomain @ SessionWelcome_Canonical w \<and>
    SessionDomain @ SessionHello_Canonical h \<noteq> SessionDomain @ SessionFinal_Canonical f \<and>
    SessionDomain @ SessionWelcome_Canonical w \<noteq> SessionDomain @ SessionFinal_Canonical f \<and>
    (\<forall>w'. wf_welcome w' \<and> SessionWelcome_Canonical w = SessionWelcome_Canonical w' \<longrightarrow> w = w') \<and>
    (\<forall>m q. SessionDomain @ m \<noteq> EnrollRequest_SigningBytes q)"
proof -
  note fit = session_fields_fit(1) [OF assms(1)] session_fields_fit(2) [OF assms(2)] session_fields_fit(3) [OF assms(3)]
  note unf = session_canonical hello_fields_def welcome_fields_def final_fields_def
  have "SessionHello_Canonical h \<noteq> SessionWelcome_Canonical w"
  proof -
    have "PutUint32 (shAgentCredentialVer h) \<noteq> swNodeID w"
      using assms by (intro length_neq) (simp add: wf_welcome_def)
    with fit show ?thesis by (auto simp: unf put_fields_prefix)
  qed
  moreover have "SessionHello_Canonical h \<noteq> SessionFinal_Canonical f"
  proof -
    have "PutUint32 (shAgentCredentialVer h) \<noteq> sfServerNonce f"
      using assms by (intro length_neq) (simp add: wf_final_def)
    with fit show ?thesis by (auto simp: unf put_fields_prefix)
  qed
  moreover have "SessionWelcome_Canonical w \<noteq> SessionFinal_Canonical f"
    using fit assms by (auto simp: unf put_fields_prefix wf_welcome_def wf_final_def)
  moreover have "\<forall>w'. wf_welcome w' \<and> SessionWelcome_Canonical w = SessionWelcome_Canonical w' \<longrightarrow> w = w'"
    using welc.canonical.enc_inj [OF assms(2)] by (auto simp: session_canonical)
  moreover have "SessionDomain @ m \<noteq> EnrollRequest_SigningBytes q" for m q
    by (simp add: SessionDomain_def signing_bytes_domain EnrollDomain_def)
  ultimately show ?thesis by simp
qed

definition example_hello :: SessionHello where
  "example_hello = \<lparr>shControllerInstanceID = replicate 16 (CHR ''i''), shNodeID = replicate 16 (CHR ''n''),
     shAgentCredentialVer = 1, shAgentPublicKey = replicate 32 (CHR ''p''), shAgentNonce = replicate 32 (CHR ''a''),
     shAgentMaxEpoch = 6, shProtocolVersions = ''1''\<rparr>"

definition example_final :: SessionFinal where
  "example_final = \<lparr>sfControllerInstanceID = replicate 16 (CHR ''i''), sfNodeID = replicate 16 (CHR ''n''),
     sfServerNonce = replicate 32 (CHR ''s''), sfConnectionEpoch = 7, sfSessionID = ''s7''\<rparr>"

theorem session_signatures_separated_witness:
  "wf_hello example_hello \<and> wf_final example_final \<and>
   SessionDomain @ SessionHello_Canonical example_hello \<noteq> SessionDomain @ SessionFinal_Canonical example_final"
proof -
  have wf: "wf_hello example_hello" "wf_final example_final"
    by (simp_all add: wf_hello_def wf_final_def example_hello_def example_final_def field_fits_def)
  show ?thesis using session_signatures_separated [OF wf(1) example_welcome_wf(1) wf(2)] wf by blast
qed

section \<open>Properties of the challenge cache\<close>

text \<open>
  A run of the manager with two logs: what was issued and what was consumed, as pairs of challenge hash and
  node id.
\<close>

datatype challenge_op =
  ChIssue "bytes \<Rightarrow> bytes option" "int \<times> int \<times> int" "bytes option" bytes string string
| ChValidate int bytes

type_synonym challenge_run = "ChallengeManager \<times> (bytes \<times> string) list \<times> (bytes \<times> string) list"

fun exec_challenge :: "crypto \<Rightarrow> challenge_run \<Rightarrow> challenge_op \<Rightarrow> challenge_run" where
  "exec_challenge C (m, issued, consumed) (ChIssue sign clock rnd inst keyID nodeID) =
     (case Issue C sign clock rnd inst keyID nodeID m of
        (Inl _, m') \<Rightarrow> (m', issued, consumed)
      | (Inr (ch, _), m') \<Rightarrow> (m', (sha256 C (EnrollChallenge_Canonical ch), nodeID) # issued, consumed))"
| "exec_challenge C (m, issued, consumed) (ChValidate now hash) =
     (case ValidateAndConsume now hash m of
        (Inl _, m') \<Rightarrow> (m', issued, consumed)
      | (Inr node, m') \<Rightarrow> (m', issued, (hash, node) # consumed))"

text \<open>An outstanding challenge: cached for the node and not yet used.\<close>

definition outstanding :: "ChallengeManager \<Rightarrow> bytes \<times> string \<Rightarrow> nat" where
  "outstanding m p =
     (case map_of (cmCache m) (fst p) of
        None \<Rightarrow> 0 | Some e \<Rightarrow> if \<not> ceUsed e \<and> ceNodeID e = snd p then 1 else 0)"

definition challenge_inv :: "int \<Rightarrow> challenge_run \<Rightarrow> bool" where
  "challenge_inv mx r \<longleftrightarrow> (case r of (m, issued, consumed) \<Rightarrow>
     cmMax m = mx \<and> distinct (map fst (cmCache m)) \<and> (0 < mx \<longrightarrow> int (length (cmCache m)) \<le> mx) \<and>
     (\<forall>p. count_list consumed p + outstanding m p \<le> count_list issued p))"

lemma inv_count: "challenge_inv mx (m, i, c) \<Longrightarrow> count_list c p + outstanding m p \<le> count_list i p"
  by (cases p) (simp add: challenge_inv_def)

lemma inv_le: "challenge_inv mx (m, i, c) \<Longrightarrow> count_list c p \<le> count_list i p"
  using inv_count by (meson add_leD1)

lemma inv_intro:
  assumes "challenge_inv mx (m, i, c)" and "cmMax m' = cmMax m" and "distinct (map fst (cmCache m'))"
    and "0 < mx \<Longrightarrow> int (length (cmCache m')) \<le> mx"
    and "\<And>h n. count_list c' (h, n) + outstanding m' (h, n) \<le> count_list i' (h, n)"
  shows "challenge_inv mx (m', i', c')"
  using assms by (simp add: challenge_inv_def)

lemma outstanding_cached:
  "outstanding (m\<lparr>cmCache := AList.update h e al\<rparr>) p =
     (if fst p = h then (if \<not> ceUsed e \<and> ceNodeID e = snd p then 1 else 0) else outstanding (m\<lparr>cmCache := al\<rparr>) p)"
  "outstanding (m\<lparr>cmCache := AList.delete h al\<rparr>) p = (if fst p = h then 0 else outstanding (m\<lparr>cmCache := al\<rparr>) p)"
  by (simp_all add: outstanding_def)

lemma evict_outstanding:
  "distinct (map fst (cmCache m)) \<Longrightarrow> outstanding (evictExpired t m) p \<le> outstanding m p"
  by (auto simp: outstanding_def evictExpired_def map_of_filter_val split: option.splits)

lemma evict_inv:
  assumes inv: "challenge_inv mx (m, i, c)"
  shows "challenge_inv mx (evict t m, i, c)"
proof -
  have d: "distinct (map fst (cmCache m))" using inv by (simp add: challenge_inv_def)
  have "challenge_inv mx (evictExpired t m, i, c)"
  proof (rule inv_intro [OF inv])
    show "count_list c (h, n) + outstanding (evictExpired t m) (h, n) \<le> count_list i (h, n)" for h n
      using inv_count [OF inv, of "(h, n)"] evict_outstanding [OF d, of t "(h, n)"] by linarith
    show "int (length (cmCache (evictExpired t m))) \<le> mx" if "0 < mx"
    proof -
      have "int (length (cmCache m)) \<le> mx" using that inv by (simp add: challenge_inv_def)
      moreover have "length (cmCache (evictExpired t m)) \<le> length (cmCache m)" by (simp add: evictExpired_def)
      ultimately show ?thesis by linarith
    qed
  qed (use d in \<open>simp_all add: evictExpired_def distinct_keys_filter\<close>)
  then show ?thesis using inv by (simp add: evict_def)
qed

lemma length_delete_le: "length (AList.delete k al) \<le> length al"
  by (simp add: AList.delete_eq)

lemma length_update_le: "length (AList.update k v al) \<le> Suc (length al)"
  by (cases "map_of al k") (simp_all add: length_update_absent length_update_present)

text \<open>The two ways the cache changes after the eviction, and how the logs follow.\<close>

lemma issue_inv:
  assumes inv: "challenge_inv mx (m, i, c)" and room: "\<not> (0 < mx \<and> int (length (cmCache m)) \<ge> mx)" and new: "\<not> ceUsed e"
  shows "challenge_inv mx (m\<lparr>cmCache := AList.update h e (cmCache m)\<rparr>, (h, ceNodeID e) # i, c)"
    and "challenge_inv mx (m\<lparr>cmCache := AList.delete h (AList.update h e (cmCache m))\<rparr>, i, c)"
proof -
  have d: "distinct (map fst (cmCache m))" using inv by (simp add: challenge_inv_def)
  have room': "int (length (AList.update h e (cmCache m))) \<le> mx" if "0 < mx"
    using room that length_update_le [of h e "cmCache m"] by linarith
  show "challenge_inv mx (m\<lparr>cmCache := AList.update h e (cmCache m)\<rparr>, (h, ceNodeID e) # i, c)"
    using inv_count [OF inv, of "(h, _)"] inv_count [OF inv] inv_le [OF inv]
    by (intro inv_intro [OF inv]) (auto simp: distinct_update d room' outstanding_cached le_SucI)
  have room'': "int (length (AList.delete h (AList.update h e (cmCache m)))) \<le> mx" if "0 < mx"
    using room' that length_delete_le [of h "AList.update h e (cmCache m)"] by linarith
  show "challenge_inv mx (m\<lparr>cmCache := AList.delete h (AList.update h e (cmCache m))\<rparr>, i, c)"
    using inv_count [OF inv] inv_le [OF inv]
    by (intro inv_intro [OF inv]) (auto simp: distinct_update distinct_delete d room'' outstanding_cached)
qed

lemma validate_inv:
  assumes inv: "challenge_inv mx (m, i, c)" and e: "map_of (cmCache m) h = Some e" "\<not> ceUsed e"
  shows "challenge_inv mx (m\<lparr>cmCache := AList.update h (e\<lparr>ceUsed := True\<rparr>) (cmCache m)\<rparr>, i, (h, ceNodeID e) # c)"
proof -
  have one: "outstanding m (h, ceNodeID e) = 1" using e by (simp add: outstanding_def)
  have len: "length (AList.update h (e\<lparr>ceUsed := True\<rparr>) (cmCache m)) = length (cmCache m)"
    using e by (simp add: length_update_present)
  show ?thesis
    using inv_count [OF inv] inv_le [OF inv] inv_count [OF inv, of "(h, ceNodeID e)"] inv
    by (intro inv_intro [OF inv]) (auto simp: distinct_update outstanding_cached one len challenge_inv_def)
qed

lemma expire_inv:
  assumes inv: "challenge_inv mx (m, i, c)"
  shows "challenge_inv mx (m\<lparr>cmCache := AList.delete h (cmCache m)\<rparr>, i, c)"
proof (rule inv_intro [OF inv])
  show "int (length (cmCache (m\<lparr>cmCache := AList.delete h (cmCache m)\<rparr>))) \<le> mx" if "0 < mx"
    using length_delete_le [of h "cmCache m"] inv that by (auto simp: challenge_inv_def)
qed (use inv inv_count [OF inv] inv_le [OF inv] in \<open>auto simp: challenge_inv_def distinct_delete outstanding_cached\<close>)

lemma exec_challenge_inv: "challenge_inv mx r \<Longrightarrow> challenge_inv mx (exec_challenge C r op)"
proof (induction C r op rule: exec_challenge.induct)
  case (1 C m issued consumed sign clock rnd inst keyID nodeID)
  obtain t1 t2 t3 where clock: "clock = (t1, t2, t3)" by (cases clock)
  define m1 where "m1 = evict t1 m"
  have inv: "challenge_inv mx (m1, issued, consumed)" using evict_inv [OF 1] by (simp add: m1_def)
  then have mx: "cmMax m1 = mx" by (simp add: challenge_inv_def)
  note unf = exec_challenge.simps Issue_def clock m1_def [symmetric] Let_def prod.case mx
  show ?case
  proof (cases "nodeIDBytes nodeID")
    case (Inl e)
    then show ?thesis using 1 by (simp add: Issue_def)
  next
    case (Inr node)
    show ?thesis
    proof (cases "0 < mx \<and> int (length (cmCache m1)) \<ge> mx")
      case True
      then show ?thesis using inv Inr by (simp add: unf)
    next
      case room: False
      show ?thesis
      proof (cases rnd)
        case None
        then show ?thesis using inv Inr room by (simp add: unf)
      next
        case (Some nonce)
        show ?thesis
          using issue_inv [OF inv room, where e = "\<lparr>ceNodeID = nodeID, ceInstance = inst, ceExpiry = t3 + cmTTL m1, ceUsed = False\<rparr>"]
            room inv by (simp add: unf Inr Some split: option.split)
      qed
    qed
  qed
next
  case (2 C m issued consumed now hash)
  then show ?case
    by (auto simp: ValidateAndConsume_def validate_inv expire_inv split: option.split)
qed

text \<open>
  C7: Enrollment challenges are single use, bound to their node and bounded in number: after any sequence of
  issues and validations, with any clock, random source and signer, a challenge was consumed for a node at
  most as often as it was issued for that node, and a manager with a positive limit never caches more
  challenges than the limit.
\<close>

theorem challenge_consumed_at_most_once:
  assumes "foldl (exec_challenge C) (NewChallengeManager ttl mx, [], []) ops = (m, issued, consumed)"
  shows "count_list consumed (hash, node) \<le> count_list issued (hash, node) \<and>
    (0 < mx \<longrightarrow> int (ChallengeManager_Size m) \<le> mx)"
proof -
  have "challenge_inv mx r \<Longrightarrow> challenge_inv mx (foldl (exec_challenge C) r ops)" for r
    by (induction ops arbitrary: r) (simp_all add: exec_challenge_inv)
  moreover have "challenge_inv mx (NewChallengeManager ttl mx, [], [])"
    by (simp add: challenge_inv_def NewChallengeManager_def outstanding_def)
  ultimately have "challenge_inv mx (m, issued, consumed)" using assms by metis
  then show ?thesis using inv_le [of mx m issued consumed] by (simp add: challenge_inv_def ChallengeManager_Size_def)
qed

definition demo_challenges :: "challenge_op list" where
  "demo_challenges =
     [ChIssue (\<lambda>m. Some ''sig'') (0, 0, 0) (Some (replicate 32 (CHR ''n''))) (replicate 16 (CHR ''i'')) ''k'' ''node'',
      ChValidate 5 ''h'', ChValidate 6 ''h'']"

definition demo_hash :: crypto where
  "demo_hash = demo_crypto\<lparr>sha256 := (\<lambda>m. ''h'')\<rparr>"

lemma demo_challenges_run:
  "\<exists>m. foldl (exec_challenge demo_hash) (NewChallengeManager 10 1, [], []) demo_challenges =
     (m, [(''h'', ''node'')], [(''h'', ''node'')])"
  by (simp add: demo_challenges_def NewChallengeManager_def Issue_def nodeIDBytes_def Let_def evict_def evictExpired_def
      demo_hash_def ValidateAndConsume_def)

theorem challenge_consumed_at_most_once_witness:
  "\<exists>m. foldl (exec_challenge demo_hash) (NewChallengeManager 10 1, [], []) demo_challenges =
     (m, [(''h'', ''node'')], [(''h'', ''node'')]) \<and> int (ChallengeManager_Size m) \<le> 1"
proof -
  obtain m where run: "foldl (exec_challenge demo_hash) (NewChallengeManager 10 1, [], []) demo_challenges =
     (m, [(''h'', ''node'')], [(''h'', ''node'')])"
    using demo_challenges_run by blast
  with challenge_consumed_at_most_once [OF run] show ?thesis by simp
qed

end
