(* ===== verification/Agent_Decommission.thy ===== *)
theory Agent_Decommission
  imports Agent_Journal Agent_Lifecycle
begin

text \<open>
  \<open>internal/agent/localstate/decommission.go\<close>, \<open>uninstall.go\<close>, \<open>internal/agent/reconcile/decommission.go\<close>,
  \<open>uninstall.go\<close> and the result helpers of \<open>operation.go\<close>: the durable rows of the terminal lifecycle
  and the driver that takes a node from ACTIVE to DECOMMISSIONED over the store, the marker file and
  the terminal latch.
\<close>

section \<open>Durable rows\<close>

definition keyDecommissionIntent :: bytes where "keyDecommissionIntent = ''decommission-intent:''"
definition keyCleanupTombstone :: bytes where "keyCleanupTombstone = ''cleanup-tombstone:''"
definition keyDecommissionIntentCanonical :: bytes where "keyDecommissionIntentCanonical = ''decommission-intent:current''"
definition keyCleanupTombstoneCanonical :: bytes where "keyCleanupTombstoneCanonical = ''cleanup-tombstone:current''"
definition keyUninstallNotice :: bytes where "keyUninstallNotice = ''uninstall-notice:''"

definition decode_intent :: "row \<Rightarrow> store_error + DecommissionIntent" where
  "decode_intent raw = (case raw of RDecommission i \<Rightarrow> Inr i | _ \<Rightarrow> Inl ErrDecode)"

definition decode_cleanup :: "row \<Rightarrow> store_error + AgentCleanupTombstone" where
  "decode_cleanup raw = (case raw of RCleanup t \<Rightarrow> Inr t | _ \<Rightarrow> Inl ErrDecode)"

text \<open>
  The loops over the operation-keyed rows of one prefix: \<open>last_row\<close> keeps the last one, \<open>single_row\<close>
  refuses a second one.
\<close>

definition last_row ::
  "'tx bolt \<Rightarrow> (row \<Rightarrow> store_error + 'r) \<Rightarrow> bytes \<Rightarrow> bytes \<Rightarrow> 'tx \<Rightarrow> 'r option \<Rightarrow> bytes \<Rightarrow> store_error + 'r option" where
  "last_row B decode pre canonical tx legacy k =
     (if \<not> prefix pre k \<or> k = canonical then Inr legacy
      else case bget B tx bucketOperations k of
        None \<Rightarrow> Inr legacy
      | Some raw \<Rightarrow> andThen (decode raw) (\<lambda>old. Inr (Some old)))"

definition single_row ::
  "'tx bolt \<Rightarrow> (row \<Rightarrow> store_error + 'r) \<Rightarrow> bytes \<Rightarrow> bytes \<Rightarrow> 'tx \<Rightarrow> 'r option \<Rightarrow> bytes \<Rightarrow> store_error + 'r option" where
  "single_row B decode pre canonical tx found k =
     (if \<not> prefix pre k \<or> k = canonical then Inr found
      else if found \<noteq> None then Inl ErrRecord
      else case bget B tx bucketOperations k of
        None \<Rightarrow> Inr found
      | Some raw \<Rightarrow> andThen (decode raw) (\<lambda>r. Inr (Some r)))"

definition PutDecommissionIntent :: "'tx bolt \<Rightarrow> DecommissionIntent \<Rightarrow> 'tx \<Rightarrow> store_error + bool \<times> 'tx" where
  "PutDecommissionIntent B intent tx =
     (if diOperationID intent = [] \<or> diNodeID intent = [] then Inl ErrRequest
      else let other = (\<lambda>old. diOperationID old \<noteq> diOperationID intent \<or> diNodeID old \<noteq> diNodeID intent)
      in case bget B tx bucketOperations keyDecommissionIntentCanonical of
           Some existing \<Rightarrow> andThen (decode_intent existing) (\<lambda>old.
             if other old then Inl ErrDecommissionConflict else Inr (False, tx))
         | None \<Rightarrow>
             andThen (foldE (last_row B decode_intent keyDecommissionIntent keyDecommissionIntentCanonical tx) None
                        (bkeys B tx bucketOperations)) (\<lambda>legacy.
             if (case legacy of None \<Rightarrow> False | Some old \<Rightarrow> other old) then Inl ErrDecommissionConflict
             else andThen (Put B tx bucketOperations keyDecommissionIntentCanonical (RDecommission intent)) (\<lambda>tx.
                  andThen (Put B tx bucketOperations (keyDecommissionIntent @ diOperationID intent) (RDecommission intent)) (\<lambda>tx.
                  Inr (True, tx)))))"

definition LoadDecommissionIntent :: "'tx bolt \<Rightarrow> 'tx \<Rightarrow> store_error + DecommissionIntent option" where
  "LoadDecommissionIntent B tx =
     foldE (single_row B decode_intent keyDecommissionIntent keyDecommissionIntentCanonical tx) None (bkeys B tx bucketOperations)"

definition WriteAgentCleanupTombstone :: "'tx bolt \<Rightarrow> AgentCleanupTombstone \<Rightarrow> 'tx \<Rightarrow> store_error + 'tx" where
  "WriteAgentCleanupTombstone B ts tx =
     (if ctOperationID ts = [] \<or> ctNodeID ts = [] then Inl ErrRequest
      else let other = (\<lambda>old. ctOperationID old \<noteq> ctOperationID ts \<or> ctNodeID old \<noteq> ctNodeID ts)
      in case bget B tx bucketOperations keyCleanupTombstoneCanonical of
           Some existing \<Rightarrow> andThen (decode_cleanup existing) (\<lambda>old.
             if other old then Inl ErrDecommissionConflict else Inr tx)
         | None \<Rightarrow>
             andThen (foldE (last_row B decode_cleanup keyCleanupTombstone keyCleanupTombstoneCanonical tx) None
                        (bkeys B tx bucketOperations)) (\<lambda>legacy.
             if (case legacy of None \<Rightarrow> False | Some old \<Rightarrow> other old) then Inl ErrDecommissionConflict
             else andThen (Put B tx bucketOperations keyCleanupTombstoneCanonical (RCleanup ts)) (\<lambda>tx.
                  Put B tx bucketOperations (keyCleanupTombstone @ ctOperationID ts) (RCleanup ts))))"

definition LoadAgentCleanupTombstone :: "'tx bolt \<Rightarrow> 'tx \<Rightarrow> store_error + AgentCleanupTombstone option" where
  "LoadAgentCleanupTombstone B tx =
     foldE (single_row B decode_cleanup keyCleanupTombstone keyCleanupTombstoneCanonical tx) None (bkeys B tx bucketOperations)"

text \<open>The buckets a decommission empties.\<close>

definition forward_buckets :: "bucket list" where
  "forward_buckets = [bucketApplied, bucketActivation, bucketTombstones, bucketForwardDeleteIntents, bucketDesired,
     bucketHookQueue, bucketKeyring, bucketMapping]"

definition clear_bucket :: "'tx bolt \<Rightarrow> 'tx \<Rightarrow> bucket \<Rightarrow> 'tx" where
  "clear_bucket B tx b = foldl (\<lambda>tx k. bdelete B tx b k) tx (bkeys B tx b)"

definition ClearForwardStateForDecommission :: "'tx bolt \<Rightarrow> 'tx \<Rightarrow> store_error + 'tx" where
  "ClearForwardStateForDecommission B tx = Inr (foldl (clear_bucket B) tx forward_buckets)"

definition CleanupTombstoneAllowedKeyHashes :: "'tx bolt \<Rightarrow> 'tx \<Rightarrow> store_error + string list option" where
  "CleanupTombstoneAllowedKeyHashes B tx =
     andThen (LoadAgentCleanupTombstone B tx) (\<lambda>found. Inr (map_option ctAllowedKeyHashes found))"

definition RecordUninstallNotice :: "'tx bolt \<Rightarrow> UninstallNotice \<Rightarrow> 'tx \<Rightarrow> store_error + 'tx" where
  "RecordUninstallNotice B notice tx =
     (if unOperationID notice = [] then Inl ErrRequest
      else let status = (if \<not> unConnectivity notice then ''UNKNOWN'' else ''QUEUED'')
           in Put B tx bucketOperations (keyUninstallNotice @ unOperationID notice) (RNotice (notice\<lparr>unStatus := status\<rparr>)))"

definition UninstallNoticeStatus :: "'tx bolt \<Rightarrow> string \<Rightarrow> 'tx \<Rightarrow> store_error + UninstallNotice option" where
  "UninstallNoticeStatus B operationID tx =
     (case bget B tx bucketOperations (keyUninstallNotice @ operationID) of
        None \<Rightarrow> Inr None
      | Some (RNotice n) \<Rightarrow> Inr (Some n)
      | Some _ \<Rightarrow> Inl ErrDecode)"

section \<open>The agent's state and its actions\<close>

text \<open>
  The state the terminal lifecycle works on: the store, the state directory, the latch, and the
  application's in-memory mirrors of the marker and of the quarantine. Unlike a store
  transaction an action is not rolled back when it fails.
\<close>

record 'tx agent =
  agStore :: 'tx
  agDir :: state_dir
  agLatch :: Latch
  agMarker :: string
  agQuarantine :: bool

datatype agent_error =
  DecRequest | DecLifecycle lifecycle_error | DecStore store_error | ErrDecommissionedAgent | DecLatchEngaged
| DecStop | DecClean | DecNotDecommissioning string | DecNotDecommissioned string | DecDecode | DecUnexpected string
| DecPins nat | ErrProbeArmRejected | DecNotAuthorized | DecRotation

type_synonym ('tx, 'a) act = "'tx agent \<Rightarrow> (agent_error + 'a) \<times> 'tx agent"

text \<open>A read transaction, a write transaction, and an operation on the state directory.\<close>

definition viewA :: "('tx \<Rightarrow> store_error + 'a) \<Rightarrow> ('tx, 'a) act" where
  "viewA f w = (case f (agStore w) of Inl e \<Rightarrow> (Inl (DecStore e), w) | Inr a \<Rightarrow> (Inr a, w))"

definition updateA :: "('tx \<Rightarrow> store_error + 'tx) \<Rightarrow> ('tx, unit) act" where
  "updateA f w = (case f (agStore w) of Inl e \<Rightarrow> (Inl (DecStore e), w) | Inr tx \<Rightarrow> (Inr (), w\<lparr>agStore := tx\<rparr>))"

definition dirA :: "(state_dir \<Rightarrow> (lifecycle_error + 'a) \<times> state_dir) \<Rightarrow> ('tx, 'a) act" where
  "dirA f w = (case f (agDir w) of (Inl e, d) \<Rightarrow> (Inl (DecLifecycle e), w\<lparr>agDir := d\<rparr>) | (Inr a, d) \<Rightarrow> (Inr a, w\<lparr>agDir := d\<rparr>))"

definition markerState :: "('tx, string) act" where
  "markerState w = dirA (\<lambda>d. (LoadMarker d, d)) w"

section \<open>The driver\<close>

record DecommissionRequest =
  dqNodeID :: string
  dqOperationID :: string
  dqForce :: bool
  dqDeadlineUnix :: int
  dqAllowedKeyHashes :: "string list"
  dqCredentialVersions :: "u32 list"

text \<open>
  The hooks and the session identity the driver is wired with. A hook reports success and may change
  the state; \<^term>\<open>None\<close> is the nil identity.
\<close>

record 'tx Decommissioner =
  dcStopAll :: "'tx agent \<Rightarrow> bool \<times> 'tx agent"
  dcSecretCleans :: "('tx agent \<Rightarrow> bool \<times> 'tx agent) list"
  dcSessionIdentity :: "('tx \<Rightarrow> store_error + u64 \<times> string) option"

definition engageA :: "('tx, unit) act" where
  "engageA w = (case TryEngage (agLatch w) of
     (False, _) \<Rightarrow> (Inl DecLatchEngaged, w)
   | (True, l) \<Rightarrow> (Inr (), w\<lparr>agLatch := l\<rparr>))"

definition intent_of :: "DecommissionRequest \<Rightarrow> int \<Rightarrow> DecommissionIntent" where
  "intent_of req now = \<lparr>diOperationID = dqOperationID req, diNodeID = dqNodeID req, diForce = dqForce req,
     diDeadlineUnix = dqDeadlineUnix req, diAllowedKeyHashes = dqAllowedKeyHashes req,
     diCredentialVersions = dqCredentialVersions req, diCreatedAtUnix = now\<rparr>"

definition tombstone_of :: "DecommissionRequest \<Rightarrow> int \<Rightarrow> AgentCleanupTombstone" where
  "tombstone_of req now = \<lparr>ctOperationID = dqOperationID req, ctNodeID = dqNodeID req, ctForce = dqForce req,
     ctAllowedKeyHashes = dqAllowedKeyHashes req, ctCredentialVersions = dqCredentialVersions req, ctCreatedAtUnix = now\<rparr>"

definition Begin :: "'tx bolt \<Rightarrow> (io_step \<Rightarrow> bool) \<Rightarrow> int \<Rightarrow> DecommissionRequest \<Rightarrow> ('tx, unit) act" where
  "Begin B fails now req =
     (if dqOperationID req = [] \<or> dqNodeID req = [] then failA DecRequest
      else bindA markerState (\<lambda>marker.
      bindA (if marker = MarkerDecommissioned then failA ErrDecommissionedAgent
             else if marker = MarkerDecommissioning then retA () else engageA) (\<lambda>_.
      bindA (updateA (\<lambda>tx. andThen (PutDecommissionIntent B (intent_of req now) tx) (\<lambda>(_, tx). Inr tx))) (\<lambda>_.
      dirA (WriteMarker fails MarkerDecommissioning)))))"

definition StopAll :: "'tx Decommissioner \<Rightarrow> ('tx, unit) act" where
  "StopAll dc w = (case dcStopAll dc w of (True, w) \<Rightarrow> (Inr (), w) | (False, w) \<Rightarrow> (Inl DecStop, w))"

definition requireIntent :: "'tx bolt \<Rightarrow> DecommissionRequest \<Rightarrow> ('tx, unit) act" where
  "requireIntent B req =
     bindA (viewA (LoadDecommissionIntent B)) (\<lambda>found.
     if (case found of None \<Rightarrow> True | Some i \<Rightarrow>
           diOperationID i \<noteq> dqOperationID req \<or> diNodeID i \<noteq> dqNodeID req \<or> diForce i \<noteq> dqForce req \<or>
           diDeadlineUnix i \<noteq> dqDeadlineUnix req \<or> diAllowedKeyHashes i \<noteq> dqAllowedKeyHashes req \<or>
           diCredentialVersions i \<noteq> dqCredentialVersions req)
     then failA ErrDecommissionedAgent else retA ())"

definition same_operation :: "DecommissionRequest \<Rightarrow> AgentCleanupTombstone option \<Rightarrow> bool" where
  "same_operation req found \<longleftrightarrow>
     (case found of None \<Rightarrow> False | Some t \<Rightarrow> ctOperationID t = dqOperationID req \<and> ctNodeID t = dqNodeID req)"

fun cleanAll :: "('tx agent \<Rightarrow> bool \<times> 'tx agent) list \<Rightarrow> ('tx, unit) act" where
  "cleanAll [] w = (Inr (), w)"
| "cleanAll (clean # cs) w = (case clean w of (False, w) \<Rightarrow> (Inl DecClean, w) | (True, w) \<Rightarrow> cleanAll cs w)"

definition Complete ::
  "'tx bolt \<Rightarrow> 'tx Decommissioner \<Rightarrow> (io_step \<Rightarrow> bool) \<Rightarrow> int \<Rightarrow> DecommissionRequest \<Rightarrow> ('tx, unit) act" where
  "Complete B dc fails now req =
     bindA (requireIntent B req) (\<lambda>_.
     bindA markerState (\<lambda>marker.
     if marker = MarkerDecommissioned then
       bindA (viewA (LoadAgentCleanupTombstone B)) (\<lambda>found.
       if \<not> same_operation req found then failA ErrDecommissionedAgent else retA ())
     else if marker \<noteq> MarkerDecommissioning then failA (DecNotDecommissioning marker)
     else bindA (updateA (ClearForwardStateForDecommission B)) (\<lambda>_.
          bindA (cleanAll (dcSecretCleans dc)) (\<lambda>_.
          bindA (updateA (WriteAgentCleanupTombstone B (tombstone_of req now))) (\<lambda>_.
          dirA (WriteMarker fails MarkerDecommissioned))))))"

definition RecordResult :: "'tx bolt \<Rightarrow> u64 \<Rightarrow> string \<Rightarrow> string \<Rightarrow> bytes \<Rightarrow> 'tx \<Rightarrow> store_error + 'tx" where
  "RecordResult B epoch sessionID operationID res tx = QueueResult B epoch sessionID operationID res tx"

definition HandleDurableReceipt :: "'tx bolt \<Rightarrow> u64 \<Rightarrow> string \<Rightarrow> string \<Rightarrow> 'tx \<Rightarrow> store_error + 'tx" where
  "HandleDurableReceipt B epoch sessionID operationID tx = AcceptReceipt B epoch sessionID operationID tx"

definition RequeuePending :: "'tx bolt \<Rightarrow> u64 \<Rightarrow> string \<Rightarrow> 'tx \<Rightarrow> store_error + nat \<times> 'tx" where
  "RequeuePending B epoch sessionID tx = RequeueOutboxForSession B epoch sessionID tx"

definition queueResult ::
  "'tx bolt \<Rightarrow> ('tx \<Rightarrow> store_error + u64 \<times> string) option \<Rightarrow> string \<Rightarrow> bytes \<Rightarrow> 'tx \<Rightarrow> store_error + 'tx" where
  "queueResult B identity operationID payload tx =
     (case identity of
        None \<Rightarrow> QueueResultSessionIndependent B operationID payload tx
      | Some f \<Rightarrow> andThen (f tx) (\<lambda>(epoch, session).
          if epoch = 0 \<or> session = [] then QueueResultSessionIndependent B operationID payload tx
          else RecordResult B epoch session operationID payload tx))"

text \<open>\<open>json.Marshal(DecommissionAck\<dots>)\<close>; \<open>js\<close> renders a string, \<open>force\<close> is omitted when false.\<close>

definition DecommissionAck :: "(string \<Rightarrow> bytes) \<Rightarrow> DecommissionRequest \<Rightarrow> string \<Rightarrow> bytes" where
  "DecommissionAck js req status =
     ''{\"node_id\":'' @ js (dqNodeID req) @ '',\"decommission_operation_id\":'' @ js (dqOperationID req) @ '',\"status\":'' @ js status
     @ (if dqForce req then '',\"force\":true'' else []) @ ''}''"

definition queueAckWithStatus ::
  "'tx bolt \<Rightarrow> (string \<Rightarrow> bytes) \<Rightarrow> 'tx Decommissioner \<Rightarrow> DecommissionRequest \<Rightarrow> string \<Rightarrow> ('tx, unit) act" where
  "queueAckWithStatus B js dc req status =
     bindA (requireIntent B req) (\<lambda>_.
     bindA markerState (\<lambda>marker.
     if marker \<noteq> MarkerDecommissioned then failA (DecNotDecommissioned marker)
     else bindA (viewA (LoadAgentCleanupTombstone B)) (\<lambda>existing.
          if \<not> same_operation req existing then failA ErrDecommissionedAgent
          else updateA (queueResult B (dcSessionIdentity dc) (dqOperationID req) (DecommissionAck js req status)))))"

definition QueueAck :: "'tx bolt \<Rightarrow> (string \<Rightarrow> bytes) \<Rightarrow> 'tx Decommissioner \<Rightarrow> DecommissionRequest \<Rightarrow> ('tx, unit) act" where
  "QueueAck B js dc req = queueAckWithStatus B js dc req ''DECOMMISSIONED''"

record DecommissionDeadlineResult =
  ddDropped :: bool
  ddStatus :: string

text \<open>Best-effort cleaning ignores errors.\<close>

fun cleanBestEffort :: "('tx agent \<Rightarrow> bool \<times> 'tx agent) list \<Rightarrow> ('tx, unit) act" where
  "cleanBestEffort [] w = (Inr (), w)"
| "cleanBestEffort (clean # cs) w = cleanBestEffort cs (snd (clean w))"

text \<open>
  The source reads the clock when it defaults a zero deadline (\<open>now1\<close>), when it compares (\<open>now2\<close>) and
  when it stamps the tombstone (\<open>now3\<close>).
\<close>

definition ReconcileDeadline ::
  "'tx bolt \<Rightarrow> (string \<Rightarrow> bytes) \<Rightarrow> 'tx Decommissioner \<Rightarrow> (io_step \<Rightarrow> bool) \<Rightarrow> int \<times> int \<times> int \<Rightarrow> DecommissionRequest \<Rightarrow>
   ('tx, DecommissionDeadlineResult) act" where
  "ReconcileDeadline B js dc fails clock req =
     (case clock of (now1, now2, now3) \<Rightarrow>
      bindA markerState (\<lambda>marker.
      bindA (requireIntent B req) (\<lambda>_.
      if marker = MarkerDecommissioned then
        bindA (queueAckWithStatus B js dc req ''DROPPED_DUE_TO_DECOMMISSION'') (\<lambda>_.
        retA \<lparr>ddDropped = False, ddStatus = ''DECOMMISSIONED''\<rparr>)
      else let sooner = (if dqDeadlineUnix req = 0 then now1 + 1 else dqDeadlineUnix req)
        in if now2 < sooner then retA \<lparr>ddDropped = False, ddStatus = ''DECOMMISSIONING''\<rparr>
           else bindA (updateA (ClearForwardStateForDecommission B)) (\<lambda>_.
                bindA (cleanBestEffort (dcSecretCleans dc)) (\<lambda>_.
                bindA (updateA (WriteAgentCleanupTombstone B (tombstone_of req now3))) (\<lambda>_.
                bindA (dirA (WriteMarker fails MarkerDecommissioned)) (\<lambda>_.
                bindA (updateA (queueResult B (dcSessionIdentity dc) (dqOperationID req)
                         (DecommissionAck js req ''DROPPED_DUE_TO_DECOMMISSION''))) (\<lambda>_.
                retA \<lparr>ddDropped = True, ddStatus = ''DROPPED_DUE_TO_DECOMMISSION''\<rparr>))))))))"

section \<open>The uninstall notice\<close>

record UninstallNoticeResult =
  urOperationID :: string
  urOnline :: bool
  urStatus :: string
  urTerminalRefused :: bool

definition marshalUninstallNotice :: "(string \<Rightarrow> bytes) \<Rightarrow> string \<Rightarrow> bytes" where
  "marshalUninstallNotice js operationID =
     ''{\"deletion_operation_id\":'' @ js operationID @ '',\"notice\":'' @ js ''agent uninstall requested'' @ ''}''"

definition NotifyUninstall ::
  "'tx bolt \<Rightarrow> (string \<Rightarrow> bytes) \<Rightarrow> ('tx \<Rightarrow> store_error + u64 \<times> string) option \<Rightarrow> int \<Rightarrow> bool \<Rightarrow> string \<Rightarrow>
   ('tx, UninstallNoticeResult) act" where
  "NotifyUninstall B js identity now isOnline operationID =
     (if operationID = [] then failA DecRequest
      else bindA (updateA (RecordUninstallNotice B
               \<lparr>unOperationID = operationID, unConnectivity = isOnline, unQueuedAtUnix = now, unStatus = []\<rparr>)) (\<lambda>_.
           bindA (if isOnline then updateA (queueResult B identity operationID (marshalUninstallNotice js operationID))
                  else retA ()) (\<lambda>_.
           bindA markerState (\<lambda>marker.
           retA \<lparr>urOperationID = operationID, urOnline = isOnline, urStatus = (if isOnline then ''QUEUED'' else ''UNKNOWN''),
                 urTerminalRefused = (marker \<noteq> MarkerActive)\<rparr>))))"

end
