(* ===== verification/Agent_Commands.thy ===== *)
theory Agent_Commands
  imports Agent_Decommission Agent_Rotation
begin

text \<open>
  \<open>internal/agent/app.go\<close>: the command handler of the agent and the handlers of the lifecycle commands
  (decommission, restore, key rotation, uninstall notice). The three handlers that drive the data plane
  and the probes are arguments of \<open>handleCommand\<close>; so is the data plane's \<open>stopAll\<close>. Strict JSON
  decoding of the payloads is a parameter; the JSON results are typed values.
\<close>

section \<open>Messages\<close>

record Operation =
  opOperationID :: string
  opMessageID :: string
  opMessageType :: string
  opPayload :: bytes

record DecommissionPayload =
  dpNodeID :: string
  dpDeletionOperationID :: string
  dpForce :: bool
  dpDeadlineUnix :: int
  dpAllowedKeyHashes :: "string list"
  dpCredentialVersions :: "u32 list"

record RestoreResult =
  rrOperationID :: string
  rrGeneration :: u64
  rrStatus :: string

record codecs =
  cdDecommission :: "bytes \<Rightarrow> DecommissionPayload option"
  cdRestoreReconcile :: "bytes \<Rightarrow> string option"
  cdRestoreResult :: "bytes \<Rightarrow> RestoreResult option"
  cdRotationPrepare :: "bytes \<Rightarrow> (string \<times> string) option"
  cdCertificate :: "bytes \<Rightarrow> RotationCertificate option"

datatype command_result =
  ResDecommissioned | ResQuarantined string u64 | ResAuthorized | ResPinned string string u64 | ResCommitted string u64
| ResBytes bytes

text \<open>The outcomes of the clock and of the file system during one decommission command.\<close>

record decommission_env =
  deNowBegin :: int
  deFailsBegin :: "io_step \<Rightarrow> bool"
  deClock :: "int \<times> int \<times> int"
  deFailsDeadline :: "io_step \<Rightarrow> bool"
  deNowComplete :: int
  deFailsComplete :: "io_step \<Rightarrow> bool"

section \<open>Lifecycle handlers\<close>

definition setMarker :: "string \<Rightarrow> ('tx, unit) act" where
  "setMarker st w = (Inr (), w\<lparr>agMarker := st\<rparr>)"

definition setQuarantine :: "bool \<Rightarrow> ('tx, unit) act" where
  "setQuarantine q w = (Inr (), w\<lparr>agQuarantine := q\<rparr>)"

definition currentMarker :: "'tx agent \<Rightarrow> string" where
  "currentMarker w = agMarker w"

definition NotifyUninstallApp ::
  "'tx bolt \<Rightarrow> (string \<Rightarrow> bytes) \<Rightarrow> int \<Rightarrow> bool \<Rightarrow> string \<Rightarrow> ('tx, UninstallNoticeResult) act" where
  "NotifyUninstallApp B js now online operationID =
     NotifyUninstall B js (Some (\<lambda>tx. Inr (CurrentSession B tx))) now online operationID"

definition handleRestoreReconcile ::
  "codecs \<Rightarrow> (io_step \<Rightarrow> bool) \<Rightarrow> Operation \<Rightarrow> ('tx, command_result) act" where
  "handleRestoreReconcile cd fails op w =
     (if currentMarker w \<noteq> MarkerActive then (Inl ErrDecommissionedAgent, w)
      else case (if opPayload op = [] then Some [] else cdRestoreReconcile cd (opPayload op)) of
        None \<Rightarrow> (Inl DecDecode, w)
      | Some restoreOperationID \<Rightarrow>
          let operationID = (if restoreOperationID = [] then opOperationID op else restoreOperationID)
          in bindA (dirA (WriteNextRecoveryQuarantineForOperation fails operationID)) (\<lambda>binding.
             bindA (setQuarantine True) (\<lambda>_.
             retA (ResQuarantined operationID (rqGeneration binding)))) w)"

definition handleRestoreResult ::
  "codecs \<Rightarrow> (io_step \<Rightarrow> bool) \<Rightarrow> Operation \<Rightarrow> ('tx, command_result) act" where
  "handleRestoreResult cd fails op =
     (case cdRestoreResult cd (opPayload op) of
        None \<Rightarrow> failA DecDecode
      | Some r \<Rightarrow>
          let operationID = (if rrOperationID r = [] then opOperationID op else rrOperationID r)
          in if rrStatus r \<notin> {''authorized'', ''AUTHORIZED'', ''success'', ''SUCCESS''} then failA DecNotAuthorized
             else bindA (dirA (\<lambda>d. (LoadRecoveryQuarantineBinding d, d))) (\<lambda>found.
                  case found of
                    None \<Rightarrow> failA (DecLifecycle ErrRecoveryOperationMismatch)
                  | Some current \<Rightarrow>
                      if rrGeneration r = 0 \<or> rqOperationID current \<noteq> operationID \<or> rqGeneration current \<noteq> rrGeneration r
                      then failA (DecLifecycle ErrRecoveryOperationMismatch)
                      else bindA (dirA (ClearRecoveryQuarantineForOperation fails (rqOperationID current) (rqGeneration current))) (\<lambda>_.
                           bindA (setQuarantine False) (\<lambda>_.
                           retA ResAuthorized))))"

definition acceptA ::
  "'tx bolt \<Rightarrow> crypto \<Rightarrow> codecs \<Rightarrow> string \<Rightarrow> bytes \<Rightarrow> ('tx, ControllerPin) act" where
  "acceptA B C cd instanceID cert w =
     (case AcceptControllerRotationPin B C (cdCertificate cd) instanceID cert (agStore w) of
        Inl _ \<Rightarrow> (Inl DecRotation, w)
      | Inr ((next', _), tx) \<Rightarrow> (Inr next', w\<lparr>agStore := tx\<rparr>))"

definition handleKeyRotationPrepare ::
  "'tx bolt \<Rightarrow> crypto \<Rightarrow> codecs \<Rightarrow> Operation \<Rightarrow> ('tx, command_result) act" where
  "handleKeyRotationPrepare B C cd op w =
     (if currentMarker w \<noteq> MarkerActive then (Inl ErrDecommissionedAgent, w)
      else case cdRotationPrepare cd (opPayload op) of
        None \<Rightarrow> (Inl DecDecode, w)
      | Some (certificate, msgInstance) \<Rightarrow>
          bindA (if msgInstance \<noteq> [] then retA msgInstance
                 else bindA (viewA (ListControllerPins B)) (\<lambda>pins.
                      if length pins \<noteq> 1 then failA (DecPins (length pins)) else retA (pinInstanceID (hd pins)))) (\<lambda>instanceID.
          bindA (acceptA B C cd instanceID certificate) (\<lambda>next'.
          retA (ResPinned instanceID (pinKeyID next') (pinGeneration next')))) w)"

definition handleKeyRotationCommit :: "'tx bolt \<Rightarrow> ('tx, command_result) act" where
  "handleKeyRotationCommit B =
     bindA (viewA (ListControllerPins B)) (\<lambda>pins.
     if length pins \<noteq> 1 then failA (DecPins (length pins))
     else retA (ResCommitted (pinInstanceID (hd pins)) (pinGeneration (hd pins))))"

section \<open>Decommission\<close>

text \<open>The driver the application builds: one cleaner that does nothing, and the stored session.\<close>

definition decommissioner :: "'tx bolt \<Rightarrow> ('tx agent \<Rightarrow> bool \<times> 'tx agent) \<Rightarrow> 'tx Decommissioner" where
  "decommissioner B stopAll =
     \<lparr>dcStopAll = stopAll, dcSecretCleans = [\<lambda>w. (True, w)], dcSessionIdentity = Some (\<lambda>tx. Inr (CurrentSession B tx))\<rparr>"

definition decommission_request :: "codecs \<Rightarrow> string \<Rightarrow> Operation \<Rightarrow> DecommissionRequest option" where
  "decommission_request cd nodeID op =
     map_option (\<lambda>r. \<lparr>dqNodeID = (if dpNodeID r = [] then nodeID else dpNodeID r),
         dqOperationID = (if dpDeletionOperationID r = [] then opOperationID op else dpDeletionOperationID r),
         dqForce = dpForce r, dqDeadlineUnix = dpDeadlineUnix r, dqAllowedKeyHashes = dpAllowedKeyHashes r,
         dqCredentialVersions = dpCredentialVersions r\<rparr>)
       (if opPayload op = [] then
          Some \<lparr>dpNodeID = [], dpDeletionOperationID = [], dpForce = False, dpDeadlineUnix = 0, dpAllowedKeyHashes = [],
                dpCredentialVersions = []\<rparr>
        else cdDecommission cd (opPayload op))"

text \<open>A failed stop is remembered; the deadline is reconciled before it is reported.\<close>

definition stopA :: "'tx Decommissioner \<Rightarrow> ('tx, agent_error option) act" where
  "stopA dc w = (case StopAll dc w of (Inl e, w) \<Rightarrow> (Inr (Some e), w) | (Inr _, w) \<Rightarrow> (Inr None, w))"

definition handleDecommission ::
  "'tx bolt \<Rightarrow> (string \<Rightarrow> bytes) \<Rightarrow> codecs \<Rightarrow> ('tx agent \<Rightarrow> bool \<times> 'tx agent) \<Rightarrow> decommission_env \<Rightarrow> string \<Rightarrow> Operation \<Rightarrow>
   ('tx, command_result) act" where
  "handleDecommission B js cd dpStopAll env nodeID op =
     (case decommission_request cd nodeID op of
        None \<Rightarrow> failA DecDecode
      | Some req \<Rightarrow>
          let dc = decommissioner B dpStopAll
          in bindA markerState (\<lambda>marker.
             if marker = MarkerDecommissioned then
               bindA (QueueAck B js dc req) (\<lambda>_.
               bindA (setMarker MarkerDecommissioned) (\<lambda>_.
               retA ResDecommissioned))
             else
               bindA (Begin B (deFailsBegin env) (deNowBegin env) req) (\<lambda>_.
               bindA (setMarker MarkerDecommissioning) (\<lambda>_.
               bindA (stopA dc) (\<lambda>stopErr.
               bindA (ReconcileDeadline B js dc (deFailsDeadline env) (deClock env) req) (\<lambda>deadlineResult.
               bindA (if \<not> ddDropped deadlineResult
                      then (case stopErr of
                              Some e \<Rightarrow> failA e
                            | None \<Rightarrow> Complete B dc (deFailsComplete env) (deNowComplete env) req)
                      else retA ()) (\<lambda>_.
               bindA (setMarker MarkerDecommissioned) (\<lambda>_.
               bindA (QueueAck B js dc req) (\<lambda>_.
               retA ResDecommissioned)))))))))"

section \<open>The dispatcher\<close>

record 'tx handlers =
  hdApplyDesired :: "Operation \<Rightarrow> ('tx, command_result) act"
  hdArmProbe :: "Operation \<Rightarrow> ('tx, command_result) act"
  hdApplyProbeOutcome :: "Operation \<Rightarrow> ('tx, command_result) act"
  hdStopAll :: "'tx agent \<Rightarrow> bool \<times> 'tx agent"

definition handleCommand ::
  "'tx bolt \<Rightarrow> crypto \<Rightarrow> (string \<Rightarrow> bytes) \<Rightarrow> codecs \<Rightarrow> 'tx handlers \<Rightarrow> decommission_env \<Rightarrow> (io_step \<Rightarrow> bool) \<Rightarrow> string \<Rightarrow>
   Operation \<Rightarrow> ('tx, command_result) act" where
  "handleCommand B C js cd h env fails nodeID op w =
     (if currentMarker w \<noteq> MarkerActive \<and> opMessageType op = ''probe_arm'' then (Inl ErrProbeArmRejected, w)
      else if currentMarker w = MarkerDecommissioned \<and> opMessageType op \<noteq> ''node_decommission''
        then (Inl ErrDecommissionedAgent, w)
      else if opMessageType op = ''desired'' then hdApplyDesired h op w
      else if opMessageType op = ''probe_arm'' then hdArmProbe h op w
      else if opMessageType op = ''forward_delete'' then hdApplyDesired h op w
      else if opMessageType op = ''probe_outcome'' then hdApplyProbeOutcome h op w
      else if opMessageType op = ''node_decommission'' then handleDecommission B js cd (hdStopAll h) env nodeID op w
      else if opMessageType op = ''key_rotation_prepare'' then handleKeyRotationPrepare B C cd op w
      else if opMessageType op = ''key_rotation_commit'' then handleKeyRotationCommit B w
      else if opMessageType op = ''restore_reconcile'' then handleRestoreReconcile cd fails op w
      else if opMessageType op = ''restore_result'' then handleRestoreResult cd fails op w
      else (Inl (DecUnexpected (opMessageType op)), w))"

end
