(* ===== verification/Agent_Control.thy ===== *)
theory Agent_Control
  imports Agent_Journal Agent_Session Agent_Envelope Agent_Commands
begin

text \<open>
  \<open>internal/agent/control/session.go\<close>: the control session of the agent, from the handshake to the inbound
  frame handler, the command pipeline over the durable journal, the receipts and the outbox pump; and the
  layout of the node key file (\<open>security/nodekey.go\<close>).

  The state of a client is a record: the store, the transport fields the mutexes protect, the receive
  sequence of every session identity (the identity is the address of its own counter), and two logs that
  only the theorems read: the frames handed to a connection and the operations handed to \<open>OnCommand\<close>.
  A write transaction may fail to commit (\<open>clCommits\<close> lists the outcomes, all further ones succeed); a
  process that dies inside a handler is a handler whose remaining transactions do not commit. The socket,
  the dialer, the random source, the clock and the application callbacks are arguments.
\<close>

section \<open>Node key\<close>

record NodeKey =
  nkPriv :: bytes
  nkVersion :: u32

definition nodeKeyMagic :: bytes where "nodeKeyMagic = ''ANK1''"

datatype key_error = KeyLength | KeyMagic | KeyZeroVersion

definition parseNodeKey :: "bytes \<Rightarrow> key_error + NodeKey" where
  "parseNodeKey raw =
     (if length raw \<noteq> 4 + 4 + PrivateKeySize then Inl KeyLength
      else if take 4 raw \<noteq> nodeKeyMagic then Inl KeyMagic
      else let version = Uint32 (take 4 (drop 4 raw))
           in if version = 0 then Inl KeyZeroVersion else Inr \<lparr>nkPriv = drop 8 raw, nkVersion = version\<rparr>)"

definition keyBlob :: "NodeKey \<Rightarrow> bytes" where
  "keyBlob k = nodeKeyMagic @ PutUint32 (nkVersion k) @ nkPriv k"

definition NodeKey_PublicKey :: "crypto \<Rightarrow> NodeKey \<Rightarrow> bytes" where
  "NodeKey_PublicKey C k = ed_public C (nkPriv k)"

definition NodeKey_PublicKeyHash :: "crypto \<Rightarrow> NodeKey \<Rightarrow> bytes" where
  "NodeKey_PublicKeyHash C k = sha256 C (NodeKey_PublicKey C k)"

section \<open>The client\<close>

record sessionIdentity =
  siGeneration :: u64
  siConn :: nat
  siEpoch :: u64
  siSession :: string

record 'tx client =
  clStore :: 'tx
  clCommits :: "bool list"
  clConn :: "nat option"
  clActive :: "sessionIdentity option"
  clCancel :: bool
  clOutSeq :: u64
  clEpoch :: u64
  clSession :: string
  clGeneration :: u64
  clInSeq :: "sessionIdentity \<Rightarrow> u64"
  clClosed :: bool
  clSent :: "(nat \<times> bytes) list"
  clInvoked :: "string list"

datatype control_error =
  CtlStore store_error | CtlCommit | CtlClosed | CtlConnected | CtlPins nat | CtlDial | CtlRandom | CtlSign | CtlWrite
| CtlRead | CtlWelcome session_error | CtlInstance | CtlKeyID | CtlDowngrade | CtlSplitBrain
| CtlEnvelope "Stage \<times> env_error" | CtlDirection | CtlStaleFrame | CtlSequence | CtlMessageType string
| CtlNoJournal | CtlNoResult | CtlNoConvergence | CtlRecovery | CtlUnknownPhase string | CtlNotApplyable string
| CtlReceiptPayload | CtlReceiptCallback | CtlStaleTransport | CtlNotConnected | CtlPinInstance | CtlBuild env_error
| CtlSequenceChanged

type_synonym ('tx, 'a) ctl = "('tx client, control_error, 'a) action"

record 'tx control_env =
  ctCrypto :: crypto
  ctDecode :: "bytes \<Rightarrow> DesiredState option"
  ctJson :: "string \<Rightarrow> bytes"
  ctReceipt :: "bytes \<Rightarrow> string option"
  ctNodeID :: string
  ctKey :: NodeKey
  ctOnCommand :: "(Operation \<Rightarrow> 'tx \<Rightarrow> (string + bytes option) \<times> 'tx) option"
  ctOnRecovered :: "(Operation \<Rightarrow> 'tx \<Rightarrow> bool \<times> 'tx) option"
  ctOnReceipt :: "(string \<Rightarrow> 'tx \<Rightarrow> bool \<times> 'tx) option"
  ctSendOK :: "bytes \<Rightarrow> bool"

text \<open>A client that has just been built over a store; the logs are carried over for the theorems.\<close>

definition NewClient :: "'tx \<Rightarrow> (nat \<times> bytes) list \<Rightarrow> string list \<Rightarrow> 'tx client" where
  "NewClient tx sent invoked =
     \<lparr>clStore = tx, clCommits = [], clConn = None, clActive = None, clCancel = False, clOutSeq = 0, clEpoch = 0,
      clSession = [], clGeneration = 0, clInSeq = (\<lambda>_. 0), clClosed = False, clSent = sent, clInvoked = invoked\<rparr>"

section \<open>Steps on the state\<close>

text \<open>A read transaction, a write transaction with and without a result, and a write to a connection.\<close>

definition viewC :: "('tx \<Rightarrow> store_error + 'a) \<Rightarrow> ('tx, 'a) ctl" where
  "viewC f c = (case f (clStore c) of Inl e \<Rightarrow> (Inl (CtlStore e), c) | Inr a \<Rightarrow> (Inr a, c))"

definition commits :: "'tx client \<Rightarrow> bool \<times> 'tx client" where
  "commits c = (case clCommits c of [] \<Rightarrow> (True, c) | b # bs \<Rightarrow> (b, c\<lparr>clCommits := bs\<rparr>))"

definition updateR :: "('tx \<Rightarrow> store_error + 'a \<times> 'tx) \<Rightarrow> ('tx, 'a) ctl" where
  "updateR f c =
     (case f (clStore c) of
        Inl e \<Rightarrow> (Inl (CtlStore e), c)
      | Inr (a, tx) \<Rightarrow>
          (case commits c of (ok, c') \<Rightarrow> if ok then (Inr a, c'\<lparr>clStore := tx\<rparr>) else (Inl CtlCommit, c')))"

definition updateC :: "('tx \<Rightarrow> store_error + 'tx) \<Rightarrow> ('tx, unit) ctl" where
  "updateC f = updateR (\<lambda>tx. andThen (f tx) (\<lambda>tx'. Inr ((), tx')))"

text \<open>\<open>if err := ...; err != nil { if errors.Is(err, ...) { tolerate } return err }\<close>\<close>

definition tolerate :: "store_error set \<Rightarrow> ('tx, unit) ctl \<Rightarrow> ('tx, bool) ctl" where
  "tolerate es m c =
     (case m c of
        (Inl (CtlStore e), c') \<Rightarrow> if e \<in> es then (Inr False, c') else (Inl (CtlStore e), c')
      | (Inl e, c') \<Rightarrow> (Inl e, c')
      | (Inr _, c') \<Rightarrow> (Inr True, c'))"

definition writeC :: "'tx control_env \<Rightarrow> nat \<Rightarrow> bytes \<Rightarrow> ('tx, unit) ctl" where
  "writeC E conn frame c =
     (let c' = c\<lparr>clSent := clSent c @ [(conn, frame)]\<rparr>
      in if ctSendOK E frame then (Inr (), c') else (Inl CtlWrite, c'))"

definition failIf :: "bool \<Rightarrow> control_error \<Rightarrow> ('tx, unit) ctl" where
  "failIf b e = (if b then failA e else retA ())"

section \<open>Handshake and connection\<close>

definition stopSession :: "u64 \<Rightarrow> nat option \<Rightarrow> 'tx client \<Rightarrow> 'tx client" where
  "stopSession generation ownedConn c =
     (if generation \<noteq> 0 \<and> (clGeneration c \<noteq> generation \<or> clConn c \<noteq> ownedConn) then c
      else c\<lparr>clConn := None, clActive := None, clCancel := False\<rparr>)"

definition pinnedInstance :: "ControllerPin \<Rightarrow> bytes" where
  "pinnedInstance pin =
     (case DecodeString (pinInstanceID pin) of
        Some b \<Rightarrow> if length b = 16 then b else replicate 16 NUL
      | None \<Rightarrow> replicate 16 NUL)"

definition helloOf :: "'tx control_env \<Rightarrow> ControllerPin \<Rightarrow> bytes \<Rightarrow> u64 \<Rightarrow> SessionHello" where
  "helloOf E pin nonce curEpoch =
     \<lparr>shControllerInstanceID = pinnedInstance pin, shNodeID = copy16 (ctNodeID E), shAgentCredentialVer = nkVersion (ctKey E),
      shAgentPublicKey = NodeKey_PublicKey (ctCrypto E) (ctKey E), shAgentNonce = nonce, shAgentMaxEpoch = curEpoch,
      shProtocolVersions = ''1''\<rparr>"

definition finalOf :: "'tx control_env \<Rightarrow> SessionWelcome \<Rightarrow> SessionFinal" where
  "finalOf E welcome =
     \<lparr>sfControllerInstanceID = swControllerInstanceID welcome, sfNodeID = copy16 (ctNodeID E),
      sfServerNonce = swServerNonce welcome, sfConnectionEpoch = swConnectionEpoch welcome,
      sfSessionID = swSessionID welcome\<rparr>"

definition signed :: "crypto_error + bytes \<Rightarrow> ('tx, bytes) ctl" where
  "signed r = (case r of Inl _ \<Rightarrow> failA CtlSign | Inr sig \<Rightarrow> retA sig)"

text \<open>The checks on a verified welcome against the pin and the durable session.\<close>

definition checkWelcome :: "ControllerPin \<Rightarrow> u64 \<times> string \<Rightarrow> SessionWelcome \<Rightarrow> control_error option" where
  "checkWelcome pin cur welcome =
     (if swControllerInstanceID welcome \<noteq> pinnedInstance pin then Some CtlInstance
      else if swControllerKeyID welcome \<noteq> pinKeyID pin then Some CtlKeyID
      else if swConnectionEpoch welcome < fst cur then Some CtlDowngrade
      else if snd cur \<noteq> [] \<and> swConnectionEpoch welcome = fst cur \<and> swSessionID welcome \<noteq> snd cur
        then Some CtlSplitBrain
      else None)"

definition handshake ::
  "'tx bolt \<Rightarrow> 'tx control_env \<Rightarrow> int \<Rightarrow> bytes option \<Rightarrow> bytes option \<Rightarrow> nat \<Rightarrow> ControllerPin \<Rightarrow> ('tx, u64 \<times> string) ctl" where
  "handshake B E now rnd reply conn pin =
     bindA (viewC (\<lambda>tx. Inr (CurrentSession B tx))) (\<lambda>cur.
     bindA (case rnd of None \<Rightarrow> failA CtlRandom | Some nonce \<Rightarrow> retA nonce) (\<lambda>nonce.
     let hello = helloOf E pin nonce (fst cur) in
     bindA (signed (SessionHello_Sign (ctCrypto E) hello (nkPriv (ctKey E)))) (\<lambda>sig.
     bindA (writeC E conn (SessionHello_Canonical hello @ sig)) (\<lambda>_.
     bindA (case reply of None \<Rightarrow> failA CtlRead | Some raw \<Rightarrow> retA raw) (\<lambda>raw.
     bindA (case ParseSessionWelcome (ctCrypto E) raw (pinPublicKeyRaw pin) of
              Inl e \<Rightarrow> failA (CtlWelcome e) | Inr welcome \<Rightarrow> retA welcome) (\<lambda>welcome.
     bindA (case checkWelcome pin cur welcome of Some e \<Rightarrow> failA e | None \<Rightarrow> retA ()) (\<lambda>_.
     bindA (updateC (AdvanceSession B (swConnectionEpoch welcome) (swSessionID welcome))) (\<lambda>_.
     bindA (updateC (RecoverApplyingOperations B (ctJson E) now (swConnectionEpoch welcome) (swSessionID welcome))) (\<lambda>_.
     let final = finalOf E welcome in
     bindA (signed (SessionFinal_Sign (ctCrypto E) final (nkPriv (ctKey E)))) (\<lambda>fsig.
     bindA (writeC E conn (SessionFinal_Canonical final @ fsig)) (\<lambda>_.
     retA (swConnectionEpoch welcome, swSessionID welcome))))))))))))"

definition install :: "nat \<Rightarrow> u64 \<times> string \<Rightarrow> 'tx client \<Rightarrow> sessionIdentity \<times> 'tx client" where
  "install conn es c =
     (let generation = clGeneration c + 1;
          identity = \<lparr>siGeneration = generation, siConn = conn, siEpoch = fst es, siSession = snd es\<rparr>
      in (identity,
          c\<lparr>clGeneration := generation, clEpoch := fst es, clSession := snd es, clActive := Some identity,
            clConn := Some conn, clCancel := True, clInSeq := (clInSeq c)(identity := 0), clOutSeq := 0\<rparr>))"

text \<open>
  \<open>dial\<close> is the connection the dialer opened. \<open>Connect\<close> returns the identity its workers run with.
\<close>

definition Connect ::
  "'tx bolt \<Rightarrow> 'tx control_env \<Rightarrow> int \<Rightarrow> nat option \<Rightarrow> bytes option \<Rightarrow> bytes option \<Rightarrow> ('tx, sessionIdentity) ctl" where
  "Connect B E now dial rnd reply =
     bindA (\<lambda>c. failIf (clClosed c) CtlClosed c) (\<lambda>_.
     bindA (\<lambda>c. failIf (clConn c \<noteq> None \<or> clCancel c) CtlConnected c) (\<lambda>_.
     bindA (viewC (ListControllerPins B)) (\<lambda>pins.
     case pins of
       [pin] \<Rightarrow>
         bindA (case dial of None \<Rightarrow> failA CtlDial | Some conn \<Rightarrow> retA conn) (\<lambda>conn.
         bindA (handshake B E now rnd reply conn pin) (\<lambda>es.
         bindA (\<lambda>c. failIf (clClosed c) CtlClosed c) (\<lambda>_.
         bindA (\<lambda>c. case install conn es c of (identity, c') \<Rightarrow> (Inr identity, c')) (\<lambda>identity.
         \<lambda>c. case updateR (RequeueOutboxForSession B (siEpoch identity) (siSession identity)) c of
              (Inl e, c') \<Rightarrow> (Inl e, stopSession (siGeneration identity) (Some conn) c')
            | (Inr _, c') \<Rightarrow> (Inr identity, c')))))
     | _ \<Rightarrow> failA (CtlPins (length pins)))))"

definition Shutdown :: "'tx client \<Rightarrow> 'tx client" where
  "Shutdown c = stopSession 0 None (c\<lparr>clClosed := True\<rparr>)"

definition Connected :: "'tx client \<Rightarrow> bool" where
  "Connected c \<longleftrightarrow> clConn c \<noteq> None"

section \<open>Commands\<close>

definition defaultResult :: bytes where
  "defaultResult = ''{\"status\":\"applied\"}''"

definition operationOf :: "string \<Rightarrow> string \<Rightarrow> bytes \<Rightarrow> Operation" where
  "operationOf msgID messageType payload =
     \<lparr>opOperationID = msgID, opMessageID = msgID, opMessageType = messageType, opPayload = payload\<rparr>"

text \<open>The callback, with the invocation recorded; without a callback the result is nil.\<close>

definition invoke :: "'tx control_env \<Rightarrow> Operation \<Rightarrow> ('tx, string + bytes option) ctl" where
  "invoke E op c =
     (case ctOnCommand E of
        None \<Rightarrow> (Inr (Inr None), c)
      | Some f \<Rightarrow>
          (case f op (clStore c) of
             (r, tx) \<Rightarrow> (Inr r, c\<lparr>clStore := tx, clInvoked := clInvoked c @ [opOperationID op]\<rparr>)))"

text \<open>\<open>OnRecoveredDeletion\<close> followed by \<open>CompleteRecoveredDeletion\<close>, in both branches of a duplicate.\<close>

definition converge :: "'tx bolt \<Rightarrow> 'tx control_env \<Rightarrow> sessionIdentity \<Rightarrow> Operation \<Rightarrow> ('tx, unit) ctl" where
  "converge B E identity op =
     (case ctOnRecovered E of
        None \<Rightarrow> failA CtlNoConvergence
      | Some f \<Rightarrow>
          bindA (\<lambda>c. case f op (clStore c) of (ok, tx) \<Rightarrow> failIf (\<not> ok) CtlRecovery (c\<lparr>clStore := tx\<rparr>)) (\<lambda>_.
          updateC (CompleteRecoveredDeletion B (siEpoch identity) (siSession identity) (opOperationID op))))"

text \<open>From a phase before any side effect: persist the intent, mark APPLYING, apply, record the outcome.\<close>

definition beginApply :: "'tx bolt \<Rightarrow> sessionIdentity \<Rightarrow> string \<Rightarrow> ('tx, unit) ctl" where
  "beginApply B identity x =
     (let e = siEpoch identity; s = siSession identity in
     bindA (viewC (OperationPhase B x)) (\<lambda>phase.
     bindA (case phase of
              None \<Rightarrow> failA CtlNoJournal
            | Some p \<Rightarrow>
                if p = phaseReceived then updateC (PersistOperationIntent B e s x)
                else if p = phaseIntentPersisted then retA ()
                else failA (CtlNotApplyable p)) (\<lambda>_.
     updateC (MarkOperationApplying B e s x))))"

definition recordOutcome ::
  "'tx bolt \<Rightarrow> 'tx control_env \<Rightarrow> sessionIdentity \<Rightarrow> string \<Rightarrow> string + bytes option \<Rightarrow> ('tx, unit) ctl" where
  "recordOutcome B E identity x outcome =
     (let e = siEpoch identity; s = siSession identity in
     case outcome of
       Inl reason \<Rightarrow> updateC (NackOperationWithResult B e s x reason (nacked_result (ctJson E) reason))
     | Inr res \<Rightarrow> updateC (CompleteOperation B e s x (case res of None \<Rightarrow> defaultResult | Some r \<Rightarrow> r)))"

definition applyCommand :: "'tx bolt \<Rightarrow> 'tx control_env \<Rightarrow> sessionIdentity \<Rightarrow> Operation \<Rightarrow> ('tx, unit) ctl" where
  "applyCommand B E identity op =
     bindA (beginApply B identity (opOperationID op)) (\<lambda>_.
     bindA (invoke E op) (recordOutcome B E identity (opOperationID op)))"

text \<open>A redelivered command: settled phases are answered from the journal, early ones resume.\<close>

definition replayCommand ::
  "'tx bolt \<Rightarrow> 'tx control_env \<Rightarrow> int \<Rightarrow> sessionIdentity \<Rightarrow> Operation \<Rightarrow> bool \<Rightarrow> ('tx, unit) ctl" where
  "replayCommand B E now identity op recovered =
     (let e = siEpoch identity; s = siSession identity; x = opOperationID op in
     bindA (viewC (OperationPhase B x)) (\<lambda>phase.
     case phase of
       None \<Rightarrow> failA CtlNoJournal
     | Some p \<Rightarrow>
         if p = phaseApplied then bindA (viewC (\<lambda>tx. Inr (OutboxState B x tx))) (\<lambda>st. failIf (st = None) CtlNoResult)
         else if p = phaseNacked then
           bindA (if recovered then converge B E identity op else retA ()) (\<lambda>_.
           updateC (QueueNackedResult B (ctJson E) e s x))
         else if p = phaseApplying then
           bindA (if recovered then converge B E identity op else retA ()) (\<lambda>_.
           updateC (RecoverApplyingOperations B (ctJson E) now e s))
         else if p = phaseReceived \<or> p = phaseIntentPersisted then applyCommand B E identity op
         else failA (CtlUnknownPhase p)))"

definition handleCommandOnSession ::
  "'tx bolt \<Rightarrow> 'tx control_env \<Rightarrow> int \<Rightarrow> sessionIdentity \<Rightarrow> Envelope \<Rightarrow> ('tx, unit) ctl" where
  "handleCommandOnSession B E now identity env =
     (let hdr = eHeader env; msgID = EncodeToString (hMessageID hdr);
          op = operationOf msgID (hMessageType hdr) (ePayload env) in
     bindA (updateR (ReceiveCommandWithPayloadStatus B (ctCrypto E) (ctDecode E) now (siEpoch identity) (siSession identity)
              msgID msgID (hMessageType hdr) (ePayload env) (hMessageType hdr))) (\<lambda>out.
     if roDuplicate out then replayCommand B E now identity op (roRecoveredDeletionPending out)
     else applyCommand B E identity op))"

section \<open>Receipts\<close>

definition handleReceiptOnSession ::
  "'tx bolt \<Rightarrow> 'tx control_env \<Rightarrow> sessionIdentity \<Rightarrow> Envelope \<Rightarrow> ('tx, unit) ctl" where
  "handleReceiptOnSession B E identity env =
     (let e = siEpoch identity; s = siSession identity in
     case ctReceipt E (ePayload env) of
       None \<Rightarrow> failA CtlReceiptPayload
     | Some op \<Rightarrow>
         if op = [] then failA CtlReceiptPayload
         else bindA (viewC (\<lambda>tx. Inr (OutboxState B op tx))) (\<lambda>st.
         let finish = bindA (tolerate {ErrIllegalPhase} (updateC (AcceptSemanticACK B e s op))) (\<lambda>ok.
               if \<not> ok then retA ()
               else bindA (tolerate {ErrAlreadyReceipted} (updateC (AcceptReceipt B e s op))) (\<lambda>_. retA ())) in
         case st of
           None \<Rightarrow>
             (case ctOnReceipt E of
                None \<Rightarrow> retA ()
              | Some f \<Rightarrow> (\<lambda>c. case f op (clStore c) of (ok, tx) \<Rightarrow> failIf (\<not> ok) CtlReceiptCallback (c\<lparr>clStore := tx\<rparr>)))
         | Some state \<Rightarrow>
             if state = phasePending then
               bindA (tolerate {ErrIllegalPhase} (updateC (ClaimOutbox B e s op))) (\<lambda>ok.
               if \<not> ok then retA ()
               else bindA (updateC (MarkOutboxSent B e s op)) (\<lambda>_. finish))
             else if state = phaseClaimed then bindA (updateC (MarkOutboxSent B e s op)) (\<lambda>_. finish)
             else if state = phaseSent \<or> state = phaseSemanticACKed then finish
             else retA ()))"

section \<open>The active transport\<close>

definition handleActiveCommand :: "'tx bolt \<Rightarrow> 'tx control_env \<Rightarrow> int \<Rightarrow> Envelope \<Rightarrow> ('tx, unit) ctl" where
  "handleActiveCommand B E now env c =
     (case clActive c of
        None \<Rightarrow> (Inl CtlNotConnected, c)
      | Some identity \<Rightarrow> handleCommandOnSession B E now identity env c)"

definition handleActiveReceipt :: "'tx bolt \<Rightarrow> 'tx control_env \<Rightarrow> Envelope \<Rightarrow> ('tx, unit) ctl" where
  "handleActiveReceipt B E env c =
     (case clActive c of
        None \<Rightarrow> (Inl CtlNotConnected, c)
      | Some identity \<Rightarrow> handleReceiptOnSession B E identity env c)"

section \<open>Inbound frames\<close>

definition commandTypes :: "string list" where
  "commandTypes =
     [''desired'', ''forward_delete'', ''node_decommission'', ''probe_arm'', ''probe_outcome'', ''key_rotation_prepare'',
      ''key_rotation_commit'', ''restore_reconcile'', ''restore_result'']"

text \<open>The verification of a frame on a session; it advances the receive sequence of the identity.\<close>

definition acceptFrame :: "'tx bolt \<Rightarrow> 'tx control_env \<Rightarrow> sessionIdentity \<Rightarrow> bytes \<Rightarrow> ('tx, Envelope) ctl" where
  "acceptFrame B E identity frame c =
     (case ListControllerPins B (clStore c) of
        Inr [pin] \<Rightarrow>
          (case ParseEnvelope (ctCrypto E) frame (pinPublicKeyRaw pin) of
             Inl e \<Rightarrow> (Inl (CtlEnvelope e), c)
           | Inr env \<Rightarrow>
               let hdr = eHeader env in
               if hDirection hdr \<noteq> DirectionC2A then (Inl CtlDirection, c)
               else if hConnectionEpoch hdr \<noteq> siEpoch identity \<or> hSessionID hdr \<noteq> siSession identity
                 then (Inl CtlStaleFrame, c)
               else if hSequence hdr \<noteq> clInSeq c identity + 1 then (Inl CtlSequence, c)
               else (Inr env, c\<lparr>clInSeq := (clInSeq c)(identity := hSequence hdr)\<rparr>))
      | _ \<Rightarrow> (Inl (CtlPins 0), c))"

definition handleInboundFrameOnSession ::
  "'tx bolt \<Rightarrow> 'tx control_env \<Rightarrow> int \<Rightarrow> sessionIdentity \<Rightarrow> bytes \<Rightarrow> ('tx, unit) ctl" where
  "handleInboundFrameOnSession B E now identity frame =
     bindA (acceptFrame B E identity frame) (\<lambda>env.
     let t = hMessageType (eHeader env) in
     if t \<in> set commandTypes then handleCommandOnSession B E now identity env
     else if t = ''message_receipt'' then handleReceiptOnSession B E identity env
     else if t = ''heartbeat'' \<or> t = ''status'' then retA ()
     else failA (CtlMessageType t))"

text \<open>One turn of \<open>frameLoop\<close>: a failed read or a failed frame tears the session down.\<close>

definition frameLoop_step :: "'tx bolt \<Rightarrow> 'tx control_env \<Rightarrow> int \<Rightarrow> sessionIdentity \<Rightarrow> bytes option \<Rightarrow> 'tx client \<Rightarrow> 'tx client" where
  "frameLoop_step B E now identity rd c =
     (case rd of
        None \<Rightarrow> stopSession (siGeneration identity) (Some (siConn identity)) c
      | Some frame \<Rightarrow>
          (case handleInboundFrameOnSession B E now identity frame c of
             (Inl _, c') \<Rightarrow> stopSession (siGeneration identity) (Some (siConn identity)) c'
           | (Inr _, c') \<Rightarrow> c'))"

section \<open>Outbound frames\<close>

text \<open>
  The two critical sections of a send. \<open>prepareEnvelope\<close> checks the transport and builds the frame for the
  next sequence; \<open>commitEnvelope\<close> checks the transport again, reserves the sequence and writes. Other workers
  may run between the two; \<open>writeEnvelopeOnSession\<close> is the sequence without such an interleaving.
\<close>

definition staleTransport :: "u64 \<Rightarrow> nat option \<Rightarrow> 'tx client \<Rightarrow> bool" where
  "staleTransport generation ownedConn c \<longleftrightarrow>
     generation \<noteq> 0 \<and> (clGeneration c \<noteq> generation \<or> clConn c \<noteq> ownedConn)"

definition envelopeHeader ::
  "'tx control_env \<Rightarrow> ControllerPin \<Rightarrow> bytes \<Rightarrow> u64 \<Rightarrow> string \<Rightarrow> u64 \<Rightarrow> bytes \<Rightarrow> string \<Rightarrow> ProtectedHeader" where
  "envelopeHeader E pin inst epoch session seq messageID messageType =
     \<lparr>hProtocolDomain = ProtocolDomain, hControllerInstanceID = inst, hNodeID = copy16 (ctNodeID E),
      hControllerKeyID = pinKeyID pin, hAgentCredentialVer = nkVersion (ctKey E), hConnectionEpoch = epoch,
      hSessionID = session, hDirection = DirectionA2C, hSequence = seq, hMessageID = messageID,
      hMessageType = messageType, hSchemaVersion = 1, hPayloadLength = 0, hPayloadSHA256 = replicate 32 NUL\<rparr>"

definition prepareEnvelope ::
  "'tx bolt \<Rightarrow> 'tx control_env \<Rightarrow> u64 \<Rightarrow> nat option \<Rightarrow> bytes \<Rightarrow> string \<Rightarrow> bytes \<Rightarrow> ('tx, nat \<times> u64 \<times> bytes) ctl" where
  "prepareEnvelope B E generation ownedConn messageID messageType payload c =
     (if staleTransport generation ownedConn c then (Inl CtlStaleTransport, c)
      else if generation \<noteq> 0 \<and> (case clActive c of None \<Rightarrow> False | Some i \<Rightarrow> siGeneration i \<noteq> generation)
        then (Inl CtlStaleTransport, c)
      else let epoch = (case clActive c of None \<Rightarrow> clEpoch c | Some i \<Rightarrow> siEpoch i);
               session = (case clActive c of None \<Rightarrow> clSession c | Some i \<Rightarrow> siSession i);
               conn = (if generation \<noteq> 0 then ownedConn else clConn c);
               seq = clOutSeq c + 1
      in case conn of
           None \<Rightarrow> (Inl CtlNotConnected, c)
         | Some conn \<Rightarrow>
             (case ListControllerPins B (clStore c) of
                Inl e \<Rightarrow> (Inl (CtlStore e), c)
              | Inr [pin] \<Rightarrow>
                  (case DecodeString (pinInstanceID pin) of
                     None \<Rightarrow> (Inl CtlPinInstance, c)
                   | Some inst \<Rightarrow>
                       if length inst \<noteq> 16 then (Inl CtlPinInstance, c)
                       else case BuildEnvelope (ctCrypto E) (nkPriv (ctKey E))
                                (envelopeHeader E pin inst epoch session seq messageID messageType) payload of
                           Inl e \<Rightarrow> (Inl (CtlBuild e), c)
                         | Inr frame \<Rightarrow> (Inr (conn, seq, frame), c))
              | Inr pins \<Rightarrow> (Inl (CtlPins (length pins)), c)))"

definition commitEnvelope :: "'tx control_env \<Rightarrow> u64 \<Rightarrow> nat option \<Rightarrow> nat \<times> u64 \<times> bytes \<Rightarrow> ('tx, unit) ctl" where
  "commitEnvelope E generation ownedConn prepared c =
     (case prepared of (conn, seq, frame) \<Rightarrow>
        if staleTransport generation ownedConn c then (Inl CtlStaleTransport, c)
        else if clOutSeq c + 1 \<noteq> seq then (Inl CtlSequenceChanged, c)
        else writeC E conn frame (c\<lparr>clOutSeq := seq\<rparr>))"

definition writeEnvelopeOnSession ::
  "'tx bolt \<Rightarrow> 'tx control_env \<Rightarrow> u64 \<Rightarrow> nat option \<Rightarrow> bytes \<Rightarrow> string \<Rightarrow> bytes \<Rightarrow> ('tx, unit) ctl" where
  "writeEnvelopeOnSession B E generation ownedConn messageID messageType payload =
     bindA (prepareEnvelope B E generation ownedConn messageID messageType payload)
       (commitEnvelope E generation ownedConn)"

definition writeEnvelope :: "'tx bolt \<Rightarrow> 'tx control_env \<Rightarrow> bytes \<Rightarrow> string \<Rightarrow> bytes \<Rightarrow> ('tx, unit) ctl" where
  "writeEnvelope B E messageID messageType payload c =
     (case clActive c of
        None \<Rightarrow> (Inl CtlNotConnected, c)
      | Some i \<Rightarrow>
          if siGeneration i = 0 then (Inl CtlNotConnected, c)
          else writeEnvelopeOnSession B E (siGeneration i) (Some (siConn i)) messageID messageType payload c)"

definition SendMessage :: "'tx bolt \<Rightarrow> 'tx control_env \<Rightarrow> string \<Rightarrow> bytes \<Rightarrow> ('tx, unit) ctl" where
  "SendMessage B E messageType payload =
     writeEnvelope B E (MessageID (ctCrypto E) (EncodeToString (sha256 (ctCrypto E) payload)) messageType) messageType payload"

definition heartbeat_step :: "'tx bolt \<Rightarrow> 'tx control_env \<Rightarrow> sessionIdentity \<Rightarrow> bytes option \<Rightarrow> 'tx client \<Rightarrow> 'tx client" where
  "heartbeat_step B E identity rnd c =
     (case rnd of
        None \<Rightarrow> stopSession (siGeneration identity) (Some (siConn identity)) c
      | Some msgID \<Rightarrow>
          (case writeEnvelopeOnSession B E (siGeneration identity) (Some (siConn identity)) msgID ''heartbeat'' ''{}'' c of
             (Inl _, c') \<Rightarrow> stopSession (siGeneration identity) (Some (siConn identity)) c'
           | (Inr _, c') \<Rightarrow> c'))"

section \<open>The outbox pump\<close>

definition receiptPayload :: "(string \<Rightarrow> bytes) \<Rightarrow> string \<Rightarrow> bytes" where
  "receiptPayload q op = ''{\"operation_id\":'' @ q op @ ''}''"

text \<open>The body of the loop over one page; \<open>q\<close> renders the \<open>%q\<close> quoting of an operation id.\<close>

definition pumpRow ::
  "'tx bolt \<Rightarrow> 'tx control_env \<Rightarrow> (string \<Rightarrow> bytes) \<Rightarrow> sessionIdentity \<Rightarrow> string \<Rightarrow> ('tx, unit) ctl" where
  "pumpRow B E q identity op c =
     (let e = siEpoch identity; s = siSession identity;
          send = writeEnvelopeOnSession B E (siGeneration identity) (Some (siConn identity)) in
      if OutboxState B op (clStore c) \<noteq> Some phasePending then (Inr (), c)
      else case ResultForOperation B e s op (clStore c) of
        Inl _ \<Rightarrow> (Inr (), c)
      | Inr res \<Rightarrow>
          bindA (tolerate {ErrIllegalPhase} (updateC (ClaimOutbox B e s op))) (\<lambda>ok.
          if \<not> ok then retA ()
          else bindA (send (MessageID (ctCrypto E) op ''operation_complete'') ''operation_complete'' res) (\<lambda>_.
               bindA (tolerate {ErrIllegalPhase, ErrAlreadyReceipted} (updateC (MarkOutboxSent B e s op))) (\<lambda>_.
               send (MessageID (ctCrypto E) op ''message_receipt'') ''message_receipt'' (receiptPayload q op)))) c)"

fun pumpRows ::
  "'tx bolt \<Rightarrow> 'tx control_env \<Rightarrow> (string \<Rightarrow> bytes) \<Rightarrow> sessionIdentity \<Rightarrow> string list \<Rightarrow> ('tx, unit) ctl" where
  "pumpRows B E q identity [] = retA ()"
| "pumpRows B E q identity (op # ops) = bindA (pumpRow B E q identity op) (\<lambda>_. pumpRows B E q identity ops)"

definition pageSize :: nat where "pageSize = 256"

text \<open>
  The loop over the pages. The keys of the outbox do not change under it, so a bound of one page more than
  there are keys is enough; \<open>pumpOnce\<close> starts with that bound.
\<close>

fun pumpPages ::
  "nat \<Rightarrow> 'tx bolt \<Rightarrow> 'tx control_env \<Rightarrow> (string \<Rightarrow> bytes) \<Rightarrow> sessionIdentity \<Rightarrow> string \<Rightarrow> ('tx, bool) ctl" where
  "pumpPages 0 B E q identity lastKey = retA False"
| "pumpPages (Suc fuel) B E q identity lastKey =
     bindA (viewC (\<lambda>tx. Inr (OutboxOperationIDsAfter B lastKey (int pageSize) tx))) (\<lambda>ids.
     if ids = [] then retA True
     else bindA (pumpRows B E q identity ids) (\<lambda>_.
          if length ids < pageSize then retA True else pumpPages fuel B E q identity (last ids)))"

definition pumpOnce :: "'tx bolt \<Rightarrow> 'tx control_env \<Rightarrow> (string \<Rightarrow> bytes) \<Rightarrow> sessionIdentity \<Rightarrow> ('tx, bool) ctl" where
  "pumpOnce B E q identity c = pumpPages (Suc (length (bkeys B (clStore c) bucketOutbox))) B E q identity [] c"

definition outboxPump_step :: "'tx bolt \<Rightarrow> 'tx control_env \<Rightarrow> (string \<Rightarrow> bytes) \<Rightarrow> sessionIdentity \<Rightarrow> 'tx client \<Rightarrow> 'tx client" where
  "outboxPump_step B E q identity c =
     (case pumpOnce B E q identity c of
        (Inl _, c') \<Rightarrow> stopSession (siGeneration identity) (Some (siConn identity)) c'
      | (Inr _, c') \<Rightarrow> c')"

end
