(* ===== verification/Agent_Control_Props.thy ===== *)
theory Agent_Control_Props
  imports Agent_Control Agent_Journal_Props
begin

text \<open>
  What the control session guarantees about commands: each is applied at most once, whatever is redelivered,
  lost or interrupted. The proof separates the quiet actions, which only take steps of the abstract journal,
  from the one that hands an operation to the application.
\<close>

section \<open>Quiet actions\<close>

text \<open>
  An action is quiet when, on a store that satisfies the journal invariant, all it does to the journal are
  steps of the abstract machine and it does not hand an operation to the application.
\<close>

definition quiet :: "'tx bolt \<Rightarrow> ('tx, 'a) ctl \<Rightarrow> bool" where
  "quiet B m \<longleftrightarrow> (\<forall>c. jinv B (clStore c) \<longrightarrow>
     refines B (clStore c) (clStore (snd (m c))) \<and> clInvoked (snd (m c)) = clInvoked c)"

named_theorems quiet_intros \<open>quiet actions and the ways to combine them\<close>

lemma quietD:
  assumes "quiet B m" and "m c = (r, c')" and "jinv B (clStore c)"
  shows "refines B (clStore c) (clStore c')" and "clInvoked c' = clInvoked c" and "jinv B (clStore c')"
  using assms refines_jinv by (fastforce simp: quiet_def)+

lemma quiet_same:
  assumes "\<And>c. clStore (snd (m c)) = clStore c" and "\<And>c. clInvoked (snd (m c)) = clInvoked c"
  shows "quiet B m"
  using assms by (simp add: quiet_def)

lemma quiet_bindA [quiet_intros]:
  assumes m: "quiet B m" and f: "\<And>a. quiet B (f a)"
  shows "quiet B (bindA m f)"
  unfolding quiet_def
proof (intro allI impI)
  fix c :: "'a client" assume inv: "jinv B (clStore c)"
  obtain r c1 where mc: "m c = (r, c1)" by (cases "m c")
  note 1 = quietD [OF m mc inv]
  show "refines B (clStore c) (clStore (snd (bindA m f c))) \<and> clInvoked (snd (bindA m f c)) = clInvoked c"
  proof (cases r)
    case (Inl e)
    then show ?thesis using 1 mc by (simp add: bindA_def)
  next
    case (Inr a)
    then have b: "bindA m f c = f a c1" using mc by (simp add: bindA_def)
    obtain r2 c2 where fc: "f a c1 = (r2, c2)" by (cases "f a c1")
    show ?thesis using quietD [OF f fc 1(3)] 1 refines_trans by (auto simp: b fc)
  qed
qed

lemma quiet_simple [quiet_intros]:
  "quiet B (retA a)" "quiet B (failA e)" "quiet B (failIf b e)" "quiet B (viewC f)" "quiet B (writeC E conn frame)"
  by (auto intro!: quiet_same simp: retA_def failA_def failIf_def viewC_def writeC_def Let_def split: sum.split)

lemma quiet_view:
  assumes "\<And>tx a. jinv B tx \<Longrightarrow> f tx = Inr a \<Longrightarrow> quiet B (k a)"
  shows "quiet B (bindA (viewC f) k)"
  using assms by (fastforce simp: quiet_def bindA_def viewC_def split: sum.split)

lemma quiet_if [quiet_intros]: "(b \<Longrightarrow> quiet B m) \<Longrightarrow> (\<not> b \<Longrightarrow> quiet B n) \<Longrightarrow> quiet B (if b then m else n)"
  by simp

lemma quiet_option [quiet_intros]:
  "(x = None \<Longrightarrow> quiet B m) \<Longrightarrow> (\<And>a. x = Some a \<Longrightarrow> quiet B (f a)) \<Longrightarrow>
   quiet B (case x of None \<Rightarrow> m | Some a \<Rightarrow> f a)"
  by (cases x) auto

lemma quiet_sum [quiet_intros]:
  "(\<And>e. x = Inl e \<Longrightarrow> quiet B (g e)) \<Longrightarrow> (\<And>a. x = Inr a \<Longrightarrow> quiet B (f a)) \<Longrightarrow>
   quiet B (case x of Inl e \<Rightarrow> g e | Inr a \<Rightarrow> f a)"
  by (cases x) auto

lemma quiet_updateR [quiet_intros]:
  assumes "\<And>tx a tx'. jinv B tx \<Longrightarrow> f tx = Inr (a, tx') \<Longrightarrow> refines B tx tx'"
  shows "quiet B (updateR f)"
  using assms
  by (auto simp: quiet_def updateR_def commits_def split: sum.split prod.split list.split)

lemma quiet_updateC [quiet_intros]:
  assumes "\<And>tx tx'. jinv B tx \<Longrightarrow> f tx = Inr tx' \<Longrightarrow> refines B tx tx'"
  shows "quiet B (updateC f)"
  unfolding updateC_def using assms by (intro quiet_updateR) auto

lemma commits_same [simp]: "clStore (snd (commits c)) = clStore c" "clInvoked (snd (commits c)) = clInvoked c"
  by (simp_all add: commits_def split: list.split)

lemma updateR_Inr: "updateR f c = (Inr a, c') \<Longrightarrow> f (clStore c) = Inr (a, clStore c')"
  by (auto simp: updateR_def split: sum.splits prod.splits if_splits)

lemma updateC_Inr: "updateC f c = (Inr u, c') \<Longrightarrow> f (clStore c) = Inr (clStore c')"
  using updateR_Inr by (fastforce simp: updateC_def)

lemma viewC_Inr [simp]: "viewC f c = (Inr a, c') \<longleftrightarrow> f (clStore c) = Inr a \<and> c' = c"
  by (auto simp: viewC_def split: sum.split)

lemma quiet_tolerate [quiet_intros]:
  assumes "quiet B m"
  shows "quiet B (tolerate es m)"
proof -
  have "snd (tolerate es m c) = snd (m c)" for c
    by (auto simp: tolerate_def split: sum.split prod.split control_error.split)
  then show ?thesis using assms by (simp add: quiet_def)
qed

context bolt_db
begin

lemma op_refines:
  assumes "jinv B tx"
  shows "AdvanceSession B e s tx = Inr tx' \<Longrightarrow> refines B tx tx'"
    and "RecoverApplyingOperations B js now e s tx = Inr tx' \<Longrightarrow> refines B tx tx'"
    and "PersistOperationIntent B e s x tx = Inr tx' \<Longrightarrow> refines B tx tx'"
    and "MarkOperationApplying B e s x tx = Inr tx' \<Longrightarrow> refines B tx tx'"
    and "CompleteOperation B e s x r tx = Inr tx' \<Longrightarrow> refines B tx tx'"
    and "NackOperationWithResult B e s x w r tx = Inr tx' \<Longrightarrow> refines B tx tx'"
    and "QueueNackedResult B js e s x tx = Inr tx' \<Longrightarrow> refines B tx tx'"
    and "CompleteRecoveredDeletion B e s x tx = Inr tx' \<Longrightarrow> refines B tx tx'"
    and "ClaimOutbox B e s x tx = Inr tx' \<Longrightarrow> refines B tx tx'"
    and "MarkOutboxSent B e s x tx = Inr tx' \<Longrightarrow> refines B tx tx'"
    and "AcceptSemanticACK B e s x tx = Inr tx' \<Longrightarrow> refines B tx tx'"
    and "clean x \<Longrightarrow> AcceptReceipt B e s x tx = Inr tx' \<Longrightarrow> refines B tx tx'"
    and "RequeueOutboxForSession B e s tx = Inr (k, tx') \<Longrightarrow> refines B tx tx'"
    and "clean x \<Longrightarrow> ReceiveCommandWithPayloadStatus B C dec now e s x m t p kd tx = Inr (out, tx') \<Longrightarrow> refines B tx tx'"
proof -
  have ids: "ids_clean B tx" using assms by (simp add: jinv_def)
  note ex = exec_refines [OF _ _ ids, where E = "\<lparr>envCrypto = C, envDecode = dec, envJson = js\<rparr>" and now = now]
  show "AdvanceSession B e s tx = Inr tx' \<Longrightarrow> refines B tx tx'" using ex [of "OpAdvanceSession e s"] by simp
  show "RecoverApplyingOperations B js now e s tx = Inr tx' \<Longrightarrow> refines B tx tx'" using ex [of "OpRecover e s"] by simp
  show "PersistOperationIntent B e s x tx = Inr tx' \<Longrightarrow> refines B tx tx'" using ex [of "OpPersistIntent e s x"] by simp
  show "MarkOperationApplying B e s x tx = Inr tx' \<Longrightarrow> refines B tx tx'" using ex [of "OpApplying e s x"] by simp
  show "CompleteOperation B e s x r tx = Inr tx' \<Longrightarrow> refines B tx tx'" using ex [of "OpComplete e s x r"] by simp
  show "NackOperationWithResult B e s x w r tx = Inr tx' \<Longrightarrow> refines B tx tx'" using ex [of "OpNackResult e s x w r"] by simp
  show "QueueNackedResult B js e s x tx = Inr tx' \<Longrightarrow> refines B tx tx'" using ex [of "OpQueueNacked e s x"] by simp
  show "CompleteRecoveredDeletion B e s x tx = Inr tx' \<Longrightarrow> refines B tx tx'" using ex [of "OpCompleteRecovered e s x"] by simp
  show "ClaimOutbox B e s x tx = Inr tx' \<Longrightarrow> refines B tx tx'" using ex [of "OpClaim e s x"] by simp
  show "MarkOutboxSent B e s x tx = Inr tx' \<Longrightarrow> refines B tx tx'" using ex [of "OpSent e s x"] by simp
  show "AcceptSemanticACK B e s x tx = Inr tx' \<Longrightarrow> refines B tx tx'" using ex [of "OpAck e s x"] by simp
  show "clean x \<Longrightarrow> AcceptReceipt B e s x tx = Inr tx' \<Longrightarrow> refines B tx tx'" using ex [of "OpReceipt e s x"] by simp
  show "RequeueOutboxForSession B e s tx = Inr (k, tx') \<Longrightarrow> refines B tx tx'" using ex [of "OpRequeue e s"] by simp
  show "clean x \<Longrightarrow> ReceiveCommandWithPayloadStatus B C dec now e s x m t p kd tx = Inr (out, tx') \<Longrightarrow> refines B tx tx'"
    using ex [of "OpReceivePayload e s x m t p kd"] by simp
qed

text \<open>Under the invariant every outbox row belongs to a clean operation id.\<close>

lemma outbox_clean: "jinv B tx \<Longrightarrow> OutboxState B x tx = Some st \<Longrightarrow> clean x"
  by (auto simp: jinv_def ainv_def jabs_def OutboxState_def split: option.splits if_splits prod.splits)
     (metis option.distinct(1) surj_pair)

end

lemma clean_EncodeToString: "clean (EncodeToString bs)"
proof (cases bs)
  case Nil
  then show ?thesis by (simp add: clean_def EncodeToString_def)
next
  case (Cons b bs)
  have "hex_digit n \<notin> {CHR ''o'', CHR ''r''}" if "n < 16" for n
    using fromHexChar_hex_digit [OF that] by (auto simp: fromHexChar_def)
  moreover have "(of_char b :: nat) div 16 < 16" using nat_of_char_less_256 [of b] by (intro less_mult_imp_div_less) simp
  ultimately have "hex_digit (of_char b div 16) \<notin> {CHR ''o'', CHR ''r''}" by blast
  then show ?thesis by (auto simp: clean_def EncodeToString_def Cons)
qed

section \<open>Which parts of the client are quiet\<close>

text \<open>The application callbacks other than \<open>OnCommand\<close> keep to the journal's steps as well.\<close>

definition store_ok :: "'tx bolt \<Rightarrow> ('a \<Rightarrow> 'tx \<Rightarrow> 'r \<times> 'tx) \<Rightarrow> bool" where
  "store_ok B f \<longleftrightarrow> (\<forall>a tx. jinv B tx \<longrightarrow> refines B tx (snd (f a tx)))"

definition callbacks_ok :: "'tx bolt \<Rightarrow> 'tx control_env \<Rightarrow> bool" where
  "callbacks_ok B E \<longleftrightarrow>
     (\<forall>f. ctOnCommand E = Some f \<longrightarrow> store_ok B f) \<and> (\<forall>f. ctOnRecovered E = Some f \<longrightarrow> store_ok B f) \<and>
     (\<forall>f. ctOnReceipt E = Some f \<longrightarrow> store_ok B f)"

lemma quiet_callback:
  assumes "store_ok B f"
  shows "quiet B (\<lambda>c. case f a (clStore c) of (ok, tx) \<Rightarrow> failIf (\<not> ok) e (c\<lparr>clStore := tx\<rparr>))"
proof -
  have "refines B (clStore c) (snd (f a (clStore c)))" if "jinv B (clStore c)" for c :: "'a client"
    using assms that by (simp add: store_ok_def)
  note step = this
  show ?thesis unfolding quiet_def
  proof (intro allI impI)
    fix c :: "'a client" assume "jinv B (clStore c)"
    with step [of c] show "refines B (clStore c) (clStore (snd (case f a (clStore c) of
        (ok, tx) \<Rightarrow> failIf (\<not> ok) e (c\<lparr>clStore := tx\<rparr>)))) \<and>
      clInvoked (snd (case f a (clStore c) of (ok, tx) \<Rightarrow> failIf (\<not> ok) e (c\<lparr>clStore := tx\<rparr>))) = clInvoked c"
      by (cases "f a (clStore c)") (simp add: failIf_def failA_def retA_def)
  qed
qed

lemma stopSession_same [simp]: "clStore (stopSession g o1 c) = clStore c" "clInvoked (stopSession g o1 c) = clInvoked c"
  by (simp_all add: stopSession_def)

lemma quiet_stop:
  assumes "quiet B m"
  shows "quiet B (\<lambda>c. case m c of (Inl e, c') \<Rightarrow> (Inl e, stopSession g o1 c') | (Inr a, c') \<Rightarrow> (Inr (f a), c'))"
proof -
  have "clStore (snd (case m c of (Inl e, c') \<Rightarrow> (Inl e, stopSession g o1 c') | (Inr a, c') \<Rightarrow> (Inr (f a), c'))) = clStore (snd (m c))"
    "clInvoked (snd (case m c of (Inl e, c') \<Rightarrow> (Inl e, stopSession g o1 c') | (Inr a, c') \<Rightarrow> (Inr (f a), c'))) = clInvoked (snd (m c))" for c
    by (simp_all split: prod.split sum.split)
  then show ?thesis using assms unfolding quiet_def by presburger
qed

lemma quiet_install [quiet_intros]: "quiet B (\<lambda>c. case install conn es c of (identity, c') \<Rightarrow> (Inr identity, c'))"
  by (rule quiet_same) (simp_all add: install_def Let_def)

text \<open>Results that leave the client as it is.\<close>

lemma unchanged_intros:
  "snd (r, c) = c"
  "(b \<Longrightarrow> snd x = c) \<Longrightarrow> (\<not> b \<Longrightarrow> snd y = c) \<Longrightarrow> snd (if b then x else y) = c"
  "snd x = c \<Longrightarrow> (\<And>a. snd (f a) = c) \<Longrightarrow> snd (case v of None \<Rightarrow> x | Some a \<Rightarrow> f a) = c"
  "(\<And>e. snd (g e) = c) \<Longrightarrow> (\<And>a. snd (h a) = c) \<Longrightarrow> snd (case w of Inl e \<Rightarrow> g e | Inr a \<Rightarrow> h a) = c"
  "snd x = c \<Longrightarrow> (\<And>a l. snd (k a l) = c) \<Longrightarrow> snd (case z of [] \<Rightarrow> x | a # l \<Rightarrow> k a l) = c"
  by (auto split: option.split sum.split list.split)

lemma prepare_unchanged: "snd (prepareEnvelope B' E g o1 mid mt p c) = c"
  unfolding prepareEnvelope_def Let_def by (intro unchanged_intros)

lemma quiet_prepare [quiet_intros]: "quiet B (prepareEnvelope B' E g o1 mid mt p)"
proof -
  have "snd (prepareEnvelope B' E g o1 mid mt p c) = c" for c by (rule prepare_unchanged)
  then show ?thesis by (intro quiet_same) simp_all
qed

lemma quiet_commit [quiet_intros]: "quiet B (commitEnvelope E g o1 pr)"
  by (rule quiet_same) (simp_all add: commitEnvelope_def writeC_def Let_def split: prod.split)

lemma quiet_write [quiet_intros]: "quiet B (writeEnvelopeOnSession B' E g o1 mid mt p)"
  unfolding writeEnvelopeOnSession_def by (intro quiet_intros)

lemma quiet_send [quiet_intros]: "quiet B (writeEnvelope B' E mid mt p)" "quiet B (SendMessage B' E mt p)"
proof -
  have "quiet B (writeEnvelope B' E mid mt p)" for mid
    using quiet_write [of B B' E] by (auto simp: quiet_def writeEnvelope_def split: option.split)
  then show "quiet B (writeEnvelope B' E mid mt p)" "quiet B (SendMessage B' E mt p)"
    by (simp_all add: SendMessage_def)
qed

lemma quiet_accept [quiet_intros]: "quiet B (acceptFrame B' E i f)"
  by (rule quiet_same) (simp_all add: acceptFrame_def Let_def split: sum.split list.split)

context bolt_db
begin

lemma quiet_handshake [quiet_intros]: "quiet B (handshake B E now rnd reply conn pin)"
  unfolding handshake_def Let_def signed_def by (intro quiet_intros) (auto intro: op_refines)

lemma quiet_pins: "quiet B f \<Longrightarrow> quiet B (case ps of [p] \<Rightarrow> f | _ \<Rightarrow> failA e)"
  by (auto intro: quiet_intros split: list.split)

lemma quiet_Connect: "quiet B (Connect B E now dial rnd reply)"
proof -
  have "quiet B (\<lambda>c. case updateR (RequeueOutboxForSession B e s) c of
      (Inl e, c') \<Rightarrow> (Inl e, stopSession g o1 c') | (Inr _, c') \<Rightarrow> (Inr i, c'))" for e s g o1 i
    using quiet_stop [of B "updateR (RequeueOutboxForSession B e s)" g o1 "\<lambda>_. i"]
    by (meson op_refines(13) quiet_updateR)
  moreover have "quiet B (\<lambda>c. failIf (P c) e c)" for P e
    by (rule quiet_same) (simp_all add: failIf_def failA_def retA_def)
  ultimately show ?thesis
    unfolding Connect_def by (intro quiet_intros) (auto intro!: quiet_intros split: list.split)
qed

lemma quiet_converge:
  assumes "callbacks_ok B E"
  shows "quiet B (converge B E i op)"
  using assms unfolding converge_def callbacks_ok_def
  by (intro quiet_intros quiet_callback) (auto intro: op_refines)

lemma quiet_receipt:
  assumes "callbacks_ok B E"
  shows "quiet B (handleReceiptOnSession B E i env)"
proof -
  have cb: "ctOnReceipt E = Some f \<Longrightarrow> store_ok B f" for f using assms by (simp add: callbacks_ok_def)
  have acks: "quiet B (updateC (AcceptSemanticACK B e s op))" "quiet B (updateC (MarkOutboxSent B e s op))"
    "quiet B (updateC (ClaimOutbox B e s op))" for e s op
    by (auto intro!: quiet_updateC intro: op_refines)
  have rc: "quiet B (updateC (AcceptReceipt B e s op))" if "clean op" for e s op
    using that by (auto intro!: quiet_updateC intro: op_refines)
  have "quiet B (bindA (viewC (\<lambda>tx. Inr (OutboxState B op tx))) k)"
    if "quiet B (k None)" "\<And>st. clean op \<Longrightarrow> quiet B (k (Some st))" for op and k :: "_ \<Rightarrow> ('tx, unit) ctl"
  proof (rule quiet_view)
    fix tx a assume "jinv B tx" "Inr (OutboxState B op tx) = Inr a"
    with that outbox_clean [of tx op] show "quiet B (k a)" by (cases a) auto
  qed
  note vw = this
  let ?finish = "\<lambda>e s op. bindA (tolerate {ErrIllegalPhase} (updateC (AcceptSemanticACK B e s op))) (\<lambda>ok.
      if \<not> ok then retA () else bindA (tolerate {ErrAlreadyReceipted} (updateC (AcceptReceipt B e s op))) (\<lambda>_. retA ()))"
  have fin: "quiet B (?finish e s op)" if "clean op" for e s op
    by (intro quiet_intros acks rc that)
  show ?thesis
    unfolding handleReceiptOnSession_def Let_def
    apply (rule quiet_option, rule quiet_simple, rule quiet_if, rule quiet_simple, rule vw)
    subgoal for op by (auto intro!: quiet_callback cb quiet_simple split: option.split)
    subgoal for op st by (simp only: option.case) (intro quiet_if quiet_bindA quiet_tolerate acks fin quiet_simple)
    done
qed

lemma quiet_pumpRow [quiet_intros]: "quiet B (pumpRow B E q i op)"
proof -
  have "quiet B (bindA (tolerate {ErrIllegalPhase} (updateC (ClaimOutbox B e s op))) (\<lambda>ok. if \<not> ok then retA ()
     else bindA (writeEnvelopeOnSession B E g o1 m1 t1 p1) (\<lambda>_.
       bindA (tolerate {ErrIllegalPhase, ErrAlreadyReceipted} (updateC (MarkOutboxSent B e s op))) (\<lambda>_.
       writeEnvelopeOnSession B E g o1 m2 t2 p2))))" for e s g o1 m1 t1 p1 m2 t2 p2
    by (intro quiet_intros) (auto intro: op_refines)
  then show ?thesis
    by (auto simp: quiet_def pumpRow_def Let_def split: sum.split)
qed

lemma quiet_pumpRows [quiet_intros]: "quiet B (pumpRows B E q i ops)"
  by (induction ops) (auto intro!: quiet_intros)

lemma quiet_pump: "quiet B (pumpOnce B E q i)"
proof -
  have "quiet B (pumpPages n B E q i k)" for n k
    by (induction n arbitrary: k) (auto intro!: quiet_intros)
  then show ?thesis unfolding quiet_def pumpOnce_def by blast
qed

end

section \<open>At most once\<close>

text \<open>An operation whose side effects may have started: it is past the phase INTENT_PERSISTED, or receipted.\<close>

definition past :: "ajournal \<Rightarrow> string \<Rightarrow> bool" where
  "past a x \<longleftrightarrow> aReceipt a x \<noteq> None \<or> aPhase a x \<in> {Some phaseApplying, Some phaseApplied, Some phaseNacked}"

lemma past_step: "astep a a' \<Longrightarrow> past a x \<Longrightarrow> past a' x"
proof (induction rule: astep.induct)
  case (advance a y p q)
  have "q \<in> {phaseApplied, phaseNacked}" if "p \<in> {phaseApplying, phaseApplied, phaseNacked}"
    using advance(2) that by (auto simp: inbox_transition inbox_phases)
  with advance(1,3) show ?case by (cases "x = y") (auto simp: past_def)
next
  case (receipt a y r)
  then show ?case by (cases "x = y") (auto simp: past_def)
next
  case (receive a y)
  then show ?case by (cases "x = y") (auto simp: past_def)
qed (simp_all add: past_def)

lemma past_refines: "refines B tx tx' \<Longrightarrow> past (jabs B tx) x \<Longrightarrow> past (jabs B tx') x"
proof -
  have "astep\<^sup>*\<^sup>* a a' \<Longrightarrow> past a x \<Longrightarrow> past a' x" for a a'
    by (induction rule: rtranclp_induct) (auto intro: past_step)
  then show "refines B tx tx' \<Longrightarrow> past (jabs B tx) x \<Longrightarrow> past (jabs B tx') x" by (auto simp: refines_def)
qed

text \<open>
  The invariant of the client: the journal is sound, no operation was handed to the application twice, and
  every operation handed to it is past the point of no return.
\<close>

definition cinv :: "'tx bolt \<Rightarrow> 'tx client \<Rightarrow> bool" where
  "cinv B c \<longleftrightarrow> jinv B (clStore c) \<and> distinct (clInvoked c) \<and> (\<forall>x \<in> set (clInvoked c). past (jabs B (clStore c)) x)"

lemma cinv_quiet:
  assumes "quiet B m" and "m c = (r, c')" and "cinv B c"
  shows "cinv B c'"
proof -
  have inv: "jinv B (clStore c)" using assms(3) by (simp add: cinv_def)
  note q = quietD [OF assms(1,2) inv]
  show ?thesis using q(2,3) past_refines [OF q(1)] assms(3) by (simp add: cinv_def)
qed

definition keeps :: "'tx bolt \<Rightarrow> ('tx, 'a) ctl \<Rightarrow> bool" where
  "keeps B m \<longleftrightarrow> (\<forall>c. cinv B c \<longrightarrow> cinv B (snd (m c)))"

lemma keeps_quiet: "quiet B m \<Longrightarrow> keeps B m"
  unfolding keeps_def using cinv_quiet by (metis prod.collapse)

lemma keeps_bindA: "keeps B m \<Longrightarrow> (\<And>a. keeps B (f a)) \<Longrightarrow> keeps B (bindA m f)"
  unfolding keeps_def bindA_def by (fastforce split: prod.split sum.split)

lemma keeps_if: "keeps B m \<Longrightarrow> keeps B n \<Longrightarrow> keeps B (if b then m else n)"
  by simp

lemma keeps_option: "keeps B m \<Longrightarrow> (\<And>a. keeps B (f a)) \<Longrightarrow> keeps B (case v of None \<Rightarrow> m | Some a \<Rightarrow> f a)"
  by (cases v) auto

lemma keepsD: "keeps B m \<Longrightarrow> m c = (r, c') \<Longrightarrow> cinv B c \<Longrightarrow> cinv B c'"
  unfolding keeps_def by (metis snd_conv)

context bolt_db
begin

lemma mark_applying:
  assumes "MarkOperationApplying B e s x tx = Inr tx'"
  shows "\<not> past (jabs B tx) x \<or> aReceipt (jabs B tx) x \<noteq> None" and "past (jabs B tx') x"
  using assms
  by (auto simp: MarkOperationApplying_def journalIn_Inr putOperationJournal_def Let_def past_def jabs_def get_put
      inbox_phases split: if_splits)

lemma cinv_invoke:
  assumes "cinv B c" and "callbacks_ok B E" and "opOperationID op \<notin> set (clInvoked c)"
    and "past (jabs B (clStore c)) (opOperationID op)" and "invoke E op c = (r, c')"
  shows "cinv B c'"
proof (cases "ctOnCommand E")
  case None
  then show ?thesis using assms by (simp add: invoke_def)
next
  case (Some f)
  obtain r1 tx where f: "f op (clStore c) = (r1, tx)" by (cases "f op (clStore c)")
  have inv: "jinv B (clStore c)" using assms(1) by (simp add: cinv_def)
  then have ref: "refines B (clStore c) tx"
    using assms(2) Some f unfolding callbacks_ok_def store_ok_def by (metis snd_conv)
  have c': "c' = c\<lparr>clStore := tx, clInvoked := clInvoked c @ [opOperationID op]\<rparr>"
    using assms(5) Some f by (simp add: invoke_def)
  show ?thesis
    using assms(1,3,4) past_refines [OF ref] refines_jinv [OF ref inv] by (auto simp: c' cinv_def)
qed

lemma quiet_begin: "quiet B (beginApply B i x)"
  unfolding beginApply_def Let_def by (intro quiet_intros) (auto intro: op_refines)

lemma quiet_record: "quiet B (recordOutcome B E i x outcome)"
  unfolding recordOutcome_def Let_def by (intro quiet_intros) (auto intro: op_refines)

lemma begin_starts:
  assumes inv: "cinv B c" and c1: "beginApply B i x c = (Inr u, c1)"
  shows "x \<notin> set (clInvoked c)" and "past (jabs B (clStore c1)) x"
proof -
  from c1 obtain phase c0 where ph: "OperationPhase B x (clStore c) = Inr phase"
    and st: "(case phase of None \<Rightarrow> failA CtlNoJournal
        | Some p \<Rightarrow> if p = phaseReceived then updateC (PersistOperationIntent B (siEpoch i) (siSession i) x)
            else if p = phaseIntentPersisted then retA () else failA (CtlNotApplyable p)) c = (Inr (), c0)"
    and mk: "updateC (MarkOperationApplying B (siEpoch i) (siSession i) x) c0 = (Inr u, c1)"
    by (auto simp: beginApply_def Let_def)
  have "phase \<in> {Some phaseReceived, Some phaseIntentPersisted}"
    using st by (auto split: option.splits if_splits)
  then have a: "aPhase (jabs B (clStore c)) x \<in> {Some phaseReceived, Some phaseIntentPersisted}"
    using ph by (auto simp: OperationPhase_def loadJournal_Inr jabs_def)
  moreover have "aReceipt (jabs B (clStore c)) x = None"
    using a inv unfolding cinv_def jinv_def ainv_def
    by (metis insertE option.distinct(1) option.exhaust singletonD)
  ultimately have "\<not> past (jabs B (clStore c)) x" by (auto simp: past_def inbox_phases)
  then show "x \<notin> set (clInvoked c)" using inv by (auto simp: cinv_def)
  show "past (jabs B (clStore c1)) x" by (rule mark_applying [OF updateC_Inr [OF mk]])
qed

text \<open>The command pipeline keeps the invariant: the callback runs only after this operation has just left
  the phases before APPLYING, which it can do once.\<close>

lemma keeps_applyCommand:
  assumes cb: "callbacks_ok B E"
  shows "keeps B (applyCommand B E i op)"
  unfolding keeps_def
proof (intro allI impI)
  fix c :: "'tx client" assume inv: "cinv B c"
  let ?x = "opOperationID op"
  obtain r1 c1 where c1: "beginApply B i ?x c = (r1, c1)" by (cases "beginApply B i ?x c")
  note inv1 = cinv_quiet [OF quiet_begin c1 inv]
  show "cinv B (snd (applyCommand B E i op c))"
  proof (cases r1)
    case (Inl e)
    then show ?thesis using inv1 c1 by (simp add: applyCommand_def bindA_def)
  next
    case (Inr u)
    have "jinv B (clStore c)" using inv by (simp add: cinv_def)
    then have nx: "?x \<notin> set (clInvoked c1)"
      using begin_starts(1) [OF inv] c1 Inr quietD(2) [OF quiet_begin c1] by simp
    have px: "past (jabs B (clStore c1)) ?x" using begin_starts(2) [OF inv] c1 Inr by blast
    obtain r2 c2 where c2: "invoke E op c1 = (r2, c2)" by (cases "invoke E op c1")
    have "cinv B (snd (bindA (invoke E op) (recordOutcome B E i ?x) c1))"
      using cinv_invoke [OF inv1 cb nx px c2] keeps_quiet [OF quiet_record] c2
      by (simp add: bindA_def keeps_def split: sum.split)
    then show ?thesis using c1 Inr by (simp add: applyCommand_def bindA_def)
  qed
qed

lemma keeps_replay:
  assumes "callbacks_ok B E"
  shows "keeps B (replayCommand B E now i op rec)"
proof -
  note q = quiet_converge [OF assms]
  have ups: "quiet B (updateC (QueueNackedResult B js e s x))" "quiet B (updateC (RecoverApplyingOperations B js now e s))"
    for js e s x by (auto intro!: quiet_updateC intro: op_refines)
  show ?thesis
    unfolding replayCommand_def Let_def
    by (intro keeps_bindA keeps_if keeps_option keeps_applyCommand [OF assms];
        intro keeps_quiet quiet_intros q ups)
qed

lemma keeps_command:
  assumes "callbacks_ok B E"
  shows "keeps B (handleCommandOnSession B E now i env)"
proof -
  have "quiet B (updateR (ReceiveCommandWithPayloadStatus B C dec now e s (EncodeToString m) (EncodeToString m) t p t))"
    for C dec now e s m t p
    using op_refines(14) [OF _ clean_EncodeToString] by (intro quiet_updateR)
  then show ?thesis
    unfolding handleCommandOnSession_def Let_def
    by (intro keeps_bindA keeps_if keeps_replay keeps_applyCommand assms keeps_quiet)
qed

lemma keeps_inbound:
  assumes "callbacks_ok B E"
  shows "keeps B (handleInboundFrameOnSession B E now i frame)"
  unfolding handleInboundFrameOnSession_def Let_def
  by (rule keeps_bindA)
     (auto intro: keeps_quiet quiet_accept quiet_simple keeps_command [OF assms] quiet_receipt [OF assms])

end

text \<open>
  Runs of the client: connecting, frames arriving on any session identity (stale ones included), commands
  handled on any identity, receipts handled on the active transport, the pump, heartbeats, sends, shutdown, a restart of the process over the same store, and an environment that decides
  which coming transactions commit.
\<close>

datatype client_event =
  EvConnect int "nat option" "bytes option" "bytes option"
| EvFrame int sessionIdentity "bytes option"
| EvCommand int sessionIdentity Envelope
| EvReceipt Envelope
| EvPump sessionIdentity
| EvHeartbeat sessionIdentity "bytes option"
| EvSend string bytes
| EvShutdown
| EvRestart
| EvCommits "bool list"

fun exec_client :: "'tx bolt \<Rightarrow> 'tx control_env \<Rightarrow> (string \<Rightarrow> bytes) \<Rightarrow> 'tx client \<Rightarrow> client_event \<Rightarrow> 'tx client" where
  "exec_client B E q c (EvConnect now dial rnd reply) = snd (Connect B E now dial rnd reply c)"
| "exec_client B E q c (EvFrame now i rd) = frameLoop_step B E now i rd c"
| "exec_client B E q c (EvCommand now i env) = snd (handleCommandOnSession B E now i env c)"
| "exec_client B E q c (EvReceipt env) = snd (handleActiveReceipt B E env c)"
| "exec_client B E q c (EvPump i) = outboxPump_step B E q i c"
| "exec_client B E q c (EvHeartbeat i rnd) = heartbeat_step B E i rnd c"
| "exec_client B E q c (EvSend t p) = snd (SendMessage B E t p c)"
| "exec_client B E q c EvShutdown = Shutdown c"
| "exec_client B E q c EvRestart = NewClient (clStore c) (clSent c) (clInvoked c)"
| "exec_client B E q c (EvCommits bs) = c\<lparr>clCommits := bs\<rparr>"

lemma cinv_stop: "cinv B (stopSession g o1 c) \<longleftrightarrow> cinv B c"
  by (simp add: cinv_def)

lemma cinv_worker:
  assumes "keeps B m" and "cinv B c"
  shows "cinv B (case m c of (Inl e, c') \<Rightarrow> stopSession g o1 c' | (Inr a, c') \<Rightarrow> c')"
  using assms unfolding keeps_def by (fastforce simp: cinv_stop split: prod.split sum.split)

context bolt_db
begin

lemma cinv_exec:
  assumes cb: "callbacks_ok B E" and inv: "cinv B c"
  shows "cinv B (exec_client B E q c ev)"
proof (cases ev)
  case (EvConnect now dial rnd reply)
  then show ?thesis using keeps_quiet [OF quiet_Connect] inv by (simp add: keeps_def)
next
  case (EvFrame now i rd)
  then show ?thesis
    using cinv_worker [OF keeps_inbound [OF cb] inv] inv
    by (simp add: frameLoop_step_def cinv_stop split: option.split)
next
  case (EvCommand now i env)
  then show ?thesis using keeps_command [OF cb] inv by (simp add: keeps_def)
next
  case (EvReceipt env)
  then show ?thesis
    using keeps_quiet [OF quiet_receipt [OF cb]] inv by (simp add: keeps_def handleActiveReceipt_def split: option.split)
next
  case (EvPump i)
  then show ?thesis
    using cinv_worker [OF keeps_quiet [OF quiet_pump] inv] by (simp add: outboxPump_step_def)
next
  case (EvHeartbeat i rnd)
  then show ?thesis
    using cinv_worker [OF keeps_quiet [OF quiet_write] inv] inv
    by (simp add: heartbeat_step_def cinv_stop split: option.split)
next
  case (EvSend t p)
  have "keeps B (SendMessage B E t p)" by (rule keeps_quiet [OF quiet_send(2)])
  then show ?thesis using EvSend inv by (simp add: keeps_def)
qed (use inv in \<open>simp_all add: cinv_def Shutdown_def NewClient_def\<close>)

lemma cinv_run: "callbacks_ok B E \<Longrightarrow> cinv B c \<Longrightarrow> cinv B (foldl (exec_client B E q) c evs)"
  by (induction evs arbitrary: c) (simp_all add: cinv_exec)

end


definition demo_control :: "mem_tx control_env" where
  "demo_control =
     \<lparr>ctCrypto = demo_hash, ctDecode = (\<lambda>_. None), ctJson = (\<lambda>s. s), ctReceipt = (\<lambda>p. Some p), ctNodeID = ''node'',
      ctKey = \<lparr>nkPriv = replicate 64 (CHR ''k''), nkVersion = 1\<rparr>, ctOnCommand = Some (\<lambda>op tx. (Inr None, tx)),
      ctOnRecovered = None, ctOnReceipt = None, ctSendOK = (\<lambda>_. True)\<rparr>"

definition demo_identity :: sessionIdentity where
  "demo_identity = \<lparr>siGeneration = 1, siConn = 1, siEpoch = 7, siSession = ''s''\<rparr>"

definition demo_command :: Envelope where
  "demo_command =
     \<lparr>eHeaderLen = 0, ePayloadLen = 0,
      eHeader = \<lparr>hProtocolDomain = ProtocolDomain, hControllerInstanceID = [], hNodeID = [], hControllerKeyID = [],
        hAgentCredentialVer = 1, hConnectionEpoch = 7, hSessionID = ''s'', hDirection = DirectionC2A, hSequence = 1,
        hMessageID = ''m'', hMessageType = ''probe_arm'', hSchemaVersion = 1, hPayloadLength = 0, hPayloadSHA256 = []\<rparr>,
      eHeaderBytes = [], ePayload = [], eSignature = []\<rparr>"

lemma demo_callbacks: "callbacks_ok mem_bolt demo_control"
  by (simp add: callbacks_ok_def store_ok_def demo_control_def)

text \<open>The same command twice, with a restart between the deliveries.\<close>

definition demo_events :: "client_event list" where
  "demo_events = [EvCommand 1 demo_identity demo_command, EvRestart, EvCommand 2 demo_identity demo_command]"

lemma demo_run: "clInvoked (foldl (exec_client mem_bolt demo_control (\<lambda>s. s)) (NewClient (demo_tx 1) [] []) demo_events) = [''6d'']"
  by (simp add: demo_events_def demo_eval demo_control_def demo_identity_def demo_command_def NewClient_def
      handleCommandOnSession_def bindA_def updateR_def updateC_def commits_def viewC_def applyCommand_def beginApply_def
      recordOutcome_def invoke_def operationOf_def replayCommand_def OperationPhase_def OutboxState_def failIf_def retA_def
      failA_def ReceiveCommandWithPayloadStatus_def EncodeToString_def hex_digit_def demo_hash_def
      classifyForwardDeletions_def defaultResult_def)
     (simp add: char_of_eq_iff take_bit_eq_mod)


end
