(* ===== verification/Agent_Control_Sessions.thy ===== *)
theory Agent_Control_Sessions
  imports Agent_Control_Props
begin

text \<open>
  What the control session guarantees on the wire: the session is durable before the controller learns of it,
  inbound frames are accepted once and in order, outbound frames are numbered on their own transport, and the
  pump delivers every pending result.
\<close>

section \<open>The handshake\<close>

lemma updateC_session:
  assumes "updateC f c = (r, c')"
  shows "(\<exists>u. r = Inr u \<and> f (clStore c) = Inr (clStore c')) \<or> (\<exists>e. r = Inl e) \<and> clStore c' = clStore c"
  using assms
  by (auto simp: updateC_def updateR_def commits_def split: sum.splits prod.splits if_splits list.splits)

lemma updateC_sent: "updateC f c = (r, c') \<Longrightarrow> clSent c' = clSent c"
  by (auto simp: updateC_def updateR_def commits_def split: sum.splits prod.splits if_splits list.splits)

lemma writeC_result: "writeC E conn frame c = (r, c') \<Longrightarrow> clStore c' = clStore c \<and> clSent c' = clSent c @ [(conn, frame)]"
  by (auto simp: writeC_def Let_def split: if_splits)

text \<open>What the handshake does after the welcome: make the session durable, recover, and only then answer.\<close>

definition conclude :: "'tx bolt \<Rightarrow> 'tx control_env \<Rightarrow> int \<Rightarrow> nat \<Rightarrow> SessionWelcome \<Rightarrow> ('tx, u64 \<times> string) ctl" where
  "conclude B E now conn welcome =
     bindA (updateC (AdvanceSession B (swConnectionEpoch welcome) (swSessionID welcome))) (\<lambda>_.
     bindA (updateC (RecoverApplyingOperations B (ctJson E) now (swConnectionEpoch welcome) (swSessionID welcome))) (\<lambda>_.
     bindA (signed (SessionFinal_Sign (ctCrypto E) (finalOf E welcome) (nkPriv (ctKey E)))) (\<lambda>fsig.
     bindA (writeC E conn (SessionFinal_Canonical (finalOf E welcome) @ fsig)) (\<lambda>_.
     retA (swConnectionEpoch welcome, swSessionID welcome)))))"

context bolt_db
begin

lemma advance_current:
  assumes "AdvanceSession B e s tx = Inr tx'"
  shows "CurrentSession B tx' = (e, s)"
  using assms
  by (auto simp: AdvanceSession_def CurrentSession_def get_put keyCurrentEpoch_def keyCurrentSession_def encodeEpoch_def
      decodeEpoch_def split: if_splits)

lemma recover_current:
  assumes "RecoverApplyingOperations B js now e s tx = Inr tx'"
  shows "CurrentSession B tx' = CurrentSession B tx"
proof -
  have same: "CurrentSession B t' = CurrentSession B t" if "bget B t' bucketEpochs = bget B t bucketEpochs" for t t'
    using that by (simp add: CurrentSession_def)
  have rec: "bget B t' bucketEpochs = bget B t bucketEpochs" if "recordResultAndQueue B x r t = Inr t'" for x r t t'
    using that by (auto simp: recordResultAndQueue_def get_put split: if_splits)
  have "CurrentSession B t' = CurrentSession B t" if rc: "recover_one B js now t x = Inr t'" for t x t'
  proof (cases "\<exists>j. loadOperationJournal B t x = Inr (Some j) \<and> jPhase j = phaseApplying")
    case True
    then obtain j t1 where t1: "foldE (assert_fence B now) t (jForwardDeletions j) = Inr t1"
      and "recordResultAndQueue B x (recovered_result js recovered_reason)
        (bput B t1 bucketOperations (opJournalKey x) (RJournal (j\<lparr>jPhase := phaseNacked, jReason := recovered_reason\<rparr>))) = Inr t'"
      using rc by (auto simp: recover_one_def putOperationJournal_def Let_def)
    from rec [OF this(2)] show ?thesis by (intro same ext) (simp add: get_put fences_frame [OF t1])
  next
    case False
    then show ?thesis using rc by (auto simp: recover_one_def split: option.splits)
  qed
  note step = this
  from assms obtain xs where "foldE (recover_one B js now) tx xs = Inr tx'"
    by (auto simp: RecoverApplyingOperations_def)
  then show ?thesis
    by (rule foldE_invariant [where I = "\<lambda>t. CurrentSession B t = CurrentSession B tx"]) (simp_all add: step)
qed

text \<open>Either the final was not handed to the connection, or the granted session was durable before it was.\<close>

lemma conclude_result:
  assumes "conclude B E now conn w c = (r, c')"
  shows "clSent c' = clSent c \<and> (\<exists>e. r = Inl e) \<or>
    CurrentSession B (clStore c') = (swConnectionEpoch w, swSessionID w) \<and>
    (\<exists>fsig. SessionFinal_Sign (ctCrypto E) (finalOf E w) (nkPriv (ctKey E)) = Inr fsig \<and>
       clSent c' = clSent c @ [(conn, SessionFinal_Canonical (finalOf E w) @ fsig)]) \<and>
    (\<forall>es. r = Inr es \<longrightarrow> es = (swConnectionEpoch w, swSessionID w))"
proof -
  obtain r1 c1 where c1: "updateC (AdvanceSession B (swConnectionEpoch w) (swSessionID w)) c = (r1, c1)"
    by (cases "updateC (AdvanceSession B (swConnectionEpoch w) (swSessionID w)) c")
  obtain r2 c2 where c2: "updateC (RecoverApplyingOperations B (ctJson E) now (swConnectionEpoch w) (swSessionID w)) c1 = (r2, c2)"
    by (cases "updateC (RecoverApplyingOperations B (ctJson E) now (swConnectionEpoch w) (swSessionID w)) c1")
  note sent = updateC_sent [OF c1] updateC_sent [OF c2]
  show ?thesis
  proof (cases "\<exists>e. r1 = Inl e \<or> r2 = Inl e")
    case True
    then show ?thesis using assms c1 c2 sent by (auto simp: conclude_def bindA_def split: sum.splits)
  next
    case False
    then obtain u1 u2 where r: "r1 = Inr u1" "r2 = Inr u2" by (cases r1; cases r2) auto
    have cur: "CurrentSession B (clStore c2) = (swConnectionEpoch w, swSessionID w)"
      using recover_current [OF updateC_Inr [OF c2 [unfolded r]]] advance_current [OF updateC_Inr [OF c1 [unfolded r]]] by simp
    show ?thesis
      using assms c1 c2 sent cur unfolding r
      by (auto simp: conclude_def bindA_def signed_def failA_def retA_def writeC_def Let_def split: sum.splits if_splits)
  qed
qed

end

lemma handshake_conclude:
  "handshake B E now rnd reply conn pin c =
     (case rnd of None \<Rightarrow> (Inl CtlRandom, c) | Some nonce \<Rightarrow>
      bindA (signed (SessionHello_Sign (ctCrypto E) (helloOf E pin nonce (fst (CurrentSession B (clStore c)))) (nkPriv (ctKey E))))
        (\<lambda>sig. bindA (writeC E conn (SessionHello_Canonical (helloOf E pin nonce (fst (CurrentSession B (clStore c)))) @ sig)) (\<lambda>_.
         case reply of None \<Rightarrow> failA CtlRead | Some raw \<Rightarrow>
         (case ParseSessionWelcome (ctCrypto E) raw (pinPublicKeyRaw pin) of
            Inl e \<Rightarrow> failA (CtlWelcome e)
          | Inr w \<Rightarrow>
             (case checkWelcome pin (CurrentSession B (clStore c)) w of
                Some e \<Rightarrow> failA e | None \<Rightarrow> conclude B E now conn w)))) c)"
  by (simp add: handshake_def bindA_def viewC_def Let_def conclude_def failA_def retA_def split: option.split sum.split prod.split)

text \<open>The welcome a handshake acts on: verified under the pinned key and not below the durable session.\<close>

definition granted :: "crypto \<Rightarrow> ControllerPin \<Rightarrow> u64 \<times> string \<Rightarrow> bytes option \<Rightarrow> SessionWelcome \<Rightarrow> bool" where
  "granted C pin cur reply w \<longleftrightarrow>
     (\<exists>raw. reply = Some raw \<and> ParseSessionWelcome C raw (pinPublicKeyRaw pin) = Inr w) \<and>
     swControllerInstanceID w = pinnedInstance pin \<and> swControllerKeyID w = pinKeyID pin \<and>
     fst cur \<le> swConnectionEpoch w \<and>
     (snd cur \<noteq> [] \<and> swConnectionEpoch w = fst cur \<longrightarrow> swSessionID w = snd cur)"

lemma checkWelcome_None:
  "checkWelcome pin cur w = None \<longleftrightarrow>
     swControllerInstanceID w = pinnedInstance pin \<and> swControllerKeyID w = pinKeyID pin \<and>
     fst cur \<le> swConnectionEpoch w \<and> (snd cur \<noteq> [] \<and> swConnectionEpoch w = fst cur \<longrightarrow> swSessionID w = snd cur)"
  by (auto simp: checkWelcome_def not_less)

lemma handshake_cases:
  assumes "handshake B E now rnd reply conn pin c = (r, c')"
  obtains (refused) "clStore c' = clStore c" "length (clSent c') \<le> Suc (length (clSent c))" "\<exists>e. r = Inl e"
  | (answered) w hello c1 where "granted (ctCrypto E) pin (CurrentSession B (clStore c)) reply w"
      "clStore c1 = clStore c" "clSent c1 = clSent c @ [(conn, hello)]" "conclude B E now conn w c1 = (r, c')"
proof (cases rnd)
  case None
  then show ?thesis using assms refused by (auto simp: handshake_conclude)
next
  case (Some nonce)
  let ?h = "helloOf E pin nonce (fst (CurrentSession B (clStore c)))"
  show ?thesis
  proof (cases "SessionHello_Sign (ctCrypto E) ?h (nkPriv (ctKey E))")
    case (Inl e)
    then show ?thesis using assms Some refused by (auto simp: handshake_conclude bindA_def signed_def failA_def)
  next
    case (Inr sig)
    let ?f = "SessionHello_Canonical ?h @ sig"
    let ?c1 = "c\<lparr>clSent := clSent c @ [(conn, ?f)]\<rparr>"
    show ?thesis
    proof (cases "ctSendOK E ?f \<and> (\<exists>w. granted (ctCrypto E) pin (CurrentSession B (clStore c)) reply w)")
      case True
      then obtain w raw where w: "granted (ctCrypto E) pin (CurrentSession B (clStore c)) reply w"
        and raw: "reply = Some raw" "ParseSessionWelcome (ctCrypto E) raw (pinPublicKeyRaw pin) = Inr w"
        by (auto simp: granted_def)
      have "checkWelcome pin (CurrentSession B (clStore c)) w = None" using w by (simp add: granted_def checkWelcome_None)
      then have "conclude B E now conn w ?c1 = (r, c')"
        using assms Some Inr True by (simp add: handshake_conclude bindA_def signed_def retA_def writeC_def Let_def raw)
      then show ?thesis using answered [of w ?c1 ?f] w by simp
    next
      case False
      then have "c' = ?c1 \<and> (\<exists>e. r = Inl e)"
        using assms Some Inr
        by (auto simp: handshake_conclude bindA_def signed_def retA_def failA_def writeC_def granted_def Let_def
            checkWelcome_None [symmetric] split: option.splits sum.splits if_splits)
      then show ?thesis using refused by simp
    qed
  qed
qed

text \<open>
  C5: The session is durable before the controller learns of it. Whatever the outcome of the handshake, if a
  second frame (the final) was handed to the connection, then the store already holds the epoch and session
  of a welcome that verifies under the pinned key, names the pinned instance and key id and does not fall
  below the session stored before, and that frame is the final for this welcome; a handshake that reports
  success returns exactly that session.
\<close>

theorem handshake_persists_before_final:
  assumes "bolt_db B" and "handshake B E now rnd reply conn pin c = (r, c')"
  shows "(\<exists>es. r = Inr es) \<or> Suc (length (clSent c)) < length (clSent c') \<longrightarrow>
    (\<exists>w. granted (ctCrypto E) pin (CurrentSession B (clStore c)) reply w \<and>
       CurrentSession B (clStore c') = (swConnectionEpoch w, swSessionID w) \<and>
       (\<forall>es. r = Inr es \<longrightarrow> es = CurrentSession B (clStore c')) \<and>
       (\<exists>fsig. last (clSent c') = (conn, SessionFinal_Canonical (finalOf E w) @ fsig)))"
  using assms(2)
proof (cases rule: handshake_cases)
  case refused
  then show ?thesis by auto
next
  case (answered w hello c1)
  from bolt_db.conclude_result [OF assms(1) answered(4)] show ?thesis
  proof
    assume "clSent c' = clSent c1 \<and> (\<exists>e. r = Inl e)"
    then show ?thesis using answered(3) by auto
  next
    assume a: "CurrentSession B (clStore c') = (swConnectionEpoch w, swSessionID w) \<and>
      (\<exists>fsig. SessionFinal_Sign (ctCrypto E) (finalOf E w) (nkPriv (ctKey E)) = Inr fsig \<and>
         clSent c' = clSent c1 @ [(conn, SessionFinal_Canonical (finalOf E w) @ fsig)]) \<and>
      (\<forall>es. r = Inr es \<longrightarrow> es = (swConnectionEpoch w, swSessionID w))"
    then have "\<exists>fsig. last (clSent c') = (conn, SessionFinal_Canonical (finalOf E w) @ fsig)" by auto
    then show ?thesis using a answered(1) by metis
  qed
qed

lemma updateC_any_sent:
  "updateC f (c\<lparr>clSent := xs\<rparr>) = (case updateC f c of (r, c') \<Rightarrow> (r, c'\<lparr>clSent := xs\<rparr>))"
  by (auto simp: updateC_def updateR_def commits_def split: sum.splits prod.splits list.splits)

lemma conclude_any_sent:
  assumes "conclude B E now conn w c = (Inr es, c')" and "\<forall>frame. ctSendOK E frame"
  obtains fr where "clSent c' = clSent c @ [fr]"
    "conclude B E now conn w (c\<lparr>clSent := xs\<rparr>) = (Inr es, c'\<lparr>clSent := xs @ [fr]\<rparr>)"
proof -
  from assms(1) obtain c1 c2 fsig where c1: "updateC (AdvanceSession B (swConnectionEpoch w) (swSessionID w)) c = (Inr (), c1)"
    and c2: "updateC (RecoverApplyingOperations B (ctJson E) now (swConnectionEpoch w) (swSessionID w)) c1 = (Inr (), c2)"
    and sig: "SessionFinal_Sign (ctCrypto E) (finalOf E w) (nkPriv (ctKey E)) = Inr fsig"
    and c': "c' = c2\<lparr>clSent := clSent c2 @ [(conn, SessionFinal_Canonical (finalOf E w) @ fsig)]\<rparr>"
    and es: "es = (swConnectionEpoch w, swSessionID w)"
    using assms(2) by (auto simp: conclude_def signed_def writeC_def Let_def split: sum.splits)
  show ?thesis
  proof (rule that)
    show "clSent c' = clSent c @ [(conn, SessionFinal_Canonical (finalOf E w) @ fsig)]"
      using updateC_sent [OF c1] updateC_sent [OF c2] by (simp add: c')
    show "conclude B E now conn w (c\<lparr>clSent := xs\<rparr>) =
        (Inr es, c'\<lparr>clSent := xs @ [(conn, SessionFinal_Canonical (finalOf E w) @ fsig)]\<rparr>)"
      by (simp add: conclude_def bindA_def updateC_any_sent c1 c2 sig signed_def retA_def writeC_def Let_def assms(2) c' es)
  qed
qed


definition demo_pin :: ControllerPin where
  "demo_pin = \<lparr>pinInstanceID = EncodeToString (replicate 16 (CHR ''i'')), pinKeyID = ''key-1'',
     pinPublicKeyRaw = replicate 32 (CHR ''k''), pinGeneration = 1\<rparr>"

definition demo_reply :: bytes where
  "demo_reply = SessionWelcome_Canonical example_welcome
     @ ed_sign demo_crypto (replicate 64 (CHR ''k'')) (SessionDomain @ SessionWelcome_Canonical example_welcome)"

definition demo_peer :: "mem_tx control_env" where
  "demo_peer = demo_control\<lparr>ctCrypto := demo_crypto\<rparr>"

lemma demo_reply_parses: "ParseSessionWelcome demo_crypto demo_reply (replicate 32 (CHR ''k'')) = Inr example_welcome"
proof -
  have key: "length (replicate 64 (CHR ''k'')) = PrivateKeySize" by (simp add: PrivateKeySize_def)
  have pub: "ed_public demo_crypto (replicate 64 (CHR ''k'')) = replicate 32 (CHR ''k'')" by (simp add: demo_crypto_def)
  have "sessionVerify demo_crypto (replicate 32 (CHR ''k'')) SessionDomain (SessionWelcome_Canonical example_welcome)
      (ed_sign demo_crypto (replicate 64 (CHR ''k'')) (SessionDomain @ SessionWelcome_Canonical example_welcome))"
    using sessionVerify_Sign [OF demo.go_crypto_axioms key, of SessionDomain "SessionWelcome_Canonical example_welcome"]
    by (simp add: sessionSign_def demo.Sign_ok [OF key] pub)
  then show ?thesis using example_welcome_wf unfolding ParseSessionWelcome_Inr demo_reply_def by blast
qed

lemma demo_handshake:
  "\<exists>c'. handshake mem_bolt demo_peer 1 (Some n) (Some demo_reply) 3 demo_pin (NewClient [] [] []) = (Inr (7, ''s7''), c')"
  by (simp add: handshake_conclude bindA_def signed_def SessionHello_Sign_def SessionFinal_Sign_def sessionSign_def Sign_def
      demo_peer_def demo_control_def PrivateKeySize_def retA_def writeC_def demo_reply_parses demo_pin_def checkWelcome_def
      pinnedInstance_def example_welcome_def conclude_def updateC_def updateR_def commits_def NewClient_def
      RecoverApplyingOperations_def mem_keys_def AdvanceSession_def CurrentSession_def checkSession_def
      Put_def mem_bolt_def keyCurrentEpoch_def keyCurrentSession_def Let_def decodeEpoch_def [of "[]"])

theorem handshake_persists_before_final_witness:
  "\<exists>c'. handshake mem_bolt demo_peer 1 (Some ''n'') (Some demo_reply) 3 demo_pin (NewClient [] [] []) = (Inr (7, ''s7''), c') \<and>
     CurrentSession mem_bolt (clStore c') = (7, ''s7'')"
proof -
  obtain c' where run: "handshake mem_bolt demo_peer 1 (Some ''n'') (Some demo_reply) 3 demo_pin (NewClient [] [] []) = (Inr (7, ''s7''), c')"
    using demo_handshake by blast
  with handshake_persists_before_final [OF mem.bolt_db_axioms run] show ?thesis by auto
qed


section \<open>Inbound frames\<close>


lemma demo_inbound:
  "\<exists>frame env c'. acceptFrame mem_bolt demo_peer (demo_identity\<lparr>siSession := ''s1''\<rparr>) frame
     ((NewClient [((bucketControllerPins, ''i''), RPin (demo_pin\<lparr>pinPublicKeyRaw := ed_public demo_crypto example_key\<rparr>))] [] [])
        \<lparr>clInSeq := (\<lambda>_. 2)\<rparr>) = (Inr env, c')"
proof -
  let ?h = "filled_header demo_crypto example_header ''{}''"
  obtain sig where acc: "envelope_accepts demo_crypto (ed_public demo_crypto example_key) ?h ''{}'' sig"
    using example_accepted [OF example_ok(2)] by blast
  have "hDirection ?h = DirectionC2A" "hConnectionEpoch ?h = 7" "hSessionID ?h = ''s1''" "hSequence ?h = 3"
    by (simp_all add: filled_header_def example_header_def)
  with ParseEnvelope_frame [OF acc] show ?thesis
    by (intro exI [of _ "envelope_frame ?h ''{}'' sig"]) (auto simp: acceptFrame_def ListControllerPins_def mem_bolt_def mem_keys_def NewClient_def demo_peer_def
        demo_control_def demo_identity_def Let_def)
qed


section \<open>Outbound frames\<close>

lemma BuildEnvelope_sendable:
  assumes "BuildEnvelope C priv (envelopeHeader E pin inst e s seq mid mt) p = Inr frame"
    and "length inst = 16" and "length mid = 16" and "nkVersion (ctKey E) \<noteq> 0" and "go_crypto C"
  shows "sendable_header (envelopeHeader E pin inst e s seq mid mt)" and "length p \<le> MaxPayloadBytes"
    and "length priv = PrivateKeySize"
proof -
  let ?h = "envelopeHeader E pin inst e s seq mid mt"
  let ?h' = "?h\<lparr>hPayloadLength := of_nat (length p), hPayloadSHA256 := sha256 C p\<rparr>"
  from assms(1) obtain hb where hb: "EncodeProtectedHeader ?h' = Inr hb" and "length p \<le> MaxPayloadBytes"
    "length priv = PrivateKeySize"
    by (auto simp: BuildEnvelope_def Let_def split: if_splits)
  then show "length p \<le> MaxPayloadBytes" "length priv = PrivateKeySize" by blast+
  have "header_arrays ?h'"
    using assms(2,3) go_crypto.length_sha256 [OF assms(5)]
    by (simp add: header_arrays_def envelopeHeader_def copy16_def)
  from EncodeProtectedHeader_Inr [OF hb this] show "sendable_header ?h"
    using assms(2-4) by (simp add: sendable_header_def wf_header_def envelopeHeader_def copy16_def)
qed

lemma prepare_Inr:
  assumes "prepareEnvelope B E g (Some conn) mid mt p c = (Inr pr, c')" and "g \<noteq> 0"
  obtains pin inst e s frame where "pr = (conn, clOutSeq c + 1, frame)" "length inst = 16"
    "BuildEnvelope (ctCrypto E) (nkPriv (ctKey E)) (envelopeHeader E pin inst e s (clOutSeq c + 1) mid mt) p = Inr frame"
    "\<forall>i. clActive c = Some i \<longrightarrow> siGeneration i = g \<and> e = siEpoch i \<and> s = siSession i"
  using assms
  by (auto simp: prepareEnvelope_def Let_def split: if_splits sum.splits list.splits option.splits)


definition demo_sender :: "mem_tx client" where
  "demo_sender = (NewClient [((bucketControllerPins, ''i''), RPin demo_pin)] [] [])
     \<lparr>clConn := Some 1, clActive := Some demo_identity, clCancel := True, clGeneration := 1\<rparr>"

lemma demo_prepared:
  "\<exists>frame. prepareEnvelope mem_bolt demo_peer 1 (Some 1) (replicate 16 (CHR ''m'')) ''heartbeat'' ''{}'' demo_sender =
     (Inr (1, 1, frame), demo_sender)"
proof -
  let ?h = "envelopeHeader demo_peer demo_pin (replicate 16 (CHR ''i'')) 7 ''s'' 1 (replicate 16 (CHR ''m'')) ''heartbeat''"
  have "sendable_header ?h" "length (nkPriv (ctKey demo_peer)) = PrivateKeySize" "length ''{}'' \<le> MaxPayloadBytes"
    by (simp_all add: sendable_header_def envelopeHeader_def demo_peer_def demo_control_def demo_pin_def copy16_def
        string_field_ok_def go_simps)
  from demo.BuildEnvelope_frame [OF this] obtain frame where
    "BuildEnvelope demo_crypto (nkPriv (ctKey demo_peer)) ?h ''{}'' = Inr frame" by blast
  then show ?thesis
    by (simp add: prepareEnvelope_def staleTransport_def demo_sender_def NewClient_def demo_identity_def ListControllerPins_def
        mem_bolt_def mem_keys_def demo_pin_def demo_peer_def demo_control_def Let_def)
qed


section \<open>The outbox pump\<close>

context bolt_db
begin

lemma advanceOutbox_error:
  "advanceOutbox B p q e s x tx = Inl er \<Longrightarrow> CurrentSession B tx = (e, s) \<Longrightarrow> OutboxState B x tx = Some p \<Longrightarrow> er = ErrPut"
  by (auto simp: advanceOutbox_def OutboxState_def checkSession_def Put_def Let_def split: option.splits if_splits prod.splits)

lemma advanceOutbox_effect:
  assumes "advanceOutbox B p q e s x tx = Inr tx'" and "outbox_phase q"
  shows "OutboxState B y tx' = (if y = x then Some q else OutboxState B y tx)"
    and "CurrentSession B tx' = CurrentSession B tx"
  using assms by (auto simp: advanceOutbox_def OutboxState_def get_put Let_def split: if_splits prod.splits)

lemma pending_result:
  assumes "jinv B tx" and "CurrentSession B tx = (e, s)" and "OutboxState B x tx = Some p"
  shows "\<exists>r. ResultForOperation B e s x tx = Inr r"
proof -
  have out: "aOut (jabs B tx) x \<noteq> None" using assms(3) by (auto simp: jabs_def OutboxState_def split: option.splits)
  then obtain p' r where "aOut (jabs B tx) x = Some (p', r)" by force
  then have res: "aRes (jabs B tx) x = Some r" and rc: "aReceipt (jabs B tx) x = None"
    using assms(1) by (auto simp: jinv_def ainv_def)
  then show ?thesis
    using assms(2) by (cases "bget B tx bucketOperations x")
      (auto simp: ResultForOperation_def checkSession_def jabs_def split: if_splits)
qed

end

text \<open>A pump that can work: the journal is sound, the session is current, and no transaction fails to commit.\<close>

definition pumping :: "'tx bolt \<Rightarrow> sessionIdentity \<Rightarrow> 'tx client \<Rightarrow> bool" where
  "pumping B i c \<longleftrightarrow> jinv B (clStore c) \<and> CurrentSession B (clStore c) = (siEpoch i, siSession i) \<and> clCommits c = []"

definition delivered :: "'tx bolt \<Rightarrow> string set \<Rightarrow> 'tx client \<Rightarrow> 'tx client \<Rightarrow> bool" where
  "delivered B xs c c' \<longleftrightarrow>
     (\<forall>y. OutboxState B y (clStore c') =
        (if y \<in> xs \<and> OutboxState B y (clStore c) = Some phasePending then Some phaseSent else OutboxState B y (clStore c)))"

lemma delivered_trans: "delivered B xs c c1 \<Longrightarrow> delivered B ys c1 c2 \<Longrightarrow> delivered B (xs \<union> ys) c c2"
  by (auto simp: delivered_def outbox_phases)

lemma delivered_keys:
  assumes "bolt_db B" and "delivered B xs c c'"
  shows "bkeys B (clStore c') bucketOutbox = bkeys B (clStore c) bucketOutbox"
proof -
  have "bget B (clStore c') bucketOutbox y = None \<longleftrightarrow> bget B (clStore c) bucketOutbox y = None" for y
  proof -
    have "OutboxState B y (clStore c') = None \<longleftrightarrow> OutboxState B y (clStore c) = None"
      using assms(2) by (simp add: delivered_def)
    then show ?thesis by (simp add: OutboxState_def split: option.splits)
  qed
  then have "set (bkeys B (clStore c') bucketOutbox) = set (bkeys B (clStore c) bucketOutbox)"
    by (simp add: bolt_db.set_keys [OF assms(1)])
  then show ?thesis using bolt_db.sorted_keys [OF assms(1)] by (meson sorted_distinct_set_unique)
qed

lemma write_unchanged:
  assumes "writeEnvelopeOnSession B E g o1 mid mt p c = (Inr u, c')"
  shows "clStore c' = clStore c" and "clCommits c' = clCommits c"
proof -
  obtain r c1 where c1: "prepareEnvelope B E g o1 mid mt p c = (r, c1)" by (cases "prepareEnvelope B E g o1 mid mt p c")
  then have "c1 = c" using prepare_unchanged [of B E g o1 mid mt p c] by simp
  with assms c1 obtain pr where "commitEnvelope E g o1 pr c = (Inr u, c')"
    by (auto simp: writeEnvelopeOnSession_def)
  then show "clStore c' = clStore c" "clCommits c' = clCommits c"
    by (auto simp: commitEnvelope_def writeC_def Let_def split: if_splits prod.splits)
qed

lemma updateC_commit:
  "clCommits c = [] \<Longrightarrow> updateC f c = (case f (clStore c) of Inl e \<Rightarrow> (Inl (CtlStore e), c) | Inr tx \<Rightarrow> (Inr (), c\<lparr>clStore := tx\<rparr>))"
  by (auto simp: updateC_def updateR_def commits_def split: sum.split)

context bolt_db
begin

lemma tolerate_advance:
  assumes "pumping B i c" and "OutboxState B x (clStore c) = Some p" and "outbox_phase q" and "ErrPut \<notin> es"
    and "tolerate es (updateC (advanceOutbox B p q (siEpoch i) (siSession i) x)) c = (Inr ok, c')"
  shows "ok" and "jinv B (clStore c') \<Longrightarrow> pumping B i c'"
    and "OutboxState B y (clStore c') = (if y = x then Some q else OutboxState B y (clStore c))"
proof -
  have c: "clCommits c = []" "CurrentSession B (clStore c) = (siEpoch i, siSession i)" using assms(1) by (simp_all add: pumping_def)
  obtain tx where tx: "advanceOutbox B p q (siEpoch i) (siSession i) x (clStore c) = Inr tx" "c' = c\<lparr>clStore := tx\<rparr>" "ok"
    using assms(4,5) c advanceOutbox_error [OF _ c(2) assms(2)]
    by (auto simp: updateC_commit tolerate_def split: sum.splits if_splits)
  note eff = advanceOutbox_effect [OF tx(1) assms(3)]
  show "ok" by (rule tx(3))
  show "pumping B i c'" if "jinv B (clStore c')" using that eff(2) c tx(2) by (simp add: pumping_def)
  show "OutboxState B y (clStore c') = (if y = x then Some q else OutboxState B y (clStore c))"
    using eff(1) tx(2) by simp
qed

lemma pumpRow_delivers:
  assumes pump: "pumping B i c" and run: "pumpRow B E q i x c = (Inr u, c')"
  shows "pumping B i c'" and "delivered B {x} c c'"
proof -
  have inv: "jinv B (clStore c)" using pump by (simp add: pumping_def)
  have inv': "jinv B (clStore c')" by (rule quietD(3) [OF quiet_pumpRow run inv])
  have "pumping B i c' \<and> delivered B {x} c c'"
  proof (cases "OutboxState B x (clStore c) = Some phasePending")
    case False
    then have "c' = c" using run by (simp add: pumpRow_def Let_def)
    then show ?thesis using pump False by (auto simp: delivered_def)
  next
    case True
    obtain r where r: "ResultForOperation B (siEpoch i) (siSession i) x (clStore c) = Inr r"
      using pending_result [OF inv _ True] pump by (auto simp: pumping_def)
    let ?send = "\<lambda>t p. writeEnvelopeOnSession B E (siGeneration i) (Some (siConn i)) (MessageID (ctCrypto E) x t) t p"
    from run True r obtain ok c1 where
      c1: "tolerate {ErrIllegalPhase} (updateC (ClaimOutbox B (siEpoch i) (siSession i) x)) c = (Inr ok, c1)"
      and rest: "(if \<not> ok then retA () else bindA (?send ''operation_complete'' r) (\<lambda>_.
          bindA (tolerate {ErrIllegalPhase, ErrAlreadyReceipted} (updateC (MarkOutboxSent B (siEpoch i) (siSession i) x))) (\<lambda>_.
          ?send ''message_receipt'' (receiptPayload q x)))) c1 = (Inr u, c')"
      by (auto simp: pumpRow_def Let_def)
    note claim = tolerate_advance [OF pump True _ _ c1 [unfolded ClaimOutbox_def]]
    have "quiet B (tolerate {ErrIllegalPhase} (updateC (ClaimOutbox B (siEpoch i) (siSession i) x)))"
      by (auto intro!: quiet_tolerate quiet_updateC intro: op_refines)
    note inv1 = quietD(3) [OF this c1 inv]
    have ok: ok and p1: "pumping B i c1" and s1: "\<And>y. OutboxState B y (clStore c1) = (if y = x then Some phaseClaimed else OutboxState B y (clStore c))"
      using claim inv1 by simp_all
    from rest ok obtain u1 c2 b c3 where c2: "?send ''operation_complete'' r c1 = (Inr u1, c2)"
      and c3: "tolerate {ErrIllegalPhase, ErrAlreadyReceipted} (updateC (MarkOutboxSent B (siEpoch i) (siSession i) x)) c2 = (Inr b, c3)"
      and c4: "?send ''message_receipt'' (receiptPayload q x) c3 = (Inr u, c')"
      by auto
    note w2 = write_unchanged [OF c2] and w4 = write_unchanged [OF c4]
    have p2: "pumping B i c2" using p1 w2 by (simp add: pumping_def)
    have s2: "OutboxState B x (clStore c2) = Some phaseClaimed" using s1 w2 by simp
    note sent = tolerate_advance [OF p2 s2 _ _ c3 [unfolded MarkOutboxSent_def]]
    have "pumping B i c3" and s3: "\<And>y. OutboxState B y (clStore c3) = (if y = x then Some phaseSent else OutboxState B y (clStore c2))"
      using sent inv' w4 by simp_all
    then have "pumping B i c'" using w4 by (simp add: pumping_def)
    moreover have "delivered B {x} c c'" using s1 s3 w2 w4 True by (simp add: delivered_def)
    ultimately show ?thesis by simp
  qed
  then show "pumping B i c'" "delivered B {x} c c'" by simp_all
qed

lemma pumpRows_deliver:
  assumes "pumping B i c" and "pumpRows B E q i xs c = (Inr u, c')"
  shows "pumping B i c' \<and> delivered B (set xs) c c'"
  using assms
proof (induction xs arbitrary: c)
  case Nil
  then show ?case by (simp add: delivered_def)
next
  case (Cons x xs)
  then obtain u1 c1 where c1: "pumpRow B E q i x c = (Inr u1, c1)" "pumpRows B E q i xs c1 = (Inr u, c')" by auto
  note 1 = pumpRow_delivers [OF Cons.prems(1) c1(1)]
  with Cons.IH [OF 1(1) c1(2)] delivered_trans [of B "{x}" c c1 "set xs" c'] show ?case by simp
qed

lemma pumpPages_deliver:
  assumes "pumping B i c" and "pumpPages n B E q i k c = (Inr b, c')"
    and "bkeys B (clStore c) bucketOutbox = pre @ post" and "[] \<notin> set (pre @ post)"
    and "k = (if pre = [] then [] else last pre)" and "length post < n"
  shows "b \<and> pumping B i c' \<and> delivered B (set post) c c'"
  using assms
proof (induction n arbitrary: c k pre post)
  case (Suc n)
  let ?page = "take pageSize post" and ?rest = "drop pageSize post"
  have keys: "sorted (pre @ post)" "distinct (pre @ post)" using sorted_keys [of "clStore c" bucketOutbox] Suc.prems(3) by simp_all
  have page: "OutboxOperationIDsAfter B k (int pageSize) (clStore c) = ?page"
    using page_after_prefix [OF Suc.prems(3) keys Suc.prems(4) _ Suc.prems(5), of "int pageSize"] by (simp add: pageSize_def)
  show ?case
  proof (cases "post = []")
    case True
    then show ?thesis using Suc.prems(1,2) page by (simp add: bindA_def viewC_def retA_def delivered_def)
  next
    case False
    then have ne: "?page \<noteq> []" by (simp add: pageSize_def)
    from Suc.prems(2) page ne obtain u c1 where c1: "pumpRows B E q i ?page c = (Inr u, c1)"
      and rest: "(if length ?page < pageSize then retA True else pumpPages n B E q i (last ?page)) c1 = (Inr b, c')"
      by (auto simp del: take_eq_Nil)
    note rows = pumpRows_deliver [OF Suc.prems(1) c1]
    show ?thesis
    proof (cases "length post < pageSize")
      case True
      then show ?thesis using rest rows by auto
    next
      case False
      then have more: "pumpPages n B E q i (last ?page) c1 = (Inr b, c')" using rest by simp
      have keys1: "bkeys B (clStore c1) bucketOutbox = (pre @ ?page) @ ?rest"
        using delivered_keys [OF bolt_db_axioms, of "set ?page" c c1] rows Suc.prems(3) by simp
      have len: "length ?rest < n" using Suc.prems(6) \<open>post \<noteq> []\<close> by (cases post) (auto simp: pageSize_def)
      have "b \<and> pumping B i c' \<and> delivered B (set ?rest) c1 c'"
        by (rule Suc.IH [OF conjunct1 [OF rows] more keys1 _ _ len]) (use Suc.prems(4) ne in \<open>simp_all del: take_eq_Nil\<close>)
      moreover have "set ?page \<union> set ?rest = set post" by (metis append_take_drop_id set_append)
      ultimately show ?thesis using delivered_trans [of B "set ?page" c c1 "set ?rest" c'] rows by simp
    qed
  qed
qed simp

end

text \<open>
  A live transport: the identity is the active one and its connection current, exactly one controller is
  pinned, and the pin, the key and the socket let a frame out.
\<close>

definition live :: "'tx bolt \<Rightarrow> sessionIdentity \<Rightarrow> ControllerPin \<Rightarrow> 'tx client \<Rightarrow> bool" where
  "live B i pin c \<longleftrightarrow> clGeneration c = siGeneration i \<and> clConn c = Some (siConn i) \<and> clActive c = Some i \<and>
     ListControllerPins B (clStore c) = Inr [pin]"

definition can_send :: "'tx control_env \<Rightarrow> sessionIdentity \<Rightarrow> ControllerPin \<Rightarrow> bool" where
  "can_send E i pin \<longleftrightarrow> go_crypto (ctCrypto E) \<and> length (nkPriv (ctKey E)) = PrivateKeySize \<and> nkVersion (ctKey E) \<noteq> 0 \<and>
     siGeneration i \<noteq> 0 \<and> (case DecodeString (pinInstanceID pin) of None \<Rightarrow> False | Some inst \<Rightarrow> length inst = 16) \<and>
     string_field_ok (pinKeyID pin) \<and> string_field_ok (siSession i) \<and> (\<forall>frame. ctSendOK E frame)"

text \<open>A pending row that fits: its result and its receipt fit in an envelope, its successors in the database.\<close>

definition row_fits :: "'tx bolt \<Rightarrow> (string \<Rightarrow> bytes) \<Rightarrow> sessionIdentity \<Rightarrow> 'tx \<Rightarrow> string \<Rightarrow> bool" where
  "row_fits B q i tx x \<longleftrightarrow>
     (case ResultForOperation B (siEpoch i) (siSession i) x tx of Inl _ \<Rightarrow> True | Inr r \<Rightarrow> length r \<le> MaxPayloadBytes) \<and>
     length (receiptPayload q x) \<le> MaxPayloadBytes \<and>
     (let payload = snd (splitOutboxValue (raw_bytes (bget B tx bucketOutbox x)))
      in bput_ok B x (outboxRow phaseClaimed payload) \<and> bput_ok B x (outboxRow phaseSent payload))"

lemma write_sends:
  assumes "live B i pin c" and "can_send E i pin" and "length mid = 16" and "string_field_ok mt" and "length p \<le> MaxPayloadBytes"
  shows "\<exists>fr. writeEnvelopeOnSession B E (siGeneration i) (Some (siConn i)) mid mt p c =
    (Inr (), c\<lparr>clOutSeq := clOutSeq c + 1, clSent := clSent c @ [(siConn i, fr)]\<rparr>)"
proof -
  obtain inst where inst: "DecodeString (pinInstanceID pin) = Some inst" "length inst = 16"
    using assms(2) by (auto simp: can_send_def split: option.splits)
  let ?h = "envelopeHeader E pin inst (siEpoch i) (siSession i) (clOutSeq c + 1) mid mt"
  have "sendable_header ?h" "length (nkPriv (ctKey E)) = PrivateKeySize" "go_crypto (ctCrypto E)"
    using assms(2-4) inst by (simp_all add: sendable_header_def envelopeHeader_def can_send_def copy16_def)
  then obtain frame where "BuildEnvelope (ctCrypto E) (nkPriv (ctKey E)) ?h p = Inr frame"
    using go_crypto.BuildEnvelope_frame [OF _ _ _ assms(5)] by metis
  then show ?thesis
    using assms(1,2) inst
    by (intro exI [of _ frame]) (simp add: writeEnvelopeOnSession_def bindA_def prepareEnvelope_def staleTransport_def
        commitEnvelope_def writeC_def live_def can_send_def Let_def)
qed

text \<open>Transactions that touch only some rows of the outbox.\<close>

definition only_outbox :: "'tx bolt \<Rightarrow> string set \<Rightarrow> 'tx \<Rightarrow> 'tx \<Rightarrow> bool" where
  "only_outbox B xs tx tx' \<longleftrightarrow> (\<forall>b k. b = bucketOutbox \<and> k \<in> xs \<or> bget B tx' b k = bget B tx b k)"

lemma only_outbox_trans: "only_outbox B xs t t1 \<Longrightarrow> only_outbox B ys t1 t2 \<Longrightarrow> only_outbox B (xs \<union> ys) t t2"
  unfolding only_outbox_def by (metis UnCI)

lemma only_outbox_fits:
  assumes "only_outbox B xs tx tx'" and "y \<notin> xs"
  shows "row_fits B q i tx' y = row_fits B q i tx y"
proof -
  have "bget B tx' b k = bget B tx b k" if "b \<noteq> bucketOutbox \<or> k = y" for b k using assms that by (auto simp: only_outbox_def)
  then show ?thesis by (simp add: row_fits_def ResultForOperation_def checkSession_def CurrentSession_def Let_def)
qed

context bolt_db
begin

lemma only_outbox_pins:
  assumes "only_outbox B xs tx tx'"
  shows "ListControllerPins B tx' = ListControllerPins B tx"
proof -
  have get: "bget B tx' bucketControllerPins k = bget B tx bucketControllerPins k" for k using assms by (auto simp: only_outbox_def)
  then have "set (bkeys B tx' bucketControllerPins) = set (bkeys B tx bucketControllerPins)" by (simp add: set_keys)
  then have "bkeys B tx' bucketControllerPins = bkeys B tx bucketControllerPins"
    using sorted_keys by (meson sorted_distinct_set_unique)
  then show ?thesis by (simp add: ListControllerPins_def get)
qed

lemma only_outbox_live: "only_outbox B xs (clStore c) (clStore c') \<Longrightarrow> live B i pin c \<Longrightarrow> clGeneration c' = clGeneration c \<Longrightarrow>
    clConn c' = clConn c \<Longrightarrow> clActive c' = clActive c \<Longrightarrow> live B i pin c'"
  by (simp add: live_def only_outbox_pins)

lemma advanceOutbox_runs:
  assumes "CurrentSession B tx = (e, s)" and "OutboxState B x tx = Some p"
    and "bput_ok B x (outboxRow p' (snd (splitOutboxValue (raw_bytes (bget B tx bucketOutbox x)))))"
  shows "advanceOutbox B p p' e s x tx =
    Inr (bput B tx bucketOutbox x (outboxRow p' (snd (splitOutboxValue (raw_bytes (bget B tx bucketOutbox x))))))"
  using assms by (auto simp: advanceOutbox_def OutboxState_def checkSession_def Put_def Let_def split: option.splits prod.splits)

lemma only_outbox_put: "only_outbox B {x} tx (bput B tx bucketOutbox x r)"
  by (auto simp: only_outbox_def get_put)

lemma pumpRow_runs:
  assumes pump: "pumping B i c" and live: "live B i pin c" and can: "can_send E i pin" and fits: "row_fits B q i (clStore c) x"
  shows "\<exists>c'. pumpRow B E q i x c = (Inr (), c') \<and> live B i pin c' \<and> only_outbox B {x} (clStore c) (clStore c')"
proof (cases "OutboxState B x (clStore c) = Some phasePending")
  case False
  then show ?thesis using live by (simp add: pumpRow_def Let_def only_outbox_def)
next
  case True
  let ?e = "siEpoch i" and ?s = "siSession i" and ?tx = "clStore c"
  let ?p = "snd (splitOutboxValue (raw_bytes (bget B ?tx bucketOutbox x)))"
  let ?send = "\<lambda>t. writeEnvelopeOnSession B E (siGeneration i) (Some (siConn i)) (MessageID (ctCrypto E) x t) t"
  have c: "clCommits c = []" "CurrentSession B ?tx = (?e, ?s)" using pump by (simp_all add: pumping_def)
  have mid: "length (MessageID (ctCrypto E) x t) = 16" for t
    using can by (simp add: can_send_def MessageID_def go_crypto.length_sha256)
  have types: "string_field_ok ''operation_complete''" "string_field_ok ''message_receipt''"
    by (simp_all add: string_field_ok_def go_simps)
  obtain r where r: "ResultForOperation B ?e ?s x ?tx = Inr r" "length r \<le> MaxPayloadBytes"
    using pending_result [OF _ c(2) True] pump fits by (auto simp: pumping_def row_fits_def)
  let ?tx1 = "bput B ?tx bucketOutbox x (outboxRow phaseClaimed ?p)"
  let ?tx2 = "bput B ?tx1 bucketOutbox x (outboxRow phaseSent ?p)"
  have 1: "ClaimOutbox B ?e ?s x ?tx = Inr ?tx1"
    using advanceOutbox_runs [OF c(2) True] fits by (simp add: ClaimOutbox_def row_fits_def Let_def)
  have o1: "only_outbox B {x} ?tx ?tx1" by (rule only_outbox_put)
  have live1: "live B i pin (c\<lparr>clStore := ?tx1\<rparr>)" by (rule only_outbox_live [of "{x}", OF _ live]) (simp_all add: o1)
  obtain f1 where f1: "?send ''operation_complete'' r (c\<lparr>clStore := ?tx1\<rparr>) =
      (Inr (), c\<lparr>clStore := ?tx1, clOutSeq := clOutSeq c + 1, clSent := clSent c @ [(siConn i, f1)]\<rparr>)" (is "_ = (_, ?c2)")
    using write_sends [OF live1 can mid types(1) r(2)] by auto
  have row: "splitOutboxValue (raw_bytes (Some (outboxRow phaseClaimed ?p))) = (phaseClaimed, ?p)" by simp
  have 2: "MarkOutboxSent B ?e ?s x ?tx1 = Inr ?tx2"
    using advanceOutbox_runs [of ?tx1 ?e ?s x phaseClaimed phaseSent] c(2) fits advanceOutbox_effect [OF 1 [unfolded ClaimOutbox_def]]
    by (simp add: MarkOutboxSent_def row_fits_def Let_def get_put row)
  have o2: "only_outbox B {x} ?tx ?tx2" using only_outbox_trans [OF o1 only_outbox_put [of x]] by simp
  have live2: "live B i pin (?c2\<lparr>clStore := ?tx2\<rparr>)" by (rule only_outbox_live [of "{x}", OF _ live]) (simp_all add: o2)
  obtain f2 where f2: "?send ''message_receipt'' (receiptPayload q x) (?c2\<lparr>clStore := ?tx2\<rparr>) =
      (Inr (), ?c2\<lparr>clStore := ?tx2, clOutSeq := clOutSeq c + 2, clSent := clSent c @ [(siConn i, f1), (siConn i, f2)]\<rparr>)" (is "_ = (_, ?c4)")
    using write_sends [OF live2 can mid types(2)] fits by (auto simp: row_fits_def add.assoc)
  have "pumpRow B E q i x c = (Inr (), ?c4)"
    using True r c f1 f2 by (simp add: pumpRow_def Let_def bindA_def tolerate_def updateC_commit 1 2)
  moreover have "live B i pin ?c4" by (rule only_outbox_live [of "{x}", OF _ live]) (simp_all add: o2)
  ultimately show ?thesis using o2 by auto
qed

lemma pumpRows_run:
  assumes "pumping B i c" and "live B i pin c" and "can_send E i pin" and "distinct xs"
    and "\<forall>x \<in> set xs. row_fits B q i (clStore c) x"
  shows "\<exists>c'. pumpRows B E q i xs c = (Inr (), c') \<and> live B i pin c' \<and> only_outbox B (set xs) (clStore c) (clStore c')"
  using assms
proof (induction xs arbitrary: c)
  case Nil
  then show ?case by (simp add: retA_def only_outbox_def)
next
  case (Cons x xs)
  then obtain c1 where c1: "pumpRow B E q i x c = (Inr (), c1)" "live B i pin c1" "only_outbox B {x} (clStore c) (clStore c1)"
    using pumpRow_runs by (metis list.set_intros(1))
  have "\<forall>y \<in> set xs. row_fits B q i (clStore c1) y"
    using Cons.prems(4,5) only_outbox_fits [OF c1(3), of _ q i] by (metis distinct.simps(2) list.set_intros(2) singletonD)
  then obtain c2 where "pumpRows B E q i xs c1 = (Inr (), c2)" "live B i pin c2" "only_outbox B (set xs) (clStore c1) (clStore c2)"
    using Cons.IH [OF pumpRow_delivers(1) [OF Cons.prems(1) c1(1)] c1(2) Cons.prems(3)] Cons.prems(4) by auto
  then show ?case using c1 only_outbox_trans [OF c1(3)] by (auto simp: bindA_def)
qed

lemma pumpPages_run:
  assumes "pumping B i c" and "live B i pin c" and "can_send E i pin"
    and "bkeys B (clStore c) bucketOutbox = pre @ post" and "[] \<notin> set (pre @ post)"
    and "k = (if pre = [] then [] else last pre)" and "\<forall>x \<in> set post. row_fits B q i (clStore c) x"
  shows "\<exists>b c'. pumpPages n B E q i k c = (Inr b, c')"
  using assms
proof (induction n arbitrary: c k pre post)
  case 0
  show ?case by (intro exI [of _ False] exI [of _ c]) (simp add: retA_def)
next
  case (Suc n)
  let ?page = "take pageSize post" and ?rest = "drop pageSize post"
  have keys: "sorted (pre @ post)" "distinct (pre @ post)" using sorted_keys [of "clStore c" bucketOutbox] Suc.prems(4) by simp_all
  have page: "OutboxOperationIDsAfter B k (int pageSize) (clStore c) = ?page"
    using page_after_prefix [OF Suc.prems(4) keys Suc.prems(5) _ Suc.prems(6), of "int pageSize"] by (simp add: pageSize_def)
  obtain c1 where c1: "pumpRows B E q i ?page c = (Inr (), c1)" "live B i pin c1"
    "only_outbox B (set ?page) (clStore c) (clStore c1)"
    using pumpRows_run [OF Suc.prems(1-3), of ?page q] keys(2) Suc.prems(7) by (auto dest: in_set_takeD)
  note rows = pumpRows_deliver [OF Suc.prems(1) c1(1)]
  have "\<exists>b c'. pumpPages n B E q i (last ?page) c1 = (Inr b, c')" if "?page \<noteq> []"
  proof (rule Suc.IH [OF conjunct1 [OF rows] c1(2) Suc.prems(3)])
    show "bkeys B (clStore c1) bucketOutbox = (pre @ ?page) @ ?rest"
      using delivered_keys [OF bolt_db_axioms, of "set ?page" c c1] rows Suc.prems(4) by simp
    show "[] \<notin> set ((pre @ ?page) @ ?rest)" using Suc.prems(5) by simp
    show "last ?page = (if pre @ ?page = [] then [] else last (pre @ ?page))" using that by (simp del: take_eq_Nil)
    have "set ?page \<inter> set ?rest = {}" using keys(2) by (metis append_take_drop_id distinct_append)
    then show "\<forall>x \<in> set ?rest. row_fits B q i (clStore c1) x"
      using only_outbox_fits [OF c1(3), of _ q i] Suc.prems(7) by (auto dest: in_set_dropD)
  qed
  then show ?case using page c1(1) by (auto simp: bindA_def viewC_def retA_def simp del: take_eq_Nil)
qed

end


text \<open>The completed command of the demonstration journal, pumped over a session with a pinned controller.\<close>

definition demo_pump :: "mem_tx client" where
  "demo_pump = demo_sender\<lparr>clStore := ((bucketControllerPins, ''i''), RPin demo_pin) # demo_tx 5\<rparr>"

lemma demo_pumping: "pumping mem_bolt demo_identity demo_pump" "bget mem_bolt (clStore demo_pump) bucketOutbox [] = None"
proof -
  have "refines mem_bolt (demo_tx 5) (((bucketControllerPins, ''i''), RPin demo_pin) # demo_tx 5)"
    by (rule mem.refines_frame) (auto simp: mem_bolt_def)
  then have "jinv mem_bolt (clStore demo_pump)" using refines_jinv [OF _ demo_jinv] by (simp add: demo_pump_def)
  then show "pumping mem_bolt demo_identity demo_pump"
    by (simp add: pumping_def demo_pump_def demo_sender_def NewClient_def demo_identity_def demo_eval)
  show "bget mem_bolt (clStore demo_pump) bucketOutbox [] = None" by (simp add: demo_pump_def demo_eval)
qed

lemma demo_live: "live mem_bolt demo_identity demo_pin demo_pump" "can_send demo_peer demo_identity demo_pin"
  by (simp_all add: live_def can_send_def demo_pump_def demo_sender_def NewClient_def demo_identity_def demo_eval ListControllerPins_def
      mem_keys_def demo_peer_def demo_control_def demo_pin_def demo.go_crypto_axioms string_field_ok_def go_simps)

lemma demo_pump_rows:
  "OutboxState mem_bolt ''c1'' (clStore demo_pump) = Some phasePending"
  "\<forall>x \<in> set (bkeys mem_bolt (clStore demo_pump) bucketOutbox). row_fits mem_bolt (\<lambda>s. s) demo_identity (clStore demo_pump) x"
  by (simp_all add: demo_pump_def demo_eval mem_keys_def OutboxState_def ResultForOperation_def row_fits_def demo_identity_def
      receiptPayload_def go_simps)


section \<open>Observations\<close>

text \<open>
  A receipt that finds its row already SEMANTIC_ACKED (the process stopped between the acknowledgement and the
  receipt) is dropped: \<open>AcceptSemanticACK\<close> is not idempotent, its phase error is taken for a finished row, and
  the row stays until the next session requeues it.
\<close>

lemma receipt_after_ack_dropped:
  assumes "ctReceipt E (ePayload env) = Some op" and "op \<noteq> []" and "clCommits c = []"
    and "OutboxState B op (clStore c) = Some phaseSemanticACKed"
    and "CurrentSession B (clStore c) = (siEpoch i, siSession i)"
  shows "handleReceiptOnSession B E i env c = (Inr (), c)"
proof -
  have "AcceptSemanticACK B (siEpoch i) (siSession i) op (clStore c) = Inl ErrIllegalPhase"
    using assms(4,5)
    by (auto simp: AcceptSemanticACK_def advanceOutbox_def checkSession_def OutboxState_def outbox_phases
        split: option.splits prod.splits)
  then show ?thesis
    using assms
    by (simp add: handleReceiptOnSession_def Let_def bindA_def viewC_def updateC_commit tolerate_def retA_def outbox_phases)
qed

end
