(* ===== verification/Agent_Commands_Props.thy ===== *)
theory Agent_Commands_Props
  imports Agent_Commands
begin

text \<open>What the lifecycle commands promise: the terminal state, its order, and the boundary after it.\<close>

section \<open>Inversion of actions\<close>

lemma act_Inr [simp]:
  "updateA t w = (Inr u, w') \<longleftrightarrow> (\<exists>tx. t (agStore w) = Inr tx \<and> w' = w\<lparr>agStore := tx\<rparr>)"
  "viewA v w = (Inr r, w') \<longleftrightarrow> v (agStore w) = Inr r \<and> w' = w"
  "dirA d w = (Inr s, w') \<longleftrightarrow> (\<exists>d'. d (agDir w) = (Inr s, d') \<and> w' = w\<lparr>agDir := d'\<rparr>)"
  "setMarker st w = (Inr u, w') \<longleftrightarrow> w' = w\<lparr>agMarker := st\<rparr>"
  by (auto simp: updateA_def viewA_def dirA_def setMarker_def split: sum.splits prod.splits)

lemma markerState_Inr [simp]: "markerState w = (Inr m, w') \<longleftrightarrow> LoadMarker (agDir w) = Inr m \<and> w' = w"
  by (auto simp: markerState_def)

lemma requireIntent_Inr: "requireIntent B req w = (Inr u, w') \<Longrightarrow> w' = w"
  by (auto simp: requireIntent_def split: if_splits option.splits)

text \<open>A marker that was written is there.\<close>

lemma WriteMarker_ok:
  assumes "WriteMarker fails st d = (Inr u, d')"
  shows "LoadMarker d' = Inr st"
  using assms
  by (auto simp: WriteMarker_def writeMarkerUnlocked_def replace_file_def LoadMarker_def loadMarkerUnlocked_def
      split: if_splits sum.splits content.splits)

section \<open>Rows\<close>

lemma cleanup_writes:
  assumes "WriteAgentCleanupTombstone B ts tx = Inr tx'"
  shows "tx' = tx \<or> tx' = bput B (bput B tx bucketOperations keyCleanupTombstoneCanonical (RCleanup ts))
    bucketOperations (keyCleanupTombstone @ ctOperationID ts) (RCleanup ts)"
proof (cases "bget B tx bucketOperations keyCleanupTombstoneCanonical")
  case None
  with assms show ?thesis by (simp add: WriteAgentCleanupTombstone_def Let_def split: if_splits) blast
next
  case (Some raw)
  with assms show ?thesis by (simp add: WriteAgentCleanupTombstone_def Let_def split: if_splits) blast
qed

context bolt_db
begin

lemma get_delete_all: "bget B (foldl (\<lambda>tx k. bdelete B tx b k) tx ks) b' k' = (if b' = b \<and> k' \<in> set ks then None else bget B tx b' k')"
  by (induction ks arbitrary: tx) (auto simp: get_delete)

lemma get_clear_bucket: "bget B (clear_bucket B tx b) b' k = (if b' = b then None else bget B tx b' k)"
  by (auto simp: clear_bucket_def get_delete_all set_keys)

lemma get_clear_buckets: "bget B (foldl (clear_bucket B) tx bs) b' k = (if b' \<in> set bs then None else bget B tx b' k)"
  by (induction bs arbitrary: tx) (auto simp: get_clear_bucket)

lemma record_frame:
  assumes "recordResultAndQueue B i res tx = Inr tx'"
  shows "bget B tx' bucketOutbox i \<noteq> None"
    and "(b, k) \<notin> {(bucketOperations, i), (bucketOutbox, i)} \<Longrightarrow> bget B tx' b k = bget B tx b k"
  using assms by (auto simp: recordResultAndQueue_def get_put split: if_splits)

lemma queueResult_frame:
  assumes "queueResult B identity i res tx = Inr tx'"
  shows "bget B tx' bucketOutbox i \<noteq> None"
    and "(b, k) \<notin> {(bucketOperations, i), (bucketOutbox, i)} \<Longrightarrow> bget B tx' b k = bget B tx b k"
proof -
  from assms have "recordResultAndQueue B i res tx = Inr tx'"
    by (auto simp: queueResult_def QueueResultSessionIndependent_def RecordResult_def QueueResult_def
        split: option.splits if_splits)
  from record_frame [OF this] show "bget B tx' bucketOutbox i \<noteq> None"
    and "(b, k) \<notin> {(bucketOperations, i), (bucketOutbox, i)} \<Longrightarrow> bget B tx' b k = bget B tx b k" by blast+
qed

lemma cleanup_frame:
  assumes "WriteAgentCleanupTombstone B ts tx = Inr tx'" and "b \<noteq> bucketOperations"
  shows "bget B tx' b k = bget B tx b k"
  using cleanup_writes [OF assms(1)] assms(2) by (auto simp: get_put)

end

text \<open>Nothing of any Forward is left.\<close>

definition forward_free :: "'tx bolt \<Rightarrow> 'tx \<Rightarrow> bool" where
  "forward_free B tx \<longleftrightarrow> (\<forall>b\<in>set forward_buckets. \<forall>k. bget B tx b k = None)"

lemma bucketOperations_kept: "bucketOperations \<notin> set forward_buckets" "bucketOutbox \<notin> set forward_buckets"
  by (simp_all add: forward_buckets_def)

context bolt_db
begin

lemma forward_free_frame:
  assumes "forward_free B tx" and "\<And>b k. b \<noteq> bucketOperations \<Longrightarrow> b \<noteq> bucketOutbox \<Longrightarrow> bget B tx' b k = bget B tx b k"
  shows "forward_free B tx'"
  unfolding forward_free_def
proof (intro ballI allI)
  fix b k
  assume "b \<in> set forward_buckets"
  moreover from this bucketOperations_kept have "b \<noteq> bucketOperations" "b \<noteq> bucketOutbox" by metis+
  ultimately show "bget B tx' b k = None" using assms by (simp add: forward_free_def)
qed

lemma clear_forward_free: "ClearForwardStateForDecommission B tx = Inr tx' \<Longrightarrow> forward_free B tx'"
  by (auto simp: ClearForwardStateForDecommission_def forward_free_def get_clear_buckets)

lemma cleanup_forward_free:
  "WriteAgentCleanupTombstone B ts tx = Inr tx' \<Longrightarrow> forward_free B tx \<Longrightarrow> forward_free B tx'"
  using cleanup_frame by (blast intro: forward_free_frame)

lemma queue_forward_free:
  assumes "queueResult B identity i res tx = Inr tx'" and "forward_free B tx"
  shows "forward_free B tx'"
  by (rule forward_free_frame [OF assms(2)]) (use queueResult_frame(2) [OF assms(1)] in auto)

end

section \<open>The driver\<close>

lemma cleaners [simp]:
  "dcSecretCleans (decommissioner B stop) = [\<lambda>w. (True, w)]"
  "cleanAll [\<lambda>w. (True, w)] w = (Inr (), w)" "cleanBestEffort [\<lambda>w. (True, w)] w = (Inr (), w)"
  "dcSessionIdentity (decommissioner B stop) = Some (\<lambda>tx. Inr (CurrentSession B tx))"
  by (simp_all add: decommissioner_def)

lemma stopA_Inr: "stopA dc w = (Inr r, w') \<Longrightarrow> w' = snd (dcStopAll dc w)"
  by (auto simp: stopA_def StopAll_def split: prod.splits bool.splits sum.splits)

lemma stopA_total: "\<exists>r. stopA dc w = (Inr r, snd (dcStopAll dc w))"
  by (auto simp: stopA_def StopAll_def split: prod.split bool.split sum.split)

lemma queueAck_Inr:
  assumes "QueueAck B js dc req w = (Inr u, w')"
  shows "LoadMarker (agDir w) = Inr MarkerDecommissioned"
    and "\<exists>t. LoadAgentCleanupTombstone B (agStore w) = Inr (Some t) \<and> ctOperationID t = dqOperationID req \<and> ctNodeID t = dqNodeID req"
    and "\<exists>tx. queueResult B (dcSessionIdentity dc) (dqOperationID req) (DecommissionAck js req ''DECOMMISSIONED'') (agStore w) = Inr tx \<and>
          w' = w\<lparr>agStore := tx\<rparr>"
proof -
  from assms obtain w1 where "requireIntent B req w = (Inr (), w1)" and rest: "LoadMarker (agDir w1) = Inr MarkerDecommissioned"
    "\<exists>found. LoadAgentCleanupTombstone B (agStore w1) = Inr found \<and> same_operation req found"
    "\<exists>tx. queueResult B (dcSessionIdentity dc) (dqOperationID req) (DecommissionAck js req ''DECOMMISSIONED'') (agStore w1) = Inr tx \<and>
          w' = w1\<lparr>agStore := tx\<rparr>"
    by (auto simp: QueueAck_def queueAckWithStatus_def split: if_splits)
  then have "w1 = w" by (simp add: requireIntent_Inr)
  with rest show "LoadMarker (agDir w) = Inr MarkerDecommissioned"
    "\<exists>t. LoadAgentCleanupTombstone B (agStore w) = Inr (Some t) \<and> ctOperationID t = dqOperationID req \<and> ctNodeID t = dqNodeID req"
    "\<exists>tx. queueResult B (dcSessionIdentity dc) (dqOperationID req) (DecommissionAck js req ''DECOMMISSIONED'') (agStore w) = Inr tx \<and>
          w' = w\<lparr>agStore := tx\<rparr>"
    by (auto simp: same_operation_def split: option.splits)
qed

context bolt_db
begin

lemma complete_terminal:
  assumes "Complete B (decommissioner B stop) fails now req w = (Inr u, w')" and "LoadMarker (agDir w) \<noteq> Inr MarkerDecommissioned"
  shows "LoadMarker (agDir w') = Inr MarkerDecommissioned \<and> forward_free B (agStore w')"
proof -
  from assms(1) obtain w1 where "requireIntent B req w = (Inr (), w1)"
    and rest: "LoadMarker (agDir w1) = Inr MarkerDecommissioned \<or>
      (\<exists>tx1 tx2 d. ClearForwardStateForDecommission B (agStore w1) = Inr tx1 \<and>
         WriteAgentCleanupTombstone B (tombstone_of req now) tx1 = Inr tx2 \<and>
         WriteMarker fails MarkerDecommissioned (agDir w1) = (Inr (), d) \<and> agStore w' = tx2 \<and> agDir w' = d)"
    by (auto simp: Complete_def split: if_splits)
  then have "w1 = w" by (simp add: requireIntent_Inr)
  with rest assms(2) obtain tx1 tx2 d where c: "ClearForwardStateForDecommission B (agStore w) = Inr tx1"
    "WriteAgentCleanupTombstone B (tombstone_of req now) tx1 = Inr tx2" "WriteMarker fails MarkerDecommissioned (agDir w) = (Inr (), d)"
    "agStore w' = tx2" "agDir w' = d" by blast
  from WriteMarker_ok [OF c(3)] cleanup_forward_free [OF c(2) clear_forward_free [OF c(1)]] c(4,5) show ?thesis by simp
qed

lemma deadline_terminal:
  assumes "ReconcileDeadline B js (decommissioner B stop) fails clock req w = (Inr r, w')"
    and "LoadMarker (agDir w) \<noteq> Inr MarkerDecommissioned"
  shows "if ddDropped r then LoadMarker (agDir w') = Inr MarkerDecommissioned \<and> forward_free B (agStore w') else w' = w"
proof -
  obtain n1 n2 n3 where clock: "clock = (n1, n2, n3)" by (metis prod_cases3)
  from assms obtain marker w1 where "requireIntent B req w = (Inr (), w1)"
    and rest: "(\<not> ddDropped r \<and> w' = w1) \<or>
      (\<exists>tx1 tx2 d tx3. ClearForwardStateForDecommission B (agStore w1) = Inr tx1 \<and>
         WriteAgentCleanupTombstone B (tombstone_of req n3) tx1 = Inr tx2 \<and>
         WriteMarker fails MarkerDecommissioned (agDir w1) = (Inr (), d) \<and>
         queueResult B (dcSessionIdentity (decommissioner B stop)) (dqOperationID req)
           (DecommissionAck js req ''DROPPED_DUE_TO_DECOMMISSION'') tx2 = Inr tx3 \<and>
         agStore w' = tx3 \<and> agDir w' = d \<and> ddDropped r)"
    by (auto simp: ReconcileDeadline_def clock Let_def split: if_splits)
  then have w1: "w1 = w" by (simp add: requireIntent_Inr)
  from rest show ?thesis unfolding w1
  proof (elim disjE exE conjE)
    fix tx1 tx2 d tx3
    assume c: "ClearForwardStateForDecommission B (agStore w) = Inr tx1"
      "WriteAgentCleanupTombstone B (tombstone_of req n3) tx1 = Inr tx2" "WriteMarker fails MarkerDecommissioned (agDir w) = (Inr (), d)"
      "queueResult B (dcSessionIdentity (decommissioner B stop)) (dqOperationID req)
           (DecommissionAck js req ''DROPPED_DUE_TO_DECOMMISSION'') tx2 = Inr tx3"
      and w': "agStore w' = tx3" "agDir w' = d" "ddDropped r"
    from WriteMarker_ok [OF c(3)] queue_forward_free [OF c(4) cleanup_forward_free [OF c(2) clear_forward_free [OF c(1)]]] w'
    show ?thesis by simp
  qed simp
qed

end

section \<open>The cleanup tombstone survives the acknowledgement\<close>

lemma foldE_filter:
  assumes "\<And>s k. \<not> P k \<Longrightarrow> f s k = Inr s"
  shows "foldE f s ks = foldE f s (filter P ks)"
  by (induction ks arbitrary: s) (simp_all add: assms)

lemma foldE_cong: "(\<And>s k. k \<in> set ks \<Longrightarrow> f s k = g s k) \<Longrightarrow> foldE f s ks = foldE g s ks"
  by (induction ks arbitrary: s) (auto intro!: andThen_cong)

context bolt_db
begin

lemma keys_filter_eq:
  assumes "\<And>k. P k \<Longrightarrow> bget B tx' b k = bget B tx b k"
  shows "filter P (bkeys B tx' b) = filter P (bkeys B tx b)"
proof (rule sorted_distinct_set_unique)
  show "set (filter P (bkeys B tx' b)) = set (filter P (bkeys B tx b))" using assms by (auto simp: set_keys)
qed (use sorted_keys in \<open>simp_all add: sorted_wrt_filter\<close>)

lemma single_row_frame:
  assumes "\<And>k. prefix pre k \<Longrightarrow> bget B tx' bucketOperations k = bget B tx bucketOperations k"
  shows "foldE (single_row B decode pre canonical tx') s (bkeys B tx' bucketOperations) =
    foldE (single_row B decode pre canonical tx) s (bkeys B tx bucketOperations)"
proof -
  let ?P = "prefix pre"
  have skip: "single_row B decode pre canonical t s k = Inr s" if "\<not> ?P k" for t s k using that by (simp add: single_row_def)
  have "foldE (single_row B decode pre canonical tx') s (bkeys B tx' bucketOperations) =
      foldE (single_row B decode pre canonical tx') s (filter ?P (bkeys B tx bucketOperations))"
    by (subst foldE_filter [of ?P]) (simp_all add: skip keys_filter_eq [OF assms])
  also have "\<dots> = foldE (single_row B decode pre canonical tx) s (filter ?P (bkeys B tx bucketOperations))"
    by (rule foldE_cong) (simp add: single_row_def assms)
  also have "\<dots> = foldE (single_row B decode pre canonical tx) s (bkeys B tx bucketOperations)"
    by (rule foldE_filter [symmetric]) (simp add: skip)
  finally show ?thesis .
qed

lemma queue_keeps_tombstone:
  assumes "queueResult B identity i res tx = Inr tx'" and "\<not> prefix keyCleanupTombstone i"
  shows "LoadAgentCleanupTombstone B tx' = LoadAgentCleanupTombstone B tx"
  unfolding LoadAgentCleanupTombstone_def
  by (rule single_row_frame, rule queueResult_frame(2) [OF assms(1)]) (use assms(2) in auto)

lemma put_intent:
  assumes "PutDecommissionIntent B i tx = Inr (created, tx')"
  shows "\<exists>j. bget B tx' bucketOperations keyDecommissionIntentCanonical = Some (RDecommission j) \<and>
    diOperationID j = diOperationID i \<and> diNodeID j = diNodeID i"
proof (cases "bget B tx bucketOperations keyDecommissionIntentCanonical")
  case None
  with assms have "tx' = bput B (bput B tx bucketOperations keyDecommissionIntentCanonical (RDecommission i)) bucketOperations
      (keyDecommissionIntent @ diOperationID i) (RDecommission i)"
    by (simp add: PutDecommissionIntent_def Let_def split: if_splits) blast
  then show ?thesis by (simp add: get_put)
next
  case (Some raw)
  with assms obtain old where "raw = RDecommission old" and "diOperationID old = diOperationID i" "diNodeID old = diNodeID i" "tx' = tx"
    by (cases raw) (auto simp: PutDecommissionIntent_def Let_def decode_intent_def split: if_splits)
  with Some show ?thesis by auto
qed

end

text \<open>Where a Forward may be stopped: the durable marker is DECOMMISSIONING and the intent is stored.\<close>

definition may_stop :: "'tx bolt \<Rightarrow> DecommissionRequest \<Rightarrow> 'tx agent \<Rightarrow> bool" where
  "may_stop B req w \<longleftrightarrow> LoadMarker (agDir w) = Inr MarkerDecommissioning \<and> agMarker w = MarkerDecommissioning \<and>
     (\<exists>i. bget B (agStore w) bucketOperations keyDecommissionIntentCanonical = Some (RDecommission i) \<and>
        diOperationID i = dqOperationID req \<and> diNodeID i = dqNodeID req)"

context bolt_db
begin

lemma begin_may_stop:
  assumes "Begin B fails now req w = (Inr u, w')"
  shows "may_stop B req (w'\<lparr>agMarker := MarkerDecommissioning\<rparr>)"
proof -
  from assms obtain w1 created tx d where put: "PutDecommissionIntent B (intent_of req now) (agStore w1) = Inr (created, tx)"
    and m: "WriteMarker fails MarkerDecommissioning (agDir w1) = (Inr (), d)" and w': "w' = w1\<lparr>agStore := tx, agDir := d\<rparr>"
    by (auto simp: Begin_def split: if_splits)
  from put_intent [OF put] WriteMarker_ok [OF m] show ?thesis by (auto simp: may_stop_def w' intent_of_def)
qed

end

section \<open>Properties\<close>


text \<open>
  No Forward is stopped before the decommission is durable. The only states in which the command calls the
  data plane's stop have the marker DECOMMISSIONING on disk and in memory and the intent of this
  operation in the store: two stop functions that agree on those states give the same run.
\<close>
theorem decommission_stops_after_marker:
  assumes "bolt_db B" and "decommission_request cd nodeID op = Some req"
    and "\<forall>w. may_stop B req w \<longrightarrow> stop w = stop' w"
  shows "handleDecommission B js cd stop env nodeID op w = handleDecommission B js cd stop' env nodeID op w"
proof -
  have ack: "QueueAck B js (decommissioner B stop) = QueueAck B js (decommissioner B stop')"
    unfolding fun_eq_iff QueueAck_def queueAckWithStatus_def cleaners(4) by simp
  have deadline: "ReconcileDeadline B js (decommissioner B stop) = ReconcileDeadline B js (decommissioner B stop')"
    unfolding fun_eq_iff ReconcileDeadline_def queueAckWithStatus_def cleaners(1,4) by simp
  have complete: "Complete B (decommissioner B stop) = Complete B (decommissioner B stop')"
    unfolding fun_eq_iff Complete_def cleaners(1) by simp
  have stop: "stopA (decommissioner B stop) v = stopA (decommissioner B stop') v" if "may_stop B req v" for v
    using assms(3) that by (simp add: stopA_def StopAll_def decommissioner_def)
  have run: "bindA (Begin B f n req) (\<lambda>_. bindA (setMarker MarkerDecommissioning) (\<lambda>_. bindA (stopA (decommissioner B stop)) k)) =
      bindA (Begin B f n req) (\<lambda>_. bindA (setMarker MarkerDecommissioning) (\<lambda>_. bindA (stopA (decommissioner B stop')) k))"
    for f n and k :: "agent_error option \<Rightarrow> ('a, command_result) act"
  proof
    fix v
    show "bindA (Begin B f n req) (\<lambda>_. bindA (setMarker MarkerDecommissioning) (\<lambda>_. bindA (stopA (decommissioner B stop)) k)) v =
      bindA (Begin B f n req) (\<lambda>_. bindA (setMarker MarkerDecommissioning) (\<lambda>_. bindA (stopA (decommissioner B stop')) k)) v"
    proof (cases "Begin B f n req v")
      case (Pair r w1)
      show ?thesis
      proof (cases r)
        case (Inr u)
        with Pair bolt_db.begin_may_stop [OF assms(1)] have "may_stop B req (w1\<lparr>agMarker := MarkerDecommissioning\<rparr>)" by blast
        with Pair Inr show ?thesis by (simp add: bindA_def setMarker_def stop)
      qed (use Pair in \<open>simp add: bindA_def\<close>)
    qed
  qed
  show ?thesis unfolding handleDecommission_def assms(2) option.case Let_def ack deadline complete run by (rule refl)
qed


section \<open>Where the code deviates\<close>

text \<open>
  A decommission whose intent cannot be stored leaves the latch engaged with the marker still ACTIVE, so
  every later attempt of the same process is refused.
\<close>

lemma failed_begin_blocks_retry:
  assumes "LoadMarker (agDir w) = Inr MarkerActive" and "\<not> laEngaged (agLatch w)"
    and "dqOperationID req \<noteq> []" and "dqNodeID req \<noteq> []"
    and "PutDecommissionIntent B (intent_of req now) (agStore w) = Inl e"
  shows "\<exists>w1. Begin B fails now req w = (Inl (DecStore e), w1) \<and> LoadMarker (agDir w1) = Inr MarkerActive \<and>
    Begin B fails' now' req w1 = (Inl DecLatchEngaged, w1)"
  using assms
  by (auto simp: Begin_def bindA_def markerState_def dirA_def engageA_def TryEngage_def updateA_def MarkerActive_def
      MarkerDecommissioned_def MarkerDecommissioning_def)

text \<open>
  A request without a deadline is meant never to be dropped; it is when the clock ticks between the two
  readings.
\<close>

lemma zero_deadline_can_drop:
  assumes "ReconcileDeadline B js dc fails (n1, n2, n3) req w = (Inr r, w')" and "dqDeadlineUnix req = 0" and "n1 < n2"
    and "LoadMarker (agDir w) = Inr MarkerDecommissioning"
  shows "ddDropped r"
  using assms by (auto simp: ReconcileDeadline_def Let_def MarkerDecommissioned_def MarkerDecommissioning_def split: if_splits)

definition plain_request :: "string \<Rightarrow> DecommissionRequest" where
  "plain_request i = \<lparr>dqNodeID = ''n1'', dqOperationID = i, dqForce = False, dqDeadlineUnix = 0, dqAllowedKeyHashes = [],
     dqCredentialVersions = []\<rparr>"

text \<open>The operation id \<open>current\<close> collides with the canonical key: its intent is stored but never found.\<close>

lemma current_operation_never_found:
  "(case PutDecommissionIntent mem_bolt (intent_of (plain_request ''current'') 1) [] of
      Inl _ \<Rightarrow> False | Inr (created, tx) \<Rightarrow> created \<and> LoadDecommissionIntent mem_bolt tx = Inr None)"
  by code_simp

section \<open>A run\<close>

definition demo_agent :: "mem_tx agent" where
  "demo_agent = \<lparr>agStore = [((bucketApplied, ''f2''), RBytes [])], agDir = \<lparr>sdMarker = Absent, sdQuarantine = Absent\<rparr>,
     agLatch = NewLatch, agMarker = MarkerActive, agQuarantine = False\<rparr>"

definition demo_env :: decommission_env where
  "demo_env = \<lparr>deNowBegin = 5, deFailsBegin = \<lambda>_. False, deClock = (5, 5, 5), deFailsDeadline = \<lambda>_. False, deNowComplete = 6,
     deFailsComplete = \<lambda>_. False\<rparr>"

definition demo_codecs :: codecs where
  "demo_codecs = \<lparr>cdDecommission = \<lambda>_. None, cdRestoreReconcile = \<lambda>_. None, cdRestoreResult = \<lambda>_. None,
     cdRotationPrepare = \<lambda>_. None, cdCertificate = \<lambda>_. None\<rparr>"

definition demo_operation :: Operation where
  "demo_operation = \<lparr>opOperationID = ''d1'', opMessageID = ''m1'', opMessageType = ''node_decommission'', opPayload = []\<rparr>"

definition demo_decommission :: "(agent_error + command_result) \<times> mem_tx agent" where
  "demo_decommission = handleDecommission mem_bolt (\<lambda>s. s) demo_codecs (\<lambda>w. (True, w)) demo_env ''n1'' demo_operation demo_agent"

lemma demo_decommission_ok: "case demo_decommission of (Inr _, _) \<Rightarrow> True | _ \<Rightarrow> False"
  by code_simp

lemma demo_request: "decommission_request demo_codecs ''n1'' demo_operation = Some (plain_request ''d1'')"
  by (simp add: decommission_request_def demo_operation_def plain_request_def)


theorem decommission_stops_after_marker_witness:
  "handleDecommission mem_bolt (\<lambda>s. s) demo_codecs (\<lambda>w. (True, w)) demo_env ''n1'' demo_operation demo_agent =
   handleDecommission mem_bolt (\<lambda>s. s) demo_codecs
     (\<lambda>w. (LoadMarker (agDir w) = Inr MarkerDecommissioning, w)) demo_env ''n1'' demo_operation demo_agent"
  by (rule decommission_stops_after_marker [OF mem.bolt_db_axioms demo_request]) (simp add: may_stop_def)


end
