(* ===== verification/Agent_Reconcile.thy ===== *)
theory Agent_Reconcile
  imports Agent_Applied Agent_Mapping_Journal Agent_Decommission
begin

text \<open>
  \<open>internal/agent/reconcile/desired.go\<close>, \<open>reconciler.go\<close>, \<open>delete.go\<close> and \<open>operation.go\<close>: one pass of the
  reconcile loop. The data plane hooks, the capability guard and the rollback are function values in
  the source and arguments here; they act on the whole state of the node, so they may also write the
  store. A side-effect fence is an object identity in the source; here it is the position of its
  Forward in the snapshot, which is unique within a pass.
\<close>

section \<open>State and hooks\<close>

record ('tx, 'd) node =
  ndStore :: 'tx
  ndLatch :: Latch
  ndPlane :: 'd

type_synonym SideEffectFence = nat

text \<open>A hook error is its message; \<^term>\<open>None\<close> in place of a hook is the nil function.\<close>

record ('tx, 'd) hooks =
  hkApply :: "(SideEffectFence \<Rightarrow> ForwardSpec \<Rightarrow> (('tx, 'd) node, string, AppliedForwardState) action) option"
  hkStop :: "(string \<Rightarrow> (('tx, 'd) node, string, unit) action) option"
  hkRollback :: "(SideEffectFence \<Rightarrow> ForwardSpec \<Rightarrow> AppliedForwardState \<Rightarrow> (('tx, 'd) node, string, unit) action) option"
  hkGuard :: "(('tx, 'd) node \<Rightarrow> bool) option"

datatype DesiredOutcome =
  OutcomeApplied | OutcomeUnchanged | OutcomeFailed | OutcomeTombstonedRejected | OutcomeTerminalRejected
| OutcomeDeleted | OutcomeDeleteFailed

datatype result_error = HookError string | AppliedInvalid domain_error | FenceError store_error

record DesiredApplyResult =
  drForwardID :: string
  drOutcome :: DesiredOutcome
  drErr :: "result_error option"

record DesiredApplyReport =
  dpStatus :: ApplyStatus
  dpResults :: "DesiredApplyResult list"

text \<open>The flag of the last two errors tells whether the compensation succeeded.\<close>

datatype apply_error =
  DesiredInvalid domain_error | DesiredStore store_error | DeleteIdentityConflict string
| ErrCapabilityLost bool | CommitFailed store_error bool | ErrDecommissioned

record hotUpdate =
  huPrevious :: ForwardSpec
  huApplied :: AppliedForwardState
  huFence :: SideEffectFence

record pass =
  psResults :: "DesiredApplyResult list"
  psCommits :: "ForwardApply list"
  psNewActors :: "string list"
  psHotUpdates :: "hotUpdate list"

definition deletionOperationIDFor :: "DesiredState \<Rightarrow> string \<Rightarrow> string" where
  "deletionOperationIDFor d forwardID =
     (case find (\<lambda>spec. fsForwardID spec = forwardID) (dsForwards d) of
        None \<Rightarrow> [] | Some spec \<Rightarrow> fsDeletionOperationID spec)"

definition storeN :: "('tx \<Rightarrow> store_error + 'tx) \<Rightarrow> (('tx, 'd) node, store_error, unit) action" where
  "storeN t nd = (case t (ndStore nd) of Inl e \<Rightarrow> (Inl e, nd) | Inr tx \<Rightarrow> (Inr (), nd\<lparr>ndStore := tx\<rparr>))"

section \<open>Compensation\<close>

text \<open>Every compensation is tried; the result says whether all of them succeeded.\<close>

fun rollbackNewActors :: "('tx, 'd) hooks \<Rightarrow> string list \<Rightarrow> ('tx, 'd) node \<Rightarrow> bool \<times> ('tx, 'd) node" where
  "rollbackNewActors h [] nd = (True, nd)"
| "rollbackNewActors h (f # fs) nd =
     (case hkStop h of
        None \<Rightarrow> rollbackNewActors h fs nd
      | Some stop \<Rightarrow>
          let (r, nd) = stop f nd; (ok, nd) = rollbackNewActors h fs nd
          in (isl r = False \<and> ok, nd))"

fun rollbackHotUpdates :: "('tx, 'd) hooks \<Rightarrow> hotUpdate list \<Rightarrow> ('tx, 'd) node \<Rightarrow> bool \<times> ('tx, 'd) node" where
  "rollbackHotUpdates h [] nd = (True, nd)"
| "rollbackHotUpdates h (u # us) nd =
     (case hkRollback h of
        None \<Rightarrow> rollbackHotUpdates h us nd
      | Some rollback \<Rightarrow>
          let (r, nd) = rollback (huFence u) (huPrevious u) (huApplied u) nd; (ok, nd) = rollbackHotUpdates h us nd
          in (isl r = False \<and> ok, nd))"

definition rollbackSideEffects :: "('tx, 'd) hooks \<Rightarrow> pass \<Rightarrow> ('tx, 'd) node \<Rightarrow> bool \<times> ('tx, 'd) node" where
  "rollbackSideEffects h ps nd =
     (let (ok1, nd) = rollbackHotUpdates h (rev (psHotUpdates ps)) nd;
          (ok2, nd) = rollbackNewActors h (psNewActors ps) nd
      in (ok1 \<and> ok2, nd))"

section \<open>The decision for one Forward\<close>

definition decide_forward :: "string \<Rightarrow> DesiredOutcome \<Rightarrow> ApplyOutcome \<Rightarrow> pass \<Rightarrow> pass" where
  "decide_forward f oc ao ps =
     ps\<lparr>psResults := psResults ps @ [\<lparr>drForwardID = f, drOutcome = oc, drErr = None\<rparr>],
        psCommits := psCommits ps @ [\<lparr>foForwardID = f, foOutcome = ao, foApplied = None, foErr = False\<rparr>]\<rparr>"

definition reconcile_absent ::
  "'tx bolt \<Rightarrow> ForwardSpec \<Rightarrow> pass \<Rightarrow> (('tx, 'd) node, apply_error, pass) action" where
  "reconcile_absent B spec ps nd =
     (case ForwardDeleteFence B (fsForwardID spec) (ndStore nd) of
        Inl e \<Rightarrow> (Inl (DesiredStore e), nd)
      | Inr (pending, Some tombstone) \<Rightarrow>
          if pending = None then
            (if tsDeletionOperationID tombstone \<noteq> fsDeletionOperationID spec \<or>
                (tsDesiredRevision tombstone \<noteq> 0 \<and> tsDesiredRevision tombstone \<noteq> fsDesiredRevision spec)
             then (Inl (DeleteIdentityConflict (fsForwardID spec)), nd)
             else (Inr (decide_forward (fsForwardID spec) OutcomeDeleted ApplySkipped ps), nd))
          else (Inr (decide_forward (fsForwardID spec) OutcomeDeleted ApplyDeleted ps), nd)
      | Inr (pending, None) \<Rightarrow> (Inr (decide_forward (fsForwardID spec) OutcomeDeleted ApplyDeleted ps), nd))"

definition run_apply ::
  "('tx, 'd) hooks \<Rightarrow> (SideEffectFence \<Rightarrow> ForwardSpec \<Rightarrow> (('tx, 'd) node, string, AppliedForwardState) action) \<Rightarrow>
   AppliedForwardState option \<Rightarrow> ForwardSpec option \<Rightarrow> ForwardSpec \<Rightarrow> pass \<Rightarrow> (('tx, 'd) node, apply_error, pass) action" where
  "run_apply h apply prev prevSpec spec ps nd =
     (if (case hkGuard h of None \<Rightarrow> False | Some guard \<Rightarrow> \<not> guard nd) then
        (let (ok, nd) = rollbackSideEffects h ps nd in (Inl (ErrCapabilityLost ok), nd))
      else
        let fence = length (psResults ps);
            f = fsForwardID spec;
            (r, nd) = apply fence spec nd;
            outcome = (case r of
                Inl msg \<Rightarrow> Inl (HookError msg)
              | Inr a \<Rightarrow> (case AppliedForwardState_Validate a of Inl e \<Rightarrow> Inl (AppliedInvalid e) | Inr _ \<Rightarrow> Inr a))
        in case outcome of
             Inl e \<Rightarrow>
               (Inr (ps\<lparr>psResults := psResults ps @ [\<lparr>drForwardID = f, drOutcome = OutcomeFailed, drErr = Some e\<rparr>],
                        psCommits := psCommits ps @ [\<lparr>foForwardID = f, foOutcome = ApplyFailed, foApplied = None, foErr = True\<rparr>]\<rparr>), nd)
           | Inr a \<Rightarrow>
               (let ps = (case prev of
                      None \<Rightarrow> ps\<lparr>psNewActors := psNewActors ps @ [f]\<rparr>
                    | Some previousApplied \<Rightarrow>
                        (case prevSpec of
                           None \<Rightarrow> ps
                         | Some previousSpec \<Rightarrow> ps\<lparr>psHotUpdates := psHotUpdates ps @
                             [\<lparr>huPrevious = previousSpec, huApplied = previousApplied, huFence = fence\<rparr>]\<rparr>))
                in (Inr (ps\<lparr>psResults := psResults ps @ [\<lparr>drForwardID = f, drOutcome = OutcomeApplied, drErr = None\<rparr>],
                            psCommits := psCommits ps @ [\<lparr>foForwardID = f, foOutcome = ApplyApplied, foApplied = Some a, foErr = False\<rparr>]\<rparr>),
                    nd)))"

definition reconcile_present ::
  "'tx bolt \<Rightarrow> ('tx, 'd) hooks \<Rightarrow> (string \<Rightarrow> AppliedForwardState option) \<Rightarrow> (string \<Rightarrow> ForwardSpec option) \<Rightarrow> ForwardSpec \<Rightarrow> pass \<Rightarrow>
   (('tx, 'd) node, apply_error, pass) action" where
  "reconcile_present B h prevByID previousSpecByID spec ps nd =
     (let f = fsForwardID spec
      in if (case prevByID f of None \<Rightarrow> False | Some prev \<Rightarrow> fsDesiredRevision spec \<le> afSpecRevision prev)
           then (Inr (decide_forward f OutcomeUnchanged ApplySkipped ps), nd)
         else if Engaged (ndLatch nd) then (Inr (decide_forward f OutcomeTerminalRejected ApplySkipped ps), nd)
         else case ForwardDeleteFence B f (ndStore nd) of
           Inl e \<Rightarrow> (Inl (DesiredStore e), nd)
         | Inr (pendingDelete, tombstoned) \<Rightarrow>
             if pendingDelete \<noteq> None \<or> tombstoned \<noteq> None
               then (Inr (decide_forward f OutcomeTombstonedRejected ApplySkipped ps), nd)
             else case hkApply h of
               None \<Rightarrow> (Inr (decide_forward f OutcomeUnchanged ApplySkipped ps), nd)
             | Some apply \<Rightarrow> run_apply h apply (prevByID f) (previousSpecByID f) spec ps nd)"

definition reconcile_forward ::
  "'tx bolt \<Rightarrow> ('tx, 'd) hooks \<Rightarrow> (string \<Rightarrow> AppliedForwardState option) \<Rightarrow> (string \<Rightarrow> ForwardSpec option) \<Rightarrow> ForwardSpec \<Rightarrow> pass \<Rightarrow>
   (('tx, 'd) node, apply_error, pass) action" where
  "reconcile_forward B h prevByID previousSpecByID spec ps =
     (if fsPresence spec = PresenceAbsent then reconcile_absent B spec ps
      else if fsPresence spec = PresencePresent then reconcile_present B h prevByID previousSpecByID spec ps
      else retA ps)"

fun reconcile_forwards ::
  "'tx bolt \<Rightarrow> ('tx, 'd) hooks \<Rightarrow> (string \<Rightarrow> AppliedForwardState option) \<Rightarrow> (string \<Rightarrow> ForwardSpec option) \<Rightarrow> ForwardSpec list \<Rightarrow> pass \<Rightarrow>
   (('tx, 'd) node, apply_error, pass) action" where
  "reconcile_forwards B h prev prevSpec [] ps = retA ps"
| "reconcile_forwards B h prev prevSpec (spec # specs) ps =
     bindA (reconcile_forward B h prev prevSpec spec ps) (\<lambda>ps. reconcile_forwards B h prev prevSpec specs ps)"

section \<open>Stopping deleted Forwards\<close>

definition fail_result :: "result_error \<Rightarrow> DesiredApplyResult \<Rightarrow> DesiredApplyResult" where
  "fail_result e r = r\<lparr>drOutcome := OutcomeDeleteFailed, drErr := Some e\<rparr>"

definition stop_result ::
  "'tx bolt \<Rightarrow> ('tx, 'd) hooks \<Rightarrow> DesiredState \<Rightarrow> DesiredApplyResult \<Rightarrow> ('tx, 'd) node \<Rightarrow> DesiredApplyResult \<times> ('tx, 'd) node" where
  "stop_result B h d r nd =
     (case hkStop h of
        None \<Rightarrow> (r, nd)
      | Some stop \<Rightarrow>
          if drOutcome r \<noteq> OutcomeDeleted then (r, nd)
          else case ForwardDeleteFence B (drForwardID r) (ndStore nd) of
            Inl e \<Rightarrow> (fail_result (FenceError e) r, nd)
          | Inr (pending, tombstoned) \<Rightarrow>
              if pending = None \<and> tombstoned \<noteq> None then (r, nd)
              else case stop (drForwardID r) nd of
                (Inl msg, nd) \<Rightarrow> (fail_result (HookError msg) r, nd)
              | (Inr _, nd) \<Rightarrow>
                  (case storeN (CompleteForwardDeleteIntent B (drForwardID r) (deletionOperationIDFor d (drForwardID r))) nd of
                     (Inl e, nd) \<Rightarrow> (fail_result (FenceError e) r, nd)
                   | (Inr _, nd) \<Rightarrow> (r, nd)))"

fun stop_results ::
  "'tx bolt \<Rightarrow> ('tx, 'd) hooks \<Rightarrow> DesiredState \<Rightarrow> DesiredApplyResult list \<Rightarrow> ('tx, 'd) node \<Rightarrow>
   DesiredApplyResult list \<times> ('tx, 'd) node" where
  "stop_results B h d [] nd = ([], nd)"
| "stop_results B h d (r # rs) nd =
     (let (r, nd) = stop_result B h d r nd; (rs, nd) = stop_results B h d rs nd in (r # rs, nd))"

definition result_status :: "DesiredApplyResult list \<Rightarrow> ApplyStatus" where
  "result_status rs =
     (let anyFailed = list_ex (\<lambda>r. drOutcome r \<in> {OutcomeFailed, OutcomeDeleteFailed}) rs;
          anyProgress = list_ex (\<lambda>r. drOutcome r \<in> {OutcomeApplied, OutcomeDeleted}) rs
      in if \<not> anyFailed then ApplyStatusFull else if anyProgress then ApplyStatusPartial else ApplyStatusFailed)"

section \<open>The pass\<close>

definition delete_intents :: "DesiredState \<Rightarrow> ForwardDeleteIntent list" where
  "delete_intents d =
     map (\<lambda>spec. \<lparr>fiForwardID = fsForwardID spec, fiDeletionOperationID = fsDeletionOperationID spec,
                  fiDesiredRevision = fsDesiredRevision spec, fiCreatedAtUnix = 0\<rparr>)
       (filter (\<lambda>spec. fsPresence spec = PresenceAbsent) (dsForwards d))"

definition applied_map :: "AppliedForwardState list \<Rightarrow> string \<Rightarrow> AppliedForwardState option" where
  "applied_map states = map_of (rev (map (\<lambda>s. (afForwardID s, s)) states))"

definition guard_ok :: "('tx, 'd) hooks \<Rightarrow> ('tx, 'd) node \<Rightarrow> bool" where
  "guard_ok h nd \<longleftrightarrow> (case hkGuard h of None \<Rightarrow> True | Some guard \<Rightarrow> guard nd)"

definition liftN :: "('tx \<Rightarrow> store_error + 'a) \<Rightarrow> (('tx, 'd) node, apply_error, 'a) action" where
  "liftN v nd = (case v (ndStore nd) of Inl e \<Rightarrow> (Inl (DesiredStore e), nd) | Inr a \<Rightarrow> (Inr a, nd))"

definition commit_pass ::
  "'tx bolt \<Rightarrow> ('tx, 'd) hooks \<Rightarrow> int \<Rightarrow> DesiredState \<Rightarrow> pass \<Rightarrow> (('tx, 'd) node, apply_error, unit) action" where
  "commit_pass B h now d ps nd =
     (if \<not> guard_ok h nd then
        (let (ok, nd) = rollbackSideEffects h ps nd in (Inl (ErrCapabilityLost ok), nd))
      else case CommitDesired B now d (psCommits ps) (ndStore nd) of
        Inl e \<Rightarrow> (let (ok, nd) = rollbackSideEffects h ps nd in (Inl (CommitFailed e ok), nd))
      | Inr (_, tx) \<Rightarrow> (Inr (), nd\<lparr>ndStore := tx\<rparr>))"

definition emptyPass :: pass where
  "emptyPass = \<lparr>psResults = [], psCommits = [], psNewActors = [], psHotUpdates = []\<rparr>"

definition install_fences :: "'tx bolt \<Rightarrow> int \<Rightarrow> DesiredState \<Rightarrow> (('tx, 'd) node, apply_error, unit) action" where
  "install_fences B now d nd =
     (case PutForwardDeleteIntents B now (delete_intents d) (ndStore nd) of
        Inl e \<Rightarrow> (Inl (DesiredStore e), nd)
      | Inr tx \<Rightarrow> (Inr (), nd\<lparr>ndStore := tx\<rparr>))"

definition finish_pass ::
  "'tx bolt \<Rightarrow> ('tx, 'd) hooks \<Rightarrow> DesiredState \<Rightarrow> pass \<Rightarrow> (('tx, 'd) node, apply_error, DesiredApplyReport) action" where
  "finish_pass B h d ps nd =
     (let (results, nd) = stop_results B h d (psResults ps) nd
      in (Inr \<lparr>dpStatus = result_status results, dpResults = results\<rparr>, nd))"

text \<open>The first time stamps the fences and the second one the tombstones.\<close>

definition ApplyDesiredWithGuardAndRollback ::
  "'tx bolt \<Rightarrow> ('tx, 'd) hooks \<Rightarrow> int \<times> int \<Rightarrow> DesiredState \<Rightarrow> (('tx, 'd) node, apply_error, DesiredApplyReport) action" where
  "ApplyDesiredWithGuardAndRollback B h clock d =
     (case DesiredState_Validate d of
        Inl e \<Rightarrow> failA (DesiredInvalid e)
      | Inr _ \<Rightarrow>
          bindA (install_fences B (fst clock) d) (\<lambda>_.
          bindA (liftN (ListAppliedStates B)) (\<lambda>applied.
          bindA (liftN (LoadReceivedDesired B)) (\<lambda>previousDesired.
          let previousSpecByID = (case previousDesired of None \<Rightarrow> (\<lambda>_. None) | Some p \<Rightarrow> spec_map (dsForwards p))
          in bindA (reconcile_forwards B h (applied_map applied) previousSpecByID (dsForwards d) emptyPass) (\<lambda>ps.
             bindA (commit_pass B h (snd clock) d ps) (\<lambda>_.
             finish_pass B h d ps))))))"

definition ApplyDesired ::
  "'tx bolt \<Rightarrow> ('tx, 'd) hooks \<Rightarrow> int \<times> int \<Rightarrow> DesiredState \<Rightarrow> (('tx, 'd) node, apply_error, DesiredApplyReport) action" where
  "ApplyDesired B h clock d = ApplyDesiredWithGuardAndRollback B (h\<lparr>hkGuard := None, hkRollback := None\<rparr>) clock d"

definition ApplyDesiredWithGuard ::
  "'tx bolt \<Rightarrow> ('tx, 'd) hooks \<Rightarrow> int \<times> int \<Rightarrow> DesiredState \<Rightarrow> (('tx, 'd) node, apply_error, DesiredApplyReport) action" where
  "ApplyDesiredWithGuard B h clock d = ApplyDesiredWithGuardAndRollback B (h\<lparr>hkRollback := None\<rparr>) clock d"

section \<open>The reconciler\<close>

text \<open>\<open>json.Marshal(DeleteForwardResult\<dots>)\<close>; an empty reason is omitted.\<close>

definition EncodeDeleteResult :: "(string \<Rightarrow> bytes) \<Rightarrow> string \<Rightarrow> string \<Rightarrow> bool \<Rightarrow> string \<Rightarrow> bytes" where
  "EncodeDeleteResult js forwardID deletionOperationID deleted reason =
     ''{\"forward_id\":'' @ js forwardID @ '',\"deletion_operation_id\":'' @ js deletionOperationID @ '',\"deleted\":''
     @ (if deleted then ''true'' else ''false'') @ (if reason = [] then [] else '',\"reason\":'' @ js reason) @ ''}''"

definition deletion_payload ::
  "(string \<Rightarrow> bytes) \<Rightarrow> (result_error \<Rightarrow> string) \<Rightarrow> string \<Rightarrow> DesiredApplyResult \<Rightarrow> bytes option" where
  "deletion_payload js errText delOp r =
     (case drOutcome r of
        OutcomeDeleted \<Rightarrow> Some (EncodeDeleteResult js (drForwardID r) delOp True [])
      | OutcomeDeleteFailed \<Rightarrow>
          Some (EncodeDeleteResult js (drForwardID r) delOp False (case drErr r of None \<Rightarrow> [] | Some e \<Rightarrow> errText e))
      | _ \<Rightarrow> None)"

definition delOpByForward :: "DesiredState \<Rightarrow> string \<Rightarrow> string" where
  "delOpByForward d f =
     (case map_of (rev (map (\<lambda>s. (fsForwardID s, fsDeletionOperationID s))
          (filter (\<lambda>s. fsPresence s = PresenceAbsent) (dsForwards d)))) f of
        None \<Rightarrow> [] | Some i \<Rightarrow> i)"

definition record_deletion ::
  "'tx bolt \<Rightarrow> (string \<Rightarrow> bytes) \<Rightarrow> (result_error \<Rightarrow> string) \<Rightarrow> DesiredState \<Rightarrow> u64 \<Rightarrow> string \<Rightarrow> 'tx \<Rightarrow> DesiredApplyResult \<Rightarrow>
   store_error + 'tx" where
  "record_deletion B js errText d epoch sessionID tx r =
     (let delOp = delOpByForward d (drForwardID r)
      in case deletion_payload js errText delOp r of
           None \<Rightarrow> Inr tx
         | Some payload \<Rightarrow> if delOp = [] then Inr tx else RecordResult B epoch sessionID delOp payload tx)"

text \<open>Each recorded result is a transaction of its own: a failure keeps the earlier ones.\<close>

fun record_deletions ::
  "'tx bolt \<Rightarrow> (string \<Rightarrow> bytes) \<Rightarrow> (result_error \<Rightarrow> string) \<Rightarrow> DesiredState \<Rightarrow> u64 \<Rightarrow> string \<Rightarrow> DesiredApplyResult list \<Rightarrow>
   (('tx, 'd) node, apply_error, unit) action" where
  "record_deletions B js errText d epoch sessionID [] nd = (Inr (), nd)"
| "record_deletions B js errText d epoch sessionID (r # rs) nd =
     (case record_deletion B js errText d epoch sessionID (ndStore nd) r of
        Inl e \<Rightarrow> (Inl (DesiredStore e), nd)
      | Inr tx \<Rightarrow> record_deletions B js errText d epoch sessionID rs (nd\<lparr>ndStore := tx\<rparr>))"

definition ReconcileOnce ::
  "'tx bolt \<Rightarrow> (string \<Rightarrow> bytes) \<Rightarrow> (result_error \<Rightarrow> string) \<Rightarrow> ('tx, 'd) hooks \<Rightarrow> string \<Rightarrow> int \<times> int \<Rightarrow> DesiredState \<Rightarrow> u64 \<Rightarrow> string \<Rightarrow>
   (('tx, 'd) node, apply_error, DesiredApplyReport) action" where
  "ReconcileOnce B js errText h marker clock d epoch sessionID =
     (if marker = MarkerDecommissioned then failA ErrDecommissioned
      else bindA (ApplyDesiredWithGuardAndRollback B h clock d) (\<lambda>report.
           if epoch = 0 \<or> sessionID = [] then retA report
           else bindA (record_deletions B js errText d epoch sessionID (dpResults report)) (\<lambda>_. retA report)))"

text \<open>One iteration of the loop; a hook that panics is outside the model.\<close>

definition runOnceRecovered ::
  "'tx bolt \<Rightarrow> (string \<Rightarrow> bytes) \<Rightarrow> (result_error \<Rightarrow> string) \<Rightarrow> ('tx, 'd) hooks \<Rightarrow> string \<Rightarrow> int \<times> int \<Rightarrow> u64 \<Rightarrow> string \<Rightarrow>
   (('tx, 'd) node, apply_error, unit) action" where
  "runOnceRecovered B js errText h marker clock epoch session =
     bindA (liftN (LoadReceivedDesired B)) (\<lambda>found.
     case found of
       None \<Rightarrow> retA ()
     | Some d \<Rightarrow> bindA (ReconcileOnce B js errText h marker clock d epoch session) (\<lambda>_. retA ()))"

definition DeleteForwardOnce ::
  "'tx bolt \<Rightarrow> int \<Rightarrow> ForwardSpec \<Rightarrow> (string \<Rightarrow> (('tx, 'd) node, string, unit) action) option \<Rightarrow>
   (('tx, 'd) node, result_error, unit) action" where
  "DeleteForwardOnce B now spec stop nd =
     (if fsPresence spec \<noteq> PresenceAbsent \<or> fsDeletionOperationID spec = [] then (Inl (FenceError ErrRequest), nd)
      else case PutForwardDeleteIntent B now \<lparr>fiForwardID = fsForwardID spec, fiDeletionOperationID = fsDeletionOperationID spec,
                  fiDesiredRevision = fsDesiredRevision spec, fiCreatedAtUnix = 0\<rparr> (ndStore nd) of
        Inl e \<Rightarrow> (Inl (FenceError e), nd)
      | Inr (_, tx) \<Rightarrow>
          let nd = nd\<lparr>ndStore := tx\<rparr>;
              (r, nd) = (case stop of None \<Rightarrow> (Inr (), nd) | Some stop \<Rightarrow> stop (fsForwardID spec) nd)
          in case r of
               Inl msg \<Rightarrow> (Inl (HookError msg), nd)
             | Inr _ \<Rightarrow>
                 (case storeN (CompleteForwardDeleteIntent B (fsForwardID spec) (fsDeletionOperationID spec)) nd of
                    (Inl e, nd) \<Rightarrow> (Inl (FenceError e), nd)
                  | (Inr _, nd) \<Rightarrow> (Inr (), nd)))"

section \<open>Evacuating orphaned mapping records\<close>

text \<open>
  The decoder of the adapter-private state and the adapters are arguments; an adapter releases a decoded
  mapping and reports success. The Go maps of references are association lists, so the dangling
  references are refreshed in some order.
\<close>

record EvacuationReport =
  evEvacuated :: "string list"
  evKept :: "JournalRecord list"
  evRefreshed :: "string list"
  evReleaseErrors :: "string list"

record ('tx, 'd, 'm) adapters =
  adDecode :: "JournalRecord \<Rightarrow> 'm option"
  adMechanism :: "'m \<Rightarrow> string"
  adDelete :: "string \<Rightarrow> ('m \<Rightarrow> ('tx, 'd) node \<Rightarrow> bool \<times> ('tx, 'd) node) option"

definition appliedRefs :: "AppliedStateRecord list \<Rightarrow> (string \<times> string) list" where
  "appliedRefs applied =
     map (\<lambda>r. (afForwardID (asState r), afMappingJournalRef (asState r)))
       (filter (\<lambda>r. afMappingJournalRef (asState r) \<noteq> []) applied)"

definition refresh_dangling ::
  "'tx bolt \<Rightarrow> string list \<Rightarrow> EvacuationReport \<times> 'tx \<Rightarrow> string \<times> string \<Rightarrow> store_error + EvacuationReport \<times> 'tx" where
  "refresh_dangling B existing acc entry =
     (let (report, tx) = acc; (forwardID, ref) = entry
      in if ref \<in> set existing then Inr (report, tx)
         else andThen (RefreshAppliedJournalRef B forwardID [] tx) (\<lambda>(updated, tx).
              Inr (if updated then report\<lparr>evRefreshed := evRefreshed report @ [forwardID]\<rparr> else report, tx)))"

text \<open>The refreshes are transactions of their own: an error keeps the earlier ones.\<close>

fun refresh_all ::
  "'tx bolt \<Rightarrow> string list \<Rightarrow> (string \<times> string) list \<Rightarrow> EvacuationReport \<Rightarrow> (('tx, 'd) node, store_error, EvacuationReport) action" where
  "refresh_all B existing [] report nd = (Inr report, nd)"
| "refresh_all B existing (r # refs) report nd =
     (case refresh_dangling B existing (report, ndStore nd) r of
        Inl e \<Rightarrow> (Inl e, nd)
      | Inr (report, tx) \<Rightarrow> refresh_all B existing refs report (nd\<lparr>ndStore := tx\<rparr>))"

definition retained :: "string list \<Rightarrow> string list \<Rightarrow> string list \<Rightarrow> string list \<Rightarrow> JournalRecord \<Rightarrow> bool" where
  "retained liveIDs refs tombstoned fencedIDs r \<longleftrightarrow>
     jrID r \<in> set liveIDs \<or> jrForwardID r \<in> set refs \<or> jrForwardID r \<in> set tombstoned \<or> jrForwardID r \<in> set fencedIDs"

definition release_record ::
  "('tx, 'd, 'm) adapters \<Rightarrow> (JournalRecord \<Rightarrow> bool) \<Rightarrow> JournalRecord \<Rightarrow> EvacuationReport \<Rightarrow> ('tx, 'd) node \<Rightarrow> EvacuationReport \<times> ('tx, 'd) node" where
  "release_record ad keep r report nd =
     (if jrForwardID r = [] \<or> keep r then (report, nd)
      else case adDecode ad r of
        None \<Rightarrow> (report\<lparr>evKept := evKept report @ [r]\<rparr>, nd)
      | Some m \<Rightarrow>
          (case adDelete ad (adMechanism ad m) of
             None \<Rightarrow> (report\<lparr>evKept := evKept report @ [r]\<rparr>, nd)
           | Some delete \<Rightarrow>
               (case delete m nd of
                  (False, nd) \<Rightarrow> (report\<lparr>evReleaseErrors := evReleaseErrors report @ [jrID r]\<rparr>, nd)
                | (True, nd) \<Rightarrow> (report\<lparr>evEvacuated := evEvacuated report @ [jrID r]\<rparr>, nd))))"

fun release_records ::
  "('tx, 'd, 'm) adapters \<Rightarrow> (JournalRecord \<Rightarrow> bool) \<Rightarrow> JournalRecord list \<Rightarrow> EvacuationReport \<Rightarrow> ('tx, 'd) node \<Rightarrow>
   EvacuationReport \<times> ('tx, 'd) node" where
  "release_records ad keep [] report nd = (report, nd)"
| "release_records ad keep (r # rs) report nd =
     (let (report, nd) = release_record ad keep r report nd in release_records ad keep rs report nd)"

definition viewN :: "('tx \<Rightarrow> store_error + 'a) \<Rightarrow> (('tx, 'd) node, store_error, 'a) action" where
  "viewN v nd = (case v (ndStore nd) of Inl e \<Rightarrow> (Inl e, nd) | Inr a \<Rightarrow> (Inr a, nd))"

definition emptyReport :: EvacuationReport where
  "emptyReport = \<lparr>evEvacuated = [], evKept = [], evRefreshed = [], evReleaseErrors = []\<rparr>"

definition release_orphans ::
  "'tx bolt \<Rightarrow> ('tx, 'd, 'm) adapters \<Rightarrow> (JournalRecord \<Rightarrow> bool) \<Rightarrow> JournalRecord list \<Rightarrow> EvacuationReport \<Rightarrow>
   (('tx, 'd) node, store_error, EvacuationReport) action" where
  "release_orphans B ad keep recs report nd =
     (let (report, nd) = release_records ad keep recs report nd
      in if evEvacuated report = [] then (Inr report, nd)
         else case EvacuateJournalRecords B (evEvacuated report) (ndStore nd) of
                Inl e \<Rightarrow> (Inl e, nd)
              | Inr tx \<Rightarrow> (Inr report, nd\<lparr>ndStore := tx\<rparr>))"

definition keeps_record ::
  "(string \<times> string) list \<Rightarrow> AppliedStateRecord list \<Rightarrow> ForwardTombstone list \<Rightarrow> ForwardDeleteIntent list \<Rightarrow> JournalRecord \<Rightarrow> bool" where
  "keeps_record liveRefs applied tombstones intents =
     retained (filter (\<lambda>i. i \<noteq> []) (map snd liveRefs)) (map fst (appliedRefs applied)) (map tsForwardID tombstones) (map fiForwardID intents)"

definition EvacuateOrphanedJournals ::
  "'tx bolt \<Rightarrow> ('tx, 'd, 'm) adapters \<Rightarrow> (string \<times> string) list \<Rightarrow> (('tx, 'd) node, store_error, EvacuationReport) action" where
  "EvacuateOrphanedJournals B ad liveRefs =
     bindA (viewN (mappingJournal_List B)) (\<lambda>recs.
     bindA (viewN (ListAppliedRecords B)) (\<lambda>applied.
     if recs = [] \<and> applied = [] then retA emptyReport
     else bindA (viewN (ListTombstones B)) (\<lambda>tombstones.
          bindA (viewN (ListForwardDeleteIntents B)) (\<lambda>intents.
          bindA (refresh_all B (map jrID recs) (appliedRefs applied) emptyReport) (\<lambda>report.
          release_orphans B ad (keeps_record liveRefs applied tombstones intents) recs report)))))"

end
