(* ===== verification/Agent_Reconcile_Props.thy ===== *)
theory Agent_Reconcile_Props
  imports Agent_Reconcile Agent_Applied_Props
begin

text \<open>
  What a pass of the reconcile loop promises about its side effects: when an actor may be started, when
  one may be stopped, and which mapping records may be released.
\<close>

section \<open>Starting\<close>

text \<open>Where the data plane may be asked to start or update a Forward.\<close>

definition may_apply :: "'tx bolt \<Rightarrow> DesiredState \<Rightarrow> ForwardSpec \<Rightarrow> ('tx, 'd) node \<Rightarrow> bool" where
  "may_apply B d spec nd \<longleftrightarrow> spec \<in> set (dsForwards d) \<and> fsPresence spec = PresencePresent \<and> \<not> laEngaged (ndLatch nd) \<and>
     \<not> fenced B (ndStore nd) (fsForwardID spec)"

lemma rollback_apply [simp]:
  "rollbackNewActors (h\<lparr>hkApply := a\<rparr>) fs nd = rollbackNewActors h fs nd"
  "rollbackHotUpdates (h\<lparr>hkApply := a\<rparr>) us nd = rollbackHotUpdates h us nd"
  "rollbackSideEffects (h\<lparr>hkApply := a\<rparr>) ps nd = rollbackSideEffects h ps nd"
proof -
  show 1: "rollbackNewActors (h\<lparr>hkApply := a\<rparr>) fs nd = rollbackNewActors h fs nd" for fs nd
    by (induction fs arbitrary: nd) (auto split: option.split)
  show 2: "rollbackHotUpdates (h\<lparr>hkApply := a\<rparr>) us nd = rollbackHotUpdates h us nd" for us nd
    by (induction us arbitrary: nd) (auto split: option.split)
  show "rollbackSideEffects (h\<lparr>hkApply := a\<rparr>) ps nd = rollbackSideEffects h ps nd"
    by (simp add: rollbackSideEffects_def 1 2)
qed

lemma hooks_apply: "hkGuard (h\<lparr>hkApply := a\<rparr>) = hkGuard h" "hkStop (h\<lparr>hkApply := a\<rparr>) = hkStop h"
  by simp_all

lemma fence_clear:
  assumes "ForwardDeleteFence B f tx = Inr (None, None)"
  shows "\<not> fenced B tx f"
  using assms
  by (auto simp: ForwardDeleteFence_def fenced_def loadForwardDeleteIntentTx_def loadForwardTombstoneTx_def
      split: if_splits option.splits row.splits)

lemma run_apply_cong:
  assumes "a (length (psResults ps)) spec nd = a' (length (psResults ps)) spec nd"
  shows "run_apply (h\<lparr>hkApply := Some a\<rparr>) a prev ps' spec ps nd = run_apply (h\<lparr>hkApply := Some a'\<rparr>) a' prev ps' spec ps nd"
  unfolding run_apply_def rollback_apply hooks_apply Let_def assms by (rule refl)

lemma reconcile_forward_apply:
  assumes "spec \<in> set (dsForwards d)" and "\<And>i spec nd. may_apply B d spec nd \<Longrightarrow> a i spec nd = a' i spec nd"
  shows "reconcile_forward B (h\<lparr>hkApply := Some a\<rparr>) prev prevSpec spec ps nd =
    reconcile_forward B (h\<lparr>hkApply := Some a'\<rparr>) prev prevSpec spec ps nd"
proof (cases "fsPresence spec = PresencePresent")
  case True
  have "run_apply (h\<lparr>hkApply := Some a\<rparr>) a p q spec ps nd = run_apply (h\<lparr>hkApply := Some a'\<rparr>) a' p q spec ps nd"
    if "\<not> Engaged (ndLatch nd)" "ForwardDeleteFence B (fsForwardID spec) (ndStore nd) = Inr (None, None)" for p q
    using that assms(1) True fence_clear [OF that(2)]
    by (intro run_apply_cong assms(2)) (simp add: may_apply_def Engaged_def)
  then show ?thesis
    by (auto simp: reconcile_forward_def reconcile_present_def Let_def split: option.split sum.split)
qed (simp add: reconcile_forward_def)

lemma reconcile_forwards_apply:
  assumes "set specs \<subseteq> set (dsForwards d)" and "\<And>i spec nd. may_apply B d spec nd \<Longrightarrow> a i spec nd = a' i spec nd"
  shows "reconcile_forwards B (h\<lparr>hkApply := Some a\<rparr>) prev prevSpec specs ps nd =
    reconcile_forwards B (h\<lparr>hkApply := Some a'\<rparr>) prev prevSpec specs ps nd"
  using assms(1)
proof (induction specs arbitrary: ps nd)
  case (Cons spec specs)
  then have "reconcile_forward B (h\<lparr>hkApply := Some a\<rparr>) prev prevSpec spec ps nd =
      reconcile_forward B (h\<lparr>hkApply := Some a'\<rparr>) prev prevSpec spec ps nd"
    by (intro reconcile_forward_apply [OF _ assms(2)]) simp_all
  with Cons show ?case by (simp add: bindA_def split: prod.split sum.split)
qed simp

lemma tail_apply [simp]:
  "commit_pass B (h\<lparr>hkApply := a\<rparr>) now d ps nd = commit_pass B h now d ps nd"
  "stop_result B (h\<lparr>hkApply := a\<rparr>) d r nd = stop_result B h d r nd"
  unfolding commit_pass_def guard_ok_def stop_result_def hooks_apply rollback_apply by (rule refl)+

lemma stop_results_apply [simp]: "stop_results B (h\<lparr>hkApply := a\<rparr>) d rs nd = stop_results B h d rs nd"
  by (induction rs arbitrary: nd) (simp_all split: prod.split)

lemma finish_pass_apply: "finish_pass B (h\<lparr>hkApply := a\<rparr>) d ps = finish_pass B h d ps"
  by (rule ext) (simp only: finish_pass_def stop_results_apply)

text \<open>
  C17: no actor is started for a fenced Forward or after the terminal latch. The pass calls the data plane's apply only
  for PRESENT Forwards of the snapshot, while the latch is open and neither a deletion intent nor a
  tombstone of that Forward is stored: two apply hooks that agree on those calls give the same pass.
\<close>
theorem apply_only_unfenced:
  assumes "\<forall>i spec nd. may_apply B d spec nd \<longrightarrow> a i spec nd = a' i spec nd"
  shows "ApplyDesiredWithGuardAndRollback B (h\<lparr>hkApply := Some a\<rparr>) clock d nd =
    ApplyDesiredWithGuardAndRollback B (h\<lparr>hkApply := Some a'\<rparr>) clock d nd"
proof -
  have "reconcile_forwards B (h\<lparr>hkApply := Some a\<rparr>) prev prevSpec (dsForwards d) ps =
      reconcile_forwards B (h\<lparr>hkApply := Some a'\<rparr>) prev prevSpec (dsForwards d) ps" for prev prevSpec ps
    by (rule ext, rule reconcile_forwards_apply [where d = d]) (use assms in simp_all)
  moreover have "commit_pass B (h\<lparr>hkApply := Some a\<rparr>) n d ps = commit_pass B (h\<lparr>hkApply := Some a'\<rparr>) n d ps" for n ps
    by (simp add: fun_eq_iff)
  ultimately show ?thesis
    unfolding ApplyDesiredWithGuardAndRollback_def finish_pass_apply Let_def by (simp only:)
qed

section \<open>Stopping\<close>

definition tombstone_at :: "'tx bolt \<Rightarrow> string \<Rightarrow> ('tx, 'd) node \<Rightarrow> bool" where
  "tombstone_at B f nd \<longleftrightarrow> bget B (ndStore nd) bucketTombstones f \<noteq> None"

text \<open>Where the data plane may be asked to stop a Forward: to undo a start of this pass, or with the tombstone stored.\<close>

definition may_stop_forward :: "'tx bolt \<Rightarrow> DesiredState \<Rightarrow> string \<Rightarrow> ('tx, 'd) node \<Rightarrow> bool" where
  "may_stop_forward B d f nd \<longleftrightarrow>
     (\<exists>spec\<in>set (dsForwards d). fsForwardID spec = f \<and> (fsPresence spec = PresencePresent \<or> tombstone_at B f nd))"

definition keeps_tombstones :: "'tx bolt \<Rightarrow> (('tx, 'd) node \<Rightarrow> 'r \<times> ('tx, 'd) node) \<Rightarrow> bool" where
  "keeps_tombstones B x \<longleftrightarrow> (\<forall>nd f. tombstone_at B f nd \<longrightarrow> tombstone_at B f (snd (x nd)))"

definition apply_keeps :: "'tx bolt \<Rightarrow> ('tx, 'd) hooks \<Rightarrow> bool" where
  "apply_keeps B h \<longleftrightarrow> (\<forall>a i spec. hkApply h = Some a \<longrightarrow> keeps_tombstones B (a i spec))"

definition present_ids :: "DesiredState \<Rightarrow> string set" where
  "present_ids d = fsForwardID ` {spec \<in> set (dsForwards d). fsPresence spec = PresencePresent}"

text \<open>
  The invariant of the loop over the snapshot: compensation would only stop PRESENT Forwards, and every
  Forward reported deleted is about to be tombstoned by the commit or has its tombstone already.
\<close>

definition pass_ok :: "'tx bolt \<Rightarrow> DesiredState \<Rightarrow> pass \<Rightarrow> ('tx, 'd) node \<Rightarrow> bool" where
  "pass_ok B d ps nd \<longleftrightarrow> set (psNewActors ps) \<subseteq> present_ids d \<and>
     (\<forall>r\<in>set (psResults ps). drOutcome r = OutcomeDeleted \<longrightarrow> drForwardID r \<in> fsForwardID ` set (dsForwards d) \<and>
        (\<exists>c\<in>set (psCommits ps). foForwardID c = drForwardID r \<and>
           (foOutcome c = ApplyDeleted \<or> (foOutcome c = ApplySkipped \<and> tombstone_at B (drForwardID r) nd))))"

lemma pass_ok_empty: "pass_ok B d emptyPass nd"
  by (simp add: pass_ok_def emptyPass_def)

lemma pass_ok_mono:
  assumes "pass_ok B d ps nd" and "\<And>f. tombstone_at B f nd \<Longrightarrow> tombstone_at B f nd'"
  shows "pass_ok B d ps nd'"
  using assms unfolding pass_ok_def by blast

lemma pass_ok_decide:
  assumes "pass_ok B d ps nd" and "f \<in> fsForwardID ` set (dsForwards d)"
    and "oc = OutcomeDeleted \<Longrightarrow> ao = ApplyDeleted \<or> (ao = ApplySkipped \<and> tombstone_at B f nd)"
  shows "pass_ok B d (decide_forward f oc ao ps) nd"
  using assms unfolding pass_ok_def decide_forward_def by auto

lemma pass_ok_absent:
  assumes "reconcile_absent B spec ps nd = (Inr ps', nd')" and "pass_ok B d ps nd" and "spec \<in> set (dsForwards d)"
  shows "pass_ok B d ps' nd' \<and> nd' = nd"
proof -
  from assms(1) obtain fence where f: "ForwardDeleteFence B (fsForwardID spec) (ndStore nd) = Inr fence"
    by (auto simp: reconcile_absent_def split: sum.splits)
  obtain pending tomb where fence: "fence = (pending, tomb)" by (cases fence)
  have "tomb \<noteq> None \<Longrightarrow> tombstone_at B (fsForwardID spec) nd"
    using f fence by (cases tomb) (auto simp: ForwardDeleteFence_def loadTombstone_Inr tombstone_at_def split: if_splits)
  with assms f fence show ?thesis
    by (auto simp: reconcile_absent_def split: option.splits if_splits intro!: pass_ok_decide)
qed

lemma pass_ok_run_apply:
  assumes "run_apply h a prev prevSpec spec ps nd = (Inr ps', nd')" and "pass_ok B d ps nd" and "spec \<in> set (dsForwards d)"
    and "fsPresence spec = PresencePresent" and "\<And>i. keeps_tombstones B (a i spec)"
  shows "pass_ok B d ps' nd'"
proof -
  let ?i = "length (psResults ps)"
  have nd': "nd' = snd (a ?i spec nd)"
    using assms(1) by (auto simp: run_apply_def Let_def split: if_splits prod.splits sum.splits)
  have ps': "set (psNewActors ps') \<subseteq> insert (fsForwardID spec) (set (psNewActors ps))"
    "\<exists>r c. psResults ps' = psResults ps @ [r] \<and> psCommits ps' = psCommits ps @ [c] \<and> drOutcome r \<noteq> OutcomeDeleted"
    using assms(1) by (auto simp: run_apply_def Let_def split: if_splits prod.splits sum.splits option.splits)
  have "pass_ok B d ps nd'"
    by (rule pass_ok_mono [OF assms(2)]) (use assms(5) nd' in \<open>simp add: keeps_tombstones_def\<close>)
  moreover have "fsForwardID spec \<in> present_ids d" using assms(3,4) by (auto simp: present_ids_def)
  ultimately show ?thesis using ps' unfolding pass_ok_def by auto
qed

lemma pass_ok_forward:
  assumes "reconcile_forward B h prev prevSpec spec ps nd = (Inr ps', nd')" and "pass_ok B d ps nd" and "spec \<in> set (dsForwards d)"
    and "apply_keeps B h"
  shows "pass_ok B d ps' nd'"
proof (cases "fsPresence spec = PresenceAbsent")
  case True
  with assms(1) have "reconcile_absent B spec ps nd = (Inr ps', nd')" by (simp add: reconcile_forward_def)
  from pass_ok_absent [OF this assms(2,3)] show ?thesis by blast
next
  case False
  show ?thesis
  proof (cases "fsPresence spec = PresencePresent")
    case True
    have d: "pass_ok B d (decide_forward (fsForwardID spec) oc ApplySkipped ps) nd" if "oc \<noteq> OutcomeDeleted" for oc
      using that assms(2,3) by (intro pass_ok_decide) simp_all
    from assms(1) False True have "(nd' = nd \<and> (\<exists>oc. oc \<noteq> OutcomeDeleted \<and> ps' = decide_forward (fsForwardID spec) oc ApplySkipped ps)) \<or>
        (\<exists>a p q. hkApply h = Some a \<and> run_apply h a p q spec ps nd = (Inr ps', nd'))"
      by (auto simp: reconcile_forward_def reconcile_present_def Let_def split: if_splits option.splits sum.splits)
    with d pass_ok_run_apply [OF _ assms(2,3) True] assms(4) show ?thesis unfolding apply_keeps_def by blast
  qed (use assms(1,2) False in \<open>simp add: reconcile_forward_def\<close>)
qed

lemma pass_ok_forwards:
  assumes "reconcile_forwards B h prev prevSpec specs ps nd = (Inr ps', nd')" and "pass_ok B d ps nd" and "set specs \<subseteq> set (dsForwards d)"
    and "apply_keeps B h"
  shows "pass_ok B d ps' nd'"
  using assms(1-3)
proof (induction specs arbitrary: ps nd)
  case (Cons spec specs)
  then obtain ps1 nd1 where first: "reconcile_forward B h prev prevSpec spec ps nd = (Inr ps1, nd1)"
    and rest: "reconcile_forwards B h prev prevSpec specs ps1 nd1 = (Inr ps', nd')" by auto
  have "spec \<in> set (dsForwards d)" and sub: "set specs \<subseteq> set (dsForwards d)" using Cons.prems(3) by auto
  from pass_ok_forward [OF first Cons.prems(2) this(1) assms(4)] have "pass_ok B d ps1 nd1" .
  from Cons.IH [OF rest this sub] show ?case .
qed simp

text \<open>After the commit every Forward reported deleted has its tombstone.\<close>


context bolt_db
begin

lemma commit_tombstones:
  assumes "commit_pass B h now d ps nd = (Inr u, nd')" and "pass_ok B d ps nd" and "r \<in> set (psResults ps)"
    and "drOutcome r = OutcomeDeleted"
  shows "tombstone_at B (drForwardID r) nd'"
proof -
  from assms(1) obtain rep tx where c: "CommitDesired B now d (psCommits ps) (ndStore nd) = Inr (rep, tx)" and nd': "nd' = nd\<lparr>ndStore := tx\<rparr>"
    by (auto simp: commit_pass_def split: if_splits sum.splits prod.splits)
  from assms(2,3,4) obtain o' where o': "o' \<in> set (psCommits ps)" "foForwardID o' = drForwardID r"
    "foOutcome o' = ApplyDeleted \<or> (foOutcome o' = ApplySkipped \<and> tombstone_at B (drForwardID r) nd)"
    unfolding pass_ok_def by blast
  from commit_committed [OF c o'(1)] o'(2,3) show ?thesis
    by (auto simp: committed_def Let_def tombstone_at_def nd')
qed

lemma complete_keeps_tombstones:
  assumes "storeN (CompleteForwardDeleteIntent B f i) nd = (r, nd')" and "tombstone_at B k nd"
  shows "tombstone_at B k nd'"
  using assms
  by (auto simp: storeN_def CompleteForwardDeleteIntent_def tombstone_at_def get_delete
      split: sum.splits if_splits option.splits)

end

section \<open>Two stop hooks\<close>

definition stops_agree ::
  "'tx bolt \<Rightarrow> DesiredState \<Rightarrow> (string \<Rightarrow> (('tx, 'd) node, string, unit) action) \<Rightarrow> (string \<Rightarrow> (('tx, 'd) node, string, unit) action) \<Rightarrow> bool" where
  "stops_agree B d s s' \<longleftrightarrow> (\<forall>f nd. may_stop_forward B d f nd \<longrightarrow> s f nd = s' f nd)"

lemma rollback_stop:
  assumes "stops_agree B d s s'" and "set fs \<subseteq> present_ids d"
  shows "rollbackNewActors (h\<lparr>hkStop := Some s\<rparr>) fs nd = rollbackNewActors (h\<lparr>hkStop := Some s'\<rparr>) fs nd"
  using assms(2)
proof (induction fs arbitrary: nd)
  case (Cons f fs)
  then have "may_stop_forward B d f nd" by (auto simp: may_stop_forward_def present_ids_def)
  with assms(1) have "s f nd = s' f nd" by (simp add: stops_agree_def)
  with Cons show ?case by (auto split: prod.split)
qed simp

lemma hot_updates_stop: "rollbackHotUpdates (h\<lparr>hkStop := x\<rparr>) us nd = rollbackHotUpdates h us nd"
  by (induction us arbitrary: nd) (auto split: option.split)

lemma side_effects_stop:
  assumes "stops_agree B d s s'" and "pass_ok B d ps nd0"
  shows "rollbackSideEffects (h\<lparr>hkStop := Some s\<rparr>) ps nd = rollbackSideEffects (h\<lparr>hkStop := Some s'\<rparr>) ps nd"
proof -
  from assms(2) have "set (psNewActors ps) \<subseteq> present_ids d" by (simp add: pass_ok_def)
  note eq = rollback_stop [OF assms(1) this]
  show ?thesis unfolding rollbackSideEffects_def hot_updates_stop eq by (rule refl)
qed

lemma hooks_stop: "hkGuard (h\<lparr>hkStop := x\<rparr>) = hkGuard h" "hkApply (h\<lparr>hkStop := x\<rparr>) = hkApply h" "hkStop (h\<lparr>hkStop := x\<rparr>) = x"
  by simp_all

lemma forward_stop:
  assumes "stops_agree B d s s'" and "pass_ok B d ps nd"
  shows "reconcile_forward B (h\<lparr>hkStop := Some s\<rparr>) prev prevSpec spec ps nd = reconcile_forward B (h\<lparr>hkStop := Some s'\<rparr>) prev prevSpec spec ps nd"
proof -
  have run: "run_apply (h\<lparr>hkStop := Some s\<rparr>) a p q spec ps nd = run_apply (h\<lparr>hkStop := Some s'\<rparr>) a p q spec ps nd" for a p q
    unfolding run_apply_def hooks_stop side_effects_stop [OF assms] by (rule refl)
  have "reconcile_present B (h\<lparr>hkStop := Some s\<rparr>) prev prevSpec spec ps nd = reconcile_present B (h\<lparr>hkStop := Some s'\<rparr>) prev prevSpec spec ps nd"
    unfolding reconcile_present_def hooks_stop run by (rule refl)
  then show ?thesis by (simp add: reconcile_forward_def)
qed

lemma forwards_stop:
  assumes "stops_agree B d s s'" and "apply_keeps B h" and "pass_ok B d ps nd"
    and "set specs \<subseteq> set (dsForwards d)"
  shows "reconcile_forwards B (h\<lparr>hkStop := Some s\<rparr>) prev prevSpec specs ps nd =
    reconcile_forwards B (h\<lparr>hkStop := Some s'\<rparr>) prev prevSpec specs ps nd"
  using assms(3,4)
proof (induction specs arbitrary: ps nd)
  case (Cons spec specs)
  have keeps: "apply_keeps B (h\<lparr>hkStop := Some s\<rparr>)" using assms(2) by (simp add: apply_keeps_def)
  show ?case
  proof (cases "reconcile_forward B (h\<lparr>hkStop := Some s\<rparr>) prev prevSpec spec ps nd")
    case (Pair r nd1)
    have eq: "reconcile_forward B (h\<lparr>hkStop := Some s'\<rparr>) prev prevSpec spec ps nd = (r, nd1)"
      using forward_stop [OF assms(1) Cons.prems(1)] Pair by metis
    show ?thesis
    proof (cases r)
      case (Inr ps1)
      have mem: "spec \<in> set (dsForwards d)" and sub: "set specs \<subseteq> set (dsForwards d)" using Cons.prems(2) by auto
      from pass_ok_forward [OF Pair [unfolded Inr] Cons.prems(1) mem keeps] have "pass_ok B d ps1 nd1" .
      from Cons.IH [OF this sub] eq Pair Inr show ?thesis by (simp add: bindA_def)
    qed (use Pair eq in \<open>simp add: bindA_def\<close>)
  qed
qed simp

lemma commit_stop:
  assumes "stops_agree B d s s'" and "pass_ok B d ps nd"
  shows "commit_pass B (h\<lparr>hkStop := Some s\<rparr>) now d ps nd = commit_pass B (h\<lparr>hkStop := Some s'\<rparr>) now d ps nd"
  unfolding commit_pass_def guard_ok_def hooks_stop side_effects_stop [OF assms] by (rule refl)

context bolt_db
begin

lemma stop_results_agree:
  assumes "stops_agree B d s s'" and "\<And>f. keeps_tombstones B (s f)"
    and "\<forall>r\<in>set rs. drOutcome r = OutcomeDeleted \<longrightarrow> drForwardID r \<in> fsForwardID ` set (dsForwards d) \<and> tombstone_at B (drForwardID r) nd"
  shows "stop_results B (h\<lparr>hkStop := Some s\<rparr>) d rs nd = stop_results B (h\<lparr>hkStop := Some s'\<rparr>) d rs nd"
  using assms(3)
proof (induction rs arbitrary: nd)
  case (Cons r rs)
  let ?f = "drForwardID r"
  obtain r1 nd1 where one: "stop_result B (h\<lparr>hkStop := Some s\<rparr>) d r nd = (r1, nd1)" by fastforce
  have agree: "s ?f nd = s' ?f nd" if "drOutcome r = OutcomeDeleted"
  proof -
    from Cons.prems that have "may_stop_forward B d ?f nd" unfolding may_stop_forward_def by force
    with assms(1) show ?thesis by (simp add: stops_agree_def)
  qed
  have two: "stop_result B (h\<lparr>hkStop := Some s'\<rparr>) d r nd = (r1, nd1)"
  proof (cases "drOutcome r = OutcomeDeleted")
    case True
    from one show ?thesis unfolding stop_result_def hooks_stop option.case agree [OF True] .
  next
    case False
    with one show ?thesis by (simp add: stop_result_def)
  qed
  have keep: "tombstone_at B k nd1" if "tombstone_at B k nd" for k
  proof -
    have "tombstone_at B k (snd (s ?f nd))" using assms(2) that by (simp add: keeps_tombstones_def)
    with one that complete_keeps_tombstones [where k = k] show ?thesis
      unfolding stop_result_def hooks_stop
      by (auto split: if_splits sum.splits prod.splits)
  qed
  have "stop_results B (h\<lparr>hkStop := Some s\<rparr>) d rs nd1 = stop_results B (h\<lparr>hkStop := Some s'\<rparr>) d rs nd1"
    using Cons.prems keep by (intro Cons.IH) auto
  with one two show ?case by simp
qed simp

end


section \<open>Witnesses\<close>

definition demo_node :: "(mem_tx, unit) node" where
  "demo_node = \<lparr>ndStore = demo_store, ndLatch = NewLatch, ndPlane = ()\<rparr>"

definition demo_hooks :: "(mem_tx, unit) hooks" where
  "demo_hooks = \<lparr>hkApply = None, hkStop = None, hkRollback = None, hkGuard = None\<rparr>"

definition demo_apply :: "SideEffectFence \<Rightarrow> ForwardSpec \<Rightarrow> ((mem_tx, unit) node, string, AppliedForwardState) action" where
  "demo_apply i spec nd = (Inr (demo_state (fsForwardID spec) (fsDesiredRevision spec)), nd)"

text \<open>A data plane that refuses every fenced Forward and every call after the latch cannot be told apart.\<close>

definition demo_careful :: "SideEffectFence \<Rightarrow> ForwardSpec \<Rightarrow> ((mem_tx, unit) node, string, AppliedForwardState) action" where
  "demo_careful i spec nd =
     (if laEngaged (ndLatch nd) \<or> fenced mem_bolt (ndStore nd) (fsForwardID spec) then (Inl ''refused'', nd) else demo_apply i spec nd)"

theorem apply_only_unfenced_witness:
  "ApplyDesiredWithGuardAndRollback mem_bolt (demo_hooks\<lparr>hkApply := Some demo_apply\<rparr>) (10, 20) demo_incoming demo_node =
   ApplyDesiredWithGuardAndRollback mem_bolt (demo_hooks\<lparr>hkApply := Some demo_careful\<rparr>) (10, 20) demo_incoming demo_node"
  by (rule apply_only_unfenced) (simp add: may_apply_def demo_careful_def)

definition demo_stop :: "string \<Rightarrow> ((mem_tx, unit) node, string, unit) action" where
  "demo_stop f nd = (Inr (), nd)"

definition demo_careful_stop :: "string \<Rightarrow> ((mem_tx, unit) node, string, unit) action" where
  "demo_careful_stop f nd =
     (if f = ''f1'' \<and> \<not> tombstone_at mem_bolt f nd then (Inl ''no tombstone'', nd) else (Inr (), nd))"

text \<open>\<open>f1\<close> is to be deleted by \<open>d1\<close>.\<close>

definition demo_deletion :: DesiredState where
  "demo_deletion = \<lparr>dsNodeID = ''n1'', dsForwards = [fencedAbsentSpec (demo_forward ''f1'' 9) ''d1'' 3, demo_forward ''f2'' 2]\<rparr>"


end
