(* ===== verification/Agent_Evacuation.thy ===== *)
theory Agent_Evacuation
  imports Agent_Reconcile_Props
begin

text \<open>
  \<open>EvacuateOrphanedJournals\<close> of \<open>internal/agent/reconcile/delete.go\<close>: which mapping records the restart pass
  may release.
\<close>

section \<open>Releasing mapping records\<close>

text \<open>A listing that succeeds has decoded every row and holds it.\<close>

lemma collect_rows:
  assumes "foldE (\<lambda>acc key. andThen (load key) (\<lambda>found. case found of None \<Rightarrow> Inr acc | Some x \<Rightarrow> Inr (acc @ [x]))) out keys = Inr rows"
  shows "set out \<subseteq> set rows \<and> (\<forall>key\<in>set keys. \<exists>found. load key = Inr found \<and> (\<forall>x. found = Some x \<longrightarrow> x \<in> set rows))"
  using assms
proof (induction keys arbitrary: out)
  case (Cons key keys)
  then obtain found where "load key = Inr found" by (cases "load key") auto
  with Cons show ?case by (cases found) (auto, fastforce+)
qed simp

context bolt_db
begin

lemma listed_fences:
  assumes "ListTombstones B tx = Inr ts" and "ListForwardDeleteIntents B tx = Inr intents" and "fenced B tx f"
  shows "f \<in> tsForwardID ` set ts \<or> f \<in> fiForwardID ` set intents"
proof -
  note t = assms(1) [unfolded ListTombstones_def, THEN collect_rows, THEN conjunct2]
  note i = assms(2) [unfolded ListForwardDeleteIntents_def, THEN collect_rows, THEN conjunct2]
  have "f \<in> tsForwardID ` set ts" if "bget B tx bucketTombstones f \<noteq> None"
  proof -
    from that t obtain found where load: "loadForwardTombstoneTx B tx f = Inr found" and "\<forall>x. found = Some x \<longrightarrow> x \<in> set ts"
      by (auto simp: set_keys)
    with that show ?thesis by (cases found) (auto simp: loadTombstone_Inr)
  qed
  moreover have "f \<in> fiForwardID ` set intents" if "bget B tx bucketForwardDeleteIntents f \<noteq> None"
  proof -
    from that i obtain found where load: "loadForwardDeleteIntentTx B tx f = Inr found" and "\<forall>x. found = Some x \<longrightarrow> x \<in> set intents"
      by (auto simp: set_keys)
    with that show ?thesis by (cases found) (auto simp: loadIntent_Inr)
  qed
  ultimately show ?thesis using assms(3) by (auto simp: fenced_def)
qed

lemma refresh_all_mapping:
  assumes "refresh_all B existing refs report nd = (Inr report', nd')"
  shows "bget B (ndStore nd') bucketMapping i = bget B (ndStore nd) bucketMapping i \<and> evEvacuated report' = evEvacuated report"
  using assms
proof (induction refs arbitrary: report nd)
  case (Cons r refs)
  then obtain report1 tx where one: "refresh_dangling B existing (report, ndStore nd) r = Inr (report1, tx)"
    and rest: "refresh_all B existing refs report1 (nd\<lparr>ndStore := tx\<rparr>) = (Inr report', nd')"
    by (auto split: sum.splits)
  have "bget B tx bucketMapping i = bget B (ndStore nd) bucketMapping i \<and> evEvacuated report1 = evEvacuated report"
    using one by (cases r) (auto simp: refresh_dangling_def RefreshAppliedJournalRef_def get_put
        split: if_splits option.splits)
  with Cons.IH [OF rest] show ?case by simp
qed simp

lemma evacuate_records:
  "EvacuateJournalRecords B ids tx = Inr tx' \<Longrightarrow>
     bget B tx' b i = (if b = bucketMapping \<and> i \<in> set ids \<and> i \<noteq> [] then None else bget B tx b i)"
  unfolding EvacuateJournalRecords_def
proof (induction ids arbitrary: tx)
  case (Cons j ids)
  from Cons.prems have "Inr (foldl (\<lambda>tx i. if i = [] then tx else bdelete B tx bucketMapping i)
      (if j = [] then tx else bdelete B tx bucketMapping j) ids) = Inr tx'" by simp
  from Cons.IH [OF this] show ?case by (auto simp: get_delete)
qed simp

end

text \<open>What may be released: a record no durable fact keeps, through the adapter of its decoded state.\<close>

definition released :: "('tx, 'd, 'm) adapters \<Rightarrow> (JournalRecord \<Rightarrow> bool) \<Rightarrow> JournalRecord \<Rightarrow> bool" where
  "released ad keep r \<longleftrightarrow> jrForwardID r \<noteq> [] \<and> \<not> keep r \<and>
     (\<exists>m delete nd nd'. adDecode ad r = Some m \<and> adDelete ad (adMechanism ad m) = Some delete \<and> delete m nd = (True, nd'))"

definition adapters_keep_store :: "('tx, 'd, 'm) adapters \<Rightarrow> bool" where
  "adapters_keep_store ad \<longleftrightarrow> (\<forall>k delete m nd. adDelete ad k = Some delete \<longrightarrow> ndStore (snd (delete m nd)) = ndStore nd)"

lemma released_orphan:
  assumes "released ad (keeps_record live applied ts intents) r"
  shows "(jrID r \<noteq> [] \<longrightarrow> jrID r \<notin> snd ` set live) \<and> jrForwardID r \<notin> fst ` set (appliedRefs applied) \<and>
    jrForwardID r \<notin> tsForwardID ` set ts \<and> jrForwardID r \<notin> fiForwardID ` set intents \<and> released ad (\<lambda>_. False) r"
  using assms unfolding released_def keeps_record_def retained_def by auto

lemma release_records_only:
  assumes "release_records ad keep rs report nd = (report', nd')" and "i \<in> set (evEvacuated report')"
  shows "i \<in> set (evEvacuated report) \<or> (\<exists>r\<in>set rs. jrID r = i \<and> released ad keep r)"
  using assms
proof (induction rs arbitrary: report nd)
  case (Cons r rs)
  obtain report1 nd1 where one: "release_record ad keep r report nd = (report1, nd1)" by fastforce
  then have step: "evEvacuated report1 = evEvacuated report \<or> (evEvacuated report1 = evEvacuated report @ [jrID r] \<and> released ad keep r)"
    by (auto simp: release_record_def released_def split: if_splits option.splits prod.splits bool.splits) blast?
  from Cons.prems one Cons.IH [of report1 nd1] have "i \<in> set (evEvacuated report1) \<or> (\<exists>r\<in>set rs. jrID r = i \<and> released ad keep r)" by simp
  with step show ?case by auto
qed simp

lemma release_records_store:
  assumes "release_records ad keep rs report nd = (report', nd')" and "adapters_keep_store ad"
  shows "ndStore nd' = ndStore nd"
  using assms(1)
proof (induction rs arbitrary: report nd)
  case (Cons r rs)
  obtain report1 nd1 where one: "release_record ad keep r report nd = (report1, nd1)" by fastforce
  have "ndStore (snd (delete m nd)) = ndStore nd" if "adDelete ad k = Some delete" for k delete m
    using that assms(2) by (simp add: adapters_keep_store_def)
  then have "ndStore nd1 = ndStore nd" using one
    by (auto simp: release_record_def split: if_splits option.splits prod.splits bool.splits) (metis snd_conv)+
  with Cons one show ?case by simp
qed simp

text \<open>The successful runs of the pass, taken apart.\<close>

lemma viewN_Inr [simp]: "viewN v nd = (Inr x, w) \<longleftrightarrow> v (ndStore nd) = Inr x \<and> w = nd"
  by (auto simp: viewN_def split: sum.splits)

lemma evacuation_run:
  assumes "EvacuateOrphanedJournals B ad live nd = (Inr report, nd')"
  obtains (idle) "report = emptyReport" "nd' = nd"
  | (run) recs applied ts intents report1 nd1 where
      "mappingJournal_List B (ndStore nd) = Inr recs" "ListAppliedRecords B (ndStore nd) = Inr applied"
      "ListTombstones B (ndStore nd) = Inr ts" "ListForwardDeleteIntents B (ndStore nd) = Inr intents"
      "refresh_all B (map jrID recs) (appliedRefs applied) emptyReport nd = (Inr report1, nd1)"
      "release_orphans B ad (keeps_record live applied ts intents) recs report1 nd1 = (Inr report, nd')"
proof -
  from assms obtain recs applied where l: "mappingJournal_List B (ndStore nd) = Inr recs" "ListAppliedRecords B (ndStore nd) = Inr applied"
    by (auto simp: EvacuateOrphanedJournals_def)
  show ?thesis
  proof (cases "recs = [] \<and> applied = []")
    case True
    with assms l show ?thesis by (intro idle) (auto simp: EvacuateOrphanedJournals_def)
  next
    case False
    with assms l show ?thesis by (auto simp: EvacuateOrphanedJournals_def intro: run)
  qed
qed

lemma release_orphans_run:
  assumes "release_orphans B ad keep recs report nd = (Inr report', nd')"
  obtains nd1 where "release_records ad keep recs report nd = (report', nd1)"
    "(evEvacuated report' = [] \<and> nd' = nd1) \<or>
     (\<exists>tx. EvacuateJournalRecords B (evEvacuated report') (ndStore nd1) = Inr tx \<and> nd' = nd1\<lparr>ndStore := tx\<rparr>)"
  using assms by (auto simp: release_orphans_def split: prod.splits if_splits sum.splits)


section \<open>Witness\<close>

text \<open>The mapping of a Forward no durable row knows any more, and an adapter that releases it.\<close>

definition demo_record :: JournalRecord where
  "demo_record = \<lparr>jrID = ''m9'', jrForwardID = ''f9'', jrOperationID = [], jrMechanism = ''pcp'', jrOwnership = [], jrProtocol = ''tcp'',
     jrInternalIP = [], jrInternalPort = 0, jrExternalIP = [], jrExternalPort = 0, jrLeaseExpiryUnix = 0, jrEpoch = 0, jrIdentity = [], jrState = [],
     jrCreatedAtUnix = 0, jrUpdatedAtUnix = 0\<rparr>"

definition demo_orphan :: "(mem_tx, unit) node" where
  "demo_orphan = \<lparr>ndStore = [((bucketMapping, ''m9''), RMapping demo_record)], ndLatch = NewLatch, ndPlane = ()\<rparr>"

definition demo_adapters :: "(mem_tx, unit, JournalRecord) adapters" where
  "demo_adapters = \<lparr>adDecode = Some, adMechanism = jrMechanism, adDelete = (\<lambda>_. Some (\<lambda>_ nd. (True, nd)))\<rparr>"

lemma demo_evacuation:
  "EvacuateOrphanedJournals mem_bolt demo_adapters [] demo_orphan =
     (Inr (emptyReport\<lparr>evEvacuated := [''m9'']\<rparr>), demo_orphan\<lparr>ndStore := []\<rparr>)"
proof -
  have "mappingJournal_List mem_bolt (ndStore demo_orphan) = Inr [demo_record]"
    "ListAppliedRecords mem_bolt (ndStore demo_orphan) = Inr []" "ListTombstones mem_bolt (ndStore demo_orphan) = Inr []"
    "ListForwardDeleteIntents mem_bolt (ndStore demo_orphan) = Inr []"
    by (simp_all add: demo_orphan_def mappingJournal_List_def mappingJournal_list_def list_mapping_def DecodeJournalRecord_def
        ListAppliedRecords_def ListTombstones_def ListForwardDeleteIntents_def mem_bolt_def mem_keys_def)
  moreover have "release_orphans mem_bolt demo_adapters (keeps_record [] [] [] []) [demo_record] emptyReport demo_orphan =
      (Inr (emptyReport\<lparr>evEvacuated := [''m9'']\<rparr>), demo_orphan\<lparr>ndStore := []\<rparr>)"
    by (simp add: release_orphans_def release_record_def keeps_record_def retained_def appliedRefs_def demo_adapters_def demo_record_def
        EvacuateJournalRecords_def mem_bolt_def demo_orphan_def emptyReport_def)
  ultimately show ?thesis by (simp add: EvacuateOrphanedJournals_def bindA_def viewN_def appliedRefs_def)
qed


end
