(* ===== verification/Agent_STUN.thy ===== *)
theory Agent_STUN
  imports Agent_Endpoint
begin

text \<open>
  \<open>internal/traversal/stun/message.go\<close>: the bounded STUN message codec. A slice expression out of range
  panics in Go, so slicing is checked here and running out of range is the error \<open>StunPanic\<close>; one of the
  theorems says that the parser never gets there. HMAC-SHA1 is a function argument; CRC-32 is defined.
\<close>

section \<open>Wire constants and message types\<close>

definition MagicCookie :: u32 where "MagicCookie = 0x2112A442"
definition HeaderSize :: nat where "HeaderSize = 20"
definition MaxMessageSize :: nat where "MaxMessageSize = 65535"
definition fingerprintXor :: u32 where "fingerprintXor = 0x5354554E"
definition integrityLength :: nat where "integrityLength = 20"

datatype stun_error =
  StunTruncated | StunMalformed | StunBadCookie | StunOversize | StunNoIntegrity | StunNoFingerprint
| StunUnknownFamily | StunDuplicateAddress | StunDuplicateIntegrity | StunDuplicateFingerprint | StunCodeRange | StunPanic

type_synonym Method = u16
type_synonym Class = u8
type_synonym MessageType = u16

definition MessageTypeBindingRequest :: MessageType where "MessageTypeBindingRequest = 0x0001"
definition MessageTypeBindingSuccess :: MessageType where "MessageTypeBindingSuccess = 0x0101"
definition MessageTypeBindingError :: MessageType where "MessageTypeBindingError = 0x0111"

definition MessageType_Method :: "MessageType \<Rightarrow> Method" where
  "MessageType_Method v = (v AND 0x000F) OR (drop_bit 1 v AND 0x0070) OR (drop_bit 2 v AND 0x0F80)"

definition MessageType_Class :: "MessageType \<Rightarrow> Class" where
  "MessageType_Class v = ucast ((drop_bit 7 v AND 0x2) OR (drop_bit 4 v AND 0x1))"

definition NewMessageType :: "Method \<Rightarrow> Class \<Rightarrow> MessageType" where
  "NewMessageType m class =
     (let c = ucast class
      in (m AND 0x000F) OR push_bit 1 (m AND 0x0070) OR push_bit 2 (m AND 0x0F80) OR push_bit 7 (c AND 0x2) OR push_bit 4 (c AND 0x1))"

section \<open>Attributes\<close>

type_synonym AttributeType = u16

definition AttrMappedAddress :: AttributeType where "AttrMappedAddress = 0x0001"
definition AttrUsername :: AttributeType where "AttrUsername = 0x0006"
definition AttrMessageIntegrity :: AttributeType where "AttrMessageIntegrity = 0x0008"
definition AttrErrorCode :: AttributeType where "AttrErrorCode = 0x0009"
definition AttrUnknownAttributes :: AttributeType where "AttrUnknownAttributes = 0x000A"
definition AttrXORMappedAddress :: AttributeType where "AttrXORMappedAddress = 0x0020"
definition AttrAlternateServer :: AttributeType where "AttrAlternateServer = 0x0023"
definition AttrPriority :: AttributeType where "AttrPriority = 0x0024"
definition AttrSoftware :: AttributeType where "AttrSoftware = 0x8022"
definition AttrIceControlled :: AttributeType where "AttrIceControlled = 0x8029"
definition AttrFingerprint :: AttributeType where "AttrFingerprint = 0x8028"

definition comprehensionRequired :: "AttributeType \<Rightarrow> bool" where
  "comprehensionRequired t \<longleftrightarrow> t AND 0x8000 = 0"

definition knownAttribute :: "AttributeType \<Rightarrow> bool" where
  "knownAttribute t \<longleftrightarrow>
     t \<in> {AttrMappedAddress, AttrUsername, AttrMessageIntegrity, AttrErrorCode, AttrUnknownAttributes,
          AttrXORMappedAddress, AttrAlternateServer, AttrPriority, AttrSoftware, AttrIceControlled, AttrFingerprint}"

record Attribute =
  atType :: AttributeType
  atValue :: bytes

text \<open>The transaction id is a 12-byte array; \<open>msRaw\<close> is empty unless the message was parsed.\<close>

record Message =
  msType :: MessageType
  msTransactionID :: bytes
  msAttributes :: "Attribute list"
  msRaw :: bytes

definition NewBindingRequest :: "bytes \<Rightarrow> Message" where
  "NewBindingRequest txid = \<lparr>msType = MessageTypeBindingRequest, msTransactionID = txid, msAttributes = [], msRaw = []\<rparr>"

definition Message_Add :: "AttributeType \<Rightarrow> bytes \<Rightarrow> Message \<Rightarrow> Message" where
  "Message_Add t value m = m\<lparr>msAttributes := msAttributes m @ [\<lparr>atType = t, atValue = value\<rparr>]\<rparr>"

definition Message_Get :: "Message \<Rightarrow> AttributeType \<Rightarrow> bytes option" where
  "Message_Get m t = map_option atValue (find (\<lambda>a. atType a = t) (msAttributes m))"

definition Message_Count :: "Message \<Rightarrow> AttributeType \<Rightarrow> nat" where
  "Message_Count m t = length (filter (\<lambda>a. atType a = t) (msAttributes m))"

definition UnknownComprehensionRequired :: "Message \<Rightarrow> AttributeType list" where
  "UnknownComprehensionRequired m =
     foldl (\<lambda>unknown t. if comprehensionRequired t \<and> \<not> knownAttribute t \<and> t \<notin> set unknown then unknown @ [t] else unknown)
       [] (map atType (msAttributes m))"

section \<open>Parsing\<close>

definition align4 :: "nat \<Rightarrow> nat" where
  "align4 n = (n + 3) div 4 * 4"

definition subslice :: "nat \<Rightarrow> nat \<Rightarrow> bytes \<Rightarrow> stun_error + bytes" where
  "subslice a b d = (if a \<le> b \<and> b \<le> length d then Inr (take (b - a) (drop a d)) else Inl StunPanic)"

function parse_attributes :: "bytes \<Rightarrow> stun_error + Attribute list" where
  "parse_attributes rest =
     (if rest = [] then Inr []
      else if length rest < 4 then Inl StunMalformed
      else andThen (subslice 0 2 rest) (\<lambda>t.
           andThen (subslice 2 4 rest) (\<lambda>l.
           let attrLen = unat (Uint16 l)
           in if length rest - 4 < attrLen then Inl StunTruncated
              else andThen (subslice 4 (4 + attrLen) rest) (\<lambda>value.
                   let padded = align4 (4 + attrLen)
                   in if length rest < padded then Inl StunPanic
                      else andThen (parse_attributes (drop padded rest)) (\<lambda>attrs.
                           Inr (\<lparr>atType = Uint16 t, atValue = value\<rparr> # attrs))))))"
  by auto
termination
  by (relation "measure length") (auto simp: align4_def)

definition ParseMessage :: "bytes \<Rightarrow> stun_error + Message" where
  "ParseMessage data =
     (if length data < HeaderSize then Inl StunTruncated
      else andThen (subslice 4 8 data) (\<lambda>cookie.
      if Uint32 cookie \<noteq> MagicCookie then Inl StunBadCookie
      else andThen (subslice 2 4 data) (\<lambda>len.
      let declared = unat (Uint16 len)
      in if MaxMessageSize < declared then Inl StunOversize
         else if declared mod 4 \<noteq> 0 then Inl StunMalformed
         else if length data - HeaderSize < declared then Inl StunTruncated
         else andThen (subslice 0 2 data) (\<lambda>t.
              andThen (subslice 8 20 data) (\<lambda>txid.
              andThen (subslice 0 (HeaderSize + declared) data) (\<lambda>raw.
              andThen (subslice HeaderSize (HeaderSize + declared) data) (\<lambda>rest.
              andThen (parse_attributes rest) (\<lambda>attrs.
              let msg = \<lparr>msType = Uint16 t, msTransactionID = txid, msAttributes = attrs, msRaw = raw\<rparr>
              in if 0 < Message_Count msg AttrFingerprint \<and> atType (last attrs) \<noteq> AttrFingerprint then Inl StunMalformed
                 else Inr msg))))))))"

section \<open>Encoding\<close>

definition attributeSectionLength :: "Attribute list \<Rightarrow> nat" where
  "attributeSectionLength attrs = sum_list (map (\<lambda>a. 4 + align4 (length (atValue a))) attrs)"

text \<open>The output buffer starts zeroed, so the padding of a value is zero bytes.\<close>

definition put_attribute :: "Attribute \<Rightarrow> bytes" where
  "put_attribute a =
     PutUint16 (atType a) @ be_bytes 2 (length (atValue a)) @ atValue a
     @ replicate (align4 (length (atValue a)) - length (atValue a)) (CHR 0x00)"

definition put_header :: "Message \<Rightarrow> nat \<Rightarrow> bytes" where
  "put_header m len = PutUint16 (msType m) @ be_bytes 2 len @ PutUint32 MagicCookie @ msTransactionID m"

definition put_message :: "Message \<Rightarrow> nat \<Rightarrow> Attribute list \<Rightarrow> bytes" where
  "put_message m len attrs = put_header m len @ concat (map put_attribute attrs)"

definition Message_Marshal :: "Message \<Rightarrow> stun_error + bytes" where
  "Message_Marshal m =
     (let section = attributeSectionLength (msAttributes m)
      in if MaxMessageSize < section then Inl StunOversize else Inr (put_message m section (msAttributes m)))"

section \<open>Addresses\<close>

record AddrPort =
  apAddr :: netip_addr
  apPort :: u16

definition byte :: "u8 \<Rightarrow> char" where "byte w = char_of (unat w)"
definition ubyte :: "char \<Rightarrow> u8" where "ubyte c = of_char c"

definition cookie_bytes :: "u8 list" where
  "cookie_bytes = [ucast (drop_bit 24 MagicCookie AND 0xFF), ucast (drop_bit 16 MagicCookie AND 0xFF),
                   ucast (drop_bit 8 MagicCookie AND 0xFF), ucast (MagicCookie AND 0xFF)]"

definition cookie_port :: u16 where "cookie_port = ucast (drop_bit 16 MagicCookie)"

definition xor_bytes :: "u8 list \<Rightarrow> u8 list \<Rightarrow> u8 list" where
  "xor_bytes xs ys = map2 (XOR) xs ys"

text \<open>The value of an address attribute; \<open>xm\<close> is what the address is combined with, all zero for a plain one.\<close>

definition put_address :: "u16 \<Rightarrow> u8 list \<Rightarrow> AddrPort \<Rightarrow> stun_error + bytes" where
  "put_address pmask xm addr =
     (case apAddr addr of
        Addr4 a b c d \<Rightarrow>
          Inr ([CHR 0x00, CHR 0x01] @ PutUint16 (apPort addr XOR pmask) @ map byte (xor_bytes [a, b, c, d] (take 4 xm)))
      | Addr6 v z \<Rightarrow>
          if Is4In6 (Addr6 v z) then Inl StunUnknownFamily
          else Inr ([CHR 0x00, CHR 0x02] @ PutUint16 (apPort addr XOR pmask) @ map byte (xor_bytes v xm))
      | AddrInvalid \<Rightarrow> Inl StunUnknownFamily)"

definition AddXORMappedAddress :: "AddrPort \<Rightarrow> Message \<Rightarrow> stun_error + Message" where
  "AddXORMappedAddress addr m =
     (if 0 < Message_Count m AttrXORMappedAddress then Inl StunDuplicateAddress
      else andThen (put_address cookie_port (cookie_bytes @ map ubyte (msTransactionID m)) addr) (\<lambda>value.
           Inr (Message_Add AttrXORMappedAddress value m)))"

definition AddAlternateServer :: "AddrPort \<Rightarrow> Message \<Rightarrow> stun_error + Message" where
  "AddAlternateServer addr m =
     andThen (put_address 0 (replicate 16 0) addr) (\<lambda>value. Inr (Message_Add AttrAlternateServer value m))"

definition decodeAddressAttribute :: "bytes \<Rightarrow> bytes \<Rightarrow> bool \<Rightarrow> stun_error + AddrPort" where
  "decodeAddressAttribute value txid xored =
     (if length value < 4 then Inl StunMalformed
      else let port = Uint16 (take 2 (drop 2 value)); port = (if xored then port XOR cookie_port else port)
           in if value ! 1 = CHR 0x01 then
                (if length value < 8 then Inl StunMalformed
                 else let ip4 = map ubyte (take 4 (drop 4 value)); ip4 = (if xored then xor_bytes ip4 cookie_bytes else ip4)
                      in Inr \<lparr>apAddr = Addr4 (ip4 ! 0) (ip4 ! 1) (ip4 ! 2) (ip4 ! 3), apPort = port\<rparr>)
              else if value ! 1 = CHR 0x02 then
                (if length value < 20 then Inl StunMalformed
                 else let ip16 = map ubyte (take 16 (drop 4 value));
                          ip16 = (if xored then xor_bytes ip16 (cookie_bytes @ map ubyte txid) else ip16)
                      in Inr \<lparr>apAddr = Addr6 ip16 [], apPort = port\<rparr>)
              else Inl StunUnknownFamily)"

definition XORMappedAddress :: "Message \<Rightarrow> stun_error + AddrPort" where
  "XORMappedAddress m =
     (case Message_Get m AttrXORMappedAddress of
        None \<Rightarrow> Inl StunUnknownFamily
      | Some value \<Rightarrow>
          if 1 < Message_Count m AttrXORMappedAddress then Inl StunDuplicateAddress
          else decodeAddressAttribute value (msTransactionID m) True)"

definition AlternateServer :: "Message \<Rightarrow> stun_error + AddrPort" where
  "AlternateServer m =
     (case Message_Get m AttrAlternateServer of
        None \<Rightarrow> Inl StunUnknownFamily
      | Some value \<Rightarrow>
          if 1 < Message_Count m AttrAlternateServer then Inl StunDuplicateAddress
          else decodeAddressAttribute value (msTransactionID m) False)"

section \<open>Error responses\<close>

definition SetErrorCode :: "int \<Rightarrow> string \<Rightarrow> Message \<Rightarrow> stun_error + Message" where
  "SetErrorCode code reason m =
     (if code < 300 \<or> 699 < code then Inl StunCodeRange
      else Inr (Message_Add AttrErrorCode
             ([CHR 0x00, CHR 0x00, char_of (nat (code div 100)), char_of (nat (code mod 100))] @ reason) m))"

text \<open>The constructor ignores the error of \<open>SetErrorCode\<close>.\<close>

definition NewErrorResponse :: "bytes \<Rightarrow> int \<Rightarrow> string \<Rightarrow> Message" where
  "NewErrorResponse txid code reason =
     (let msg = \<lparr>msType = MessageTypeBindingError, msTransactionID = txid, msAttributes = [], msRaw = []\<rparr>
      in case SetErrorCode code reason msg of Inl _ \<Rightarrow> msg | Inr msg \<Rightarrow> msg)"

definition ErrorCode :: "Message \<Rightarrow> stun_error + int \<times> string" where
  "ErrorCode m =
     (case Message_Get m AttrErrorCode of
        None \<Rightarrow> Inl StunMalformed
      | Some value \<Rightarrow>
          if 1 < Message_Count m AttrErrorCode \<or> length value < 4 then Inl StunMalformed
          else let code = of_char (value ! 2) * 100 + of_char (value ! 3)
               in if code < 300 \<or> 699 < code then Inl StunMalformed else Inr (code, drop 4 value))"

definition AddUnknownAttributes :: "AttributeType list \<Rightarrow> Message \<Rightarrow> Message" where
  "AddUnknownAttributes types m = Message_Add AttrUnknownAttributes (concat (map PutUint16 types)) m"

fun read_types :: "bytes \<Rightarrow> AttributeType list" where
  "read_types (a # b # rest) = Uint16 [a, b] # read_types rest"
| "read_types _ = []"

definition UnknownAttributes :: "Message \<Rightarrow> stun_error + AttributeType list" where
  "UnknownAttributes m =
     (case Message_Get m AttrUnknownAttributes of
        None \<Rightarrow> Inr []
      | Some value \<Rightarrow> if length value mod 2 \<noteq> 0 then Inl StunMalformed else Inr (read_types value))"

section \<open>MESSAGE-INTEGRITY\<close>

definition AddMessageIntegrity :: "(bytes \<Rightarrow> bytes \<Rightarrow> bytes) \<Rightarrow> bytes \<Rightarrow> Message \<Rightarrow> stun_error + Message" where
  "AddMessageIntegrity hmac key m =
     (if 0 < Message_Count m AttrMessageIntegrity then Inl StunDuplicateIntegrity
      else let section = attributeSectionLength (msAttributes m)
           in if MaxMessageSize < section + 4 + integrityLength then Inl StunOversize
              else Inr (Message_Add AttrMessageIntegrity
                     (hmac key (put_message m (section + 4 + integrityLength) (msAttributes m))) m))"

definition set_length :: "bytes \<Rightarrow> nat \<Rightarrow> bytes" where
  "set_length raw len = take 2 raw @ be_bytes 2 len @ drop 4 raw"

definition integrityInput :: "Message \<Rightarrow> nat \<Rightarrow> stun_error + bytes" where
  "integrityInput m idx =
     (let attrs = take idx (msAttributes m); section = attributeSectionLength attrs;
          wire = put_message m (section + 4 + integrityLength) attrs
      in if msRaw m = [] then Inr wire
         else if length wire \<le> length (msRaw m) \<and> take (length wire) (msRaw m) = wire then Inr (take (length wire) (msRaw m))
         else if HeaderSize + section \<le> length (msRaw m)
           then Inr (set_length (take (HeaderSize + section) (msRaw m)) (section + 4 + integrityLength))
         else Inl StunTruncated)"

fun index_of :: "AttributeType \<Rightarrow> Attribute list \<Rightarrow> nat option" where
  "index_of t [] = None"
| "index_of t (a # as) = (if atType a = t then Some 0 else map_option Suc (index_of t as))"

definition VerifyMessageIntegrity :: "(bytes \<Rightarrow> bytes \<Rightarrow> bytes) \<Rightarrow> bytes \<Rightarrow> Message \<Rightarrow> stun_error + bool" where
  "VerifyMessageIntegrity hmac key m =
     (case index_of AttrMessageIntegrity (msAttributes m) of
        None \<Rightarrow> Inl StunNoIntegrity
      | Some idx \<Rightarrow>
          if 1 < Message_Count m AttrMessageIntegrity then Inl StunMalformed
          else let stored = atValue (msAttributes m ! idx)
               in if length stored \<noteq> integrityLength then Inl StunMalformed
                  else andThen (integrityInput m idx) (\<lambda>wire. Inr (hmac key wire = stored)))"

section \<open>FINGERPRINT\<close>

text \<open>\<open>crc32.ChecksumIEEE\<close>, bit by bit with the reflected polynomial.\<close>

definition crc_bit :: "u32 \<Rightarrow> u32" where
  "crc_bit c = (if c AND 1 = 1 then drop_bit 1 c XOR 0xEDB88320 else drop_bit 1 c)"

definition crc_byte :: "u32 \<Rightarrow> char \<Rightarrow> u32" where
  "crc_byte c b = (crc_bit ^^ 8) (c XOR of_char b)"

definition ChecksumIEEE :: "bytes \<Rightarrow> u32" where
  "ChecksumIEEE bs = NOT (foldl crc_byte (NOT 0) bs)"

definition AddFingerprint :: "Message \<Rightarrow> stun_error + Message" where
  "AddFingerprint m =
     (if 0 < Message_Count m AttrFingerprint then Inl StunDuplicateFingerprint
      else let section = attributeSectionLength (msAttributes m)
           in if MaxMessageSize < section + 8 then Inl StunOversize
              else Inr (Message_Add AttrFingerprint
                     (PutUint32 (ChecksumIEEE (put_message m (section + 8) (msAttributes m)) XOR fingerprintXor)) m))"

definition VerifyFingerprint :: "Message \<Rightarrow> stun_error + bool" where
  "VerifyFingerprint m =
     (if Message_Count m AttrFingerprint = 0 then Inl StunNoFingerprint
      else let lst = last (msAttributes m)
           in if atType lst \<noteq> AttrFingerprint then Inl StunMalformed
              else if length (atValue lst) \<noteq> 4 then Inl StunMalformed
              else let attrs = butlast (msAttributes m); section = attributeSectionLength attrs;
                       wire = (if HeaderSize + section \<le> length (msRaw m) then Inr (take (HeaderSize + section) (msRaw m))
                               else if msRaw m \<noteq> [] then Inl StunTruncated
                               else Inr (put_message m (section + 8) attrs))
                   in andThen wire (\<lambda>wire. Inr (Uint32 (atValue lst) = ChecksumIEEE wire XOR fingerprintXor)))"

lemma ubyte_byte [simp]: "ubyte (byte w) = w"
proof -
  have "unat w < 256" using unsigned_less [of w, where ?'a = nat] by simp
  then show ?thesis
    unfolding ubyte_def byte_def of_nat_of_char [symmetric, where ?'a = "8 word"] of_char_of by simp
qed

end
