(* ===== verification/Agent_STUN_Props.thy ===== *)
theory Agent_STUN_Props
  imports Agent_STUN
begin

text \<open>
  What the STUN codec promises: the parser stays inside its input, encodings parse back, and a message
  sealed with MESSAGE-INTEGRITY and FINGERPRINT verifies after it has crossed the wire.
\<close>

section \<open>Attributes\<close>

lemma align4_shift: "align4 (4 + n) = 4 + align4 n"
  unfolding align4_def by presburger

lemma align4_bound: "n \<le> align4 n" "n mod 4 = 0 \<Longrightarrow> l \<le> n \<Longrightarrow> align4 l \<le> n" "align4 l mod 4 = 0"
  unfolding align4_def by presburger+

lemma section_simps [simp]:
  "attributeSectionLength [] = 0" "attributeSectionLength (a # as) = 4 + align4 (length (atValue a)) + attributeSectionLength as"
  "attributeSectionLength (as @ bs) = attributeSectionLength as + attributeSectionLength bs"
  by (simp_all add: attributeSectionLength_def)

lemma section_aligned: "attributeSectionLength as mod 4 = 0"
  by (induction as) (simp_all add: mod_add_eq [symmetric] align4_bound)

lemma value_in_section: "a \<in> set as \<Longrightarrow> length (atValue a) \<le> attributeSectionLength as"
proof (induction as)
  case (Cons b as)
  with align4_bound(1) [of "length (atValue b)"] show ?case by auto
qed simp

declare parse_attributes.simps [simp del]

lemma parse_step:
  assumes "4 \<le> length rest" and "l = unat (Uint16 (take 2 (drop 2 rest)))" and "4 + l \<le> length rest" and "4 + align4 l \<le> length rest"
  shows "parse_attributes rest =
    andThen (parse_attributes (drop (4 + align4 l) rest)) (\<lambda>as. Inr (\<lparr>atType = Uint16 (take 2 rest), atValue = take l (drop 4 rest)\<rparr> # as))"
proof -
  have ne: "rest \<noteq> []" "\<not> length rest < 4" "\<not> length rest - 4 < l" "\<not> length rest < align4 (4 + l)"
    using assms by (auto simp: align4_shift)
  have s: "subslice 0 2 rest = Inr (take 2 rest)" "subslice 2 4 rest = Inr (take 2 (drop 2 rest))"
    "subslice 4 (4 + l) rest = Inr (take l (drop 4 rest))"
    using assms by (simp_all add: subslice_def)
  show ?thesis
    unfolding parse_attributes.simps [of rest] s andThen.simps assms(2) [symmetric] Let_def
    by (simp only: ne if_False andThen.simps s) (simp only: align4_shift)
qed

lemma parse_attributes_cases:
  assumes "rest \<noteq> []" and "length rest mod 4 = 0"
  obtains (truncated) "parse_attributes rest = Inl StunTruncated"
  | (step) a tail where "length rest = 4 + align4 (length (atValue a)) + length tail"
      "parse_attributes rest = andThen (parse_attributes tail) (\<lambda>as. Inr (a # as))"
proof -
  have four: "4 \<le> length rest" using assms by (cases "length rest < 4") auto
  define l where l: "l = unat (Uint16 (take 2 (drop 2 rest)))"
  show ?thesis
  proof (cases "length rest - 4 < l")
    case True
    have s: "subslice 0 2 rest = Inr (take 2 rest)" "subslice 2 4 rest = Inr (take 2 (drop 2 rest))"
      using four by (simp_all add: subslice_def)
    show ?thesis
      by (rule truncated, unfold parse_attributes.simps [of rest] s andThen.simps l [symmetric] Let_def)
        (use True four assms(1) in simp)
  next
    case False
    then have fits: "4 + l \<le> length rest" using four by simp
    with align4_bound(2) [OF assms(2)] have pad: "4 + align4 l \<le> length rest" by (simp add: align4_shift [symmetric])
    show ?thesis
    proof (rule step [OF _ parse_step [OF four l fits pad]])
    qed (use pad fits in simp)
  qed
qed

lemma parse_attributes_safe:
  assumes "length rest mod 4 = 0"
  shows "parse_attributes rest \<noteq> Inl StunPanic \<and>
    (\<forall>as. parse_attributes rest = Inr as \<longrightarrow> attributeSectionLength as = length rest)"
  using assms
proof (induction "length rest" arbitrary: rest rule: less_induct)
  case less
  show ?case
  proof (cases "rest = []")
    case True
    then show ?thesis by (simp add: parse_attributes.simps)
  next
    case False
    from False less.prems show ?thesis
    proof (cases rule: parse_attributes_cases)
      case truncated
      then show ?thesis by simp
    next
      case (step a tail)
      have "length tail mod 4 = 0" using less.prems step(1) align4_bound(3) [of "length (atValue a)"] by presburger
      with less.hyps [of tail] step(1) have "parse_attributes tail \<noteq> Inl StunPanic \<and>
          (\<forall>as. parse_attributes tail = Inr as \<longrightarrow> attributeSectionLength as = length tail)" by simp
      with step show ?thesis by (cases "parse_attributes tail") auto
    qed
  qed
qed

lemma length_put_attribute [simp]: "length (put_attribute a) = 4 + align4 (length (atValue a))"
  using align4_bound(1) [of "length (atValue a)"] by (simp add: put_attribute_def)

lemma length_put_attributes [simp]: "length (concat (map put_attribute as)) = attributeSectionLength as"
  by (induction as) simp_all

lemma Uint16_be_bytes: "n < 65536 \<Longrightarrow> unat (Uint16 (be_bytes 2 n)) = n"
  by (simp add: unat_Uint16 be_nat_be_bytes)

lemma parse_put_attributes:
  assumes "\<forall>a\<in>set as. length (atValue a) < 65536"
  shows "parse_attributes (concat (map put_attribute as)) = Inr as"
  using assms
proof (induction as)
  case (Cons a as)
  let ?l = "length (atValue a)" and ?tail = "concat (map put_attribute as)"
  let ?pad = "replicate (align4 ?l - ?l) (CHR 0x00)"
  let ?rest = "put_attribute a @ ?tail"
  have rest: "?rest = PutUint16 (atType a) @ be_bytes 2 ?l @ atValue a @ ?pad @ ?tail" by (simp add: put_attribute_def)
  have parts: "take 2 ?rest = PutUint16 (atType a)" "take 2 (drop 2 ?rest) = be_bytes 2 ?l" "take ?l (drop 4 ?rest) = atValue a"
    unfolding rest by simp_all
  have len: "?l = unat (Uint16 (take 2 (drop 2 ?rest)))" using Cons.prems unfolding parts by (simp add: Uint16_be_bytes)
  have "parse_attributes ?rest = andThen (parse_attributes ?tail) (\<lambda>as. Inr (\<lparr>atType = atType a, atValue = atValue a\<rparr> # as))"
    using parse_step [OF _ len] align4_bound(1) [of ?l] parts by simp
  with Cons show ?case by simp
qed (simp add: parse_attributes.simps)

section \<open>Messages\<close>

lemma length_put_header: "length (msTransactionID m) = 12 \<Longrightarrow> length (put_header m len) = 20"
  by (simp add: put_header_def)

lemma length_put_message: "length (msTransactionID m) = 12 \<Longrightarrow> length (put_message m len as) = 20 + attributeSectionLength as"
  by (simp add: put_message_def length_put_header)

definition fingerprint_last :: "Message \<Rightarrow> bool" where
  "fingerprint_last m \<longleftrightarrow> (0 < Message_Count m AttrFingerprint \<longrightarrow> atType (last (msAttributes m)) = AttrFingerprint)"

text \<open>What an accepted message is: a declared length that covers whole attributes, and the bytes it was read from.\<close>

lemma ParseMessage_Inr:
  "ParseMessage data = Inr m \<longleftrightarrow>
     (\<exists>declared. HeaderSize \<le> length data \<and> Uint32 (take 4 (drop 4 data)) = MagicCookie \<and>
        declared = unat (Uint16 (take 2 (drop 2 data))) \<and> declared mod 4 = 0 \<and> HeaderSize + declared \<le> length data \<and>
        parse_attributes (take declared (drop HeaderSize data)) = Inr (msAttributes m) \<and> msType m = Uint16 (take 2 data) \<and>
        msTransactionID m = take 12 (drop 8 data) \<and> msRaw m = take (HeaderSize + declared) data \<and> fingerprint_last m)"
proof -
  have max: "\<not> MaxMessageSize < unat w" for w :: u16
    using unsigned_less [of w, where ?'a = nat] by (simp add: MaxMessageSize_def)
  show ?thesis
    by (cases m) (auto simp: ParseMessage_def Let_def subslice_def HeaderSize_def max fingerprint_last_def Message_Count_def)
qed

lemma ParseMessage_never_panics: "ParseMessage data \<noteq> Inl StunPanic"
proof -
  have "parse_attributes (take n (drop HeaderSize data)) \<noteq> Inl StunPanic" if "n mod 4 = 0" "HeaderSize + n \<le> length data" for n
    using parse_attributes_safe [of "take n (drop HeaderSize data)"] that by simp
  then show ?thesis
    by (auto simp: ParseMessage_def Let_def subslice_def HeaderSize_def andThen_Inl split: if_splits)
qed

lemma take_drop_prefix:
  assumes "j + k \<le> n" and "n \<le> length d"
  shows "take k (drop j (take n d @ other)) = take k (drop j d)"
  using assms by (auto simp: drop_take min_def)

text \<open>
  C30: the STUN parser is safe on any input. It never slices out of range; an accepted message is read from a prefix of
  the input that its attributes fill exactly, has a 12-byte transaction id, and does not depend on the
  bytes after that prefix.
\<close>
theorem stun_parse_safe:
  "ParseMessage data \<noteq> Inl StunPanic \<and>
   (\<forall>m. ParseMessage data = Inr m \<longrightarrow>
      (\<exists>extra. data = msRaw m @ extra) \<and> length (msRaw m) = HeaderSize + attributeSectionLength (msAttributes m) \<and>
      length (msTransactionID m) = 12 \<and> fingerprint_last m \<and> (\<forall>other. ParseMessage (msRaw m @ other) = Inr m))"
proof (intro conjI allI impI)
  fix m
  assume "ParseMessage data = Inr m"
  then obtain n where p: "HeaderSize \<le> length data" "Uint32 (take 4 (drop 4 data)) = MagicCookie"
    "n = unat (Uint16 (take 2 (drop 2 data)))" "n mod 4 = 0" "HeaderSize + n \<le> length data"
    "parse_attributes (take n (drop HeaderSize data)) = Inr (msAttributes m)" "msType m = Uint16 (take 2 data)"
    "msTransactionID m = take 12 (drop 8 data)" "msRaw m = take (HeaderSize + n) data" "fingerprint_last m"
    unfolding ParseMessage_Inr by (elim exE conjE) (rule that; assumption)
  show "\<exists>extra. data = msRaw m @ extra"
    unfolding p(9) by (rule exI [of _ "drop (HeaderSize + n) data"]) simp
  from p(4,5) parse_attributes_safe [of "take n (drop HeaderSize data)"] p(6)
  show "length (msRaw m) = HeaderSize + attributeSectionLength (msAttributes m)" by (simp add: p(9))
  show "length (msTransactionID m) = 12" using p(1) by (simp add: p(8) HeaderSize_def)
  show "fingerprint_last m" by (rule p(10))
  show "ParseMessage (msRaw m @ other) = Inr m" for other
  proof -
    have "20 + n \<le> length data" using p(5) by (simp add: HeaderSize_def)
    note same = take_drop_prefix [OF _ this, of _ _ other]
    have "take 4 (drop 4 (msRaw m @ other)) = take 4 (drop 4 data)" "take 2 (drop 2 (msRaw m @ other)) = take 2 (drop 2 data)"
      "take n (drop HeaderSize (msRaw m @ other)) = take n (drop HeaderSize data)" "take 2 (msRaw m @ other) = take 2 data"
      "take 12 (drop 8 (msRaw m @ other)) = take 12 (drop 8 data)" "take (HeaderSize + n) (msRaw m @ other) = take (HeaderSize + n) data"
      using same [of 4 4] same [of 2 2] same [of HeaderSize n] same [of 0 2] same [of 8 12] same [of 0 "HeaderSize + n"]
      by (simp_all add: p(9) HeaderSize_def)
    moreover have "HeaderSize + n \<le> length (msRaw m @ other)" "HeaderSize \<le> length (msRaw m @ other)" using p(5) by (simp_all add: p(9))
    ultimately show ?thesis unfolding ParseMessage_Inr using p by (intro exI [of _ n]) simp
  qed
qed (rule ParseMessage_never_panics)

text \<open>What \<open>Marshal\<close> writes parses back.\<close>

lemma parse_put_message:
  assumes "length (msTransactionID m) = 12" and "len = attributeSectionLength (msAttributes m)" and "len \<le> MaxMessageSize" and "fingerprint_last m"
  shows "ParseMessage (put_message m len (msAttributes m)) = Inr (m\<lparr>msRaw := put_message m len (msAttributes m)\<rparr>)"
proof -
  let ?w = "put_message m len (msAttributes m)" and ?attrs = "concat (map put_attribute (msAttributes m))"
  have w: "?w = PutUint16 (msType m) @ be_bytes 2 len @ PutUint32 MagicCookie @ msTransactionID m @ ?attrs"
    by (simp add: put_message_def put_header_def)
  have small: "\<forall>a\<in>set (msAttributes m). length (atValue a) < 65536"
    using value_in_section [of _ "msAttributes m"] assms(2,3) by (fastforce simp: MaxMessageSize_def)
  have parts: "take 2 ?w = PutUint16 (msType m)" "take 2 (drop 2 ?w) = be_bytes 2 len" "take 4 (drop 4 ?w) = PutUint32 MagicCookie"
    "take 12 (drop 8 ?w) = msTransactionID m" "drop HeaderSize ?w = ?attrs"
    unfolding w by (simp_all add: assms(1) HeaderSize_def)
  have len: "unat (Uint16 (take 2 (drop 2 ?w))) = len"
    unfolding parts using assms(3) by (simp add: Uint16_be_bytes MaxMessageSize_def)
  have size: "length ?w = HeaderSize + len" using assms(1,2) by (simp add: length_put_message HeaderSize_def)
  have fp: "fingerprint_last (m\<lparr>msRaw := ?w\<rparr>)" using assms(4) by (simp add: fingerprint_last_def Message_Count_def)
  have attrs: "parse_attributes (take len (drop HeaderSize ?w)) = Inr (msAttributes m)"
    unfolding parts using parse_put_attributes [OF small] assms(2) by simp
  have "len mod 4 = 0" using section_aligned assms(2) by simp
  with size fp attrs len show ?thesis
    unfolding ParseMessage_Inr by (intro exI [of _ len]) (simp add: parts)
qed

text \<open>
  STUN messages survive the wire. Marshalling succeeds exactly when the attribute section fits the 16-bit length, and
  the bytes parse back to the same type, transaction id and attributes, for every message whose
  FINGERPRINT, if any, is last.
\<close>
theorem stun_roundtrip:
  assumes "length (msTransactionID m) = 12" and "fingerprint_last m"
  shows "(attributeSectionLength (msAttributes m) \<le> MaxMessageSize \<longrightarrow>
      (\<exists>w. Message_Marshal m = Inr w \<and> ParseMessage w = Inr (m\<lparr>msRaw := w\<rparr>))) \<and>
    (MaxMessageSize < attributeSectionLength (msAttributes m) \<longrightarrow> Message_Marshal m = Inl StunOversize)"
  using parse_put_message [OF assms(1) refl _ assms(2)] by (simp add: Message_Marshal_def)

section \<open>Sealed messages\<close>

lemma put_message_fields:
  assumes "msType m' = msType m" and "msTransactionID m' = msTransactionID m"
  shows "put_message m' len as = put_message m len as"
  using assms by (simp add: put_message_def put_header_def)

lemma put_message_append: "put_message m len (as @ bs) = put_message m len as @ concat (map put_attribute bs)"
  by (simp add: put_message_def)

lemma set_length_put: "set_length (put_message m len as) len' = put_message m len' as"
proof -
  have "take 2 (put_message m len as) = PutUint16 (msType m)"
    "drop 4 (put_message m len as) = PutUint32 MagicCookie @ msTransactionID m @ concat (map put_attribute as)"
    by (simp_all add: put_message_def put_header_def)
  then show ?thesis by (simp add: set_length_def put_message_def put_header_def)
qed

lemma index_of_append: "t \<notin> atType ` set as \<Longrightarrow> index_of t (as @ bs) = map_option (\<lambda>i. length as + i) (index_of t bs)"
proof (induction as)
  case Nil
  have "(\<lambda>i :: nat. 0 + i) = id" by auto
  then show ?case by (simp add: option.map_id)
next
  case (Cons a as)
  then show ?case by (cases "index_of t bs") auto
qed

lemma Count_zero: "Message_Count m t = 0 \<longleftrightarrow> t \<notin> atType ` set (msAttributes m)"
  by (auto simp: Message_Count_def filter_empty_conv)

text \<open>The HMAC input recovered from the wire is the one that was signed, whatever attributes follow.\<close>

lemma integrityInput_wire:
  assumes "length (msTransactionID m) = 12" and "msAttributes m = as @ bs" and "msRaw m = put_message m len (msAttributes m)"
  shows "integrityInput m (length as) = Inr (put_message m (attributeSectionLength as + 4 + integrityLength) as)"
proof -
  let ?w = "put_message m (attributeSectionLength as + 4 + integrityLength) as"
  have raw: "take (HeaderSize + attributeSectionLength as) (msRaw m) = put_message m len as"
    by (simp add: assms put_message_append length_put_message HeaderSize_def)
  have "HeaderSize + attributeSectionLength as \<le> length (msRaw m)" "msRaw m \<noteq> []"
    using length_put_message [OF assms(1), of len "msAttributes m"] assms(2,3) by (auto simp: HeaderSize_def)
  then show ?thesis
    by (auto simp: integrityInput_def assms(2) raw set_length_put Let_def)
qed

lemma verify_integrity_parsed:
  assumes "length (msTransactionID m) = 12" and "msAttributes m = as @ mi # bs" and "msRaw m = put_message m len (msAttributes m)"
    and "atType mi = AttrMessageIntegrity" and "length (atValue mi) = integrityLength" and "AttrMessageIntegrity \<notin> atType ` set (as @ bs)"
  shows "VerifyMessageIntegrity hmac key m =
    Inr (hmac key (put_message m (attributeSectionLength as + 4 + integrityLength) as) = atValue mi)"
proof -
  have "Message_Count m AttrMessageIntegrity = 1"
  proof -
    have "filter (\<lambda>a. atType a = AttrMessageIntegrity) (as @ bs) = []" using assms(6) unfolding filter_empty_conv by force
    with assms(2,4) show ?thesis by (simp add: Message_Count_def)
  qed
  moreover have "index_of AttrMessageIntegrity (msAttributes m) = Some (length as)"
    using assms(2,4,6) by (simp add: index_of_append image_Un)
  ultimately show ?thesis
    using integrityInput_wire [OF assms(1-3)] assms(2,5) by (simp add: VerifyMessageIntegrity_def)
qed

lemma verify_fingerprint_parsed:
  assumes "length (msTransactionID m) = 12" and "msAttributes m = as @ [fp]" and "msRaw m = put_message m len (msAttributes m)"
    and "atType fp = AttrFingerprint" and "length (atValue fp) = 4"
  shows "VerifyFingerprint m = Inr (Uint32 (atValue fp) = ChecksumIEEE (put_message m len as) XOR fingerprintXor)"
proof -
  have "Message_Count m AttrFingerprint \<noteq> 0" using assms(2,4) by (simp add: Count_zero)
  moreover have "take (HeaderSize + attributeSectionLength as) (msRaw m) = put_message m len as"
    using assms(1) by (simp add: assms(2,3) put_message_append length_put_message HeaderSize_def)
  moreover have "HeaderSize + attributeSectionLength as \<le> length (msRaw m)"
    using assms(1) by (simp add: assms(2,3) length_put_message HeaderSize_def)
  ultimately show ?thesis using assms(2,4,5) by (simp add: VerifyFingerprint_def Let_def)
qed

text \<open>What the two sealing operations append.\<close>

lemma AddMessageIntegrity_Inr:
  assumes "AddMessageIntegrity hmac key m = Inr m1"
  shows "AttrMessageIntegrity \<notin> atType ` set (msAttributes m)"
    "m1 = m\<lparr>msAttributes := msAttributes m @ [\<lparr>atType = AttrMessageIntegrity, atValue =
       hmac key (put_message m (attributeSectionLength (msAttributes m) + 4 + integrityLength) (msAttributes m))\<rparr>]\<rparr>"
  using assms by (simp_all add: AddMessageIntegrity_def Message_Add_def Let_def Count_zero)

lemma AddFingerprint_Inr:
  assumes "AddFingerprint m = Inr m1"
  shows "AttrFingerprint \<notin> atType ` set (msAttributes m)" "attributeSectionLength (msAttributes m) + 8 \<le> MaxMessageSize"
    "m1 = m\<lparr>msAttributes := msAttributes m @ [\<lparr>atType = AttrFingerprint, atValue =
       PutUint32 (ChecksumIEEE (put_message m (attributeSectionLength (msAttributes m) + 8) (msAttributes m)) XOR fingerprintXor)\<rparr>]\<rparr>"
  using assms by (simp_all add: AddFingerprint_def Message_Add_def Let_def Count_zero)

text \<open>
  C29: a sealed message verifies at the receiver. After MESSAGE-INTEGRITY and then FINGERPRINT have been added, marshalling
  cannot fail, the bytes parse to the same attributes, the fingerprint is right, and the integrity check
  answers exactly whether the receiver's key gives the same MAC over the attributes before the seal.
\<close>
theorem stun_sealed_message_verifies:
  assumes "length (msTransactionID m) = 12" and "\<forall>k d. length (hmac k d) = integrityLength"
    and "AddMessageIntegrity hmac key m = Inr m1" and "AddFingerprint m1 = Inr m2"
  shows "\<exists>w p d. Message_Marshal m2 = Inr w \<and> ParseMessage w = Inr p \<and> msAttributes p = msAttributes m2 \<and> VerifyFingerprint p = Inr True \<and>
    d = put_message m (attributeSectionLength (msAttributes m) + 4 + integrityLength) (msAttributes m) \<and>
    (\<forall>key'. VerifyMessageIntegrity hmac key' p = Inr (hmac key' d = hmac key d))"
proof -
  note mi = AddMessageIntegrity_Inr [OF assms(3)] and fp = AddFingerprint_Inr [OF assms(4)]
  define d where d: "d = put_message m (attributeSectionLength (msAttributes m) + 4 + integrityLength) (msAttributes m)"
  define mia where mia: "mia = \<lparr>atType = AttrMessageIntegrity, atValue = hmac key d\<rparr>"
  define len where len: "len = attributeSectionLength (msAttributes m1) + 8"
  define fpa where fpa: "fpa = \<lparr>atType = AttrFingerprint, atValue = PutUint32 (ChecksumIEEE (put_message m1 len (msAttributes m1)) XOR fingerprintXor)\<rparr>"
  have a1: "msAttributes m1 = msAttributes m @ [mia]" and a2: "msAttributes m2 = msAttributes m1 @ [fpa]"
    using mi(2) fp(3) by (simp_all add: mia fpa d len)
  define w where w: "w = put_message m2 len (msAttributes m2)"
  define p where p: "p = m2\<lparr>msRaw := w\<rparr>"
  have ids: "msTransactionID m1 = msTransactionID m" "msTransactionID m2 = msTransactionID m" "msTransactionID p = msTransactionID m"
    "msType p = msType m" "msType m1 = msType m" "msType m2 = msType m"
    using mi(2) fp(3) by (simp_all add: p)
  have sec: "len = attributeSectionLength (msAttributes m2)" by (simp add: a2 len fpa align4_def)
  have same: "put_message p l as = put_message m l as" "put_message m1 l as = put_message m l as" "put_message m2 l as = put_message m l as" for l as
    by (rule put_message_fields; simp add: ids)+
  have "fingerprint_last m2" by (simp add: fingerprint_last_def a2 fpa)
  with sec fp(2) assms(1) ids have "ParseMessage w = Inr p" "Message_Marshal m2 = Inr w"
    using parse_put_message [of m2 len] by (simp_all add: w p len Message_Marshal_def)
  moreover have txid: "length (msTransactionID p) = 12" and attrs: "msAttributes p = msAttributes m1 @ [fpa]"
    "msAttributes p = msAttributes m @ mia # [fpa]" and raw: "msRaw p = put_message p len (msAttributes p)"
    using assms(1) ids a1 a2 unfolding same by (simp_all add: p w same)
  have "VerifyFingerprint p = Inr True"
    unfolding verify_fingerprint_parsed [OF txid attrs(1) raw, unfolded fpa, simplified] same by simp
  moreover have no_mi: "AttrMessageIntegrity \<notin> atType ` set (msAttributes m @ [fpa])"
    using mi(1) by (simp add: fpa AttrMessageIntegrity_def AttrFingerprint_def)
  have "VerifyMessageIntegrity hmac key' p = Inr (hmac key' d = hmac key d)" for key'
    using verify_integrity_parsed [OF txid attrs(2) raw _ _ no_mi, of hmac key'] assms(2) unfolding same d [symmetric] by (simp add: mia)
  ultimately show ?thesis using d by (intro exI [of _ w] exI [of _ p] exI [of _ d]) (simp add: p)
qed

section \<open>Addresses and message types\<close>

lemma xor_bytes_twice: "length xs \<le> length ys \<Longrightarrow> xor_bytes (xor_bytes xs ys) ys = xs"
proof (induction xs arbitrary: ys)
  case (Cons x xs)
  then show ?case by (cases ys) (simp_all add: xor_bytes_def xor.assoc)
qed (simp add: xor_bytes_def)

lemma length_xor_bytes [simp]: "length (xor_bytes xs ys) = min (length xs) (length ys)"
  by (simp add: xor_bytes_def)

lemma map_ubyte_byte [simp]: "map ubyte (map byte xs) = xs" "map (ubyte \<circ> byte) xs = xs"
  by (simp_all add: comp_def)

lemma length_cookie_bytes [simp]: "length cookie_bytes = 4"
  by (simp add: cookie_bytes_def)

lemma find_snoc: "\<forall>x\<in>set xs. \<not> P x \<Longrightarrow> P y \<Longrightarrow> find P (xs @ [y]) = Some y"
  by (induction xs) auto

text \<open>An address the codec can carry: \<open>netip.Addr\<close> keeps 16 bytes of an IPv6 address, the wire has no zone.\<close>

fun carried :: "netip_addr \<Rightarrow> bool" where
  "carried (Addr4 a b c d) = True"
| "carried (Addr6 v z) = (length v = 16 \<and> z = [])"
| "carried AddrInvalid = False"

lemma decode_put_address:
  assumes "put_address (if x then cookie_port else 0) (if x then cookie_bytes @ map ubyte txid else replicate 16 0) addr = Inr value"
    and "length txid = 12" and "carried (apAddr addr)"
  shows "decodeAddressAttribute value txid x = Inr addr"
proof -
  have zero: "xor_bytes xs (replicate n 0) = xs" if "length xs \<le> n" for xs n
    using that by (simp add: xor_bytes_def list_eq_iff_nth_eq)
  show ?thesis
  proof (cases "apAddr addr")
    case (Addr4 a b c d)
    with assms show ?thesis
      by (cases addr) (auto simp: put_address_def decodeAddressAttribute_def xor_bytes_def cookie_bytes_def xor.assoc)
  next
    case (Addr6 v z)
    with assms have "value = [CHR 0x00, CHR 0x02] @ PutUint16 (apPort addr XOR (if x then cookie_port else 0)) @
        map byte (xor_bytes v (if x then cookie_bytes @ map ubyte txid else replicate 16 0))" and v: "length v = 16" "z = []"
      by (auto simp: put_address_def split: if_splits)
    moreover have "xor_bytes (xor_bytes v (cookie_bytes @ map ubyte txid)) (cookie_bytes @ map ubyte txid) = v"
      by (rule xor_bytes_twice) (simp add: v assms(2))
    ultimately show ?thesis
      using assms(2) Addr6 zero [of v 16]
      by (cases addr) (simp add: decodeAddressAttribute_def xor.assoc)
  qed (use assms(3) in simp)
qed

text \<open>
  An observed address is read back exactly. The XOR-MAPPED-ADDRESS a message is given is the one it answers, for IPv4
  and IPv6, with the port and address masked by the cookie and the transaction id on the wire; an
  IPv4-mapped IPv6 address, an invalid one and a second attribute are refused.
\<close>
theorem stun_mapped_address_roundtrip:
  assumes "length (msTransactionID m) = 12" and "carried (apAddr addr)" and "Message_Count m AttrXORMappedAddress = 0"
  shows "(\<not> Is4In6 (apAddr addr) \<longrightarrow> (\<exists>m'. AddXORMappedAddress addr m = Inr m' \<and> XORMappedAddress m' = Inr addr \<and>
       (\<forall>other. AddXORMappedAddress other m' = Inl StunDuplicateAddress))) \<and>
    (Is4In6 (apAddr addr) \<longrightarrow> AddXORMappedAddress addr m = Inl StunUnknownFamily)"
proof -
  let ?put = "put_address cookie_port (cookie_bytes @ map ubyte (msTransactionID m)) addr"
  have "\<exists>v. ?put = Inr v" if "\<not> Is4In6 (apAddr addr)"
    using that assms(2) by (cases "apAddr addr") (auto simp: put_address_def)
  moreover have "XORMappedAddress (Message_Add AttrXORMappedAddress v m) = Inr addr" if "?put = Inr v" for v
  proof -
    from decode_put_address [where x = True] that assms(1,2) have "decodeAddressAttribute v (msTransactionID m) True = Inr addr" by simp
    moreover have "Message_Get (Message_Add AttrXORMappedAddress v m) AttrXORMappedAddress = Some v"
      using assms(3) find_snoc [of "msAttributes m" "\<lambda>a. atType a = AttrXORMappedAddress"]
      by (force simp: Message_Get_def Message_Add_def Count_zero)
    moreover have "Message_Count (Message_Add AttrXORMappedAddress v m) AttrXORMappedAddress = 1"
      using assms(3) by (simp add: Message_Count_def Message_Add_def)
    ultimately show ?thesis by (simp add: XORMappedAddress_def Message_Add_def)
  qed
  moreover have "?put = Inl StunUnknownFamily" if "Is4In6 (apAddr addr)"
    using that by (cases "apAddr addr") (auto simp: put_address_def)
  moreover have "AddXORMappedAddress other (Message_Add AttrXORMappedAddress v m) = Inl StunDuplicateAddress" for v other
    by (simp add: AddXORMappedAddress_def Message_Count_def Message_Add_def)
  moreover have "AddXORMappedAddress addr m = andThen ?put (\<lambda>v. Inr (Message_Add AttrXORMappedAddress v m))"
    by (simp add: AddXORMappedAddress_def assms(3))
  ultimately show ?thesis by auto
qed

lemma bit_small_word:
  fixes w :: "'a::len word"
  assumes "unat w < 2 ^ k" and "bit w n"
  shows "n < k"
proof -
  have "take_bit k (unat w) = unat w" using assms(1) by (simp add: take_bit_nat_eq_self)
  moreover have "bit (unat w) n" using assms(2) by (simp add: bit_unsigned_iff bit_imp_le_length)
  ultimately show ?thesis by (metis bit_take_bit_iff)
qed

text \<open>Method and class are packed without loss.\<close>

lemma message_type_roundtrip:
  assumes "unat method < 2 ^ 12" and "unat class < 2 ^ 2"
  shows "MessageType_Method (NewMessageType method class) = method" "MessageType_Class (NewMessageType method class) = class"
proof -
  have m: "\<not> bit method n" if "12 \<le> n" for n using bit_small_word [OF assms(1)] that by (meson not_le)
  have dbl: "bit (w * 2) n = bit w (n - 1)" if "0 < n" "n < 16" for w :: u16 and n
    using that bit_double_iff [of w n] by (simp add: mult.commute)
  have c: "\<not> bit class n" if "2 \<le> n" for n using bit_small_word [OF assms(2)] that by (meson not_le)
  show "MessageType_Method (NewMessageType method class) = method"
  proof (rule bit_word_eqI)
    fix n assume "n < LENGTH(16)"
    then have "n \<in> {0, 1, 2, 3, 4, 5, 6, 7, 8, 9, 10, 11, 12, 13, 14, 15}" by simp presburger
    then show "bit (MessageType_Method (NewMessageType method class)) n = bit method n"
      by (elim insertE emptyE) (simp_all add: MessageType_Method_def NewMessageType_def Let_def bit_and_iff bit_or_iff bit_drop_bit_eq bit_push_bit_iff dbl m c)
  qed
  show "MessageType_Class (NewMessageType method class) = class"
  proof (rule bit_word_eqI)
    fix n assume "n < LENGTH(8)"
    then have "n \<in> {0, 1, 2, 3, 4, 5, 6, 7}" by auto
    then show "bit (MessageType_Class (NewMessageType method class)) n = bit class n"
      by (elim insertE emptyE) (simp_all add: MessageType_Class_def NewMessageType_def Let_def bit_and_iff bit_or_iff bit_drop_bit_eq bit_push_bit_iff dbl bit_ucast_iff m c)
  qed
qed

section \<open>Witnesses\<close>

definition demo_stun :: Message where
  "demo_stun = \<lparr>msType = MessageTypeBindingSuccess, msTransactionID = ''0123456789ab'',
     msAttributes = [\<lparr>atType = AttrSoftware, atValue = ''stun''\<rparr>], msRaw = []\<rparr>"

definition demo_hmac :: "bytes \<Rightarrow> bytes \<Rightarrow> bytes" where
  "demo_hmac k d = take 20 (k @ replicate 20 (CHR 0x00))"

lemma demo_stun_facts:
  "length (msTransactionID demo_stun) = 12" "attributeSectionLength (msAttributes demo_stun) = 8"
  "Message_Count demo_stun t = (if t = AttrSoftware then 1 else 0)" "length (demo_hmac k d) = 20"
  by (simp_all add: demo_stun_def align4_def Message_Count_def demo_hmac_def)

theorem stun_parse_safe_witness:
  "\<exists>w m. ParseMessage w = Inr m \<and> ParseMessage (w @ ''trailing'') = Inr m"
proof -
  have "fingerprint_last demo_stun" by (simp add: fingerprint_last_def demo_stun_facts AttrFingerprint_def AttrSoftware_def)
  from parse_put_message [OF demo_stun_facts(1) refl _ this] obtain w m where "ParseMessage w = Inr m" "msRaw m = w"
    by (auto simp: demo_stun_facts MaxMessageSize_def)
  with stun_parse_safe [of w] show ?thesis by metis
qed

theorem stun_roundtrip_witness:
  "\<exists>w. Message_Marshal demo_stun = Inr w \<and> ParseMessage w = Inr (demo_stun\<lparr>msRaw := w\<rparr>)"
proof -
  have "fingerprint_last demo_stun" by (simp add: fingerprint_last_def demo_stun_facts AttrFingerprint_def AttrSoftware_def)
  from stun_roundtrip [OF demo_stun_facts(1) this] show ?thesis by (simp add: demo_stun_facts MaxMessageSize_def)
qed

theorem stun_sealed_message_verifies_witness:
  "\<exists>m1 m2 w p. AddMessageIntegrity demo_hmac ''secret'' demo_stun = Inr m1 \<and> AddFingerprint m1 = Inr m2 \<and> Message_Marshal m2 = Inr w \<and>
     ParseMessage w = Inr p \<and> VerifyFingerprint p = Inr True \<and> VerifyMessageIntegrity demo_hmac ''secret'' p = Inr True \<and>
     VerifyMessageIntegrity demo_hmac ''guess'' p = Inr False"
proof -
  obtain m1 where m1: "AddMessageIntegrity demo_hmac ''secret'' demo_stun = Inr m1"
    by (simp add: AddMessageIntegrity_def demo_stun_facts AttrMessageIntegrity_def AttrSoftware_def MaxMessageSize_def integrityLength_def)
  note a = AddMessageIntegrity_Inr(2) [OF m1]
  have "attributeSectionLength (msAttributes m1) = 32" "Message_Count m1 AttrFingerprint = 0"
    by (simp_all add: a demo_stun_facts align4_def)
      (simp add: Message_Count_def demo_stun_def AttrFingerprint_def AttrSoftware_def AttrMessageIntegrity_def)
  then obtain m2 where m2: "AddFingerprint m1 = Inr m2" by (simp add: AddFingerprint_def MaxMessageSize_def)
  from stun_sealed_message_verifies [OF demo_stun_facts(1) _ m1 m2] obtain w p d where
    "Message_Marshal m2 = Inr w" "ParseMessage w = Inr p" "VerifyFingerprint p = Inr True"
    "\<forall>key'. VerifyMessageIntegrity demo_hmac key' p = Inr (demo_hmac key' d = demo_hmac ''secret'' d)"
    by (auto simp: demo_stun_facts integrityLength_def)
  with m1 m2 show ?thesis by (auto simp: demo_hmac_def)
qed

theorem stun_mapped_address_roundtrip_witness:
  "\<exists>m'. AddXORMappedAddress \<lparr>apAddr = Addr4 203 0 113 7, apPort = 4242\<rparr> demo_stun = Inr m' \<and>
     XORMappedAddress m' = Inr \<lparr>apAddr = Addr4 203 0 113 7, apPort = 4242\<rparr>"
proof -
  have "Message_Count demo_stun AttrXORMappedAddress = 0" by (simp add: demo_stun_facts AttrXORMappedAddress_def AttrSoftware_def)
  from stun_mapped_address_roundtrip [OF demo_stun_facts(1) _ this, of "\<lparr>apAddr = Addr4 203 0 113 7, apPort = 4242\<rparr>"]
  show ?thesis by auto
qed

end
