(* ===== verification/Agent_Gateway.thy ===== *)
theory Agent_Gateway
  imports Agent_STUN
begin

text \<open>
  \<open>internal/traversal/natpmp\<close> and \<open>internal/traversal/pcp\<close> (\<open>natpmp.go\<close>, \<open>pcp.go\<close> and the two \<open>client.go\<close>):
  the wire codecs of the gateway protocols and the clients that acquire, renew and delete a mapping.
  What the socket and the context do during a transaction is a trace, an argument of the client.
\<close>

section \<open>The network\<close>

text \<open>A packet source as \<open>net.PacketConn\<close> reports it.\<close>

datatype source = OtherSource | UDPSource "u8 list" u16

fun AddrFromSlice :: "u8 list \<Rightarrow> netip_addr option" where
  "AddrFromSlice [a, b, c, d] = Some (Addr4 a b c d)"
| "AddrFromSlice v = (if length v = 16 then Some (Addr6 v []) else None)"

fun Unmap :: "netip_addr \<Rightarrow> netip_addr" where
  "Unmap (Addr6 v z) = (if Is4In6 (Addr6 v z) then Addr4 (v ! 12) (v ! 13) (v ! 14) (v ! 15) else Addr6 v z)"
| "Unmap a = a"

fun addrPortOf :: "source \<Rightarrow> AddrPort option" where
  "addrPortOf OtherSource = None"
| "addrPortOf (UDPSource ip port) = map_option (\<lambda>a. \<lparr>apAddr = Unmap a, apPort = port\<rparr>) (AddrFromSlice ip)"

text \<open>
  One iteration of a read loop: the context has ended, the deadline cannot be set, the read fails (the
  deadline passed or the socket failed), or a datagram arrives. The end of the trace is the deadline.
\<close>

datatype net_event = CtxDone | DeadlineFails | ReadFails | Datagram source bytes

text \<open>
  One attempt: the context has ended before it, the send fails, the events of the read loop, and the
  context ends during the backoff.
\<close>

record attempt =
  anCtxDone :: bool
  anSendFails :: bool
  anEvents :: "net_event list"
  anBackoffDone :: bool

datatype gateway_error =
  GwTruncated | GwWrongVersion | GwWrongOpcode | GwTrailing | GwInternalPort | GwProtocol | GwBadAddress | GwRequest
| GwPreferFailureRequiresPort | GwResult nat | GwNonceMismatch | GwUnownedMapping | GwNoResponse | GwContext | GwSend | GwDeadline

text \<open>The answer of one attempt: a retry, or a definitive failure or success.\<close>

datatype 'a answer = Retry | Done "gateway_error + 'a"

text \<open>The epoch a client has seen.\<close>

record epochs =
  lastEpoch :: u32
  sawEpoch :: bool

definition observeEpoch :: "u32 \<Rightarrow> epochs \<Rightarrow> bool \<times> epochs" where
  "observeEpoch epoch c =
     (sawEpoch c \<and> int (unat epoch) - int (unat (lastEpoch c)) < - 2, \<lparr>lastEpoch = epoch, sawEpoch = True\<rparr>)"

text \<open>
  The bounded retry loop: \<open>left\<close> attempts remain of \<open>MaxAttempts\<close>, the environment is indexed by the
  number of the attempt. The last component counts the requests sent.
\<close>

fun transaction_loop ::
  "(net_event list \<Rightarrow> epochs \<Rightarrow> 'a answer \<times> epochs) \<Rightarrow> (nat \<Rightarrow> attempt) \<Rightarrow> bool \<Rightarrow> nat \<Rightarrow> nat \<Rightarrow> epochs \<Rightarrow>
   (gateway_error + 'a) \<times> epochs \<times> nat" where
  "transaction_loop await env ctxEnd 0 n c = (if ctxEnd then Inl GwContext else Inl GwNoResponse, c, 0)"
| "transaction_loop await env ctxEnd (Suc left) n c =
     (let a = env n
      in if anCtxDone a then (Inl GwContext, c, 0)
         else if anSendFails a then (Inl GwSend, c, 1)
         else let (r, c) = await (anEvents a) c
              in case r of
                   Done v \<Rightarrow> (v, c, 1)
                 | Retry \<Rightarrow>
                     if 0 < left \<and> anBackoffDone a then (Inl GwContext, c, 1)
                     else let (v, c, k) = transaction_loop await env ctxEnd left (Suc n) c in (v, c, Suc k))"

section \<open>NAT-PMP\<close>

definition second :: int where "second = 1000000000"

text \<open>\<open>d / time.Second\<close> of a duration in nanoseconds; Go divides towards zero.\<close>

definition seconds :: "int \<Rightarrow> int" where
  "seconds d = (if 0 \<le> d then d div second else - ((- d) div second))"

datatype natpmp_protocol = ProtocolUDP | ProtocolTCP | ProtocolOther u8

fun natpmp_opcode :: "natpmp_protocol \<Rightarrow> u8" where
  "natpmp_opcode ProtocolUDP = 1"
| "natpmp_opcode ProtocolTCP = 2"
| "natpmp_opcode (ProtocolOther _) = 0"

record natpmp_MapRequest =
  nqProtocol :: natpmp_protocol
  nqInternalPort :: u16
  nqRequestedExternalPort :: u16
  nqLifetime :: int

definition natpmp_buildMapRequest :: "natpmp_MapRequest \<Rightarrow> gateway_error + bytes" where
  "natpmp_buildMapRequest req =
     (case nqProtocol req of
        ProtocolOther _ \<Rightarrow> Inl GwRequest
      | _ \<Rightarrow> Inr ([byte 0, byte (natpmp_opcode (nqProtocol req)), CHR 0x00, CHR 0x00] @ PutUint16 (nqInternalPort req)
               @ PutUint16 (nqRequestedExternalPort req) @ PutUint32 (word_of_int (seconds (nqLifetime req)))))"

record natpmp_mapResponse =
  nrResultCode :: u16
  nrEpoch :: u32
  nrInternalPort :: u16
  nrAssignedExternalPort :: u16
  nrLifetimeSeconds :: u32

definition natpmp_parseMapResponse :: "bytes \<Rightarrow> u8 \<Rightarrow> u16 \<Rightarrow> gateway_error + natpmp_mapResponse" where
  "natpmp_parseMapResponse packet wantOpcode wantInternalPort =
     (if length packet < 16 then Inl GwTruncated
      else if ubyte (packet ! 0) \<noteq> 0 then Inl GwWrongVersion
      else if ubyte (packet ! 1) \<noteq> wantOpcode + 128 then Inl GwWrongOpcode
      else let response = \<lparr>nrResultCode = Uint16 (take 2 (drop 2 packet)), nrEpoch = Uint32 (take 4 (drop 4 packet)),
                           nrInternalPort = Uint16 (take 2 (drop 8 packet)), nrAssignedExternalPort = Uint16 (take 2 (drop 10 packet)),
                           nrLifetimeSeconds = Uint32 (take 4 (drop 12 packet))\<rparr>
           in if length packet \<noteq> 16 then Inl GwTrailing
              else if nrResultCode response = 0 \<and> nrInternalPort response \<noteq> wantInternalPort then Inl GwInternalPort
              else Inr response)"

record natpmp_publicResponse =
  npResultCode :: u16
  npEpoch :: u32
  npAddress :: netip_addr

definition natpmp_parsePublicResponse :: "bytes \<Rightarrow> gateway_error + natpmp_publicResponse" where
  "natpmp_parsePublicResponse packet =
     (if length packet < 12 then Inl GwTruncated
      else if ubyte (packet ! 0) \<noteq> 0 then Inl GwWrongVersion
      else if ubyte (packet ! 1) \<noteq> 128 then Inl GwWrongOpcode
      else if length packet \<noteq> 12 then Inl GwTrailing
      else case AddrFromSlice (map ubyte (take 4 (drop 8 packet))) of
             None \<Rightarrow> Inl GwBadAddress
           | Some address \<Rightarrow>
               if \<not> Is4 address then Inl GwBadAddress
               else Inr \<lparr>npResultCode = Uint16 (take 2 (drop 2 packet)), npEpoch = Uint32 (take 4 (drop 4 packet)), npAddress = address\<rparr>)"

record natpmp_MapResult =
  nmProtocol :: natpmp_protocol
  nmInternalPort :: u16
  nmAssignedExternalPort :: u16
  nmLifetime :: int
  nmEpoch :: u32
  nmServerRebooted :: bool

fun natpmp_awaitMap ::
  "AddrPort \<Rightarrow> natpmp_MapRequest \<Rightarrow> net_event list \<Rightarrow> epochs \<Rightarrow> natpmp_MapResult answer \<times> epochs" where
  "natpmp_awaitMap server req [] c = (Retry, c)"
| "natpmp_awaitMap server req (CtxDone # es) c = (Done (Inl GwContext), c)"
| "natpmp_awaitMap server req (DeadlineFails # es) c = (Done (Inl GwDeadline), c)"
| "natpmp_awaitMap server req (ReadFails # es) c = (Retry, c)"
| "natpmp_awaitMap server req (Datagram from packet # es) c =
     (if addrPortOf from \<noteq> Some server then natpmp_awaitMap server req es c
      else case natpmp_parseMapResponse packet (natpmp_opcode (nqProtocol req)) (nqInternalPort req) of
        Inl e \<Rightarrow> (Done (Inl e), c)
      | Inr response \<Rightarrow>
          if nrResultCode response \<noteq> 0 then (Done (Inl (GwResult (unat (nrResultCode response)))), c)
          else let (rebooted, c) = observeEpoch (nrEpoch response) c
               in (Done (Inr \<lparr>nmProtocol = nqProtocol req, nmInternalPort = nqInternalPort req,
                              nmAssignedExternalPort = nrAssignedExternalPort response,
                              nmLifetime = int (unat (nrLifetimeSeconds response)) * second, nmEpoch = nrEpoch response,
                              nmServerRebooted = rebooted\<rparr>), c))"

text \<open>\<open>server\<close> and \<open>maxAttempts\<close> are the client's configuration.\<close>

definition natpmp_transaction ::
  "AddrPort \<Rightarrow> nat \<Rightarrow> natpmp_MapRequest \<Rightarrow> (nat \<Rightarrow> attempt) \<Rightarrow> bool \<Rightarrow> epochs \<Rightarrow> (gateway_error + natpmp_MapResult) \<times> epochs \<times> nat" where
  "natpmp_transaction server maxAttempts req env ctxEnd c =
     (case natpmp_buildMapRequest req of
        Inl e \<Rightarrow> (Inl e, c, 0)
      | Inr _ \<Rightarrow> transaction_loop (natpmp_awaitMap server req) env ctxEnd maxAttempts 1 c)"

definition natpmp_Renew ::
  "AddrPort \<Rightarrow> nat \<Rightarrow> natpmp_MapResult \<Rightarrow> int \<Rightarrow> (nat \<Rightarrow> attempt) \<Rightarrow> bool \<Rightarrow> epochs \<Rightarrow> (gateway_error + natpmp_MapResult) \<times> epochs \<times> nat" where
  "natpmp_Renew server maxAttempts m lifetime env ctxEnd c =
     (if nmInternalPort m = 0 then (Inl GwUnownedMapping, c, 0)
      else natpmp_transaction server maxAttempts
             \<lparr>nqProtocol = nmProtocol m, nqInternalPort = nmInternalPort m, nqRequestedExternalPort = nmAssignedExternalPort m,
              nqLifetime = lifetime\<rparr> env ctxEnd c)"

definition natpmp_Delete ::
  "AddrPort \<Rightarrow> nat \<Rightarrow> natpmp_MapResult \<Rightarrow> (nat \<Rightarrow> attempt) \<Rightarrow> bool \<Rightarrow> epochs \<Rightarrow> (gateway_error + natpmp_MapResult) \<times> epochs \<times> nat" where
  "natpmp_Delete server maxAttempts m env ctxEnd c =
     (if nmInternalPort m = 0 then (Inl GwUnownedMapping, c, 0)
      else natpmp_transaction server maxAttempts
             \<lparr>nqProtocol = nmProtocol m, nqInternalPort = nmInternalPort m, nqRequestedExternalPort = 0, nqLifetime = 0\<rparr> env ctxEnd c)"

section \<open>PCP\<close>

definition ProtoTCP :: u8 where "ProtoTCP = 6"
definition ProtoUDP :: u8 where "ProtoUDP = 17"

definition TransientResult :: "u8 \<Rightarrow> bool" where "TransientResult code \<longleftrightarrow> 128 \<le> code"

definition v4Mapped :: "netip_addr \<Rightarrow> bytes" where
  "v4Mapped addr =
     (case addr of
        Addr4 a b c d \<Rightarrow> replicate 10 (CHR 0x00) @ [CHR 0xFF, CHR 0xFF] @ map byte [a, b, c, d]
      | _ \<Rightarrow> replicate 16 (CHR 0x00))"

definition mappedToV4 :: "bytes \<Rightarrow> gateway_error + netip_addr" where
  "mappedToV4 b =
     (let v4 = Addr4 (ubyte (b ! 12)) (ubyte (b ! 13)) (ubyte (b ! 14)) (ubyte (b ! 15))
      in if length b \<noteq> 16 then Inl GwBadAddress
         else if b ! 10 = CHR 0xFF \<and> b ! 11 = CHR 0xFF then Inr v4
         else if list_all (\<lambda>c. c = CHR 0x00) (take 12 b) then Inr v4
         else Inl GwBadAddress)"

record pcp_MapRequest =
  pqProtocol :: u8
  pqInternalAddress :: netip_addr
  pqInternalPort :: u16
  pqSuggestedExternalPort :: u16
  pqLifetime :: int
  pqPreferFailure :: bool

definition pcp_buildMapRequest :: "pcp_MapRequest \<Rightarrow> bytes \<Rightarrow> gateway_error + bytes" where
  "pcp_buildMapRequest req nonce =
     (if pqProtocol req \<noteq> ProtoTCP \<and> pqProtocol req \<noteq> ProtoUDP then Inl GwRequest
      else if pqPreferFailure req \<and> pqSuggestedExternalPort req = 0 then Inl GwPreferFailureRequiresPort
      else if \<not> Is4 (pqInternalAddress req) then Inl GwRequest
      else if pqLifetime req < 0 \<or> 2 ^ 32 - 1 < seconds (pqLifetime req) then Inl GwRequest
      else Inr ([CHR 0x02, CHR 0x01, CHR 0x00, CHR 0x00] @ PutUint32 (word_of_int (seconds (pqLifetime req)))
             @ v4Mapped (pqInternalAddress req) @ nonce @ [byte (pqProtocol req), CHR 0x00, CHR 0x00, CHR 0x00]
             @ PutUint16 (pqInternalPort req) @ PutUint16 (pqSuggestedExternalPort req) @ replicate 16 (CHR 0x00)
             @ (if pqPreferFailure req then [CHR 0x02, CHR 0x00, CHR 0x00, CHR 0x00] else [])))"

definition pcp_buildAnnounceRequest :: "netip_addr \<Rightarrow> gateway_error + bytes" where
  "pcp_buildAnnounceRequest clientAddr =
     (if \<not> Is4 clientAddr then Inl GwRequest
      else Inr ([CHR 0x02, CHR 0x00, CHR 0x00, CHR 0x00] @ replicate 4 (CHR 0x00) @ v4Mapped clientAddr))"

record pcp_mapResponse =
  prResultCode :: u8
  prLifetimeSeconds :: u32
  prEpoch :: u32
  prNonce :: bytes
  prProtocol :: u8
  prInternalPort :: u16
  prAssignedExternalPort :: u16
  prAssignedExternalAddress :: netip_addr

definition pcp_header :: "bytes \<Rightarrow> pcp_mapResponse" where
  "pcp_header packet =
     \<lparr>prResultCode = ubyte (packet ! 3), prLifetimeSeconds = Uint32 (take 4 (drop 4 packet)), prEpoch = Uint32 (take 4 (drop 8 packet)),
      prNonce = replicate 12 (CHR 0x00), prProtocol = 0, prInternalPort = 0, prAssignedExternalPort = 0,
      prAssignedExternalAddress = AddrInvalid\<rparr>"

definition pcp_parseAnnounceResponse :: "bytes \<Rightarrow> gateway_error + pcp_mapResponse" where
  "pcp_parseAnnounceResponse packet =
     (if length packet < 24 then Inl GwTruncated
      else if length packet \<noteq> 24 then Inl GwTrailing
      else if packet ! 0 \<noteq> CHR 0x02 then Inl GwWrongVersion
      else if packet ! 1 \<noteq> CHR 0x80 then Inl GwWrongOpcode
      else Inr (pcp_header packet))"

definition pcp_parseMapResponse :: "bytes \<Rightarrow> u8 \<Rightarrow> u16 \<Rightarrow> gateway_error + pcp_mapResponse" where
  "pcp_parseMapResponse packet wantProtocol wantInternalPort =
     (if length packet < 24 then Inl GwTruncated
      else if length packet mod 4 \<noteq> 0 then Inl GwTrailing
      else if packet ! 0 \<noteq> CHR 0x02 then Inl GwWrongVersion
      else if packet ! 1 \<noteq> CHR 0x81 then Inl GwWrongOpcode
      else let response = pcp_header packet
           in if prResultCode response \<noteq> 0 then Inr response
              else if length packet \<noteq> 60 then Inl GwTrailing
              else let payload = drop 24 packet
                   in andThen (mappedToV4 (take 16 (drop 20 payload))) (\<lambda>external.
                      let response = response\<lparr>prNonce := take 12 payload, prProtocol := ubyte (payload ! 12),
                            prInternalPort := Uint16 (take 2 (drop 16 payload)),
                            prAssignedExternalPort := Uint16 (take 2 (drop 18 payload)), prAssignedExternalAddress := external\<rparr>
                      in if prProtocol response \<noteq> wantProtocol then Inl GwProtocol
                         else if prInternalPort response \<noteq> wantInternalPort then Inl GwInternalPort
                         else Inr response))"

record pcp_MapResult =
  pmNonce :: bytes
  pmProtocol :: u8
  pmInternalAddress :: netip_addr
  pmInternalPort :: u16
  pmAssignedExternalPort :: u16
  pmAssignedExternalAddress :: netip_addr
  pmLifetime :: int
  pmEpoch :: u32
  pmServerRebooted :: bool

fun pcp_awaitResponse ::
  "AddrPort \<Rightarrow> pcp_MapRequest \<Rightarrow> bytes \<Rightarrow> net_event list \<Rightarrow> epochs \<Rightarrow> pcp_MapResult answer \<times> epochs" where
  "pcp_awaitResponse server req nonce [] c = (Retry, c)"
| "pcp_awaitResponse server req nonce (CtxDone # es) c = (Done (Inl GwContext), c)"
| "pcp_awaitResponse server req nonce (DeadlineFails # es) c = (Done (Inl GwDeadline), c)"
| "pcp_awaitResponse server req nonce (ReadFails # es) c = (Retry, c)"
| "pcp_awaitResponse server req nonce (Datagram from packet # es) c =
     (if addrPortOf from \<noteq> Some server then pcp_awaitResponse server req nonce es c
      else case pcp_parseMapResponse packet (pqProtocol req) (pqInternalPort req) of
        Inl e \<Rightarrow> (Done (Inl e), c)
      | Inr response \<Rightarrow>
          if prResultCode response \<noteq> 0 then
            (if TransientResult (prResultCode response) then (Retry, c) else (Done (Inl (GwResult (unat (prResultCode response)))), c))
          else if prNonce response \<noteq> nonce then (Done (Inl GwNonceMismatch), c)
          else let (rebooted, c) = observeEpoch (prEpoch response) c
               in (Done (Inr \<lparr>pmNonce = prNonce response, pmProtocol = pqProtocol req, pmInternalAddress = pqInternalAddress req,
                              pmInternalPort = pqInternalPort req, pmAssignedExternalPort = prAssignedExternalPort response,
                              pmAssignedExternalAddress = prAssignedExternalAddress response,
                              pmLifetime = int (unat (prLifetimeSeconds response)) * second, pmEpoch = prEpoch response,
                              pmServerRebooted = rebooted\<rparr>), c))"

definition pcp_transaction ::
  "AddrPort \<Rightarrow> nat \<Rightarrow> pcp_MapRequest \<Rightarrow> bytes \<Rightarrow> (nat \<Rightarrow> attempt) \<Rightarrow> bool \<Rightarrow> epochs \<Rightarrow> (gateway_error + pcp_MapResult) \<times> epochs \<times> nat" where
  "pcp_transaction server maxAttempts req nonce env ctxEnd c =
     (case pcp_buildMapRequest req nonce of
        Inl e \<Rightarrow> (Inl e, c, 0)
      | Inr _ \<Rightarrow> transaction_loop (pcp_awaitResponse server req nonce) env ctxEnd maxAttempts 1 c)"

text \<open>Deleting and renewing reuse the nonce of the mapping.\<close>

definition owned_request :: "pcp_MapResult \<Rightarrow> int \<Rightarrow> pcp_MapRequest" where
  "owned_request m lifetime =
     \<lparr>pqProtocol = pmProtocol m, pqInternalAddress = pmInternalAddress m, pqInternalPort = pmInternalPort m,
      pqSuggestedExternalPort = pmAssignedExternalPort m, pqLifetime = lifetime, pqPreferFailure = False\<rparr>"

definition pcp_Renew ::
  "AddrPort \<Rightarrow> nat \<Rightarrow> pcp_MapResult \<Rightarrow> int \<Rightarrow> (nat \<Rightarrow> attempt) \<Rightarrow> bool \<Rightarrow> epochs \<Rightarrow> (gateway_error + pcp_MapResult) \<times> epochs \<times> nat" where
  "pcp_Renew server maxAttempts m lifetime env ctxEnd c =
     (if pmInternalPort m = 0 then (Inl GwUnownedMapping, c, 0)
      else pcp_transaction server maxAttempts (owned_request m lifetime) (pmNonce m) env ctxEnd c)"

definition pcp_Delete ::
  "AddrPort \<Rightarrow> nat \<Rightarrow> pcp_MapResult \<Rightarrow> (nat \<Rightarrow> attempt) \<Rightarrow> bool \<Rightarrow> epochs \<Rightarrow> (gateway_error + pcp_MapResult) \<times> epochs \<times> nat" where
  "pcp_Delete server maxAttempts m env ctxEnd c =
     (if pmInternalPort m = 0 then (Inl GwUnownedMapping, c, 0)
      else pcp_transaction server maxAttempts (owned_request m 0) (pmNonce m) env ctxEnd c)"

text \<open>\<open>Map\<close> draws the nonce; a failing generator ends it before anything is sent.\<close>

definition pcp_Map ::
  "AddrPort \<Rightarrow> nat \<Rightarrow> bytes option \<Rightarrow> pcp_MapRequest \<Rightarrow> (nat \<Rightarrow> attempt) \<Rightarrow> bool \<Rightarrow> epochs \<Rightarrow> (gateway_error + pcp_MapResult) \<times> epochs \<times> nat" where
  "pcp_Map server maxAttempts drawn req env ctxEnd c =
     (case drawn of None \<Rightarrow> (Inl GwRequest, c, 0) | Some nonce \<Rightarrow> pcp_transaction server maxAttempts req nonce env ctxEnd c)"

fun pcp_awaitAnnounce :: "AddrPort \<Rightarrow> net_event list \<Rightarrow> epochs \<Rightarrow> u32 answer \<times> epochs" where
  "pcp_awaitAnnounce server [] c = (Retry, c)"
| "pcp_awaitAnnounce server (CtxDone # es) c = (Done (Inl GwContext), c)"
| "pcp_awaitAnnounce server (DeadlineFails # es) c = (Done (Inl GwDeadline), c)"
| "pcp_awaitAnnounce server (ReadFails # es) c = (Retry, c)"
| "pcp_awaitAnnounce server (Datagram from packet # es) c =
     (if addrPortOf from \<noteq> Some server then pcp_awaitAnnounce server es c
      else case pcp_parseAnnounceResponse packet of
        Inl e \<Rightarrow> (Done (Inl e), c)
      | Inr response \<Rightarrow>
          if prResultCode response \<noteq> 0 then
            (if TransientResult (prResultCode response) then (Retry, c) else (Done (Inl (GwResult (unat (prResultCode response)))), c))
          else (Done (Inr (prEpoch response)), snd (observeEpoch (prEpoch response) c)))"

definition pcp_Announce ::
  "AddrPort \<Rightarrow> nat \<Rightarrow> netip_addr \<Rightarrow> (nat \<Rightarrow> attempt) \<Rightarrow> bool \<Rightarrow> epochs \<Rightarrow> (gateway_error + u32) \<times> epochs \<times> nat" where
  "pcp_Announce server maxAttempts clientAddr env ctxEnd c =
     (case pcp_buildAnnounceRequest clientAddr of
        Inl e \<Rightarrow> (Inl e, c, 0)
      | Inr _ \<Rightarrow> transaction_loop (pcp_awaitAnnounce server) env ctxEnd maxAttempts 1 c)"

fun natpmp_awaitPublic :: "AddrPort \<Rightarrow> net_event list \<Rightarrow> epochs \<Rightarrow> (netip_addr \<times> u32) answer \<times> epochs" where
  "natpmp_awaitPublic server [] c = (Retry, c)"
| "natpmp_awaitPublic server (CtxDone # es) c = (Done (Inl GwContext), c)"
| "natpmp_awaitPublic server (DeadlineFails # es) c = (Done (Inl GwDeadline), c)"
| "natpmp_awaitPublic server (ReadFails # es) c = (Retry, c)"
| "natpmp_awaitPublic server (Datagram from packet # es) c =
     (if addrPortOf from \<noteq> Some server then natpmp_awaitPublic server es c
      else case natpmp_parsePublicResponse packet of
        Inl e \<Rightarrow> (Done (Inl e), c)
      | Inr response \<Rightarrow>
          if npResultCode response \<noteq> 0 then (Done (Inl (GwResult (unat (npResultCode response)))), c)
          else (Done (Inr (npAddress response, npEpoch response)), snd (observeEpoch (npEpoch response) c)))"

definition natpmp_PublicAddress ::
  "AddrPort \<Rightarrow> nat \<Rightarrow> (nat \<Rightarrow> attempt) \<Rightarrow> bool \<Rightarrow> epochs \<Rightarrow> (gateway_error + netip_addr \<times> u32) \<times> epochs \<times> nat" where
  "natpmp_PublicAddress server maxAttempts env ctxEnd c = transaction_loop (natpmp_awaitPublic server) env ctxEnd maxAttempts 1 c"

end
