(* ===== verification/Agent_Gateway_Props.thy ===== *)
theory Agent_Gateway_Props
  imports Agent_Gateway
begin

text \<open>
  What the gateway clients promise: only the gateway's own datagrams count, an accepted mapping rests on
  one of them, and a transaction sends at most its bounded number of requests. The part both
  protocols share is a locale over the read loop.
\<close>

section \<open>The shared contract\<close>

fun from_server :: "AddrPort \<Rightarrow> net_event \<Rightarrow> bool" where
  "from_server server (Datagram from packet) = (addrPortOf from = Some server)"
| "from_server server _ = True"

definition without_strangers :: "AddrPort \<Rightarrow> (nat \<Rightarrow> attempt) \<Rightarrow> nat \<Rightarrow> attempt" where
  "without_strangers server env i = (env i)\<lparr>anEvents := filter (from_server server) (anEvents (env i))\<rparr>"

text \<open>The gateway answered attempt \<open>i\<close> with \<open>packet\<close>.\<close>

definition answered :: "AddrPort \<Rightarrow> (nat \<Rightarrow> attempt) \<Rightarrow> nat \<Rightarrow> bytes \<Rightarrow> bool" where
  "answered server env i packet \<longleftrightarrow> \<not> anCtxDone (env i) \<and> \<not> anSendFails (env i) \<and>
     (\<exists>from. Datagram from packet \<in> set (anEvents (env i)) \<and> addrPortOf from = Some server)"

text \<open>
  A read loop: it accepts only what a datagram of the server grants, and skips every other datagram.
\<close>

locale gateway_exchange =
  fixes await :: "net_event list \<Rightarrow> epochs \<Rightarrow> 'a answer \<times> epochs" and server :: AddrPort and granted :: "bytes \<Rightarrow> 'a \<Rightarrow> bool"
  assumes await_granted: "await es c = (Done (Inr v), c') \<Longrightarrow>
      \<exists>from packet. Datagram from packet \<in> set es \<and> addrPortOf from = Some server \<and> granted packet v"
    and await_own: "await (filter (from_server server) es) c = await es c"
begin

lemma loop_granted:
  assumes "transaction_loop await env ctxEnd left n c = (Inr v, c', k)"
  shows "\<exists>i packet. n \<le> i \<and> i < n + left \<and> answered server env i packet \<and> granted packet v"
  using assms
proof (induction left arbitrary: n c k)
  case (Suc left)
  obtain r c1 where a: "await (anEvents (env n)) c = (r, c1)" by fastforce
  show ?case
  proof (cases r)
    case Retry
    with Suc.prems a obtain k' where "transaction_loop await env ctxEnd left (Suc n) c1 = (Inr v, c', k')"
      by (auto simp: Let_def split: if_splits prod.splits)
    from Suc.IH [OF this] obtain i packet where "Suc n \<le> i" "i < Suc n + left" "answered server env i packet" "granted packet v" by blast
    then show ?thesis by (intro exI [of _ i] exI [of _ packet]) simp
  next
    case (Done v')
    with Suc.prems a have "v' = Inr v" "\<not> anCtxDone (env n)" "\<not> anSendFails (env n)"
      by (auto simp: Let_def split: if_splits)
    with await_granted [of "anEvents (env n)" c v c1] a Done have "\<exists>packet. answered server env n packet \<and> granted packet v"
      unfolding answered_def by blast
    then show ?thesis by (intro exI [of _ n]) simp
  qed
qed (simp split: if_splits)

lemma loop_sends:
  assumes "transaction_loop await env ctxEnd left n c = (r, c', k)"
  shows "k \<le> left"
  using assms
proof (induction left arbitrary: n c r c' k)
  case (Suc left)
  obtain a c1 where a: "await (anEvents (env n)) c = (a, c1)" by fastforce
  obtain r' c2 k' where l: "transaction_loop await env ctxEnd left (Suc n) c1 = (r', c2, k')" using prod_cases3 by blast
  have "k = 0 \<or> k = 1 \<or> k = Suc k'" using Suc.prems a l by (auto simp: Let_def split: if_splits answer.splits)
  with Suc.IH [OF l] show ?case by auto
qed (simp split: if_splits)

lemma loop_strangers:
  "transaction_loop await (without_strangers server env) ctxEnd left n c = transaction_loop await env ctxEnd left n c"
proof (induction left arbitrary: n c)
  case (Suc left)
  have "anEvents (without_strangers server env n) = filter (from_server server) (anEvents (env n))"
    "anCtxDone (without_strangers server env n) = anCtxDone (env n)" "anSendFails (without_strangers server env n) = anSendFails (env n)"
    "anBackoffDone (without_strangers server env n) = anBackoffDone (env n)"
    by (simp_all add: without_strangers_def)
  then show ?case unfolding transaction_loop.simps Let_def by (simp only: await_own Suc)
qed simp

end

section \<open>The clients\<close>

text \<open>What a NAT-PMP and a PCP response grant.\<close>

definition natpmp_granted :: "natpmp_MapRequest \<Rightarrow> bytes \<Rightarrow> natpmp_MapResult \<Rightarrow> bool" where
  "natpmp_granted req packet v \<longleftrightarrow> length packet = 16 \<and> ubyte (packet ! 0) = 0 \<and>
     ubyte (packet ! 1) = natpmp_opcode (nqProtocol req) + 128 \<and> Uint16 (take 2 (drop 2 packet)) = 0 \<and>
     Uint16 (take 2 (drop 8 packet)) = nqInternalPort req \<and> nmInternalPort v = nqInternalPort req \<and>
     nmAssignedExternalPort v = Uint16 (take 2 (drop 10 packet)) \<and> nmLifetime v = int (unat (Uint32 (take 4 (drop 12 packet)))) * second"

definition pcp_granted :: "pcp_MapRequest \<Rightarrow> bytes \<Rightarrow> bytes \<Rightarrow> pcp_MapResult \<Rightarrow> bool" where
  "pcp_granted req nonce packet v \<longleftrightarrow> length packet = 60 \<and> packet ! 0 = CHR 0x02 \<and> packet ! 1 = CHR 0x81 \<and> ubyte (packet ! 3) = 0 \<and>
     take 12 (drop 24 packet) = nonce \<and> pmNonce v = nonce \<and> ubyte (packet ! 36) = pqProtocol req \<and>
     Uint16 (take 2 (drop 40 packet)) = pqInternalPort req \<and> pmInternalPort v = pqInternalPort req \<and> pmInternalAddress v = pqInternalAddress req \<and>
     pmAssignedExternalPort v = Uint16 (take 2 (drop 42 packet)) \<and> mappedToV4 (take 16 (drop 44 packet)) = Inr (pmAssignedExternalAddress v) \<and>
     pmLifetime v = int (unat (Uint32 (take 4 (drop 4 packet)))) * second"

lemma await_own_events:
  "natpmp_awaitMap server req (filter (from_server server) es) c = natpmp_awaitMap server req es c"
  "pcp_awaitResponse server preq nonce (filter (from_server server) es) c = pcp_awaitResponse server preq nonce es c"
  "natpmp_awaitPublic server (filter (from_server server) es) c = natpmp_awaitPublic server es c"
  "pcp_awaitAnnounce server (filter (from_server server) es) c = pcp_awaitAnnounce server es c"
proof -
  show "natpmp_awaitMap server req (filter (from_server server) es) c = natpmp_awaitMap server req es c"
    by (induction server req es c rule: natpmp_awaitMap.induct) simp_all
  show "pcp_awaitResponse server preq nonce (filter (from_server server) es) c = pcp_awaitResponse server preq nonce es c"
    by (induction server preq nonce es c rule: pcp_awaitResponse.induct) simp_all
  show "natpmp_awaitPublic server (filter (from_server server) es) c = natpmp_awaitPublic server es c"
    by (induction server es c rule: natpmp_awaitPublic.induct) simp_all
  show "pcp_awaitAnnounce server (filter (from_server server) es) c = pcp_awaitAnnounce server es c"
    by (induction server es c rule: pcp_awaitAnnounce.induct) simp_all
qed

lemma natpmp_response_grants:
  assumes "natpmp_awaitMap server req es c = (Done (Inr v), c')"
  shows "\<exists>from packet. Datagram from packet \<in> set es \<and> addrPortOf from = Some server \<and> natpmp_granted req packet v"
  using assms
proof (induction server req es c rule: natpmp_awaitMap.induct)
  case (5 server req src packet es c)
  show ?case
  proof (cases "addrPortOf src = Some server")
    case True
    with 5 have "natpmp_granted req packet v"
      by (auto simp: natpmp_granted_def natpmp_parseMapResponse_def observeEpoch_def Let_def split: sum.splits if_splits)
    with True show ?thesis by auto
  next
    case False
    with 5 show ?thesis by auto
  qed
qed auto

lemma pcp_parse_granted:
  assumes "pcp_parseMapResponse packet (pqProtocol req) (pqInternalPort req) = Inr response" and "prResultCode response = 0"
  shows "length packet = 60 \<and> packet ! 0 = CHR 0x02 \<and> packet ! 1 = CHR 0x81 \<and> ubyte (packet ! 3) = 0 \<and> prNonce response = take 12 (drop 24 packet) \<and>
    ubyte (packet ! 36) = pqProtocol req \<and> Uint16 (take 2 (drop 40 packet)) = pqInternalPort req \<and>
    prAssignedExternalPort response = Uint16 (take 2 (drop 42 packet)) \<and> mappedToV4 (take 16 (drop 44 packet)) = Inr (prAssignedExternalAddress response) \<and>
    prLifetimeSeconds response = Uint32 (take 4 (drop 4 packet))"
  using assms by (auto simp: pcp_parseMapResponse_def pcp_header_def Let_def split: if_splits)

lemma pcp_response_grants:
  assumes "pcp_awaitResponse server req nonce es c = (Done (Inr v), c')"
  shows "\<exists>from packet. Datagram from packet \<in> set es \<and> addrPortOf from = Some server \<and> pcp_granted req nonce packet v"
  using assms
proof (induction server req nonce es c rule: pcp_awaitResponse.induct)
  case (5 server req nonce src packet es c)
  show ?case
  proof (cases "addrPortOf src = Some server")
    case True
    with 5 obtain response where "pcp_parseMapResponse packet (pqProtocol req) (pqInternalPort req) = Inr response" "prResultCode response = 0"
      "prNonce response = nonce" "v = \<lparr>pmNonce = prNonce response, pmProtocol = pqProtocol req, pmInternalAddress = pqInternalAddress req,
          pmInternalPort = pqInternalPort req, pmAssignedExternalPort = prAssignedExternalPort response,
          pmAssignedExternalAddress = prAssignedExternalAddress response, pmLifetime = int (unat (prLifetimeSeconds response)) * second,
          pmEpoch = prEpoch response, pmServerRebooted = fst (observeEpoch (prEpoch response) c)\<rparr>"
      by (auto simp: Let_def split: sum.splits if_splits prod.splits)
    with pcp_parse_granted [of packet req response] have "pcp_granted req nonce packet v" by (auto simp: pcp_granted_def)
    with True show ?thesis by auto
  next
    case False
    with 5 show ?thesis by auto
  qed
qed auto

interpretation natpmp: gateway_exchange "natpmp_awaitMap server req" server "natpmp_granted req" for server req
  by unfold_locales (rule natpmp_response_grants, assumption, rule await_own_events)

interpretation pcp: gateway_exchange "pcp_awaitResponse server req nonce" server "pcp_granted req nonce" for server req nonce
  by unfold_locales (rule pcp_response_grants, assumption, rule await_own_events)

text \<open>
  C25: datagrams of strangers do not matter. Removing from the trace every datagram that does not come from the gateway's
  address and port changes neither the outcome of a NAT-PMP or PCP exchange nor the epoch it leaves
  nor the number of requests it sends.
\<close>
theorem gateway_ignores_strangers:
  "natpmp_transaction server n req (without_strangers server env) ctxEnd c = natpmp_transaction server n req env ctxEnd c \<and>
   pcp_transaction server n preq nonce (without_strangers server env) ctxEnd c = pcp_transaction server n preq nonce env ctxEnd c"
  by (simp add: natpmp_transaction_def pcp_transaction_def natpmp.loop_strangers pcp.loop_strangers split: sum.split)

text \<open>
  C24: a PCP mapping belongs to the client that asked for it. When acquiring succeeds, one of the
  bounded number of requests was answered from the gateway's address with an exact 60-byte success response that echoes
  the nonce, the protocol and the internal port, and the reported external endpoint and lifetime
  are the ones in it; deleting and renewing without an internal port send nothing.
\<close>
theorem pcp_mapping_owned:
  "(\<forall>v c' k. pcp_transaction server n req nonce env ctxEnd c = (Inr v, c', k) \<longrightarrow>
      k \<le> n \<and> (\<exists>i packet. 1 \<le> i \<and> i \<le> n \<and> answered server env i packet \<and> pcp_granted req nonce packet v)) \<and>
   (pmInternalPort m = 0 \<longrightarrow> pcp_Delete server n m env ctxEnd c = (Inl GwUnownedMapping, c, 0) \<and>
      pcp_Renew server n m lifetime env ctxEnd c = (Inl GwUnownedMapping, c, 0))"
proof (intro conjI allI impI)
  fix v c' k
  assume "pcp_transaction server n req nonce env ctxEnd c = (Inr v, c', k)"
  then have l: "transaction_loop (pcp_awaitResponse server req nonce) env ctxEnd n 1 c = (Inr v, c', k)"
    by (auto simp: pcp_transaction_def split: sum.splits)
  show "k \<le> n" by (rule pcp.loop_sends [OF l])
  from pcp.loop_granted [OF l] show "\<exists>i packet. 1 \<le> i \<and> i \<le> n \<and> answered server env i packet \<and> pcp_granted req nonce packet v"
    by (metis less_Suc_eq_le plus_1_eq_Suc)
qed (simp_all add: pcp_Delete_def pcp_Renew_def)

text \<open>The weaker NAT-PMP contract: there is no nonce, only the tuple is echoed.\<close>

lemma natpmp_mapping_granted:
  assumes "natpmp_transaction server n req env ctxEnd c = (Inr v, c', k)"
  shows "k \<le> n \<and> (\<exists>i packet. 1 \<le> i \<and> i \<le> n \<and> answered server env i packet \<and> natpmp_granted req packet v)"
proof -
  from assms have l: "transaction_loop (natpmp_awaitMap server req) env ctxEnd n 1 c = (Inr v, c', k)"
    by (auto simp: natpmp_transaction_def split: sum.splits)
  from natpmp.loop_granted [OF l] natpmp.loop_sends [OF l] show ?thesis by (metis less_Suc_eq_le plus_1_eq_Suc)
qed

text \<open>A second without a reply is no reply: with enough silent attempts the client gives up.\<close>

lemma silent_gateway:
  assumes "\<forall>i. env i = \<lparr>anCtxDone = False, anSendFails = False, anEvents = [], anBackoffDone = False\<rparr>"
  shows "transaction_loop (pcp_awaitResponse server req nonce) env False n k c = (Inl GwNoResponse, c, n)"
  using assms by (induction n arbitrary: k) simp_all

section \<open>Codec facts\<close>

lemma mapped_roundtrip: "mappedToV4 (v4Mapped (Addr4 a b c d)) = Inr (Addr4 a b c d)"
  by (simp add: mappedToV4_def v4Mapped_def nth_append)

text \<open>The first ten bytes of the field are not looked at: any address with \<open>ffff\<close> in the sixth group reads as IPv4.\<close>

lemma mapped_accepts_foreign_prefix:
  "mappedToV4 ([CHR 0x20, CHR 0x01] @ replicate 8 (CHR 0x00) @ [CHR 0xFF, CHR 0xFF] @ map byte [a, b, c, d]) = Inr (Addr4 a b c d)"
  by (simp add: mappedToV4_def nth_append)

text \<open>A positive lifetime below one second, or of \<open>2 ^ 32\<close> seconds for NAT-PMP, is sent as the delete request.\<close>

lemma natpmp_lifetime_wraps:
  assumes "nqProtocol req = ProtocolTCP" and "nqLifetime req = 2 ^ 32 * second \<or> 0 < nqLifetime req \<and> nqLifetime req < second"
  shows "natpmp_buildMapRequest req = natpmp_buildMapRequest (req\<lparr>nqLifetime := 0\<rparr>)"
proof -
  have "(word_of_int (seconds (nqLifetime req)) :: u32) = 0"
  proof (cases "nqLifetime req = 2 ^ 32 * second")
    case True
    then have "seconds (nqLifetime req) = 2 ^ 32" by (simp add: seconds_def second_def)
    then show ?thesis by simp
  next
    case False
    with assms(2) have "seconds (nqLifetime req) = 0" by (simp add: seconds_def div_pos_pos_trivial)
    then show ?thesis by simp
  qed
  moreover have "(word_of_int (seconds 0) :: u32) = 0" by (simp add: seconds_def)
  ultimately show ?thesis using assms(1) by (simp add: natpmp_buildMapRequest_def)
qed

section \<open>Witness\<close>

definition demo_gateway :: AddrPort where "demo_gateway = \<lparr>apAddr = Addr4 192 168 1 1, apPort = 5351\<rparr>"

definition demo_request :: pcp_MapRequest where
  "demo_request = \<lparr>pqProtocol = 6, pqInternalAddress = Addr4 192 168 1 20, pqInternalPort = 8080, pqSuggestedExternalPort = 0,
     pqLifetime = 7200 * second, pqPreferFailure = False\<rparr>"

definition demo_response :: bytes where
  "demo_response = [CHR 0x02, CHR 0x81, CHR 0x00, CHR 0x00] @ PutUint32 7200 @ PutUint32 5 @ replicate 12 (CHR 0x00) @
     ''012345678901'' @ [CHR 0x06, CHR 0x00, CHR 0x00, CHR 0x00] @ PutUint16 8080 @ PutUint16 40000 @ v4Mapped (Addr4 203 0 113 9)"

text \<open>A stranger's datagram comes first.\<close>

definition demo_env :: "nat \<Rightarrow> attempt" where
  "demo_env i = \<lparr>anCtxDone = False, anSendFails = False,
     anEvents = [Datagram (UDPSource [10, 0, 0, 66] 5351) demo_response, Datagram (UDPSource [192, 168, 1, 1] 5351) demo_response],
     anBackoffDone = False\<rparr>"

lemma demo_pcp:
  "\<exists>v c' k. pcp_transaction demo_gateway 3 demo_request ''012345678901'' demo_env False \<lparr>lastEpoch = 0, sawEpoch = False\<rparr> = (Inr v, c', k)"
proof -
  have parse: "\<exists>r. pcp_parseMapResponse demo_response 6 8080 = Inr r \<and> prResultCode r = 0 \<and> prNonce r = ''012345678901''"
    by (simp add: pcp_parseMapResponse_def demo_response_def pcp_header_def v4Mapped_def mappedToV4_def nth_append ubyte_def Let_def)
  have "\<exists>b. pcp_buildMapRequest demo_request ''012345678901'' = Inr b"
    by (simp add: pcp_buildMapRequest_def demo_request_def ProtoTCP_def seconds_def second_def)
  with parse show ?thesis
    by (auto simp: pcp_transaction_def demo_env_def demo_gateway_def demo_request_def numeral_3_eq_3 observeEpoch_def)
qed

theorem pcp_mapping_owned_witness:
  "\<exists>v c' k i packet. pcp_transaction demo_gateway 3 demo_request ''012345678901'' demo_env False \<lparr>lastEpoch = 0, sawEpoch = False\<rparr> = (Inr v, c', k) \<and>
     k \<le> 3 \<and> answered demo_gateway demo_env i packet \<and> pmNonce v = ''012345678901''"
proof -
  obtain v c' k where t: "pcp_transaction demo_gateway 3 demo_request ''012345678901'' demo_env False \<lparr>lastEpoch = 0, sawEpoch = False\<rparr> = (Inr v, c', k)"
    using demo_pcp by blast
  with pcp_mapping_owned [THEN conjunct1, rule_format, OF t] show ?thesis unfolding pcp_granted_def by blast
qed

end
