(* ===== verification/Agent_Netip.thy ===== *)
theory Agent_Netip
  imports Agent_Endpoint "HOL-Library.List_Lexorder" "HOL-Library.Product_Lexorder" "HOL-Library.Char_ord" "HOL-Library.Multiset"
begin

text \<open>
  The parts of \<open>net/netip\<close>, \<open>strconv\<close> and \<open>strings\<close> the traversal code uses beyond \<open>Agent_Endpoint\<close>: parsing
  addresses of both families and address-port pairs, unmapping, the order of addresses, printing, the
  classification predicates, prefixes and \<open>strings.TrimSpace\<close>.
\<close>

section \<open>Parsing\<close>

text \<open>\<open>strconv.ParseUint(s, 10, 16)\<close>: decimal digits only, at most 65535.\<close>

definition ParseUint16 :: "string \<Rightarrow> u16 option" where
  "ParseUint16 s =
     (if s = [] \<or> \<not> list_all is_dec_digit s then None
      else if dec_val s > 65535 then None else Some (of_int (dec_val s)))"

definition hex_val :: "char \<Rightarrow> nat option" where
  "hex_val c =
     (let n = of_char c :: nat
      in if 48 \<le> n \<and> n \<le> 57 then Some (n - 48)
         else if 97 \<le> n \<and> n \<le> 102 then Some (n - 87)
         else if 65 \<le> n \<and> n \<le> 70 then Some (n - 55)
         else None)"

text \<open>One group of hex digits: the number of digits, the value, the rest. A fifth digit fails.\<close>

fun parseHexGroup :: "nat \<Rightarrow> nat \<Rightarrow> string \<Rightarrow> (nat \<times> nat \<times> string) option" where
  "parseHexGroup off acc [] = Some (off, acc, [])"
| "parseHexGroup off acc (c # cs) =
     (case hex_val c of
        None \<Rightarrow> Some (off, acc, c # cs)
      | Some v \<Rightarrow> if off > 3 then None else parseHexGroup (Suc off) (acc * 16 + v) cs)"

text \<open>
  The loop of \<open>parseIPv6\<close>: \<open>ip\<close> holds the bytes written so far, \<open>ell\<close> the position of the ellipsis. A round
  writes at least two bytes, so eight rounds exhaust the sixteen bytes.
\<close>

fun parseIPv6Loop :: "nat \<Rightarrow> u8 list \<Rightarrow> nat option \<Rightarrow> string \<Rightarrow> (u8 list \<times> nat option) option" where
  "parseIPv6Loop 0 ip ell s = (if s = [] then Some (ip, ell) else None)"
| "parseIPv6Loop (Suc n) ip ell s =
     (case parseHexGroup 0 0 s of
        None \<Rightarrow> None
      | Some (off, acc, rest) \<Rightarrow>
          if off = 0 then None
          else if rest \<noteq> [] \<and> hd rest = CHR ''.'' then
            (if ell = None \<and> length ip \<noteq> 12 then None
             else if length ip + 4 > 16 then None
             else case parseIPv4Fields 0 0 [] s of
                    Some [a, b, c, d] \<Rightarrow> Some (ip @ [of_int a, of_int b, of_int c, of_int d], ell)
                  | _ \<Rightarrow> None)
          else let ip' = ip @ [of_nat (acc div 256), of_nat acc]
               in case rest of
                    [] \<Rightarrow> Some (ip', ell)
                  | c # cs \<Rightarrow>
                      if c \<noteq> CHR '':'' \<or> cs = [] then None
                      else if hd cs = CHR '':'' then
                        (if ell \<noteq> None then None
                         else if tl cs = [] then Some (ip', Some (length ip'))
                         else parseIPv6Loop n ip' (Some (length ip')) (tl cs))
                      else parseIPv6Loop n ip' ell cs)"

definition expandEllipsis :: "u8 list \<Rightarrow> nat option \<Rightarrow> u8 list option" where
  "expandEllipsis ip ell =
     (if length ip < 16 then
        (case ell of None \<Rightarrow> None | Some e \<Rightarrow> Some (take e ip @ replicate (16 - length ip) 0 @ drop e ip))
      else if ell \<noteq> None then None else Some ip)"

definition parseIPv6 :: "string \<Rightarrow> netip_addr option" where
  "parseIPv6 s0 =
     (let s = takeWhile (\<lambda>c. c \<noteq> CHR ''%'') s0; zone = drop (Suc (length s)) s0
      in if CHR ''%'' \<in> set s0 \<and> zone = [] then None
         else let lead = (take 2 s = ''::''); s' = (if lead then drop 2 s else s)
              in if lead \<and> s' = [] then Some (Addr6 (replicate 16 0) zone)
                 else case parseIPv6Loop 8 [] (if lead then Some 0 else None) s' of
                        None \<Rightarrow> None
                      | Some (ip, ell) \<Rightarrow> map_option (\<lambda>v. Addr6 v zone) (expandEllipsis ip ell))"

fun parseAddrScan :: "string \<Rightarrow> string \<Rightarrow> netip_addr option" where
  "parseAddrScan s [] = None"
| "parseAddrScan s (c # cs) =
     (if c = CHR ''.'' then ParseAddr4 s
      else if c = CHR '':'' then parseIPv6 s
      else if c = CHR ''%'' then None
      else parseAddrScan s cs)"

definition ParseAddr :: "string \<Rightarrow> netip_addr option" where
  "ParseAddr s = parseAddrScan s s"

fun Is6 :: "netip_addr \<Rightarrow> bool" where
  "Is6 (Addr6 v z) = True"
| "Is6 _ = False"

type_synonym AddrPort = "netip_addr \<times> u16"

definition ParseAddrPort :: "string \<Rightarrow> AddrPort option" where
  "ParseAddrPort s =
     (case last_index_byte (CHR '':'') s of
        None \<Rightarrow> None
      | Some i \<Rightarrow>
          let ip = take i s; port = drop (Suc i) s in
          if ip = [] \<or> port = [] then None
          else let v6 = (hd ip = CHR ''['') in
          if v6 \<and> (length ip < 2 \<or> last ip \<noteq> CHR '']'') then None
          else case ParseUint16 port of
            None \<Rightarrow> None
          | Some p \<Rightarrow>
              (case ParseAddr (if v6 then butlast (tl ip) else ip) of
                 None \<Rightarrow> None
               | Some a \<Rightarrow> if v6 \<and> Is4 a \<or> \<not> v6 \<and> Is6 a then None else Some (a, p)))"

fun Unmap :: "netip_addr \<Rightarrow> netip_addr" where
  "Unmap (Addr6 v z) =
     (if Is4In6 (Addr6 v z) then Addr4 (v ! 12) (v ! 13) (v ! 14) (v ! 15) else Addr6 v z)"
| "Unmap a = a"

fun Addr_IsValid :: "netip_addr \<Rightarrow> bool" where
  "Addr_IsValid AddrInvalid = False"
| "Addr_IsValid _ = True"

section \<open>Classification\<close>

fun IsMulticast :: "netip_addr \<Rightarrow> bool" where
  "IsMulticast (Addr4 a b c d) = (a AND 0xf0 = 0xe0)"
| "IsMulticast (Addr6 v z) = (if Is4In6 (Addr6 v z) then v ! 12 AND 0xf0 = 0xe0 else v ! 0 = 0xff)"
| "IsMulticast AddrInvalid = False"

fun IsLinkLocalUnicast :: "netip_addr \<Rightarrow> bool" where
  "IsLinkLocalUnicast (Addr4 a b c d) = (a = 169 \<and> b = 254)"
| "IsLinkLocalUnicast (Addr6 v z) =
     (if Is4In6 (Addr6 v z) then v ! 12 = 169 \<and> v ! 13 = 254 else v ! 0 = 0xfe \<and> v ! 1 AND 0xc0 = 0x80)"
| "IsLinkLocalUnicast AddrInvalid = False"

fun IsPrivate :: "netip_addr \<Rightarrow> bool" where
  "IsPrivate (Addr4 a b c d) = (a = 10 \<or> a = 172 \<and> b AND 0xf0 = 16 \<or> a = 192 \<and> b = 168)"
| "IsPrivate (Addr6 v z) =
     (if Is4In6 (Addr6 v z) then v ! 12 = 10 \<or> v ! 12 = 172 \<and> v ! 13 AND 0xf0 = 16 \<or> v ! 12 = 192 \<and> v ! 13 = 168
      else v ! 0 AND 0xfe = 0xfc)"
| "IsPrivate AddrInvalid = False"

text \<open>\<open>Prefix.Contains\<close> for an IPv4 prefix; an address of another family or with a zone is in none.\<close>

type_synonym prefix4 = "nat \<times> nat"

fun Prefix_Contains :: "prefix4 \<Rightarrow> netip_addr \<Rightarrow> bool" where
  "Prefix_Contains p (Addr4 a b c d) = in_prefix (ipv4_number a b c d) p"
| "Prefix_Contains p _ = False"

section \<open>Order and printing\<close>

text \<open>\<open>Addr.Compare\<close> orders by bit length, then by value, then by zone: the order of this key.\<close>

fun compare_key :: "netip_addr \<Rightarrow> nat \<times> nat list \<times> string" where
  "compare_key AddrInvalid = (0, [], [])"
| "compare_key (Addr4 a b c d) = (32, map unat [a, b, c, d], [])"
| "compare_key (Addr6 v z) = (128, map unat v, z)"

lemma inj_unat8: "inj (unat :: u8 \<Rightarrow> nat)"
  by (rule injI) (simp add: word_unat_eq_iff)

lemma compare_key_inj: "inj compare_key"
proof (rule injI)
  fix x y assume "compare_key x = compare_key y"
  then show "x = y"
    by (cases x; cases y) (auto simp: word_unat_eq_iff inj_unat8 [THEN inj_map_eq_map])
qed

definition hexdigit :: "nat \<Rightarrow> char" where
  "hexdigit n = (if n < 10 then char_of (48 + n) else char_of (87 + n))"

fun hex_string :: "nat \<Rightarrow> string" where
  "hex_string n = (if n < 16 then [hexdigit n] else hex_string (n div 16) @ [hexdigit (n mod 16)])"

declare hex_string.simps [simp del]

fun groups16 :: "u8 list \<Rightarrow> nat list" where
  "groups16 (a # b # v) = (unat a * 256 + unat b) # groups16 v"
| "groups16 _ = []"

text \<open>The first longest run of at least two zero groups: \<open>(start, length)\<close>.\<close>

definition zero_run :: "nat list \<Rightarrow> nat \<Rightarrow> nat" where
  "zero_run gs i = length (takeWhile (\<lambda>g. g = 0) (drop i gs))"

definition longest_run :: "nat list \<Rightarrow> (nat \<times> nat) option" where
  "longest_run gs =
     fold (\<lambda>i best. let l = zero_run gs i
            in if l > 1 \<and> (case best of None \<Rightarrow> True | Some (_, m) \<Rightarrow> l > m) then Some (i, l) else best)
       [0..<length gs] None"

definition join_colon :: "string list \<Rightarrow> string" where
  "join_colon xs = (case xs of [] \<Rightarrow> [] | x # ys \<Rightarrow> x @ concat (map (\<lambda>y. '':'' @ y) ys))"

definition addr6_string :: "u8 list \<Rightarrow> string \<Rightarrow> string" where
  "addr6_string v z =
     (let gs = groups16 v; hs = map hex_string gs; zone = (if z = [] then [] else ''%'' @ z)
      in (if Is4In6 (Addr6 v z) then ''::ffff:'' @ addr4_string (v ! 12) (v ! 13) (v ! 14) (v ! 15)
          else case longest_run gs of
                 None \<Rightarrow> join_colon hs
               | Some (i, l) \<Rightarrow> join_colon (take i hs) @ ''::'' @ join_colon (drop (i + l) hs)) @ zone)"

fun Addr_String :: "netip_addr \<Rightarrow> string" where
  "Addr_String AddrInvalid = ''invalid IP''"
| "Addr_String (Addr4 a b c d) = addr4_string a b c d"
| "Addr_String (Addr6 v z) = addr6_string v z"

fun AddrPort_String :: "AddrPort \<Rightarrow> string" where
  "AddrPort_String (AddrInvalid, p) = ''invalid AddrPort''"
| "AddrPort_String (Addr4 a b c d, p) = addrport_string a b c d p"
| "AddrPort_String (Addr6 v z, p) = ''['' @ addr6_string v z @ '']:'' @ dec_string (unat p)"

section \<open>Trimming\<close>

text \<open>The UTF-8 encodings of the runes \<open>unicode.IsSpace\<close> accepts.\<close>

definition space_runes :: "nat list list" where
  "space_runes =
     [[9], [10], [11], [12], [13], [32], [0xC2, 0x85], [0xC2, 0xA0], [0xE1, 0x9A, 0x80]]
     @ map (\<lambda>n. [0xE2, 0x80, 0x80 + n]) [0..<11]
     @ [[0xE2, 0x80, 0xA8], [0xE2, 0x80, 0xA9], [0xE2, 0x80, 0xAF], [0xE2, 0x81, 0x9F], [0xE3, 0x80, 0x80]]"

definition space_bytes :: "string list" where
  "space_bytes = map (map char_of) space_runes"

fun trim_with :: "nat \<Rightarrow> string list \<Rightarrow> string \<Rightarrow> string" where
  "trim_with 0 ps s = s"
| "trim_with (Suc n) ps s =
     (case find (\<lambda>p. take (length p) s = p) ps of None \<Rightarrow> s | Some p \<Rightarrow> trim_with n ps (drop (length p) s))"

definition TrimSpace :: "string \<Rightarrow> string" where
  "TrimSpace s =
     (let l = trim_with (length s) space_bytes s
      in rev (trim_with (length l) (map rev space_bytes) (rev l)))"

section \<open>Parsing what is printed\<close>

lemma ParseUint16_print: "ParseUint16 (dec_string (unat p)) = Some p"
proof -
  have "unat p < 65536" using unsigned_less [of p, where ?'a = nat] by simp
  then have "dec_val (dec_string (unat p)) \<le> 65535" by (simp add: dec_val_dec del: of_nat_unat)
  then show ?thesis
    using dec_digits [of "unat p"] dec_nonempty [of "unat p"] of_int_u16 [of p]
    by (simp add: ParseUint16_def dec_val_dec del: of_nat_unat of_int_of_nat_eq)
qed

lemma parseAddrScan_digits:
  "list_all is_dec_digit ds \<Longrightarrow> parseAddrScan s (ds @ CHR ''.'' # r) = ParseAddr4 s"
  by (induction ds) (auto simp: is_dec_digit_def)

lemma ParseAddr_print: "ParseAddr (addr4_string a b c d) = Some (Addr4 a b c d)"
  using parseAddrScan_digits [OF dec_digits, of "addr4_string a b c d" "unat a"]
  by (simp add: ParseAddr_def ParseAddr4_print) (simp add: addr4_string_def ParseAddr4_print)

lemma addr4_hd: "addr4_string a b c d \<noteq> [] \<and> hd (addr4_string a b c d) \<noteq> CHR ''[''"
proof -
  have "addr4_string a b c d \<noteq> []" by (simp add: addr4_string_def)
  moreover have "CHR ''['' \<notin> set (addr4_string a b c d)" using addr4_no_colon [of a b c d 0] by auto
  ultimately show ?thesis by (metis hd_in_set)
qed

lemma ParseAddrPort_print: "ParseAddrPort (addrport_string a b c d p) = Some (Addr4 a b c d, p)"
proof -
  have "CHR '':'' \<notin> set (dec_string (unat p))" by (rule dec_no_punct)
  then have "last_index_byte (CHR '':'') (addrport_string a b c d p) = Some (length (addr4_string a b c d))"
    by (simp add: addrport_string_def last_index_append)
  then show ?thesis
    using addr4_hd [of a b c d]
    by (simp add: ParseAddrPort_def addrport_string_def ParseAddr_print ParseUint16_print dec_nonempty Let_def)
qed

end
