(* ===== verification/Agent_Traversal.thy ===== *)
theory Agent_Traversal
  imports Agent_Netip Agent_Journal Agent_Mapping_Journal
begin

text \<open>
  The strategy decisions of NAT traversal: source selection and the route fingerprint
  (\<open>internal/traversal/network.go\<close>, \<open>fingerprint.go\<close>), the layer pipeline and acquisition plans
  (\<open>strategy.go\<close>), detection profiles (\<open>profile.go\<close>) and the translation of a Forward into its route
  (\<open>internal/agent/strategy.go\<close>). The typed strings of the source stay strings; a route table is the pair
  of answers its reader gives, a profile store the answer of its \<open>Load\<close>.
\<close>

section \<open>network.go\<close>

record IPv4Address =
  iaInterface :: string
  iaAddr :: netip_addr

record Selection =
  slSource :: netip_addr
  slInterface :: string
  slDefaultRouteGateway :: netip_addr
  slDefaultRouteInterface :: string
  slGlobal :: bool

datatype route_error =
  RouteReader | ErrV4SourceUnavailable | ErrV4DefaultRouteUnavailable | ErrNoGlobalV4Source | ErrInternalSourceUnavailable

definition CapabilityDirectV4Ready :: string where "CapabilityDirectV4Ready = ''DIRECT_V4_READY''"
definition CapabilityV4SourceUnavailable :: string where "CapabilityV4SourceUnavailable = ''V4_SOURCE_UNAVAILABLE''"
definition CapabilityV4DefaultRouteUnavailable :: string where
  "CapabilityV4DefaultRouteUnavailable = ''V4_DEFAULT_ROUTE_UNAVAILABLE''"
definition CapabilityNoGlobalV4Source :: string where "CapabilityNoGlobalV4Source = ''NO_GLOBAL_V4_SOURCE''"

text \<open>The answers of the reader: the default route (if there is one) and the addresses; \<open>None\<close> is a failure.\<close>

record RouteTable =
  rtDefaultRouteV4 :: "(netip_addr \<times> string) option option"
  rtIPv4Addresses :: "IPv4Address list option"

definition nonGlobalV4Prefixes :: "prefix4 list" where
  "nonGlobalV4Prefixes =
     [(quad 0 0 0 0, 8), (quad 100 64 0 0, 10), (quad 192 0 0 0, 24), (quad 192 0 2 0, 24), (quad 192 31 196 0, 24),
      (quad 192 52 193 0, 24), (quad 192 88 99 0, 24), (quad 192 175 48 0, 24), (quad 198 18 0 0, 15),
      (quad 198 51 100 0, 24), (quad 203 0 113 0, 24), (quad 240 0 0 0, 4)]"

definition IsGlobalV4 :: "netip_addr \<Rightarrow> bool" where
  "IsGlobalV4 addr =
     (if \<not> Is4 addr \<or> IsUnspecified addr \<or> IsLoopback addr \<or> IsMulticast addr \<or> IsLinkLocalUnicast addr \<or> IsPrivate addr
      then False
      else \<not> list_ex (\<lambda>prefix. Prefix_Contains prefix addr) nonGlobalV4Prefixes)"

definition sortedIPv4Addresses :: "IPv4Address list \<Rightarrow> IPv4Address list" where
  "sortedIPv4Addresses addrs = sort_key (\<lambda>a. (iaInterface a, compare_key (iaAddr a))) addrs"

text \<open>A failing assessment keeps its capability code, which is empty for a reader failure.\<close>

definition Assess :: "RouteTable \<Rightarrow> (route_error \<times> string) + Selection \<times> string" where
  "Assess rt =
     (case rtIPv4Addresses rt of
        None \<Rightarrow> Inl (RouteReader, [])
      | Some addrs \<Rightarrow>
          if addrs = [] then Inl (ErrV4SourceUnavailable, CapabilityV4SourceUnavailable)
          else case rtDefaultRouteV4 rt of
            None \<Rightarrow> Inl (RouteReader, [])
          | Some None \<Rightarrow> Inl (ErrV4DefaultRouteUnavailable, CapabilityV4DefaultRouteUnavailable)
          | Some (Some (gateway, iface)) \<Rightarrow>
              (case find (\<lambda>candidate. iaInterface candidate = iface \<and> IsGlobalV4 (iaAddr candidate)) (sortedIPv4Addresses addrs) of
                 None \<Rightarrow> Inl (ErrNoGlobalV4Source, CapabilityNoGlobalV4Source)
               | Some candidate \<Rightarrow>
                   Inr (\<lparr>slSource = iaAddr candidate, slInterface = iaInterface candidate, slDefaultRouteGateway = gateway,
                         slDefaultRouteInterface = iface, slGlobal = True\<rparr>, CapabilityDirectV4Ready)))"

definition isValidMappingSource :: "netip_addr \<Rightarrow> bool" where
  "isValidMappingSource addr \<longleftrightarrow>
     Is4 addr \<and> \<not> IsUnspecified addr \<and> \<not> IsLoopback addr \<and> \<not> IsMulticast addr \<and> \<not> IsLinkLocalUnicast addr"

definition DefaultRouteSource :: "RouteTable \<Rightarrow> route_error + Selection" where
  "DefaultRouteSource rt =
     (case rtIPv4Addresses rt of
        None \<Rightarrow> Inl RouteReader
      | Some addrs \<Rightarrow>
          if addrs = [] then Inl ErrV4SourceUnavailable
          else case rtDefaultRouteV4 rt of
            None \<Rightarrow> Inl RouteReader
          | Some None \<Rightarrow> Inl ErrV4DefaultRouteUnavailable
          | Some (Some (gateway, iface)) \<Rightarrow>
              (case find (\<lambda>candidate. iaInterface candidate = iface \<and> isValidMappingSource (iaAddr candidate))
                      (sortedIPv4Addresses addrs) of
                 None \<Rightarrow> Inl ErrInternalSourceUnavailable
               | Some candidate \<Rightarrow>
                   Inr \<lparr>slSource = iaAddr candidate, slInterface = iaInterface candidate, slDefaultRouteGateway = gateway,
                        slDefaultRouteInterface = iface, slGlobal = IsGlobalV4 (iaAddr candidate)\<rparr>))"

section \<open>fingerprint.go\<close>

definition newline :: char where "newline = CHR 0x0A"

definition routeText :: "(netip_addr \<times> string) option \<Rightarrow> IPv4Address list \<Rightarrow> string" where
  "routeText dflt addrs =
     (case dflt of
        Some (gateway, iface) \<Rightarrow> ''default '' @ Addr_String gateway @ '' '' @ iface @ [newline]
      | None \<Rightarrow> ''default none'' @ [newline])
     @ concat (map (\<lambda>a. iaInterface a @ '' '' @ Addr_String (iaAddr a) @ [newline]) (sortedIPv4Addresses addrs))"

definition Fingerprint :: "crypto \<Rightarrow> RouteTable \<Rightarrow> string option" where
  "Fingerprint C rt =
     (case rtDefaultRouteV4 rt of
        None \<Rightarrow> None
      | Some dflt \<Rightarrow>
          (case rtIPv4Addresses rt of
             None \<Rightarrow> None
           | Some addrs \<Rightarrow> Some (EncodeToString (sha256 C (routeText dflt addrs)))))"

section \<open>strategy.go\<close>

definition LayerPCP :: string where "LayerPCP = ''pcp''"
definition LayerNATPMP :: string where "LayerNATPMP = ''nat-pmp''"
definition LayerUPnP :: string where "LayerUPnP = ''upnp-igd''"

definition MappingLayerKind_Valid :: "string \<Rightarrow> bool" where
  "MappingLayerKind_Valid k \<longleftrightarrow> k = LayerPCP \<or> k = LayerNATPMP \<or> k = LayerUPnP"

definition LayerKindDirect :: string where "LayerKindDirect = ''direct''"
definition LayerKindManual :: string where "LayerKindManual = ''manual''"
definition LayerKindGateway :: string where "LayerKindGateway = ''gateway''"
definition LayerKindSTUN :: string where "LayerKindSTUN = ''stun''"

definition ScopeGlobalPublic :: string where "ScopeGlobalPublic = ''GLOBAL_PUBLIC''"
definition ScopeFirstHop :: string where "ScopeFirstHop = ''FIRST_HOP''"
definition ScopeOperatorInput :: string where "ScopeOperatorInput = ''OPERATOR_EXPECTED''"
definition ScopeNonRoutable :: string where "ScopeNonRoutable = ''NON_ROUTABLE''"

definition PortPolicyStrict :: string where "PortPolicyStrict = ''strict''"
definition PortPolicyAcceptAny :: string where "PortPolicyAcceptAny = ''accept_any''"
definition PortPolicyAcceptAssigned :: string where "PortPolicyAcceptAssigned = ''accept_assigned''"

definition OwnershipObservedOnly :: string where "OwnershipObservedOnly = ''OBSERVED_ONLY''"
definition OwnershipNotApplicable :: string where "OwnershipNotApplicable = ''NOT_APPLICABLE''"

lemmas layer_kinds = LayerPCP_def LayerNATPMP_def LayerUPnP_def LayerKindDirect_def LayerKindManual_def LayerKindGateway_def
  LayerKindSTUN_def

lemmas layer_words = layer_kinds ScopeGlobalPublic_def ScopeFirstHop_def ScopeOperatorInput_def ScopeNonRoutable_def
  PortPolicyStrict_def PortPolicyAcceptAny_def PortPolicyAcceptAssigned_def

record PortControlCapability =
  pcMechanism :: string
  pcCanRequestExact :: bool
  pcCanAcceptAssigned :: bool
  pcCanRetryCandidate :: bool
  pcFinalEndpointConstraint :: string

datatype strategy_error =
  UnknownLayerKind string | ErrUnsupportedMultipleExplicitLayers | MultipleStunLayers nat | LayerEndpoint string
| NoLayerEndpoint | ErrFinalPortRewritten | ErrNoViableStrategy | UnresolvedMappingLayer string | ErrLayerCannotRequestExact
| ErrOperatorEndpointRequired | StrategyUnknown string | ManualEndpointSyntax | ManualEndpointNotIPv4 | ManualEndpointNoPort

record LayerEvidence =
  lyKind :: string
  lyMechanism :: string
  lyControlServer :: string
  lyInternalEndpoint :: string
  lyAssignedEndpoint :: string
  lyScope :: string
  lyLeaseLifetime :: int
  lyEpoch :: u32
  lyOwnership :: string
  lyParentLayer :: int
  lyNote :: string

record PipelineVerdict =
  pvCandidate :: AddrPort
  pvScope :: string
  pvPublicCandidate :: bool
  pvMappingStateFirstHop :: bool
  pvFinalPortObserved :: bool

definition IsGlobalV4Endpoint :: "AddrPort \<Rightarrow> bool" where
  "IsGlobalV4Endpoint endpoint \<longleftrightarrow> Addr_IsValid (fst endpoint) \<and> IsGlobalV4 (fst endpoint)"

definition parseEndpoint :: "string \<Rightarrow> AddrPort option" where
  "parseEndpoint endpoint = map_option (\<lambda>(a, p). (Unmap a, p)) (ParseAddrPort endpoint)"

definition known_kind :: "string \<Rightarrow> bool" where
  "known_kind k \<longleftrightarrow> k = LayerKindGateway \<or> k = LayerKindSTUN \<or> k = LayerKindDirect \<or> k = LayerKindManual"

text \<open>The last layer of a kind, as the index variables of the counting loop keep it.\<close>

definition last_layer :: "(string \<Rightarrow> bool) \<Rightarrow> LayerEvidence list \<Rightarrow> LayerEvidence option" where
  "last_layer P layers = find (\<lambda>l. P (lyKind l)) (rev layers)"

text \<open>The endpoint the chain yields: observed before mapped before the deepest direct or manual layer.\<close>

definition pick_layer :: "LayerEvidence list \<Rightarrow> LayerEvidence option" where
  "pick_layer layers =
     (case last_layer (\<lambda>k. k = LayerKindSTUN) layers of
        Some l \<Rightarrow> Some l
      | None \<Rightarrow>
          (case last_layer (\<lambda>k. k = LayerKindGateway) layers of
             Some l \<Rightarrow> Some l
           | None \<Rightarrow> last_layer (\<lambda>k. k = LayerKindDirect \<or> k = LayerKindManual) layers))"

definition verdict_of :: "AddrPort \<Rightarrow> string \<Rightarrow> bool \<Rightarrow> bool \<Rightarrow> PipelineVerdict" where
  "verdict_of candidate candidateKind observed gateway =
     (let base = \<lparr>pvCandidate = candidate, pvScope = [], pvPublicCandidate = False, pvMappingStateFirstHop = False,
                  pvFinalPortObserved = observed\<rparr>
      in if candidateKind = LayerKindManual then
           (if \<not> IsGlobalV4Endpoint candidate then base\<lparr>pvScope := ScopeNonRoutable\<rparr>
            else base\<lparr>pvScope := ScopeOperatorInput, pvPublicCandidate := True\<rparr>)
         else if \<not> IsGlobalV4Endpoint candidate then base\<lparr>pvScope := ScopeFirstHop, pvMappingStateFirstHop := gateway\<rparr>
         else base\<lparr>pvScope := ScopeGlobalPublic, pvPublicCandidate := True\<rparr>)"

definition EvaluateLayers :: "LayerEvidence list \<Rightarrow> string \<Rightarrow> strategy_error + PipelineVerdict" where
  "EvaluateLayers layers finalConstraint =
     (case find (\<lambda>l. \<not> known_kind (lyKind l)) layers of
        Some l \<Rightarrow> Inl (UnknownLayerKind (lyKind l))
      | None \<Rightarrow>
          let gateways = length (filter (\<lambda>l. lyKind l = LayerKindGateway) layers);
              stuns = length (filter (\<lambda>l. lyKind l = LayerKindSTUN) layers);
              gateway = last_layer (\<lambda>k. k = LayerKindGateway) layers
          in if gateways > 1 then Inl ErrUnsupportedMultipleExplicitLayers
             else if stuns > 1 then Inl (MultipleStunLayers stuns)
             else case pick_layer layers of
               None \<Rightarrow> Inl NoLayerEndpoint
             | Some l \<Rightarrow>
                 (case parseEndpoint (lyAssignedEndpoint l) of
                    None \<Rightarrow> Inl (LayerEndpoint (lyKind l))
                  | Some candidate \<Rightarrow>
                      let observed = (lyKind l = LayerKindSTUN);
                          verdict = Inr (verdict_of candidate (lyKind l) observed (gateway \<noteq> None))
                      in (case gateway of
                            Some g \<Rightarrow>
                              if observed \<and> finalConstraint = PortPolicyStrict then
                                (case parseEndpoint (lyAssignedEndpoint g) of
                                   None \<Rightarrow> Inl (LayerEndpoint LayerKindGateway)
                                 | Some gatewayEndpoint \<Rightarrow>
                                     if snd candidate \<noteq> snd gatewayEndpoint then Inl ErrFinalPortRewritten else verdict)
                              else verdict
                          | None \<Rightarrow> verdict)))"

record PlanRequest =
  pqStrategy :: string
  pqMappingLayer :: string
  pqIGDv2 :: bool
  pqGatewayPortPolicy :: string
  pqFinalEndpointConstraint :: string
  pqManualExpectedEndpoint :: string

record StrategyPlan =
  spStrategy :: string
  spMappingLayer :: string
  spIGDv2 :: bool
  spGatewayPortPolicy :: string
  spFinalEndpointConstraint :: string
  spCapability :: PortControlCapability
  spManualExpectedEndpoint :: string

definition no_capability :: PortControlCapability where
  "no_capability = \<lparr>pcMechanism = [], pcCanRequestExact = False, pcCanAcceptAssigned = False, pcCanRetryCandidate = False,
     pcFinalEndpointConstraint = []\<rparr>"

definition PortControlCapabilityFor :: "string \<Rightarrow> bool \<Rightarrow> PortControlCapability" where
  "PortControlCapabilityFor kind igdV2 =
     (if kind = LayerPCP then
        \<lparr>pcMechanism = LayerPCP, pcCanRequestExact = True, pcCanAcceptAssigned = True, pcCanRetryCandidate = True,
         pcFinalEndpointConstraint = PortPolicyStrict\<rparr>
      else if kind = LayerNATPMP then
        \<lparr>pcMechanism = LayerNATPMP, pcCanRequestExact = False, pcCanAcceptAssigned = True, pcCanRetryCandidate = False,
         pcFinalEndpointConstraint = PortPolicyAcceptAssigned\<rparr>
      else if kind = LayerUPnP then
        (if igdV2 then
           \<lparr>pcMechanism = LayerUPnP, pcCanRequestExact = True, pcCanAcceptAssigned = True, pcCanRetryCandidate = True,
            pcFinalEndpointConstraint = PortPolicyStrict\<rparr>
         else
           \<lparr>pcMechanism = LayerUPnP, pcCanRequestExact = False, pcCanAcceptAssigned = True, pcCanRetryCandidate = True,
            pcFinalEndpointConstraint = PortPolicyAcceptAssigned\<rparr>)
      else no_capability\<lparr>pcFinalEndpointConstraint := PortPolicyAcceptAssigned\<rparr>)"

definition PlanStrategy :: "PlanRequest \<Rightarrow> strategy_error + StrategyPlan" where
  "PlanStrategy req =
     (let plan = \<lparr>spStrategy = pqStrategy req, spMappingLayer = pqMappingLayer req, spIGDv2 = pqIGDv2 req,
          spGatewayPortPolicy = (if pqGatewayPortPolicy req = [] then PortPolicyAcceptAny else pqGatewayPortPolicy req),
          spFinalEndpointConstraint =
            (if pqFinalEndpointConstraint req = [] then PortPolicyAcceptAssigned else pqFinalEndpointConstraint req),
          spCapability = no_capability, spManualExpectedEndpoint = pqManualExpectedEndpoint req\<rparr>
      in if pqStrategy req = ''explicit-gateway'' then
           (if \<not> MappingLayerKind_Valid (pqMappingLayer req) then Inl (UnresolvedMappingLayer (pqMappingLayer req))
            else let capability = PortControlCapabilityFor (pqMappingLayer req) (pqIGDv2 req)
                 in if spGatewayPortPolicy plan = PortPolicyStrict \<and> \<not> pcCanRequestExact capability
                    then Inl ErrLayerCannotRequestExact
                    else Inr (plan\<lparr>spCapability := capability\<rparr>))
         else if pqStrategy req = ''manual-static-v4'' then
           (if pqManualExpectedEndpoint req = [] then Inl ErrOperatorEndpointRequired else Inr plan)
         else if pqStrategy req = ''direct-v4'' \<or> pqStrategy req = ''stun-only'' \<or> pqStrategy req = ''auto'' then
           (if pqMappingLayer req \<noteq> [] \<and> pqStrategy req \<noteq> ''auto'' then Inr (plan\<lparr>spMappingLayer := []\<rparr>) else Inr plan)
         else Inl (StrategyUnknown (pqStrategy req)))"

definition ResolveAuto :: "string list \<Rightarrow> (string \<Rightarrow> bool) \<Rightarrow> strategy_error + string" where
  "ResolveAuto order available =
     (case find available order of None \<Rightarrow> Inl ErrNoViableStrategy | Some strategy \<Rightarrow> Inr strategy)"

definition ParseManualEndpoint :: "string \<Rightarrow> strategy_error + AddrPort" where
  "ParseManualEndpoint endpoint =
     (case parseEndpoint endpoint of
        None \<Rightarrow> Inl ManualEndpointSyntax
      | Some parsed \<Rightarrow>
          if \<not> Is4 (fst parsed) then Inl ManualEndpointNotIPv4
          else if snd parsed = 0 then Inl ManualEndpointNoPort
          else Inr parsed)"

record ControlServer =
  csMechanism :: string
  csAddress :: string
  csIdentity :: string
  csIGDv2 :: bool

record GatewayMapRequest =
  gqInternalIP :: netip_addr
  gqInternalPort :: u16
  gqRequestedExternalPort :: u16
  gqLease :: int
  gqStrictPort :: bool

text \<open>\<open>gmState\<close> is the adapter-private state as the journal serializes it.\<close>

record GatewayMapping =
  gmMechanism :: string
  gmOwnership :: string
  gmInternalIP :: netip_addr
  gmInternalPort :: u16
  gmExternal :: AddrPort
  gmLease :: int
  gmEpoch :: u32
  gmIdentity :: string
  gmServerRebooted :: bool
  gmState :: bytes

definition GatewayMapping_Evidence :: "GatewayMapping \<Rightarrow> ControlServer \<Rightarrow> LayerEvidence" where
  "GatewayMapping_Evidence m control =
     \<lparr>lyKind = LayerKindGateway, lyMechanism = gmMechanism m, lyControlServer = csAddress control,
      lyInternalEndpoint = AddrPort_String (gmInternalIP m, gmInternalPort m), lyAssignedEndpoint = AddrPort_String (gmExternal m),
      lyScope = (if IsGlobalV4Endpoint (gmExternal m) then ScopeGlobalPublic else ScopeFirstHop),
      lyLeaseLifetime = gmLease m, lyEpoch = gmEpoch m, lyOwnership = gmOwnership m, lyParentLayer = -1, lyNote = []\<rparr>"

definition maxIGDDescriptionBytes :: nat where "maxIGDDescriptionBytes = 63"

definition GatewayMapping_Description :: "GatewayMapping \<Rightarrow> string" where
  "GatewayMapping_Description m =
     (let description = ''AntiNAT'' @ (if gmIdentity m \<noteq> [] then '' '' @ gmIdentity m else [])
      in if length description \<le> maxIGDDescriptionBytes then description else take maxIGDDescriptionBytes description)"

section \<open>profile.go\<close>

definition DetectionPassed :: string where "DetectionPassed = ''PASSED''"
definition DetectionFailed :: string where "DetectionFailed = ''FAILED''"
definition DetectionExcluded :: string where "DetectionExcluded = ''EXCLUDED''"

lemmas detection_states = DetectionPassed_def DetectionFailed_def DetectionExcluded_def

record StrategyResult =
  srStrategy :: string
  srState :: string
  srLayerSignature :: string
  srCapability :: string
  srEvidence :: "LayerEvidence list"
  srCandidate :: string
  srNote :: string
  srStartedAtUnix :: int
  srFinishedAtUnix :: int

record Profile =
  pfFingerprint :: string
  pfProtocol :: string
  pfDefaultStrategy :: string
  pfComputedAtUnix :: int
  pfResults :: "StrategyResult list"

definition zero_result :: StrategyResult where
  "zero_result = \<lparr>srStrategy = [], srState = [], srLayerSignature = [], srCapability = [], srEvidence = [], srCandidate = [],
     srNote = [], srStartedAtUnix = 0, srFinishedAtUnix = 0\<rparr>"

definition zero_profile :: Profile where
  "zero_profile = \<lparr>pfFingerprint = [], pfProtocol = [], pfDefaultStrategy = [], pfComputedAtUnix = 0, pfResults = []\<rparr>"

datatype stale_reason = FingerprintChanged | ProfileTooOld

text \<open>Times are nanoseconds since the epoch.\<close>

definition IsStale :: "Profile \<Rightarrow> string \<Rightarrow> int \<Rightarrow> int \<Rightarrow> stale_reason option" where
  "IsStale p currentFingerprint maxAge now =
     (if pfFingerprint p \<noteq> currentFingerprint then Some FingerprintChanged
      else if now - pfComputedAtUnix p * 1000000000 > maxAge then Some ProfileTooOld
      else None)"

definition ResultFor :: "Profile \<Rightarrow> string \<Rightarrow> StrategyResult option" where
  "ResultFor p strategy = find (\<lambda>result. srStrategy result = strategy) (pfResults p)"

definition PassedStrategies :: "Profile \<Rightarrow> string list" where
  "PassedStrategies p = map srStrategy (filter (\<lambda>result. srState result = DetectionPassed) (pfResults p))"

section \<open>agent/strategy.go\<close>

datatype agent_strategy_error =
  NoGatewayLayerInProfile | NoStunServer | AutoNoPassingDefault | AutoStaleProfile | AgentStrategy strategy_error
| AgentUnknownStrategy string | UDPStrategyUnsupported string | ProfileLoad | FingerprintFailed | NoPlainManager | NoGatewayManager

definition zero_request :: PlanRequest where
  "zero_request = \<lparr>pqStrategy = [], pqMappingLayer = [], pqIGDv2 = False, pqGatewayPortPolicy = [], pqFinalEndpointConstraint = [],
     pqManualExpectedEndpoint = []\<rparr>"

definition explicitGatewayLayer :: "Profile \<Rightarrow> (string \<times> bool) option" where
  "explicitGatewayLayer profile =
     (case ResultFor profile ''explicit-gateway'' of
        None \<Rightarrow> None
      | Some result \<Rightarrow>
          if srState result \<noteq> DetectionPassed then None
          else let signature = srLayerSignature result
               in if take (length ''upnp-igd'') signature = ''upnp-igd'' then Some (LayerUPnP, signature = ''upnp-igd:2'')
                  else if signature = ''pcp'' then Some (LayerPCP, False)
                  else if signature = ''nat-pmp'' then Some (LayerNATPMP, False)
                  else None)"

definition planFor :: "ForwardSpec \<Rightarrow> Profile \<Rightarrow> string list \<Rightarrow> agent_strategy_error + PlanRequest" where
  "planFor spec profile stunServers =
     (if fsStrategy spec = ''direct-v4'' then Inr (zero_request\<lparr>pqStrategy := ''direct-v4''\<rparr>)
      else if fsStrategy spec = ''manual-static-v4'' then
        (if fsManualExpectedEndpoint spec = [] then Inl (AgentStrategy ErrOperatorEndpointRequired)
         else Inr (zero_request\<lparr>pqStrategy := ''manual-static-v4'', pqManualExpectedEndpoint := fsManualExpectedEndpoint spec\<rparr>))
      else if fsStrategy spec = ''explicit-gateway'' then
        (case explicitGatewayLayer profile of
           None \<Rightarrow> Inl NoGatewayLayerInProfile
         | Some (layer, igdV2) \<Rightarrow>
             let plan = zero_request\<lparr>pqStrategy := ''explicit-gateway'', pqMappingLayer := layer, pqIGDv2 := igdV2,
                   pqGatewayPortPolicy := PortPolicyAcceptAny, pqFinalEndpointConstraint := PortPolicyAcceptAssigned\<rparr>
             in if fsRequestedPublicPort spec \<noteq> 0 \<and> pcCanRequestExact (PortControlCapabilityFor layer igdV2)
                then Inr (plan\<lparr>pqGatewayPortPolicy := PortPolicyStrict, pqFinalEndpointConstraint := PortPolicyStrict\<rparr>)
                else Inr plan)
      else if fsStrategy spec = ''stun-only'' then
        (if stunServers = [] then Inl NoStunServer else Inr (zero_request\<lparr>pqStrategy := ''stun-only''\<rparr>))
      else if fsStrategy spec = ''auto'' then Inr (zero_request\<lparr>pqStrategy := ''auto''\<rparr>)
      else Inl (AgentUnknownStrategy (fsStrategy spec)))"

definition defaultAutoOrder :: "string list" where
  "defaultAutoOrder = [''explicit-gateway'', ''direct-v4'', ''stun-only'']"

definition passed_in :: "Profile \<Rightarrow> string \<Rightarrow> bool" where
  "passed_in profile strategy \<longleftrightarrow>
     (case ResultFor profile strategy of None \<Rightarrow> False | Some result \<Rightarrow> srState result = DetectionPassed)"

definition resolveAutoStrategy :: "ForwardSpec \<Rightarrow> Profile option \<Rightarrow> string list \<Rightarrow> agent_strategy_error + string" where
  "resolveAutoStrategy spec profile order =
     (if fsProtocol spec = ''udp'' then Inr ''direct-v4''
      else case profile of
        None \<Rightarrow> Inl AutoNoPassingDefault
      | Some p \<Rightarrow>
          (case find (\<lambda>strategy. strategy \<in> {''direct-v4'', ''explicit-gateway'', ''stun-only''} \<and> passed_in p strategy)
                  (if order = [] then defaultAutoOrder else order) of
             None \<Rightarrow> Inl AutoNoPassingDefault
           | Some strategy \<Rightarrow> Inr strategy))"

definition profileMaxAge :: int where "profileMaxAge = 24 * 60 * 60 * 1000000000"

definition validateAutoProfile :: "crypto \<Rightarrow> RouteTable \<Rightarrow> int \<Rightarrow> Profile option \<Rightarrow> agent_strategy_error + unit" where
  "validateAutoProfile C routeTable now profile =
     (case profile of
        None \<Rightarrow> Inr ()
      | Some p \<Rightarrow>
          if pfFingerprint p = [] then Inl AutoStaleProfile
          else case Fingerprint C routeTable of
            None \<Rightarrow> Inl FingerprintFailed
          | Some fingerprint \<Rightarrow> if IsStale p fingerprint profileMaxAge now \<noteq> None then Inl AutoStaleProfile else Inr ())"

datatype manager_ref = PlainManager | GatewayManager

text \<open>
  The composition snapshot a route is resolved on; \<open>dpLoad n\<close> is the answer of the profile store to the
  load number \<open>n\<close> (a failure, no profile, or a profile): a route may load the profile twice, and the store may
  have changed in between. The two managers are present or nil.
\<close>

record dataPlaneConfig =
  dpRouteTable :: RouteTable
  dpNow :: int
  dpLoad :: "nat \<Rightarrow> Profile option option"
  dpAutoOrder :: "string list"
  dpStunServers :: "string list"
  dpPlain :: bool
  dpGateway :: bool
  dpCompositionGeneration :: u64
  dpCapabilityGeneration :: u64
  dpCapabilityFingerprint :: string

record forwardRoute =
  frPlan :: PlanRequest
  frManager :: "manager_ref option"
  frIsGateway :: bool
  frStunOnly :: bool
  frCompositionGeneration :: u64
  frCapabilityGeneration :: u64
  frCapabilityFingerprint :: string

definition loadProfileFrom :: "dataPlaneConfig \<Rightarrow> nat \<Rightarrow> agent_strategy_error + Profile option" where
  "loadProfileFrom cfg n = (case dpLoad cfg n of None \<Rightarrow> Inl ProfileLoad | Some profile \<Rightarrow> Inr profile)"

definition resolveAuto :: "crypto \<Rightarrow> dataPlaneConfig \<Rightarrow> ForwardSpec \<Rightarrow> agent_strategy_error + string" where
  "resolveAuto C cfg spec =
     andThen (loadProfileFrom cfg 0) (\<lambda>profile.
     andThen (validateAutoProfile C (dpRouteTable cfg) (dpNow cfg) profile) (\<lambda>_.
     resolveAutoStrategy spec profile (dpAutoOrder cfg)))"

definition concreteStrategy :: "crypto \<Rightarrow> dataPlaneConfig \<Rightarrow> ForwardSpec \<Rightarrow> agent_strategy_error + string" where
  "concreteStrategy C cfg spec =
     (if fsProtocol spec = ''udp'' then
        (if fsStrategy spec = ''auto'' \<or> fsStrategy spec = ''direct-v4'' then Inr ''direct-v4''
         else Inl (UDPStrategyUnsupported (fsStrategy spec)))
      else if fsStrategy spec = ''auto'' then resolveAuto C cfg spec
      else Inr (fsStrategy spec))"

definition resolveForwardRoute :: "crypto \<Rightarrow> dataPlaneConfig \<Rightarrow> ForwardSpec \<Rightarrow> agent_strategy_error + forwardRoute" where
  "resolveForwardRoute C cfg spec0 =
     andThen (concreteStrategy C cfg spec0) (\<lambda>strategy.
     let spec = spec0\<lparr>fsStrategy := strategy\<rparr>;
         snapshot = \<lparr>frPlan = zero_request, frManager = None, frIsGateway = False, frStunOnly = False,
           frCompositionGeneration = dpCompositionGeneration cfg, frCapabilityGeneration = dpCapabilityGeneration cfg,
           frCapabilityFingerprint = dpCapabilityFingerprint cfg\<rparr>
     in if strategy = ''direct-v4'' then
          Inr (snapshot\<lparr>frPlan := zero_request\<lparr>pqStrategy := ''direct-v4''\<rparr>,
                 frManager := (if dpPlain cfg then Some PlainManager else None)\<rparr>)
        else if strategy = ''manual-static-v4'' then
          andThen (planFor spec zero_profile []) (\<lambda>plan.
          if \<not> dpPlain cfg then Inl NoPlainManager else Inr (snapshot\<lparr>frPlan := plan, frManager := Some PlainManager\<rparr>))
        else if strategy = ''explicit-gateway'' then
          andThen (loadProfileFrom cfg 1) (\<lambda>profile.
          case profile of
            None \<Rightarrow> Inl NoGatewayLayerInProfile
          | Some p \<Rightarrow>
              if pfFingerprint p = [] then Inl AutoStaleProfile
              else andThen (planFor spec p (dpStunServers cfg)) (\<lambda>plan.
                   if \<not> dpGateway cfg then Inl NoGatewayManager
                   else Inr (snapshot\<lparr>frPlan := plan, frManager := Some GatewayManager, frIsGateway := True\<rparr>)))
        else if strategy = ''stun-only'' then
          andThen (planFor spec zero_profile (dpStunServers cfg)) (\<lambda>plan.
          Inr (snapshot\<lparr>frPlan := plan, frStunOnly := True\<rparr>))
        else Inl (AgentUnknownStrategy strategy))"

end
