(* ===== verification/Agent_Port_Registry.thy ===== *)
theory Agent_Port_Registry
  imports Agent_Prelude
begin

text \<open>
  \<open>internal/traversal/portregistry.go\<close>: the registry of owned sockets. Acquiring is one critical section;
  a release is two of them with the close of the socket in between, so releases of several goroutines
  and acquisitions interleave. The operating system decides which port a socket gets and how a close
  ends. A lease object is identified by a number, its address in Go.
\<close>

section \<open>Tuples and leases\<close>

record TupleKey =
  tkFamily :: string
  tkProtocol :: string
  tkAddress :: string
  tkPort :: u16

datatype port_error = ErrTupleOverlap | ErrStaleLease | ErrUnsupportedTuple | ErrOwnerRequired | ErrListen | ErrClose

definition normalize :: "TupleKey \<Rightarrow> TupleKey" where
  "normalize k = (if tkAddress k \<in> {[], ''::'', ''0.0.0.0''} then k\<lparr>tkAddress := ''0.0.0.0''\<rparr> else k)"

definition overlaps :: "TupleKey \<Rightarrow> TupleKey \<Rightarrow> bool" where
  "overlaps k other \<longleftrightarrow>
     (if tkFamily k \<noteq> tkFamily other \<or> tkProtocol k \<noteq> tkProtocol other \<or> tkPort k \<noteq> tkPort other then False
      else tkAddress k = tkAddress other \<or> tkAddress k = ''0.0.0.0'' \<or> tkAddress other = ''0.0.0.0'')"

record Lease =
  lsActual :: TupleKey
  lsOwner :: string
  lsGeneration :: u64
  lsRef :: nat

record leaseEntry =
  leOwner :: string
  leGeneration :: u64
  leLease :: nat

record PortRegistry =
  prEntries :: "(TupleKey \<times> leaseEntry) list"
  prGeneration :: u64

definition NewPortRegistry :: PortRegistry where
  "NewPortRegistry = \<lparr>prEntries = [], prGeneration = 0\<rparr>"

definition overlapsLocked :: "TupleKey \<Rightarrow> PortRegistry \<Rightarrow> bool" where
  "overlapsLocked candidate r \<longleftrightarrow> list_ex (\<lambda>(existing, _). overlaps existing candidate) (prEntries r)"

definition validateAcquireLocked :: "string \<Rightarrow> TupleKey \<Rightarrow> string \<Rightarrow> PortRegistry \<Rightarrow> port_error + unit" where
  "validateAcquireLocked owner key protocol r =
     (if owner = [] then Inl ErrOwnerRequired
      else if tkFamily key \<noteq> ''ipv4'' \<or> tkProtocol key \<noteq> protocol then Inl ErrUnsupportedTuple
      else if tkPort key \<noteq> 0 \<and> overlapsLocked (normalize key) r then Inl ErrTupleOverlap
      else Inr ())"

text \<open>
  \<open>bound\<close> is what listening returns: the port of the new socket, or an error. The two acquire operations
  are the same but for the protocol and the socket type.
\<close>

definition acquire ::
  "string \<Rightarrow> string \<Rightarrow> TupleKey \<Rightarrow> u16 option \<Rightarrow> nat \<Rightarrow> PortRegistry \<Rightarrow> port_error + Lease \<times> PortRegistry" where
  "acquire protocol owner key bound ref r =
     andThen (validateAcquireLocked owner key protocol r) (\<lambda>_.
     let key = normalize key
     in case bound of
          None \<Rightarrow> Inl ErrListen
        | Some port \<Rightarrow>
            let actual = key\<lparr>tkPort := port\<rparr>
            in if overlapsLocked actual r then Inl ErrTupleOverlap
               else let generation = prGeneration r + 1;
                        lease = \<lparr>lsActual = actual, lsOwner = owner, lsGeneration = generation, lsRef = ref\<rparr>
                    in Inr (lease, \<lparr>prEntries = AList.update actual \<lparr>leOwner = owner, leGeneration = generation, leLease = ref\<rparr> (prEntries r),
                                    prGeneration = generation\<rparr>))"

definition Acquire :: "string \<Rightarrow> TupleKey \<Rightarrow> u16 option \<Rightarrow> nat \<Rightarrow> PortRegistry \<Rightarrow> port_error + Lease \<times> PortRegistry" where
  "Acquire = acquire ''tcp''"

definition AcquireUDP :: "string \<Rightarrow> TupleKey \<Rightarrow> u16 option \<Rightarrow> nat \<Rightarrow> PortRegistry \<Rightarrow> port_error + Lease \<times> PortRegistry" where
  "AcquireUDP = acquire ''udp''"

text \<open>The test both critical sections of \<open>release\<close> make.\<close>

definition holds :: "Lease \<Rightarrow> PortRegistry \<Rightarrow> bool" where
  "holds l r \<longleftrightarrow>
     (case map_of (prEntries r) (lsActual l) of
        None \<Rightarrow> False
      | Some e \<Rightarrow> leOwner e = lsOwner l \<and> leGeneration e = lsGeneration l \<and> leLease e = lsRef l)"

definition release_check :: "Lease \<Rightarrow> PortRegistry \<Rightarrow> port_error + unit" where
  "release_check l r = (if holds l r then Inr () else Inl ErrStaleLease)"

definition release_remove :: "Lease \<Rightarrow> PortRegistry \<Rightarrow> port_error + PortRegistry" where
  "release_remove l r =
     (if holds l r then Inr (r\<lparr>prEntries := AList.delete (lsActual l) (prEntries r)\<rparr>) else Inl ErrStaleLease)"

definition Len :: "PortRegistry \<Rightarrow> nat" where "Len r = length (prEntries r)"

definition Has :: "TupleKey \<Rightarrow> PortRegistry \<Rightarrow> bool" where
  "Has key r \<longleftrightarrow> map_of (prEntries r) (normalize key) \<noteq> None"

section \<open>Interleavings\<close>

text \<open>
  The whole system: the registry, the sockets that are open, the leases handed out (lease \<open>i\<close> at
  position \<open>i\<close>) and the releases in flight: those about to close their socket and those that have.
\<close>

record ports =
  poRegistry :: PortRegistry
  poOpen :: "nat list"
  poLeases :: "Lease list"
  poClosing :: "Lease list"
  poClosed :: "Lease list"

definition ports_start :: "ports \<Rightarrow> bool" where
  "ports_start s \<longleftrightarrow> s = \<lparr>poRegistry = NewPortRegistry, poOpen = [], poLeases = [], poClosing = [], poClosed = []\<rparr>"

datatype ports_label = LAcquire string string TupleKey "u16 option" | LRelease Lease | LClose Lease bool | LFinish Lease

text \<open>
  \<open>LClose l ok\<close>: closing succeeds or finds the socket closed already (\<open>net.ErrClosed\<close>), or it fails and
  the socket stays open. An acquisition refused after listening closes its socket at once.
\<close>

inductive ports_step :: "ports \<Rightarrow> ports_label \<Rightarrow> ports \<Rightarrow> bool" where
  acquired: "protocol \<in> {''tcp'', ''udp''} \<Longrightarrow>
    acquire protocol owner key bound (length (poLeases s)) (poRegistry s) = Inr (l, r) \<Longrightarrow>
    ports_step s (LAcquire protocol owner key bound)
      (s\<lparr>poRegistry := r, poOpen := length (poLeases s) # poOpen s, poLeases := poLeases s @ [l]\<rparr>)"
| refused: "acquire protocol owner key bound (length (poLeases s)) (poRegistry s) = Inl e \<Longrightarrow>
    ports_step s (LAcquire protocol owner key bound) s"
| release: "l \<in> set (poLeases s) \<Longrightarrow> release_check l (poRegistry s) = Inr () \<Longrightarrow>
    ports_step s (LRelease l) (s\<lparr>poClosing := l # poClosing s\<rparr>)"
| stale: "l \<in> set (poLeases s) \<Longrightarrow> release_check l (poRegistry s) = Inl e \<Longrightarrow> ports_step s (LRelease l) s"
| closed: "l \<in> set (poClosing s) \<Longrightarrow>
    ports_step s (LClose l True) (s\<lparr>poClosing := remove1 l (poClosing s), poOpen := removeAll (lsRef l) (poOpen s), poClosed := l # poClosed s\<rparr>)"
| close_fails: "l \<in> set (poClosing s) \<Longrightarrow> ports_step s (LClose l False) (s\<lparr>poClosing := remove1 l (poClosing s)\<rparr>)"
| finish: "l \<in> set (poClosed s) \<Longrightarrow> release_remove l (poRegistry s) = Inr r \<Longrightarrow>
    ports_step s (LFinish l) (s\<lparr>poRegistry := r, poClosed := remove1 l (poClosed s)\<rparr>)"
| finish_stale: "l \<in> set (poClosed s) \<Longrightarrow> release_remove l (poRegistry s) = Inl e \<Longrightarrow>
    ports_step s (LFinish l) (s\<lparr>poClosed := remove1 l (poClosed s)\<rparr>)"

section \<open>The invariant\<close>

text \<open>
  No two entries overlap, every entry is the entry of the lease it names, every open socket has its
  entry, and a release that has closed its socket finds it closed.
\<close>

definition entry_at :: "ports \<Rightarrow> TupleKey \<Rightarrow> leaseEntry option" where
  "entry_at s = map_of (prEntries (poRegistry s))"

definition entry_ok :: "ports \<Rightarrow> TupleKey \<Rightarrow> leaseEntry \<Rightarrow> bool" where
  "entry_ok s k e \<longleftrightarrow> leLease e < length (poLeases s) \<and>
     poLeases s ! leLease e = \<lparr>lsActual = k, lsOwner = leOwner e, lsGeneration = leGeneration e, lsRef = leLease e\<rparr>"

definition exclusive :: "ports \<Rightarrow> bool" where
  "exclusive s \<longleftrightarrow> (\<forall>k k' e e'. entry_at s k = Some e \<longrightarrow> entry_at s k' = Some e' \<longrightarrow> overlaps k k' \<longrightarrow> k = k')"

definition sockets_owned :: "ports \<Rightarrow> bool" where
  "sockets_owned s \<longleftrightarrow> (\<forall>i\<in>set (poOpen s). \<exists>k e. entry_at s k = Some e \<and> leLease e = i)"

definition leases_ok :: "ports \<Rightarrow> bool" where
  "leases_ok s \<longleftrightarrow> (\<forall>i<length (poLeases s). lsRef (poLeases s ! i) = i) \<and> set (poClosing s) \<subseteq> set (poLeases s) \<and>
     (\<forall>l\<in>set (poClosed s). l \<in> set (poLeases s) \<and> lsRef l \<notin> set (poOpen s))"

definition ports_inv :: "ports \<Rightarrow> bool" where
  "ports_inv s \<longleftrightarrow> exclusive s \<and> (\<forall>k e. entry_at s k = Some e \<longrightarrow> entry_ok s k e) \<and> sockets_owned s \<and> leases_ok s"

lemma overlaps_sym: "overlaps a b \<longleftrightarrow> overlaps b a"
  by (auto simp: overlaps_def)

lemma overlaps_refl: "overlaps k k"
  by (simp add: overlaps_def)

lemma acquire_Inr:
  assumes "acquire protocol owner key bound ref r = Inr (l, r')"
  obtains actual e where "\<not> overlapsLocked actual r" "l = \<lparr>lsActual = actual, lsOwner = owner, lsGeneration = leGeneration e, lsRef = ref\<rparr>"
    "leOwner e = owner" "leLease e = ref" "prEntries r' = AList.update actual e (prEntries r)"
    "tkFamily actual = ''ipv4''" "tkProtocol actual = protocol"
proof -
  from assms obtain port where "bound = Some port" and v: "validateAcquireLocked owner key protocol r = Inr ()"
    by (auto simp: acquire_def Let_def split: option.splits)
  with assms have "\<not> overlapsLocked ((normalize key)\<lparr>tkPort := port\<rparr>) r"
    "l = \<lparr>lsActual = (normalize key)\<lparr>tkPort := port\<rparr>, lsOwner = owner, lsGeneration = prGeneration r + 1, lsRef = ref\<rparr>"
    "prEntries r' = AList.update ((normalize key)\<lparr>tkPort := port\<rparr>) \<lparr>leOwner = owner, leGeneration = prGeneration r + 1, leLease = ref\<rparr> (prEntries r)"
    by (auto simp: acquire_def Let_def split: if_splits)
  moreover have "tkFamily key = ''ipv4''" "tkProtocol key = protocol" using v by (auto simp: validateAcquireLocked_def split: if_splits)
  ultimately show ?thesis
    by (intro that [of "(normalize key)\<lparr>tkPort := port\<rparr>" "\<lparr>leOwner = owner, leGeneration = prGeneration r + 1, leLease = ref\<rparr>"])
      (simp_all add: normalize_def)
qed

lemma not_overlapping:
  assumes "\<not> overlapsLocked actual (poRegistry s)" and "entry_at s k = Some e"
  shows "\<not> overlaps k actual" "\<not> overlaps actual k" "k \<noteq> actual"
  using assms overlaps_refl overlaps_sym unfolding overlapsLocked_def entry_at_def list_ex_iff
  by (metis (no_types, lifting) case_prod_conv map_of_SomeD)+

lemma inv_acquire:
  assumes "ports_inv s" and "acquire protocol owner key bound (length (poLeases s)) (poRegistry s) = Inr (l, r)"
  shows "ports_inv (s\<lparr>poRegistry := r, poOpen := length (poLeases s) # poOpen s, poLeases := poLeases s @ [l]\<rparr>)" (is "ports_inv ?s")
proof -
  from assms(2) obtain actual e where a: "\<not> overlapsLocked actual (poRegistry s)"
    "l = \<lparr>lsActual = actual, lsOwner = owner, lsGeneration = leGeneration e, lsRef = length (poLeases s)\<rparr>" "leOwner e = owner"
    "leLease e = length (poLeases s)" "prEntries r = AList.update actual e (prEntries (poRegistry s))" by (rule acquire_Inr) auto
  have at: "entry_at ?s = (entry_at s)(actual \<mapsto> e)" by (simp add: entry_at_def a(5))
  have ok: "entry_ok s k e' \<Longrightarrow> entry_ok ?s k e'" for k e' by (auto simp: entry_ok_def nth_append)
  have "exclusive ?s"
    using assms(1) not_overlapping [OF a(1)] by (auto simp: ports_inv_def exclusive_def at split: if_splits)
  moreover have "entry_ok ?s k e'" if "entry_at ?s k = Some e'" for k e'
  proof (cases "k = actual")
    case True
    with that have "e' = e" unfolding at by simp
    with True a show ?thesis by (simp add: entry_ok_def)
  next
    case False
    with that have "entry_at s k = Some e'" unfolding at by simp
    with assms(1) show ?thesis by (intro ok) (simp add: ports_inv_def)
  qed
  moreover have "sockets_owned ?s"
    using assms(1) a(4) not_overlapping(3) [OF a(1)] by (fastforce simp: ports_inv_def sockets_owned_def at)
  moreover have "leases_ok ?s"
  proof -
    have "lsRef k < length (poLeases s)" if "k \<in> set (poLeases s)" for k
      using that assms(1) by (auto simp: ports_inv_def leases_ok_def in_set_conv_nth)
    with assms(1) a(2) show ?thesis
      by (fastforce simp: ports_inv_def leases_ok_def nth_append less_Suc_eq)
  qed
  ultimately show ?thesis unfolding ports_inv_def by blast
qed

text \<open>The releases in flight and the open sockets do not bear on the entries.\<close>

lemma flight_frame [simp]:
  "entry_at (s\<lparr>poClosing := x\<rparr>) = entry_at s" "entry_at (s\<lparr>poClosed := x\<rparr>) = entry_at s" "entry_at (s\<lparr>poOpen := y\<rparr>) = entry_at s"
  "entry_ok (s\<lparr>poClosing := x\<rparr>) = entry_ok s" "entry_ok (s\<lparr>poClosed := x\<rparr>) = entry_ok s" "entry_ok (s\<lparr>poOpen := y\<rparr>) = entry_ok s"
  "entry_ok (s\<lparr>poRegistry := r\<rparr>) = entry_ok s"
  by (simp_all add: entry_at_def entry_ok_def fun_eq_iff)

lemma leases_frame:
  assumes "leases_ok s"
  shows "leases_ok (s\<lparr>poRegistry := r\<rparr>)" "l \<in> set (poLeases s) \<Longrightarrow> leases_ok (s\<lparr>poClosing := l # poClosing s\<rparr>)"
    "leases_ok (s\<lparr>poClosing := remove1 l (poClosing s)\<rparr>)" "leases_ok (s\<lparr>poClosed := remove1 l (poClosed s)\<rparr>)"
    "l \<in> set (poLeases s) \<Longrightarrow> leases_ok (s\<lparr>poOpen := removeAll (lsRef l) (poOpen s), poClosed := l # poClosed s\<rparr>)"
  using assms set_remove1_subset [of l "poClosing s"] set_remove1_subset [of l "poClosed s"] unfolding leases_ok_def by auto

lemma inv_finish:
  assumes "ports_inv s" and "l \<in> set (poClosed s)" and "release_remove l (poRegistry s) = Inr r"
  shows "ports_inv (s\<lparr>poRegistry := r, poClosed := remove1 l (poClosed s)\<rparr>)" (is "ports_inv ?s")
proof -
  from assms(3) have r: "prEntries r = AList.delete (lsActual l) (prEntries (poRegistry s))" and h: "holds l (poRegistry s)"
    by (auto simp: release_remove_def split: if_splits)
  from h obtain e where e: "entry_at s (lsActual l) = Some e" "leLease e = lsRef l" by (auto simp: holds_def entry_at_def split: option.splits)
  have at: "entry_at ?s = (entry_at s)(lsActual l := None)" by (simp add: entry_at_def r)
  have "sockets_owned ?s"
    unfolding sockets_owned_def
  proof
    fix i assume i: "i \<in> set (poOpen ?s)"
    then obtain k e' where k: "entry_at s k = Some e'" "leLease e' = i" using assms(1) by (auto simp: ports_inv_def sockets_owned_def)
    have "lsRef l \<notin> set (poOpen s)" using assms(1,2) by (auto simp: ports_inv_def leases_ok_def)
    with i e k have "k \<noteq> lsActual l" by auto
    with k show "\<exists>k e. entry_at ?s k = Some e \<and> leLease e = i" unfolding at by auto
  qed
  moreover have "exclusive ?s" using assms(1) unfolding ports_inv_def exclusive_def at by (simp split: if_splits)
  moreover have "leases_ok ?s" using assms(1) leases_frame(1,4) by (fastforce simp: ports_inv_def)
  moreover have "entry_ok ?s = entry_ok s" by (simp add: entry_ok_def fun_eq_iff)
  ultimately show ?thesis using assms(1) unfolding ports_inv_def at by (simp split: if_splits)
qed

lemma inv_flight:
  assumes "ports_inv s"
  shows "l \<in> set (poLeases s) \<Longrightarrow> ports_inv (s\<lparr>poClosing := l # poClosing s\<rparr>)"
    "l \<in> set (poClosing s) \<Longrightarrow>
       ports_inv (s\<lparr>poClosing := remove1 l (poClosing s), poOpen := removeAll (lsRef l) (poOpen s), poClosed := l # poClosed s\<rparr>)"
    "ports_inv (s\<lparr>poClosing := remove1 l (poClosing s)\<rparr>)" "ports_inv (s\<lparr>poClosed := remove1 l (poClosed s)\<rparr>)"
proof -
  have inv: "exclusive s" "\<forall>k e. entry_at s k = Some e \<longrightarrow> entry_ok s k e" "sockets_owned s" "leases_ok s"
    using assms by (simp_all add: ports_inv_def)
  then have "set (poClosing s) \<subseteq> set (poLeases s)" by (simp add: leases_ok_def)
  then show "l \<in> set (poClosing s) \<Longrightarrow>
       ports_inv (s\<lparr>poClosing := remove1 l (poClosing s), poOpen := removeAll (lsRef l) (poOpen s), poClosed := l # poClosed s\<rparr>)"
    using inv leases_frame(5) [OF leases_frame(3) [OF inv(4), of l], of l]
    by (auto simp: ports_inv_def exclusive_def sockets_owned_def)
qed (use assms leases_frame in \<open>auto simp: ports_inv_def exclusive_def sockets_owned_def\<close>)

interpretation ports: inductive_invariant ports_start ports_step ports_inv
proof
  show "ports_inv s" if "ports_start s" for s
    using that by (simp add: ports_start_def ports_inv_def exclusive_def sockets_owned_def leases_ok_def entry_at_def NewPortRegistry_def)
  show "ports_inv t" if "ports_step s l t" "ports_inv s" for s l t
    using that by (cases rule: ports_step.cases) (auto intro: inv_acquire inv_finish inv_flight)
qed

text \<open>
  C23: sockets are owned exclusively, whatever the interleaving of acquisitions and of the two halves of releases. In
  every reachable state no two registered tuples overlap (equal or wildcard address on one port), every
  open socket belongs to exactly one registered tuple, and that entry is the one its lease was issued with.
\<close>
theorem port_registry_exclusive:
  assumes "reach ports_start ports_step s"
  shows "exclusive s \<and> (\<forall>i\<in>set (poOpen s). \<exists>!k. \<exists>e. entry_at s k = Some e \<and> leLease e = i \<and> lsActual (poLeases s ! i) = k)"
proof -
  have inv: "ports_inv s" by (rule ports.inv_reach [OF assms])
  then have "\<exists>k e. entry_at s k = Some e \<and> leLease e = i \<and> lsActual (poLeases s ! i) = k" if "i \<in> set (poOpen s)" for i
    using that by (fastforce simp: ports_inv_def sockets_owned_def entry_ok_def)
  with inv show ?thesis by (auto simp: ports_inv_def)
qed

text \<open>
  A stale release never touches the current owner. A release whose lease is not the registered one fails and changes
  nothing, in both of its critical sections; only the holder of the registered lease removes its entry,
  and no other entry with it.
\<close>
theorem stale_release_harmless:
  assumes "reach ports_start ports_step s" and "l \<in> set (poLeases s)"
  shows "(\<not> holds l (poRegistry s) \<longrightarrow> release_check l (poRegistry s) = Inl ErrStaleLease \<and> release_remove l (poRegistry s) = Inl ErrStaleLease) \<and>
    (\<forall>r. release_remove l (poRegistry s) = Inr r \<longrightarrow>
       (\<forall>k. map_of (prEntries r) k = (if k = lsActual l then None else entry_at s k)) \<and>
       (\<forall>l'\<in>set (poLeases s). holds l' (poRegistry s) \<and> l' \<noteq> l \<longrightarrow> holds l' r))"
proof -
  have inv: "ports_inv s" by (rule ports.inv_reach [OF assms(1)])
  have "lsActual l' \<noteq> lsActual l" if "holds l' (poRegistry s)" "holds l (poRegistry s)" "l' \<noteq> l" for l'
    using that by (auto simp: holds_def split: option.splits)
  then show ?thesis by (auto simp: release_check_def release_remove_def entry_at_def holds_def split: if_splits option.splits)
qed

section \<open>Witnesses\<close>

definition demo_tuple :: TupleKey where
  "demo_tuple = \<lparr>tkFamily = ''ipv4'', tkProtocol = ''tcp'', tkAddress = [], tkPort = 0\<rparr>"

definition demo_lease :: Lease where
  "demo_lease = \<lparr>lsActual = \<lparr>tkFamily = ''ipv4'', tkProtocol = ''tcp'', tkAddress = ''0.0.0.0'', tkPort = 4000\<rparr>, lsOwner = ''f1'', lsGeneration = 1, lsRef = 0\<rparr>"

definition demo_ports :: ports where
  "demo_ports = \<lparr>poRegistry = \<lparr>prEntries = [(lsActual demo_lease, \<lparr>leOwner = ''f1'', leGeneration = 1, leLease = 0\<rparr>)], prGeneration = 1\<rparr>,
     poOpen = [0], poLeases = [demo_lease], poClosing = [], poClosed = []\<rparr>"

lemma demo_reach: "reach ports_start ports_step demo_ports"
proof -
  let ?s = "\<lparr>poRegistry = NewPortRegistry, poOpen = [], poLeases = [], poClosing = [], poClosed = []\<rparr>"
  have "acquire ''tcp'' ''f1'' demo_tuple (Some 4000) (length (poLeases ?s)) (poRegistry ?s) = Inr (demo_lease, poRegistry demo_ports)"
    by (simp add: acquire_def validateAcquireLocked_def demo_tuple_def normalize_def overlapsLocked_def NewPortRegistry_def demo_lease_def demo_ports_def Let_def)
  from ports_step.acquired [OF _ this] have "ports_step ?s (LAcquire ''tcp'' ''f1'' demo_tuple (Some 4000)) demo_ports"
    by (simp add: demo_ports_def)
  then show ?thesis by (rule reach_step [OF reach_start, rotated]) (simp add: ports_start_def)
qed

theorem port_registry_exclusive_witness:
  "exclusive demo_ports \<and> (\<exists>e. entry_at demo_ports (lsActual demo_lease) = Some e \<and> leLease e = 0)"
proof -
  note p = port_registry_exclusive [OF demo_reach]
  have "0 \<in> set (poOpen demo_ports)" "lsActual (poLeases demo_ports ! 0) = lsActual demo_lease" by (simp_all add: demo_ports_def)
  with p show ?thesis by (metis (no_types, lifting))
qed

theorem stale_release_harmless_witness:
  "\<exists>r. release_remove demo_lease (poRegistry demo_ports) = Inr r \<and> map_of (prEntries r) (lsActual demo_lease) = None"
proof -
  have h: "holds demo_lease (poRegistry demo_ports)" by (simp add: holds_def demo_ports_def demo_lease_def)
  then obtain r where r: "release_remove demo_lease (poRegistry demo_ports) = Inr r" by (simp add: release_remove_def)
  have "demo_lease \<in> set (poLeases demo_ports)" by (simp add: demo_ports_def)
  from stale_release_harmless [OF demo_reach this] r have "map_of (prEntries r) (lsActual demo_lease) = None" by auto
  with r show ?thesis by blast
qed

end
