(* ===== verification/Agent_Manager.thy ===== *)
theory Agent_Manager
  imports Agent_Traversal Agent_Port_Registry
begin

text \<open>
  \<open>internal/traversal/manager.go\<close>: the acquisition of one Forward (plan, listener, gateway mapping, optional
  observation on the same tuple), its renewal and its release.

  Everything outside the manager is a record of functions on an environment \<open>'w\<close>: the listener source, the
  gateway adapters by mechanism, the observer, the clock, the random source and the journal. A panic of an
  injected implementation is caught by \<open>externalCallContained\<close> and is a failure here; for the journal write
  alone the two are told apart, as in the source. The state adds a log of the effects, which only the
  theorems read. The methods of an acquisition run under its mutex, so each is one step.
\<close>

section \<open>The environment\<close>

datatype put_outcome = PutDone | PutError string | PutPanic string

record 'w journal_ext =
  jxPut :: "JournalRecord \<Rightarrow> 'w \<Rightarrow> put_outcome \<times> 'w"
  jxGet :: "string \<Rightarrow> 'w \<Rightarrow> (string + JournalRecord option) \<times> 'w"
  jxDelete :: "string \<Rightarrow> 'w \<Rightarrow> (string + unit) \<times> 'w"

record 'w externals =
  exRouteTable :: RouteTable
  exMappers :: "string list"
  exListen :: "string \<Rightarrow> TupleKey \<Rightarrow> 'w \<Rightarrow> (string + TupleKey \<times> nat) \<times> 'w"
  exRelease :: "nat \<Rightarrow> 'w \<Rightarrow> (string + unit) \<times> 'w"
  exDiscover :: "string \<Rightarrow> 'w \<Rightarrow> (string + ControlServer) \<times> 'w"
  exMap :: "string \<Rightarrow> GatewayMapRequest \<Rightarrow> 'w \<Rightarrow> (string + GatewayMapping) \<times> 'w"
  exRenew :: "string \<Rightarrow> GatewayMapping \<Rightarrow> int \<Rightarrow> 'w \<Rightarrow> (string + GatewayMapping) \<times> 'w"
  exDelete :: "string \<Rightarrow> GatewayMapping \<Rightarrow> 'w \<Rightarrow> (string + unit) \<times> 'w"
  exObserve :: "(AddrPort \<Rightarrow> TupleKey \<Rightarrow> 'w \<Rightarrow> (string + AddrPort) \<times> 'w) option"
  exMarshal :: "bytes \<Rightarrow> string + bytes"
  exClock :: "'w \<Rightarrow> int \<times> 'w"
  exRandom :: "'w \<Rightarrow> bytes \<times> 'w"
  exJournal :: "'w journal_ext option"
  exDefaultLease :: int

datatype effect =
  Listened nat | Released nat | Mapped GatewayMapping | Deleted GatewayMapping bool | JournalPut JournalRecord bool | JournalDeleted string

record 'w world =
  wEnv :: 'w
  wLog :: "effect list"

datatype manager_error =
  MissingIdentity | PlanRefused strategy_error | Assessment route_error string | NotGlobal | ListenFailed string
| ManualDisagrees | NoMapper string | StunServerSyntax string | StrictWithoutPort | NoSource route_error | DiscoverFailed string
| MapFailed string | PipelineRefused strategy_error "string option" | StrategyNotAcquired string

type_synonym ('w, 'a) mgr = "('w world, manager_error, 'a) action"

text \<open>A call of an external function, with the effect it leaves in the log.\<close>

definition extC :: "('w \<Rightarrow> 'r \<times> 'w) \<Rightarrow> ('r \<Rightarrow> effect list) \<Rightarrow> 'w world \<Rightarrow> 'r \<times> 'w world" where
  "extC f log s = (case f (wEnv s) of (r, w) \<Rightarrow> (r, s\<lparr>wEnv := w, wLog := wLog s @ log r\<rparr>))"

definition failWith :: "(string \<Rightarrow> manager_error) \<Rightarrow> ('w world \<Rightarrow> (string + 'a) \<times> 'w world) \<Rightarrow> ('w, 'a) mgr" where
  "failWith e f s = (case f s of (Inl m, s') \<Rightarrow> (Inl (e m), s') | (Inr a, s') \<Rightarrow> (Inr a, s'))"

definition listenC :: "'w externals \<Rightarrow> string \<Rightarrow> TupleKey \<Rightarrow> 'w world \<Rightarrow> (string + TupleKey \<times> nat) \<times> 'w world" where
  "listenC X owner key = extC (exListen X owner key) (\<lambda>r. case r of Inl _ \<Rightarrow> [] | Inr (_, ref) \<Rightarrow> [Listened ref])"

definition releaseC :: "'w externals \<Rightarrow> nat \<Rightarrow> 'w world \<Rightarrow> (string + unit) \<times> 'w world" where
  "releaseC X ref = extC (exRelease X ref) (\<lambda>_. [Released ref])"

definition discoverC :: "'w externals \<Rightarrow> string \<Rightarrow> 'w world \<Rightarrow> (string + ControlServer) \<times> 'w world" where
  "discoverC X mech = extC (exDiscover X mech) (\<lambda>_. [])"

definition mapC :: "'w externals \<Rightarrow> string \<Rightarrow> GatewayMapRequest \<Rightarrow> 'w world \<Rightarrow> (string + GatewayMapping) \<times> 'w world" where
  "mapC X mech req = extC (exMap X mech req) (\<lambda>r. case r of Inl _ \<Rightarrow> [] | Inr m \<Rightarrow> [Mapped m])"

definition renewC :: "'w externals \<Rightarrow> string \<Rightarrow> GatewayMapping \<Rightarrow> int \<Rightarrow> 'w world \<Rightarrow> (string + GatewayMapping) \<times> 'w world" where
  "renewC X mech m lease = extC (exRenew X mech m lease) (\<lambda>_. [])"

definition deleteMappingContained :: "'w externals \<Rightarrow> string \<Rightarrow> GatewayMapping \<Rightarrow> 'w world \<Rightarrow> (string + unit) \<times> 'w world" where
  "deleteMappingContained X mech m = extC (exDelete X mech m) (\<lambda>r. [Deleted m (r = Inr ())])"

definition clockNow :: "'w externals \<Rightarrow> 'w world \<Rightarrow> int \<times> 'w world" where
  "clockNow X = extC (exClock X) (\<lambda>_. [])"

section \<open>Acquisitions\<close>

datatype lost_reason = LeaseMargin | MarginAfterFailure | GatewayRebooted | EndpointRewritten AddrPort AddrPort

datatype lifecycleEvent = EventDegraded string | EventLost lost_reason | EventRecovered

text \<open>\<open>aqEvents\<close> are the events delivered so far, in order; \<open>aqLeaseDeadline\<close> is \<open>None\<close> for the zero time.\<close>

record Acquisition =
  aqForwardID :: string
  aqBind :: TupleKey
  aqVerdict :: PipelineVerdict
  aqLayers :: "LayerEvidence list"
  aqMapping :: "GatewayMapping option"
  aqJournalID :: string
  aqJournalAttemptID :: string
  aqJournalCreatedAt :: int
  aqStunObserveError :: "string option"
  aqJournalError :: "string option"
  aqMapper :: "string option"
  aqReleaseFn :: "nat option"
  aqReleaseErr :: "string list option"
  aqRenewing :: bool
  aqProductionPacing :: bool
  aqInterval :: int
  aqJitter :: int
  aqEvents :: "lifecycleEvent list"
  aqFailedRenew :: nat
  aqDegraded :: bool
  aqDegradedFired :: bool
  aqLostFired :: bool
  aqLeaseDuration :: int
  aqLeaseDeadline :: "int option"

record AcquireRequest =
  arForwardID :: string
  arOwner :: string
  arSpec :: ForwardSpec
  arPlan :: PlanRequest
  arLease :: int
  arRenewalInterval :: int
  arRenewalJitterMax :: int
  arStunServer :: string

definition newAcquisition :: "string \<Rightarrow> TupleKey \<Rightarrow> nat \<Rightarrow> LayerEvidence list \<Rightarrow> PipelineVerdict \<Rightarrow> Acquisition" where
  "newAcquisition forwardID bind ref layers verdict =
     \<lparr>aqForwardID = forwardID, aqBind = bind, aqVerdict = verdict, aqLayers = layers, aqMapping = None, aqJournalID = [],
      aqJournalAttemptID = [], aqJournalCreatedAt = 0, aqStunObserveError = None, aqJournalError = None, aqMapper = None,
      aqReleaseFn = Some ref, aqReleaseErr = None, aqRenewing = False, aqProductionPacing = False, aqInterval = 0, aqJitter = 0,
      aqEvents = [], aqFailedRenew = 0, aqDegraded = False, aqDegradedFired = False, aqLostFired = False, aqLeaseDuration = 0,
      aqLeaseDeadline = None\<rparr>"

section \<open>The journal record of a mapping\<close>

definition journalIDFor :: "'w externals \<Rightarrow> string \<Rightarrow> GatewayMapping \<Rightarrow> 'w world \<Rightarrow> string \<times> 'w world" where
  "journalIDFor X forwardID mapping s =
     (case extC (exRandom X) (\<lambda>_. []) s of
        (b, s') \<Rightarrow> (forwardID @ ''-'' @ gmMechanism mapping @ ''-'' @ EncodeToString b, s'))"

definition unixSeconds :: "int \<Rightarrow> int" where "unixSeconds t = t div 1000000000"

definition journalRecordOf :: "string \<Rightarrow> string \<Rightarrow> int \<Rightarrow> int \<Rightarrow> bytes \<Rightarrow> GatewayMapping \<Rightarrow> JournalRecord" where
  "journalRecordOf recordID forwardID createdAt now state mapping =
     \<lparr>jrID = recordID, jrForwardID = forwardID, jrOperationID = [], jrMechanism = gmMechanism mapping,
      jrOwnership = gmOwnership mapping, jrProtocol = ''tcp'', jrInternalIP = Addr_String (gmInternalIP mapping),
      jrInternalPort = gmInternalPort mapping, jrExternalIP = Addr_String (fst (gmExternal mapping)),
      jrExternalPort = snd (gmExternal mapping), jrLeaseExpiryUnix = unixSeconds (now + gmLease mapping), jrEpoch = gmEpoch mapping,
      jrIdentity = gmIdentity mapping, jrState = state, jrCreatedAtUnix = createdAt, jrUpdatedAtUnix = unixSeconds now\<rparr>"

text \<open>The write itself: whether the record is durable. After a panic the row is read back and compared.\<close>

definition sameAttempt :: "JournalRecord \<Rightarrow> JournalRecord \<Rightarrow> bool" where
  "sameAttempt existing record' \<longleftrightarrow>
     jrUpdatedAtUnix existing = jrUpdatedAtUnix record' \<and> jrLeaseExpiryUnix existing = jrLeaseExpiryUnix record' \<and>
     jrExternalPort existing = jrExternalPort record'"

definition blankRecord :: JournalRecord where
  "blankRecord = \<lparr>jrID = [], jrForwardID = [], jrOperationID = [], jrMechanism = [], jrOwnership = [], jrProtocol = [],
     jrInternalIP = [], jrInternalPort = 0, jrExternalIP = [], jrExternalPort = 0, jrLeaseExpiryUnix = 0, jrEpoch = 0, jrIdentity = [],
     jrState = [], jrCreatedAtUnix = 0, jrUpdatedAtUnix = 0\<rparr>"

definition putRecord :: "'w journal_ext \<Rightarrow> JournalRecord \<Rightarrow> 'w world \<Rightarrow> (string + unit) \<times> 'w world" where
  "putRecord J r s =
     (case extC (jxPut J r) (\<lambda>out. [JournalPut r (out = PutDone)]) s of
        (PutDone, s') \<Rightarrow> (Inr (), s')
      | (PutError e, s') \<Rightarrow> (Inl e, s')
      | (PutPanic e, s') \<Rightarrow>
          (case extC (jxGet J (jrID r)) (\<lambda>_. []) s' of
             (Inl _, s'') \<Rightarrow> (Inl e, s'')
           | (Inr found, s'') \<Rightarrow>
               if sameAttempt (case found of None \<Rightarrow> blankRecord | Some existing \<Rightarrow> existing) r then (Inr (), s'') else (Inl e, s'')))"

definition journalPut ::
  "'w externals \<Rightarrow> string \<Rightarrow> string \<Rightarrow> string \<Rightarrow> int \<Rightarrow> GatewayMapping \<Rightarrow> 'w world \<Rightarrow> (string \<times> string \<times> int \<times> string option) \<times> 'w world" where
  "journalPut X forwardID existingID attemptID createdAt mapping s =
     (case exJournal X of
        None \<Rightarrow> (([], [], 0, None), s)
      | Some J \<Rightarrow>
          (case clockNow X s of (now, s1) \<Rightarrow>
           let createdAt = (if createdAt = 0 then unixSeconds now else createdAt) in
           (case (if existingID \<noteq> [] then (existingID, s1) else if attemptID \<noteq> [] then (attemptID, s1)
                  else journalIDFor X forwardID mapping s1) of
              (recordID, s2) \<Rightarrow>
                (case exMarshal X (gmState mapping) of
                   Inl e \<Rightarrow> ((existingID, recordID, createdAt, Some e), s2)
                 | Inr state \<Rightarrow>
                     (case putRecord J (journalRecordOf recordID forwardID createdAt now state mapping) s2 of
                        (Inr _, s3) \<Rightarrow> ((recordID, recordID, createdAt, None), s3)
                      | (Inl e, s3) \<Rightarrow> ((existingID, recordID, createdAt, Some e), s3))))))"

definition recordJournal :: "'w externals \<Rightarrow> string \<Rightarrow> GatewayMapping \<Rightarrow> Acquisition \<Rightarrow> 'w world \<Rightarrow> Acquisition \<times> 'w world" where
  "recordJournal X forwardID mapping a s =
     (case journalPut X forwardID (aqJournalID a) (aqJournalAttemptID a) (aqJournalCreatedAt a) mapping s of
        ((jid, attempt, created, err), s') \<Rightarrow>
          (a\<lparr>aqJournalID := jid, aqJournalAttemptID := attempt, aqJournalCreatedAt := created, aqJournalError := err\<rparr>, s'))"

section \<open>Acquire\<close>

definition sourceKey :: "netip_addr \<Rightarrow> u16 \<Rightarrow> TupleKey" where
  "sourceKey addr port = \<lparr>tkFamily = ''ipv4'', tkProtocol = ''tcp'', tkAddress = Addr_String addr, tkPort = port\<rparr>"

definition plainLayer :: "string \<Rightarrow> string \<Rightarrow> string \<Rightarrow> string \<Rightarrow> LayerEvidence" where
  "plainLayer kind internal assigned scope =
     \<lparr>lyKind = kind, lyMechanism = [], lyControlServer = [], lyInternalEndpoint = internal, lyAssignedEndpoint = assigned,
      lyScope = scope, lyLeaseLifetime = 0, lyEpoch = 0, lyOwnership = OwnershipNotApplicable, lyParentLayer = -1, lyNote = []\<rparr>"

text \<open>The common end of the direct and the manual path: judge the layer, or release the listener.\<close>

definition finishPlain ::
  "'w externals \<Rightarrow> string \<Rightarrow> TupleKey \<Rightarrow> nat \<Rightarrow> LayerEvidence list \<Rightarrow> string \<Rightarrow> ('w, Acquisition) mgr" where
  "finishPlain X forwardID bind ref layers constraint =
     (case EvaluateLayers layers constraint of
        Inr verdict \<Rightarrow> retA (newAcquisition forwardID bind ref layers verdict)
      | Inl e \<Rightarrow> (\<lambda>s. case releaseC X ref s of (_, s') \<Rightarrow> (Inl (PipelineRefused e None), s')))"

definition acquireDirect :: "'w externals \<Rightarrow> AcquireRequest \<Rightarrow> ('w, Acquisition) mgr" where
  "acquireDirect X req =
     (case Assess (exRouteTable X) of
        Inl (e, capability) \<Rightarrow> failA (Assessment e capability)
      | Inr (selection, _) \<Rightarrow>
          if \<not> slGlobal selection then failA NotGlobal
          else bindA (failWith ListenFailed (listenC X (arOwner req) (sourceKey (slSource selection) (fsRequestedLocalPort (arSpec req))))) (\<lambda>(actual, ref).
               let candidate = AddrPort_String (slSource selection, tkPort actual)
               in finishPlain X (arForwardID req) actual ref [plainLayer LayerKindDirect candidate candidate ScopeGlobalPublic]
                    PortPolicyAcceptAssigned))"

definition acquireManual :: "'w externals \<Rightarrow> AcquireRequest \<Rightarrow> StrategyPlan \<Rightarrow> ('w, Acquisition) mgr" where
  "acquireManual X req plan =
     (let endpoint = spManualExpectedEndpoint plan; specEndpoint = fsManualExpectedEndpoint (arSpec req)
      in if endpoint = [] then failA (PlanRefused ErrOperatorEndpointRequired)
         else if specEndpoint \<noteq> [] \<and> specEndpoint \<noteq> endpoint then failA ManualDisagrees
         else case ParseManualEndpoint endpoint of
           Inl e \<Rightarrow> failA (PlanRefused e)
         | Inr parsed \<Rightarrow>
             bindA (failWith ListenFailed (listenC X (arOwner req)
               \<lparr>tkFamily = ''ipv4'', tkProtocol = ''tcp'', tkAddress = ''0.0.0.0'', tkPort = fsRequestedLocalPort (arSpec req)\<rparr>)) (\<lambda>(actual, ref).
             finishPlain X (arForwardID req) actual ref
               [plainLayer LayerKindManual (AddrPort_String (Addr4 0 0 0 0, tkPort actual)) (AddrPort_String parsed) ScopeOperatorInput]
               (spFinalEndpointConstraint plan)))"

definition scopeForAddr :: "netip_addr \<Rightarrow> string" where
  "scopeForAddr addr = (if IsGlobalV4 addr then ScopeGlobalPublic else ScopeFirstHop)"

definition parseStunTCPServer :: "string \<Rightarrow> AddrPort option" where
  "parseStunTCPServer server =
     (if take (length ''stun+tcp://'') server \<noteq> ''stun+tcp://'' then None
      else map_option (\<lambda>(a, p). (Unmap a, p)) (ParseAddrPort (drop (length ''stun+tcp://'') server)))"

text \<open>The optional observation: the extra layer, or the reason there is none.\<close>

definition observeUpstream ::
  "'w externals \<Rightarrow> string \<Rightarrow> netip_addr \<Rightarrow> TupleKey \<Rightarrow> 'w world \<Rightarrow> (string option \<times> LayerEvidence list) \<times> 'w world" where
  "observeUpstream X stunServer source bind s =
     (case (stunServer = [], parseStunTCPServer stunServer, exObserve X) of
        (False, Some server, None) \<Rightarrow> ((Some ''no observer'', []), s)
      | (False, Some server, Some observe) \<Rightarrow>
          (case extC (observe server bind) (\<lambda>_. []) s of
             (Inl e, s') \<Rightarrow> ((Some e, []), s')
           | (Inr observed, s') \<Rightarrow>
               ((None,
                 [\<lparr>lyKind = LayerKindSTUN, lyMechanism = [], lyControlServer = stunServer,
                   lyInternalEndpoint = AddrPort_String (source, tkPort bind), lyAssignedEndpoint = AddrPort_String observed,
                   lyScope = scopeForAddr (fst observed), lyLeaseLifetime = 0, lyEpoch = 0, lyOwnership = OwnershipObservedOnly,
                   lyParentLayer = 0, lyNote = []\<rparr>]), s'))
      | _ \<Rightarrow> ((None, []), s))"

definition grantedLeaseOrDefault :: "Acquisition \<Rightarrow> int \<Rightarrow> int" where
  "grantedLeaseOrDefault a fallback =
     (case aqMapping a of Some m \<Rightarrow> if gmLease m > 0 then gmLease m else fallback | None \<Rightarrow> fallback)"

definition startRenewal :: "int \<Rightarrow> int \<Rightarrow> int \<Rightarrow> Acquisition \<Rightarrow> Acquisition" where
  "startRenewal lease requestedInterval requestedJitter a =
     (let productionPacing = (requestedInterval \<le> 0); granted = grantedLeaseOrDefault a lease
      in a\<lparr>aqRenewing := True, aqProductionPacing := productionPacing,
           aqInterval := (if productionPacing then granted div 2 else requestedInterval),
           aqJitter := (if productionPacing then granted div 10 else requestedJitter), aqEvents := []\<rparr>)"

text \<open>The part of \<open>acquireGateway\<close> after the mapping exists.\<close>

definition composeGateway ::
  "'w externals \<Rightarrow> AcquireRequest \<Rightarrow> StrategyPlan \<Rightarrow> int \<Rightarrow> netip_addr \<Rightarrow> ControlServer \<Rightarrow> TupleKey \<Rightarrow> nat \<Rightarrow> GatewayMapping \<Rightarrow>
   ('w, Acquisition) mgr" where
  "composeGateway X req plan lease source control actual ref mapping s =
     (case (if gmLease mapping > 0 then (case clockNow X s of (now, s') \<Rightarrow> (Some (now + gmLease mapping), s')) else (None, s)) of
        (deadline, s1) \<Rightarrow>
          (case observeUpstream X (arStunServer req) source actual s1 of
             ((stunError, extra), s2) \<Rightarrow>
               let layers = GatewayMapping_Evidence mapping control # extra
               in case EvaluateLayers layers (spFinalEndpointConstraint plan) of
                    Inl e \<Rightarrow>
                      (case deleteMappingContained X (spMappingLayer plan) mapping s2 of
                         (Inl d, s3) \<Rightarrow> (Inl (PipelineRefused e (Some d)), s3)
                       | (Inr _, s3) \<Rightarrow> (Inl (PipelineRefused e None), s3))
                  | Inr verdict \<Rightarrow>
                      let a = (newAcquisition (arForwardID req) actual ref layers verdict)
                            \<lparr>aqMapper := Some (spMappingLayer plan), aqMapping := Some mapping, aqStunObserveError := stunError,
                             aqLeaseDuration := (if gmLease mapping > 0 then gmLease mapping else 0), aqLeaseDeadline := deadline\<rparr>
                      in case recordJournal X (arForwardID req) mapping a s2 of
                           (a', s3) \<Rightarrow> (Inr (startRenewal lease (arRenewalInterval req) (arRenewalJitterMax req) a'), s3)))"

text \<open>A failure after the listener is bound is followed by its release in \<open>Acquire\<close>.\<close>

definition releasing :: "'w externals \<Rightarrow> nat \<Rightarrow> ('w, 'a) mgr \<Rightarrow> ('w, 'a) mgr" where
  "releasing X ref m s =
     (case m s of
        (Inr a, s') \<Rightarrow> (Inr a, s')
      | (Inl e, s') \<Rightarrow> (case releaseC X ref s' of (_, s'') \<Rightarrow> (Inl e, s'')))"

text \<open>From the bound listener on.\<close>

definition mapGateway ::
  "'w externals \<Rightarrow> AcquireRequest \<Rightarrow> StrategyPlan \<Rightarrow> int \<Rightarrow> netip_addr \<Rightarrow> ControlServer \<Rightarrow> TupleKey \<times> nat \<Rightarrow> ('w, Acquisition) mgr" where
  "mapGateway X req plan lease source control bound =
     (case bound of (actual, ref) \<Rightarrow>
        releasing X ref
          (bindA (failWith MapFailed (mapC X (spMappingLayer plan)
             \<lparr>gqInternalIP = source, gqInternalPort = tkPort actual, gqRequestedExternalPort = fsRequestedPublicPort (arSpec req),
              gqLease = lease, gqStrictPort = (spGatewayPortPolicy plan = PortPolicyStrict)\<rparr>))
           (composeGateway X req plan lease source control actual ref)))"

definition acquireGateway :: "'w externals \<Rightarrow> AcquireRequest \<Rightarrow> StrategyPlan \<Rightarrow> int \<Rightarrow> ('w, Acquisition) mgr" where
  "acquireGateway X req plan lease =
     (let mech = spMappingLayer plan; spec = arSpec req in
      if mech \<notin> set (exMappers X) then failA (NoMapper mech)
      else if arStunServer req \<noteq> [] \<and> parseStunTCPServer (arStunServer req) = None then failA (StunServerSyntax (arStunServer req))
      else if spGatewayPortPolicy plan = PortPolicyStrict \<and> fsRequestedPublicPort spec = 0 then failA StrictWithoutPort
      else case DefaultRouteSource (exRouteTable X) of
        Inl e \<Rightarrow> failA (NoSource e)
      | Inr selection \<Rightarrow>
          bindA (failWith DiscoverFailed (discoverC X mech)) (\<lambda>control.
          bindA (failWith ListenFailed (listenC X (arOwner req) (sourceKey (slSource selection) (fsRequestedLocalPort spec))))
            (mapGateway X req plan lease (slSource selection) control)))"

definition AcquireForward :: "'w externals \<Rightarrow> AcquireRequest \<Rightarrow> ('w, Acquisition) mgr" where
  "AcquireForward X req =
     (if arForwardID req = [] \<or> arOwner req = [] then failA MissingIdentity
      else case PlanStrategy (arPlan req) of
        Inl e \<Rightarrow> failA (PlanRefused e)
      | Inr plan \<Rightarrow>
          if spStrategy plan = ''direct-v4'' then acquireDirect X req
          else if spStrategy plan = ''manual-static-v4'' then acquireManual X req plan
          else if spStrategy plan = ''explicit-gateway'' then
            acquireGateway X req plan (if arLease req \<le> 0 then exDefaultLease X else arLease req)
          else failA (StrategyNotAcquired (spStrategy plan)))"

section \<open>Renewal\<close>

definition deliver :: "lifecycleEvent \<Rightarrow> Acquisition \<Rightarrow> Acquisition" where
  "deliver e a = a\<lparr>aqEvents := aqEvents a @ [e]\<rparr>"

definition loseMapping :: "lost_reason \<Rightarrow> Acquisition \<Rightarrow> Acquisition" where
  "loseMapping r a = (if aqLostFired a then a else deliver (EventLost r) (a\<lparr>aqLostFired := True\<rparr>))"

definition withinExpiryMarginLocked :: "int \<Rightarrow> Acquisition \<Rightarrow> bool" where
  "withinExpiryMarginLocked now a =
     (case aqLeaseDeadline a of
        None \<Rightarrow> False
      | Some deadline \<Rightarrow> aqLeaseDuration a > 0 \<and> \<not> now < deadline - aqLeaseDuration a div 10)"

definition renewFailed :: "'w externals \<Rightarrow> string \<Rightarrow> Acquisition \<Rightarrow> 'w world \<Rightarrow> Acquisition \<times> 'w world" where
  "renewFailed X err a s =
     (let a1 = a\<lparr>aqFailedRenew := Suc (aqFailedRenew a)\<rparr>;
          a2 = (if aqFailedRenew a1 \<ge> 3 \<and> \<not> aqDegradedFired a1
                then deliver (EventDegraded err) (a1\<lparr>aqDegradedFired := True, aqDegraded := True\<rparr>) else a1)
      in if aqLostFired a2 then (a2, s)
         else case clockNow X s of
           (now, s') \<Rightarrow> ((if withinExpiryMarginLocked now a2 then loseMapping MarginAfterFailure a2 else a2), s'))"

definition renewSucceeded :: "'w externals \<Rightarrow> string \<Rightarrow> GatewayMapping \<Rightarrow> Acquisition \<Rightarrow> 'w world \<Rightarrow> Acquisition \<times> 'w world" where
  "renewSucceeded X forwardID renewed a s =
     (case (if gmLease renewed > 0
            then (case clockNow X s of (now, s') \<Rightarrow> (a\<lparr>aqLeaseDuration := gmLease renewed, aqLeaseDeadline := Some (now + gmLease renewed)\<rparr>, s'))
            else (a, s)) of
        (a1, s1) \<Rightarrow>
          let a2 = (if aqDegraded a1 then deliver EventRecovered (a1\<lparr>aqDegraded := False, aqDegradedFired := False\<rparr>) else a1);
              a3 = a2\<lparr>aqMapping := Some renewed\<rparr>
          in case recordJournal X forwardID renewed a3 s1 of
               (a4, s2) \<Rightarrow>
                 (if aqProductionPacing a4 \<and> gmLease renewed > 0
                  then a4\<lparr>aqInterval := (if gmLease renewed div 2 > 0 then gmLease renewed div 2 else aqInterval a4),
                          aqJitter := (if gmLease renewed div 2 > 0 then gmLease renewed div 10 else aqJitter a4)\<rparr>
                  else a4, s2))"

definition renewOnce :: "'w externals \<Rightarrow> string \<Rightarrow> int \<Rightarrow> Acquisition \<Rightarrow> 'w world \<Rightarrow> Acquisition \<times> 'w world" where
  "renewOnce X forwardID requestedLease a s =
     (case (aqMapping a, aqMapper a) of
        (Some mapping, Some mech) \<Rightarrow>
          (case (if aqLostFired a then (0, s) else clockNow X s) of
             (now, s1) \<Rightarrow>
               if \<not> aqLostFired a \<and> withinExpiryMarginLocked now a then (loseMapping LeaseMargin a, s1)
               else case renewC X mech mapping requestedLease s1 of
                 (Inl err, s2) \<Rightarrow> renewFailed X err a s2
               | (Inr renewed, s2) \<Rightarrow>
                   let a1 = a\<lparr>aqFailedRenew := 0\<rparr>
                   in if gmServerRebooted renewed then (loseMapping GatewayRebooted a1, s2)
                      else if gmExternal renewed \<noteq> gmExternal mapping
                        then (loseMapping (EndpointRewritten (gmExternal mapping) (gmExternal renewed)) a1, s2)
                      else renewSucceeded X forwardID renewed a1 s2)
      | _ \<Rightarrow> (a, s))"

text \<open>One turn of the renewal goroutine: it ends when the mapping is lost or the acquisition is released.\<close>

definition renewal_step :: "'w externals \<Rightarrow> int \<Rightarrow> Acquisition \<Rightarrow> 'w world \<Rightarrow> Acquisition \<times> 'w world" where
  "renewal_step X requestedLease a s =
     (if \<not> aqRenewing a then (a, s)
      else case renewOnce X (aqForwardID a) requestedLease a s of
        (a', s') \<Rightarrow> (if aqLostFired a' then a'\<lparr>aqRenewing := False\<rparr> else a', s'))"

definition jitterTime :: "bytes option \<Rightarrow> int \<Rightarrow> int" where
  "jitterTime rnd max' =
     (if max' \<le> 0 then 0
      else case rnd of None \<Rightarrow> max' div 2 | Some b \<Rightarrow> int (be_nat b) mod max')"

section \<open>Release\<close>

definition errList :: "(string + unit) \<Rightarrow> string list" where
  "errList r = (case r of Inl e \<Rightarrow> [e] | Inr _ \<Rightarrow> [])"

definition release_mapping :: "'w externals \<Rightarrow> Acquisition \<Rightarrow> 'w world \<Rightarrow> (string + unit) \<times> 'w world" where
  "release_mapping X a s =
     (case (aqMapping a, aqMapper a) of
        (Some mapping, Some mech) \<Rightarrow> deleteMappingContained X mech mapping s
      | _ \<Rightarrow> (Inr (), s))"

definition release_journal :: "'w externals \<Rightarrow> bool \<Rightarrow> Acquisition \<Rightarrow> 'w world \<Rightarrow> (string + unit) \<times> 'w world" where
  "release_journal X mappingDeleted a s =
     (let journalCleanupID = (if aqJournalID a = [] then aqJournalAttemptID a else aqJournalID a)
      in case exJournal X of
           Some J \<Rightarrow>
             if mappingDeleted \<and> journalCleanupID \<noteq> [] then extC (jxDelete J journalCleanupID) (\<lambda>_. [JournalDeleted journalCleanupID]) s
             else (Inr (), s)
         | None \<Rightarrow> (Inr (), s))"

definition release_listener :: "'w externals \<Rightarrow> Acquisition \<Rightarrow> 'w world \<Rightarrow> (string + unit) \<times> 'w world" where
  "release_listener X a s = (case aqReleaseFn a of Some ref \<Rightarrow> releaseC X ref s | None \<Rightarrow> (Inr (), s))"

definition release :: "'w externals \<Rightarrow> Acquisition \<Rightarrow> 'w world \<Rightarrow> string list \<times> 'w world" where
  "release X a s =
     (case release_mapping X a s of (r1, s1) \<Rightarrow>
      case release_journal X (r1 = Inr ()) a s1 of (r2, s2) \<Rightarrow>
      case release_listener X a s2 of (r3, s3) \<Rightarrow> (errList r1 @ errList r2 @ errList r3, s3))"

text \<open>\<open>Release\<close> stops the renewal and runs \<open>release\<close> once; later calls return the first outcome.\<close>

definition Acquisition_Release :: "'w externals \<Rightarrow> Acquisition \<Rightarrow> 'w world \<Rightarrow> string list \<times> Acquisition \<times> 'w world" where
  "Acquisition_Release X a s =
     (case aqReleaseErr a of
        Some errs \<Rightarrow> (errs, a, s)
      | None \<Rightarrow>
          (case release X (a\<lparr>aqRenewing := False\<rparr>) s of
             (errs, s') \<Rightarrow> (errs, a\<lparr>aqRenewing := False, aqReleaseErr := Some errs\<rparr>, s')))"

end
