(* ===== verification/Agent_Traversal_Props.thy ===== *)
theory Agent_Traversal_Props
  imports Agent_Traversal Agent_Rotation
begin

text \<open>
  What the traversal decisions guarantee: the two address policies of the program agree, a public candidate
  is a global address behind at most one explicit gateway, source selection and fingerprint do not depend on
  the order the system lists addresses in, and a resolved route is one the manager accepts.
\<close>

section \<open>The two address policies\<close>

lemma and_f0: "(a :: u8) AND 0xf0 = push_bit 4 (drop_bit 4 a)"
proof (rule bit_word_eqI)
  fix n assume "n < LENGTH(8)"
  then consider "n = 0" | "n = 1" | "n = 2" | "n = 3" | "n = 4" | "n = 5" | "n = 6" | "n = 7" by fastforce
  then show "bit (a AND 0xf0) n = bit (push_bit 4 (drop_bit 4 a)) n"
    by cases (simp_all add: bit_and_iff bit_push_bit_iff bit_drop_bit_eq)
qed

lemma mask_block:
  "(a :: u8) AND 0xf0 = 0xe0 \<longleftrightarrow> 224 \<le> unat a \<and> unat a \<le> 239" "(a :: u8) AND 0xf0 = 16 \<longleftrightarrow> 16 \<le> unat a \<and> unat a \<le> 31"
proof -
  have a: "unat a < 256" using unsigned_less [of a, where ?'a = nat] by simp
  have "unat (a AND 0xf0) = unat a div 16 * 16"
  proof -
    have "unat (a AND 0xf0) = take_bit 8 (push_bit 4 (drop_bit 4 (take_bit 8 (unat a))))"
      by (simp only: and_f0 unsigned_push_bit_eq unsigned_drop_bit_eq) simp
    also have "\<dots> = unat a div 16 * 16" using a by (simp add: push_bit_eq_mult drop_bit_eq_div take_bit_eq_mod)
    finally show ?thesis .
  qed
  then have iff: "a AND 0xf0 = k \<longleftrightarrow> unat a div 16 * 16 = unat k" for k by (simp add: word_unat_eq_iff)
  have block: "unat a div 16 * 16 = m * 16 \<longleftrightarrow> m * 16 \<le> unat a \<and> unat a < m * 16 + 16" for m
    using same_block [of 16 "unat a" m] by simp
  show "a AND 0xf0 = 0xe0 \<longleftrightarrow> 224 \<le> unat a \<and> unat a \<le> 239" using iff [of 224] block [of 14] by auto
  show "a AND 0xf0 = 16 \<longleftrightarrow> 16 \<le> unat a \<and> unat a \<le> 31" using iff [of 16] block [of 1] by auto
qed


section \<open>The layer pipeline\<close>

lemma last_layer_Some: "last_layer P layers = Some l \<Longrightarrow> l \<in> set layers \<and> P (lyKind l)"
  by (auto simp: last_layer_def find_Some_iff) (metis nth_mem set_rev length_rev)

lemma last_layer_None: "last_layer P layers = None \<longleftrightarrow> (\<forall>l \<in> set layers. \<not> P (lyKind l))"
  by (auto simp: last_layer_def find_None_iff)

lemma only_layer:
  assumes "length (filter (\<lambda>l. lyKind l = k) layers) \<le> 1" and g: "g \<in> set layers" "lyKind g = k"
  shows "last_layer (\<lambda>x. x = k) layers = Some g"
proof -
  obtain g' where g': "last_layer (\<lambda>x. x = k) layers = Some g'"
    using g by (cases "last_layer (\<lambda>x. x = k) layers") (auto simp: last_layer_None)
  have "g \<in> set (filter (\<lambda>l. lyKind l = k) layers)" "g' \<in> set (filter (\<lambda>l. lyKind l = k) layers)"
    using g last_layer_Some [OF g'] by auto
  with assms(1) have "g = g'" by (cases "filter (\<lambda>l. lyKind l = k) layers") auto
  with g' show ?thesis by simp
qed

lemma verdict_of_simps [simp]:
  "pvCandidate (verdict_of e k ob g) = e" "pvFinalPortObserved (verdict_of e k ob g) = ob"
  "pvPublicCandidate (verdict_of e k ob g) \<longleftrightarrow> IsGlobalV4Endpoint e"
  "pvMappingStateFirstHop (verdict_of e k ob g) \<longleftrightarrow> k \<noteq> LayerKindManual \<and> \<not> IsGlobalV4Endpoint e \<and> g"
  "pvScope (verdict_of e k ob g) =
     (if k = LayerKindManual then (if IsGlobalV4Endpoint e then ScopeOperatorInput else ScopeNonRoutable)
      else if IsGlobalV4Endpoint e then ScopeGlobalPublic else ScopeFirstHop)"
  by (simp_all add: verdict_of_def Let_def)

lemma EvaluateLayers_Inr:
  assumes "EvaluateLayers layers pol = Inr v"
  obtains l e where "pick_layer layers = Some l" "parseEndpoint (lyAssignedEndpoint l) = Some e"
    "v = verdict_of e (lyKind l) (lyKind l = LayerKindSTUN) (last_layer (\<lambda>k. k = LayerKindGateway) layers \<noteq> None)"
    "length (filter (\<lambda>l. lyKind l = LayerKindGateway) layers) \<le> 1" "length (filter (\<lambda>l. lyKind l = LayerKindSTUN) layers) \<le> 1"
    "\<forall>g. lyKind l = LayerKindSTUN \<longrightarrow> pol = PortPolicyStrict \<longrightarrow> last_layer (\<lambda>k. k = LayerKindGateway) layers = Some g \<longrightarrow>
       (\<exists>ge. parseEndpoint (lyAssignedEndpoint g) = Some ge \<and> snd ge = snd e)"
  using assms by (auto simp: EvaluateLayers_def Let_def split: option.splits if_splits)

lemma IsGlobalV4Endpoint_iff: "IsGlobalV4Endpoint e \<longleftrightarrow> IsGlobalV4 (fst e)"
  by (cases e; cases "fst e") (auto simp: IsGlobalV4Endpoint_def IsGlobalV4_def)

lemma EvaluateLayers_public: "EvaluateLayers layers pol = Inr v \<Longrightarrow> pvPublicCandidate v \<longleftrightarrow> IsGlobalV4 (fst (pvCandidate v))"
  by (erule EvaluateLayers_Inr) (simp add: IsGlobalV4Endpoint_iff)

text \<open>
  C22: What the pipeline may call public. When a chain of layers is accepted, it has at most one explicit
  gateway layer and at most one observed layer; the candidate is the endpoint of the observed layer if there
  is one, else of the gateway layer; it is offered to an independent probe exactly when it is a global IPv4
  address; a first-hop or unroutable candidate never is; and under a strict final constraint the observed
  port is the port the gateway assigned.
\<close>

theorem public_candidate_is_global:
  assumes "EvaluateLayers layers pol = Inr v"
  shows "(pvPublicCandidate v \<longleftrightarrow> IsGlobalV4 (fst (pvCandidate v))) \<and>
    (pvScope v = ScopeFirstHop \<or> pvScope v = ScopeNonRoutable \<or> pvMappingStateFirstHop v \<longrightarrow> \<not> pvPublicCandidate v) \<and>
    length (filter (\<lambda>l. lyKind l = LayerKindGateway) layers) \<le> 1 \<and> length (filter (\<lambda>l. lyKind l = LayerKindSTUN) layers) \<le> 1 \<and>
    (\<forall>l \<in> set layers. lyKind l = LayerKindSTUN \<longrightarrow> parseEndpoint (lyAssignedEndpoint l) = Some (pvCandidate v)) \<and>
    (\<forall>g \<in> set layers. lyKind g = LayerKindGateway \<longrightarrow>
       (if \<exists>l \<in> set layers. lyKind l = LayerKindSTUN
        then pol = PortPolicyStrict \<longrightarrow> (\<exists>ge. parseEndpoint (lyAssignedEndpoint g) = Some ge \<and> snd ge = snd (pvCandidate v))
        else parseEndpoint (lyAssignedEndpoint g) = Some (pvCandidate v)))"
proof -
  from assms obtain l e where l: "pick_layer layers = Some l" and e: "parseEndpoint (lyAssignedEndpoint l) = Some e"
    and v: "v = verdict_of e (lyKind l) (lyKind l = LayerKindSTUN) (last_layer (\<lambda>k. k = LayerKindGateway) layers \<noteq> None)"
    and one: "length (filter (\<lambda>l. lyKind l = LayerKindGateway) layers) \<le> 1" "length (filter (\<lambda>l. lyKind l = LayerKindSTUN) layers) \<le> 1"
    and strict: "\<forall>g. lyKind l = LayerKindSTUN \<longrightarrow> pol = PortPolicyStrict \<longrightarrow> last_layer (\<lambda>k. k = LayerKindGateway) layers = Some g \<longrightarrow>
       (\<exists>ge. parseEndpoint (lyAssignedEndpoint g) = Some ge \<and> snd ge = snd e)"
    by (rule EvaluateLayers_Inr)
  have stun: "l' = l" if "l' \<in> set layers" "lyKind l' = LayerKindSTUN" for l'
    using l only_layer [OF one(2) that] by (simp add: pick_layer_def)
  have mapped: "g = l" if g: "g \<in> set layers" "lyKind g = LayerKindGateway" and none: "\<not> (\<exists>l \<in> set layers. lyKind l = LayerKindSTUN)" for g
    using l only_layer [OF one(1) g] none last_layer_None [of "\<lambda>k. k = LayerKindSTUN" layers] by (auto simp: pick_layer_def)
  have public: "pvPublicCandidate v \<longleftrightarrow> IsGlobalV4 (fst (pvCandidate v))" by (rule EvaluateLayers_public [OF assms])
  have scope: "pvScope v = ScopeFirstHop \<or> pvScope v = ScopeNonRoutable \<or> pvMappingStateFirstHop v \<longrightarrow> \<not> pvPublicCandidate v"
    unfolding v by (simp add: layer_words)
  have observed: "\<forall>l' \<in> set layers. lyKind l' = LayerKindSTUN \<longrightarrow> parseEndpoint (lyAssignedEndpoint l') = Some (pvCandidate v)"
    using stun e unfolding v by auto
  have gateway: "if \<exists>l \<in> set layers. lyKind l = LayerKindSTUN
      then pol = PortPolicyStrict \<longrightarrow> (\<exists>ge. parseEndpoint (lyAssignedEndpoint g) = Some ge \<and> snd ge = snd (pvCandidate v))
      else parseEndpoint (lyAssignedEndpoint g) = Some (pvCandidate v)"
    if g: "g \<in> set layers" "lyKind g = LayerKindGateway" for g
  proof (cases "\<exists>l \<in> set layers. lyKind l = LayerKindSTUN")
    case True
    then have "lyKind l = LayerKindSTUN" using stun by blast
    then show ?thesis using True strict only_layer [OF one(1) g] unfolding v by simp
  next
    case False
    then show ?thesis using mapped [OF g False] e unfolding v by simp
  qed
  show ?thesis using public scope one observed gateway by blast
qed

definition demo_layers :: "LayerEvidence list" where
  "demo_layers =
     (let base = \<lparr>lyKind = LayerKindGateway, lyMechanism = LayerPCP, lyControlServer = [], lyInternalEndpoint = [],
           lyAssignedEndpoint = ''100.64.0.7:4000'', lyScope = ScopeFirstHop, lyLeaseLifetime = 0, lyEpoch = 0, lyOwnership = [],
           lyParentLayer = -1, lyNote = []\<rparr>
      in [base, base\<lparr>lyKind := LayerKindSTUN, lyMechanism := [], lyAssignedEndpoint := ''8.8.4.4:4000''\<rparr>])"

definition demo_verdict :: PipelineVerdict where
  "demo_verdict = \<lparr>pvCandidate = (Addr4 8 8 4 4, 4000), pvScope = ScopeGlobalPublic, pvPublicCandidate = True,
     pvMappingStateFirstHop = False, pvFinalPortObserved = True\<rparr>"

lemma demo_endpoints:
  "parseEndpoint ''100.64.0.7:4000'' = Some (Addr4 100 64 0 7, 4000)" "parseEndpoint ''8.8.4.4:4000'' = Some (Addr4 8 8 4 4, 4000)"
  "parseEndpoint ''8.8.4.4:4001'' = Some (Addr4 8 8 4 4, 4001)"
  by code_simp+

lemma demo_global: "IsGlobalV4Endpoint (Addr4 8 8 4 4, p)"
  by (simp add: IsGlobalV4Endpoint_def IsGlobalV4_def nonGlobalV4Prefixes_def in_prefix_def quad_def ipv4_number_def)

lemmas pipeline_eval = EvaluateLayers_def demo_layers_def known_kind_def last_layer_def pick_layer_def verdict_of_def Let_def
  layer_words demo_endpoints demo_global

lemma demo_layers_verdict: "EvaluateLayers demo_layers PortPolicyStrict = Inr demo_verdict"
  by (simp add: pipeline_eval demo_verdict_def)

theorem public_candidate_is_global_witness:
  "EvaluateLayers demo_layers PortPolicyStrict = Inr demo_verdict \<and> IsGlobalV4 (Addr4 8 8 4 4) \<and>
   parseEndpoint ''8.8.4.4:4000'' = Some (Addr4 8 8 4 4, 4000)"
  using public_candidate_is_global [OF demo_layers_verdict] demo_layers_verdict
  by (simp add: demo_verdict_def demo_layers_def Let_def layer_words)

text \<open>A carrier-grade NAT between the gateway and the observer that rewrites the port is caught by the strict constraint.\<close>

lemma rewritten_port_refused:
  "EvaluateLayers (butlast demo_layers @ [last demo_layers\<lparr>lyAssignedEndpoint := ''8.8.4.4:4001''\<rparr>]) PortPolicyStrict =
     Inl ErrFinalPortRewritten"
  by (simp add: pipeline_eval)

section \<open>Routes and fingerprints\<close>

lemma route_key_inj: "inj (\<lambda>a :: IPv4Address. (iaInterface a, compare_key (iaAddr a)))"
  by (rule injI) (auto dest: injD [OF compare_key_inj])

lemma sorted_addresses_mset: "mset as = mset bs \<Longrightarrow> sortedIPv4Addresses as = sortedIPv4Addresses bs"
  unfolding sortedIPv4Addresses_def
  by (rule sort_key_inj_key_eq) (use route_key_inj in \<open>auto intro: inj_on_subset\<close>)

lemma mset_sorted_addresses: "sortedIPv4Addresses as = sortedIPv4Addresses bs \<Longrightarrow> mset as = mset bs"
  unfolding sortedIPv4Addresses_def by (drule arg_cong [where f = mset]) simp

lemma cut_unique: "x \<notin> set a \<Longrightarrow> x \<notin> set b \<Longrightarrow> a @ x # r = b @ x # r' \<Longrightarrow> a = b \<and> r = r'"
proof (induction a arbitrary: b)
  case Nil
  then show ?case by (cases b) auto
next
  case (Cons y a)
  then show ?case by (cases b) auto
qed

lemma lines_unique:
  "\<forall>l \<in> set ls. x \<notin> set l \<Longrightarrow> \<forall>l \<in> set ls'. x \<notin> set l \<Longrightarrow>
     concat (map (\<lambda>l. l @ [x]) ls) = concat (map (\<lambda>l. l @ [x]) ls') \<Longrightarrow> ls = ls'"
proof (induction ls arbitrary: ls')
  case Nil
  then show ?case by (cases ls') auto
next
  case (Cons l ls)
  then obtain l' ms where ls': "ls' = l' # ms" by (cases ls') auto
  have eq: "l @ x # concat (map (\<lambda>l. l @ [x]) ls) = l' @ x # concat (map (\<lambda>l. l @ [x]) ms)"
    using Cons.prems(3) ls' by simp
  have "x \<notin> set l" "x \<notin> set l'" using Cons.prems(1,2) ls' by simp_all
  from cut_unique [OF this eq] Cons.IH [of ms] Cons.prems(1,2) ls' show ?case by simp
qed

text \<open>Interface names without blanks and line ends, IPv4 addresses, and a gateway that is IPv4 or absent.\<close>

definition clean_name :: "string \<Rightarrow> bool" where
  "clean_name s \<longleftrightarrow> newline \<notin> set s \<and> CHR '' '' \<notin> set s"

definition clean_routes :: "(netip_addr \<times> string) option \<Rightarrow> IPv4Address list \<Rightarrow> bool" where
  "clean_routes d addrs \<longleftrightarrow>
     (\<forall>a \<in> set addrs. clean_name (iaInterface a) \<and> Is4 (iaAddr a)) \<and>
     (case d of None \<Rightarrow> True | Some (g, i) \<Rightarrow> clean_name i \<and> (Is4 g \<or> g = AddrInvalid))"

lemma addr4_string_inj: "addr4_string a b c d = addr4_string a' b' c' d' \<longleftrightarrow> a = a' \<and> b = b' \<and> c = c' \<and> d = d'"
  using ParseAddr4_print [of a b c d] ParseAddr4_print [of a' b' c' d'] by (metis netip_addr.inject(1) option.inject)

lemma dec_clean: "newline \<notin> set (dec_string n)" "CHR '' '' \<notin> set (dec_string n)" "hd (dec_string n) \<noteq> CHR ''i''" "hd (dec_string n) \<noteq> CHR ''n''"
proof -
  have d: "is_dec_digit c" if "c \<in> set (dec_string n)" for c using that dec_digits [of n] by (simp add: list_all_iff)
  show "newline \<notin> set (dec_string n)" "CHR '' '' \<notin> set (dec_string n)" using d [of newline] d [of "CHR '' ''"] by (auto simp: newline_def is_dec_digit_def)
  have "is_dec_digit (hd (dec_string n))" using d dec_nonempty [of n] by simp
  then show "hd (dec_string n) \<noteq> CHR ''i''" "hd (dec_string n) \<noteq> CHR ''n''" by (auto simp: is_dec_digit_def)
qed

lemma addr4_clean: "newline \<notin> set (addr4_string a b c d)" "CHR '' '' \<notin> set (addr4_string a b c d)"
  "hd (addr4_string a b c d) \<noteq> CHR ''i''" "hd (addr4_string a b c d) \<noteq> CHR ''n''"
  by (auto simp: addr4_string_def dec_clean dec_nonempty) (simp_all add: newline_def)

definition default_line :: "(netip_addr \<times> string) option \<Rightarrow> string" where
  "default_line d = (case d of Some (g, i) \<Rightarrow> ''default '' @ Addr_String g @ '' '' @ i | None \<Rightarrow> ''default none'')"

definition address_line :: "IPv4Address \<Rightarrow> string" where
  "address_line a = iaInterface a @ '' '' @ Addr_String (iaAddr a)"

lemma routeText_lines:
  "routeText d addrs = concat (map (\<lambda>l. l @ [newline]) (default_line d # map address_line (sortedIPv4Addresses addrs)))"
  by (simp add: routeText_def default_line_def address_line_def comp_def split: option.split prod.split)

lemma address_line_inj:
  assumes "clean_name (iaInterface a)" "Is4 (iaAddr a)" "clean_name (iaInterface b)" "Is4 (iaAddr b)"
    and "address_line a = address_line b"
  shows "a = b"
proof -
  obtain x1 x2 x3 x4 y1 y2 y3 y4 where v: "iaAddr a = Addr4 x1 x2 x3 x4" "iaAddr b = Addr4 y1 y2 y3 y4"
    using assms(2,4) by (cases "iaAddr a"; cases "iaAddr b") auto
  have "iaInterface a = iaInterface b \<and> addr4_string x1 x2 x3 x4 = addr4_string y1 y2 y3 y4"
    by (rule cut_unique [of "CHR '' ''"]) (use assms(1,3,5) v in \<open>auto simp: clean_name_def address_line_def\<close>)
  then show ?thesis using v by (cases a; cases b) (simp add: addr4_string_inj)
qed

lemma default_line_inj:
  assumes "clean_routes d1 as" "clean_routes d2 bs" "default_line d1 = default_line d2"
  shows "d1 = d2"
proof -
  have hds: "addr4_string a b c d @ t \<noteq> CHR ''n'' # r" "addr4_string a b c d @ t \<noteq> CHR ''i'' # r" for a b c d t r
    using addr4_hd [of a b c d] addr4_clean(3,4) [of a b c d] by (cases "addr4_string a b c d"; simp)+
  have some: "g1 = g2 \<and> i1 = i2" if d: "d1 = Some (g1, i1)" "d2 = Some (g2, i2)" for g1 i1 g2 i2
  proof (cases "g1 = AddrInvalid \<or> g2 = AddrInvalid")
    case True
    then show ?thesis
      using assms d hds(2) hds(2) [symmetric] by (cases g1; cases g2) (auto simp: clean_routes_def default_line_def)
  next
    case False
    then obtain x1 x2 x3 x4 y1 y2 y3 y4 where v: "g1 = Addr4 x1 x2 x3 x4" "g2 = Addr4 y1 y2 y3 y4"
      using assms d by (cases g1; cases g2) (auto simp: clean_routes_def)
    have "addr4_string x1 x2 x3 x4 = addr4_string y1 y2 y3 y4 \<and> i1 = i2"
      by (rule cut_unique [of "CHR '' ''"]) (use assms(3) d v addr4_clean(2) in \<open>auto simp: default_line_def\<close>)
    then show ?thesis using v by (simp add: addr4_string_inj)
  qed
  have none: "default_line (Some (g, i)) \<noteq> default_line None" if "Is4 g \<or> g = AddrInvalid" for g i
    using that hds(1) by (cases g) (auto simp: default_line_def)
  have gate: "Is4 g \<or> g = AddrInvalid" if "d1 = Some (g, i) \<or> d2 = Some (g, i)" for g i
    using that assms(1,2) by (auto simp: clean_routes_def)
  show ?thesis
  proof (cases "d1 = None \<or> d2 = None")
    case True
    then show ?thesis using none gate assms(3) by (metis option.exhaust surj_pair)
  next
    case False
    then obtain g1 i1 g2 i2 where "d1 = Some (g1, i1)" "d2 = Some (g2, i2)" by auto
    with some show ?thesis by simp
  qed
qed

lemma routeText_inj:
  assumes "clean_routes d1 as" "clean_routes d2 bs"
  shows "routeText d1 as = routeText d2 bs \<longleftrightarrow> d1 = d2 \<and> mset as = mset bs"
proof
  assume eq: "routeText d1 as = routeText d2 bs"
  have clean: "newline \<notin> set (default_line d)" "\<forall>l \<in> set (map address_line (sortedIPv4Addresses xs)). newline \<notin> set l"
    if "clean_routes d xs" for d xs
  proof -
    have "newline \<notin> set (Addr_String a)" if "Is4 a \<or> a = AddrInvalid" for a
      using that addr4_clean by (cases a) (auto simp: newline_def)
    then show "newline \<notin> set (default_line d)" "\<forall>l \<in> set (map address_line (sortedIPv4Addresses xs)). newline \<notin> set l"
      using that by (auto simp: clean_routes_def clean_name_def default_line_def address_line_def sortedIPv4Addresses_def newline_def
          split: option.splits prod.splits)
  qed
  have "default_line d1 # map address_line (sortedIPv4Addresses as) = default_line d2 # map address_line (sortedIPv4Addresses bs)"
    by (rule lines_unique [of _ newline]) (use clean assms eq in \<open>simp_all add: routeText_lines\<close>)
  then have lines: "default_line d1 = default_line d2" "map address_line (sortedIPv4Addresses as) = map address_line (sortedIPv4Addresses bs)"
    by simp_all
  have "inj_on address_line (set (sortedIPv4Addresses as) \<union> set (sortedIPv4Addresses bs))"
    using assms by (auto intro!: inj_onI address_line_inj simp: clean_routes_def sortedIPv4Addresses_def)
  then have "sortedIPv4Addresses as = sortedIPv4Addresses bs" by (rule inj_on_map_eq_map [THEN iffD1]) (rule lines(2))
  from default_line_inj [OF assms lines(1)] mset_sorted_addresses [OF this] show "d1 = d2 \<and> mset as = mset bs" by blast
next
  assume "d1 = d2 \<and> mset as = mset bs"
  then show "routeText d1 as = routeText d2 bs" using sorted_addresses_mset [of as bs] by (simp add: routeText_def)
qed

lemma EncodeToString_inj: "EncodeToString a = EncodeToString b \<longleftrightarrow> a = b"
  by (metis DecodeString_EncodeToString option.inject)

text \<open>
  C27: The route fingerprint identifies the routing state. For two readings of the route table with ordinary
  interface names, and a hash that does not collide on their two texts, the fingerprints are equal exactly
  when the default route is the same and the addresses are the same up to the order they were listed in; and
  then the direct source, its capability code and the gateway source are the same too.
\<close>

theorem fingerprint_identifies_routes:
  assumes "rtDefaultRouteV4 r1 = Some d1" and "rtIPv4Addresses r1 = Some as" and "clean_routes d1 as"
    and "rtDefaultRouteV4 r2 = Some d2" and "rtIPv4Addresses r2 = Some bs" and "clean_routes d2 bs"
    and collision_free: "sha256 C (routeText d1 as) = sha256 C (routeText d2 bs) \<Longrightarrow> routeText d1 as = routeText d2 bs"
  shows "(Fingerprint C r1 = Fingerprint C r2 \<longleftrightarrow> d1 = d2 \<and> mset as = mset bs) \<and>
    (Fingerprint C r1 = Fingerprint C r2 \<longrightarrow> Assess r1 = Assess r2 \<and> DefaultRouteSource r1 = DefaultRouteSource r2)"
proof -
  have "Fingerprint C r1 = Fingerprint C r2 \<longleftrightarrow> routeText d1 as = routeText d2 bs"
    using assms(1,2,4,5) collision_free by (auto simp: Fingerprint_def EncodeToString_inj)
  with routeText_inj [OF assms(3,6)] have iff: "Fingerprint C r1 = Fingerprint C r2 \<longleftrightarrow> d1 = d2 \<and> mset as = mset bs" by simp
  have "Assess r1 = Assess r2 \<and> DefaultRouteSource r1 = DefaultRouteSource r2" if "d1 = d2" "mset as = mset bs"
  proof -
    have "as = [] \<longleftrightarrow> bs = []" using that(2) by (metis mset_zero_iff)
    then show ?thesis using that assms(1,2,4,5) sorted_addresses_mset [OF that(2)]
      by (simp add: Assess_def DefaultRouteSource_def split: option.split)
  qed
  with iff show ?thesis by blast
qed

definition demo_routes :: RouteTable where
  "demo_routes = \<lparr>rtDefaultRouteV4 = Some (Some (Addr4 192 168 1 1, ''eth0'')),
     rtIPv4Addresses = Some [\<lparr>iaInterface = ''lo'', iaAddr = Addr4 127 0 0 1\<rparr>, \<lparr>iaInterface = ''eth0'', iaAddr = Addr4 192 168 1 9\<rparr>]\<rparr>"

definition relisted :: "RouteTable \<Rightarrow> RouteTable" where
  "relisted rt = rt\<lparr>rtIPv4Addresses := map_option rev (rtIPv4Addresses rt)\<rparr>"

theorem fingerprint_identifies_routes_witness:
  "Fingerprint demo_crypto demo_routes = Fingerprint demo_crypto (relisted demo_routes) \<and>
   Assess demo_routes = Assess (relisted demo_routes)"
proof -
  let ?d = "Some (Addr4 192 168 1 1, ''eth0'')"
  let ?as = "[\<lparr>iaInterface = ''lo'', iaAddr = Addr4 127 0 0 1\<rparr>, \<lparr>iaInterface = ''eth0'', iaAddr = Addr4 192 168 1 9\<rparr>]"
  have "rtDefaultRouteV4 demo_routes = Some ?d" "rtIPv4Addresses demo_routes = Some ?as" "clean_routes ?d ?as"
    "rtDefaultRouteV4 (relisted demo_routes) = Some ?d" "rtIPv4Addresses (relisted demo_routes) = Some (rev ?as)" "clean_routes ?d (rev ?as)"
    by (simp_all add: demo_routes_def relisted_def clean_routes_def clean_name_def newline_def)
  from fingerprint_identifies_routes [OF this] routeText_inj [OF this(3,6)] show ?thesis by (simp add: add_mset_commute)
qed

section \<open>Forward routes\<close>

lemma explicitGatewayLayer_valid: "explicitGatewayLayer p = Some (layer, v2) \<Longrightarrow> MappingLayerKind_Valid layer"
  by (auto simp: explicitGatewayLayer_def MappingLayerKind_Valid_def Let_def split: option.splits if_splits)

lemma planFor_accepted:
  assumes "planFor spec profile servers = Inr req"
  shows "pqStrategy req = fsStrategy spec" and "\<exists>plan. PlanStrategy req = Inr plan"
    and "pqGatewayPortPolicy req = PortPolicyStrict \<Longrightarrow>
      fsRequestedPublicPort spec \<noteq> 0 \<and> pcCanRequestExact (PortControlCapabilityFor (pqMappingLayer req) (pqIGDv2 req))"
    and "fsStrategy spec = ''explicit-gateway'' \<Longrightarrow> explicitGatewayLayer profile = Some (pqMappingLayer req, pqIGDv2 req)"
  using assms explicitGatewayLayer_valid
  by (auto simp: planFor_def PlanStrategy_def Let_def zero_request_def layer_words split: if_splits option.splits)

text \<open>A strategy an automatic Forward may resolve to, on the profile the route was resolved on.\<close>

definition auto_choice :: "crypto \<Rightarrow> dataPlaneConfig \<Rightarrow> string \<Rightarrow> bool" where
  "auto_choice C cfg strategy \<longleftrightarrow>
     (\<exists>p fp. dpLoad cfg 0 = Some (Some p) \<and> Fingerprint C (dpRouteTable cfg) = Some fp \<and> pfFingerprint p = fp \<and>
        dpNow cfg - pfComputedAtUnix p * 1000000000 \<le> profileMaxAge \<and> passed_in p strategy \<and>
        (\<exists>before after. (if dpAutoOrder cfg = [] then defaultAutoOrder else dpAutoOrder cfg) = before @ strategy # after \<and>
           (\<forall>s \<in> set before. s \<in> {''direct-v4'', ''explicit-gateway'', ''stun-only''} \<longrightarrow> \<not> passed_in p s)))"

lemma find_split: "find P xs = Some x \<Longrightarrow> \<exists>before after. xs = before @ x # after \<and> P x \<and> (\<forall>y \<in> set before. \<not> P y)"
proof (induction xs)
  case (Cons y ys)
  show ?case
  proof (cases "P y")
    case True
    with Cons.prems show ?thesis by (intro exI [of _ "[]"] exI [of _ ys]) simp
  next
    case False
    with Cons obtain before after where "ys = before @ x # after" "P x" "\<forall>y \<in> set before. \<not> P y" by auto
    with False show ?thesis by (intro exI [of _ "y # before"] exI [of _ after]) simp
  qed
qed simp

lemma resolveAuto_choice:
  assumes "resolveAuto C cfg spec = Inr strategy" and "fsProtocol spec \<noteq> ''udp''"
  shows "auto_choice C cfg strategy \<and> strategy \<in> {''direct-v4'', ''explicit-gateway'', ''stun-only''}"
proof -
  let ?order = "if dpAutoOrder cfg = [] then defaultAutoOrder else dpAutoOrder cfg"
  let ?P = "\<lambda>p s. s \<in> {''direct-v4'', ''explicit-gateway'', ''stun-only''} \<and> passed_in p s"
  from assms obtain p where p: "dpLoad cfg 0 = Some (Some p)" and val: "validateAutoProfile C (dpRouteTable cfg) (dpNow cfg) (Some p) = Inr ()"
    and f: "find (?P p) ?order = Some strategy"
    by (auto simp: resolveAuto_def loadProfileFrom_def resolveAutoStrategy_def split: option.splits)
  obtain fp where fp: "Fingerprint C (dpRouteTable cfg) = Some fp" "pfFingerprint p = fp"
    "dpNow cfg - pfComputedAtUnix p * 1000000000 \<le> profileMaxAge"
    using val by (auto simp: validateAutoProfile_def IsStale_def split: if_splits option.splits)
  obtain before after where split: "?order = before @ strategy # after" "?P p strategy" "\<forall>y \<in> set before. \<not> ?P p y"
    using find_split [OF f] by blast
  show ?thesis unfolding auto_choice_def using p fp split by blast
qed


definition demo_profile :: Profile where
  "demo_profile = zero_profile\<lparr>pfFingerprint := the (Fingerprint demo_crypto demo_routes),
     pfResults := [zero_result\<lparr>srStrategy := ''direct-v4'', srState := DetectionFailed\<rparr>,
       zero_result\<lparr>srStrategy := ''explicit-gateway'', srState := DetectionPassed, srLayerSignature := ''pcp''\<rparr>]\<rparr>"

definition demo_plane :: dataPlaneConfig where
  "demo_plane = \<lparr>dpRouteTable = demo_routes, dpNow = 1000000000, dpLoad = (\<lambda>_. Some (Some demo_profile)),
     dpAutoOrder = [''direct-v4'', ''explicit-gateway''], dpStunServers = [], dpPlain = True, dpGateway = True,
     dpCompositionGeneration = 1, dpCapabilityGeneration = 1, dpCapabilityFingerprint = []\<rparr>"

definition demo_auto :: ForwardSpec where
  "demo_auto = \<lparr>fsForwardID = ''f'', fsName = ''f'', fsProtocol = ''tcp'', fsTarget = ''10.0.0.1:80'', fsStrategy = ''auto'',
     fsSourceInterface = [], fsRequestedLocalPort = 0, fsRequestedPublicPort = 443, fsManualExpectedEndpoint = [], fsRateLimitBPS = 0,
     fsDetailedStats = False, fsPublishScheme = [], fsPublishedHost = [], fsCustomURITemplate = [], fsDesiredRevision = 1,
     fsPresence = PresencePresent, fsDeletionOperationID = []\<rparr>"

lemma demo_fingerprint: "\<exists>f. Fingerprint demo_crypto demo_routes = Some f \<and> f \<noteq> []"
proof -
  have "length (EncodeToString bs) = 2 * length bs" for bs by (induction bs) (simp_all add: EncodeToString_def)
  then have "EncodeToString (sha256 demo_crypto m) \<noteq> []" for m by (metis demo.length_sha256 length_0_conv mult_eq_0_iff numeral_eq_iff zero_neq_numeral)
  then show ?thesis by (simp add: Fingerprint_def demo_routes_def)
qed

lemma demo_route:
  "\<exists>r. resolveForwardRoute demo_crypto demo_plane demo_auto = Inr r \<and> pqStrategy (frPlan r) = ''explicit-gateway'' \<and>
     pqGatewayPortPolicy (frPlan r) = PortPolicyStrict"
  using demo_fingerprint
  by (auto simp: resolveForwardRoute_def concreteStrategy_def resolveAuto_def loadProfileFrom_def validateAutoProfile_def IsStale_def
      resolveAutoStrategy_def passed_in_def ResultFor_def planFor_def explicitGatewayLayer_def PortControlCapabilityFor_def
      demo_plane_def demo_auto_def demo_profile_def zero_profile_def zero_result_def zero_request_def profileMaxAge_def
      detection_states layer_words Let_def)


end
