(* ===== verification/Agent_Manager_Props.thy ===== *)
theory Agent_Manager_Props
  imports Agent_Manager Agent_Traversal_Props
begin

text \<open>
  What the traversal manager promises: a failed acquisition leaves no listener and no mapping without a delete
  attempt, the renewal follows the keepalive ladder and never moves the published endpoint, and a release
  closes the listener and keeps the journal record of a mapping that may still be live.
\<close>

section \<open>Effects\<close>

lemma extC_log: "extC f log s = (r, s') \<Longrightarrow> wLog s' = wLog s @ log r"
  by (auto simp: extC_def split: prod.splits)

lemma silent_log:
  "clockNow X s = (t, s') \<Longrightarrow> wLog s' = wLog s" "renewC X mech m l s = (r, s') \<Longrightarrow> wLog s' = wLog s"
  "discoverC X mech s = (c, s') \<Longrightarrow> wLog s' = wLog s"
  by (simp_all add: clockNow_def renewC_def discoverC_def extC_log)

lemma putRecord_log: "putRecord J r s = (out, s') \<Longrightarrow> \<exists>ok. wLog s' = wLog s @ [JournalPut r ok]"
  by (auto simp: putRecord_def dest!: extC_log split: prod.splits put_outcome.splits sum.splits if_splits)

lemma journalIDFor_log: "journalIDFor X f m s = (i, s') \<Longrightarrow> wLog s' = wLog s"
  by (auto simp: journalIDFor_def dest: extC_log split: prod.splits)

lemma journalPut_log:
  assumes "journalPut X forwardID existing attempt created m s = (res, s')"
  shows "wLog s' = wLog s \<or> (\<exists>r ok. wLog s' = wLog s @ [JournalPut r ok] \<and> jrForwardID r = forwardID)"
proof (cases "exJournal X")
  case None
  then show ?thesis using assms by (simp add: journalPut_def)
next
  case (Some J)
  obtain now s1 where s1: "clockNow X s = (now, s1)" by (cases "clockNow X s")
  obtain rid s2 where s2: "(if existing \<noteq> [] then (existing, s1) else if attempt \<noteq> [] then (attempt, s1)
      else journalIDFor X forwardID m s1) = (rid, s2)" by force
  have log: "wLog s2 = wLog s" using silent_log(1) [OF s1] s2 by (auto dest: journalIDFor_log split: if_splits)
  show ?thesis
  proof (cases "exMarshal X (gmState m)")
    case (Inl e)
    then show ?thesis using assms Some s1 s2 log by (simp add: journalPut_def Let_def split: prod.splits)
  next
    case (Inr st)
    let ?r = "journalRecordOf rid forwardID (if created = 0 then unixSeconds now else created) now st m"
    obtain out s3 where s3: "putRecord J ?r s2 = (out, s3)" by (cases "putRecord J ?r s2")
    then have "s' = s3" using assms Some s1 s2 Inr by (auto simp: journalPut_def Let_def split: prod.splits sum.splits)
    then show ?thesis using putRecord_log [OF s3] log by (auto simp: journalRecordOf_def)
  qed
qed

lemma recordJournal_frame:
  assumes "recordJournal X f m a s = (a', s')"
  shows "aqMapping a' = aqMapping a" "aqMapper a' = aqMapper a" "aqReleaseFn a' = aqReleaseFn a" "aqVerdict a' = aqVerdict a"
    "aqEvents a' = aqEvents a" "aqFailedRenew a' = aqFailedRenew a" "aqDegraded a' = aqDegraded a" "aqLostFired a' = aqLostFired a"
    "aqDegradedFired a' = aqDegradedFired a" "aqRenewing a' = aqRenewing a" "aqForwardID a' = aqForwardID a" "aqReleaseErr a' = aqReleaseErr a"
    "wLog s' = wLog s \<or> (\<exists>r ok. wLog s' = wLog s @ [JournalPut r ok] \<and> jrForwardID r = f)"
  using assms journalPut_log [of X f] by (fastforce simp: recordJournal_def split: prod.splits)+

section \<open>Acquisition\<close>

lemma finishPlain_cases:
  assumes "finishPlain X f bind ref layers pol s = (r, s')"
  shows "(\<exists>e. r = Inl e \<and> wLog s' = wLog s @ [Released ref]) \<or>
    (\<exists>v. EvaluateLayers layers pol = Inr v \<and> r = Inr (newAcquisition f bind ref layers v) \<and> s' = s)"
  using assms
  by (auto simp: finishPlain_def retA_def releaseC_def dest: extC_log split: sum.splits prod.splits)

lemma listen_cases:
  assumes "bindA (failWith ListenFailed (listenC X owner key)) k s = (r, s')"
  shows "(\<exists>e. r = Inl e \<and> wLog s' = wLog s) \<or>
    (\<exists>actual ref s1. wLog s1 = wLog s @ [Listened ref] \<and> k (actual, ref) s1 = (r, s'))"
  using assms
  by (auto simp: bindA_def failWith_def listenC_def dest!: extC_log split: prod.splits sum.splits)

text \<open>The log of a failed acquisition, and what a successful one holds.\<close>

definition undone :: "effect list \<Rightarrow> bool" where
  "undone fx \<longleftrightarrow> fx = [] \<or> (\<exists>ref. fx = [Listened ref, Released ref]) \<or>
     (\<exists>ref m ok. fx = [Listened ref, Mapped m, Deleted m ok, Released ref])"

definition holds_exactly :: "string \<Rightarrow> effect list \<Rightarrow> Acquisition \<Rightarrow> bool" where
  "holds_exactly forwardID fx a \<longleftrightarrow>
     (\<exists>ref. aqReleaseFn a = Some ref \<and>
        (fx = [Listened ref] \<and> aqMapping a = None \<or>
         (\<exists>m. aqMapping a = Some m \<and> aqMapper a \<noteq> None \<and>
            (fx = [Listened ref, Mapped m] \<or> (\<exists>j ok. fx = [Listened ref, Mapped m, JournalPut j ok] \<and> jrForwardID j = forwardID)))))"

definition acquired :: "string \<Rightarrow> 'w world \<Rightarrow> manager_error + Acquisition \<Rightarrow> 'w world \<Rightarrow> bool" where
  "acquired f s r s' \<longleftrightarrow>
     (\<exists>fx. wLog s' = wLog s @ fx \<and>
       (case r of Inl e \<Rightarrow> undone fx
        | Inr a \<Rightarrow> holds_exactly f fx a \<and> (\<exists>pol. EvaluateLayers (aqLayers a) pol = Inr (aqVerdict a))))"

lemma acquired_failA: "failA e s = (r, s') \<Longrightarrow> acquired f s r s'"
  by (auto simp: failA_def acquired_def undone_def)

lemma plain_acquired:
  assumes "bindA (failWith ListenFailed (listenC X owner key)) (\<lambda>(actual, ref). finishPlain X f actual ref (layers actual) pol) s = (r, s')"
  shows "acquired f s r s'"
  using listen_cases [OF assms]
proof (elim disjE exE conjE)
  fix actual ref s1 assume "wLog s1 = wLog s @ [Listened ref]"
    and "(\<lambda>(actual, ref). finishPlain X f actual ref (layers actual) pol) (actual, ref) s1 = (r, s')"
  then show ?thesis
    using finishPlain_cases [of X f actual ref "layers actual" pol s1 r s']
    by (auto simp: acquired_def undone_def holds_exactly_def newAcquisition_def)
qed (auto simp: acquired_def undone_def)

lemma direct_acquired: "acquireDirect X req s = (r, s') \<Longrightarrow> acquired (arForwardID req) s r s'"
  by (auto simp: acquireDirect_def Let_def intro: acquired_failA split: sum.splits prod.splits if_splits
      dest!: plain_acquired [where layers = "\<lambda>actual. [plainLayer LayerKindDirect (AddrPort_String (_, tkPort actual)) (AddrPort_String (_, tkPort actual)) ScopeGlobalPublic]"])

lemma manual_acquired: "acquireManual X req plan s = (r, s') \<Longrightarrow> acquired (arForwardID req) s r s'"
  by (auto simp: acquireManual_def Let_def intro: acquired_failA split: sum.splits prod.splits if_splits
      dest!: plain_acquired [where layers = "\<lambda>actual. [plainLayer LayerKindManual (addrport_string 0 0 0 0 (tkPort actual)) _ ScopeOperatorInput]"])

lemma observeUpstream_log: "observeUpstream X stun src bind s = (res, s') \<Longrightarrow> wLog s' = wLog s"
  by (auto simp: observeUpstream_def dest: extC_log split: prod.splits bool.splits option.splits sum.splits)

lemma composeGateway_cases:
  assumes "composeGateway X req plan lease src control actual ref m s = (r, s')"
  shows "(\<exists>e ok. r = Inl e \<and> wLog s' = wLog s @ [Deleted m ok]) \<or>
    (\<exists>a. r = Inr a \<and> aqReleaseFn a = Some ref \<and> aqMapping a = Some m \<and> aqMapper a \<noteq> None \<and>
       EvaluateLayers (aqLayers a) (spFinalEndpointConstraint plan) = Inr (aqVerdict a) \<and>
       (wLog s' = wLog s \<or> (\<exists>j ok. wLog s' = wLog s @ [JournalPut j ok] \<and> jrForwardID j = arForwardID req)))"
proof -
  obtain dl s1 where s1: "(if gmLease m > 0 then (case clockNow X s of (now, s') \<Rightarrow> (Some (now + gmLease m), s')) else (None, s)) = (dl, s1)"
    by force
  obtain err extra s2 where s2: "observeUpstream X (arStunServer req) src actual s1 = ((err, extra), s2)" by (metis surj_pair)
  have log: "wLog s2 = wLog s" using s1 observeUpstream_log [OF s2] silent_log(1) [of X s] by (auto split: if_splits prod.splits)
  let ?layers = "GatewayMapping_Evidence m control # extra"
  show ?thesis
  proof (cases "EvaluateLayers ?layers (spFinalEndpointConstraint plan)")
    case (Inl e)
    obtain d s3 where s3: "deleteMappingContained X (spMappingLayer plan) m s2 = (d, s3)" by force
    then have "wLog s3 = wLog s @ [Deleted m (d = Inr ())]" using log by (simp add: deleteMappingContained_def extC_log)
    then show ?thesis using assms Inl s1 s2 s3 by (auto simp: composeGateway_def Let_def split: sum.splits)
  next
    case (Inr v)
    let ?a = "(newAcquisition (arForwardID req) actual ref ?layers v)
       \<lparr>aqMapper := Some (spMappingLayer plan), aqMapping := Some m, aqStunObserveError := err,
        aqLeaseDuration := (if gmLease m > 0 then gmLease m else 0), aqLeaseDeadline := dl\<rparr>"
    obtain a' s3 where a': "recordJournal X (arForwardID req) m ?a s2 = (a', s3)" by force
    have "aqLayers a' = ?layers" using a' by (auto simp: recordJournal_def newAcquisition_def split: prod.splits)
    moreover have "r = Inr (startRenewal lease (arRenewalInterval req) (arRenewalJitterMax req) a')" "s' = s3"
      using assms Inr s1 s2 a' by (auto simp: composeGateway_def Let_def)
    ultimately show ?thesis
      using recordJournal_frame [OF a'] Inr log by (auto simp: startRenewal_def newAcquisition_def Let_def)
  qed
qed

lemma mapGateway_cases:
  assumes "mapGateway X req plan lease src control (actual, ref) s = (r, s')"
  shows "\<exists>fx. wLog s' = wLog s @ fx \<and>
    (case r of Inl e \<Rightarrow> undone (Listened ref # fx)
     | Inr a \<Rightarrow> holds_exactly (arForwardID req) (Listened ref # fx) a \<and>
         EvaluateLayers (aqLayers a) (spFinalEndpointConstraint plan) = Inr (aqVerdict a))"
proof -
  let ?req = "\<lparr>gqInternalIP = src, gqInternalPort = tkPort actual, gqRequestedExternalPort = fsRequestedPublicPort (arSpec req),
      gqLease = lease, gqStrictPort = (spGatewayPortPolicy plan = PortPolicyStrict)\<rparr>"
  let ?m = "bindA (failWith MapFailed (mapC X (spMappingLayer plan) ?req)) (composeGateway X req plan lease src control actual ref)"
  obtain r2 s2 where m: "?m s = (r2, s2)" by force
  have mapped: "(\<exists>e. r2 = Inl e \<and> wLog s2 = wLog s) \<or>
     (\<exists>mp s3. wLog s3 = wLog s @ [Mapped mp] \<and> composeGateway X req plan lease src control actual ref mp s3 = (r2, s2))"
    using m by (auto simp: bindA_def failWith_def mapC_def dest!: extC_log split: prod.splits sum.splits)
  have rel: "(\<exists>a. r = Inr a \<and> r2 = Inr a \<and> s' = s2) \<or> (\<exists>e. r = Inl e \<and> r2 = Inl e \<and> wLog s' = wLog s2 @ [Released ref])"
    using assms m by (auto simp: mapGateway_def releasing_def releaseC_def dest: extC_log split: prod.splits sum.splits)
  from mapped show ?thesis
  proof (elim disjE exE conjE)
    fix mp s3 assume log3: "wLog s3 = wLog s @ [Mapped mp]"
      and comp: "composeGateway X req plan lease src control actual ref mp s3 = (r2, s2)"
    from composeGateway_cases [OF comp] rel log3 show ?thesis by (auto simp: undone_def holds_exactly_def)
  qed (use rel in \<open>auto simp: undone_def\<close>)
qed

lemma gateway_acquired:
  assumes "acquireGateway X req plan lease s = (r, s')"
  shows "acquired (arForwardID req) s r s'"
proof -
  have "(\<exists>e. r = Inl e \<and> wLog s' = wLog s) \<or>
    (\<exists>src control s0. wLog s0 = wLog s \<and>
       bindA (failWith ListenFailed (listenC X (arOwner req) (sourceKey src (fsRequestedLocalPort (arSpec req)))))
         (mapGateway X req plan lease src control) s0 = (r, s'))"
    using assms
    by (auto simp: acquireGateway_def Let_def failA_def bindA_def [of "failWith DiscoverFailed _"] failWith_def [of DiscoverFailed]
        dest!: silent_log(3) split: if_splits sum.splits prod.splits)
  then show ?thesis
  proof (elim disjE exE conjE)
    fix src control s0
    assume log0: "wLog s0 = wLog s" and
      run: "bindA (failWith ListenFailed (listenC X (arOwner req) (sourceKey src (fsRequestedLocalPort (arSpec req)))))
         (mapGateway X req plan lease src control) s0 = (r, s')"
    from listen_cases [OF run] show ?thesis
    proof (elim disjE exE conjE)
      fix actual ref s1
      assume log1: "wLog s1 = wLog s0 @ [Listened ref]" and body: "mapGateway X req plan lease src control (actual, ref) s1 = (r, s')"
      obtain fx where "wLog s' = wLog s1 @ fx"
        "case r of Inl e \<Rightarrow> undone (Listened ref # fx)
         | Inr a \<Rightarrow> holds_exactly (arForwardID req) (Listened ref # fx) a \<and>
             EvaluateLayers (aqLayers a) (spFinalEndpointConstraint plan) = Inr (aqVerdict a)"
        using mapGateway_cases [OF body] by blast
      then show ?thesis unfolding acquired_def using log0 log1
        by (intro exI [of _ "Listened ref # fx"]) (auto split: sum.splits)
    qed (use log0 in \<open>auto simp: acquired_def undone_def\<close>)
  qed (auto simp: acquired_def undone_def)
qed

lemma AcquireForward_acquired: "AcquireForward X req s = (r, s') \<Longrightarrow> acquired (arForwardID req) s r s'"
  by (auto simp: AcquireForward_def split: if_splits sum.splits
      intro: acquired_failA direct_acquired manual_acquired gateway_acquired)


section \<open>Renewal\<close>

text \<open>The keepalive ladder: what one turn of the renewal may report, from which mode to which.\<close>

datatype keepalive = Healthy | Degraded | Lost

inductive ladder :: "keepalive \<Rightarrow> lifecycleEvent list \<Rightarrow> keepalive \<Rightarrow> bool" where
  quiet: "ladder m [] m"
| degrade: "ladder Healthy [EventDegraded e] Degraded"
| recover: "ladder Degraded [EventRecovered] Healthy"
| lose: "m \<noteq> Lost \<Longrightarrow> ladder m [EventLost r] Lost"
| degrade_lose: "ladder Healthy [EventDegraded e, EventLost r] Lost"

inductive ladder_run :: "keepalive \<Rightarrow> lifecycleEvent list \<Rightarrow> keepalive \<Rightarrow> bool" where
  start: "ladder_run m [] m"
| turn: "ladder_run m es m' \<Longrightarrow> ladder m' fs m'' \<Longrightarrow> ladder_run m (es @ fs) m''"

inductive_cases ladder_lostE: "ladder Lost es m"

definition mode_of :: "Acquisition \<Rightarrow> keepalive" where
  "mode_of a = (if aqLostFired a then Lost else if aqDegraded a then Degraded else Healthy)"

text \<open>The invariant of the renewal fields.\<close>

definition renew_ok :: "Acquisition \<Rightarrow> bool" where
  "renew_ok a \<longleftrightarrow> aqDegradedFired a = aqDegraded a \<and> (\<not> aqLostFired a \<longrightarrow> (aqDegraded a \<longleftrightarrow> 3 \<le> aqFailedRenew a)) \<and>
     (aqLostFired a \<longrightarrow> \<not> aqRenewing a)"

definition same_endpoint :: "Acquisition \<Rightarrow> Acquisition \<Rightarrow> bool" where
  "same_endpoint a a' \<longleftrightarrow> map_option gmExternal (aqMapping a') = map_option gmExternal (aqMapping a) \<and> aqVerdict a' = aqVerdict a \<and>
     aqReleaseFn a' = aqReleaseFn a \<and> aqMapper a' = aqMapper a \<and> aqReleaseErr a' = aqReleaseErr a"

lemma same_endpoint_trans: "same_endpoint a b \<Longrightarrow> same_endpoint b c \<Longrightarrow> same_endpoint a c"
  by (simp add: same_endpoint_def)

lemma renewFailed_ladder:
  assumes "renewFailed X err a s = (a', s')" and "renew_ok a" and "\<not> aqLostFired a"
  shows "\<exists>es. aqEvents a' = aqEvents a @ es \<and> ladder (mode_of a) es (mode_of a') \<and> same_endpoint a a' \<and>
    aqDegradedFired a' = aqDegraded a' \<and> (\<not> aqLostFired a' \<longrightarrow> (aqDegraded a' \<longleftrightarrow> 3 \<le> aqFailedRenew a'))"
  using assms
  by (auto simp: renewFailed_def Let_def renew_ok_def mode_of_def deliver_def loseMapping_def same_endpoint_def
      split: if_splits prod.splits intro: ladder.intros)


lemma renewSucceeded_ladder:
  assumes "renewSucceeded X f renewed (a\<lparr>aqFailedRenew := 0\<rparr>) s = (a', s')" and "renew_ok a" and "\<not> aqLostFired a"
    and "aqMapping a = Some m" and "\<not> (gmServerRebooted renewed \<or> gmExternal renewed \<noteq> gmExternal m)"
  shows "\<exists>es. aqEvents a' = aqEvents a @ es \<and> ladder (mode_of a) es (mode_of a') \<and> same_endpoint a a' \<and>
    aqDegradedFired a' = aqDegraded a' \<and> (\<not> aqLostFired a' \<longrightarrow> (aqDegraded a' \<longleftrightarrow> 3 \<le> aqFailedRenew a'))"
proof -
  let ?a0 = "a\<lparr>aqFailedRenew := 0\<rparr>"
  obtain a1 s1 where a1: "(if gmLease renewed > 0
       then (case clockNow X s of (now, s') \<Rightarrow> (?a0\<lparr>aqLeaseDuration := gmLease renewed, aqLeaseDeadline := Some (now + gmLease renewed)\<rparr>, s'))
       else (?a0, s)) = (a1, s1)" by force
  let ?a2 = "if aqDegraded a1 then deliver EventRecovered (a1\<lparr>aqDegraded := False, aqDegradedFired := False\<rparr>) else a1"
  obtain a4 s2 where a4: "recordJournal X f renewed (?a2\<lparr>aqMapping := Some renewed\<rparr>) s1 = (a4, s2)" by force
  have fields: "aqEvents a1 = aqEvents a" "aqDegraded a1 = aqDegraded a" "aqDegradedFired a1 = aqDegradedFired a"
    "aqLostFired a1 = aqLostFired a" "aqFailedRenew a1 = 0" "aqVerdict a1 = aqVerdict a" "aqReleaseFn a1 = aqReleaseFn a" "aqMapper a1 = aqMapper a"
    "aqReleaseErr a1 = aqReleaseErr a"
    using a1 by (auto split: if_splits prod.splits)
  have "a' = a4\<lparr>aqInterval := aqInterval a', aqJitter := aqJitter a'\<rparr>"
    using assms(1) a1 a4 by (auto simp: renewSucceeded_def Let_def)
  then obtain i j where "a' = a4\<lparr>aqInterval := i, aqJitter := j\<rparr>" by blast
  then show ?thesis
    using recordJournal_frame [OF a4] fields assms(2-5)
    by (auto simp: renew_ok_def mode_of_def same_endpoint_def deliver_def intro: ladder.intros split: if_splits)
qed

lemma renewOnce_ladder:
  assumes "renewOnce X f lease a s = (a', s')" and "renew_ok a" and "\<not> aqLostFired a"
  shows "\<exists>es. aqEvents a' = aqEvents a @ es \<and> ladder (mode_of a) es (mode_of a') \<and> same_endpoint a a' \<and>
    aqDegradedFired a' = aqDegraded a' \<and> (\<not> aqLostFired a' \<longrightarrow> (aqDegraded a' \<longleftrightarrow> 3 \<le> aqFailedRenew a'))"
proof (cases "(\<exists>m. aqMapping a = Some m) \<and> (\<exists>k. aqMapper a = Some k)")
  case False
  then have "a' = a" using assms(1) by (auto simp: renewOnce_def split: option.splits)
  then show ?thesis using assms(2) by (auto simp: renew_ok_def same_endpoint_def intro: ladder.quiet)
next
  case True
  then obtain m k where mk: "aqMapping a = Some m" "aqMapper a = Some k" by blast
  obtain now s1 where s1: "clockNow X s = (now, s1)" by force
  obtain res s2 where s2: "renewC X k m lease s1 = (res, s2)" by force
  have lost: "?thesis" if "a' = loseMapping r (a\<lparr>aqFailedRenew := c\<rparr>)" for r c
    using that assms(2,3)
    by (auto simp: loseMapping_def deliver_def renew_ok_def mode_of_def same_endpoint_def intro: ladder.lose)
  show ?thesis
  proof (cases "withinExpiryMarginLocked now a")
    case True
    then show ?thesis using lost [of LeaseMargin "aqFailedRenew a"] assms(1,3) mk s1 by (simp add: renewOnce_def)
  next
    case safe: False
    show ?thesis
    proof (cases res)
      case (Inl e)
      then show ?thesis using renewFailed_ladder [of X e a s2 a' s'] assms mk s1 s2 safe by (simp add: renewOnce_def)
    next
      case (Inr renewed)
      show ?thesis
      proof (cases "gmServerRebooted renewed \<or> gmExternal renewed \<noteq> gmExternal m")
        case True
        then have "\<exists>r. a' = loseMapping r (a\<lparr>aqFailedRenew := 0\<rparr>)"
          using assms(1,3) mk s1 s2 safe Inr by (auto simp: renewOnce_def Let_def split: if_splits)
        then show ?thesis using lost by blast
      next
        case False
        then have "renewSucceeded X f renewed (a\<lparr>aqFailedRenew := 0\<rparr>) s2 = (a', s')"
          using assms(1,3) mk s1 s2 safe Inr by (simp add: renewOnce_def)
        then show ?thesis using renewSucceeded_ladder False mk assms(2,3) by blast
      qed
    qed
  qed
qed


lemma renewal_step_ladder:
  assumes "renewal_step X lease a s = (a', s')" and "renew_ok a"
  shows "\<exists>es. aqEvents a' = aqEvents a @ es \<and> ladder (mode_of a) es (mode_of a') \<and> same_endpoint a a' \<and> renew_ok a'"
proof (cases "aqRenewing a")
  case False
  then show ?thesis using assms by (auto simp: renewal_step_def same_endpoint_def intro: ladder.quiet)
next
  case True
  obtain b t where b: "renewOnce X (aqForwardID a) lease a s = (b, t)" by force
  have "\<not> aqLostFired a" using True assms(2) by (simp add: renew_ok_def)
  from renewOnce_ladder [OF b assms(2) this] True b assms(1) show ?thesis
    by (auto simp: renewal_step_def renew_ok_def mode_of_def same_endpoint_def split: if_splits)
qed

definition renewals :: "'w externals \<Rightarrow> int \<Rightarrow> nat \<Rightarrow> Acquisition \<Rightarrow> 'w world \<Rightarrow> Acquisition \<times> 'w world" where
  "renewals X lease n a s = ((\<lambda>(a, s). renewal_step X lease a s) ^^ n) (a, s)"

lemma renewals_Suc: "renewals X lease (Suc n) a s = (case renewals X lease n a s of (b, t) \<Rightarrow> renewal_step X lease b t)"
  by (simp add: renewals_def)

lemma renewals_ladder:
  assumes "renewals X lease n a s = (a', s')" and "renew_ok a" and "aqEvents a = []"
  shows "ladder_run (mode_of a) (aqEvents a') (mode_of a') \<and> same_endpoint a a' \<and> renew_ok a'"
  using assms(1)
proof (induction n arbitrary: a' s')
  case 0
  then show ?case using assms(2,3) by (auto simp: renewals_def same_endpoint_def intro: ladder_run.start)
next
  case (Suc n)
  obtain b t where b: "renewals X lease n a s = (b, t)" by force
  have "renewal_step X lease b t = (a', s')" using Suc.prems b by (simp add: renewals_Suc)
  from renewal_step_ladder [OF this] Suc.IH [OF b] show ?case
    by (auto intro: ladder_run.turn same_endpoint_trans)
qed

text \<open>A new acquisition has reported nothing and has failed no renewal.\<close>

definition fresh :: "Acquisition \<Rightarrow> bool" where
  "fresh a \<longleftrightarrow> aqEvents a = [] \<and> \<not> aqLostFired a \<and> \<not> aqDegraded a \<and> \<not> aqDegradedFired a \<and> aqFailedRenew a = 0 \<and> aqReleaseErr a = None \<and>
     (aqMapping a = None \<longrightarrow> aqJournalID a = [] \<and> aqJournalAttemptID a = [])"

lemma finishPlain_fresh: "finishPlain X f bind ref layers pol s = (Inr a, s') \<Longrightarrow> fresh a"
  by (auto simp: finishPlain_def retA_def newAcquisition_def fresh_def split: sum.splits prod.splits)

lemma composeGateway_fresh: "composeGateway X req plan lease src control actual ref m s = (Inr a, s') \<Longrightarrow> fresh a"
  by (auto simp: composeGateway_def Let_def startRenewal_def newAcquisition_def fresh_def dest: recordJournal_frame
      split: prod.splits sum.splits if_splits)

lemma bindA_Inr: "bindA m k s = (Inr b, s') \<Longrightarrow> \<exists>a t. m s = (Inr a, t) \<and> k a t = (Inr b, s')"
  by (auto simp: bindA_def split: prod.splits sum.splits)

lemma mapGateway_fresh: "mapGateway X req plan lease src control bound s = (Inr a, s') \<Longrightarrow> fresh a"
  by (auto simp: mapGateway_def releasing_def split: prod.splits sum.splits dest!: bindA_Inr intro: composeGateway_fresh)

lemma AcquireForward_fresh: "AcquireForward X req s = (Inr a, s') \<Longrightarrow> fresh a"
  by (auto simp: AcquireForward_def acquireDirect_def acquireManual_def acquireGateway_def Let_def failA_def
      dest!: bindA_Inr intro: finishPlain_fresh mapGateway_fresh split: if_splits sum.splits prod.splits)


text \<open>A renewal that grants no lifetime keeps the deadline of the grant before it, and a record without a lifetime expires when it is written.\<close>

lemma unknown_lease_keeps_margin:
  assumes "renewSucceeded X f renewed a s = (a', s')" and "gmLease renewed \<le> 0"
  shows "withinExpiryMarginLocked now a' = withinExpiryMarginLocked now a"
  using assms
  by (auto simp: renewSucceeded_def Let_def recordJournal_def deliver_def withinExpiryMarginLocked_def split: prod.splits if_splits option.splits)

lemma unknown_lease_recorded_expired:
  "gmLease m = 0 \<Longrightarrow> jrLeaseExpiryUnix (journalRecordOf rid f created now st m) = jrUpdatedAtUnix (journalRecordOf rid f created now st m)"
  by (simp add: journalRecordOf_def)

section \<open>Release\<close>

lemma renewals_unmapped: "aqMapping a = None \<Longrightarrow> \<not> aqLostFired a \<Longrightarrow> renewals X lease n a s = (a, s)"
  by (induction n) (auto simp: renewals_Suc renewals_def [of _ _ 0] renewal_step_def renewOnce_def)

lemma release_unmapped:
  assumes "aqMapping a = None" and "aqJournalID a = []" and "aqJournalAttemptID a = []" and "aqReleaseFn a = Some ref"
    and "release X a s = (errs, s')"
  shows "wLog s' = wLog s @ [Released ref]"
  using assms
  by (auto simp: release_def release_mapping_def release_journal_def release_listener_def releaseC_def
      dest: extC_log split: prod.splits option.splits)

lemma release_mapped:
  assumes "aqMapping a = Some m" and "aqMapper a = Some k" and "aqReleaseFn a = Some ref" and "release X a s = (errs, s')"
  shows "\<exists>fx. wLog s' = wLog s @ fx @ [Released ref] \<and>
    (fx = [Deleted m False] \<and> errs \<noteq> [] \<or> fx = [Deleted m True] \<and> (exJournal X = None \<or> aqJournalID a = [] \<and> aqJournalAttemptID a = []) \<or>
     fx = [Deleted m True, JournalDeleted (if aqJournalID a = [] then aqJournalAttemptID a else aqJournalID a)])"
proof -
  obtain r1 s1 where r1: "deleteMappingContained X k m s = (r1, s1)" by force
  obtain r2 s2 where r2: "release_journal X (r1 = Inr ()) a s1 = (r2, s2)" by force
  obtain r3 s3 where r3: "releaseC X ref s2 = (r3, s3)" by force
  have "wLog s1 = wLog s @ [Deleted m (r1 = Inr ())]" "wLog s3 = wLog s2 @ [Released ref]"
    using r1 r3 by (simp_all add: deleteMappingContained_def releaseC_def extC_log)
  moreover have "wLog s2 = wLog s1 @ (if exJournal X \<noteq> None \<and> r1 = Inr () \<and> \<not> (aqJournalID a = [] \<and> aqJournalAttemptID a = [])
      then [JournalDeleted (if aqJournalID a = [] then aqJournalAttemptID a else aqJournalID a)] else [])"
    using r2 by (auto simp: release_journal_def Let_def dest!: extC_log split: option.splits if_splits)
  moreover have "s' = s3" "r1 = Inr () \<or> errs \<noteq> []"
    using assms r1 r2 r3 by (auto simp: release_def release_mapping_def release_listener_def errList_def split: sum.splits)
  ultimately show ?thesis by auto
qed

text \<open>
  C21: An acquired Forward, after any number of renewal turns, is released completely and its evidence survives a
  failed delete. The release closes the listener the acquisition bound, as its last effect and whatever failed
  before; a live mapping is given one delete; the journal record is removed only after a successful delete, and a
  failed delete is reported and leaves the record in place. Releasing again returns the same outcome and touches
  nothing.
\<close>

theorem release_keeps_evidence:
  assumes "AcquireForward X req s = (Inr a, t)" and "renewals X lease n a t = (b, u)" and "Acquisition_Release X b u = (errs, c, v)"
  shows "\<exists>ref fx. aqReleaseFn a = Some ref \<and> wLog v = wLog u @ fx @ [Released ref] \<and>
    (case aqMapping b of
       None \<Rightarrow> fx = []
     | Some m \<Rightarrow> fx = [Deleted m False] \<and> errs \<noteq> [] \<or>
         fx = [Deleted m True] \<and> (exJournal X = None \<or> aqJournalID b = [] \<and> aqJournalAttemptID b = []) \<or>
         fx = [Deleted m True, JournalDeleted (if aqJournalID b = [] then aqJournalAttemptID b else aqJournalID b)]) \<and>
    (\<forall>w. Acquisition_Release X c w = (errs, c, w)) \<and> \<not> aqRenewing c"
proof -
  obtain fx0 where held: "holds_exactly (arForwardID req) fx0 a"
    using AcquireForward_acquired [OF assms(1)] by (auto simp: acquired_def)
  have fresh: "fresh a" using assms(1) by (rule AcquireForward_fresh)
  then have same: "same_endpoint a b" using renewals_ladder [OF assms(2)] by (simp add: fresh_def renew_ok_def)
  obtain v' where rel: "release X (b\<lparr>aqRenewing := False\<rparr>) u = (errs, v')" and c: "c = b\<lparr>aqRenewing := False, aqReleaseErr := Some errs\<rparr>" "v = v'"
    using assms(3) same fresh by (auto simp: Acquisition_Release_def same_endpoint_def fresh_def split: prod.splits)
  obtain ref where ref: "aqReleaseFn a = Some ref" "aqReleaseFn b = Some ref" using held same by (auto simp: holds_exactly_def same_endpoint_def)
  have again: "(\<forall>w. Acquisition_Release X c w = (errs, c, w)) \<and> \<not> aqRenewing c" by (simp add: c Acquisition_Release_def)
  show ?thesis
  proof (cases "aqMapping b")
    case None
    then have "b = a" using assms(2) same fresh renewals_unmapped [of a X lease n t] by (auto simp: same_endpoint_def fresh_def)
    then show ?thesis using release_unmapped [OF _ _ _ _ rel, of ref] None fresh ref again c by (auto simp: fresh_def)
  next
    case (Some m)
    then obtain k where "aqMapper b = Some k" using held same by (auto simp: holds_exactly_def same_endpoint_def)
    then show ?thesis using release_mapped [OF _ _ _ rel, of m k ref] Some ref again c by auto
  qed
qed

section \<open>A concrete gateway\<close>

text \<open>
  A gateway that grants one mapping for ten minutes, fails the first three renewals and refuses to delete, with an
  observer that sees another port than the one mapped.
\<close>

definition demo_grant :: GatewayMapping where
  "demo_grant = \<lparr>gmMechanism = LayerPCP, gmOwnership = ''STRONG'', gmInternalIP = Addr4 192 168 1 9, gmInternalPort = 8080,
     gmExternal = (Addr4 8 8 8 8, 443), gmLease = 600000000000, gmEpoch = 1, gmIdentity = ''nonce'', gmServerRebooted = False, gmState = []\<rparr>"

definition demo_externals :: "nat externals" where
  "demo_externals =
     \<lparr>exRouteTable = \<lparr>rtDefaultRouteV4 = Some (Some (Addr4 192 168 1 1, ''eth0'')),
        rtIPv4Addresses = Some [\<lparr>iaInterface = ''eth0'', iaAddr = Addr4 192 168 1 9\<rparr>]\<rparr>,
      exMappers = [LayerPCP], exListen = (\<lambda>_ key w. (Inr (key\<lparr>tkPort := 8080\<rparr>, 7), w)), exRelease = (\<lambda>_ w. (Inr (), w)),
      exDiscover = (\<lambda>mech w. (Inr \<lparr>csMechanism = mech, csAddress = ''192.168.1.1'', csIdentity = [], csIGDv2 = False\<rparr>, w)),
      exMap = (\<lambda>_ _ w. (Inr demo_grant, w)),
      exRenew = (\<lambda>_ m _ w. (if w < 3 then Inl ''timeout'' else Inr m, Suc w)), exDelete = (\<lambda>_ _ w. (Inl ''refused'', w)),
      exObserve = Some (\<lambda>_ _ w. (Inr (Addr4 8 8 8 8, 444), w)), exMarshal = Inr, exClock = (\<lambda>w. (0, w)), exRandom = (\<lambda>w. ([CHR ''x''], w)),
      exJournal = Some \<lparr>jxPut = (\<lambda>_ w. (PutDone, w)), jxGet = (\<lambda>_ w. (Inr None, w)), jxDelete = (\<lambda>_ w. (Inr (), w))\<rparr>,
      exDefaultLease = 3600000000000\<rparr>"

definition demo_acquire :: "string \<Rightarrow> AcquireRequest" where
  "demo_acquire stun = \<lparr>arForwardID = ''f'', arOwner = ''f'', arSpec = demo_auto,
     arPlan = zero_request\<lparr>pqStrategy := ''explicit-gateway'', pqMappingLayer := LayerPCP, pqGatewayPortPolicy := PortPolicyStrict,
       pqFinalEndpointConstraint := PortPolicyStrict\<rparr>,
     arLease = 0, arRenewalInterval = 0, arRenewalJitterMax = 0, arStunServer = stun\<rparr>"

definition demo_observer :: string where
  "demo_observer = ''stun+tcp://'' @ addrport_string 1 1 1 1 3478"

definition demo_world :: "nat world" where "demo_world = \<lparr>wEnv = 0, wLog = []\<rparr>"

lemma demo_observer_server: "parseStunTCPServer demo_observer = Some (Addr4 1 1 1 1, 3478)"
  by (simp add: parseStunTCPServer_def demo_observer_def ParseAddrPort_print)

lemma demo_source:
  "\<exists>sel. DefaultRouteSource (exRouteTable demo_externals) = Inr sel \<and> slSource sel = Addr4 192 168 1 9"
  by (simp add: demo_externals_def DefaultRouteSource_def sortedIPv4Addresses_def isValidMappingSource_def)

definition demo_server :: ControlServer where
  "demo_server = \<lparr>csMechanism = LayerPCP, csAddress = ''192.168.1.1'', csIdentity = [], csIGDv2 = False\<rparr>"

lemma demo_observer_set: "demo_observer \<noteq> []" by (simp add: demo_observer_def)

lemma parseEndpoint_print: "parseEndpoint (addrport_string a b c d p) = Some (Addr4 a b c d, p)"
  by (simp add: parseEndpoint_def ParseAddrPort_print)

lemmas manager_eval = AcquireForward_def acquireGateway_def mapGateway_def releasing_def composeGateway_def observeUpstream_def
  bindA_def failA_def failWith_def extC_def listenC_def discoverC_def mapC_def releaseC_def deleteMappingContained_def clockNow_def
  PlanStrategy_def MappingLayerKind_Valid_def PortControlCapabilityFor_def zero_request_def
  EvaluateLayers_def known_kind_def last_layer_def pick_layer_def Let_def GatewayMapping_Evidence_def parseEndpoint_print
  demo_acquire_def demo_world_def demo_grant_def demo_auto_def layer_words

lemma demo_ext [simp]:
  "exMappers demo_externals = [LayerPCP]" "exListen demo_externals = (\<lambda>_ key w. (Inr (key\<lparr>tkPort := 8080\<rparr>, 7), w))"
  "exRelease demo_externals = (\<lambda>_ w. (Inr (), w))" "exMap demo_externals = (\<lambda>_ _ w. (Inr demo_grant, w))"
  "exDiscover demo_externals = (\<lambda>mech w. (Inr (demo_server\<lparr>csMechanism := mech\<rparr>), w))"
  "exRenew demo_externals = (\<lambda>_ m _ w. (if w < 3 then Inl ''timeout'' else Inr m, Suc w))"
  "exDelete demo_externals = (\<lambda>_ _ w. (Inl ''refused'', w))" "exObserve demo_externals = Some (\<lambda>_ _ w. (Inr (Addr4 8 8 8 8, 444), w))"
  "exClock demo_externals = (\<lambda>w. (0, w))" "exDefaultLease demo_externals = 3600000000000"
  by (simp_all add: demo_externals_def demo_server_def)

lemma demo_refused:
  "AcquireForward demo_externals (demo_acquire demo_observer) demo_world =
     (Inl (PipelineRefused ErrFinalPortRewritten (Some ''refused'')),
      \<lparr>wEnv = 0, wLog = [Listened 7, Mapped demo_grant, Deleted demo_grant False, Released 7]\<rparr>)"
  using demo_source demo_observer_server demo_observer_set
  by (auto simp: manager_eval)

lemma demo_journal [simp]:
  "exJournal demo_externals = Some \<lparr>jxPut = (\<lambda>_ w. (PutDone, w)), jxGet = (\<lambda>_ w. (Inr None, w)), jxDelete = (\<lambda>_ w. (Inr (), w))\<rparr>"
  "exMarshal demo_externals = Inr" "exRandom demo_externals = (\<lambda>w. ([CHR ''x''], w))"
  by (simp_all add: demo_externals_def)

lemma demo_granted:
  "\<exists>a t. AcquireForward demo_externals (demo_acquire []) demo_world = (Inr a, t) \<and> wEnv t = 0 \<and> aqMapping a = Some demo_grant \<and>
     aqMapper a = Some LayerPCP \<and> aqRenewing a \<and> aqLeaseDeadline a = Some 600000000000 \<and> aqLeaseDuration a = 600000000000 \<and> aqReleaseFn a = Some 7"
  using demo_source
  by (auto simp: manager_eval recordJournal_def journalPut_def journalIDFor_def putRecord_def newAcquisition_def startRenewal_def)

lemma demo_turns:
  assumes "fresh a" and "wEnv t = 0" and "aqMapping a = Some demo_grant" and "aqMapper a = Some LayerPCP" and "aqRenewing a"
    and "aqLeaseDeadline a = Some 600000000000" and "aqLeaseDuration a = 600000000000"
  shows "\<exists>t'. renewals demo_externals 0 3 a t = (a\<lparr>aqFailedRenew := 3, aqEvents := [EventDegraded ''timeout''], aqDegraded := True, aqDegradedFired := True\<rparr>, t')"
  using assms
  by (simp add: numeral_3_eq_3 renewals_Suc renewals_def [of _ _ 0] renewal_step_def renewOnce_def renewC_def extC_def clockNow_def renewFailed_def
      withinExpiryMarginLocked_def deliver_def fresh_def Let_def)



theorem release_keeps_evidence_witness:
  "\<exists>a t b u errs c v. AcquireForward demo_externals (demo_acquire []) demo_world = (Inr a, t) \<and> renewals demo_externals 0 3 a t = (b, u) \<and>
     Acquisition_Release demo_externals b u = (errs, c, v) \<and> wLog v = wLog u @ [Deleted demo_grant False, Released 7] \<and> errs \<noteq> []"
proof -
  obtain a t where a: "AcquireForward demo_externals (demo_acquire []) demo_world = (Inr a, t)" "wEnv t = 0" "aqMapping a = Some demo_grant"
    "aqMapper a = Some LayerPCP" "aqRenewing a" "aqLeaseDeadline a = Some 600000000000" "aqLeaseDuration a = 600000000000" "aqReleaseFn a = Some 7"
    using demo_granted by blast
  have f: "fresh a" using a(1) by (rule AcquireForward_fresh)
  obtain b u where r: "renewals demo_externals 0 3 a t = (b, u)"
    and b: "aqMapping b = Some demo_grant" "aqReleaseErr b = None" "aqMapper b = Some LayerPCP" "aqReleaseFn b = Some 7"
    using demo_turns [OF f a(2-7)] a f by (auto simp: fresh_def)
  obtain errs c v where rel: "Acquisition_Release demo_externals b u = (errs, c, v)" by (metis surj_pair)
  have "wLog v = wLog u @ [Deleted demo_grant False, Released 7]"
    using rel b by (auto simp: Acquisition_Release_def release_def release_mapping_def release_journal_def release_listener_def
        deleteMappingContained_def releaseC_def extC_def Let_def split: prod.splits)
  with release_keeps_evidence [OF a(1) r rel] show ?thesis using a(1) r rel b by auto
qed

end
