(* ===== verification/Agent_Budget.thy ===== *)
theory Agent_Budget
  imports Agent_Prelude
begin

text \<open>
  \<open>internal/forward/budget.go\<close>: the resources one Forward may hold. The counters are Go integers; the
  invariant keeps them far below their width for every limit that is set, so they are \<^typ>\<open>int\<close> here.
\<close>

definition PessimisticBufferBytesPerConnection :: int where
  "PessimisticBufferBytesPerConnection = 2 * 32 * 1024"

datatype LimitKind = LimitConnections | LimitFDs | LimitPessimisticBuffer

datatype budget_error = NegativeLimit | BudgetExceeded LimitKind int int

record Limits =
  MaxConnections :: int
  MaxFDs :: int
  MaxPessimisticBufferBytes :: int

record Budget =
  bdLimits :: Limits
  bdConnections :: int
  bdFDs :: int
  bdBufferBytes :: int

definition NewBudget :: "Limits \<Rightarrow> budget_error + Budget" where
  "NewBudget limits =
     (if MaxConnections limits < 0 \<or> MaxFDs limits < 0 \<or> MaxPessimisticBufferBytes limits < 0 then Inl NegativeLimit
      else Inr \<lparr>bdLimits = limits, bdConnections = 0, bdFDs = 0, bdBufferBytes = 0\<rparr>)"

definition Reserve :: "Budget \<Rightarrow> budget_error + Budget" where
  "Reserve b =
     (let lim = bdLimits b
      in if 0 < MaxConnections lim \<and> MaxConnections lim \<le> bdConnections b
           then Inl (BudgetExceeded LimitConnections (MaxConnections lim) (bdConnections b))
         else if 0 < MaxFDs lim \<and> MaxFDs lim \<le> bdFDs b then Inl (BudgetExceeded LimitFDs (MaxFDs lim) (bdFDs b))
         else if 0 < MaxPessimisticBufferBytes lim \<and>
             MaxPessimisticBufferBytes lim < bdBufferBytes b + PessimisticBufferBytesPerConnection
           then Inl (BudgetExceeded LimitPessimisticBuffer (MaxPessimisticBufferBytes lim) (bdBufferBytes b))
         else Inr (b\<lparr>bdConnections := bdConnections b + 1, bdFDs := bdFDs b + 1,
                     bdBufferBytes := bdBufferBytes b + PessimisticBufferBytesPerConnection\<rparr>))"

definition Release :: "Budget \<Rightarrow> Budget" where
  "Release b =
     (let b = (if 0 < bdConnections b then b\<lparr>bdConnections := bdConnections b - 1\<rparr> else b);
          b = (if 0 < bdFDs b then b\<lparr>bdFDs := bdFDs b - 1\<rparr> else b);
          n = bdBufferBytes b - PessimisticBufferBytesPerConnection
      in b\<lparr>bdBufferBytes := (if n < 0 then 0 else n)\<rparr>)"

record BudgetSnapshot =
  snConnections :: int
  snFDs :: int
  snPessimisticBufferBytes :: int

definition Budget_Snapshot :: "Budget \<Rightarrow> BudgetSnapshot" where
  "Budget_Snapshot b = \<lparr>snConnections = bdConnections b, snFDs = bdFDs b, snPessimisticBufferBytes = bdBufferBytes b\<rparr>"

section \<open>Sessions\<close>

text \<open>
  The use the package asks for: a session that was admitted releases once. A session that is refused
  holds nothing; \<open>n\<close> counts the sessions that hold their charge.
\<close>

datatype session_event = SessionStarts | SessionEnds

fun session_step :: "Budget \<times> nat \<Rightarrow> session_event \<Rightarrow> Budget \<times> nat" where
  "session_step (b, n) SessionStarts = (case Reserve b of Inl _ \<Rightarrow> (b, n) | Inr b' \<Rightarrow> (b', Suc n))"
| "session_step (b, n) SessionEnds = (if n = 0 then (b, n) else (Release b, n - 1))"

definition within :: "int \<Rightarrow> int \<Rightarrow> bool" where
  "within limit used \<longleftrightarrow> 0 \<le> used \<and> (limit = 0 \<or> used \<le> limit)"

definition budget_ok :: "Limits \<Rightarrow> Budget \<times> nat \<Rightarrow> bool" where
  "budget_ok lim s \<longleftrightarrow> (case s of (b, n) \<Rightarrow> bdLimits b = lim \<and> bdConnections b = int n \<and> bdFDs b = int n \<and>
     bdBufferBytes b = int n * PessimisticBufferBytesPerConnection \<and> within (MaxConnections lim) (bdConnections b) \<and>
     within (MaxFDs lim) (bdFDs b) \<and> within (MaxPessimisticBufferBytes lim) (bdBufferBytes b))"

lemma Reserve_Inr:
  "Reserve b = Inr b' \<longleftrightarrow>
     (MaxConnections (bdLimits b) \<le> 0 \<or> bdConnections b < MaxConnections (bdLimits b)) \<and>
     (MaxFDs (bdLimits b) \<le> 0 \<or> bdFDs b < MaxFDs (bdLimits b)) \<and>
     (MaxPessimisticBufferBytes (bdLimits b) \<le> 0 \<or>
       bdBufferBytes b + PessimisticBufferBytesPerConnection \<le> MaxPessimisticBufferBytes (bdLimits b)) \<and>
     b' = b\<lparr>bdConnections := bdConnections b + 1, bdFDs := bdFDs b + 1, bdBufferBytes := bdBufferBytes b + PessimisticBufferBytesPerConnection\<rparr>"
  by (auto simp: Reserve_def Let_def not_le not_less)

lemma Release_Reserve:
  assumes "Reserve b = Inr b'" and "0 \<le> bdConnections b" and "0 \<le> bdFDs b" and "0 \<le> bdBufferBytes b"
  shows "Release b' = b"
  using assms by (auto simp: Reserve_Inr Release_def Let_def PessimisticBufferBytesPerConnection_def)

lemma Release_holding:
  assumes "bdConnections b = int (Suc n)" and "bdFDs b = int (Suc n)" and "bdBufferBytes b = int (Suc n) * PessimisticBufferBytesPerConnection"
  shows "Release b = b\<lparr>bdConnections := int n, bdFDs := int n, bdBufferBytes := int n * PessimisticBufferBytesPerConnection\<rparr>"
  using assms by (simp add: Release_def Let_def algebra_simps PessimisticBufferBytesPerConnection_def)

lemma Reserve_ok:
  assumes "budget_ok lim (b, n)" and "Reserve b = Inr b'"
  shows "budget_ok lim (b', Suc n)"
proof -
  from assms(2) have b': "b' = b\<lparr>bdConnections := bdConnections b + 1, bdFDs := bdFDs b + 1, bdBufferBytes := bdBufferBytes b + PessimisticBufferBytesPerConnection\<rparr>"
    and fits: "MaxConnections (bdLimits b) \<le> 0 \<or> bdConnections b < MaxConnections (bdLimits b)"
    "MaxFDs (bdLimits b) \<le> 0 \<or> bdFDs b < MaxFDs (bdLimits b)"
    "MaxPessimisticBufferBytes (bdLimits b) \<le> 0 \<or> bdBufferBytes b + PessimisticBufferBytesPerConnection \<le> MaxPessimisticBufferBytes (bdLimits b)"
    by (simp_all only: Reserve_Inr)
  from assms(1) have ok: "bdLimits b = lim" "bdConnections b = int n" "bdFDs b = int n" "bdBufferBytes b = int n * PessimisticBufferBytesPerConnection"
    "within (MaxConnections lim) (int n)" "within (MaxFDs lim) (int n)" "within (MaxPessimisticBufferBytes lim) (bdBufferBytes b)"
    by (auto simp: budget_ok_def)
  show ?thesis
    unfolding budget_ok_def b' using ok fits by (auto simp: within_def PessimisticBufferBytesPerConnection_def)
qed

lemma Release_ok:
  assumes "budget_ok lim (b, Suc n)"
  shows "budget_ok lim (Release b, n)"
proof -
  have "Release b = b\<lparr>bdConnections := int n, bdFDs := int n, bdBufferBytes := int n * PessimisticBufferBytesPerConnection\<rparr>"
    by (rule Release_holding) (use assms in \<open>simp_all add: budget_ok_def\<close>)
  with assms show ?thesis by (auto simp: budget_ok_def within_def PessimisticBufferBytesPerConnection_def)
qed

definition budget_start :: "Limits \<Rightarrow> Budget \<times> nat \<Rightarrow> bool" where
  "budget_start lim s \<longleftrightarrow> (case NewBudget lim of Inl _ \<Rightarrow> False | Inr b \<Rightarrow> s = (b, 0))"

interpretation budget: inductive_invariant "budget_start lim" "\<lambda>s e t. t = session_step s e" "budget_ok lim" for lim
proof
  show "budget_ok lim s" if "budget_start lim s" for s
    using that by (auto simp: budget_start_def NewBudget_def budget_ok_def within_def split: if_splits)
  show "budget_ok lim t" if "t = session_step s e" "budget_ok lim s" for s e t
  proof -
    obtain b n where s: "s = (b, n)" by (cases s)
    show ?thesis
    proof (cases e)
      case SessionStarts
      with that s Reserve_ok show ?thesis by (cases "Reserve b") auto
    next
      case SessionEnds
      with that s Release_ok show ?thesis by (cases n) auto
    qed
  qed
qed

text \<open>
  C31: the budget of a Forward is never exceeded and never leaks. After any sequence of session starts and ends, the three
  counters are exactly the charges of the sessions that hold one, within every limit that is set; a start
  is refused exactly when one more charge would exceed a limit, and then nothing is charged.
\<close>
theorem budget_bounded:
  assumes "NewBudget lim = Inr b0" and "run_step session_step (b0, 0) events = (b, n)"
  shows "bdConnections b = int n \<and> bdFDs b = int n \<and> bdBufferBytes b = int n * PessimisticBufferBytesPerConnection \<and>
    within (MaxConnections lim) (bdConnections b) \<and> within (MaxFDs lim) (bdFDs b) \<and> within (MaxPessimisticBufferBytes lim) (bdBufferBytes b) \<and>
    ((\<exists>b'. Reserve b = Inr b') \<longleftrightarrow> within (MaxConnections lim) (int (Suc n)) \<and> within (MaxFDs lim) (int (Suc n)) \<and>
       within (MaxPessimisticBufferBytes lim) (int (Suc n) * PessimisticBufferBytesPerConnection))"
proof -
  have "reach (budget_start lim) (\<lambda>s e t. t = session_step s e) (b0, 0)"
    using assms(1) by (intro reach_start) (simp add: budget_start_def)
  from budget.inv_reach [OF reach_run [OF this]] assms(2) have ok: "budget_ok lim (b, n)" by metis
  from assms(1) have pos: "0 \<le> MaxConnections lim" "0 \<le> MaxFDs lim" "0 \<le> MaxPessimisticBufferBytes lim"
    by (auto simp: NewBudget_def split: if_splits)
  from ok have lim: "bdLimits b = lim" and used: "bdConnections b = int n" "bdFDs b = int n" "bdBufferBytes b = int n * PessimisticBufferBytesPerConnection"
    by (simp_all add: budget_ok_def)
  have "(\<exists>b'. Reserve b = Inr b') \<longleftrightarrow> within (MaxConnections lim) (int (Suc n)) \<and> within (MaxFDs lim) (int (Suc n)) \<and>
       within (MaxPessimisticBufferBytes lim) (int (Suc n) * PessimisticBufferBytesPerConnection)"
    unfolding Reserve_Inr lim used within_def using pos by (auto simp: PessimisticBufferBytesPerConnection_def)
  with ok show ?thesis unfolding budget_ok_def prod.case by blast
qed

definition demo_limits :: Limits where
  "demo_limits = \<lparr>MaxConnections = 2, MaxFDs = 0, MaxPessimisticBufferBytes = 100000\<rparr>"

definition demo_budget :: Budget where
  "demo_budget = \<lparr>bdLimits = demo_limits, bdConnections = 0, bdFDs = 0, bdBufferBytes = 0\<rparr>"

text \<open>The second session is refused: two buffers do not fit.\<close>

theorem budget_bounded_witness:
  "bdBufferBytes (fst (run_step session_step (demo_budget, 0) [SessionStarts, SessionStarts])) = 65536"
proof -
  have new: "NewBudget demo_limits = Inr demo_budget" by (simp add: NewBudget_def demo_limits_def demo_budget_def)
  have "snd (run_step session_step (demo_budget, 0) [SessionStarts, SessionStarts]) = 1" by code_simp
  then obtain b where r: "run_step session_step (demo_budget, 0) [SessionStarts, SessionStarts] = (b, 1)" by (metis prod.collapse)
  from budget_bounded [OF new r] have "bdBufferBytes b = int 1 * PessimisticBufferBytesPerConnection" by blast
  with r show ?thesis by (simp only: fst_conv) (simp add: PessimisticBufferBytesPerConnection_def)
qed

end
