(* ===== verification/Spec2Isabelle.thy ===== *)
theory Spec2Isabelle
  imports Agent_Envelope Agent_Lifecycle Agent_Activation Agent_Enrollment Agent_Probe_Agent
    Agent_Journal_Props Agent_Applied_Props Agent_Probe_Store_Props Agent_Rotation Agent_Mapping_Journal
    Agent_Control_Sessions Agent_Commands_Props Agent_Evacuation Agent_STUN_Props Agent_Gateway_Props
    Agent_Manager_Props Agent_Budget
begin

text \<open>
  \<^bold>\<open>The AntiNAT Agent.\<close> The agent runs on a node behind a NAT, keeps an authenticated control session to
  its Controller, receives desired snapshots of Forwards, applies them, proves reachability with
  probes, and reports results. Its core is a set of durable state machines over one embedded
  key-value store, fed by signed frames. This library models that core and proves what it promises.

  \<^bold>\<open>Parts and theories.\<close>
  \<^item> \<open>Agent_Prelude\<close>: Go results as sums (\<open>andThen\<close>, \<open>foldE\<close>), big-endian integers, length-prefixed
    fields, the shared simplification collections.
  \<^item> \<open>Agent_Crypto\<close> (\<open>internal/security/framecrypto\<close>): size-checked Ed25519; SHA-256 and Ed25519 are a
    record of functions with the contract \<open>go_crypto\<close>.
  \<^item> \<open>Agent_Envelope\<close> (\<open>internal/protocol/envelope.go\<close>), \<open>Agent_Enrollment\<close> (\<open>enrollment.go\<close>),
    \<open>Agent_Probe_Frames\<close> (\<open>probe.go\<close>, \<open>probe_adapter.go\<close>): the wire codecs. The lemmas show that what a
    parser accepts is exactly an encoding, that encodings parse back, and that signed byte strings
    determine their message.
  \<^item> \<open>Agent_Endpoint\<close> (\<open>endpoint.go\<close>) and \<open>Agent_Domain\<close> (\<open>domain.go\<close>): address policy, Forward
    specifications, activation axes and their truth relations, the frozen control machines.
  \<^item> \<open>Agent_Probe_Agent\<close> (\<open>probe.go\<close>): the in-memory armed probe operations, their replay window, the join
    of the four probe messages.
  \<^item> \<open>Agent_Activation\<close> (\<open>internal/agent/reconcile/activation.go\<close>, \<open>state_machine.go\<close>): the activation of
    one Forward, generation by generation.
  \<^item> \<open>Agent_Bolt\<close>: the store. The database is a record of operations with the contract \<open>bolt_db\<close>,
    \<open>mem_bolt\<close> is an executable instance.
  \<^item> \<open>Agent_Forward_Delete\<close> (\<open>localstate/forward_delete.go\<close>, \<open>tombstone.go\<close>): deletion fences.
  \<^item> \<open>Agent_Journal\<close> (\<open>localstate/journal.go\<close>, \<open>outbox.go\<close>): command inbox, operation journal, outbox and
    sessions; \<open>Agent_Journal_Spec\<close> states the frozen machines they implement as step relations and the
    simulation, \<open>Agent_Journal_Props\<close> what follows over runs.
  \<^item> \<open>Agent_Applied\<close> (\<open>localstate/applied.go\<close>, \<open>journal_evacuation.go\<close>): received and applied state;
    \<open>Agent_Merge_Spec\<close> is the per-Forward decision the merge implements, \<open>Agent_Applied_Props\<close> the
    properties of saving and committing.
  \<^item> \<open>Agent_Lifecycle\<close> (\<open>localstate/latch.go\<close>, \<open>marker.go\<close>, \<open>recovery.go\<close>, \<open>reconcile/recovery.go\<close>): the
    terminal latch, the terminal marker and the recovery quarantine.
  \<^item> \<open>Agent_Probe_Store\<close>, \<open>Agent_Probe_Store_Props\<close> (\<open>localstate/activation.go\<close>, \<open>probe.go\<close>): activation
    mirrors and durable probe operations.
  \<^item> \<open>Agent_Rotation\<close> (\<open>security/rotation.go\<close>, \<open>localstate/pins.go\<close>, \<open>reconcile/rotation.go\<close>): the Controller
    key rotation.
  \<^item> \<open>Agent_Mapping_Journal\<close> (\<open>traversal/mapping_journal.go\<close>, \<open>localstate/mapping_journal.go\<close>): the
    \<open>JournalStore\<close> interface as a locale with its two implementations.
  \<^item> \<open>Agent_Decommission\<close> (\<open>localstate/decommission.go\<close>, \<open>uninstall.go\<close>, \<open>reconcile/decommission.go\<close>,
    \<open>uninstall.go\<close>, \<open>operation.go\<close>): the terminal lifecycle as actions over store, marker and latch;
    \<open>Agent_Commands\<close> (\<open>internal/agent/app.go\<close>): the command dispatcher and the lifecycle handlers;
    \<open>Agent_Commands_Props\<close>: the terminal state, its order and its boundary.
  \<^item> \<open>Agent_Session\<close> (\<open>security/challenge.go\<close>): the enrollment challenge manager and the codec of the session
    handshake, which shares the locale \<open>field_codec\<close> with the enrollment transcript.
  \<^item> \<open>Agent_Control\<close> (\<open>agent/control/session.go\<close>, \<open>security/nodekey.go\<close>): the control session over the journal;
    \<open>Agent_Control_Props\<close>: over runs with redelivery, reconnection, restarts and failing commits a command is
    applied at most once; \<open>Agent_Control_Sessions\<close>: handshake, sequence gates and the outbox pump. The page
    loop of the pump carries a bound of one page more than the outbox has keys, which is never reached.
  \<^item> \<open>Agent_Reconcile\<close> (\<open>reconcile/desired.go\<close>, \<open>reconciler.go\<close>, \<open>delete.go\<close>, \<open>operation.go\<close>): the reconcile pass
    with its data plane hooks, compensation and deletion results; \<open>Agent_Reconcile_Props\<close>: when a hook may be
    called; \<open>Agent_Evacuation\<close>: which mapping records restart may release.
  \<^item> \<open>Agent_STUN\<close>, \<open>Agent_STUN_Props\<close> (\<open>traversal/stun/message.go\<close>): the STUN codec with MESSAGE-INTEGRITY and
    FINGERPRINT; slices are checked, so that running out of range is a value.
  \<^item> \<open>Agent_Gateway\<close>, \<open>Agent_Gateway_Props\<close> (\<open>traversal/natpmp\<close>, \<open>traversal/pcp\<close>): codecs and clients over a trace of
    network events; what the two clients share is the locale \<open>gateway_exchange\<close>.
  \<^item> \<open>Agent_Port_Registry\<close> (\<open>traversal/portregistry.go\<close>): socket ownership under interleaved releases.
  \<^item> \<open>Agent_Netip\<close>: what the code uses of \<open>net/netip\<close>; \<open>Agent_Traversal\<close> (\<open>traversal/strategy.go\<close>, \<open>network.go\<close>,
    \<open>fingerprint.go\<close>, \<open>profile.go\<close>, \<open>agent/strategy.go\<close>): layers, verdicts, plans, source selection and the route of a
    Forward; \<open>Agent_Traversal_Props\<close>: only a global address is offered for probing, the fingerprint identifies the
    routes, a resolved route is acquirable.
  \<^item> \<open>Agent_Manager\<close>, \<open>Agent_Manager_Props\<close> (\<open>traversal/manager.go\<close>): acquisition, renewal and release over an
    arbitrary environment. The log of effects gives all-or-nothing acquisition and complete release; the inductive
    relation \<open>ladder\<close> is the abstract keepalive machine the renewal refines.
  \<^item> \<open>Agent_Budget\<close> (\<open>forward/budget.go\<close>): the per-Forward resource budget.

  \<^bold>\<open>How the code is represented.\<close> A Go struct is a record, a function that returns an error is a function
  into a sum, \<open>db.Update\<close> is a function from the database state to an error or the new state (an error
  rolls back), a method under a mutex is one step. JSON rows are typed values; reading a row of another
  type is a decoding error. Unsigned integers are words of their width, \<open>int64\<close> times are integers.
  The clock, randomness, JSON codecs of messages, Ed25519, SHA-256 and bbolt are parameters. Loops over
  a bucket run over the keys the bucket had at the start of the loop. All functions are total: loops
  are recursions over the finite list they range over; where a loop has a bound instead, a theorem shows
  that the bound is not reached.

  \<^bold>\<open>Not modelled.\<close> The transport (WebSocket, dialing, sockets, goroutines, timers), the forwarding data
  plane (its rate limiter computes in floating point), UPnP and the detector, key files, schema migration of the store and the process entry point:
  concurrency and input/output around the modelled state. The handlers of \<open>app.go\<close> that drive the data
  plane and the probes are arguments of the dispatcher.
\<close>

end
